(* ===== verification/Prelude.thy ===== *)
theory Prelude imports Main "HOL-Library.Word" begin

text \<open>
  The shared base of the development: type synonyms for Go's integers, the result type of a
  fallible operation, the lemma collections and the generic facts on lists, maps and words that
  several components use. Nothing here models code of the repository.

  \<^item> A Go function with results \<open>(T, error)\<close> is a function into \<open>'e + 'a\<close>: \<open>Inl e\<close> for
    a non-nil error, \<open>Inr v\<close> for the value with a nil error. Functions whose value matters
    also when the error is set (package \<open>strconv\<close>) return the pair instead.
  \<^item> A Go string is a string of bytes, a \<open>char list\<close>.
\<close>

type_synonym u8 = "8 word"
type_synonym u16 = "16 word"
type_synonym u32 = "32 word"
type_synonym u64 = "64 word"
type_synonym i64 = "64 word"

text \<open>Facts of the Go standard library model, and the bundles of the components.\<close>

named_theorems go_simps "facts about the Go library functions"
named_theorems perm_simps "facts about device permission strings"
named_theorems emu_simps "facts about the device rule emulator"

subsection \<open>Fallible steps\<close>

text \<open>Sequencing of fallible steps: the first error is returned.\<close>

fun andThen :: "'e + 'a \<Rightarrow> ('a \<Rightarrow> 'e + 'b) \<Rightarrow> 'e + 'b" where
  "andThen (Inl e) f = Inl e"
| "andThen (Inr x) f = f x"

lemma andThen_Inr_iff: "andThen r f = Inr y \<longleftrightarrow> (\<exists>x. r = Inr x \<and> f x = Inr y)"
  by (cases r) auto

lemma andThen_Inl_iff:
  "andThen r f = Inl e \<longleftrightarrow> r = Inl e \<or> (\<exists>x. r = Inr x \<and> f x = Inl e)"
  by (cases r) auto

lemma andThen_cong [fundef_cong]:
  "r = r' \<Longrightarrow> (\<And>x. r' = Inr x \<Longrightarrow> f x = g x) \<Longrightarrow> andThen r f = andThen r' g"
  by (cases r') auto

text \<open>A loop over a list that returns at the first error.\<close>

fun foldRes :: "('a \<Rightarrow> 's \<Rightarrow> 'e + 's) \<Rightarrow> 'a list \<Rightarrow> 's \<Rightarrow> 'e + 's" where
  "foldRes f [] s = Inr s"
| "foldRes f (x # xs) s = andThen (f x s) (foldRes f xs)"

lemma foldRes_append: "foldRes f (xs @ ys) s = andThen (foldRes f xs s) (foldRes f ys)"
  by (induction xs arbitrary: s) (auto split: sum.splits, metis andThen.simps sum.exhaust)

lemma foldRes_invariant:
  assumes "foldRes f xs s = Inr t" and "P s"
    and "\<And>x s t. x \<in> set xs \<Longrightarrow> P s \<Longrightarrow> f x s = Inr t \<Longrightarrow> P t"
  shows "P t"
  using assms
proof (induction xs arbitrary: s)
  case Nil
  then show ?case by simp
next
  case (Cons x xs)
  then obtain u where u: "f x s = Inr u" "foldRes f xs u = Inr t"
    by (auto simp: andThen_Inr_iff)
  have "P u" using Cons.prems u by auto
  then show ?case using Cons.IH [OF u(2)] Cons.prems(3) by auto
qed

text \<open>A loop that converts every element and returns at the first error.\<close>

fun mapRes :: "('a \<Rightarrow> 'e + 'b) \<Rightarrow> 'a list \<Rightarrow> 'e + 'b list" where
  "mapRes f [] = Inr []"
| "mapRes f (x # xs) = andThen (f x) (\<lambda>y. andThen (mapRes f xs) (\<lambda>ys. Inr (y # ys)))"

lemma mapRes_Inr_iff: "mapRes f xs = Inr ys \<longleftrightarrow> list_all2 (\<lambda>x y. f x = Inr y) xs ys"
  by (induction xs arbitrary: ys) (auto simp: andThen_Inr_iff list_all2_Cons1)

lemma mapRes_total: "(\<exists>ys. mapRes f xs = Inr ys) \<longleftrightarrow> (\<forall>x \<in> set xs. \<exists>y. f x = Inr y)"
  by (induction xs) (auto simp: andThen_Inr_iff)

text \<open>The first error of a list of checks, as a loop \<open>if err := c(x); err != nil { return err }\<close>.\<close>

fun firstErr :: "'e option list \<Rightarrow> 'e option" where
  "firstErr [] = None"
| "firstErr (None # cs) = firstErr cs"
| "firstErr (Some e # cs) = Some e"

lemma firstErr_None_iff: "firstErr cs = None \<longleftrightarrow> (\<forall>c \<in> set cs. c = None)"
  by (induction cs rule: firstErr.induct) auto

lemma firstErr_Some_mem: "firstErr cs = Some e \<Longrightarrow> Some e \<in> set cs"
  by (induction cs rule: firstErr.induct) auto

subsection \<open>Lists\<close>

lemma find_Some_mem: "find P xs = Some x \<Longrightarrow> x \<in> set xs \<and> P x"
  by (induction xs) (auto split: if_splits)

lemma find_None_all: "find P xs = None \<longleftrightarrow> (\<forall>x \<in> set xs. \<not> P x)"
  by (induction xs) auto

lemma takeWhile_eq_self: "(\<And>x. x \<in> set xs \<Longrightarrow> P x) \<Longrightarrow> takeWhile P xs = xs"
  by (induction xs) auto

lemma dropWhile_eq_Nil: "(\<And>x. x \<in> set xs \<Longrightarrow> P x) \<Longrightarrow> dropWhile P xs = []"
  by (induction xs) auto

end
