(* ===== verification/Gostring.thy ===== *)
theory Gostring imports Prelude begin

text \<open>
  The part of the Go standard library the program uses on strings: package \<open>strconv\<close>
  (ParseUint, ParseInt, Atoi, Itoa in base 10), \<open>strings\<close>/\<open>bytes\<close> (Split, SplitN,
  Fields, FieldsFunc, TrimSpace, HasPrefix, TrimPrefix, Index) and \<open>bufio\<close> (the line scanner
  and the buffered reader). Strings are byte strings; \<open>TrimSpace\<close> and \<open>Fields\<close> are
  modelled on ASCII white space (the Unicode spaces beyond ASCII are ordinary bytes here).
\<close>

subsection \<open>strconv\<close>

datatype num_error = ErrSyntax | ErrRange

definition digit_char :: "nat \<Rightarrow> char" where
  "digit_char d = ''0123456789'' ! d"

definition digit_val :: "char \<Rightarrow> nat option" where
  "digit_val c = (let n = of_char c :: nat in if 48 \<le> n \<and> n \<le> 57 then Some (n - 48) else None)"

fun utoa :: "nat \<Rightarrow> string" where
  "utoa n = (if n < 10 then [digit_char n] else utoa (n div 10) @ [digit_char (n mod 10)])"

declare utoa.simps [simp del]

definition Itoa :: "int \<Rightarrow> string" where
  "Itoa i = (if i < 0 then CHR ''-'' # utoa (nat (- i)) else utoa (nat i))"

text \<open>
  The digit loop of \<open>strconv.ParseUint\<close>: a bad character is a syntax error with value 0, and
  overflow of the bit size is reported at once, before later characters are looked at, with the
  largest value as the result.
\<close>

fun parseDigits :: "nat \<Rightarrow> nat \<Rightarrow> string \<Rightarrow> nat \<times> num_error option" where
  "parseDigits mx n [] = (n, None)"
| "parseDigits mx n (c # cs) =
     (case digit_val c of
        None \<Rightarrow> (0, Some ErrSyntax)
      | Some d \<Rightarrow> if mx < 10 * n + d then (mx, Some ErrRange)
                  else parseDigits mx (10 * n + d) cs)"

definition ParseUint10 :: "nat \<Rightarrow> string \<Rightarrow> nat \<times> num_error option" where
  "ParseUint10 bits s = (if s = [] then (0, Some ErrSyntax) else parseDigits (2 ^ bits - 1) 0 s)"

text \<open>A leading sign, as \<open>strconv.ParseInt\<close> reads it: whether it was a minus, and the rest.\<close>

fun splitSign :: "string \<Rightarrow> bool \<times> string" where
  "splitSign [] = (False, [])"
| "splitSign (c # cs) =
     (if c = CHR ''+'' then (False, cs) else if c = CHR ''-'' then (True, cs) else (False, c # cs))"

definition ParseInt10 :: "nat \<Rightarrow> string \<Rightarrow> int \<times> num_error option" where
  "ParseInt10 bits s =
     (if s = [] then (0, Some ErrSyntax)
      else case splitSign s of (neg, ds) \<Rightarrow>
        (case ParseUint10 bits ds of (un, err) \<Rightarrow>
          if err = Some ErrSyntax then (0, Some ErrSyntax)
          else if \<not> neg \<and> 2 ^ (bits - 1) \<le> un then (2 ^ (bits - 1) - 1, Some ErrRange)
          else if neg \<and> 2 ^ (bits - 1) < un then (- (2 ^ (bits - 1)), Some ErrRange)
          else (if neg then - int un else int un, None)))"

definition Atoi :: "string \<Rightarrow> int \<times> num_error option" where
  "Atoi s = ParseInt10 64 s"

lemma digit_val_digit_char [go_simps]: "d < 10 \<Longrightarrow> digit_val (digit_char d) = Some d"
proof -
  assume "d < 10"
  then have "d \<in> {0,1,2,3,4,5,6,7,8,9}" by auto
  then show ?thesis by (auto simp: digit_char_def digit_val_def)
qed

lemma digit_val_less: "digit_val c = Some d \<Longrightarrow> d < 10"
  by (auto simp: digit_val_def Let_def split: if_splits)

lemma parseDigits_snoc:
  assumes "parseDigits mx n ds = (m, None)" and "d < 10" and "10 * m + d \<le> mx"
  shows "parseDigits mx n (ds @ [digit_char d]) = (10 * m + d, None)"
  using assms
proof (induction ds arbitrary: n)
  case Nil
  then show ?case by (simp add: digit_val_digit_char)
next
  case (Cons c cs)
  then show ?case by (auto split: option.splits if_splits)
qed

text \<open>Printing and reading back a number that fits is the identity.\<close>

lemma parseDigits_utoa: "n \<le> mx \<Longrightarrow> parseDigits mx 0 (utoa n) = (n, None)"
proof (induction n rule: utoa.induct)
  case (1 n)
  show ?case
  proof (cases "n < 10")
    case True
    with "1.prems" show ?thesis by (subst utoa.simps) (simp add: digit_val_digit_char)
  next
    case False
    with "1.prems" have "n div 10 \<le> mx" by linarith
    with "1.IH" [OF False] have ih: "parseDigits mx 0 (utoa (n div 10)) = (n div 10, None)" .
    have "10 * (n div 10) + n mod 10 \<le> mx" using "1.prems" by simp
    from parseDigits_snoc [OF ih _ this] show ?thesis
      using False by (subst utoa.simps) simp
  qed
qed

lemma utoa_Nil [simp]: "utoa n \<noteq> []"
  by (subst utoa.simps) simp

lemma ParseUint10_utoa [go_simps]: "n < 2 ^ bits \<Longrightarrow> ParseUint10 bits (utoa n) = (n, None)"
  by (simp add: ParseUint10_def parseDigits_utoa)

lemma parseDigits_value: "parseDigits mx n ds = (m, None) \<Longrightarrow> n \<le> mx \<Longrightarrow> m \<le> mx"
  by (induction ds arbitrary: n) (auto split: option.splits if_splits)

lemma parseDigits_bound: "n \<le> mx \<Longrightarrow> fst (parseDigits mx n ds) \<le> mx"
  by (induction ds arbitrary: n) (auto split: option.splits)

lemma parseDigits_digits: "parseDigits mx n ds = (m, None) \<Longrightarrow> \<forall>c \<in> set ds. digit_val c \<noteq> None"
  by (induction ds arbitrary: n) (auto split: option.splits if_splits)

lemma ParseUint10_bound [go_simps]: "fst (ParseUint10 bits s) < 2 ^ bits"
proof -
  have "fst (parseDigits (2 ^ bits - 1) 0 s) \<le> 2 ^ bits - 1"
    by (rule parseDigits_bound) simp
  also have "(2::nat) ^ bits - 1 < 2 ^ bits" by simp
  finally have "s \<noteq> [] \<Longrightarrow> fst (ParseUint10 bits s) < 2 ^ bits"
    unfolding ParseUint10_def by auto
  then show ?thesis by (cases "s = []") (simp_all add: ParseUint10_def)
qed

lemma digit_char_not_sign:
  "d < 10 \<Longrightarrow> digit_char d \<noteq> CHR ''+'' \<and> digit_char d \<noteq> CHR ''-''"
proof -
  assume "d < 10"
  then have "d \<in> {0,1,2,3,4,5,6,7,8,9}" by auto
  then show ?thesis by (auto simp: digit_char_def)
qed

lemma utoa_digits: "\<forall>c \<in> set (utoa n). \<exists>d < 10. c = digit_char d"
proof (induction n rule: utoa.induct)
  case (1 n)
  have "n mod 10 < 10" by simp
  show ?case
  proof
    fix c assume "c \<in> set (utoa n)"
    then have "c \<in> set (if n < 10 then [digit_char n] else utoa (n div 10) @ [digit_char (n mod 10)])"
      by (subst (asm) utoa.simps)
    then consider (small) "n < 10" "c = digit_char n"
      | (rest) "\<not> n < 10" "c \<in> set (utoa (n div 10))"
      | (last) "c = digit_char (n mod 10)"
      by (auto split: if_splits)
    then show "\<exists>d < 10. c = digit_char d"
    proof cases
      case small
      then show ?thesis by blast
    next
      case rest
      with "1.IH" show ?thesis by blast
    next
      case last
      with \<open>n mod 10 < 10\<close> show ?thesis by blast
    qed
  qed
qed

lemma splitSign_utoa: "splitSign (utoa n) = (False, utoa n)"
proof (cases "utoa n")
  case Nil
  then show ?thesis by simp
next
  case (Cons c cs)
  then obtain d where "d < 10" "c = digit_char d" using utoa_digits [of n] by auto
  then show ?thesis using Cons digit_char_not_sign by simp
qed

lemma Atoi_Itoa [go_simps]:
  assumes "- (2 ^ 63) \<le> i" and "i < 2 ^ 63"
  shows "Atoi (Itoa i) = (i, None)"
proof (cases "i < 0")
  case True
  then have "nat (- i) \<le> 2 ^ 63" using assms by simp
  then have "ParseUint10 64 (utoa (nat (- i))) = (nat (- i), None)"
    by (intro ParseUint10_utoa) simp
  then show ?thesis
    using True assms by (simp add: Atoi_def ParseInt10_def Itoa_def)
next
  case False
  then have "ParseUint10 64 (utoa (nat i)) = (nat i, None)"
    using assms by (intro ParseUint10_utoa) simp
  then show ?thesis
    using False assms by (simp add: Atoi_def ParseInt10_def Itoa_def splitSign_utoa)
qed

lemma Atoi_range: "- (2 ^ 63) \<le> fst (Atoi s) \<and> fst (Atoi s) < 2 ^ 63"
  by (auto simp: Atoi_def ParseInt10_def split: prod.splits)

lemma Itoa_Nil [simp]: "Itoa i \<noteq> []"
  by (simp add: Itoa_def)

lemma digit_char_printable: "d < 10 \<Longrightarrow> digit_char d \<in> set ''0123456789''"
  unfolding digit_char_def by (rule nth_mem) simp

lemma Itoa_chars: "set (Itoa i) \<subseteq> set ''-0123456789''"
proof -
  have "set (utoa n) \<subseteq> set ''-0123456789''" for n
    using utoa_digits [of n] digit_char_printable by fastforce
  then show ?thesis unfolding Itoa_def by (simp split: if_split)
qed

lemma Itoa_inject: 
  assumes "- (2 ^ 63) \<le> i" "i < 2 ^ 63" "- (2 ^ 63) \<le> j" "j < 2 ^ 63" "Itoa i = Itoa j"
  shows "i = j"
proof -
  have "(i, None) = (j, None :: num_error option)"
    unfolding Atoi_Itoa [OF assms(1,2), symmetric] Atoi_Itoa [OF assms(3,4), symmetric] assms(5) ..
  then show ?thesis by simp
qed

lemma utoa_inject: "utoa m = utoa n \<Longrightarrow> m = n"
proof -
  assume eq: "utoa m = utoa n"
  have "parseDigits (max m n) 0 (utoa m) = (m, None)" by (rule parseDigits_utoa) simp
  moreover have "parseDigits (max m n) 0 (utoa n) = (n, None)" by (rule parseDigits_utoa) simp
  ultimately have "(m, None) = (n, None :: num_error option)" unfolding eq by (rule trans [OF sym])
  then show ?thesis by simp
qed

subsection \<open>strings and bytes\<close>

text \<open>\<open>strings.Split(s, c)\<close> for a one-byte separator: never empty.\<close>

fun Split :: "char \<Rightarrow> string \<Rightarrow> string list" where
  "Split c [] = [[]]"
| "Split c (x # xs) =
     (if x = c then [] # Split c xs
      else (case Split c xs of [] \<Rightarrow> [[x]] | w # ws \<Rightarrow> (x # w) # ws))"

text \<open>\<open>strings.SplitN(s, c, n)\<close> for \<open>n > 0\<close>: at most \<open>n\<close> parts, the last unsplit.\<close>

fun SplitN :: "char \<Rightarrow> nat \<Rightarrow> string \<Rightarrow> string list" where
  "SplitN c n [] = [[]]"
| "SplitN c n (x # xs) =
     (if n \<le> 1 then [x # xs]
      else if x = c then [] # SplitN c (n - 1) xs
      else (case SplitN c n xs of [] \<Rightarrow> [[x]] | w # ws \<Rightarrow> (x # w) # ws))"

definition isSpace :: "char \<Rightarrow> bool" where
  "isSpace c \<longleftrightarrow> c = CHR '' '' \<or> c = CHR 0x09 \<or> c = CHR 0x0A \<or> c = CHR 0x0B \<or> c = CHR 0x0C \<or> c = CHR 0x0D"

definition TrimLeft :: "string \<Rightarrow> string" where
  "TrimLeft s = dropWhile isSpace s"

definition TrimSpace :: "string \<Rightarrow> string" where
  "TrimSpace s = rev (dropWhile isSpace (rev (dropWhile isSpace s)))"

text \<open>\<open>strings.FieldsFunc\<close>: the maximal runs of bytes that are not separators.\<close>

function FieldsFunc :: "(char \<Rightarrow> bool) \<Rightarrow> string \<Rightarrow> string list" where
  "FieldsFunc f s =
     (let t = dropWhile f s in
      if t = [] then []
      else takeWhile (\<lambda>c. \<not> f c) t # FieldsFunc f (dropWhile (\<lambda>c. \<not> f c) t))"
  by pat_completeness auto
termination
proof (relation "measure (length \<circ> snd)", simp)
  fix f :: "char \<Rightarrow> bool" and s t
  assume t: "t = dropWhile f s" and ne: "t \<noteq> []"
  then obtain x xs where xs: "t = x # xs" by (meson neq_Nil_conv)
  then have "\<not> f x" using t by (metis dropWhile_eq_Cons_conv)
  then have "length (dropWhile (\<lambda>c. \<not> f c) t) \<le> length xs"
    using xs by (simp add: length_dropWhile_le)
  moreover have "length t \<le> length s" unfolding t by (rule length_dropWhile_le)
  ultimately show "((f, dropWhile (\<lambda>c. \<not> f c) t), (f, s)) \<in> measure (length \<circ> snd)"
    using xs by simp
qed

declare FieldsFunc.simps [simp del]

definition Fields :: "string \<Rightarrow> string list" where
  "Fields s = FieldsFunc isSpace s"

fun HasPrefix :: "string \<Rightarrow> string \<Rightarrow> bool" where
  "HasPrefix s [] = True"
| "HasPrefix [] (p # ps) = False"
| "HasPrefix (x # xs) (p # ps) = (x = p \<and> HasPrefix xs ps)"

definition TrimPrefix :: "string \<Rightarrow> string \<Rightarrow> string" where
  "TrimPrefix s p = (if HasPrefix s p then drop (length p) s else s)"

definition HasSuffix :: "string \<Rightarrow> string \<Rightarrow> bool" where
  "HasSuffix s p = HasPrefix (rev s) (rev p)"

definition TrimSuffix :: "string \<Rightarrow> string \<Rightarrow> string" where
  "TrimSuffix s p = (if HasSuffix s p then take (length s - length p) s else s)"

text \<open>\<open>strings.IndexByte\<close>, with None for -1.\<close>

fun IndexByte :: "string \<Rightarrow> char \<Rightarrow> nat option" where
  "IndexByte [] c = None"
| "IndexByte (x # xs) c = (if x = c then Some 0 else map_option Suc (IndexByte xs c))"

fun LastIndexByte :: "string \<Rightarrow> char \<Rightarrow> nat option" where
  "LastIndexByte [] c = None"
| "LastIndexByte (x # xs) c =
     (case LastIndexByte xs c of
        Some i \<Rightarrow> Some (Suc i)
      | None \<Rightarrow> if x = c then Some 0 else None)"

fun Join :: "string \<Rightarrow> string list \<Rightarrow> string" where
  "Join sep [] = []"
| "Join sep [w] = w"
| "Join sep (w # v # ws) = w @ sep @ Join sep (v # ws)"

lemma Split_Nil [simp]: "Split c s \<noteq> []"
  by (cases s) (auto split: list.splits)

lemma SplitN_Nil [simp]: "SplitN c n s \<noteq> []"
  by (cases s) (auto split: list.splits)

lemma Split_no_sep: "c \<notin> set s \<Longrightarrow> Split c s = [s]"
  by (induction s) auto

lemma Split_append_sep: "c \<notin> set s \<Longrightarrow> Split c (s @ c # t) = s # Split c t"
  by (induction s) auto

lemma SplitN_no_sep: "c \<notin> set s \<Longrightarrow> SplitN c n s = [s]"
  by (induction s) auto

lemma SplitN_one [simp]: "SplitN c (Suc 0) s = [s]"
  by (cases s) auto

lemma SplitN_append_sep:
  "c \<notin> set s \<Longrightarrow> 1 < n \<Longrightarrow> SplitN c n (s @ c # t) = s # SplitN c (n - 1) t"
  by (induction s) auto

lemma SplitN_length: "0 < n \<Longrightarrow> length (SplitN c n s) \<le> n"
proof (induction c n s rule: SplitN.induct)
  case (1 c n)
  then show ?case by simp
next
  case (2 c n x xs)
  then show ?case by (auto split: list.splits)
qed

lemma Split_parts_no_sep: "w \<in> set (Split c s) \<Longrightarrow> c \<notin> set w"
  by (induction s arbitrary: w) (auto split: list.splits if_splits)

text \<open>Joining with a separator that occurs in no part, and splitting again, is the identity.\<close>

lemma Split_Join [go_simps]:
  "ws \<noteq> [] \<Longrightarrow> (\<And>w. w \<in> set ws \<Longrightarrow> c \<notin> set w) \<Longrightarrow> Split c (Join [c] ws) = ws"
proof (induction "[c]" ws rule: Join.induct)
  case 1
  then show ?case by simp
next
  case (2 w)
  then show ?case by (simp add: Split_no_sep)
next
  case (3 w v ws)
  then show ?case by (simp add: Split_append_sep)
qed

lemma Join_Split: "Join [c] (Split c s) = s"
proof (induction s)
  case Nil
  then show ?case by simp
next
  case (Cons x xs)
  obtain w ws where w: "Split c xs = w # ws" by (cases "Split c xs") auto
  show ?case using Cons w by (cases ws) auto
qed

lemma TrimSpace_idem_no_space: "(\<And>c. c \<in> set s \<Longrightarrow> \<not> isSpace c) \<Longrightarrow> TrimSpace s = s"
proof -
  assume ns: "\<And>c. c \<in> set s \<Longrightarrow> \<not> isSpace c"
  have "dropWhile isSpace t = t" if "set t \<subseteq> set s" for t
    using that ns by (cases t) auto
  then show ?thesis by (simp add: TrimSpace_def)
qed

lemma HasPrefix_iff: "HasPrefix s p \<longleftrightarrow> (\<exists>t. s = p @ t)"
  by (induction s p rule: HasPrefix.induct) auto

lemma HasPrefix_append [simp]: "HasPrefix (p @ t) p"
  by (auto simp: HasPrefix_iff)

lemma IndexByte_Some: "IndexByte s c = Some i \<Longrightarrow> i < length s \<and> s ! i = c \<and> c \<notin> set (take i s)"
  by (induction s arbitrary: i) (auto split: if_splits)

lemma IndexByte_None: "IndexByte s c = None \<longleftrightarrow> c \<notin> set s"
  by (induction s) auto

lemma LastIndexByte_Some: "LastIndexByte s c = Some i \<Longrightarrow> i < length s \<and> s ! i = c"
  by (induction s arbitrary: i) (auto split: option.splits if_splits)

lemma LastIndexByte_None: "LastIndexByte s c = None \<longleftrightarrow> c \<notin> set s"
  by (induction s) (auto split: option.splits)

lemma LastIndexByte_last:
  "LastIndexByte s c = Some i \<Longrightarrow> c \<notin> set (drop (Suc i) s)"
  by (induction s arbitrary: i) (auto split: option.splits if_splits simp: LastIndexByte_None)

lemma IndexByte_append: "c \<notin> set a \<Longrightarrow> IndexByte (a @ c # b) c = Some (length a)"
  by (induction a) auto

lemma LastIndexByte_append: "c \<notin> set b \<Longrightarrow> LastIndexByte (a @ c # b) c = Some (length a)"
  by (induction a) (auto simp: LastIndexByte_None [THEN iffD2])

lemma FieldsFunc_Nil [simp]: "FieldsFunc f [] = []"
  by (subst FieldsFunc.simps) simp

lemma FieldsFunc_field:
  assumes "w \<noteq> []" and "\<And>c. c \<in> set w \<Longrightarrow> \<not> f c" and "f s"
  shows "FieldsFunc f (w @ s # t) = w # FieldsFunc f (s # t)"
proof -
  have "dropWhile f (w @ s # t) = w @ s # t"
    using assms(1,2) by (cases w) auto
  moreover have "takeWhile (\<lambda>c. \<not> f c) (w @ s # t) = w"
    using assms(2,3) by (subst takeWhile_append2) auto
  moreover have "dropWhile (\<lambda>c. \<not> f c) (w @ s # t) = s # t"
    using assms(2,3) by (subst dropWhile_append2) auto
  ultimately show ?thesis using assms(1) by (subst FieldsFunc.simps) (simp add: Let_def)
qed

lemma FieldsFunc_skip: "f s \<Longrightarrow> FieldsFunc f (s # t) = FieldsFunc f t"
  by (subst (1 2) FieldsFunc.simps) simp

lemma FieldsFunc_last:
  "w \<noteq> [] \<Longrightarrow> (\<And>c. c \<in> set w \<Longrightarrow> \<not> f c) \<Longrightarrow> FieldsFunc f w = [w]"
proof -
  assume ne: "w \<noteq> []" and nf: "\<And>c. c \<in> set w \<Longrightarrow> \<not> f c"
  have "dropWhile f w = w" using ne nf by (cases w) auto
  then show ?thesis using ne nf
    by (subst FieldsFunc.simps) (simp add: Let_def takeWhile_eq_self dropWhile_eq_Nil)
qed

lemmas FieldsFunc_simps = FieldsFunc_field FieldsFunc_skip FieldsFunc_last

lemma utoa_length: "n < 10 ^ k \<Longrightarrow> 0 < k \<Longrightarrow> length (utoa n) \<le> k"
proof (induction k arbitrary: n)
  case 0
  then show ?case by simp
next
  case (Suc k)
  show ?case
  proof (cases "n < 10")
    case True
    then show ?thesis by (subst utoa.simps) simp
  next
    case False
    then have "0 < k" using Suc.prems by (cases k) auto
    moreover have "n div 10 < 10 ^ k" using Suc.prems by (simp add: less_mult_imp_div_less)
    ultimately have "length (utoa (n div 10)) \<le> k" using Suc.IH by blast
    then show ?thesis using False by (subst utoa.simps) simp
  qed
qed

end
