(* ===== verification/Bufio.thy ===== *)
theory Bufio imports Gostring begin

text \<open>
  Readers and the two ways the program cuts them into lines: \<open>bufio.Scanner\<close> with its
  default line splitter (a token limit of 64 KiB) and \<open>bufio.Reader.ReadLine\<close> (a buffer of
  4096 bytes, longer lines come in pieces). A reader is the bytes it delivers and the error it
  ends with, None for \<open>io.EOF\<close>.
\<close>

record reader =
  rd_data :: string
  rd_err :: "string option"

datatype scan_error = ErrTooLong | ReadError string

abbreviation nl :: char where "nl \<equiv> CHR 0x0A"
abbreviation cr :: char where "cr \<equiv> CHR 0x0D"

definition dropCR :: "string \<Rightarrow> string" where
  "dropCR l = (if l \<noteq> [] \<and> last l = cr then butlast l else l)"

definition lineOf :: "string \<Rightarrow> string" where
  "lineOf s = takeWhile (\<lambda>c. c \<noteq> nl) s"

definition maxScanTokenSize :: nat where "maxScanTokenSize = 65536"

text \<open>
  The tokens of a scanner, and whether it stopped on a line that does not fit the buffer
  (\<open>bufio.ErrTooLong\<close>); the lines before it have been delivered.
\<close>

function scanLines :: "string \<Rightarrow> string list \<times> bool" where
  "scanLines s =
     (if s = [] then ([], False)
      else if maxScanTokenSize \<le> length (lineOf s) then ([], True)
      else case scanLines (drop (Suc (length (lineOf s))) s) of
             (ls, e) \<Rightarrow> (dropCR (lineOf s) # ls, e))"
  by pat_completeness auto
termination by (relation "measure length") auto

declare scanLines.simps [simp del]

definition Scan :: "reader \<Rightarrow> string list \<times> scan_error option" where
  "Scan r = (case scanLines (rd_data r) of
     (ls, long) \<Rightarrow> (ls, if long then Some ErrTooLong else map_option ReadError (rd_err r)))"

definition bufferSize :: nat where "bufferSize = 4096"

text \<open>
  \<open>bufio.Reader.ReadLine\<close>: the line, whether it is only a prefix, and what is left to read;
  None at the end of the data. A full buffer that ends in a carriage return gives that byte back.
\<close>

definition ReadLine :: "string \<Rightarrow> (string \<times> bool \<times> string) option" where
  "ReadLine s =
     (if s = [] then None
      else let l = lineOf s in
        if length l < bufferSize \<and> length l < length s
        then Some (dropCR l, False, drop (Suc (length l)) s)
        else if bufferSize \<le> length s
        then (let p = take bufferSize s in
              if last p = cr then Some (butlast p, True, drop (bufferSize - 1) s)
              else Some (p, True, drop bufferSize s))
        else Some (s, False, []))"

lemma ReadLine_shorter: "ReadLine s = Some (l, p, r) \<Longrightarrow> length r < length s"
  by (auto simp: ReadLine_def Let_def bufferSize_def split: if_splits)

subsection \<open>Lines of a text\<close>

text \<open>The text with the given lines, each ended by a newline.\<close>

definition unlines :: "string list \<Rightarrow> string" where
  "unlines ls = concat (map (\<lambda>l. l @ [nl]) ls)"

definition plain_line :: "string \<Rightarrow> bool" where
  "plain_line l \<longleftrightarrow> nl \<notin> set l \<and> cr \<notin> set l"

lemma unlines_simps [simp]:
  "unlines [] = []" "unlines (l # ls) = l @ nl # unlines ls"
  by (simp_all add: unlines_def)

lemma lineOf_append: "nl \<notin> set l \<Longrightarrow> lineOf (l @ nl # t) = l"
  by (induction l) (auto simp: lineOf_def)

lemma lineOf_self: "nl \<notin> set l \<Longrightarrow> lineOf l = l"
  by (induction l) (auto simp: lineOf_def)

lemma lineOf_no_nl: "nl \<notin> set (lineOf s)"
  unfolding lineOf_def by (auto dest: set_takeWhileD)

lemma dropCR_plain: "plain_line l \<Longrightarrow> dropCR l = l"
  by (auto simp: dropCR_def plain_line_def dest: last_in_set)

lemma scanLines_Nil [simp]: "scanLines [] = ([], False)"
  by (subst scanLines.simps) simp

lemma scanLines_Cons:
  "nl \<notin> set l \<Longrightarrow> length l < maxScanTokenSize \<Longrightarrow>
   scanLines (l @ nl # t) = (dropCR l # fst (scanLines t), snd (scanLines t))"
  by (subst scanLines.simps) (simp add: lineOf_append split: prod.splits)

lemma scanLines_unlines [go_simps]:
  "(\<And>l. l \<in> set ls \<Longrightarrow> plain_line l \<and> length l < maxScanTokenSize) \<Longrightarrow>
   scanLines (unlines ls) = (ls, False)"
proof (induction ls)
  case Nil
  then show ?case by simp
next
  case (Cons l ls)
  then have "scanLines (unlines ls) = (ls, False)" by simp
  moreover have "plain_line l" "length l < maxScanTokenSize" using Cons.prems by auto
  ultimately show ?case by (simp add: scanLines_Cons plain_line_def dropCR_plain)
qed

lemma scanLines_tokens:
  "\<forall>l \<in> set (fst (scanLines s)). nl \<notin> set l \<and> length l < maxScanTokenSize"
proof (induction s rule: scanLines.induct)
  case (1 s)
  have d: "set (dropCR t) \<subseteq> set t \<and> length (dropCR t) \<le> length t" for t
    by (auto simp: dropCR_def dest: in_set_butlastD)
  show ?case
  proof (cases "s = [] \<or> maxScanTokenSize \<le> length (lineOf s)")
    case True
    then show ?thesis by (subst scanLines.simps) auto
  next
    case False
    then have "\<forall>l \<in> set (fst (scanLines (drop (Suc (length (lineOf s))) s))).
      nl \<notin> set l \<and> length l < maxScanTokenSize" using 1 by simp
    moreover have "nl \<notin> set (dropCR (lineOf s)) \<and> length (dropCR (lineOf s)) < maxScanTokenSize"
      using False d [of "lineOf s"] lineOf_no_nl [of s] by auto
    ultimately show ?thesis
      using False by (subst scanLines.simps) (auto split: prod.splits)
  qed
qed

text \<open>Filling the scanner's limit: a line of 65536 bytes or more stops the scan with an error.\<close>

lemma scanLines_too_long:
  "nl \<notin> set l \<Longrightarrow> maxScanTokenSize \<le> length l \<Longrightarrow> scanLines (l @ nl # t) = ([], True)"
  by (subst scanLines.simps) (auto simp: lineOf_append)

lemma ReadLine_short [go_simps]:
  "nl \<notin> set l \<Longrightarrow> length l < bufferSize \<Longrightarrow> ReadLine (l @ nl # t) = Some (dropCR l, False, t)"
  by (simp add: ReadLine_def lineOf_append)

lemma ReadLine_last:
  "nl \<notin> set l \<Longrightarrow> l \<noteq> [] \<Longrightarrow> length l < bufferSize \<Longrightarrow> ReadLine l = Some (l, False, [])"
  by (simp add: ReadLine_def lineOf_self)

lemma ReadLine_full:
  "nl \<notin> set l \<Longrightarrow> length l = bufferSize \<Longrightarrow> last l \<noteq> cr \<Longrightarrow>
   ReadLine (l @ t) = Some (l, True, t)"
proof -
  assume nn: "nl \<notin> set l" and len: "length l = bufferSize" and l: "last l \<noteq> cr"
  then have "lineOf (l @ t) = l @ lineOf t"
    unfolding lineOf_def by (intro takeWhile_append2) auto
  then have "bufferSize \<le> length (lineOf (l @ t))" using len by simp
  moreover have "l @ t \<noteq> []" using len by (auto simp: bufferSize_def)
  ultimately show ?thesis using len l by (simp add: ReadLine_def)
qed

end
