(* ===== verification/User.thy ===== *)
theory User imports Bufio begin

text \<open>
  Package user (user/user.go): the line parsers for passwd, group, subid and idmap data, the
  resolution of a \<open>user:group\<close> specification (GetExecUser) and of supplementary groups
  (GetAdditionalGroups). Go's \<open>int\<close> and \<open>int64\<close> fields are integers: they come from the
  64-bit parsers of \<open>strconv\<close> and no arithmetic is done on them. A nil and an empty slice
  are both the empty list. \<open>os.Open\<close> is the parameter \<open>fs\<close>: a path gives an error or the
  reader on the file.
\<close>

subsection \<open>Data\<close>

record User =
  u_Name :: string
  u_Pass :: string
  u_Uid :: int
  u_Gid :: int
  u_Gecos :: string
  u_Home :: string
  u_Shell :: string

record Group =
  g_Name :: string
  g_Pass :: string
  g_Gid :: int
  g_List :: "string list"

record SubID =
  s_Name :: string
  s_SubID :: int
  s_Count :: int

record IDMap =
  m_ID :: int
  m_ParentID :: int
  m_Count :: int

definition minID :: int where "minID = 0"
definition maxID :: int where "maxID = 2 ^ 31 - 1"

datatype user_error =
    NilSource
  | OpenFailed string
  | ScanFailed scan_error
  | ErrNoPasswdEntries
  | ErrNoGroupEntries
  | ErrIDRange
  | UnableToFindUser string user_error
  | UnableToFindGroups string user_error
  | UnableToFindGroup string user_error
  | UnableToFindAdditionalGroups "string list" user_error

subsection \<open>parseParts and parseLine\<close>

text \<open>The pointers a parser hands to parseParts: a target of one of the four kinds, with its value.\<close>

datatype slot = SStr string | SInt int | SInt64 int | SList "string list"

fun setSlot :: "string \<Rightarrow> slot \<Rightarrow> slot" where
  "setSlot p (SStr _) = SStr p"
| "setSlot p (SInt _) = SInt (fst (Atoi p))"
| "setSlot p (SInt64 _) = SInt64 (fst (ParseInt10 64 p))"
| "setSlot p (SList _) = SList (if p \<noteq> [] then Split CHR '','' p else [])"

fun parseParts :: "string list \<Rightarrow> slot list \<Rightarrow> slot list" where
  "parseParts [] vs = vs"
| "parseParts (p # ps) [] = []"
| "parseParts (p # ps) (v # vs) = setSlot p v # parseParts ps vs"

definition parseLine :: "string \<Rightarrow> slot list \<Rightarrow> slot list" where
  "parseLine line vs = parseParts (Split CHR '':'' line) vs"

text \<open>Reading a target back by its kind.\<close>

fun strOf :: "slot \<Rightarrow> string" where
  "strOf (SStr s) = s"
| "strOf _ = []"

fun intOf :: "slot \<Rightarrow> int" where
  "intOf (SInt i) = i"
| "intOf (SInt64 i) = i"
| "intOf _ = 0"

fun listOf :: "slot \<Rightarrow> string list" where
  "listOf (SList xs) = xs"
| "listOf _ = []"

definition parseUser :: "string \<Rightarrow> User" where
  "parseUser line =
     (let v = parseLine line [SStr [], SStr [], SInt 0, SInt 0, SStr [], SStr [], SStr []]
      in \<lparr>u_Name = strOf (v ! 0), u_Pass = strOf (v ! 1), u_Uid = intOf (v ! 2),
          u_Gid = intOf (v ! 3), u_Gecos = strOf (v ! 4), u_Home = strOf (v ! 5),
          u_Shell = strOf (v ! 6)\<rparr>)"

definition parseGroup :: "string \<Rightarrow> Group" where
  "parseGroup line =
     (let v = parseLine line [SStr [], SStr [], SInt 0, SList []]
      in \<lparr>g_Name = strOf (v ! 0), g_Pass = strOf (v ! 1), g_Gid = intOf (v ! 2),
          g_List = listOf (v ! 3)\<rparr>)"

definition parseSubID :: "string \<Rightarrow> SubID" where
  "parseSubID line =
     (let v = parseLine line [SStr [], SInt64 0, SInt64 0]
      in \<lparr>s_Name = strOf (v ! 0), s_SubID = intOf (v ! 1), s_Count = intOf (v ! 2)\<rparr>)"

definition parseIDMapLine :: "string \<Rightarrow> IDMap" where
  "parseIDMapLine line =
     (let v = parseParts (Fields line) [SInt64 0, SInt64 0, SInt64 0]
      in \<lparr>m_ID = intOf (v ! 0), m_ParentID = intOf (v ! 1), m_Count = intOf (v ! 2)\<rparr>)"

subsection \<open>The file parsers\<close>

text \<open>\<open>filter == nil || filter(p)\<close>\<close>

definition selects :: "('a \<Rightarrow> bool) option \<Rightarrow> 'a \<Rightarrow> bool" where
  "selects f p = (case f of None \<Rightarrow> True | Some g \<Rightarrow> g p)"

fun passwdLoop :: "(User \<Rightarrow> bool) option \<Rightarrow> string list \<Rightarrow> User list" where
  "passwdLoop f [] = []"
| "passwdLoop f (l # ls) =
     (let line = TrimSpace l in
      if line = [] then passwdLoop f ls
      else (let p = parseUser line in
            if selects f p then p # passwdLoop f ls else passwdLoop f ls))"

definition ParsePasswdFilter ::
  "reader option \<Rightarrow> (User \<Rightarrow> bool) option \<Rightarrow> user_error + User list" where
  "ParsePasswdFilter r f =
     (case r of
        None \<Rightarrow> Inl NilSource
      | Some rd \<Rightarrow> (case Scan rd of (ls, err) \<Rightarrow>
          (case err of Some e \<Rightarrow> Inl (ScanFailed e) | None \<Rightarrow> Inr (passwdLoop f ls))))"

definition ParsePasswd :: "reader option \<Rightarrow> user_error + User list" where
  "ParsePasswd r = ParsePasswdFilter r None"

text \<open>
  The inner loop of ParseGroupFilter gathers the pieces of a long line; at the end of the data it
  returns from the whole function, and what it has gathered is dropped.
\<close>

function groupLine :: "string \<Rightarrow> string \<Rightarrow> (string \<times> string) option" where
  "groupLine wholeLine s =
     (case ReadLine s of
        None \<Rightarrow> None
      | Some (line, isPrefix, rest) \<Rightarrow>
          if \<not> isPrefix \<and> wholeLine = [] then Some (line, rest)
          else if \<not> isPrefix then Some (wholeLine @ line, rest)
          else groupLine (wholeLine @ line) rest)"
  by pat_completeness auto
termination
  by (relation "measure (length \<circ> snd)") (auto dest: ReadLine_shorter)

declare groupLine.simps [simp del]

lemma groupLine_shorter: "groupLine w s = Some (l, rest) \<Longrightarrow> length rest < length s"
proof (induction w s rule: groupLine.induct)
  case (1 w s)
  show ?case
  proof (cases "ReadLine s")
    case None
    with "1.prems" show ?thesis by (simp add: groupLine.simps)
  next
    case (Some t)
    obtain line p r where t: "t = (line, p, r)" by (cases t)
    have "length r < length s" using Some t by (auto dest: ReadLine_shorter)
    moreover have "p \<Longrightarrow> length rest < length r"
      using "1.IH" [of "(line, p, r)" line "(p, r)" p r] "1.prems" Some t
      by (simp add: groupLine.simps [of w s])
    ultimately show ?thesis
      using "1.prems" Some t by (cases p) (auto simp: groupLine.simps [of w s] split: if_splits)
  qed
qed

function groupLines :: "string \<Rightarrow> string list" where
  "groupLines s = (case groupLine [] s of None \<Rightarrow> [] | Some (l, rest) \<Rightarrow> l # groupLines rest)"
  by pat_completeness auto
termination
  by (relation "measure length") (auto dest: groupLine_shorter)

declare groupLines.simps [simp del]

fun groupLoop :: "(Group \<Rightarrow> bool) option \<Rightarrow> string list \<Rightarrow> Group list" where
  "groupLoop f [] = []"
| "groupLoop f (l # ls) =
     (let line = TrimSpace l in
      if line = [] \<or> hd line = CHR ''#'' then groupLoop f ls
      else (let p = parseGroup line in
            if selects f p then p # groupLoop f ls else groupLoop f ls))"

definition ParseGroupFilter ::
  "reader option \<Rightarrow> (Group \<Rightarrow> bool) option \<Rightarrow> user_error option \<times> Group list" where
  "ParseGroupFilter r f =
     (case r of
        None \<Rightarrow> (Some NilSource, [])
      | Some rd \<Rightarrow> (map_option (\<lambda>e. ScanFailed (ReadError e)) (rd_err rd),
                    groupLoop f (groupLines (rd_data rd))))"

definition ParseGroup :: "reader option \<Rightarrow> user_error option \<times> Group list" where
  "ParseGroup r = ParseGroupFilter r None"

fun subidLoop :: "(SubID \<Rightarrow> bool) option \<Rightarrow> string list \<Rightarrow> SubID list" where
  "subidLoop f [] = []"
| "subidLoop f (l # ls) =
     (let line = TrimSpace l in
      if line = [] then subidLoop f ls
      else (let p = parseSubID line in
            if selects f p then p # subidLoop f ls else subidLoop f ls))"

definition ParseSubIDFilter ::
  "reader option \<Rightarrow> (SubID \<Rightarrow> bool) option \<Rightarrow> user_error + SubID list" where
  "ParseSubIDFilter r f =
     (case r of
        None \<Rightarrow> Inl NilSource
      | Some rd \<Rightarrow> (case Scan rd of (ls, err) \<Rightarrow>
          (case err of Some e \<Rightarrow> Inl (ScanFailed e) | None \<Rightarrow> Inr (subidLoop f ls))))"

definition ParseSubID :: "reader option \<Rightarrow> user_error + SubID list" where
  "ParseSubID r = ParseSubIDFilter r None"

fun idmapLoop :: "(IDMap \<Rightarrow> bool) option \<Rightarrow> string list \<Rightarrow> IDMap list" where
  "idmapLoop f [] = []"
| "idmapLoop f (l # ls) =
     (let line = TrimSpace l in
      if line = [] then idmapLoop f ls
      else (let p = parseIDMapLine line in
            if selects f p then p # idmapLoop f ls else idmapLoop f ls))"

definition ParseIDMapFilter ::
  "reader option \<Rightarrow> (IDMap \<Rightarrow> bool) option \<Rightarrow> user_error + IDMap list" where
  "ParseIDMapFilter r f =
     (case r of
        None \<Rightarrow> Inl NilSource
      | Some rd \<Rightarrow> (case Scan rd of (ls, err) \<Rightarrow>
          (case err of Some e \<Rightarrow> Inl (ScanFailed e) | None \<Rightarrow> Inr (idmapLoop f ls))))"

definition ParseIDMap :: "reader option \<Rightarrow> user_error + IDMap list" where
  "ParseIDMap r = ParseIDMapFilter r None"

subsection \<open>The variants that open a file first\<close>

type_synonym filesystem = "string \<Rightarrow> string + reader"

definition ParsePasswdFileFilter ::
  "filesystem \<Rightarrow> string \<Rightarrow> (User \<Rightarrow> bool) option \<Rightarrow> user_error + User list" where
  "ParsePasswdFileFilter fs path f =
     (case fs path of Inl e \<Rightarrow> Inl (OpenFailed e) | Inr r \<Rightarrow> ParsePasswdFilter (Some r) f)"

definition ParsePasswdFile :: "filesystem \<Rightarrow> string \<Rightarrow> user_error + User list" where
  "ParsePasswdFile fs path =
     (case fs path of Inl e \<Rightarrow> Inl (OpenFailed e) | Inr r \<Rightarrow> ParsePasswd (Some r))"

definition ParseGroupFileFilter ::
  "filesystem \<Rightarrow> string \<Rightarrow> (Group \<Rightarrow> bool) option \<Rightarrow> user_error option \<times> Group list" where
  "ParseGroupFileFilter fs path f =
     (case fs path of Inl e \<Rightarrow> (Some (OpenFailed e), []) | Inr r \<Rightarrow> ParseGroupFilter (Some r) f)"

definition ParseGroupFile :: "filesystem \<Rightarrow> string \<Rightarrow> user_error option \<times> Group list" where
  "ParseGroupFile fs path =
     (case fs path of Inl e \<Rightarrow> (Some (OpenFailed e), []) | Inr r \<Rightarrow> ParseGroup (Some r))"

definition ParseSubIDFileFilter ::
  "filesystem \<Rightarrow> string \<Rightarrow> (SubID \<Rightarrow> bool) option \<Rightarrow> user_error + SubID list" where
  "ParseSubIDFileFilter fs path f =
     (case fs path of Inl e \<Rightarrow> Inl (OpenFailed e) | Inr r \<Rightarrow> ParseSubIDFilter (Some r) f)"

definition ParseSubIDFile :: "filesystem \<Rightarrow> string \<Rightarrow> user_error + SubID list" where
  "ParseSubIDFile fs path =
     (case fs path of Inl e \<Rightarrow> Inl (OpenFailed e) | Inr r \<Rightarrow> ParseSubID (Some r))"

definition ParseIDMapFileFilter ::
  "filesystem \<Rightarrow> string \<Rightarrow> (IDMap \<Rightarrow> bool) option \<Rightarrow> user_error + IDMap list" where
  "ParseIDMapFileFilter fs path f =
     (case fs path of Inl e \<Rightarrow> Inl (OpenFailed e) | Inr r \<Rightarrow> ParseIDMapFilter (Some r) f)"

definition ParseIDMapFile :: "filesystem \<Rightarrow> string \<Rightarrow> user_error + IDMap list" where
  "ParseIDMapFile fs path =
     (case fs path of Inl e \<Rightarrow> Inl (OpenFailed e) | Inr r \<Rightarrow> ParseIDMap (Some r))"

subsection \<open>GetExecUser\<close>

record ExecUser =
  e_Uid :: int
  e_Gid :: int
  e_Sgids :: "int list"
  e_Home :: string

definition emptyExecUser :: ExecUser where
  "emptyExecUser = \<lparr>e_Uid = 0, e_Gid = 0, e_Sgids = [], e_Home = []\<rparr>"

text \<open>The two arguments of a \<open>user:group\<close> specification.\<close>

definition specArgs :: "string \<Rightarrow> string \<times> string" where
  "specArgs userSpec =
     (let v = parseLine userSpec [SStr [], SStr []] in (strOf (v ! 0), strOf (v ! 1)))"

definition userMatches :: "string \<Rightarrow> int \<Rightarrow> User \<Rightarrow> bool" where
  "userMatches userArg defUid u =
     (if userArg = [] then u_Uid u = defUid
      else case Atoi userArg of (uidArg, uidErr) \<Rightarrow>
        if uidErr = None then uidArg = u_Uid u else u_Name u = userArg)"

definition groupMatches :: "string \<Rightarrow> string \<Rightarrow> Group \<Rightarrow> bool" where
  "groupMatches groupArg matchedUserName g =
     (if groupArg = [] then matchedUserName \<in> set (g_List g)
      else case Atoi groupArg of (gidArg, gidErr) \<Rightarrow>
        if gidErr = None then gidArg = g_Gid g else g_Name g = groupArg)"

text \<open>
  The first half: the user part. It returns the user so far and the name of the passwd entry
  that matched (empty when none did).
\<close>

definition resolveUser ::
  "string \<Rightarrow> ExecUser \<Rightarrow> reader option \<Rightarrow> user_error + (ExecUser \<times> string)" where
  "resolveUser userArg user passwd =
     (let res = ParsePasswdFilter passwd (Some (userMatches userArg (e_Uid user)));
          users = (case res of Inl _ \<Rightarrow> [] | Inr us \<Rightarrow> us) in
      case (res, passwd) of
        (Inl err, Some _) \<Rightarrow>
          Inl (UnableToFindUser (if userArg = [] then Itoa (e_Uid user) else userArg) err)
      | _ \<Rightarrow>
        (case users of
           u # _ \<Rightarrow>
             Inr (user\<lparr>e_Uid := u_Uid u, e_Gid := u_Gid u, e_Home := u_Home u\<rparr>, u_Name u)
         | [] \<Rightarrow>
             if userArg \<noteq> [] then
               (case Atoi userArg of (uidArg, uidErr) \<Rightarrow>
                 if uidErr \<noteq> None then Inl (UnableToFindUser userArg ErrNoPasswdEntries)
                 else if uidArg < minID \<or> maxID < uidArg then Inl ErrIDRange
                 else Inr (user\<lparr>e_Uid := uidArg\<rparr>, []))
             else Inr (user, [])))"

text \<open>The second half: the group part.\<close>

definition resolveGroup ::
  "string \<Rightarrow> ExecUser \<times> string \<Rightarrow> reader option \<Rightarrow> user_error + ExecUser" where
  "resolveGroup groupArg um groupR =
     (case um of (user, matchedUserName) \<Rightarrow>
      if groupArg \<noteq> [] \<or> matchedUserName \<noteq> [] then
        (case ParseGroupFilter groupR (Some (groupMatches groupArg matchedUserName)) of
          (err, groups) \<Rightarrow>
          if err \<noteq> None \<and> groupR \<noteq> None then Inl (UnableToFindGroups matchedUserName (the err))
          else if groupArg \<noteq> [] then
            (case groups of
               g # _ \<Rightarrow> Inr (user\<lparr>e_Gid := g_Gid g\<rparr>)
             | [] \<Rightarrow>
                 (case Atoi groupArg of (gidArg, gidErr) \<Rightarrow>
                   if gidErr \<noteq> None then Inl (UnableToFindGroup groupArg ErrNoGroupEntries)
                   else if gidArg < minID \<or> maxID < gidArg then Inl ErrIDRange
                   else Inr (user\<lparr>e_Gid := gidArg\<rparr>)))
          else if groups \<noteq> [] then Inr (user\<lparr>e_Sgids := map g_Gid groups\<rparr>)
          else Inr user)
      else Inr user)"

definition GetExecUser ::
  "string \<Rightarrow> ExecUser option \<Rightarrow> reader option \<Rightarrow> reader option \<Rightarrow> user_error + ExecUser" where
  "GetExecUser userSpec defaults passwd groupR =
     (let user = (case defaults of None \<Rightarrow> emptyExecUser | Some d \<Rightarrow> d) in
      case specArgs userSpec of (userArg, groupArg) \<Rightarrow>
        andThen (resolveUser userArg user passwd) (\<lambda>um. resolveGroup groupArg um groupR))"

definition openOpt :: "filesystem \<Rightarrow> string \<Rightarrow> reader option" where
  "openOpt fs path = (case fs path of Inl _ \<Rightarrow> None | Inr r \<Rightarrow> Some r)"

definition GetExecUserPath ::
  "filesystem \<Rightarrow> string \<Rightarrow> ExecUser option \<Rightarrow> string \<Rightarrow> string \<Rightarrow> user_error + ExecUser" where
  "GetExecUserPath fs userSpec defaults passwdPath groupPath =
     GetExecUser userSpec defaults (openOpt fs passwdPath) (openOpt fs groupPath)"

subsection \<open>GetAdditionalGroups\<close>

definition groupNamed :: "string \<Rightarrow> Group \<Rightarrow> bool" where
  "groupNamed ag g \<longleftrightarrow> g_Name g = ag \<or> Itoa (g_Gid g) = ag"

text \<open>
  One turn of the loop over the requested groups. The keys of \<open>gidMap\<close> are kept in the order
  of insertion: the first entry that has the name or number and whose gid is new is taken.
\<close>

definition additionalStep :: "Group list \<Rightarrow> string \<Rightarrow> int list \<Rightarrow> user_error + int list" where
  "additionalStep groups ag gidMap =
     (case find (\<lambda>g. groupNamed ag g \<and> g_Gid g \<notin> set gidMap) groups of
        Some g \<Rightarrow> Inr (gidMap @ [g_Gid g])
      | None \<Rightarrow>
          (case ParseInt10 64 ag of (gid, err) \<Rightarrow>
            if err \<noteq> None then Inl (UnableToFindGroup ag ErrNoGroupEntries)
            else if gid < minID \<or> maxID < gid then Inl ErrIDRange
            else Inr (if gid \<in> set gidMap then gidMap else gidMap @ [gid])))"

text \<open>Go iterates over the map in any order: the result is a permutation of this list.\<close>

definition GetAdditionalGroups :: "string list \<Rightarrow> reader option \<Rightarrow> user_error + int list" where
  "GetAdditionalGroups additionalGroups groupR =
     (let res = (case groupR of
                   None \<Rightarrow> (None, [])
                 | Some r \<Rightarrow> ParseGroupFilter (Some r)
                     (Some (\<lambda>g. \<exists>ag \<in> set additionalGroups. groupNamed ag g))) in
      case res of (err, groups) \<Rightarrow>
        (case err of
           Some e \<Rightarrow> Inl (UnableToFindAdditionalGroups additionalGroups e)
         | None \<Rightarrow> foldRes (additionalStep groups) additionalGroups []))"

definition GetAdditionalGroupsPath :: "filesystem \<Rightarrow> string list \<Rightarrow> string \<Rightarrow> user_error + int list" where
  "GetAdditionalGroupsPath fs additionalGroups groupPath =
     GetAdditionalGroups additionalGroups (openOpt fs groupPath)"

subsection \<open>The record loops\<close>

text \<open>
  The four parsers share a shape: each line is skipped or gives a record, and the filter selects
  among the records. What every such loop guarantees is proved once.
\<close>

locale record_loop =
  fixes accept :: "string \<Rightarrow> 'a option"
    and run :: "('a \<Rightarrow> bool) option \<Rightarrow> string list \<Rightarrow> 'a list"
  assumes run_Nil: "run f [] = []"
    and run_Cons: "run f (l # ls) =
      (case accept l of None \<Rightarrow> run f ls
       | Some p \<Rightarrow> if selects f p then p # run f ls else run f ls)"
begin

lemma run_append: "run f (ls @ ms) = run f ls @ run f ms"
  by (induction ls) (auto simp: run_Nil run_Cons split: option.splits)

lemma run_filter: "run (Some g) ls = filter g (run None ls)"
  by (induction ls) (auto simp: run_Nil run_Cons selects_def split: option.splits)

lemma run_mem: "p \<in> set (run f ls) \<longleftrightarrow> (\<exists>l \<in> set ls. accept l = Some p) \<and> selects f p"
  by (induction ls) (auto simp: run_Nil run_Cons split: option.splits)

lemma run_all: "list_all2 (\<lambda>l p. accept l = Some p) ls ps \<Longrightarrow> run None ls = ps"
  by (induction ls ps rule: list_all2_induct) (auto simp: run_Nil run_Cons selects_def)

lemma run_length: "length (run f ls) \<le> length ls"
  by (induction ls) (auto simp: run_Nil run_Cons split: option.splits)

end

definition acceptLine :: "(string \<Rightarrow> 'a) \<Rightarrow> string \<Rightarrow> 'a option" where
  "acceptLine parse l = (let line = TrimSpace l in if line = [] then None else Some (parse line))"

definition acceptGroup :: "string \<Rightarrow> Group option" where
  "acceptGroup l =
     (let line = TrimSpace l in
      if line = [] \<or> hd line = CHR ''#'' then None else Some (parseGroup line))"

interpretation pw: record_loop "acceptLine parseUser" passwdLoop
  by unfold_locales (auto simp: acceptLine_def Let_def)

interpretation gr: record_loop acceptGroup groupLoop
  by unfold_locales (auto simp: acceptGroup_def Let_def)

interpretation sid: record_loop "acceptLine parseSubID" subidLoop
  by unfold_locales (auto simp: acceptLine_def Let_def)

interpretation idm: record_loop "acceptLine parseIDMapLine" idmapLoop
  by unfold_locales (auto simp: acceptLine_def Let_def)

lemma ParsePasswdFilter_eq:
  "ParsePasswdFilter r (Some f) = map_sum id (filter f) (ParsePasswd r)"
  by (auto simp: ParsePasswd_def ParsePasswdFilter_def pw.run_filter split: option.splits prod.splits)

lemma ParseGroupFilter_eq:
  "ParseGroupFilter r (Some f) = map_prod id (filter f) (ParseGroup r)"
  by (auto simp: ParseGroup_def ParseGroupFilter_def gr.run_filter split: option.splits)

subsection \<open>Round trips\<close>

definition printUser :: "User \<Rightarrow> string" where
  "printUser u = Join '':'' [u_Name u, u_Pass u, Itoa (u_Uid u), Itoa (u_Gid u), u_Gecos u, u_Home u, u_Shell u]"

definition printGroup :: "Group \<Rightarrow> string" where
  "printGroup g = Join '':'' [g_Name g, g_Pass g, Itoa (g_Gid g), Join '','' (g_List g)]"

definition is_int64 :: "int \<Rightarrow> bool" where
  "is_int64 i \<longleftrightarrow> - (2 ^ 63) \<le> i \<and> i < 2 ^ 63"

definition wf_field :: "string \<Rightarrow> bool" where
  "wf_field s \<longleftrightarrow> CHR '':'' \<notin> set s \<and> nl \<notin> set s \<and> cr \<notin> set s"

definition wf_user :: "User \<Rightarrow> bool" where
  "wf_user u \<longleftrightarrow>
     (\<forall>s \<in> {u_Name u, u_Pass u, u_Gecos u, u_Home u, u_Shell u}. wf_field s) \<and>
     is_int64 (u_Uid u) \<and> is_int64 (u_Gid u) \<and>
     (u_Name u = [] \<or> \<not> isSpace (hd (u_Name u))) \<and>
     (u_Shell u = [] \<or> \<not> isSpace (last (u_Shell u))) \<and>
     length (printUser u) < maxScanTokenSize"

definition wf_group :: "Group \<Rightarrow> bool" where
  "wf_group g \<longleftrightarrow>
     (\<forall>s \<in> insert (g_Name g) (insert (g_Pass g) (set (g_List g))). wf_field s) \<and>
     is_int64 (g_Gid g) \<and>
     (g_Name g = [] \<or> (\<not> isSpace (hd (g_Name g)) \<and> hd (g_Name g) \<noteq> CHR ''#'')) \<and>
     (\<forall>m \<in> set (g_List g). CHR '','' \<notin> set m \<and> m \<noteq> [] \<and> \<not> isSpace (last m)) \<and>
     length (printGroup g) < bufferSize"

lemma Itoa_wf_field: "wf_field (Itoa i)"
  using Itoa_chars [of i] by (auto simp: wf_field_def)

lemma TrimSpace_ends:
  "s \<noteq> [] \<Longrightarrow> \<not> isSpace (hd s) \<Longrightarrow> \<not> isSpace (last s) \<Longrightarrow> TrimSpace s = s"
proof -
  assume ne: "s \<noteq> []" and h: "\<not> isSpace (hd s)" and l: "\<not> isSpace (last s)"
  have "dropWhile isSpace s = s" using ne h by (cases s) auto
  moreover have "dropWhile isSpace (rev s) = rev s"
    using ne l by (cases s rule: rev_cases) auto
  ultimately show ?thesis by (simp add: TrimSpace_def)
qed

lemma isSpace_colon [simp]: "\<not> isSpace CHR '':''"
  by (simp add: isSpace_def)

lemma set_Join_subset: "set (Join sep ws) \<subseteq> set sep \<union> \<Union> (set ` set ws)"
  by (induction sep ws rule: Join.induct) auto

lemma wf_field_Join: "(\<And>w. w \<in> set ws \<Longrightarrow> wf_field w) \<Longrightarrow> wf_field (Join '','' ws)"
  using set_Join_subset [of "'',''" ws] by (fastforce simp: wf_field_def)

lemma Join_nonempty: "ws \<noteq> [] \<Longrightarrow> last ws \<noteq> [] \<Longrightarrow> Join sep ws \<noteq> []"
  by (induction sep ws rule: Join.induct) auto

lemma last_Join: "ws \<noteq> [] \<Longrightarrow> last ws \<noteq> [] \<Longrightarrow> last (Join sep ws) = last (last ws)"
proof (induction sep ws rule: Join.induct)
  case (3 sep w v ws)
  then have "Join sep (v # ws) \<noteq> []"
    by (intro Join_nonempty) auto
  then show ?case using 3 by (auto simp: last_append)
qed auto

lemma plain_Join_colon:
  "(\<And>w. w \<in> set ws \<Longrightarrow> wf_field w) \<Longrightarrow> plain_line (Join '':'' ws)"
  using set_Join_subset [of "'':''" ws] by (fastforce simp: wf_field_def plain_line_def)

lemma Split_Join_fields:
  "ws \<noteq> [] \<Longrightarrow> (\<And>w. w \<in> set ws \<Longrightarrow> wf_field w) \<Longrightarrow> Split CHR '':'' (Join '':'' ws) = ws"
  by (rule Split_Join) (auto simp: wf_field_def)

lemma parseUser_printUser: "wf_user u \<Longrightarrow> parseUser (printUser u) = u"
proof -
  assume wf: "wf_user u"
  have "Split CHR '':'' (printUser u) =
    [u_Name u, u_Pass u, Itoa (u_Uid u), Itoa (u_Gid u), u_Gecos u, u_Home u, u_Shell u]"
    unfolding printUser_def using wf
    by (intro Split_Join_fields) (auto simp: wf_user_def Itoa_wf_field)
  then show ?thesis
    using wf by (simp add: parseUser_def parseLine_def Atoi_Itoa wf_user_def is_int64_def)
qed

lemma acceptLine_printUser: "wf_user u \<Longrightarrow> acceptLine parseUser (printUser u) = Some u"
proof -
  assume wf: "wf_user u"
  have "TrimSpace (printUser u) = printUser u"
  proof (rule TrimSpace_ends)
    show "printUser u \<noteq> []" by (simp add: printUser_def)
    show "\<not> isSpace (hd (printUser u))" using wf by (auto simp: printUser_def wf_user_def hd_append)
    show "\<not> isSpace (last (printUser u))"
      using wf by (auto simp: printUser_def wf_user_def last_append)
  qed
  moreover have "printUser u \<noteq> []" by (simp add: printUser_def)
  ultimately show ?thesis by (simp add: acceptLine_def parseUser_printUser [OF wf])
qed

lemma printUser_plain: "wf_user u \<Longrightarrow> plain_line (printUser u)"
  unfolding printUser_def by (rule plain_Join_colon) (auto simp: wf_user_def Itoa_wf_field)

lemma parseGroup_printGroup: "wf_group g \<Longrightarrow> parseGroup (printGroup g) = g"
proof -
  assume wf: "wf_group g"
  have "Split CHR '':'' (printGroup g) =
    [g_Name g, g_Pass g, Itoa (g_Gid g), Join '','' (g_List g)]"
    unfolding printGroup_def using wf
    by (intro Split_Join_fields) (auto simp: wf_group_def Itoa_wf_field intro!: wf_field_Join)
  moreover have "(if Join '','' (g_List g) \<noteq> [] then Split CHR '','' (Join '','' (g_List g)) else []) = g_List g"
  proof (cases "g_List g")
    case Nil
    then show ?thesis by simp
  next
    case (Cons m ms)
    then have "Join '','' (g_List g) \<noteq> []"
      using wf by (cases ms) (auto simp: wf_group_def)
    moreover have "Split CHR '','' (Join '','' (g_List g)) = g_List g"
      using wf Cons by (intro Split_Join) (auto simp: wf_group_def)
    ultimately show ?thesis by simp
  qed
  ultimately show ?thesis
    using wf by (simp add: parseGroup_def parseLine_def Atoi_Itoa wf_group_def is_int64_def)
qed

lemma acceptGroup_printGroup: "wf_group g \<Longrightarrow> acceptGroup (printGroup g) = Some g"
proof -
  assume wf: "wf_group g"
  have h: "\<not> isSpace (hd (printGroup g)) \<and> hd (printGroup g) \<noteq> CHR ''#''"
    using wf by (auto simp: printGroup_def wf_group_def hd_append)
  have "TrimSpace (printGroup g) = printGroup g"
  proof (rule TrimSpace_ends)
    show "printGroup g \<noteq> []" by (simp add: printGroup_def)
    show "\<not> isSpace (hd (printGroup g))" using h ..
    have "Join '','' (g_List g) \<noteq> [] \<Longrightarrow> \<not> isSpace (last (Join '','' (g_List g)))"
      using wf by (cases "g_List g = []") (auto simp: wf_group_def last_Join)
    then show "\<not> isSpace (last (printGroup g))"
      by (auto simp: printGroup_def last_append)
  qed
  moreover have "printGroup g \<noteq> []" by (simp add: printGroup_def)
  ultimately show ?thesis
    using h by (simp add: acceptGroup_def parseGroup_printGroup [OF wf])
qed

lemma printGroup_plain: "wf_group g \<Longrightarrow> plain_line (printGroup g)"
  unfolding printGroup_def
  by (rule plain_Join_colon) (auto simp: wf_group_def Itoa_wf_field intro!: wf_field_Join)

lemma groupLines_unlines:
  "(\<And>l. l \<in> set ls \<Longrightarrow> plain_line l \<and> length l < bufferSize) \<Longrightarrow> groupLines (unlines ls) = ls"
proof (induction ls)
  case Nil
  then show ?case by (simp add: groupLines.simps groupLine.simps ReadLine_def)
next
  case (Cons l ls)
  then have "ReadLine (l @ nl # unlines ls) = Some (l, False, unlines ls)"
    by (simp add: ReadLine_short plain_line_def dropCR_plain)
  then have "groupLine [] (l @ nl # unlines ls) = Some (l, unlines ls)"
    by (simp add: groupLine.simps)
  then show ?case using Cons by (simp add: groupLines.simps [of "l @ nl # unlines ls"])
qed

subsection \<open>Facts about the resolution of users and groups\<close>

lemma find_filter: "find P (filter Q xs) = find (\<lambda>x. Q x \<and> P x) xs"
  by (induction xs) auto

text \<open>The three outcomes of the user part, by what the filtered passwd data gives.\<close>

lemma resolveUser_None_source:
  "resolveUser userArg user None =
     (if userArg \<noteq> [] then
        (case Atoi userArg of (uidArg, uidErr) \<Rightarrow>
          if uidErr \<noteq> None then Inl (UnableToFindUser userArg ErrNoPasswdEntries)
          else if uidArg < minID \<or> maxID < uidArg then Inl ErrIDRange
          else Inr (user\<lparr>e_Uid := uidArg\<rparr>, []))
      else Inr (user, []))"
  by (simp add: resolveUser_def ParsePasswdFilter_def Let_def)

lemma resolveUser_Some_source:
  assumes "ParsePasswd (Some r) = Inr us"
  shows "resolveUser userArg user (Some r) =
     (case filter (userMatches userArg (e_Uid user)) us of
        u # _ \<Rightarrow> Inr (user\<lparr>e_Uid := u_Uid u, e_Gid := u_Gid u, e_Home := u_Home u\<rparr>, u_Name u)
      | [] \<Rightarrow> resolveUser userArg user None)"
  unfolding resolveUser_None_source using assms
  by (simp add: resolveUser_def ParsePasswdFilter_eq Let_def split: list.split)

definition passwdEntries :: "reader option \<Rightarrow> User list" where
  "passwdEntries r = (case ParsePasswd r of Inl _ \<Rightarrow> [] | Inr us \<Rightarrow> us)"

definition groupEntries :: "reader option \<Rightarrow> Group list" where
  "groupEntries r = snd (ParseGroup r)"

lemma resolveUser_sources:
  assumes "resolveUser userArg user passwd = Inr (e, nm)"
  shows "e_Uid e = e_Uid user \<and> userArg = [] \<or>
         (\<exists>u \<in> set (passwdEntries passwd). userMatches userArg (e_Uid user) u \<and> e_Uid e = u_Uid u) \<or>
         minID \<le> e_Uid e \<and> e_Uid e \<le> maxID \<and> Atoi userArg = (e_Uid e, None)"
proof (cases passwd)
  case None
  with assms show ?thesis by (auto simp: resolveUser_None_source split: if_splits prod.splits)
next
  case (Some r)
  have "\<exists>us. ParsePasswd (Some r) = Inr us"
    using assms Some
    by (cases "ParsePasswd (Some r)") (auto simp: resolveUser_def ParsePasswdFilter_eq Let_def)
  then obtain us where us: "ParsePasswd (Some r) = Inr us" ..
  show ?thesis
  proof (cases "filter (userMatches userArg (e_Uid user)) us")
    case Nil
    then show ?thesis using assms Some us
      by (auto simp: resolveUser_Some_source resolveUser_None_source split: if_splits prod.splits)
  next
    case (Cons u vs)
    have "u \<in> set (filter (userMatches userArg (e_Uid user)) us)" by (simp add: Cons)
    then have "u \<in> set us \<and> userMatches userArg (e_Uid user) u" by simp
    then show ?thesis using assms Some us Cons
      by (auto simp: resolveUser_Some_source passwdEntries_def)
  qed
qed

lemma resolveGroup_Uid: "resolveGroup ga (u, nm) gr = Inr e \<Longrightarrow> e_Uid e = e_Uid u \<and> e_Home e = e_Home u"
  by (auto simp: resolveGroup_def split: prod.splits if_splits list.splits)

lemma resolveGroup_Gid:
  assumes "resolveGroup ga (u, nm) gr = Inr e"
  shows "e_Gid e = e_Gid u \<and> ga = [] \<or>
         (\<exists>g \<in> set (groupEntries gr). groupMatches ga nm g \<and> e_Gid e = g_Gid g) \<or>
         minID \<le> e_Gid e \<and> e_Gid e \<le> maxID \<and> Atoi ga = (e_Gid e, None)"
proof (cases "ParseGroup gr")
  case (Pair err all)
  show ?thesis
  proof (cases "filter (groupMatches ga nm) all")
    case Nil
    then show ?thesis using assms Pair
      by (auto simp: resolveGroup_def ParseGroupFilter_eq split: prod.splits if_splits)
  next
    case (Cons g gs)
    have "g \<in> set (filter (groupMatches ga nm) all)" by (simp add: Cons)
    then have "g \<in> set all \<and> groupMatches ga nm g" by simp
    then show ?thesis using assms Pair Cons
      by (auto simp: resolveGroup_def ParseGroupFilter_eq groupEntries_def split: prod.splits if_splits)
  qed
qed

lemma additionalStep_range:
  assumes "additionalStep gs ag m = Inr m'" and "distinct m"
    and "\<forall>i \<in> set m. (\<exists>g \<in> set gs. i = g_Gid g) \<or> minID \<le> i \<and> i \<le> maxID"
  shows "distinct m' \<and> (\<forall>i \<in> set m'. (\<exists>g \<in> set gs. i = g_Gid g) \<or> minID \<le> i \<and> i \<le> maxID)"
proof (cases "find (\<lambda>g. groupNamed ag g \<and> g_Gid g \<notin> set m) gs")
  case None
  then show ?thesis using assms
    by (auto simp: additionalStep_def split: prod.splits if_splits)
next
  case (Some g)
  then have "g \<in> set gs \<and> g_Gid g \<notin> set m"
    by (blast dest: find_Some_mem)
  moreover have "m' = m @ [g_Gid g]" using assms(1) Some by (simp add: additionalStep_def)
  ultimately show ?thesis using assms(2,3) by (simp only: set_append distinct_append) auto
qed

subsection \<open>Properties\<close>

text \<open>The filtered parsers of passwd and group data select from what the unfiltered ones
  return, and fail exactly when those fail: the filter never changes how a line is read.\<close>

theorem filters_select:
  "ParsePasswdFilter r (Some f) = map_sum id (filter f) (ParsePasswd r) \<and>
   ParseGroupFilter r (Some h) = map_prod id (filter h) (ParseGroup r) \<and>
   ParseSubIDFilter r (Some k) = map_sum id (filter k) (ParseSubID r) \<and>
   ParseIDMapFilter r (Some n) = map_sum id (filter n) (ParseIDMap r)"
proof (intro conjI)
  show "ParsePasswdFilter r (Some f) = map_sum id (filter f) (ParsePasswd r)"
    by (rule ParsePasswdFilter_eq)
  show "ParseGroupFilter r (Some h) = map_prod id (filter h) (ParseGroup r)"
    by (rule ParseGroupFilter_eq)
  show "ParseSubIDFilter r (Some k) = map_sum id (filter k) (ParseSubID r)"
    by (auto simp: ParseSubID_def ParseSubIDFilter_def sid.run_filter split: option.splits prod.splits)
  show "ParseIDMapFilter r (Some n) = map_sum id (filter n) (ParseIDMap r)"
    by (auto simp: ParseIDMap_def ParseIDMapFilter_def idm.run_filter split: option.splits prod.splits)
qed

text \<open>Reading back a printed passwd file gives the entries that were printed, in order.\<close>

theorem passwd_roundtrip:
  assumes "\<forall>u \<in> set us. wf_user u"
  shows "ParsePasswd (Some \<lparr>rd_data = unlines (map printUser us), rd_err = None\<rparr>) = Inr us"
proof -
  have "scanLines (unlines (map printUser us)) = (map printUser us, False)"
    using assms by (intro scanLines_unlines) (auto simp: printUser_plain wf_user_def)
  moreover have "passwdLoop None (map printUser us) = us"
    using assms by (intro pw.run_all) (auto simp: list_all2_map1 list_all2_same acceptLine_printUser)
  ultimately show ?thesis by (simp add: ParsePasswd_def ParsePasswdFilter_def Scan_def)
qed

theorem passwd_roundtrip_witness:
  "ParsePasswd (Some \<lparr>rd_data = ''root:x:0:0:Super User:/root:/bin/sh'' @ [nl], rd_err = None\<rparr>) =
   Inr [\<lparr>u_Name = ''root'', u_Pass = ''x'', u_Uid = 0, u_Gid = 0, u_Gecos = ''Super User'',
         u_Home = ''/root'', u_Shell = ''/bin/sh''\<rparr>]"
proof -
  let ?u = "\<lparr>u_Name = ''root'', u_Pass = ''x'', u_Uid = 0, u_Gid = 0, u_Gecos = ''Super User'',
         u_Home = ''/root'', u_Shell = ''/bin/sh''\<rparr>"
  have pr: "printUser ?u = ''root:x:0:0:Super User:/root:/bin/sh''"
    by (simp add: printUser_def Itoa_def utoa.simps digit_char_def)
  have "wf_user ?u"
    unfolding wf_user_def pr
    by (simp add: wf_field_def is_int64_def isSpace_def maxScanTokenSize_def)
  then have "\<forall>u \<in> set [?u]. wf_user u" by simp
  from passwd_roundtrip [OF this] show ?thesis by (simp add: pr)
qed

text \<open>Reading back a printed group file, with its member lists, gives the printed groups.\<close>

theorem group_roundtrip:
  assumes "\<forall>g \<in> set gs. wf_group g"
  shows "ParseGroup (Some \<lparr>rd_data = unlines (map printGroup gs), rd_err = None\<rparr>) = (None, gs)"
proof -
  have "groupLines (unlines (map printGroup gs)) = map printGroup gs"
    using assms by (intro groupLines_unlines) (auto simp: printGroup_plain wf_group_def)
  moreover have "groupLoop None (map printGroup gs) = gs"
    using assms by (intro gr.run_all) (auto simp: list_all2_map1 list_all2_same acceptGroup_printGroup)
  ultimately show ?thesis by (simp add: ParseGroup_def ParseGroupFilter_def)
qed

theorem group_roundtrip_witness:
  "ParseGroup (Some \<lparr>rd_data = ''adm:x:4:syslog,ann'' @ [nl], rd_err = None\<rparr>) =
   (None, [\<lparr>g_Name = ''adm'', g_Pass = ''x'', g_Gid = 4, g_List = [''syslog'', ''ann'']\<rparr>])"
proof -
  let ?g = "\<lparr>g_Name = ''adm'', g_Pass = ''x'', g_Gid = 4, g_List = [''syslog'', ''ann'']\<rparr>"
  have pr: "printGroup ?g = ''adm:x:4:syslog,ann''"
    by (simp add: printGroup_def Itoa_def utoa.simps digit_char_def)
  have "wf_group ?g"
    unfolding wf_group_def pr
    by (simp add: wf_field_def is_int64_def isSpace_def bufferSize_def)
  then have "\<forall>g \<in> set [?g]. wf_group g" by simp
  from group_roundtrip [OF this] show ?thesis by (simp add: pr)
qed



text \<open>A user given by a name that no passwd entry has is refused: GetExecUser never falls back
  to the default user, whatever the sources hold.\<close>

theorem exec_user_unknown_name:
  assumes "specArgs spec = (ua, ga)" and "ua \<noteq> []" and "snd (Atoi ua) \<noteq> None"
    and "\<forall>u \<in> set (passwdEntries passwd). u_Name u \<noteq> ua"
  shows "\<exists>err. GetExecUser spec d passwd groupR = Inl (UnableToFindUser ua err)"
proof -
  let ?d = "case d of None \<Rightarrow> emptyExecUser | Some d' \<Rightarrow> d'"
  have unknown: "resolveUser ua ?d None = Inl (UnableToFindUser ua ErrNoPasswdEntries)"
    using assms(2,3) by (auto simp: resolveUser_None_source split: prod.splits)
  have "\<exists>err. resolveUser ua ?d passwd = Inl (UnableToFindUser ua err)"
  proof (cases passwd)
    case None
    with unknown show ?thesis by simp
  next
    case (Some r)
    show ?thesis
    proof (cases "ParsePasswd (Some r)")
      case (Inl err)
      with Some assms(2) show ?thesis by (simp add: resolveUser_def ParsePasswdFilter_eq Let_def)
    next
      case (Inr us)
      then have "filter (userMatches ua (e_Uid ?d)) us = []"
        using assms Some by (auto simp: filter_empty_conv userMatches_def passwdEntries_def split: prod.splits)
      with Some Inr unknown show ?thesis by (simp add: resolveUser_Some_source)
    qed
  qed
  with assms(1) show ?thesis by (auto simp: GetExecUser_def)
qed

theorem exec_user_unknown_name_witness:
  "\<exists>err. GetExecUser ''ann'' None None None = Inl (UnableToFindUser ''ann'' err)"
proof (rule exec_user_unknown_name)
  show "specArgs ''ann'' = (''ann'', [])" by (simp add: specArgs_def parseLine_def Let_def)
  show "snd (Atoi ''ann'') \<noteq> None"
    by (simp add: Atoi_def ParseInt10_def ParseUint10_def digit_val_def Let_def)
  show "\<forall>u \<in> set (passwdEntries None). u_Name u \<noteq> ''ann''"
    by (simp add: passwdEntries_def ParsePasswd_def ParsePasswdFilter_def)
qed simp



text \<open>Asking twice for a group by name is an error whenever the name stands for one gid: the
  second request finds only a gid it already has, falls through to the numeric case and is
  reported as not found.\<close>

theorem additional_groups_repeated_name:
  assumes "snd (ParseInt10 64 ag) \<noteq> None" and "rd_err r = None"
    and "\<forall>g \<in> set (groupEntries (Some r)). groupNamed ag g \<longrightarrow> g_Gid g = i"
  shows "GetAdditionalGroups [ag, ag] (Some r) = Inl (UnableToFindGroup ag ErrNoGroupEntries)"
proof -
  let ?gs = "filter (groupNamed ag) (groupEntries (Some r))"
  have pg: "ParseGroup (Some r) = (None, groupEntries (Some r))"
    using assms(2) by (simp add: ParseGroup_def ParseGroupFilter_def groupEntries_def)
  have miss: "additionalStep ?gs ag m = Inl (UnableToFindGroup ag ErrNoGroupEntries)"
    if "find (\<lambda>g. groupNamed ag g \<and> g_Gid g \<notin> set m) ?gs = None" for m
    using that assms(1) by (auto simp: additionalStep_def split: prod.splits)
  have "foldRes (additionalStep ?gs) [ag, ag] [] = Inl (UnableToFindGroup ag ErrNoGroupEntries)"
  proof (cases "find (\<lambda>g. groupNamed ag g \<and> g_Gid g \<notin> set []) ?gs")
    case None
    then show ?thesis using miss [of "[]"] by simp
  next
    case (Some g)
    then have "g \<in> set ?gs" by (blast dest: find_Some_mem)
    then have "g_Gid g = i" using assms(3) by auto
    then have "find (\<lambda>h. groupNamed ag h \<and> g_Gid h \<notin> set [g_Gid g]) ?gs = None"
      using assms(3) by (auto simp: find_None_iff)
    from miss [OF this] Some show ?thesis by (simp add: additionalStep_def [of _ _ "[]"])
  qed
  then show ?thesis by (simp add: GetAdditionalGroups_def ParseGroupFilter_eq pg)
qed

theorem additional_groups_repeated_name_witness:
  "GetAdditionalGroups [''adm'', ''adm''] (Some \<lparr>rd_data = ''adm:x:4:'', rd_err = None\<rparr>) =
   Inl (UnableToFindGroup ''adm'' ErrNoGroupEntries)"
proof (rule additional_groups_repeated_name [where i = 4])
  show "snd (ParseInt10 64 ''adm'') \<noteq> None"
    by (simp add: ParseInt10_def ParseUint10_def digit_val_def Let_def)
  have rl: "ReadLine ''adm:x:4:'' = Some (''adm:x:4:'', False, [])"
    by (simp add: ReadLine_def lineOf_def bufferSize_def)
  have "groupLines ''adm:x:4:'' = [''adm:x:4:'']"
    by (simp add: groupLines.simps groupLine.simps rl) (simp add: ReadLine_def)
  then show "\<forall>g \<in> set (groupEntries (Some \<lparr>rd_data = ''adm:x:4:'', rd_err = None\<rparr>)).
      groupNamed ''adm'' g \<longrightarrow> g_Gid g = 4"
    by (simp add: groupEntries_def ParseGroup_def ParseGroupFilter_def parseGroup_def parseLine_def
        selects_def TrimSpace_def isSpace_def Atoi_def ParseInt10_def ParseUint10_def digit_val_def Let_def)
qed simp

text \<open>A group file whose last line fills the read buffer exactly and has no final newline loses
  that line: the piece is gathered as a prefix and dropped at the end of the data.\<close>

theorem group_last_line_dropped:
  assumes "nl \<notin> set l" and "length l = bufferSize" and "last l \<noteq> cr"
  shows "ParseGroup (Some \<lparr>rd_data = l, rd_err = None\<rparr>) = (None, [])"
proof -
  have "ReadLine l = Some (l, True, [])" using ReadLine_full [OF assms, of "[]"] by simp
  moreover have "ReadLine [] = None" by (simp add: ReadLine_def)
  ultimately have "groupLine [] l = None" by (simp add: groupLine.simps)
  then show ?thesis by (simp add: ParseGroup_def ParseGroupFilter_def groupLines.simps)
qed

theorem group_last_line_dropped_witness:
  "ParseGroup (Some \<lparr>rd_data = ''adm:x:4:'' @ replicate 4088 CHR ''a'', rd_err = None\<rparr>) = (None, [])"
  by (rule group_last_line_dropped) (auto simp: bufferSize_def last_append last_replicate)

end
