(* ===== verification/Devices.thy ===== *)
theory Devices imports Gostring begin

unbundle bit_operations_syntax

text \<open>
  Package devices (devices/device.go): device rules, device types and the permission strings
  with their set operations. A device type is a rune; the program only compares it with the ASCII
  letters a, b, c and p, so it is a \<open>char\<close> here. Major and minor numbers are
  64-bit integers on which no arithmetic is done, kept as \<open>int\<close>.
\<close>

definition Wildcard :: int where "Wildcard = -1"

type_synonym Permissions = string

definition deviceRead :: u64 where "deviceRead = 1"
definition deviceWrite :: u64 where "deviceWrite = 2"
definition deviceMknod :: u64 where "deviceMknod = 4"

fun toSetFrom :: "string \<Rightarrow> u64 \<Rightarrow> u64" where
  "toSetFrom [] w = w"
| "toSetFrom (perm # ps) w =
     toSetFrom ps
       (if perm = CHR ''r'' then w OR deviceRead
        else if perm = CHR ''w'' then w OR deviceWrite
        else if perm = CHR ''m'' then w OR deviceMknod
        else w)"

definition toSet :: "Permissions \<Rightarrow> u64" where
  "toSet p = toSetFrom p 0"

definition fromSet :: "u64 \<Rightarrow> Permissions" where
  "fromSet w =
     (if w AND deviceRead = deviceRead then ''r'' else []) @
     (if w AND deviceWrite = deviceWrite then ''w'' else []) @
     (if w AND deviceMknod = deviceMknod then ''m'' else [])"

definition Union :: "Permissions \<Rightarrow> Permissions \<Rightarrow> Permissions" where
  "Union p q = fromSet (toSet p OR toSet q)"

definition Difference :: "Permissions \<Rightarrow> Permissions \<Rightarrow> Permissions" where
  "Difference p q = fromSet (toSet p AND NOT (toSet q))"

definition Intersection :: "Permissions \<Rightarrow> Permissions \<Rightarrow> Permissions" where
  "Intersection p q = fromSet (toSet p AND toSet q)"

definition IsEmpty :: "Permissions \<Rightarrow> bool" where
  "IsEmpty p \<longleftrightarrow> p = []"

definition IsValidPerms :: "Permissions \<Rightarrow> bool" where
  "IsValidPerms p \<longleftrightarrow> p = fromSet (toSet p)"

type_synonym DevType = char

definition WildcardDevice :: DevType where "WildcardDevice = CHR ''a''"
definition BlockDevice :: DevType where "BlockDevice = CHR ''b''"
definition CharDevice :: DevType where "CharDevice = CHR ''c''"
definition FifoDevice :: DevType where "FifoDevice = CHR ''p''"

lemmas dev_types = WildcardDevice_def BlockDevice_def CharDevice_def FifoDevice_def

definition IsValidType :: "DevType \<Rightarrow> bool" where
  "IsValidType t \<longleftrightarrow> t \<in> {WildcardDevice, BlockDevice, CharDevice, FifoDevice}"

definition CanMknod :: "DevType \<Rightarrow> bool" where
  "CanMknod t \<longleftrightarrow> t \<in> {BlockDevice, CharDevice, FifoDevice}"

definition CanCgroup :: "DevType \<Rightarrow> bool" where
  "CanCgroup t \<longleftrightarrow> t \<in> {WildcardDevice, BlockDevice, CharDevice}"

record Rule =
  r_Type :: DevType
  r_Major :: int
  r_Minor :: int
  r_Permissions :: Permissions
  r_Allow :: bool

record Device = Rule +
  d_Path :: string
  d_FileMode :: u32
  d_Uid :: u32
  d_Gid :: u32

definition CgroupString :: "Rule \<Rightarrow> string" where
  "CgroupString d =
     (let major = (if r_Major d = Wildcard then ''*'' else Itoa (r_Major d));
          minor = (if r_Minor d = Wildcard then ''*'' else Itoa (r_Minor d))
      in [r_Type d] @ '' '' @ major @ '':'' @ minor @ '' '' @ r_Permissions d)"

text \<open>
  \<open>mkDev\<close> (devices/device_unix.go): the device number, or an error when a number is a wildcard.
  \<open>unix.Mkdev\<close> is the library's and a parameter.
\<close>

definition Mkdev :: "(u32 \<Rightarrow> u32 \<Rightarrow> u64) \<Rightarrow> Rule \<Rightarrow> string + u64" where
  "Mkdev mk d =
     (if r_Major d = Wildcard \<or> r_Minor d = Wildcard
      then Inl ''cannot mkdev() device with wildcards''
      else Inr (mk (word_of_int (r_Major d)) (word_of_int (r_Minor d))))"

subsection \<open>Permission strings denote sets\<close>

definition permBits :: "char set \<Rightarrow> u64" where
  "permBits A = (if CHR ''r'' \<in> A then 1 else 0) OR (if CHR ''w'' \<in> A then 2 else 0)
     OR (if CHR ''m'' \<in> A then 4 else 0)"

text \<open>The permissions a string denotes, and the canonical string of a set of permissions.\<close>

definition permSet :: "Permissions \<Rightarrow> char set" where
  "permSet p = set p \<inter> set ''rwm''"

definition canonical :: "char set \<Rightarrow> Permissions" where
  "canonical A = filter (\<lambda>c. c \<in> A) ''rwm''"

lemmas device_bits = deviceRead_def deviceWrite_def deviceMknod_def

lemma toSetFrom_OR: "toSetFrom p w = w OR toSetFrom p 0"
proof (induction p arbitrary: w)
  case Nil
  then show ?case by simp
next
  case (Cons c p)
  show ?case
    by (simp add: Cons [of "w OR _"] Cons [of deviceRead] Cons [of deviceWrite]
        Cons [of deviceMknod] Cons [of w] or.assoc)
qed

lemma permBits_Un: "permBits (A \<union> B) = permBits A OR permBits B"
  by (auto simp: permBits_def)

lemma permBits_Int: "permBits (A \<inter> B) = permBits A AND permBits B"
  by (auto simp: permBits_def)

lemma permBits_Diff: "permBits (A - B) = permBits A AND NOT (permBits B)"
  by (auto simp: permBits_def)

lemma toSet_eq: "toSet p = permBits (set p)"
proof (induction p)
  case Nil
  then show ?case by (simp add: toSet_def permBits_def)
next
  case (Cons c p)
  have "toSet (c # p) = permBits {c} OR toSet p"
    using toSetFrom_OR [of p deviceRead] toSetFrom_OR [of p deviceWrite] toSetFrom_OR [of p deviceMknod]
    by (simp add: toSet_def permBits_def device_bits)
  then show ?case using Cons permBits_Un [of "{c}" "set p"] by simp
qed

lemma fromSet_values:
  "fromSet 0 = []" "fromSet 1 = ''r''" "fromSet 2 = ''w''" "fromSet 3 = ''rw''"
  "fromSet 4 = ''m''" "fromSet 5 = ''rm''" "fromSet 6 = ''wm''" "fromSet 7 = ''rwm''"
  by (simp_all add: fromSet_def device_bits)

lemma fromSet_permBits: "fromSet (permBits A) = canonical A"
  unfolding permBits_def canonical_def
  by (cases "CHR ''r'' \<in> A"; cases "CHR ''w'' \<in> A"; cases "CHR ''m'' \<in> A")
     (simp_all add: fromSet_values)

lemma canonical_cong: "A \<inter> set ''rwm'' = B \<inter> set ''rwm'' \<Longrightarrow> canonical A = canonical B"
  unfolding canonical_def by (rule filter_cong [OF refl]) blast

lemma permSet_canonical [perm_simps]: "permSet (canonical A) = A \<inter> set ''rwm''"
  by (auto simp: permSet_def canonical_def)

lemma Union_canonical: "Union p q = canonical (permSet p \<union> permSet q)"
proof -
  have "Union p q = canonical (set p \<union> set q)"
    by (simp add: Union_def toSet_eq permBits_Un [symmetric] fromSet_permBits)
  also have "\<dots> = canonical (permSet p \<union> permSet q)"
    by (rule canonical_cong) (auto simp: permSet_def)
  finally show ?thesis .
qed

lemma Difference_canonical: "Difference p q = canonical (permSet p - permSet q)"
proof -
  have "Difference p q = canonical (set p - set q)"
    by (simp add: Difference_def toSet_eq permBits_Diff [symmetric] fromSet_permBits)
  also have "\<dots> = canonical (permSet p - permSet q)"
    by (rule canonical_cong) (auto simp: permSet_def)
  finally show ?thesis .
qed

lemma Intersection_canonical: "Intersection p q = canonical (permSet p \<inter> permSet q)"
proof -
  have "Intersection p q = canonical (set p \<inter> set q)"
    by (simp add: Intersection_def toSet_eq permBits_Int [symmetric] fromSet_permBits)
  also have "\<dots> = canonical (permSet p \<inter> permSet q)"
    by (rule canonical_cong) (auto simp: permSet_def)
  finally show ?thesis .
qed

lemma IsValidPerms_iff: "IsValidPerms p \<longleftrightarrow> p = canonical (permSet p)"
proof -
  have "fromSet (toSet p) = canonical (set p)" by (simp add: toSet_eq fromSet_permBits)
  also have "\<dots> = canonical (permSet p)" by (rule canonical_cong) (auto simp: permSet_def)
  finally show ?thesis by (simp add: IsValidPerms_def)
qed

lemma permSet_Union [perm_simps]: "permSet (Union p q) = permSet p \<union> permSet q"
  by (simp only: Union_canonical permSet_canonical) (auto simp: permSet_def)

lemma permSet_Difference [perm_simps]: "permSet (Difference p q) = permSet p - permSet q"
  by (simp only: Difference_canonical permSet_canonical) (auto simp: permSet_def)

lemma permSet_Intersection [perm_simps]: "permSet (Intersection p q) = permSet p \<inter> permSet q"
  by (simp only: Intersection_canonical permSet_canonical) (auto simp: permSet_def)

lemma permSet_Nil [simp]: "permSet [] = {}"
  by (simp add: permSet_def)

lemma canonical_empty_iff: "canonical A = [] \<longleftrightarrow> A \<inter> set ''rwm'' = {}"
  by (auto simp: canonical_def)

lemma IsValid_canonical [simp]: "IsValidPerms (canonical A)"
  unfolding IsValidPerms_iff permSet_canonical by (rule canonical_cong) auto

lemma IsValid_Nil [simp]: "IsValidPerms []"
  by (simp add: IsValidPerms_iff canonical_def)

lemma IsValid_eqI: "IsValidPerms p \<Longrightarrow> IsValidPerms q \<Longrightarrow> permSet p = permSet q \<Longrightarrow> p = q"
  by (simp add: IsValidPerms_iff)

lemma IsValid_ops [simp]:
  "IsValidPerms (Union p q)" "IsValidPerms (Difference p q)" "IsValidPerms (Intersection p q)"
  by (simp_all add: Union_canonical Difference_canonical Intersection_canonical)

lemma valid_IsEmpty: "IsValidPerms p \<Longrightarrow> IsEmpty p \<longleftrightarrow> permSet p = {}"
  unfolding IsEmpty_def using IsValid_eqI [of p "[]"] by auto

subsection \<open>Permissions as an algebra of sets\<close>

text \<open>
  What the rule emulator needs of a permission type: operations that act as the set operations
  on what a value denotes. The emulator's updates are stated over this interface.
\<close>

locale perm_algebra =
  fixes sem :: "'p \<Rightarrow> 's set"
    and uni :: "'p \<Rightarrow> 'p \<Rightarrow> 'p" and dif :: "'p \<Rightarrow> 'p \<Rightarrow> 'p" and int :: "'p \<Rightarrow> 'p \<Rightarrow> 'p"
    and emp :: "'p \<Rightarrow> bool" and valid :: "'p \<Rightarrow> bool"
  assumes sem_uni: "sem (uni p q) = sem p \<union> sem q"
    and sem_dif: "sem (dif p q) = sem p - sem q"
    and sem_int: "sem (int p q) = sem p \<inter> sem q"
    and valid_ops: "valid (uni p q)" "valid (dif p q)" "valid (int p q)"
    and sem_emp: "valid p \<Longrightarrow> emp p \<longleftrightarrow> sem p = {}"
    and sem_inj: "valid p \<Longrightarrow> valid q \<Longrightarrow> sem p = sem q \<Longrightarrow> p = q"
begin

text \<open>Dropping what the new value lacks and adding what it gains gives the new value.\<close>

lemma drop_gain: "valid new \<Longrightarrow> uni (dif new old) (dif old (dif old new)) = new"
  by (rule sem_inj) (auto simp: valid_ops sem_uni sem_dif)

lemma dif_emp: "emp (dif p q) \<longleftrightarrow> sem p \<subseteq> sem q"
  by (auto simp: sem_emp valid_ops sem_dif)

lemma int_emp: "emp (int p q) \<longleftrightarrow> sem p \<inter> sem q = {}"
  by (auto simp: sem_emp valid_ops sem_int)

lemma uni_commute: "uni p q = uni q p"
  by (rule sem_inj) (auto simp: valid_ops sem_uni)

lemma uni_idem_left: "uni p (uni p q) = uni p q"
  by (rule sem_inj) (auto simp: valid_ops sem_uni)

end

interpretation perms: perm_algebra permSet Union Difference Intersection IsEmpty IsValidPerms
  by unfold_locales (auto simp: perm_simps valid_IsEmpty intro: IsValid_eqI)

end
