(* ===== verification/DevicesEmulator.thy ===== *)
theory DevicesEmulator imports Devices Bufio "HOL-Library.Char_ord" "HOL-Library.Mapping"
  "HOL-Library.AList_Mapping" begin

text \<open>
  The cgroup v1 devices emulator (cgroups/devices/devices_emulator.go): the exception list of a
  devices cgroup, the effect of a rule on it, its reconstruction from devices.list, and the rules
  that lead from one state to another. The Go map of exceptions is a \<open>mapping\<close>; a lookup of a
  missing key gives the empty permissions, as in Go.
\<close>

datatype deviceMeta = DeviceMeta (node: DevType) (major: int) (minor: int)

text \<open>The order of \<open>orderedEntries\<close>: by major, then minor, then type.\<close>

definition metaLess :: "deviceMeta \<Rightarrow> deviceMeta \<Rightarrow> bool" where
  "metaLess a b \<longleftrightarrow>
     major a < major b \<or>
     (major a = major b \<and> minor a < minor b) \<or>
     (major a = major b \<and> minor a = minor b \<and> node a < node b)"

instantiation deviceMeta :: linorder
begin

definition less_deviceMeta :: "deviceMeta \<Rightarrow> deviceMeta \<Rightarrow> bool" where
  "less_deviceMeta a b \<longleftrightarrow> metaLess a b"

definition less_eq_deviceMeta :: "deviceMeta \<Rightarrow> deviceMeta \<Rightarrow> bool" where
  "less_eq_deviceMeta a b \<longleftrightarrow> a < b \<or> a = (b :: deviceMeta)"

instance
proof
  fix a b c :: deviceMeta
  have trans: "a < c" if "a < b" "b < c" for a b c :: deviceMeta
    using that unfolding less_deviceMeta_def metaLess_def by (elim disjE conjE) (simp_all, (blast intro: less_trans)?)
  show "a < b \<longleftrightarrow> a \<le> b \<and> \<not> b \<le> a"
    unfolding less_eq_deviceMeta_def less_deviceMeta_def metaLess_def by (metis less_asym)
  show "a \<le> a" by (simp add: less_eq_deviceMeta_def)
  show "a \<le> b \<Longrightarrow> b \<le> c \<Longrightarrow> a \<le> c"
    unfolding less_eq_deviceMeta_def by (metis trans)
  show "a \<le> b \<Longrightarrow> b \<le> a \<Longrightarrow> a = b"
    unfolding less_eq_deviceMeta_def less_deviceMeta_def metaLess_def by (metis less_asym)
  show "a \<le> b \<or> b \<le> a"
    unfolding less_eq_deviceMeta_def less_deviceMeta_def metaLess_def by (metis deviceMeta.expand linorder_neqE)
qed

end

record deviceRule =
  dr_meta :: deviceMeta
  dr_perms :: Permissions

type_synonym deviceRules = "(deviceMeta, Permissions) mapping"

definition permsAt :: "deviceRules \<Rightarrow> deviceMeta \<Rightarrow> Permissions" where
  "permsAt r m = Mapping.lookup_default [] r m"

definition orderedEntries :: "deviceRules \<Rightarrow> deviceRule list" where
  "orderedEntries r = map (\<lambda>m. \<lparr>dr_meta = m, dr_perms = permsAt r m\<rparr>) (Mapping.ordered_keys r)"

record Emulator =
  defaultAllow :: bool
  rules :: deviceRules

definition newEmulator :: Emulator where
  "newEmulator = \<lparr>defaultAllow = False, rules = Mapping.empty\<rparr>"

definition IsBlacklist :: "Emulator \<Rightarrow> bool" where
  "IsBlacklist e = defaultAllow e"

definition IsAllowAll :: "Emulator \<Rightarrow> bool" where
  "IsAllowAll e \<longleftrightarrow> IsBlacklist e \<and> Mapping.size (rules e) = 0"

datatype emu_error =
    MalformedRule string
  | UnknownDeviceType string
  | InvalidMajor num_error
  | InvalidMinor num_error
  | BadAccessMode string
  | HoleInWildcard deviceMeta Permissions deviceMeta Permissions
  | NonCgroupType DevType
  | WrapErr string emu_error
  | ReadingLines scan_error

subsection \<open>devices.list lines\<close>

definition parseNumber :: "string \<Rightarrow> num_error + int" where
  "parseNumber s =
     (if s = ''*'' then Inr Wildcard
      else case ParseUint10 32 s of (val, err) \<Rightarrow>
        (case err of Some e \<Rightarrow> Inl e | None \<Rightarrow> Inr (int val)))"

definition isListSep :: "char \<Rightarrow> bool" where
  "isListSep c \<longleftrightarrow> c = CHR '' '' \<or> c = CHR '':''"

text \<open>\<open>Inr None\<close> is the nil rule, "every device with every access mode".\<close>

definition parseListLine :: "string \<Rightarrow> emu_error + deviceRule option" where
  "parseListLine line =
     (case FieldsFunc isListSep line of
        [nd, mj, mn, perms] \<Rightarrow>
          (if nd = ''a'' then Inr None
           else if nd \<noteq> ''b'' \<and> nd \<noteq> ''c'' then Inl (UnknownDeviceType nd)
           else
             (case parseNumber mj of
                Inl e \<Rightarrow> Inl (InvalidMajor e)
              | Inr mjv \<Rightarrow>
                 (case parseNumber mn of
                    Inl e \<Rightarrow> Inl (InvalidMinor e)
                  | Inr mnv \<Rightarrow>
                      if \<not> IsValidPerms perms \<or> IsEmpty perms then Inl (BadAccessMode perms)
                      else Inr (Some \<lparr>dr_meta = DeviceMeta (hd nd) mjv mnv, dr_perms = perms\<rparr>))))
      | _ \<Rightarrow> Inl (MalformedRule line))"

subsection \<open>Adding and removing exceptions\<close>

definition addRule :: "Emulator \<Rightarrow> deviceRule \<Rightarrow> emu_error + Emulator" where
  "addRule e rule =
     (let oldPerms = permsAt (rules e) (dr_meta rule);
          newPerms = Union (dr_perms rule) oldPerms
      in Inr (e\<lparr>rules := Mapping.update (dr_meta rule) newPerms (rules e)\<rparr>))"

text \<open>The wildcard exceptions that cover a given one.\<close>

definition partialMetas :: "deviceMeta \<Rightarrow> deviceMeta list" where
  "partialMetas m =
     [DeviceMeta (node m) Wildcard (minor m),
      DeviceMeta (node m) (major m) Wildcard,
      DeviceMeta (node m) Wildcard Wildcard]"

definition rmRule :: "Emulator \<Rightarrow> deviceRule \<Rightarrow> emu_error + Emulator" where
  "rmRule e rule =
     (case find (\<lambda>pm. dr_meta rule \<noteq> pm \<and>
                      \<not> IsEmpty (Intersection (permsAt (rules e) pm) (dr_perms rule)))
             (partialMetas (dr_meta rule)) of
        Some pm \<Rightarrow> Inl (HoleInWildcard (dr_meta rule) (dr_perms rule) pm (permsAt (rules e) pm))
      | None \<Rightarrow>
          (let newPerms = Difference (permsAt (rules e) (dr_meta rule)) (dr_perms rule) in
           if IsEmpty newPerms
           then Inr (e\<lparr>rules := Mapping.delete (dr_meta rule) (rules e)\<rparr>)
           else Inr (e\<lparr>rules := Mapping.update (dr_meta rule) newPerms (rules e)\<rparr>)))"

definition wrapErr :: "string \<Rightarrow> emu_error + 'a \<Rightarrow> emu_error + 'a" where
  "wrapErr text r = (case r of Inl err \<Rightarrow> Inl (WrapErr text err) | Inr x \<Rightarrow> Inr x)"

definition isWildcardRule :: "deviceRule option \<Rightarrow> bool" where
  "isWildcardRule r = (case r of None \<Rightarrow> True | Some rule \<Rightarrow> node (dr_meta rule) = WildcardDevice)"

definition allow :: "Emulator \<Rightarrow> deviceRule option \<Rightarrow> emu_error + Emulator" where
  "allow e rule =
     (if isWildcardRule rule then Inr \<lparr>defaultAllow = True, rules = Mapping.empty\<rparr>
      else if defaultAllow e
      then wrapErr ''unable to remove 'deny' exception'' (rmRule e (the rule))
      else wrapErr ''unable to add 'allow' exception'' (addRule e (the rule)))"

definition deny :: "Emulator \<Rightarrow> deviceRule option \<Rightarrow> emu_error + Emulator" where
  "deny e rule =
     (if isWildcardRule rule then Inr \<lparr>defaultAllow = False, rules = Mapping.empty\<rparr>
      else if defaultAllow e
      then wrapErr ''unable to add 'deny' exception'' (addRule e (the rule))
      else wrapErr ''unable to remove 'allow' exception'' (rmRule e (the rule)))"

definition Apply :: "Rule \<Rightarrow> Emulator \<Rightarrow> emu_error + Emulator" where
  "Apply rule e =
     (if \<not> CanCgroup (r_Type rule) then Inl (NonCgroupType (r_Type rule))
      else
        (let innerRule =
               (if r_Type rule = WildcardDevice then None
                else Some \<lparr>dr_meta = DeviceMeta (r_Type rule) (r_Major rule) (r_Minor rule),
                           dr_perms = r_Permissions rule\<rparr>)
         in if r_Allow rule then allow e innerRule else deny e innerRule))"

definition addListLine :: "string \<Rightarrow> Emulator \<Rightarrow> emu_error + Emulator" where
  "addListLine line e =
     (case parseListLine line of
        Inl err \<Rightarrow> Inl (WrapErr ''error parsing line'' err)
      | Inr rule \<Rightarrow> wrapErr ''error adding devices.list rule'' (allow e rule))"

definition EmulatorFromList :: "reader \<Rightarrow> emu_error + Emulator" where
  "EmulatorFromList rd =
     (case Scan rd of (lines, serr) \<Rightarrow>
        andThen (foldRes addListLine lines newEmulator)
          (\<lambda>e. case serr of Some err \<Rightarrow> Inl (ReadingLines err) | None \<Rightarrow> Inr e))"

subsection \<open>Transitions\<close>

text \<open>
  The two loops of Transition have one shape: for each entry, in order, a rule for the
  permissions that the other rule set lacks.
\<close>

definition diffEntry :: "bool \<Rightarrow> deviceRules \<Rightarrow> deviceRule \<Rightarrow> Rule list" where
  "diffEntry alw other rule =
     (let meta = dr_meta rule; d = Difference (dr_perms rule) (permsAt other meta)
      in if \<not> IsEmpty d
         then [\<lparr>r_Type = node meta, r_Major = major meta, r_Minor = minor meta,
                r_Permissions = d, r_Allow = alw\<rparr>]
         else [])"

definition diffRules :: "bool \<Rightarrow> deviceRules \<Rightarrow> deviceRules \<Rightarrow> Rule list" where
  "diffRules alw from other = concat (map (diffEntry alw other) (orderedEntries from))"

definition disruptiveRule :: "bool \<Rightarrow> Rule" where
  "disruptiveRule alw =
     \<lparr>r_Type = CHR ''a'', r_Major = -1, r_Minor = -1, r_Permissions = ''rwm'', r_Allow = alw\<rparr>"

definition Transition :: "Emulator \<Rightarrow> Emulator \<Rightarrow> Rule list" where
  "Transition source target =
     (let disruptive = IsBlacklist source \<or> defaultAllow source \<noteq> defaultAllow target;
          oldRules = (if disruptive then Mapping.empty else rules source)
      in (if disruptive then [disruptiveRule (defaultAllow target)] else []) @
         diffRules (defaultAllow target) oldRules (rules target) @
         diffRules (\<not> defaultAllow target) (rules target) oldRules)"

definition Rules :: "Emulator \<Rightarrow> Rule list" where
  "Rules e = Transition newEmulator e"

text \<open>Applying a list of rules in turn, as the callers do.\<close>

definition applyAll :: "Rule list \<Rightarrow> Emulator \<Rightarrow> emu_error + Emulator" where
  "applyAll rs e = foldRes Apply rs e"

subsection \<open>The rule map\<close>

lemma permsAt_update [emu_simps]:
  "permsAt (Mapping.update k v r) m = (if m = k then v else permsAt r m)"
  by (auto simp: permsAt_def Mapping.lookup_default_def lookup_update lookup_update_neq)

lemma permsAt_delete [emu_simps]:
  "permsAt (Mapping.delete k r) m = (if m = k then [] else permsAt r m)"
  by (auto simp: permsAt_def Mapping.lookup_default_def lookup_delete lookup_delete_neq)

lemma permsAt_empty [emu_simps]: "permsAt Mapping.empty m = []"
  by (simp add: permsAt_def Mapping.lookup_default_def lookup_empty)

lemma permsAt_missing: "m \<notin> Mapping.keys r \<Longrightarrow> permsAt r m = []"
  by (auto simp: permsAt_def Mapping.lookup_default_def keys_dom_lookup split: option.splits)

text \<open>The map may be iterated in any order: sorting gives the same entries.\<close>

lemma orderedEntries_any_order:
  assumes "distinct (map dr_meta es)" and "Mapping.keys r = dr_meta ` set es"
    and "\<And>x. x \<in> set es \<Longrightarrow> dr_perms x = permsAt r (dr_meta x)"
  shows "sort_key dr_meta es = orderedEntries r"
proof -
  have keys: "Mapping.ordered_keys r = map dr_meta (sort_key dr_meta es)"
    unfolding Mapping.ordered_keys_def assms(2)
    by (rule sorted_distinct_set_unique) (use assms(1) in \<open>auto simp: distinct_map\<close>)
  have "x = \<lparr>dr_meta = dr_meta x, dr_perms = permsAt r (dr_meta x)\<rparr>" if "x \<in> set es" for x
    using assms(3) [OF that] by (cases x) simp
  then have "map (\<lambda>x. \<lparr>dr_meta = dr_meta x, dr_perms = permsAt r (dr_meta x)\<rparr>) (sort_key dr_meta es) =
    sort_key dr_meta es"
    by (intro map_idI) simp
  then show ?thesis by (simp add: orderedEntries_def keys comp_def)
qed

subsection \<open>What an emulator denotes\<close>

definition permOf :: "Emulator \<Rightarrow> deviceMeta \<Rightarrow> char set" where
  "permOf e m = permSet (permsAt (rules e) m)"

type_synonym absEmulator = "bool \<times> (deviceMeta \<Rightarrow> char set)"

definition absEmu :: "Emulator \<Rightarrow> absEmulator" where
  "absEmu e = (defaultAllow e, permOf e)"

text \<open>
  The abstract machine of a devices cgroup: a default and, per device, the permissions that are
  the exception to it. A wildcard rule resets it; a rule against the default adds exceptions,
  a rule with the default takes them away.
\<close>

fun specApply :: "Rule \<Rightarrow> absEmulator \<Rightarrow> absEmulator" where
  "specApply r (d, P) =
     (if r_Type r = WildcardDevice then (r_Allow r, \<lambda>_. {})
      else let m = DeviceMeta (r_Type r) (r_Major r) (r_Minor r);
               A = permSet (r_Permissions r)
           in (d, P(m := (if r_Allow r = d then P m - A else P m \<union> A))))"

definition emu_inv :: "Emulator \<Rightarrow> bool" where
  "emu_inv e \<longleftrightarrow> finite (Mapping.keys (rules e)) \<and>
     (\<forall>m \<in> Mapping.keys (rules e).
        node m \<in> {BlockDevice, CharDevice} \<and> IsValidPerms (permsAt (rules e) m))"

lemma emu_inv_valid: "emu_inv e \<Longrightarrow> IsValidPerms (permsAt (rules e) m)"
  by (cases "m \<in> Mapping.keys (rules e)") (auto simp: emu_inv_def permsAt_missing)

lemma emu_inv_new [simp]: "emu_inv newEmulator"
  by (simp add: emu_inv_def newEmulator_def)

lemma emu_inv_reset [simp]: "emu_inv \<lparr>defaultAllow = b, rules = Mapping.empty\<rparr>"
  by (simp add: emu_inv_def)

lemma addRule_inv:
  "emu_inv e \<Longrightarrow> node (dr_meta rule) \<in> {BlockDevice, CharDevice} \<Longrightarrow>
   addRule e rule = Inr e' \<Longrightarrow> emu_inv e'"
  by (auto simp: addRule_def emu_inv_def Let_def emu_simps)

lemma rmRule_inv:
  "emu_inv e \<Longrightarrow> node (dr_meta rule) \<in> {BlockDevice, CharDevice} \<Longrightarrow>
   rmRule e rule = Inr e' \<Longrightarrow> emu_inv e'"
  by (auto simp: rmRule_def emu_inv_def Let_def emu_simps split: option.splits if_splits)

lemma addRule_perm:
  "addRule e rule = Inr e' \<Longrightarrow> defaultAllow e' = defaultAllow e \<and>
   permOf e' = (permOf e)(dr_meta rule := permOf e (dr_meta rule) \<union> permSet (dr_perms rule))"
  by (auto simp: addRule_def Let_def permOf_def emu_simps perm_simps fun_eq_iff)

lemma rmRule_perm:
  assumes "rmRule e rule = Inr e'"
  shows "defaultAllow e' = defaultAllow e \<and>
   permOf e' = (permOf e)(dr_meta rule := permOf e (dr_meta rule) - permSet (dr_perms rule))"
proof -
  have "permSet (Difference p q) = {} " if "IsEmpty (Difference p q)" for p q
    using that by (simp add: valid_IsEmpty)
  then show ?thesis using assms
    by (auto simp: rmRule_def Let_def permOf_def emu_simps perm_simps fun_eq_iff
        split: option.splits if_splits)
qed

text \<open>When a removal is refused: a covering wildcard exception holds one of its permissions.\<close>

definition punchesHole :: "absEmulator \<Rightarrow> deviceMeta \<Rightarrow> char set \<Rightarrow> bool" where
  "punchesHole a m A \<longleftrightarrow> (\<exists>pm \<in> set (partialMetas m). pm \<noteq> m \<and> snd a pm \<inter> A \<noteq> {})"

lemma rmRule_fails_iff:
  "(\<exists>err. rmRule e rule = Inl err) \<longleftrightarrow> punchesHole (absEmu e) (dr_meta rule) (permSet (dr_perms rule))"
proof -
  have "(\<exists>err. rmRule e rule = Inl err) \<longleftrightarrow>
    find (\<lambda>pm. dr_meta rule \<noteq> pm \<and>
      \<not> IsEmpty (Intersection (permsAt (rules e) pm) (dr_perms rule))) (partialMetas (dr_meta rule)) \<noteq> None"
    by (auto simp: rmRule_def Let_def split: option.splits)
  then show ?thesis
    unfolding find_None_all punchesHole_def absEmu_def permOf_def perms.int_emp snd_conv by metis
qed

lemma Apply_abs:
  assumes "Apply r e = Inr e'"
  shows "absEmu e' = specApply r (absEmu e)"
proof (cases "r_Type r = WildcardDevice")
  case True
  then show ?thesis using assms
    by (auto simp: Apply_def allow_def deny_def isWildcardRule_def absEmu_def permOf_def
        emu_simps fun_eq_iff split: if_splits)
next
  case False
  let ?rule = "\<lparr>dr_meta = DeviceMeta (r_Type r) (r_Major r) (r_Minor r), dr_perms = r_Permissions r\<rparr>"
  have "(if r_Allow r = defaultAllow e then rmRule e ?rule else addRule e ?rule) = Inr e'"
    using assms False
    by (auto simp: Apply_def allow_def deny_def isWildcardRule_def wrapErr_def
        split: if_splits sum.splits)
  then show ?thesis using False
    by (auto simp: absEmu_def Let_def dest!: addRule_perm rmRule_perm split: if_splits)
qed

lemma Apply_inv:
  assumes "Apply r e = Inr e'" and "emu_inv e"
  shows "emu_inv e'"
proof (cases "r_Type r = WildcardDevice")
  case True
  then show ?thesis using assms
    by (auto simp: Apply_def allow_def deny_def isWildcardRule_def split: if_splits)
next
  case False
  let ?rule = "\<lparr>dr_meta = DeviceMeta (r_Type r) (r_Major r) (r_Minor r), dr_perms = r_Permissions r\<rparr>"
  have t: "node (dr_meta ?rule) \<in> {BlockDevice, CharDevice}"
    using assms(1) False by (auto simp: Apply_def CanCgroup_def split: if_splits)
  have "(if r_Allow r = defaultAllow e then rmRule e ?rule else addRule e ?rule) = Inr e'"
    using assms False
    by (auto simp: Apply_def allow_def deny_def isWildcardRule_def wrapErr_def
        split: if_splits sum.splits)
  then show ?thesis using addRule_inv [OF assms(2) t] rmRule_inv [OF assms(2) t]
    by (auto split: if_splits)
qed

lemma applyAll_inv: "applyAll rs e = Inr e' \<Longrightarrow> emu_inv e \<Longrightarrow> emu_inv e'"
  unfolding applyAll_def by (rule foldRes_invariant [where P = emu_inv]) (auto intro: Apply_inv)

lemma applyAll_abs: "applyAll rs e = Inr e' \<Longrightarrow> absEmu e' = fold specApply rs (absEmu e)"
  by (induction rs arbitrary: e) (auto simp: applyAll_def andThen_Inr_iff dest!: Apply_abs)

subsection \<open>Running the rules of a transition\<close>

lemma set_orderedEntries:
  "finite (Mapping.keys r) \<Longrightarrow> dr_meta ` set (orderedEntries r) = Mapping.keys r"
  by (auto simp: orderedEntries_def image_image Mapping.ordered_keys_def)

lemma orderedEntries_distinct: "distinct (map dr_meta (orderedEntries r))"
  by (simp add: orderedEntries_def comp_def Mapping.ordered_keys_def)

lemma orderedEntries_perms: "x \<in> set (orderedEntries r) \<Longrightarrow> dr_perms x = permsAt r (dr_meta x)"
  by (auto simp: orderedEntries_def)

lemma orderedEntries_empty [simp]: "orderedEntries Mapping.empty = []"
  by (simp add: orderedEntries_def Mapping.ordered_keys_def)

lemma diffEntry_spec:
  assumes "node (dr_meta x) \<noteq> WildcardDevice"
  shows "fold specApply (diffEntry alw other x) (d, P) =
    (let m = dr_meta x; A = permSet (dr_perms x) - permSet (permsAt other m)
     in (d, P(m := (if alw = d then P m - A else P m \<union> A))))"
proof -
  let ?A = "permSet (dr_perms x) - permSet (permsAt other (dr_meta x))"
  have "IsEmpty (Difference (dr_perms x) (permsAt other (dr_meta x))) \<longleftrightarrow> ?A = {}"
    by (simp add: valid_IsEmpty perm_simps)
  then show ?thesis using assms
    by (cases "?A = {}") (simp_all add: diffEntry_def Let_def perm_simps Diff_eq_empty_iff [THEN iffD2])
qed

text \<open>The effect of one loop of Transition on the denoted state.\<close>

lemma diffEntries_spec:
  assumes "distinct (map dr_meta xs)" and "\<And>x. x \<in> set xs \<Longrightarrow> node (dr_meta x) \<noteq> WildcardDevice"
    and "\<And>x. x \<in> set xs \<Longrightarrow> dr_perms x = p (dr_meta x)"
  shows "fold specApply (concat (map (diffEntry alw other) xs)) (d, P) =
    (d, \<lambda>m. if m \<in> dr_meta ` set xs
             then (if alw = d then P m - (permSet (p m) - permSet (permsAt other m))
                   else P m \<union> (permSet (p m) - permSet (permsAt other m)))
             else P m)"
  using assms
proof (induction xs arbitrary: P)
  case Nil
  then show ?case by simp
next
  case (Cons x xs)
  have n: "node (dr_meta x) \<noteq> WildcardDevice" and px: "dr_perms x = p (dr_meta x)"
    using Cons.prems by auto
  have dx: "dr_meta x \<notin> dr_meta ` set xs" using Cons.prems(1) by simp
  show ?case
    using Cons.prems dx
    by (auto simp: diffEntry_spec [OF n] Let_def px Cons.IH fun_eq_iff)
qed

lemma permSet_missing: "m \<notin> Mapping.keys r \<Longrightarrow> permSet (permsAt r m) = {}"
  by (simp add: permsAt_missing)

definition rules_ok :: "deviceRules \<Rightarrow> bool" where
  "rules_ok r \<longleftrightarrow> finite (Mapping.keys r) \<and>
     (\<forall>m \<in> Mapping.keys r. node m \<noteq> WildcardDevice \<and> CanCgroup (node m))"

lemma emu_inv_rules_ok: "emu_inv e \<Longrightarrow> rules_ok (rules e)"
  by (auto simp: emu_inv_def rules_ok_def dev_types CanCgroup_def)

lemma rules_ok_empty [simp]: "rules_ok Mapping.empty"
  by (simp add: rules_ok_def)

lemma diffRules_spec:
  assumes "rules_ok from"
  shows "fold specApply (diffRules alw from other) (d, P) =
    (d, \<lambda>m. if alw = d then P m - (permSet (permsAt from m) - permSet (permsAt other m))
            else P m \<union> (permSet (permsAt from m) - permSet (permsAt other m)))"
proof -
  have keys: "dr_meta ` set (orderedEntries from) = Mapping.keys from"
    using assms by (simp add: set_orderedEntries rules_ok_def)
  have "fold specApply (diffRules alw from other) (d, P) =
    (d, \<lambda>m. if m \<in> dr_meta ` set (orderedEntries from)
             then (if alw = d then P m - (permSet (permsAt from m) - permSet (permsAt other m))
                   else P m \<union> (permSet (permsAt from m) - permSet (permsAt other m)))
             else P m)"
    unfolding diffRules_def
  proof (rule diffEntries_spec [where p = "permsAt from"])
    fix x assume "x \<in> set (orderedEntries from)"
    then have "dr_meta x \<in> Mapping.keys from" using keys by blast
    then show "node (dr_meta x) \<noteq> WildcardDevice" using assms by (simp add: rules_ok_def)
  qed (simp_all add: orderedEntries_distinct orderedEntries_perms)
  then show ?thesis unfolding keys by (auto simp: fun_eq_iff permSet_missing)
qed

lemma disruptive_spec: "fold specApply [disruptiveRule b] a = (b, \<lambda>_. {})"
  by (cases a) (simp add: disruptiveRule_def WildcardDevice_def)

text \<open>In the denoted states a transition leads exactly to its target.\<close>

lemma Transition_spec:
  assumes "emu_inv s" and "emu_inv t"
  shows "fold specApply (Transition s t) (absEmu s) = absEmu t"
proof (cases "IsBlacklist s \<or> defaultAllow s \<noteq> defaultAllow t")
  case True
  then show ?thesis using assms
    by (simp add: Transition_def disruptive_spec [simplified] diffRules_spec emu_inv_rules_ok
        absEmu_def permOf_def emu_simps fun_eq_iff del: specApply.simps)
next
  case False
  then show ?thesis using assms
    by (auto simp: Transition_def diffRules_spec emu_inv_rules_ok absEmu_def permOf_def
        IsBlacklist_def Let_def fun_eq_iff)
qed

subsection \<open>When rules are refused\<close>

lemma Apply_ok_iff:
  "(\<exists>e'. Apply r e = Inr e') \<longleftrightarrow>
     CanCgroup (r_Type r) \<and>
     (r_Type r = WildcardDevice \<or> r_Allow r \<noteq> defaultAllow e \<or>
      \<not> punchesHole (absEmu e) (DeviceMeta (r_Type r) (r_Major r) (r_Minor r)) (permSet (r_Permissions r)))"
proof -
  let ?rule = "\<lparr>dr_meta = DeviceMeta (r_Type r) (r_Major r) (r_Minor r), dr_perms = r_Permissions r\<rparr>"
  have rm: "(\<exists>e'. rmRule e ?rule = Inr e') \<longleftrightarrow>
    \<not> punchesHole (absEmu e) (dr_meta ?rule) (permSet (dr_perms ?rule))"
    using rmRule_fails_iff [of e ?rule] by (cases "rmRule e ?rule") auto
  have add: "\<exists>e'. addRule e ?rule = Inr e'" by (simp add: addRule_def Let_def)
  have w: "(\<exists>e'. wrapErr t x = Inr e') \<longleftrightarrow> (\<exists>e'. x = Inr e')" for t and x :: "emu_error + Emulator"
    by (cases x) (auto simp: wrapErr_def)
  show ?thesis
  proof (cases "CanCgroup (r_Type r) \<and> r_Type r \<noteq> WildcardDevice")
    case False
    then show ?thesis by (auto simp: Apply_def allow_def deny_def isWildcardRule_def)
  next
    case True
    then have "(\<exists>e'. Apply r e = Inr e') \<longleftrightarrow>
      (if r_Allow r = defaultAllow e then \<exists>e'. rmRule e ?rule = Inr e' else \<exists>e'. addRule e ?rule = Inr e')"
      by (cases "r_Allow r"; cases "defaultAllow e")
        (simp_all add: Apply_def allow_def deny_def isWildcardRule_def w)
    then show ?thesis using True rm add by simp
  qed
qed

text \<open>No exception shares a permission with a wildcard exception that covers it.\<close>

definition hole_free :: "(deviceMeta \<Rightarrow> char set) \<Rightarrow> bool" where
  "hole_free P \<longleftrightarrow> (\<forall>m. \<forall>pm \<in> set (partialMetas m). pm \<noteq> m \<longrightarrow> P pm \<inter> P m = {})"

abbreviation ruleMeta :: "Rule \<Rightarrow> deviceMeta" where
  "ruleMeta r \<equiv> DeviceMeta (r_Type r) (r_Major r) (r_Minor r)"

lemma additions_ok:
  assumes "\<forall>r \<in> set rs. CanCgroup (r_Type r) \<and> r_Type r \<noteq> WildcardDevice \<and> r_Allow r \<noteq> d"
    and "defaultAllow e = d"
  shows "\<exists>e'. applyAll rs e = Inr e' \<and> defaultAllow e' = d"
  using assms
proof (induction rs arbitrary: e)
  case Nil
  then show ?case by (simp add: applyAll_def)
next
  case (Cons r rs)
  then obtain u where u: "Apply r e = Inr u" using Apply_ok_iff [of r e] by auto
  then have "absEmu u = specApply r (absEmu e)" by (rule Apply_abs)
  then have "defaultAllow u = d" using Cons.prems by (auto simp: absEmu_def Let_def split: if_splits)
  then obtain e' where "applyAll rs u = Inr e'" "defaultAllow e' = d" using Cons by auto
  with u show ?case by (simp add: applyAll_def)
qed

lemma removals_ok:
  assumes "hole_free P"
    and "\<forall>r \<in> set rs. CanCgroup (r_Type r) \<and> r_Type r \<noteq> WildcardDevice \<and> r_Allow r = d \<and>
           permSet (r_Permissions r) \<subseteq> P (ruleMeta r)"
    and "defaultAllow e = d" and "\<forall>m. permOf e m \<subseteq> P m"
  shows "\<exists>e'. applyAll rs e = Inr e' \<and> defaultAllow e' = d"
  using assms(2-)
proof (induction rs arbitrary: e)
  case Nil
  then show ?case by (simp add: applyAll_def)
next
  case (Cons r rs)
  have "\<not> punchesHole (absEmu e) (ruleMeta r) (permSet (r_Permissions r))"
  proof
    assume "punchesHole (absEmu e) (ruleMeta r) (permSet (r_Permissions r))"
    then obtain pm c where pm: "pm \<in> set (partialMetas (ruleMeta r))" "pm \<noteq> ruleMeta r"
      "c \<in> permOf e pm" "c \<in> permSet (r_Permissions r)"
      by (auto simp: punchesHole_def absEmu_def)
    then have "c \<in> P pm \<inter> P (ruleMeta r)" using Cons.prems by auto
    then show False using assms(1) pm(1,2) unfolding hole_free_def by blast
  qed
  then obtain u where u: "Apply r e = Inr u" using Cons.prems Apply_ok_iff [of r e] by auto
  then have a: "absEmu u = specApply r (absEmu e)" by (rule Apply_abs)
  then have "defaultAllow u = d" "\<forall>m. permOf u m \<subseteq> P m"
    using Cons.prems by (auto simp: absEmu_def Let_def split: if_splits)
  then obtain e' where "applyAll rs u = Inr e'" "defaultAllow e' = d"
    using Cons.IH [of u] Cons.prems(1) by (meson list.set_intros(2))
  with u show ?case by (simp add: applyAll_def)
qed

lemma applyAll_append: "applyAll (rs @ rs') e = andThen (applyAll rs e) (applyAll rs')"
  unfolding applyAll_def by (simp add: foldRes_append)

lemma diffRules_mem:
  assumes "rules_ok from" and "r \<in> set (diffRules alw from other)"
  shows "CanCgroup (r_Type r) \<and> r_Type r \<noteq> WildcardDevice \<and> r_Allow r = alw \<and>
    permSet (r_Permissions r) = permSet (permsAt from (ruleMeta r)) - permSet (permsAt other (ruleMeta r)) \<and>
    permSet (r_Permissions r) \<noteq> {}"
proof -
  obtain x where x: "x \<in> set (orderedEntries from)" "r \<in> set (diffEntry alw other x)"
    using assms(2) by (auto simp: diffRules_def)
  then have "dr_meta x \<in> Mapping.keys from"
    using set_orderedEntries [where r = "from"] assms(1) by (auto simp: rules_ok_def)
  then have "CanCgroup (node (dr_meta x)) \<and> node (dr_meta x) \<noteq> WildcardDevice"
    using assms(1) by (simp add: rules_ok_def)
  moreover have "dr_perms x = permsAt from (dr_meta x)" using x(1) by (rule orderedEntries_perms)
  ultimately show ?thesis using x(2)
    by (auto simp: diffEntry_def Let_def perm_simps perms.dif_emp split: if_splits)
qed

lemma Transition_disruptive:
  "IsBlacklist s \<or> defaultAllow s \<noteq> defaultAllow t \<Longrightarrow>
   Transition s t = [disruptiveRule (defaultAllow t)] @
     diffRules (\<not> defaultAllow t) (rules t) Mapping.empty"
  by (auto simp: Transition_def diffRules_def Let_def)

lemma Transition_quiet:
  "\<not> (IsBlacklist s \<or> defaultAllow s \<noteq> defaultAllow t) \<Longrightarrow>
   Transition s t = diffRules False (rules s) (rules t) @ diffRules True (rules t) (rules s)"
  by (auto simp: Transition_def IsBlacklist_def Let_def)

lemma Transition_runs:
  assumes "emu_inv s" and "emu_inv t"
    and "IsBlacklist s \<or> defaultAllow s \<noteq> defaultAllow t \<or> hole_free (permOf s)"
  shows "\<exists>e. applyAll (Transition s t) s = Inr e"
proof (cases "IsBlacklist s \<or> defaultAllow s \<noteq> defaultAllow t")
  case True
  let ?e0 = "\<lparr>defaultAllow = defaultAllow t, rules = Mapping.empty\<rparr>"
  have ad: "\<forall>r \<in> set (diffRules (\<not> defaultAllow t) (rules t) Mapping.empty).
      CanCgroup (r_Type r) \<and> r_Type r \<noteq> WildcardDevice \<and> r_Allow r \<noteq> defaultAllow t"
    using diffRules_mem [OF emu_inv_rules_ok [OF assms(2)]] by blast
  have "applyAll [disruptiveRule (defaultAllow t)] s = Inr ?e0"
    by (simp add: applyAll_def disruptiveRule_def Apply_def CanCgroup_def dev_types allow_def deny_def
        isWildcardRule_def)
  moreover have "\<exists>e. applyAll (diffRules (\<not> defaultAllow t) (rules t) Mapping.empty) ?e0 = Inr e"
    using additions_ok [OF ad, of ?e0] by auto
  ultimately show ?thesis unfolding Transition_disruptive [OF True] applyAll_append by auto
next
  case False
  then have d: "defaultAllow s = False" "defaultAllow t = False" by (auto simp: IsBlacklist_def)
  have "\<exists>e'. applyAll (diffRules False (rules s) (rules t)) s = Inr e' \<and> defaultAllow e' = False"
  proof (rule removals_ok [where P = "permOf s"])
    show "hole_free (permOf s)" using assms(3) False by blast
    show "\<forall>r \<in> set (diffRules False (rules s) (rules t)).
        CanCgroup (r_Type r) \<and> r_Type r \<noteq> WildcardDevice \<and> r_Allow r = False \<and>
        permSet (r_Permissions r) \<subseteq> permOf s (ruleMeta r)"
      using diffRules_mem [OF emu_inv_rules_ok [OF assms(1)]] d(2) by (fastforce simp: permOf_def)
  qed (simp_all add: d)
  then obtain u where u: "applyAll (diffRules False (rules s) (rules t)) s = Inr u"
    "defaultAllow u = False" by blast
  have ad: "\<forall>r \<in> set (diffRules True (rules t) (rules s)).
      CanCgroup (r_Type r) \<and> r_Type r \<noteq> WildcardDevice \<and> r_Allow r \<noteq> False"
    using diffRules_mem [OF emu_inv_rules_ok [OF assms(2)]] d(2) by blast
  obtain e where "applyAll (diffRules True (rules t) (rules s)) u = Inr e"
    using additions_ok [OF ad u(2)] by blast
  then show ?thesis unfolding Transition_quiet [OF False] applyAll_append using u(1) by simp
qed

subsection \<open>Reading devices.list\<close>

definition num_ok :: "int \<Rightarrow> bool" where
  "num_ok i \<longleftrightarrow> i = Wildcard \<or> (0 \<le> i \<and> i < 2 ^ 32)"

definition list_rule :: "Rule \<Rightarrow> bool" where
  "list_rule r \<longleftrightarrow> r_Type r \<in> {BlockDevice, CharDevice} \<and> num_ok (r_Major r) \<and> num_ok (r_Minor r) \<and>
     IsValidPerms (r_Permissions r) \<and> r_Permissions r \<noteq> []"

definition printNumber :: "int \<Rightarrow> string" where
  "printNumber i = (if i = Wildcard then ''*'' else Itoa i)"

lemma CgroupString_eq:
  "CgroupString r = [r_Type r] @ CHR '' '' # (printNumber (r_Major r) @
     CHR '':'' # (printNumber (r_Minor r) @ CHR '' '' # r_Permissions r))"
  by (simp add: CgroupString_def printNumber_def Let_def)

lemma printNumber_ne [simp]: "printNumber i \<noteq> []"
  by (simp add: printNumber_def)

lemma printNumber_no_sep: "c \<in> set (printNumber i) \<Longrightarrow> \<not> isListSep c \<and> c \<noteq> nl \<and> c \<noteq> cr"
  using Itoa_chars [of i] by (auto simp: printNumber_def isListSep_def split: if_splits)

lemma parseNumber_printNumber: "num_ok i \<Longrightarrow> parseNumber (printNumber i) = Inr i"
proof (cases "i = Wildcard")
  case True
  then show ?thesis by (simp add: parseNumber_def printNumber_def)
next
  case False
  assume "num_ok i"
  then have i: "0 \<le> i" "i < 2 ^ 32" using False by (auto simp: num_ok_def)
  then have "nat i < 2 ^ 32" by simp
  then have "ParseUint10 32 (utoa (nat i)) = (nat i, None)" by (rule ParseUint10_utoa)
  moreover have "Itoa i = utoa (nat i)" using i by (simp add: Itoa_def)
  moreover have "utoa (nat i) \<noteq> ''*''"
    using utoa_digits [of "nat i"] digit_char_printable by fastforce
  ultimately show ?thesis using False i by (simp add: parseNumber_def printNumber_def)
qed

lemma valid_perms_chars: "IsValidPerms p \<Longrightarrow> set p \<subseteq> set ''rwm''"
  by (metis IsValidPerms_iff canonical_def filter_is_subset)

lemma valid_perms_length: "IsValidPerms p \<Longrightarrow> length p \<le> 3"
proof -
  assume "IsValidPerms p"
  then have "p = canonical (permSet p)" by (simp add: IsValidPerms_iff)
  then show ?thesis using length_filter_le [of "\<lambda>c. c \<in> permSet p" "''rwm''"] unfolding canonical_def by simp
qed

lemma parseListLine_CgroupString:
  assumes "list_rule r"
  shows "parseListLine (CgroupString r) = Inr (Some \<lparr>dr_meta = ruleMeta r, dr_perms = r_Permissions r\<rparr>)"
proof -
  have t: "\<not> isListSep (r_Type r)" "isListSep CHR '' ''" "isListSep CHR '':''"
    using assms by (auto simp: list_rule_def isListSep_def dev_types)
  have p: "c \<in> set (r_Permissions r) \<Longrightarrow> \<not> isListSep c" for c
    using assms valid_perms_chars [of "r_Permissions r"] by (auto simp: list_rule_def isListSep_def)
  have "FieldsFunc isListSep (CgroupString r) =
    [[r_Type r], printNumber (r_Major r), printNumber (r_Minor r), r_Permissions r]"
    unfolding CgroupString_eq using t p assms printNumber_no_sep
    by (simp only: FieldsFunc_simps list_rule_def) (simp add: FieldsFunc_simps t p printNumber_no_sep
        FieldsFunc_field [of "[r_Type r]", simplified])
  then show ?thesis using assms
    by (auto simp: parseListLine_def list_rule_def parseNumber_printNumber IsEmpty_def dev_types)
qed

lemma addListLine_CgroupString:
  assumes "list_rule r" and "r_Allow r"
  shows "addListLine (CgroupString r) e = (case Apply r e of
     Inl err \<Rightarrow> Inl (WrapErr ''error adding devices.list rule'' err) | Inr e' \<Rightarrow> Inr e')"
  using assms
  by (auto simp: addListLine_def parseListLine_CgroupString Apply_def list_rule_def CanCgroup_def
      dev_types wrapErr_def)

lemma foldRes_addListLine:
  assumes "\<forall>r \<in> set rs. list_rule r \<and> r_Allow r" and "applyAll rs e = Inr e'"
  shows "foldRes addListLine (map CgroupString rs) e = Inr e'"
  using assms
proof (induction rs arbitrary: e)
  case Nil
  then show ?case by (simp add: applyAll_def)
next
  case (Cons r rs)
  then obtain u where u: "Apply r e = Inr u" "applyAll rs u = Inr e'"
    by (auto simp: applyAll_def andThen_Inr_iff)
  then show ?case using Cons by (simp add: addListLine_CgroupString)
qed

lemma printNumber_length: "num_ok i \<Longrightarrow> length (printNumber i) \<le> 10"
proof -
  assume "num_ok i"
  then have "i = Wildcard \<or> 0 \<le> i \<and> nat i < 10 ^ 10" by (auto simp: num_ok_def)
  then show ?thesis using utoa_length [of "nat i" 10] by (auto simp: printNumber_def Itoa_def)
qed

lemma CgroupString_line:
  assumes "list_rule r"
  shows "plain_line (CgroupString r) \<and> length (CgroupString r) < maxScanTokenSize"
proof
  have "nl \<notin> set (printNumber i)" "cr \<notin> set (printNumber i)" for i
    using printNumber_no_sep by blast+
  then show "plain_line (CgroupString r)"
    using assms valid_perms_chars [of "r_Permissions r"]
    by (auto simp: CgroupString_eq plain_line_def list_rule_def dev_types)
  have "length (printNumber (r_Major r)) \<le> 10" "length (printNumber (r_Minor r)) \<le> 10"
    "length (r_Permissions r) \<le> 3"
    using assms by (simp_all add: list_rule_def printNumber_length valid_perms_length)
  then show "length (CgroupString r) < maxScanTokenSize"
    by (simp add: CgroupString_eq maxScanTokenSize_def)
qed

text \<open>The rules of an allow-list as lines, and reading them.\<close>

lemma Rules_allow_list: "\<not> defaultAllow t \<Longrightarrow> Rules t = diffRules True (rules t) Mapping.empty"
  unfolding Rules_def
  by (subst Transition_quiet) (auto simp: IsBlacklist_def newEmulator_def diffRules_def)

lemma diffRules_list_rule:
  assumes "emu_inv t" and "\<forall>m \<in> Mapping.keys (rules t). num_ok (major m) \<and> num_ok (minor m)"
    and "r \<in> set (diffRules alw (rules t) other)"
  shows "list_rule r \<and> r_Allow r = alw"
proof -
  from assms(3) obtain x where x: "x \<in> set (orderedEntries (rules t))" "r \<in> set (diffEntry alw other x)"
    by (auto simp: diffRules_def)
  then have "dr_meta x \<in> Mapping.keys (rules t)"
    using set_orderedEntries [of "rules t"] assms(1) by (auto simp: emu_inv_def)
  then show ?thesis using x(2) assms
    by (auto simp: diffEntry_def Let_def list_rule_def emu_inv_def IsEmpty_def split: if_splits)
qed

lemma EmulatorFromList_rules:
  assumes "emu_inv t" and "\<not> defaultAllow t"
    and "\<forall>m \<in> Mapping.keys (rules t). num_ok (major m) \<and> num_ok (minor m)"
  shows "\<exists>e. applyAll (Rules t) newEmulator = Inr e \<and> absEmu e = absEmu t \<and>
    EmulatorFromList \<lparr>rd_data = unlines (map CgroupString (Rules t)), rd_err = None\<rparr> = Inr e"
proof -
  have lr: "list_rule r \<and> r_Allow r" if "r \<in> set (Rules t)" for r
    using that diffRules_list_rule [OF assms(1,3), of r True Mapping.empty]
    by (simp add: Rules_allow_list [OF assms(2)])
  obtain e where e: "applyAll (Rules t) newEmulator = Inr e" "absEmu e = absEmu t"
  proof -
    have "hole_free (permOf newEmulator)"
      by (simp add: hole_free_def permOf_def newEmulator_def emu_simps)
    then show ?thesis
      using that Transition_runs [OF emu_inv_new assms(1)] Transition_spec [OF emu_inv_new assms(1)]
        applyAll_abs unfolding Rules_def by metis
  qed
  have "scanLines (unlines (map CgroupString (Rules t))) = (map CgroupString (Rules t), False)"
    using lr CgroupString_line by (intro scanLines_unlines) auto
  moreover have "foldRes addListLine (map CgroupString (Rules t)) newEmulator = Inr e"
    using lr e(1) by (intro foldRes_addListLine) auto
  ultimately show ?thesis using e by (simp add: EmulatorFromList_def Scan_def)
qed

subsection \<open>Properties\<close>

text \<open>C9. Apply refines the abstract devices cgroup: a rule that is accepted has exactly the effect of
  the abstract machine on the default and on the permissions of every device, and the exception
  list stays well formed (finite, block and character devices only, canonical permissions).\<close>

theorem apply_refines:
  assumes "Apply r e = Inr e'" and "emu_inv e"
  shows "absEmu e' = specApply r (absEmu e) \<and> emu_inv e'"
  using Apply_abs [OF assms(1)] Apply_inv [OF assms] by blast

definition exampleRule :: "Permissions \<Rightarrow> Rule" where
  "exampleRule p = \<lparr>r_Type = CHR ''c'', r_Major = 1, r_Minor = 3, r_Permissions = p, r_Allow = True\<rparr>"

definition exampleEmulator :: "Permissions \<Rightarrow> Emulator" where
  "exampleEmulator p =
     \<lparr>defaultAllow = False, rules = Mapping.update (DeviceMeta CHR ''c'' 1 3) p Mapping.empty\<rparr>"

lemma exampleEmulator_perm:
  "permOf (exampleEmulator p) m = (if m = DeviceMeta CHR ''c'' 1 3 then permSet p else {})"
  by (simp add: permOf_def exampleEmulator_def emu_simps)

lemma exampleEmulator_inv: "IsValidPerms p \<Longrightarrow> emu_inv (exampleEmulator p)"
  by (simp add: emu_inv_def exampleEmulator_def emu_simps dev_types)

theorem apply_refines_witness:
  "\<exists>e'. Apply (exampleRule ''wr'') newEmulator = Inr e' \<and>
     permOf e' (DeviceMeta CHR ''c'' 1 3) = {CHR ''r'', CHR ''w''}"
proof -
  have "\<exists>e'. Apply (exampleRule ''wr'') newEmulator = Inr e'"
    by (simp add: Apply_def exampleRule_def CanCgroup_def dev_types allow_def isWildcardRule_def
        newEmulator_def wrapErr_def addRule_def)
  then obtain e' where ok: "Apply (exampleRule ''wr'') newEmulator = Inr e'" ..
  have new: "absEmu newEmulator = (False, \<lambda>_. {})"
    by (simp add: absEmu_def newEmulator_def permOf_def emu_simps fun_eq_iff)
  have "permOf e' = snd (absEmu e')" by (simp add: absEmu_def)
  also have "\<dots> = snd (specApply (exampleRule ''wr'') (False, \<lambda>_. {}))"
    using apply_refines [OF ok emu_inv_new] unfolding new by simp
  finally have "permOf e' (DeviceMeta CHR ''c'' 1 3) = permSet ''wr''"
    by (simp add: exampleRule_def dev_types)
  moreover have "permSet ''wr'' = {CHR ''r'', CHR ''w''}" by (auto simp: permSet_def)
  ultimately show ?thesis using ok by blast
qed

text \<open>C10. When Apply refuses a rule: the type is not one of a, b, c, or the rule takes permissions
  away from a device while a wildcard exception that covers the device still holds one of them.\<close>

theorem apply_refused_iff:
  "(\<exists>err. Apply r e = Inl err) \<longleftrightarrow>
     \<not> CanCgroup (r_Type r) \<or>
     (r_Type r \<noteq> WildcardDevice \<and> r_Allow r = defaultAllow e \<and>
      (\<exists>pm \<in> set (partialMetas (DeviceMeta (r_Type r) (r_Major r) (r_Minor r))).
         pm \<noteq> DeviceMeta (r_Type r) (r_Major r) (r_Minor r) \<and>
         permOf e pm \<inter> permSet (r_Permissions r) \<noteq> {}))"
  using Apply_ok_iff [of r e]
  by (cases "Apply r e") (auto simp: punchesHole_def absEmu_def)

text \<open>A denied device below a wildcard exception.\<close>

theorem apply_refused_iff_witness:
  "\<exists>err. Apply ((exampleRule ''r'')\<lparr>r_Allow := False\<rparr>)
     \<lparr>defaultAllow = False, rules = Mapping.update (DeviceMeta CHR ''c'' Wildcard 3) ''r'' Mapping.empty\<rparr> = Inl err"
  by (subst apply_refused_iff)
     (simp add: exampleRule_def partialMetas_def permOf_def emu_simps dev_types permSet_def Wildcard_def)





text \<open>Reading devices.list back: the lines CgroupString prints for the rules of an allow-list,
  with numbers that are wildcards or 32-bit, are read back to an emulator with the same state.\<close>

theorem devices_list_roundtrip:
  assumes "emu_inv t" and "\<not> defaultAllow t"
    and "\<forall>m \<in> Mapping.keys (rules t). num_ok (major m) \<and> num_ok (minor m)"
  shows "\<exists>e. EmulatorFromList \<lparr>rd_data = unlines (map CgroupString (Rules t)), rd_err = None\<rparr> = Inr e \<and>
    absEmu e = absEmu t"
  using EmulatorFromList_rules [OF assms] by blast

theorem devices_list_roundtrip_witness:
  "\<exists>e. EmulatorFromList \<lparr>rd_data = unlines (map CgroupString (Rules (exampleEmulator ''rw''))), rd_err = None\<rparr> = Inr e \<and>
     permOf e (DeviceMeta CHR ''c'' 1 3) = {CHR ''r'', CHR ''w''}"
proof -
  have "emu_inv (exampleEmulator ''rw'')"
    by (rule exampleEmulator_inv) (simp add: IsValidPerms_iff canonical_def permSet_def)
  moreover have "\<not> defaultAllow (exampleEmulator ''rw'')"
    "\<forall>m \<in> Mapping.keys (rules (exampleEmulator ''rw'')). num_ok (major m) \<and> num_ok (minor m)"
    by (simp_all add: exampleEmulator_def num_ok_def)
  ultimately obtain e where
    "EmulatorFromList \<lparr>rd_data = unlines (map CgroupString (Rules (exampleEmulator ''rw''))), rd_err = None\<rparr> = Inr e"
    "absEmu e = absEmu (exampleEmulator ''rw'')"
    using devices_list_roundtrip by blast
  then show ?thesis by (auto simp: absEmu_def exampleEmulator_perm permSet_def)
qed

end
