(* ===== verification/DeviceFilter.thy ===== *)
theory DeviceFilter imports DevicesEmulator begin

text \<open>
  The cgroup v2 device filter (cgroups/ebpf/devicefilter/devicefilter.go): the eBPF program
  generated from a list of device rules. The instructions are the calls the code makes to
  package \<open>asm\<close>; what an instruction does is the eBPF machine's, a parameter \<open>ex\<close> of the
  runner, and \<open>ebpf_isa\<close> states the documented effect of the instructions used here: 32-bit
  operations clear the upper half of the register, a conditional jump compares all 64 bits with
  the sign-extended immediate.
\<close>

datatype reg = R0 | R1 | R2 | R3 | R4 | R5

datatype opcode =
    LoadMemWord reg reg int
  | And32 reg u32
  | RSh32 reg u32
  | Mov32Imm reg u32
  | Mov32Reg reg reg
  | JNEImm reg u32 string
  | JNEReg reg reg string
  | Return

text \<open>An instruction and the symbol (label) it carries, if any.\<close>

datatype insn = Insn (sym: "string option") (opc: opcode)

abbreviation plain :: "opcode \<Rightarrow> insn" where "plain c \<equiv> Insn None c"

text \<open>\<open>Instruction.Sym\<close>\<close>

definition setSym :: "string \<Rightarrow> insn \<Rightarrow> insn" where
  "setSym s i = Insn (Some s) (opc i)"

record program =
  insts :: "insn list"
  p_defaultAllow :: bool
  blockID :: int

datatype filter_error =
    EmulatorError emu_error
  | BadWildcard nat
  | NoOpRule nat
  | ProgramFinalized
  | InvalidType DevType
  | InvalidMajorNumber int
  | InvalidMinorNumber int
  | UnknownAccess char

text \<open>Constants of the kernel's bpf interface (\<open>BPF_DEVCG_*\<close>).\<close>

definition BPF_DEVCG_DEV_BLOCK :: u32 where "BPF_DEVCG_DEV_BLOCK = 1"
definition BPF_DEVCG_DEV_CHAR :: u32 where "BPF_DEVCG_DEV_CHAR = 2"
definition BPF_DEVCG_ACC_MKNOD :: u32 where "BPF_DEVCG_ACC_MKNOD = 1"
definition BPF_DEVCG_ACC_READ :: u32 where "BPF_DEVCG_ACC_READ = 2"
definition BPF_DEVCG_ACC_WRITE :: u32 where "BPF_DEVCG_ACC_WRITE = 4"

lemmas bpf_consts = BPF_DEVCG_DEV_BLOCK_def BPF_DEVCG_DEV_CHAR_def BPF_DEVCG_ACC_MKNOD_def
  BPF_DEVCG_ACC_READ_def BPF_DEVCG_ACC_WRITE_def

definition initInsts :: "insn list" where
  "initInsts =
     [plain (LoadMemWord R2 R1 0), plain (And32 R2 0xFFFF),
      plain (LoadMemWord R3 R1 0), plain (RSh32 R3 16),
      plain (LoadMemWord R4 R1 4),
      plain (LoadMemWord R5 R1 8)]"

definition blockSym :: "int \<Rightarrow> string" where
  "blockSym k = ''block-'' @ Itoa k"

definition acceptBlock :: "bool \<Rightarrow> insn list" where
  "acceptBlock accept = [plain (Mov32Imm R0 (if accept then 1 else 0)), plain Return]"

fun accessBits :: "string \<Rightarrow> u32 \<Rightarrow> filter_error + u32" where
  "accessBits [] a = Inr a"
| "accessBits (r # rs) a =
     (if r = CHR ''r'' then accessBits rs (a OR BPF_DEVCG_ACC_READ)
      else if r = CHR ''w'' then accessBits rs (a OR BPF_DEVCG_ACC_WRITE)
      else if r = CHR ''m'' then accessBits rs (a OR BPF_DEVCG_ACC_MKNOD)
      else Inl (UnknownAccess r))"

definition maxUint32 :: int where "maxUint32 = 2 ^ 32 - 1"

definition typeCode :: "DevType \<Rightarrow> u32" where
  "typeCode t = (if t = CharDevice then BPF_DEVCG_DEV_CHAR else BPF_DEVCG_DEV_BLOCK)"

text \<open>The block of instructions for one rule, before its first instruction gets its symbol.\<close>

definition ruleBlock :: "u32 \<Rightarrow> u32 \<Rightarrow> Rule \<Rightarrow> string \<Rightarrow> insn list" where
  "ruleBlock bpfType bpfAccess rule nextBlockSym =
     (let hasMajor = 0 \<le> r_Major rule;
          hasMinor = 0 \<le> r_Minor rule;
          hasAccess = bpfAccess \<noteq> (BPF_DEVCG_ACC_READ OR BPF_DEVCG_ACC_WRITE OR BPF_DEVCG_ACC_MKNOD)
      in [plain (JNEImm R2 bpfType nextBlockSym)] @
         (if hasAccess
          then [plain (Mov32Reg R1 R3), plain (And32 R1 bpfAccess), plain (JNEReg R1 R3 nextBlockSym)]
          else []) @
         (if hasMajor then [plain (JNEImm R4 (word_of_int (r_Major rule)) nextBlockSym)] else []) @
         (if hasMinor then [plain (JNEImm R5 (word_of_int (r_Minor rule)) nextBlockSym)] else []) @
         acceptBlock (r_Allow rule))"

definition setFirstSym :: "string \<Rightarrow> insn list \<Rightarrow> insn list" where
  "setFirstSym s is = (case is of [] \<Rightarrow> [] | i # js \<Rightarrow> setSym s i # js)"

definition appendRule :: "program \<Rightarrow> Rule \<Rightarrow> filter_error + program" where
  "appendRule p rule =
     (if blockID p < 0 then Inl ProgramFinalized
      else if r_Type rule \<noteq> CharDevice \<and> r_Type rule \<noteq> BlockDevice then Inl (InvalidType (r_Type rule))
      else if maxUint32 < r_Major rule then Inl (InvalidMajorNumber (r_Major rule))
      else if maxUint32 < r_Minor rule then Inl (InvalidMinorNumber (r_Major rule))
      else andThen (accessBits (r_Permissions rule) 0) (\<lambda>bpfAccess.
        let block = ruleBlock (typeCode (r_Type rule)) bpfAccess rule (blockSym (blockID p + 1))
        in Inr (p\<lparr>insts := insts p @ setFirstSym (blockSym (blockID p)) block,
                  blockID := blockID p + 1\<rparr>)))"

definition finalize :: "program \<Rightarrow> program" where
  "finalize p =
     p\<lparr>insts := insts p @
         [setSym (blockSym (blockID p)) (plain (Mov32Imm R0 (if p_defaultAllow p then 1 else 0))),
          plain Return],
       blockID := -1\<rparr>"

text \<open>The loop over the clean rules; \<open>bl\<close> is \<open>emu.IsBlacklist()\<close>.\<close>

fun appendRules :: "bool \<Rightarrow> nat \<Rightarrow> Rule list \<Rightarrow> program \<Rightarrow> filter_error + program" where
  "appendRules bl idx [] p = Inr p"
| "appendRules bl idx (rule # rs) p =
     (if r_Type rule = WildcardDevice then
        (if idx \<noteq> 0 \<or> r_Allow rule \<noteq> bl then Inl (BadWildcard idx)
         else appendRules bl (Suc idx) rs p)
      else if r_Allow rule = p_defaultAllow p then Inl (NoOpRule idx)
      else andThen (appendRule p rule) (appendRules bl (Suc idx) rs))"

definition license :: string where "license = ''Apache''"

definition compileFilter :: "Emulator \<Rightarrow> filter_error + (insn list \<times> string)" where
  "compileFilter emu =
     andThen (appendRules (IsBlacklist emu) 0 (Rules emu)
                \<lparr>insts = initInsts, p_defaultAllow = IsBlacklist emu, blockID = 0\<rparr>)
       (\<lambda>p. Inr (insts (finalize p), license))"

definition DeviceFilter :: "Rule list \<Rightarrow> filter_error + (insn list \<times> string)" where
  "DeviceFilter rs =
     (case applyAll rs newEmulator of
        Inl err \<Rightarrow> Inl (EmulatorError err)
      | Inr emu \<Rightarrow> compileFilter emu)"

subsection \<open>The eBPF machine\<close>

type_synonym regs = "reg \<Rightarrow> u64"
type_synonym memory = "u64 \<Rightarrow> u32"

datatype effect = Next regs | Branch string regs | Done u64

type_synonym machine = "memory \<Rightarrow> opcode \<Rightarrow> regs \<Rightarrow> effect"

definition ebpf_isa :: "machine \<Rightarrow> bool" where
  "ebpf_isa ex \<longleftrightarrow>
     (\<forall>mem R d s off. ex mem (LoadMemWord d s off) R = Next (R(d := ucast (mem (R s + word_of_int off))))) \<and>
     (\<forall>mem R d i. ex mem (And32 d i) R = Next (R(d := ucast ((ucast (R d) :: u32) AND i)))) \<and>
     (\<forall>mem R d. ex mem (RSh32 d 16) R = Next (R(d := ucast (drop_bit 16 (ucast (R d) :: u32))))) \<and>
     (\<forall>mem R d i. ex mem (Mov32Imm d i) R = Next (R(d := ucast i))) \<and>
     (\<forall>mem R d s. ex mem (Mov32Reg d s) R = Next (R(d := ucast (ucast (R s) :: u32)))) \<and>
     (\<forall>mem R d i l. ex mem (JNEImm d i l) R = (if R d \<noteq> scast i then Branch l R else Next R)) \<and>
     (\<forall>mem R d s l. ex mem (JNEReg d s l) R = (if R d \<noteq> R s then Branch l R else Next R)) \<and>
     (\<forall>mem R. ex mem Return R = Done (R R0))"

text \<open>Where a label points: the first instruction with that symbol.\<close>

fun findSym :: "insn list \<Rightarrow> string \<Rightarrow> nat option" where
  "findSym [] l = None"
| "findSym (i # is) l = (if sym i = Some l then Some 0 else map_option Suc (findSym is l))"

fun runProg :: "machine \<Rightarrow> memory \<Rightarrow> insn list \<Rightarrow> nat \<Rightarrow> nat \<Rightarrow> regs \<Rightarrow> u64 option" where
  "runProg ex mem prog 0 pc R = None"
| "runProg ex mem prog (Suc fuel) pc R =
     (if pc < length prog then
        (case ex mem (opc (prog ! pc)) R of
           Next R' \<Rightarrow> runProg ex mem prog fuel (Suc pc) R'
         | Branch l R' \<Rightarrow> (case findSym prog l of None \<Rightarrow> None | Some pc' \<Rightarrow> runProg ex mem prog fuel pc' R')
         | Done v \<Rightarrow> Some v)
      else None)"

lemma runProg_more_fuel: "runProg ex mem prog f pc R = Some v \<Longrightarrow> f \<le> g \<Longrightarrow> runProg ex mem prog g pc R = Some v"
proof (induction f arbitrary: g pc R)
  case 0
  then show ?case by simp
next
  case (Suc f)
  then obtain g' where "g = Suc g'" "f \<le> g'" by (cases g) auto
  then show ?case using Suc
    by (auto split: if_splits effect.splits option.splits)
qed

subsection \<open>Execution of generated code\<close>

definition code_at :: "insn list \<Rightarrow> nat \<Rightarrow> insn list \<Rightarrow> bool" where
  "code_at prog pc is \<longleftrightarrow> (\<exists>pre post. prog = pre @ is @ post \<and> length pre = pc)"

lemma code_at_Cons:
  "code_at prog pc (i # is) \<Longrightarrow> pc < length prog \<and> prog ! pc = i \<and> code_at prog (Suc pc) is"
proof -
  assume "code_at prog pc (i # is)"
  then obtain pre post where "prog = pre @ (i # is) @ post" "length pre = pc"
    by (auto simp: code_at_def)
  then have "prog = (pre @ [i]) @ is @ post" "length (pre @ [i]) = Suc pc" "prog ! pc = i" "pc < length prog"
    by auto
  then show ?thesis unfolding code_at_def by blast
qed

lemma code_at_append: "code_at prog pc (is @ js) \<Longrightarrow> code_at prog pc is \<and> code_at prog (pc + length is) js"
proof -
  assume "code_at prog pc (is @ js)"
  then obtain pre post where "prog = pre @ (is @ js) @ post" "length pre = pc"
    by (auto simp: code_at_def)
  then have "prog = pre @ is @ (js @ post)" "prog = (pre @ is) @ js @ post" "length (pre @ is) = pc + length is"
    by auto
  then show ?thesis unfolding code_at_def using \<open>length pre = pc\<close> by blast
qed

lemma code_at_whole: "code_at (pre @ is @ post) (length pre) is"
  by (auto simp: code_at_def)

lemma ebpf_effects:
  assumes "ebpf_isa ex"
  shows "ex mem (LoadMemWord d s off) R = Next (R(d := ucast (mem (R s + word_of_int off))))"
    "ex mem (And32 d i) R = Next (R(d := ucast ((ucast (R d) :: u32) AND i)))"
    "ex mem (RSh32 d 16) R = Next (R(d := ucast (drop_bit 16 (ucast (R d) :: u32))))"
    "ex mem (Mov32Imm d i) R = Next (R(d := ucast i))"
    "ex mem (Mov32Reg d s) R = Next (R(d := ucast (ucast (R s) :: u32)))"
    "ex mem (JNEImm d i l) R = (if R d \<noteq> scast i then Branch l R else Next R)"
    "ex mem (JNEReg d s l) R = (if R d \<noteq> R s then Branch l R else Next R)"
    "ex mem Return R = Done (R R0)"
  using assms unfolding ebpf_isa_def by simp_all

text \<open>
  A block is a sequence of optional tests, each one instruction or three, and the accept code.
  A stage lemma runs one optional test: if it fails, control is at the label of the next block.
\<close>

lemma stage_imm:
  assumes isa: "ebpf_isa ex"
    and ts: "ts = (if b then [Insn s (JNEImm d i nxt)] else [])"
    and code: "code_at prog pc (ts @ rest)"
    and nxt: "findSym prog nxt = Some t" "runProg ex mem prog m t R = Some v"
    and pass: "runProg ex mem prog m (pc + length ts) R = Some w"
  shows "runProg ex mem prog (m + length ts) pc R = Some (if b \<longrightarrow> R d = scast i then w else v)"
proof (cases b)
  case False
  with pass ts show ?thesis by simp
next
  case True
  with code ts have "pc < length prog" "prog ! pc = Insn s (JNEImm d i nxt)"
    using code_at_Cons by fastforce+
  then show ?thesis using True ts nxt pass by (simp add: ebpf_effects [OF isa])
qed

lemma stage_access:
  assumes isa: "ebpf_isa ex"
    and ts: "ts = (if b then [plain (Mov32Reg R1 R3), plain (And32 R1 acc), plain (JNEReg R1 R3 nxt)] else [])"
    and code: "code_at prog pc (ts @ rest)"
    and r3: "R R3 = ucast (x :: u32)"
    and nxt: "findSym prog nxt = Some t" "\<And>y. runProg ex mem prog m t (R(R1 := y)) = Some v"
    and pass: "\<And>y. runProg ex mem prog m (pc + length ts) (R(R1 := y)) = Some w"
  shows "runProg ex mem prog (m + length ts) pc R = Some (if b \<longrightarrow> x AND acc = x then w else v)"
proof (cases b)
  case False
  have "R(R1 := R R1) = R" by simp
  with False ts pass [of "R R1"] show ?thesis by simp
next
  case True
  let ?y = "ucast (x AND acc) :: u64"
  have i: "pc < length prog" "prog ! pc = plain (Mov32Reg R1 R3)"
    "Suc pc < length prog" "prog ! Suc pc = plain (And32 R1 acc)"
    "Suc (Suc pc) < length prog" "prog ! Suc (Suc pc) = plain (JNEReg R1 R3 nxt)"
    using code ts True by (auto dest!: code_at_Cons)
  have u: "ucast (ucast z :: u64) = z" for z :: u32
    by (rule bit_word_eqI) (auto simp: bit_simps)
  then have eq: "?y = ucast x \<longleftrightarrow> x AND acc = x" by metis
  have "runProg ex mem prog (m + 3) pc R =
    (if x AND acc \<noteq> x then runProg ex mem prog m t (R(R1 := ?y))
     else runProg ex mem prog m (pc + 3) (R(R1 := ?y)))"
    using i nxt(1) eq by (simp add: ebpf_effects [OF isa] r3 u numeral_3_eq_3)
  then show ?thesis using True ts nxt(2) pass by (simp add: eval_nat_numeral)
qed

lemma exec_accept:
  assumes isa: "ebpf_isa ex" and code: "code_at prog pc (acceptBlock b)" and "2 \<le> m"
  shows "runProg ex mem prog m pc R = Some (if b then 1 else 0)"
proof -
  have i: "pc < length prog" "prog ! pc = plain (Mov32Imm R0 (if b then 1 else 0))"
    "Suc pc < length prog" "prog ! Suc pc = plain Return"
    using code by (auto dest!: code_at_Cons simp: acceptBlock_def)
  have "runProg ex mem prog (Suc (Suc 0)) pc R = Some (if b then 1 else 0)"
    using i by (simp add: ebpf_effects [OF isa])
  then show ?thesis by (rule runProg_more_fuel) (use assms(3) in simp)
qed

definition allAccess :: u32 where
  "allAccess = BPF_DEVCG_ACC_READ OR BPF_DEVCG_ACC_WRITE OR BPF_DEVCG_ACC_MKNOD"

text \<open>When the tests of a block all pass, on the registers loaded by the prologue.\<close>

definition blockMatches :: "u32 \<Rightarrow> u32 \<Rightarrow> Rule \<Rightarrow> regs \<Rightarrow> u32 \<Rightarrow> bool" where
  "blockMatches ty acc r R x \<longleftrightarrow>
     R R2 = scast ty \<and> (acc \<noteq> allAccess \<longrightarrow> x AND acc = x) \<and>
     (0 \<le> r_Major r \<longrightarrow> R R4 = scast (word_of_int (r_Major r) :: u32)) \<and>
     (0 \<le> r_Minor r \<longrightarrow> R R5 = scast (word_of_int (r_Minor r) :: u32))"

lemma exec_block:
  assumes isa: "ebpf_isa ex"
    and code: "code_at prog pc (setFirstSym s (ruleBlock ty acc r nxt))"
    and nxt: "findSym prog nxt = Some t" "\<And>y. runProg ex mem prog m t (R(R1 := y)) = Some v"
    and r3: "R R3 = ucast (x :: u32)" and m: "2 \<le> m"
  shows "runProg ex mem prog (m + length (ruleBlock ty acc r nxt)) pc R =
    Some (if blockMatches ty acc r R x then (if r_Allow r then 1 else 0) else v)"
proof -
  let ?a = "acc \<noteq> allAccess" and ?mj = "0 \<le> r_Major r" and ?mn = "0 \<le> r_Minor r"
  let ?tacc = "if ?a then [plain (Mov32Reg R1 R3), plain (And32 R1 acc), plain (JNEReg R1 R3 nxt)] else []"
  let ?tmj = "if ?mj then [plain (JNEImm R4 (word_of_int (r_Major r)) nxt)] else []"
  let ?tmn = "if ?mn then [plain (JNEImm R5 (word_of_int (r_Minor r)) nxt)] else []"
  let ?acc = "acceptBlock (r_Allow r)"
  let ?t0 = "if True then [Insn (Some s) (JNEImm R2 ty nxt)] else []"
  have blk: "setFirstSym s (ruleBlock ty acc r nxt) = ?t0 @ ?tacc @ ?tmj @ ?tmn @ ?acc"
    by (simp add: ruleBlock_def allAccess_def setFirstSym_def setSym_def Let_def)
  let ?p1 = "pc + length ?t0" let ?p2 = "?p1 + length ?tacc"
  let ?p3 = "?p2 + length ?tmj" let ?p4 = "?p3 + length ?tmn"
  have c0: "code_at prog pc (?t0 @ ?tacc @ ?tmj @ ?tmn @ ?acc)" using code unfolding blk .
  have c1: "code_at prog ?p1 (?tacc @ ?tmj @ ?tmn @ ?acc)" using code_at_append [OF c0] ..
  have c2: "code_at prog ?p2 (?tmj @ ?tmn @ ?acc)" using code_at_append [OF c1] ..
  have c3: "code_at prog ?p3 (?tmn @ ?acc)" using code_at_append [OF c2] ..
  have c4: "code_at prog ?p4 ?acc" using code_at_append [OF c3] ..
  let ?w = "if r_Allow r then 1 else 0 :: u64"
  let ?b1 = "?mn \<longrightarrow> R R5 = scast (word_of_int (r_Minor r) :: u32)"
  let ?b2 = "?mj \<longrightarrow> R R4 = scast (word_of_int (r_Major r) :: u32)"
  let ?b3 = "?a \<longrightarrow> x AND acc = x"
  have more: "runProg ex mem prog (m + k) t (R(R1 := y)) = Some v" for k y
    by (rule runProg_more_fuel [OF nxt(2)]) simp
  have moreR: "runProg ex mem prog (m + k) t R = Some v" for k
    using more [of k "R R1"] by simp
  have s1: "runProg ex mem prog (m + length ?tmn) ?p3 (R(R1 := y)) = Some (if ?b1 then ?w else v)" for y
    using stage_imm [OF isa refl c3 nxt(1) nxt(2) exec_accept [OF isa c4 m]] by simp
  have s2: "runProg ex mem prog (m + length ?tmn + length ?tmj) ?p2 (R(R1 := y)) =
      Some (if ?b2 \<and> ?b1 then ?w else v)" for y
    using stage_imm [OF isa refl c2 nxt(1) more s1] by simp
  have s3: "runProg ex mem prog (m + length ?tmn + length ?tmj + length ?tacc) ?p1 R =
      Some (if ?b3 \<and> ?b2 \<and> ?b1 then ?w else v)"
    using stage_access [OF isa refl c1 r3 nxt(1) _ s2, of v] more [of "length ?tmn + length ?tmj"]
    by (simp add: add.assoc)
  have "runProg ex mem prog (m + length ?tmn + length ?tmj + length ?tacc + length ?t0) pc R =
      Some (if (True \<longrightarrow> R R2 = scast ty) then (if ?b3 \<and> ?b2 \<and> ?b1 then ?w else v) else v)"
    by (rule stage_imm [OF isa refl c0 nxt(1) _ s3]) (simp only: add.assoc moreR)
  moreover have "length (ruleBlock ty acc r nxt) = length (?t0 @ ?tacc @ ?tmj @ ?tmn @ ?acc)"
    unfolding blk [symmetric] by (simp add: setFirstSym_def split: list.splits)
  ultimately have "runProg ex mem prog (m + length (ruleBlock ty acc r nxt)) pc R =
      Some (if (True \<longrightarrow> R R2 = scast ty) then (if ?b3 \<and> ?b2 \<and> ?b1 then ?w else v) else v)"
    by (elim runProg_more_fuel) simp
  then show ?thesis by (simp add: blockMatches_def)
qed

subsection \<open>The shape of a generated program\<close>

definition accCode :: "char set \<Rightarrow> u32" where
  "accCode A = (if CHR ''r'' \<in> A then 2 else 0) OR (if CHR ''w'' \<in> A then 4 else 0)
     OR (if CHR ''m'' \<in> A then 1 else 0)"

definition mkBlock :: "int \<Rightarrow> Rule \<Rightarrow> insn list" where
  "mkBlock k r = setFirstSym (blockSym k)
     (ruleBlock (typeCode (r_Type r)) (accCode (set (r_Permissions r))) r (blockSym (k + 1)))"

fun blocks :: "int \<Rightarrow> Rule list \<Rightarrow> insn list" where
  "blocks k [] = []"
| "blocks k (r # rs) = mkBlock k r @ blocks (k + 1) rs"

definition finalInsts :: "int \<Rightarrow> bool \<Rightarrow> insn list" where
  "finalInsts k d = [Insn (Some (blockSym k)) (Mov32Imm R0 (if d then 1 else 0)), plain Return]"

definition filter_rule :: "bool \<Rightarrow> Rule \<Rightarrow> bool" where
  "filter_rule d r \<longleftrightarrow> r_Type r \<in> {BlockDevice, CharDevice} \<and> r_Allow r \<noteq> d \<and>
     r_Major r \<le> maxUint32 \<and> r_Minor r \<le> maxUint32 \<and> set (r_Permissions r) \<subseteq> set ''rwm''"

lemma accCode_Un: "accCode (A \<union> B) = accCode A OR accCode B"
  by (auto simp: accCode_def)

lemma accessBits_accCode: "set p \<subseteq> set ''rwm'' \<Longrightarrow> accessBits p a = Inr (a OR accCode (set p))"
proof (induction p arbitrary: a)
  case Nil
  then show ?case by (simp add: accCode_def)
next
  case (Cons c p)
  have "accCode (set (c # p)) = accCode {c} OR accCode (set p)"
    using accCode_Un [of "{c}" "set p"] by simp
  moreover have "c = CHR ''r'' \<or> c = CHR ''w'' \<or> c = CHR ''m''" using Cons.prems by auto
  ultimately show ?case using Cons by (auto simp: bpf_consts accCode_def [of "{_}"] or.assoc)
qed

lemma appendRules_shape:
  assumes "\<forall>r \<in> set rs. filter_rule (p_defaultAllow p) r" and "0 \<le> blockID p"
  shows "appendRules bl idx rs p =
    Inr (p\<lparr>insts := insts p @ blocks (blockID p) rs, blockID := blockID p + int (length rs)\<rparr>)"
  using assms
proof (induction rs arbitrary: p idx)
  case Nil
  then show ?case by simp
next
  case (Cons r rs)
  let ?q = "p\<lparr>insts := insts p @ mkBlock (blockID p) r, blockID := blockID p + 1\<rparr>"
  have fr: "filter_rule (p_defaultAllow p) r" using Cons.prems by simp
  then have "appendRule p r = Inr ?q"
    using Cons.prems(2) accessBits_accCode [of "r_Permissions r" 0]
    by (auto simp: appendRule_def filter_rule_def mkBlock_def Let_def dev_types)
  moreover have "r_Type r \<noteq> WildcardDevice" "r_Allow r \<noteq> p_defaultAllow p"
    using fr by (auto simp: filter_rule_def dev_types)
  moreover have "appendRules bl (Suc idx) rs ?q =
    Inr (?q\<lparr>insts := insts ?q @ blocks (blockID ?q) rs, blockID := blockID ?q + int (length rs)\<rparr>)"
    using Cons.prems by (intro Cons.IH) auto
  ultimately show ?case by simp
qed

subsection \<open>Labels\<close>

definition symsOf :: "insn list \<Rightarrow> string set" where
  "symsOf is = {l. \<exists>i \<in> set is. sym i = Some l}"

lemma symsOf_append [simp]: "symsOf (is @ js) = symsOf is \<union> symsOf js"
  by (auto simp: symsOf_def)

lemma symsOf_Cons: "symsOf (i # is) = (case sym i of None \<Rightarrow> {} | Some l \<Rightarrow> {l}) \<union> symsOf is"
  by (auto simp: symsOf_def split: option.splits)

lemma symsOf_Nil [simp]: "symsOf [] = {}"
  by (simp add: symsOf_def)

lemma blockSym_inject: "0 \<le> i \<Longrightarrow> 0 \<le> j \<Longrightarrow> blockSym i = blockSym j \<Longrightarrow> i = j"
  by (auto simp: blockSym_def Itoa_def dest: utoa_inject)

lemma findSym_append:
  "l \<notin> symsOf pre \<Longrightarrow> sym i = Some l \<Longrightarrow> findSym (pre @ i # post) l = Some (length pre)"
  by (induction pre) (auto simp: symsOf_Cons split: option.splits)

lemma mkBlock_Cons: "\<exists>c is. mkBlock k r = Insn (Some (blockSym k)) c # is \<and> symsOf is = {}"
proof -
  have "symsOf (acceptBlock b) = {}" for b by (simp add: acceptBlock_def symsOf_Cons)
  then show ?thesis
    by (simp add: mkBlock_def ruleBlock_def Let_def setFirstSym_def setSym_def symsOf_Cons)
qed

lemma mkBlock_symsOf: "symsOf (mkBlock k r) = {blockSym k}"
  using mkBlock_Cons [of k r] by (auto simp: symsOf_Cons)

lemma tail_Cons: "\<exists>i is. blocks k rs @ finalInsts (k + int (length rs)) d = i # is \<and> sym i = Some (blockSym k)"
proof (cases rs)
  case Nil
  then show ?thesis by (simp add: finalInsts_def)
next
  case (Cons r rs')
  then show ?thesis using mkBlock_Cons [of k r] by auto
qed

text \<open>Which block decides: the first whose tests pass.\<close>

fun firstMatch :: "bool \<Rightarrow> Rule list \<Rightarrow> regs \<Rightarrow> u32 \<Rightarrow> bool" where
  "firstMatch d [] R x = d"
| "firstMatch d (r # rs) R x =
     (if blockMatches (typeCode (r_Type r)) (accCode (set (r_Permissions r))) r R x
      then r_Allow r else firstMatch d rs R x)"

lemma firstMatch_R1 [simp]: "firstMatch d rs (R(R1 := y)) x = firstMatch d rs R x"
  by (induction rs) (auto simp: blockMatches_def)

lemma exec_blocks:
  assumes isa: "ebpf_isa ex" and "0 \<le> k" and "symsOf pre \<subseteq> blockSym ` {0..<k}" and "R R3 = ucast (x :: u32)"
  shows "runProg ex mem (pre @ blocks k rs @ finalInsts (k + int (length rs)) d)
      (length (blocks k rs @ finalInsts (k + int (length rs)) d)) (length pre) R =
    Some (if firstMatch d rs R x then 1 else 0)"
  using assms(2-)
proof (induction rs arbitrary: k pre R)
  case Nil
  have "code_at (pre @ finalInsts k d) (length pre) (finalInsts k d)"
    using code_at_whole [of pre "finalInsts k d" "[]"] by simp
  then have i: "length pre < length (pre @ finalInsts k d)"
    "(pre @ finalInsts k d) ! length pre = Insn (Some (blockSym k)) (Mov32Imm R0 (if d then 1 else 0))"
    "Suc (length pre) < length (pre @ finalInsts k d)"
    "(pre @ finalInsts k d) ! Suc (length pre) = plain Return"
    by (auto dest!: code_at_Cons simp: finalInsts_def)
  then show ?case by (simp add: finalInsts_def ebpf_effects [OF isa])
next
  case (Cons r rs)
  let ?b = "mkBlock k r" and ?tl = "blocks (k + 1) rs @ finalInsts (k + 1 + int (length rs)) d"
  let ?prog = "pre @ ?b @ ?tl"
  have k: "0 \<le> k + 1" using Cons.prems by simp
  have syms: "symsOf (pre @ ?b) \<subseteq> blockSym ` {0..<k + 1}"
    using Cons.prems by (auto simp: mkBlock_symsOf)
  have ih: "runProg ex mem ?prog (length ?tl) (length (pre @ ?b)) (R(R1 := y)) =
      Some (if firstMatch d rs R x then 1 else 0)" for y
  proof -
    have "(R(R1 := y)) R3 = ucast x" using Cons.prems(3) by simp
    from Cons.IH [where R = "R(R1 := y)", OF k syms this] show ?thesis by (simp only: firstMatch_R1 append_assoc)
  qed
  have "blockSym (k + 1) \<notin> symsOf (pre @ ?b)"
  proof
    assume "blockSym (k + 1) \<in> symsOf (pre @ ?b)"
    then obtain j where "j \<in> {0..<k + 1}" "blockSym (k + 1) = blockSym j" using syms by blast
    then show False using blockSym_inject [of "k + 1" j] k by auto
  qed
  then have find: "findSym ?prog (blockSym (k + 1)) = Some (length (pre @ ?b))"
    using tail_Cons [of "k + 1" rs d] findSym_append [of "blockSym (k + 1)" "pre @ ?b"] by fastforce
  have m: "2 \<le> length ?tl" by (simp add: finalInsts_def)
  have code: "code_at ?prog (length pre) ?b" by (rule code_at_whole)
  have len: "length ?b = length (ruleBlock (typeCode (r_Type r)) (accCode (set (r_Permissions r))) r (blockSym (k + 1)))"
    by (simp add: mkBlock_def setFirstSym_def split: list.splits)
  have "runProg ex mem ?prog (length ?tl + length ?b) (length pre) R =
      Some (if firstMatch d (r # rs) R x then 1 else 0)"
    using exec_block [OF isa code [unfolded mkBlock_def] find [unfolded mkBlock_def]
        ih [unfolded mkBlock_def] _ m [unfolded mkBlock_def], of x] Cons.prems(3)
    unfolding len mkBlock_def [symmetric] by simp
  moreover have "k + int (length (r # rs)) = k + 1 + int (length rs)" by simp
  moreover have "length (blocks k (r # rs) @ finalInsts (k + 1 + int (length rs)) d) = length ?tl + length ?b"
    by simp
  moreover have "pre @ blocks k (r # rs) @ finalInsts (k + 1 + int (length rs)) d = ?prog" by simp
  ultimately show ?case by metis
qed

subsection \<open>The decision of a filter\<close>

text \<open>A request as the kernel hands it to the program: type, access and device number.\<close>

record devRequest =
  rq_type :: DevType
  rq_access :: "char set"
  rq_major :: u32
  rq_minor :: u32

definition wf_request :: "devRequest \<Rightarrow> bool" where
  "wf_request q \<longleftrightarrow> rq_type q \<in> {BlockDevice, CharDevice} \<and> rq_access q \<subseteq> set ''rwm''"

text \<open>\<open>struct bpf_cgroup_dev_ctx\<close> at the address \<open>base\<close>: the access type word holds the device
  type in its lower and the access bits in its upper half.\<close>

definition accessWord :: "devRequest \<Rightarrow> u32" where
  "accessWord q = typeCode (rq_type q) OR push_bit 16 (accCode (rq_access q))"

definition ctxMemory :: "memory \<Rightarrow> u64 \<Rightarrow> devRequest \<Rightarrow> bool" where
  "ctxMemory mem base q \<longleftrightarrow>
     mem base = accessWord q \<and> mem (base + 4) = rq_major q \<and> mem (base + 8) = rq_minor q"

text \<open>
  The number test of a block: a negative number is a wildcard, and the signed 32-bit immediate
  can only match numbers below \<open>2^31\<close>.
\<close>

definition numMatches :: "int \<Rightarrow> u32 \<Rightarrow> bool" where
  "numMatches i w \<longleftrightarrow> i < 0 \<or> (i < 2 ^ 31 \<and> uint w = i)"

text \<open>What the filter of an emulator state decides on a request.\<close>

definition exceptionFor :: "Emulator \<Rightarrow> devRequest \<Rightarrow> deviceMeta \<Rightarrow> bool" where
  "exceptionFor e q m \<longleftrightarrow>
     node m = rq_type q \<and> permOf e m \<noteq> {} \<and> rq_access q \<subseteq> permOf e m \<and>
     numMatches (major m) (rq_major q) \<and> numMatches (minor m) (rq_minor q)"

definition filterAllows :: "Emulator \<Rightarrow> devRequest \<Rightarrow> bool" where
  "filterAllows e q =
     (if \<exists>m \<in> Mapping.keys (rules e). exceptionFor e q m then \<not> defaultAllow e else defaultAllow e)"

lemma accCode_subset:
  "A \<subseteq> set ''rwm'' \<Longrightarrow> (accCode B \<noteq> allAccess \<longrightarrow> accCode A AND accCode B = accCode A) \<longleftrightarrow> A \<subseteq> B"
proof -
  assume A: "A \<subseteq> set ''rwm''"
  then have "A \<subseteq> B \<longleftrightarrow> (CHR ''r'' \<in> A \<longrightarrow> CHR ''r'' \<in> B) \<and> (CHR ''w'' \<in> A \<longrightarrow> CHR ''w'' \<in> B) \<and>
    (CHR ''m'' \<in> A \<longrightarrow> CHR ''m'' \<in> B)" by auto
  then show ?thesis unfolding accCode_def allAccess_def bpf_consts
    by (cases "CHR ''r'' \<in> A"; cases "CHR ''w'' \<in> A"; cases "CHR ''m'' \<in> A";
        cases "CHR ''r'' \<in> B"; cases "CHR ''w'' \<in> B"; cases "CHR ''m'' \<in> B") simp_all
qed

lemma accCode_values: "accCode A \<in> {0, 1, 2, 3, 4, 5, 6, 7}"
  by (auto simp: accCode_def)

lemma accessWord_low: "rq_type q \<in> {BlockDevice, CharDevice} \<Longrightarrow> accessWord q AND 0xFFFF = typeCode (rq_type q)"
  using accCode_values [of "rq_access q"]
  by (auto simp: accessWord_def typeCode_def bpf_consts dev_types)

lemma accessWord_high: "rq_type q \<in> {BlockDevice, CharDevice} \<Longrightarrow> drop_bit 16 (accessWord q) = accCode (rq_access q)"
  using accCode_values [of "rq_access q"]
  by (auto simp: accessWord_def typeCode_def bpf_consts dev_types)

lemma typeCode_eq:
  assumes "s \<in> {BlockDevice, CharDevice}" and "t \<in> {BlockDevice, CharDevice}"
  shows "(ucast (typeCode s) :: u64) = scast (typeCode t) \<longleftrightarrow> s = t"
  using assms by (auto simp: typeCode_def bpf_consts dev_types)

lemma numMatches_word:
  assumes "i \<le> maxUint32"
  shows "(0 \<le> i \<longrightarrow> (ucast w :: u64) = scast (word_of_int i :: u32)) \<longleftrightarrow> numMatches i (w :: u32)"
proof (cases "0 \<le> i")
  case False
  then show ?thesis by (simp add: numMatches_def)
next
  case True
  have u: "uint (ucast w :: u64) = uint w" by (rule uint_up_ucast) (simp add: is_up)
  show ?thesis
  proof (cases "i < 2 ^ 31")
    case small: True
    have s: "sint (word_of_int i :: u32) = i"
      using True small by (simp add: signed_of_int signed_take_bit_int_eq_self)
    have "uint (scast (word_of_int i :: u32) :: u64) = i"
      using True small by (simp add: scast_eq s uint_word_of_int_eq take_bit_int_eq_self)
    then show ?thesis using True small u by (auto simp: numMatches_def word_uint_eq_iff)
  next
    case big: False
    have s: "sint (word_of_int i :: u32) = i - 2 ^ 32"
    proof -
      have "(i + 2 ^ 31) mod 2 ^ 32 = (i - 2 ^ 31 + 2 ^ 32) mod 2 ^ 32" by (simp add: add.commute)
      also have "\<dots> = (i - 2 ^ 31) mod 2 ^ 32" by (rule mod_add_self2)
      also have "\<dots> = i - 2 ^ 31" using True big assms by (simp add: maxUint32_def)
      finally show ?thesis by (simp add: int_word_sint)
    qed
    have "uint (scast (word_of_int i :: u32) :: u64) = i - 2 ^ 32 + 2 ^ 64"
    proof -
      have "(i - 2 ^ 32) mod 2 ^ 64 = (i - 2 ^ 32 + 2 ^ 64) mod 2 ^ 64" by (rule mod_add_self2 [symmetric])
      also have "\<dots> = i - 2 ^ 32 + 2 ^ 64" using True assms by (intro mod_pos_pos_trivial) (simp_all add: maxUint32_def)
      finally show ?thesis by (simp only: scast_eq s uint_word_of_int_eq take_bit_eq_mod) simp
    qed
    moreover have "uint w < 2 ^ 32" using uint_bounded [of w] by simp
    ultimately have "uint (ucast w :: u64) \<noteq> uint (scast (word_of_int i :: u32) :: u64)"
      using u True big by simp
    then show ?thesis using True big by (auto simp: numMatches_def)
  qed
qed

definition exRules :: "Emulator \<Rightarrow> Rule list" where
  "exRules e = diffRules (\<not> defaultAllow e) (rules e) Mapping.empty"

lemma Rules_eq: "Rules e = (if defaultAllow e then [disruptiveRule True] else []) @ exRules e"
  by (cases "defaultAllow e")
     (simp_all add: Rules_def exRules_def Transition_def newEmulator_def IsBlacklist_def diffRules_def)

definition exRule :: "Emulator \<Rightarrow> deviceMeta \<Rightarrow> Rule" where
  "exRule e m = \<lparr>r_Type = node m, r_Major = major m, r_Minor = minor m,
     r_Permissions = permsAt (rules e) m, r_Allow = \<not> defaultAllow e\<rparr>"

lemma exRules_set:
  assumes "emu_inv e"
  shows "set (exRules e) = exRule e ` {m \<in> Mapping.keys (rules e). permOf e m \<noteq> {}}"
proof -
  have d1: "Difference p [] = p" if "IsValidPerms p" for p
  proof -
    have "Difference p [] = canonical (permSet p - {})"
      by (simp only: Difference_canonical) (simp add: permSet_def)
    also have "\<dots> = p" using that unfolding IsValidPerms_iff by simp
    finally show ?thesis .
  qed
  note d = d1 valid_IsEmpty
  have v: "IsValidPerms (permsAt (rules e) m)" for m using emu_inv_valid [OF assms] .
  have fin: "finite (Mapping.keys (rules e))" using assms by (simp add: emu_inv_def)
  have "set (diffEntry (\<not> defaultAllow e) Mapping.empty \<lparr>dr_meta = m, dr_perms = permsAt (rules e) m\<rparr>) =
      (if permOf e m \<noteq> {} then {exRule e m} else {})" for m
    by (simp add: diffEntry_def emu_simps d v permOf_def exRule_def)
  then show ?thesis
    by (auto simp: exRules_def diffRules_def orderedEntries_def Mapping.ordered_keys_def fin split: if_splits)
qed

text \<open>The numbers a filter can be built for.\<close>

definition small_numbers :: "Emulator \<Rightarrow> bool" where
  "small_numbers e \<longleftrightarrow>
     (\<forall>m \<in> Mapping.keys (rules e). permOf e m \<noteq> {} \<longrightarrow> major m \<le> maxUint32 \<and> minor m \<le> maxUint32)"

lemma emu_inv_perm_set: "emu_inv e \<Longrightarrow> set (permsAt (rules e) m) = permOf e m"
proof -
  assume "emu_inv e"
  then have "permsAt (rules e) m = canonical (permOf e m)"
    using emu_inv_valid unfolding IsValidPerms_iff permOf_def by blast
  moreover have "set (canonical A) = set ''rwm'' \<inter> A" for A by (auto simp: canonical_def)
  ultimately show ?thesis unfolding permOf_def permSet_def by (metis Int_lower2 Int_commute inf.absorb_iff2 inf_assoc inf.idem)
qed

lemma exRules_filter_rule:
  assumes "emu_inv e"
  shows "(\<forall>r \<in> set (exRules e). filter_rule (defaultAllow e) r) \<longleftrightarrow> small_numbers e"
proof -
  have p: "set (permsAt (rules e) m) \<subseteq> set ''rwm''" for m
    unfolding emu_inv_perm_set [OF assms] by (simp add: permOf_def permSet_def)
  have t: "node m = BlockDevice \<or> node m = CharDevice" if "m \<in> Mapping.keys (rules e)" for m
    using assms that by (auto simp: emu_inv_def)
  show ?thesis
    using p t by (auto simp: exRules_set [OF assms] small_numbers_def filter_rule_def exRule_def)
qed

lemma firstMatch_uniform:
  "\<forall>r \<in> set rs. r_Allow r = (\<not> d) \<Longrightarrow>
   firstMatch d rs R x = (if \<exists>r \<in> set rs. blockMatches (typeCode (r_Type r)) (accCode (set (r_Permissions r))) r R x
     then \<not> d else d)"
  by (induction rs) auto

subsection \<open>Running a whole filter\<close>

lemma ucast_down_up [simp]: "ucast (ucast (x :: u32) :: u64) = x"
  by (rule bit_word_eqI) (auto simp: bit_simps)

lemma exec_prologue:
  assumes isa: "ebpf_isa ex"
  shows "runProg ex mem (initInsts @ rest) (6 + f) 0 R =
    runProg ex mem (initInsts @ rest) f 6
      (R(R2 := ucast (mem (R R1) AND 0xFFFF), R3 := ucast (drop_bit 16 (mem (R R1))),
         R4 := ucast (mem (R R1 + 4)), R5 := ucast (mem (R R1 + 8))))"
  by (simp add: initInsts_def numeral_eq_Suc ebpf_effects [OF isa] fun_upd_twist)

lemma compileFilter_eq:
  assumes "emu_inv e" and "small_numbers e"
  shows "compileFilter e = Inr (initInsts @ blocks 0 (exRules e) @
      finalInsts (int (length (exRules e))) (defaultAllow e), license)"
proof -
  have fr: "\<forall>r \<in> set (exRules e). filter_rule (defaultAllow e) r"
    using assms exRules_filter_rule by blast
  let ?p = "\<lparr>insts = initInsts, p_defaultAllow = defaultAllow e, blockID = 0\<rparr>"
  have "appendRules bl idx (exRules e) ?p =
    Inr (?p\<lparr>insts := initInsts @ blocks 0 (exRules e), blockID := int (length (exRules e))\<rparr>)" for bl idx
    using appendRules_shape [of "exRules e" ?p bl idx] fr by simp
  then show ?thesis
    by (cases "defaultAllow e")
       (simp_all add: compileFilter_def Rules_eq IsBlacklist_def disruptiveRule_def WildcardDevice_def
        finalize_def finalInsts_def setSym_def)
qed

lemma appendRules_numbers:
  "appendRules bl idx rs p = Inr q \<Longrightarrow>
   \<forall>r \<in> set rs. r_Type r \<noteq> WildcardDevice \<longrightarrow> r_Major r \<le> maxUint32 \<and> r_Minor r \<le> maxUint32"
proof (induction bl idx rs p rule: appendRules.induct)
  case (2 bl idx rule rs p)
  then show ?case
    by (cases "appendRule p rule") (auto simp: appendRule_def split: if_splits)
qed simp

lemma applyAll_emu_inv: "applyAll rs newEmulator = Inr e \<Longrightarrow> emu_inv e"
  using applyAll_inv emu_inv_new by blast

lemma compileFilter_ok_iff:
  assumes "emu_inv e"
  shows "(\<exists>prog. compileFilter e = Inr (prog, license)) \<longleftrightarrow> small_numbers e"
proof
  assume "\<exists>prog. compileFilter e = Inr (prog, license)"
  then obtain q where "appendRules (IsBlacklist e) 0 (Rules e)
      \<lparr>insts = initInsts, p_defaultAllow = IsBlacklist e, blockID = 0\<rparr> = Inr q"
    by (cases "appendRules (IsBlacklist e) 0 (Rules e)
      \<lparr>insts = initInsts, p_defaultAllow = IsBlacklist e, blockID = 0\<rparr>") (auto simp: compileFilter_def)
  from appendRules_numbers [OF this] have n: "\<forall>r \<in> set (exRules e). r_Type r \<noteq> WildcardDevice \<longrightarrow>
      r_Major r \<le> maxUint32 \<and> r_Minor r \<le> maxUint32"
    by (simp add: Rules_eq)
  have "node m \<noteq> WildcardDevice" if "m \<in> Mapping.keys (rules e)" for m
    using assms that by (auto simp: emu_inv_def dev_types)
  with n show "small_numbers e"
    by (auto simp: exRules_set [OF assms] small_numbers_def exRule_def)
qed (use assms compileFilter_eq in blast)

lemma blockMatches_exRule:
  assumes "emu_inv e" and "wf_request q" and "m \<in> Mapping.keys (rules e)" and "permOf e m \<noteq> {}"
    and "small_numbers e"
    and "R R2 = ucast (typeCode (rq_type q))" "R R4 = ucast (rq_major q)" "R R5 = ucast (rq_minor q)"
  shows "blockMatches (typeCode (node m)) (accCode (set (permsAt (rules e) m))) (exRule e m) R (accCode (rq_access q))
    \<longleftrightarrow> exceptionFor e q m"
proof -
  have q: "rq_type q \<in> {BlockDevice, CharDevice}" "rq_access q \<subseteq> set ''rwm''"
    using assms(2) by (simp_all add: wf_request_def)
  have m: "node m \<in> {BlockDevice, CharDevice}" using assms(1,3) by (simp add: emu_inv_def)
  have p: "set (permsAt (rules e) m) = permOf e m" by (rule emu_inv_perm_set [OF assms(1)])
  have "(accCode (set (permsAt (rules e) m)) \<noteq> allAccess \<longrightarrow>
      accCode (rq_access q) AND accCode (set (permsAt (rules e) m)) = accCode (rq_access q)) \<longleftrightarrow>
      rq_access q \<subseteq> permOf e m"
    using accCode_subset [OF q(2), of "permOf e m"] by (simp add: p)
  moreover have "(0 \<le> major m \<longrightarrow> R R4 = scast (word_of_int (major m) :: u32)) \<longleftrightarrow> numMatches (major m) (rq_major q)"
    "(0 \<le> minor m \<longrightarrow> R R5 = scast (word_of_int (minor m) :: u32)) \<longleftrightarrow> numMatches (minor m) (rq_minor q)"
    using numMatches_word assms(3-5,7,8) by (simp_all add: small_numbers_def)
  moreover have "R R2 = scast (typeCode (node m)) \<longleftrightarrow> node m = rq_type q"
    using typeCode_eq [OF q(1) m] assms(6) by auto
  ultimately show ?thesis using assms(4) by (auto simp: blockMatches_def exceptionFor_def exRule_def)
qed

lemma exceptionFor_perm: "exceptionFor e q m \<Longrightarrow> permOf e m \<noteq> {}"
  by (simp add: exceptionFor_def)

lemma firstMatch_filterAllows:
  assumes inv: "emu_inv e" and q: "wf_request q" and small: "small_numbers e"
    and R: "R R2 = ucast (typeCode (rq_type q))" "R R4 = ucast (rq_major q)" "R R5 = ucast (rq_minor q)"
  shows "firstMatch (defaultAllow e) (exRules e) R (accCode (rq_access q)) = filterAllows e q"
proof -
  let ?K = "{m \<in> Mapping.keys (rules e). permOf e m \<noteq> {}}"
  have "(\<exists>r \<in> set (exRules e). blockMatches (typeCode (r_Type r)) (accCode (set (r_Permissions r))) r R (accCode (rq_access q)))
    \<longleftrightarrow> (\<exists>m \<in> ?K. blockMatches (typeCode (node m)) (accCode (set (permsAt (rules e) m))) (exRule e m) R (accCode (rq_access q)))"
    by (simp add: exRules_set [OF inv]) (simp add: exRule_def)
  also have "\<dots> \<longleftrightarrow> (\<exists>m \<in> ?K. exceptionFor e q m)"
    using blockMatches_exRule [OF inv q _ _ small R] by auto
  also have "\<dots> \<longleftrightarrow> (\<exists>m \<in> Mapping.keys (rules e). exceptionFor e q m)"
    using exceptionFor_perm by blast
  finally have ex: "(\<exists>r \<in> set (exRules e). blockMatches (typeCode (r_Type r)) (accCode (set (r_Permissions r))) r R (accCode (rq_access q)))
    \<longleftrightarrow> (\<exists>m \<in> Mapping.keys (rules e). exceptionFor e q m)" .
  have "\<forall>r \<in> set (exRules e). r_Allow r = (\<not> defaultAllow e)"
    by (auto simp: exRules_set [OF inv] exRule_def)
  from firstMatch_uniform [OF this] show ?thesis by (simp only: ex filterAllows_def)
qed

lemma DeviceFilter_emu:
  assumes "applyAll rs newEmulator = Inr e"
  shows "DeviceFilter rs = compileFilter e"
  using assms by (simp add: DeviceFilter_def)

lemma runs_compiled:
  assumes isa: "ebpf_isa ex" and inv: "emu_inv e" and small: "small_numbers e" and q: "wf_request q"
    and mem: "ctxMemory mem (R R1) q"
    and prog: "prog = initInsts @ blocks 0 (exRules e) @ finalInsts (int (length (exRules e))) (defaultAllow e)"
  shows "runProg ex mem prog (length prog) 0 R = Some (if filterAllows e q then 1 else 0)"
proof -
  let ?R = "R(R2 := ucast (mem (R R1) AND 0xFFFF), R3 := ucast (drop_bit 16 (mem (R R1))),
         R4 := ucast (mem (R R1 + 4)), R5 := ucast (mem (R R1 + 8)))"
  let ?rest = "blocks 0 (exRules e) @ finalInsts (int (length (exRules e))) (defaultAllow e)"
  have t: "rq_type q \<in> {BlockDevice, CharDevice}" using q by (simp add: wf_request_def)
  have w: "mem (R R1) = accessWord q" "mem (R R1 + 4) = rq_major q" "mem (R R1 + 8) = rq_minor q"
    using mem by (simp_all add: ctxMemory_def)
  have regs: "?R R2 = ucast (typeCode (rq_type q))" "?R R4 = ucast (rq_major q)" "?R R5 = ucast (rq_minor q)"
    "?R R3 = ucast (accCode (rq_access q))"
    using accessWord_low [OF t] accessWord_high [OF t] by (simp_all add: w)
  have syms: "symsOf initInsts \<subseteq> blockSym ` {0..<0}" by (simp add: initInsts_def symsOf_Cons)
  have "runProg ex mem (initInsts @ ?rest) (6 + length ?rest) 0 R = runProg ex mem (initInsts @ ?rest) (length ?rest) 6 ?R"
    by (rule exec_prologue [OF isa])
  also have "6 = length initInsts" by (simp add: initInsts_def)
  also have "runProg ex mem (initInsts @ ?rest) (length ?rest) (length initInsts) ?R =
      Some (if firstMatch (defaultAllow e) (exRules e) ?R (accCode (rq_access q)) then 1 else 0)"
    using exec_blocks [where R = ?R, OF isa order_refl syms regs(4), of mem "exRules e" "defaultAllow e"] by simp
  also have "firstMatch (defaultAllow e) (exRules e) ?R (accCode (rq_access q)) = filterAllows e q"
    by (rule firstMatch_filterAllows [OF inv q small regs(1-3)])
  finally show ?thesis by (simp only: prog length_append)
qed

text \<open>A machine that has the documented effects, for the concrete instances.\<close>

fun ebpf_ref :: machine where
  "ebpf_ref mem (LoadMemWord d s off) R = Next (R(d := ucast (mem (R s + word_of_int off))))"
| "ebpf_ref mem (And32 d i) R = Next (R(d := ucast ((ucast (R d) :: u32) AND i)))"
| "ebpf_ref mem (RSh32 d i) R = Next (R(d := ucast (drop_bit (unat i) (ucast (R d) :: u32))))"
| "ebpf_ref mem (Mov32Imm d i) R = Next (R(d := ucast i))"
| "ebpf_ref mem (Mov32Reg d s) R = Next (R(d := ucast (ucast (R s) :: u32)))"
| "ebpf_ref mem (JNEImm d i l) R = (if R d \<noteq> scast i then Branch l R else Next R)"
| "ebpf_ref mem (JNEReg d s l) R = (if R d \<noteq> R s then Branch l R else Next R)"
| "ebpf_ref mem Return R = Done (R R0)"

lemma ebpf_ref_isa: "ebpf_isa ebpf_ref"
  by (simp add: ebpf_isa_def)

lemma applyAll_small_ok:
  "applyAll rs newEmulator = Inr e \<Longrightarrow>
   (\<exists>prog. DeviceFilter rs = Inr (prog, license)) \<longleftrightarrow> small_numbers e"
  by (simp add: DeviceFilter_emu compileFilter_ok_iff [OF applyAll_emu_inv])

lemma DeviceFilter_code:
  assumes "applyAll rs newEmulator = Inr e" and "DeviceFilter rs = Inr (prog, lic)"
  shows "small_numbers e \<and>
    prog = initInsts @ blocks 0 (exRules e) @ finalInsts (int (length (exRules e))) (defaultAllow e)"
proof -
  have "lic = license"
    using assms(2) by (auto simp: DeviceFilter_def compileFilter_def andThen_Inr_iff split: sum.splits)
  then have "small_numbers e" using assms applyAll_small_ok by blast
  then show ?thesis
    using assms compileFilter_eq [OF applyAll_emu_inv [OF assms(1)]] by (simp add: DeviceFilter_emu)
qed

subsection \<open>Properties\<close>


definition exampleRules :: "Rule list" where
  "exampleRules =
     [\<lparr>r_Type = CHR ''a'', r_Major = -1, r_Minor = -1, r_Permissions = ''rwm'', r_Allow = False\<rparr>,
      \<lparr>r_Type = CHR ''c'', r_Major = 1, r_Minor = 3, r_Permissions = ''rw'', r_Allow = True\<rparr>]"

definition exampleFilterEmu :: Emulator where
  "exampleFilterEmu = \<lparr>defaultAllow = False,
     rules = Mapping.update (DeviceMeta (CHR ''c'') 1 3) ''rw'' Mapping.empty\<rparr>"

lemma exampleRules_emu: "applyAll exampleRules newEmulator = Inr exampleFilterEmu"
proof -
  have "Union ''rw'' [] = ''rw''" by (simp add: Union_canonical permSet_def canonical_def)
  then show ?thesis
    by (simp add: applyAll_def exampleRules_def exampleFilterEmu_def Apply_def CanCgroup_def dev_types
      allow_def deny_def isWildcardRule_def newEmulator_def addRule_def wrapErr_def permsAt_empty)
qed

definition nullRead :: devRequest where
  "nullRead = \<lparr>rq_type = CHR ''c'', rq_access = {CHR ''r''}, rq_major = 1, rq_minor = 3\<rparr>"

definition nullMem :: memory where
  "nullMem = (\<lambda>a. if a = 0 then accessWord nullRead else if a = 4 then 1 else 3)"

lemma exampleFilter_small: "small_numbers exampleFilterEmu"
  by (simp add: small_numbers_def exampleFilterEmu_def maxUint32_def)


text \<open>A rule list the emulator accepts always has a filter, unless one of the exceptions left
  has a major or minor number above 2^32-1; the internal errors of DeviceFilter never occur.\<close>

theorem device_filter_total:
  assumes "applyAll rs newEmulator = Inr e"
  shows "(\<exists>prog. DeviceFilter rs = Inr (prog, license)) \<longleftrightarrow>
    (\<forall>m \<in> Mapping.keys (rules e). permOf e m \<noteq> {} \<longrightarrow> major m \<le> maxUint32 \<and> minor m \<le> maxUint32)"
  using applyAll_small_ok [OF assms] unfolding small_numbers_def .

theorem device_filter_total_witness: "\<exists>prog. DeviceFilter exampleRules = Inr (prog, license)"
  using device_filter_total [OF exampleRules_emu] exampleFilter_small unfolding small_numbers_def by blast

text \<open>A deny exception for part of the access modes does not stop a request that also asks for
  another mode: on a deny-list, a request is refused only if one exception covers all of it. (The
  kernel's cgroup v1 refuses a request as soon as one of its modes is denied.)\<close>

theorem deny_list_partial_access:
  assumes "ebpf_isa ex" and "applyAll rs newEmulator = Inr e" and "DeviceFilter rs = Inr (prog, lic)"
    and "wf_request q" and "ctxMemory mem (R R1) q"
    and "defaultAllow e" and "\<forall>m \<in> Mapping.keys (rules e). \<not> rq_access q \<subseteq> permOf e m"
  shows "runProg ex mem prog (length prog) 0 R = Some 1"
proof -
  have "filterAllows e q" using assms(6,7) by (auto simp: filterAllows_def exceptionFor_def)
  then show ?thesis
    using runs_compiled [where R = R, OF assms(1) applyAll_emu_inv [OF assms(2)] _ assms(4,5)]
      DeviceFilter_code [OF assms(2,3)] by auto
qed

definition denyReadRules :: "Rule list" where
  "denyReadRules =
     [\<lparr>r_Type = CHR ''a'', r_Major = -1, r_Minor = -1, r_Permissions = ''rwm'', r_Allow = True\<rparr>,
      \<lparr>r_Type = CHR ''c'', r_Major = 1, r_Minor = 3, r_Permissions = ''r'', r_Allow = False\<rparr>]"

definition nullReadWrite :: devRequest where
  "nullReadWrite = \<lparr>rq_type = CHR ''c'', rq_access = {CHR ''r'', CHR ''w''}, rq_major = 1, rq_minor = 3\<rparr>"

theorem deny_list_partial_access_witness:
  "\<exists>prog. DeviceFilter denyReadRules = Inr (prog, license) \<and>
     runProg ebpf_ref (\<lambda>a. if a = 0 then accessWord nullReadWrite else if a = 4 then 1 else 3)
       prog (length prog) 0 (\<lambda>_. 0) = Some 1"
proof -
  let ?e = "\<lparr>defaultAllow = True,
     rules = Mapping.update (DeviceMeta (CHR ''c'') 1 3) ''r'' Mapping.empty\<rparr>"
  let ?mem = "\<lambda>a::u64. if a = 0 then accessWord nullReadWrite else if a = 4 then 1 else 3"
  have "Union ''r'' [] = ''r''" by (simp add: Union_canonical permSet_def canonical_def)
  then have e: "applyAll denyReadRules newEmulator = Inr ?e"
    by (simp add: applyAll_def denyReadRules_def Apply_def CanCgroup_def dev_types
      allow_def deny_def isWildcardRule_def newEmulator_def addRule_def wrapErr_def permsAt_empty)
  moreover have "small_numbers ?e" by (simp add: small_numbers_def maxUint32_def)
  ultimately obtain prog where p: "DeviceFilter denyReadRules = Inr (prog, license)"
    using applyAll_small_ok by blast
  have "wf_request nullReadWrite" by (simp add: wf_request_def nullReadWrite_def dev_types)
  moreover have "ctxMemory ?mem ((\<lambda>_. 0) R1) nullReadWrite" by (simp add: ctxMemory_def nullReadWrite_def)
  moreover have "\<forall>m \<in> Mapping.keys (rules ?e). \<not> rq_access nullReadWrite \<subseteq> permOf ?e m"
    by (auto simp: permOf_def permsAt_update permsAt_empty permSet_def nullReadWrite_def)
  ultimately show ?thesis
    using deny_list_partial_access [OF ebpf_ref_isa e p, of nullReadWrite ?mem "\<lambda>_. 0"] p by simp
qed

text \<open>An exception with a major number of 2^31 or more, which the generator accepts, never
  applies: its test compares the number with a sign-extended immediate. If all exceptions are such,
  the filter answers every request with the default.\<close>

theorem large_major_never_matches:
  assumes "ebpf_isa ex" and "applyAll rs newEmulator = Inr e" and "DeviceFilter rs = Inr (prog, lic)"
    and "wf_request q" and "ctxMemory mem (R R1) q"
    and "\<forall>m \<in> Mapping.keys (rules e). 2 ^ 31 \<le> major m"
  shows "runProg ex mem prog (length prog) 0 R = Some (if defaultAllow e then 1 else 0)"
proof -
  have "filterAllows e q = defaultAllow e"
    using assms(6) by (auto simp: filterAllows_def exceptionFor_def numMatches_def)
  then show ?thesis
    using runs_compiled [where R = R, OF assms(1) applyAll_emu_inv [OF assms(2)] _ assms(4,5)]
      DeviceFilter_code [OF assms(2,3)] by auto
qed

definition largeMajorRules :: "Rule list" where
  "largeMajorRules =
     [\<lparr>r_Type = CHR ''c'', r_Major = 2 ^ 31, r_Minor = 3, r_Permissions = ''rw'', r_Allow = True\<rparr>]"

definition largeRead :: devRequest where
  "largeRead = \<lparr>rq_type = CHR ''c'', rq_access = {CHR ''r''}, rq_major = 2 ^ 31, rq_minor = 3\<rparr>"

theorem large_major_never_matches_witness:
  "\<exists>prog. DeviceFilter largeMajorRules = Inr (prog, license) \<and>
     runProg ebpf_ref (\<lambda>a. if a = 0 then accessWord largeRead else if a = 4 then 2 ^ 31 else 3)
       prog (length prog) 0 (\<lambda>_. 0) = Some 0"
proof -
  let ?e = "\<lparr>defaultAllow = False,
     rules = Mapping.update (DeviceMeta (CHR ''c'') (2 ^ 31) 3) ''rw'' Mapping.empty\<rparr>"
  let ?mem = "\<lambda>a::u64. if a = 0 then accessWord largeRead else if a = 4 then 2 ^ 31 else 3"
  have "Union ''rw'' [] = ''rw''" by (simp add: Union_canonical permSet_def canonical_def)
  then have e: "applyAll largeMajorRules newEmulator = Inr ?e"
    by (simp add: applyAll_def largeMajorRules_def Apply_def CanCgroup_def dev_types
      allow_def deny_def isWildcardRule_def newEmulator_def addRule_def wrapErr_def permsAt_empty)
  moreover have "small_numbers ?e" by (simp add: small_numbers_def maxUint32_def)
  ultimately obtain prog where p: "DeviceFilter largeMajorRules = Inr (prog, license)"
    using applyAll_small_ok by blast
  have "wf_request largeRead" by (simp add: wf_request_def largeRead_def dev_types)
  moreover have "ctxMemory ?mem ((\<lambda>_. 0) R1) largeRead" by (simp add: ctxMemory_def largeRead_def)
  ultimately show ?thesis
    using large_major_never_matches [OF ebpf_ref_isa e p, of largeRead ?mem "\<lambda>_. 0"] p by simp
qed

end
