(* ===== verification/Paths.thy ===== *)
theory Paths imports Gostring "HOL-Library.Sublist" begin

text \<open>
  Lexical paths: package path/filepath of the Go library, as far as the code uses it, and the
  path functions of utils/utils.go with its label searches and exit status. A path is a string;
  a clean absolute path is the list of its elements (\<open>absPath\<close>), which is how the lemmas see it.
\<close>

subsection \<open>path/filepath\<close>

definition IsAbs :: "string \<Rightarrow> bool" where
  "IsAbs p = HasPrefix p ''/''"

text \<open>\<open>filepath.Clean\<close>: the elements seen so far are kept in reverse.\<close>

fun cleanStep :: "bool \<Rightarrow> string \<Rightarrow> string list \<Rightarrow> string list" where
  "cleanStep rooted w acc =
     (if w = [] \<or> w = ''.'' then acc
      else if w = ''..'' then
        (case acc of
           [] \<Rightarrow> if rooted then [] else [w]
         | v # vs \<Rightarrow> if v = ''..'' then w # acc else vs)
      else w # acc)"

definition cleanElems :: "bool \<Rightarrow> string list \<Rightarrow> string list" where
  "cleanElems rooted ws = rev (fold (cleanStep rooted) ws [])"

definition Clean :: "string \<Rightarrow> string" where
  "Clean p =
     (let rooted = IsAbs p;
          out = (if rooted then ''/'' else []) @ Join ''/'' (cleanElems rooted (Split (CHR ''/'') p))
      in if out = [] then ''.'' else out)"

text \<open>\<open>filepath.Dir\<close> and \<open>filepath.Base\<close>.\<close>

definition PathDir :: "string \<Rightarrow> string" where
  "PathDir p = Clean (case LastIndexByte p (CHR ''/'') of None \<Rightarrow> [] | Some i \<Rightarrow> take (Suc i) p)"

definition PathBase :: "string \<Rightarrow> string" where
  "PathBase p =
     (if p = [] then ''.''
      else let q = rev (dropWhile (\<lambda>c. c = CHR ''/'') (rev p)) in
        if q = [] then ''/''
        else (case LastIndexByte q (CHR ''/'') of None \<Rightarrow> q | Some i \<Rightarrow> drop (Suc i) q))"

text \<open>\<open>filepath.Join\<close> of two elements.\<close>

definition PathJoin :: "string \<Rightarrow> string \<Rightarrow> string" where
  "PathJoin a b =
     (if a \<noteq> [] then Clean (a @ ''/'' @ b)
      else if b \<noteq> [] then Clean b
      else [])"

text \<open>\<open>filepath.Rel\<close> with the base \<open>/\<close> and an absolute target.\<close>

definition RelRoot :: "string \<Rightarrow> string" where
  "RelRoot targ = (let t = Clean targ in if t = ''/'' then ''.'' else drop 1 t)"

subsection \<open>utils/utils.go\<close>

definition CleanPath :: "string \<Rightarrow> string" where
  "CleanPath path =
     (if path = [] then []
      else
        (let path1 = Clean path;
             path2 = (if \<not> IsAbs path1 then RelRoot (Clean (''/'' @ path1)) else path1)
         in Clean path2))"

definition stripRoot :: "string \<Rightarrow> string \<Rightarrow> string" where
  "stripRoot root0 path0 =
     (let root = CleanPath (''/'' @ root0); path = CleanPath (''/'' @ path0);
          path' = (if path = root then ''/''
                   else if root = ''/'' then path
                   else if HasPrefix path (root @ ''/'') then TrimPrefix path (root @ ''/'')
                   else path)
      in CleanPath (''/'' @ path'))"

fun SearchLabels :: "string list \<Rightarrow> string \<Rightarrow> string" where
  "SearchLabels [] query = []"
| "SearchLabels (l # ls) query =
     (case SplitN (CHR ''='') 2 l of
        k # v # _ \<Rightarrow> if k = query then v else SearchLabels ls query
      | _ \<Rightarrow> SearchLabels ls query)"

text \<open>The bundle path and the user annotations of a label list.\<close>

fun annotationStep :: "string \<Rightarrow> string \<times> (string \<rightharpoonup> string) \<Rightarrow> string \<times> (string \<rightharpoonup> string)" where
  "annotationStep l (bundle, annots) =
     (case SplitN (CHR ''='') 2 l of
        k # v # _ \<Rightarrow> if k = ''bundle'' then (v, annots) else (bundle, annots(k \<mapsto> v))
      | _ \<Rightarrow> (bundle, annots))"

definition Annotations :: "string list \<Rightarrow> string \<times> (string \<rightharpoonup> string)" where
  "Annotations labels = fold annotationStep labels ([], Map.empty)"

text \<open>A wait status (\<open>syscall.WaitStatus\<close>): how the process ended.\<close>

datatype WaitStatus = Exited int | Signaled int | StillRunning

definition exitSignalOffset :: int where "exitSignalOffset = 128"

fun ExitStatus :: "WaitStatus \<Rightarrow> int" where
  "ExitStatus (Signaled s) = exitSignalOffset + s"
| "ExitStatus (Exited c) = c"
| "ExitStatus StillRunning = -1"

subsection \<open>Clean paths as lists of elements\<close>

definition elem_ok :: "string \<Rightarrow> bool" where
  "elem_ok w \<longleftrightarrow> w \<noteq> [] \<and> w \<noteq> ''.'' \<and> w \<noteq> ''..'' \<and> CHR ''/'' \<notin> set w"

definition absPath :: "string list \<Rightarrow> string" where
  "absPath ws = ''/'' @ Join ''/'' ws"

text \<open>The elements an arbitrary path has when it is read as a path below the root.\<close>

definition elemsOf :: "string \<Rightarrow> string list" where
  "elemsOf p = cleanElems True (Split (CHR ''/'') p)"

declare cleanStep.simps [simp del]

lemma cleanStep_set: "set (cleanStep r w acc) \<subseteq> ({w} - {[], ''.''}) \<union> set acc"
  by (auto simp: cleanStep.simps split: list.splits if_splits)

lemma fold_clean_set: "set (fold (cleanStep r) ws acc) \<subseteq> (set ws - {[], ''.''}) \<union> set acc"
proof (induction ws arbitrary: acc)
  case Nil
  then show ?case by simp
next
  case (Cons w ws)
  from Cons [of "cleanStep r w acc"] cleanStep_set [of r w acc] show ?case by auto
qed

text \<open>On a rooted path no \<open>..\<close> survives.\<close>

lemma fold_clean_up: "''..'' \<notin> set acc \<Longrightarrow> ''..'' \<notin> set (fold (cleanStep True) ws acc)"
proof (induction ws arbitrary: acc)
  case Nil
  then show ?case by simp
next
  case (Cons w ws)
  have "''..'' \<notin> set (cleanStep True w acc)"
    using Cons.prems by (auto simp: cleanStep.simps split: list.splits if_splits)
  then show ?case using Cons.IH by simp
qed

lemma elemsOf_ok: "w \<in> set (elemsOf p) \<Longrightarrow> elem_ok w"
  using fold_clean_set [of True "Split (CHR ''/'') p" "[]"] fold_clean_up [of "[]"] Split_parts_no_sep
  unfolding elemsOf_def cleanElems_def elem_ok_def by fastforce

lemma fold_clean_id: "\<forall>w \<in> set ws. elem_ok w \<Longrightarrow> fold (cleanStep r) ws acc = rev ws @ acc"
  by (induction ws arbitrary: acc) (auto simp: elem_ok_def cleanStep.simps)

lemma cleanElems_id: "\<forall>w \<in> set ws. elem_ok w \<Longrightarrow> cleanElems r ws = ws"
  by (simp add: cleanElems_def fold_clean_id)

lemma IsAbs_Cons: "IsAbs p \<longleftrightarrow> (\<exists>q. p = CHR ''/'' # q)"
  by (auto simp: IsAbs_def HasPrefix_iff)

lemma cleanElems_slash: "cleanElems r (Split (CHR ''/'') (CHR ''/'' # p)) = cleanElems r (Split (CHR ''/'') p)"
  by (simp add: cleanElems_def cleanStep.simps)

lemma Clean_abs: "Clean (CHR ''/'' # p) = absPath (elemsOf p)"
  unfolding Clean_def Let_def cleanElems_slash by (simp add: IsAbs_Cons absPath_def elemsOf_def)

lemma Split_Join_ok: "\<forall>w \<in> set ws. elem_ok w \<Longrightarrow> ws \<noteq> [] \<Longrightarrow> Split (CHR ''/'') (Join ''/'' ws) = ws"
  by (rule Split_Join) (auto simp: elem_ok_def)

lemma elemsOf_Join: "\<forall>w \<in> set ws. elem_ok w \<Longrightarrow> elemsOf (Join ''/'' ws) = ws"
  by (cases "ws = []") (auto simp: elemsOf_def Split_Join_ok cleanElems_id, simp add: cleanElems_def cleanStep.simps)

lemma elemsOf_absPath: "\<forall>w \<in> set ws. elem_ok w \<Longrightarrow> elemsOf (absPath ws) = ws"
  using elemsOf_Join by (simp only: absPath_def elemsOf_def append.simps cleanElems_slash)

lemma Clean_absPath: "\<forall>w \<in> set ws. elem_ok w \<Longrightarrow> Clean (absPath ws) = absPath ws"
  by (simp add: absPath_def Clean_abs elemsOf_Join)

lemma Join_Cons: "Join sep (w # ws) = w @ (if ws = [] then [] else sep @ Join sep ws)"
  by (cases ws) auto

lemma Join_not_abs: "(\<And>w. w \<in> set ws \<Longrightarrow> w \<noteq> [] \<and> CHR ''/'' \<notin> set w) \<Longrightarrow> \<not> IsAbs (Join ''/'' ws)"
proof (cases ws)
  case Nil
  then show ?thesis by (simp add: IsAbs_Cons)
next
  case (Cons w vs)
  assume "\<And>w. w \<in> set ws \<Longrightarrow> w \<noteq> [] \<and> CHR ''/'' \<notin> set w"
  with Cons have "w \<noteq> []" "CHR ''/'' \<notin> set w" by auto
  then obtain c cs where "w = c # cs" "c \<noteq> CHR ''/''" by (cases w) auto
  then show ?thesis by (simp add: Cons Join_Cons IsAbs_Cons)
qed

lemma Join_ok_not_abs: "\<forall>w \<in> set ws. elem_ok w \<Longrightarrow> \<not> IsAbs (Join ''/'' ws)"
  by (rule Join_not_abs) (auto simp: elem_ok_def)

lemma Join_eq_Nil: "\<forall>w \<in> set ws. elem_ok w \<Longrightarrow> Join ''/'' ws = [] \<longleftrightarrow> ws = []"
  by (cases ws) (auto simp: elem_ok_def Join_Cons)

lemma Clean_relPath: "\<forall>w \<in> set ws. elem_ok w \<Longrightarrow> ws \<noteq> [] \<Longrightarrow> Clean (Join ''/'' ws) = Join ''/'' ws"
  by (simp add: Clean_def Join_ok_not_abs Split_Join_ok cleanElems_id Join_eq_Nil Let_def)

lemma CleanPath_abs: "CleanPath (CHR ''/'' # p) = absPath (elemsOf p)"
proof -
  have "IsAbs (absPath ws)" for ws by (simp add: absPath_def IsAbs_Cons)
  then show ?thesis using elemsOf_ok by (simp add: CleanPath_def Clean_abs Clean_absPath)
qed

lemma absPath_eq: "absPath ws = ''/'' \<longleftrightarrow> Join ''/'' ws = []"
  by (simp add: absPath_def)

lemma Clean_dot: "Clean ''.'' = ''.''"
  by (simp add: Clean_def IsAbs_Cons cleanElems_def cleanStep.simps)

text \<open>A relative path is cleaned as if it started at the root, and stays relative.\<close>

lemma CleanPath_rel:
  assumes "\<not> IsAbs p" and "p \<noteq> []"
  shows "CleanPath p =
    (let ws = elemsOf (Clean p) in if ws = [] then ''.'' else Join ''/'' ws)"
proof -
  let ?ws = "elemsOf (Clean p)"
  have ok: "\<forall>w \<in> set ?ws. elem_ok w" using elemsOf_ok by blast
  let ?cs = "cleanElems False (Split (CHR ''/'') p)"
  have "w \<noteq> [] \<and> CHR ''/'' \<notin> set w" if "w \<in> set ?cs" for w
    using that fold_clean_set [of False "Split (CHR ''/'') p" "[]"] Split_parts_no_sep
    unfolding cleanElems_def by fastforce
  then have "\<not> IsAbs (Join ''/'' ?cs)" by (rule Join_not_abs)
  then have "\<not> IsAbs (Clean p)" using assms by (auto simp: Clean_def Let_def IsAbs_Cons)
  then have "CleanPath p = Clean (if absPath ?ws = ''/'' then ''.'' else drop 1 (absPath ?ws))"
    using assms(2) ok by (simp add: CleanPath_def RelRoot_def Clean_abs Clean_absPath)
  then show ?thesis
    using Clean_relPath [OF ok] Join_eq_Nil [OF ok]
    by (auto simp: absPath_eq Let_def Clean_dot) (simp add: absPath_def)
qed

text \<open>Every cleaned path has one of three forms.\<close>

lemma CleanPath_cases:
  obtains "p = []" "CleanPath p = []"
  | ws where "\<forall>w \<in> set ws. elem_ok w" "IsAbs p" "CleanPath p = absPath ws"
  | ws where "\<forall>w \<in> set ws. elem_ok w" "ws \<noteq> []" "\<not> IsAbs p" "CleanPath p = Join ''/'' ws"
  | "CleanPath p = ''.''" "\<not> IsAbs p"
proof (cases "p = []")
  case True
  then show ?thesis using that(1) by (simp add: CleanPath_def)
next
  case False
  show ?thesis
  proof (cases "IsAbs p")
    case True
    then obtain q where "p = CHR ''/'' # q" by (auto simp: IsAbs_Cons)
    then show ?thesis using that(2) [of "elemsOf q"] elemsOf_ok CleanPath_abs True by blast
  next
    case rel: False
    let ?ws = "elemsOf (Clean p)"
    have "\<forall>w \<in> set ?ws. elem_ok w" using elemsOf_ok by blast
    with that(3) [of ?ws] that(4) CleanPath_rel [OF rel False] rel show ?thesis
      by (cases "?ws = []") (auto simp: Let_def)
  qed
qed

lemma elem_ok_up: "\<forall>w \<in> set ws. elem_ok w \<Longrightarrow> ''..'' \<notin> set ws"
  by (auto simp: elem_ok_def)

lemma Split_absPath: "\<forall>w \<in> set ws. elem_ok w \<Longrightarrow> Split (CHR ''/'') (absPath ws) = [] # (if ws = [] then [[]] else ws)"
  by (simp add: absPath_def Split_Join_ok)

lemma Split_append: "Split c (a @ c # b) = Split c a @ Split c b"
  by (induction a) (auto split: list.splits)

lemma Join_append: "ws \<noteq> [] \<Longrightarrow> Join sep (rs @ ws) = (if rs = [] then [] else Join sep rs @ sep) @ Join sep ws"
  by (induction rs) (auto simp: Join_Cons)

lemma Join_prefix_iff:
  assumes "\<forall>w \<in> set rs. elem_ok w" and "\<forall>w \<in> set ps. elem_ok w" and "rs \<noteq> []"
  shows "Join ''/'' ps = Join ''/'' rs @ ''/'' @ t \<longleftrightarrow> (\<exists>ws. ws \<noteq> [] \<and> ps = rs @ ws \<and> t = Join ''/'' ws)"
proof
  assume eq: "Join ''/'' ps = Join ''/'' rs @ ''/'' @ t"
  then have "ps \<noteq> []" by (cases ps) auto
  then have "ps = Split (CHR ''/'') (Join ''/'' rs @ ''/'' @ t)"
    using Split_Join_ok [OF assms(2)] eq by simp
  also have "\<dots> = rs @ Split (CHR ''/'') t"
    using Split_Join_ok [OF assms(1,3)] by (simp add: Split_append)
  finally show "\<exists>ws. ws \<noteq> [] \<and> ps = rs @ ws \<and> t = Join ''/'' ws"
    using Join_Split [of "CHR ''/''" t] by (metis Split_Nil)
qed (use assms(3) in \<open>auto simp: Join_append\<close>)

lemma Clean_below:
  assumes "\<forall>w \<in> set rs. elem_ok w" and "\<forall>w \<in> set ws. elem_ok w"
  shows "elemsOf (absPath rs @ ''/'' @ Join ''/'' ws) = rs @ ws"
    and "elemsOf (absPath rs @ ''/'' @ absPath ws) = rs @ ws"
proof -
  note sp = Split_append
  have id: "fold (cleanStep True) (Split (CHR ''/'') (Join ''/'' vs)) acc = rev vs @ acc"
    if "\<forall>w \<in> set vs. elem_ok w" for vs acc
    using that by (cases "vs = []") (simp_all add: cleanStep.simps Split_Join_ok fold_clean_id)
  have nil: "cleanStep True [] acc = acc" for acc by (simp add: cleanStep.simps)
  show "elemsOf (absPath rs @ ''/'' @ Join ''/'' ws) = rs @ ws"
    using id [OF assms(1)] id [OF assms(2)] by (simp add: elemsOf_def cleanElems_def absPath_def sp nil)
  show "elemsOf (absPath rs @ ''/'' @ absPath ws) = rs @ ws"
    using id [OF assms(1)] id [OF assms(2)] by (simp add: elemsOf_def cleanElems_def absPath_def sp nil)
qed

lemma elemsOf_below_dot: "\<forall>w \<in> set rs. elem_ok w \<Longrightarrow> elemsOf (absPath rs @ ''/.'') = rs"
proof -
  assume rs: "\<forall>w \<in> set rs. elem_ok w"
  have "elemsOf (absPath rs @ ''/.'') = elemsOf (absPath rs @ ''/'')"
    using Split_append [of "CHR ''/''" "absPath rs"]
    by (simp add: elemsOf_def cleanElems_def cleanStep.simps)
  then show ?thesis using Clean_below(1) [OF rs, of "[]"] by simp
qed

lemma PathJoin_abs: "PathJoin (absPath rs) b = absPath (elemsOf (absPath rs @ ''/'' @ b))"
proof -
  have "elemsOf (CHR ''/'' # q) = elemsOf q" for q by (simp only: elemsOf_def cleanElems_slash)
  then show ?thesis using Clean_abs by (simp add: PathJoin_def absPath_def)
qed

lemma strip_elems:
  assumes "\<forall>w \<in> set rs. elem_ok w" and "\<forall>w \<in> set ps. elem_ok w" and "rs \<noteq> []" and "ps \<noteq> rs"
  shows "HasPrefix (absPath ps) (absPath rs @ ''/'') \<longleftrightarrow> prefix rs ps"
    and "prefix rs ps \<Longrightarrow> TrimPrefix (absPath ps) (absPath rs @ ''/'') = Join ''/'' (drop (length rs) ps)"
proof -
  have iff: "HasPrefix (absPath ps) (absPath rs @ ''/'') \<longleftrightarrow> (\<exists>ws. ws \<noteq> [] \<and> ps = rs @ ws)"
    using Join_prefix_iff [OF assms(1-3)] by (auto simp: HasPrefix_iff absPath_def)
  then show pre: "HasPrefix (absPath ps) (absPath rs @ ''/'') \<longleftrightarrow> prefix rs ps"
    using assms(4) by (auto simp: prefix_def)
  assume "prefix rs ps"
  then obtain ws where "ps = rs @ ws" "ws \<noteq> []" using pre iff by blast
  then show "TrimPrefix (absPath ps) (absPath rs @ ''/'') = Join ''/'' (drop (length rs) ps)"
    using assms(3) pre \<open>prefix rs ps\<close> by (simp add: TrimPrefix_def absPath_def Join_append)
qed

lemma CleanPath_idem: "CleanPath (CleanPath p) = CleanPath p"
proof (cases p rule: CleanPath_cases)
  case (2 ws)
  then show ?thesis using elemsOf_Join by (simp add: absPath_def CleanPath_abs)
next
  case (3 ws)
  then show ?thesis
    using CleanPath_rel [OF Join_ok_not_abs] Join_eq_Nil Clean_relPath elemsOf_Join by (simp add: Let_def)
next
  case 4
  then show ?thesis
    using CleanPath_rel [of "''.''"] by (simp add: IsAbs_Cons Clean_dot) (simp add: elemsOf_def cleanElems_def cleanStep.simps)
qed (simp add: CleanPath_def)

lemma CleanPath_below:
  "\<exists>ws. PathJoin (Clean (''/'' @ r)) (CleanPath p) = absPath (elemsOf r @ ws)"
proof -
  have root: "\<forall>w \<in> set (elemsOf r). elem_ok w" using elemsOf_ok by blast
  have cr: "Clean (''/'' @ r) = absPath (elemsOf r)" using Clean_abs by simp
  show ?thesis
  proof (cases p rule: CleanPath_cases)
    case 1
    then show ?thesis using Clean_below(1) [OF root, of "[]"] unfolding cr PathJoin_abs
      by (intro exI [of _ "[]"]) simp
  next
    case (2 ws)
    then show ?thesis using Clean_below(2) [OF root 2(1)] unfolding cr PathJoin_abs
      by (intro exI [of _ ws]) simp
  next
    case (3 ws)
    then show ?thesis using Clean_below(1) [OF root 3(1)] unfolding cr PathJoin_abs
      by (intro exI [of _ ws]) simp
  next
    case 4
    then show ?thesis using elemsOf_below_dot [OF root] unfolding cr PathJoin_abs
      by (intro exI [of _ "[]"]) simp
  qed
qed

subsection \<open>Properties\<close>

text \<open>CleanPath makes a path safe to append to a root: the result has no \<open>..\<close> element, is
  absolute exactly when the argument is, does not change when cleaned again, and joining it to any
  clean absolute root gives a path lexically at or below that root.\<close>

theorem clean_path_confined:
  "''..'' \<notin> set (Split (CHR ''/'') (CleanPath p)) \<and>
   CleanPath (CleanPath p) = CleanPath p \<and>
   (IsAbs (CleanPath p) \<longleftrightarrow> IsAbs p) \<and>
   (\<exists>ws. PathJoin (Clean (''/'' @ r)) (CleanPath p) = absPath (elemsOf r @ ws))"
proof -
  have "''..'' \<notin> set (Split (CHR ''/'') (CleanPath p)) \<and> (IsAbs (CleanPath p) \<longleftrightarrow> IsAbs p)"
  proof (cases p rule: CleanPath_cases)
    case (2 ws)
    then show ?thesis using Split_absPath elem_ok_up [OF 2(1)] by (auto simp: absPath_def IsAbs_Cons)
  next
    case (3 ws)
    then show ?thesis using Split_Join_ok elem_ok_up [OF 3(1)] Join_ok_not_abs by auto
  qed (auto simp: IsAbs_Cons)
  then show ?thesis using CleanPath_idem CleanPath_below by blast
qed

text \<open>stripRoot is lexical removal of a prefix of path elements: on the cleaned elements of
  root and path it drops the root's when the path starts with them and otherwise leaves the path
  alone. In particular a path that merely shares characters with the root is not cut.\<close>

theorem strip_root_elements:
  "stripRoot root path =
    (let rs = elemsOf root; ps = elemsOf path
     in absPath (if prefix rs ps then drop (length rs) ps else ps))"
proof -
  let ?rs = "elemsOf root" and ?ps = "elemsOf path"
  have rs: "\<forall>w \<in> set ?rs. elem_ok w" and ps: "\<forall>w \<in> set ?ps. elem_ok w"
    using elemsOf_ok by blast+
  have inj: "absPath ?ps = absPath ?rs \<longleftrightarrow> ?ps = ?rs" using elemsOf_absPath rs ps by metis
  have root: "absPath ?rs = ''/'' \<longleftrightarrow> ?rs = []" using Join_eq_Nil [OF rs] by (simp add: absPath_def)
  have dr: "\<forall>w \<in> set (drop n ?ps). elem_ok w" for n using ps in_set_dropD by fast
  have slash: "elemsOf ''/'' = []" by (simp add: elemsOf_def cleanElems_def cleanStep.simps)
  show ?thesis
  proof (cases "?ps = ?rs \<or> ?rs = []")
    case True
    then show ?thesis using elemsOf_absPath [OF ps] slash
      by (auto simp: stripRoot_def CleanPath_abs inj root Let_def)
  next
    case False
    then show ?thesis
      using strip_elems [OF rs ps] elemsOf_absPath [OF ps] elemsOf_Join [OF dr]
      by (simp add: stripRoot_def CleanPath_abs inj root Let_def)
  qed
qed

end
