(* ===== verification/Configs.thy ===== *)
theory Configs imports Devices Paths begin

text \<open>
  The container configuration (configs/): its data, the set of namespaces, the translation of ids
  through a user namespace, clone flags, the strings written to cgroup files and the hooks.
  A pointer is an option, a map that the code iterates over is an association list, and 64-bit ids
  are words.
\<close>

subsection \<open>Namespaces\<close>

datatype NamespaceType =
    NEWNET | NEWPID | NEWNS | NEWUTS | NEWIPC | NEWUSER | NEWCGROUP | OtherNamespace string

fun NsName :: "NamespaceType \<Rightarrow> string" where
  "NsName NEWNET = ''net''"
| "NsName NEWNS = ''mnt''"
| "NsName NEWPID = ''pid''"
| "NsName NEWIPC = ''ipc''"
| "NsName NEWUSER = ''user''"
| "NsName NEWUTS = ''uts''"
| "NsName NEWCGROUP = ''cgroup''"
| "NsName (OtherNamespace _) = []"

text \<open>The cache of supported namespaces is passed along; \<open>stat\<close> tells whether a path can be read.\<close>

definition IsNamespaceSupported ::
  "(string \<Rightarrow> bool) \<Rightarrow> NamespaceType \<Rightarrow> (NamespaceType \<rightharpoonup> bool) \<Rightarrow> bool \<times> (NamespaceType \<rightharpoonup> bool)" where
  "IsNamespaceSupported stat ns cache =
     (case cache ns of
        Some supported \<Rightarrow> (supported, cache)
      | None \<Rightarrow>
          (let nsFile = NsName ns in
           if nsFile = [] then (False, cache)
           else (let supported = stat (''/proc/self/ns/'' @ nsFile) in
                 (supported, cache(ns \<mapsto> supported)))))"

definition NamespaceTypes :: "NamespaceType list" where
  "NamespaceTypes = [NEWUSER, NEWIPC, NEWUTS, NEWNET, NEWPID, NEWNS, NEWCGROUP]"

record Namespace =
  n_Type :: NamespaceType
  n_Path :: string

type_synonym Namespaces = "Namespace list"

definition GetPath :: "Namespace \<Rightarrow> int \<Rightarrow> string" where
  "GetPath n pid = ''/proc/'' @ Itoa pid @ ''/ns/'' @ NsName (n_Type n)"

fun ns_index :: "Namespaces \<Rightarrow> NamespaceType \<Rightarrow> nat option" where
  "ns_index [] t = None"
| "ns_index (ns # nss) t = (if n_Type ns = t then Some 0 else map_option Suc (ns_index nss t))"

definition ns_Remove :: "Namespaces \<Rightarrow> NamespaceType \<Rightarrow> bool \<times> Namespaces" where
  "ns_Remove n t =
     (case ns_index n t of
        None \<Rightarrow> (False, n)
      | Some i \<Rightarrow> (True, take i n @ drop (i + 1) n))"

definition ns_Add :: "Namespaces \<Rightarrow> NamespaceType \<Rightarrow> string \<Rightarrow> Namespaces" where
  "ns_Add n t path =
     (case ns_index n t of
        None \<Rightarrow> n @ [\<lparr>n_Type = t, n_Path = path\<rparr>]
      | Some i \<Rightarrow> n[i := (n ! i)\<lparr>n_Path := path\<rparr>])"

definition ns_Contains :: "Namespaces \<Rightarrow> NamespaceType \<Rightarrow> bool" where
  "ns_Contains n t \<longleftrightarrow> ns_index n t \<noteq> None"

definition PathOf :: "Namespaces \<Rightarrow> NamespaceType \<Rightarrow> string" where
  "PathOf n t = (case ns_index n t of None \<Rightarrow> [] | Some i \<Rightarrow> n_Path (n ! i))"

text \<open>The clone flags (\<open>CLONE_NEW*\<close>); a type without an entry has flag 0.\<close>

fun namespaceInfo :: "NamespaceType \<Rightarrow> u64" where
  "namespaceInfo NEWNET = 0x40000000"
| "namespaceInfo NEWNS = 0x00020000"
| "namespaceInfo NEWUSER = 0x10000000"
| "namespaceInfo NEWIPC = 0x08000000"
| "namespaceInfo NEWUTS = 0x04000000"
| "namespaceInfo NEWPID = 0x20000000"
| "namespaceInfo NEWCGROUP = 0x02000000"
| "namespaceInfo (OtherNamespace _) = 0"

definition ns_Syscall :: "Namespace \<Rightarrow> u64" where
  "ns_Syscall n = namespaceInfo (n_Type n)"

fun cloneFlagsFrom :: "Namespaces \<Rightarrow> u64 \<Rightarrow> u64" where
  "cloneFlagsFrom [] flag = flag"
| "cloneFlagsFrom (v # vs) flag =
     (if n_Path v \<noteq> [] then cloneFlagsFrom vs flag
      else cloneFlagsFrom vs (flag OR namespaceInfo (n_Type v)))"

definition CloneFlags :: "Namespaces \<Rightarrow> u64" where
  "CloneFlags n = cloneFlagsFrom n 0"

subsection \<open>The set of namespaces\<close>

text \<open>What a client may rely on: a finite set of types, each with a path.\<close>

locale namespace_set =
  fixes contains :: "'s \<Rightarrow> NamespaceType \<Rightarrow> bool"
    and path_of :: "'s \<Rightarrow> NamespaceType \<Rightarrow> string"
    and add :: "'s \<Rightarrow> NamespaceType \<Rightarrow> string \<Rightarrow> 's"
    and remove :: "'s \<Rightarrow> NamespaceType \<Rightarrow> bool \<times> 's"
    and inv :: "'s \<Rightarrow> bool"
    and empty :: 's
  assumes inv_empty: "inv empty"
    and inv_add: "inv s \<Longrightarrow> inv (add s t p)"
    and inv_remove: "inv s \<Longrightarrow> inv (snd (remove s t))"
    and contains_empty: "\<not> contains empty t"
    and contains_add: "contains (add s t p) u \<longleftrightarrow> u = t \<or> contains s u"
    and path_add: "path_of (add s t p) u = (if u = t then p else path_of s u)"
    and removed: "fst (remove s t) \<longleftrightarrow> contains s t"
    and contains_remove: "inv s \<Longrightarrow> contains (snd (remove s t)) u \<longleftrightarrow> u \<noteq> t \<and> contains s u"
    and path_absent: "\<not> contains s t \<Longrightarrow> path_of s t = []"
begin

text \<open>Adding a list of distinct types to the empty set: what it then contains.\<close>

definition addAll :: "(NamespaceType \<times> string) list \<Rightarrow> 's \<Rightarrow> 's" where
  "addAll xs s = fold (\<lambda>(t, p) s. add s t p) xs s"

lemma addAll_contains: "contains (addAll xs s) u \<longleftrightarrow> u \<in> fst ` set xs \<or> contains s u"
  by (induction xs arbitrary: s) (auto simp: addAll_def contains_add)

lemma addAll_path: "distinct (map fst xs) \<Longrightarrow> path_of (addAll xs s) u =
    (case map_of xs u of Some p \<Rightarrow> p | None \<Rightarrow> path_of s u)"
proof (induction xs arbitrary: s)
  case Nil
  then show ?case by (simp add: addAll_def)
next
  case (Cons x xs)
  obtain t p where x: "x = (t, p)" by (cases x)
  have eq: "addAll (x # xs) s = addAll xs (add s t p)" by (simp add: addAll_def x)
  have ih: "path_of (addAll xs (add s t p)) u =
      (case map_of xs u of Some q \<Rightarrow> q | None \<Rightarrow> path_of (add s t p) u)"
    using Cons.prems by (intro Cons.IH) simp
  have "map_of xs t = None" using Cons.prems by (simp add: x map_of_eq_None_iff)
  then show ?case unfolding eq ih by (auto simp: x path_add split: option.splits)
qed

lemma addAll_inv: "inv s \<Longrightarrow> inv (addAll xs s)"
  by (induction xs arbitrary: s) (auto simp: addAll_def inv_add)

lemma remove_add: "inv s \<Longrightarrow> \<not> contains (snd (remove (add s t p) t)) t"
  by (simp add: contains_remove inv_add)

end

definition ns_distinct :: "Namespaces \<Rightarrow> bool" where
  "ns_distinct n \<longleftrightarrow> distinct (map n_Type n)"

lemma ns_index_None: "ns_index n t = None \<longleftrightarrow> t \<notin> n_Type ` set n"
  by (induction n) auto

lemma ns_index_Some: "ns_index n t = Some i \<Longrightarrow> i < length n \<and> n_Type (n ! i) = t"
  by (induction n arbitrary: i) (auto split: if_splits)

lemma ns_index_append: "ns_index (n @ m) t = (case ns_index n t of Some i \<Rightarrow> Some i
    | None \<Rightarrow> map_option ((+) (length n)) (ns_index m t))"
  by (induction n; cases "ns_index m t") (auto split: option.splits)

lemma map_n_Type_update: "i < length n \<Longrightarrow> map n_Type (n[i := (n ! i)\<lparr>n_Path := p\<rparr>]) = map n_Type n"
  by (simp add: map_update) (metis list_update_id nth_map)

lemma ns_index_types: "map n_Type n = map n_Type m \<Longrightarrow> ns_index n t = ns_index m t"
proof (induction n arbitrary: m)
  case (Cons x xs)
  then show ?case by (cases m) auto
qed simp

lemma ns_Add_types: "map n_Type (ns_Add n t p) =
    (if ns_Contains n t then map n_Type n else map n_Type n @ [t])"
  using ns_index_Some [of n t]
  by (auto simp: ns_Add_def ns_Contains_def map_n_Type_update split: option.splits)

lemma ns_Contains_iff: "ns_Contains n t \<longleftrightarrow> t \<in> set (map n_Type n)"
  by (auto simp: ns_Contains_def ns_index_None)

lemma ns_Add_path: "PathOf (ns_Add n t p) u = (if u = t then p else PathOf n u)"
proof (cases "ns_index n t")
  case None
  then show ?thesis by (auto simp: ns_Add_def PathOf_def ns_index_append nth_append split: option.splits
      dest: ns_index_Some)
next
  case (Some i)
  then have i: "i < length n" "n_Type (n ! i) = t" using ns_index_Some by blast+
  have ix: "ns_index (n[i := (n ! i)\<lparr>n_Path := p\<rparr>]) u = ns_index n u"
    by (rule ns_index_types) (rule map_n_Type_update [OF i(1)])
  show ?thesis
  proof (cases "u = t")
    case True
    then show ?thesis using Some i ix by (simp add: ns_Add_def PathOf_def)
  next
    case False
    then have "j \<noteq> i" if "ns_index n u = Some j" for j using that i ns_index_Some by blast
    then show ?thesis using Some ix False by (auto simp: ns_Add_def PathOf_def split: option.splits)
  qed
qed

lemma ns_Remove_types:
  assumes "ns_distinct n"
  shows "map n_Type (snd (ns_Remove n t)) = filter (\<lambda>u. u \<noteq> t) (map n_Type n)"
proof (cases "ns_index n t")
  case None
  then have "\<forall>u \<in> set (map n_Type n). u \<noteq> t" by (auto simp: ns_index_None)
  then show ?thesis using None by (simp add: ns_Remove_def filter_id_conv)
next
  case (Some i)
  then have i: "i < length n" "n_Type (n ! i) = t" using ns_index_Some by blast+
  let ?ts = "map n_Type n"
  have split: "?ts = take i ?ts @ t # drop (i + 1) ?ts"
    using i id_take_nth_drop [of i ?ts] by simp
  then have "distinct (take i ?ts @ t # drop (i + 1) ?ts)" using assms by (simp add: ns_distinct_def)
  then have "t \<notin> set (take i ?ts)" "t \<notin> set (drop (i + 1) ?ts)" by auto
  then have "filter (\<lambda>u. u \<noteq> t) (take i ?ts) = take i ?ts"
    "filter (\<lambda>u. u \<noteq> t) (drop (i + 1) ?ts) = drop (i + 1) ?ts"
    unfolding filter_id_conv by blast+
  then have "filter (\<lambda>u. u \<noteq> t) (take i ?ts @ t # drop (i + 1) ?ts) = take i ?ts @ drop (i + 1) ?ts"
    by (simp only: filter_append filter.simps) simp
  then show ?thesis using Some split by (simp add: ns_Remove_def take_map drop_map)
qed

interpretation nss: namespace_set ns_Contains PathOf ns_Add ns_Remove ns_distinct "[]"
proof
  fix s :: Namespaces and t u :: NamespaceType and p :: string
  show "ns_distinct []" by (simp add: ns_distinct_def)
  show "ns_distinct s \<Longrightarrow> ns_distinct (ns_Add s t p)"
    by (auto simp: ns_distinct_def ns_Add_types ns_Contains_iff)
  show "ns_distinct s \<Longrightarrow> ns_distinct (snd (ns_Remove s t))"
    by (simp add: ns_distinct_def [of "snd (ns_Remove s t)"] ns_Remove_types) (simp add: ns_distinct_def)
  show "\<not> ns_Contains [] t" by (simp add: ns_Contains_def)
  show "ns_Contains (ns_Add s t p) u \<longleftrightarrow> u = t \<or> ns_Contains s u"
    by (auto simp: ns_Contains_iff [of "ns_Add s t p"] ns_Add_types ns_Contains_iff)
  show "PathOf (ns_Add s t p) u = (if u = t then p else PathOf s u)" by (rule ns_Add_path)
  show "fst (ns_Remove s t) \<longleftrightarrow> ns_Contains s t"
    by (simp add: ns_Remove_def ns_Contains_def split: option.splits)
  show "ns_distinct s \<Longrightarrow> ns_Contains (snd (ns_Remove s t)) u \<longleftrightarrow> u \<noteq> t \<and> ns_Contains s u"
    by (auto simp: ns_Contains_iff ns_Remove_types)
  show "\<not> ns_Contains s t \<Longrightarrow> PathOf s t = []" by (simp add: ns_Contains_def PathOf_def)
qed

subsection \<open>Cgroup settings\<close>

datatype FreezerState = Undefined | Frozen | Thawed | OtherState string

text \<open>\<open>blockIODevice\<close> is embedded in the two device records.\<close>

record blockIODevice =
  bd_Major :: int
  bd_Minor :: int

record WeightDevice = blockIODevice +
  wd_Weight :: u16
  wd_LeafWeight :: u16

record ThrottleDevice = blockIODevice +
  td_Rate :: u64

definition NewWeightDevice :: "int \<Rightarrow> int \<Rightarrow> u16 \<Rightarrow> u16 \<Rightarrow> WeightDevice" where
  "NewWeightDevice mj mn weight leafWeight =
     \<lparr>bd_Major = mj, bd_Minor = mn, wd_Weight = weight, wd_LeafWeight = leafWeight\<rparr>"

definition NewThrottleDevice :: "int \<Rightarrow> int \<Rightarrow> u64 \<Rightarrow> ThrottleDevice" where
  "NewThrottleDevice mj mn rate = \<lparr>bd_Major = mj, bd_Minor = mn, td_Rate = rate\<rparr>"

definition WeightString :: "WeightDevice \<Rightarrow> string" where
  "WeightString wd = Itoa (bd_Major wd) @ '':'' @ Itoa (bd_Minor wd) @ '' '' @ utoa (unat (wd_Weight wd))"

definition LeafWeightString :: "WeightDevice \<Rightarrow> string" where
  "LeafWeightString wd = Itoa (bd_Major wd) @ '':'' @ Itoa (bd_Minor wd) @ '' '' @ utoa (unat (wd_LeafWeight wd))"

definition ThrottleString :: "ThrottleDevice \<Rightarrow> string" where
  "ThrottleString td = Itoa (bd_Major td) @ '':'' @ Itoa (bd_Minor td) @ '' '' @ utoa (unat (td_Rate td))"

definition StringName :: "ThrottleDevice \<Rightarrow> string \<Rightarrow> string" where
  "StringName td name =
     Itoa (bd_Major td) @ '':'' @ Itoa (bd_Minor td) @ '' '' @ name @ ''='' @ utoa (unat (td_Rate td))"

record HugepageLimit =
  hp_Pagesize :: string
  hp_Limit :: u64

record IfPrioMap =
  ip_Interface :: string
  ip_Priority :: int

definition IfPrioCgroupString :: "IfPrioMap \<Rightarrow> string" where
  "IfPrioCgroupString i = ip_Interface i @ '' '' @ Itoa (ip_Priority i)"

record LinuxRdma =
  rd_HcaHandles :: "u32 option"
  rd_HcaObjects :: "u32 option"

record Resources =
  rs_Devices :: "Rule list"
  rs_Memory :: int
  rs_MemoryReservation :: int
  rs_MemorySwap :: int
  rs_CpuShares :: u64
  rs_CpuQuota :: int
  rs_CpuPeriod :: u64
  rs_CpuRtRuntime :: int
  rs_CpuRtPeriod :: u64
  rs_CpusetCpus :: string
  rs_CpusetMems :: string
  rs_PidsLimit :: int
  rs_BlkioWeight :: u16
  rs_BlkioLeafWeight :: u16
  rs_BlkioWeightDevice :: "WeightDevice list"
  rs_BlkioThrottleReadBpsDevice :: "ThrottleDevice list"
  rs_BlkioThrottleWriteBpsDevice :: "ThrottleDevice list"
  rs_BlkioThrottleReadIOPSDevice :: "ThrottleDevice list"
  rs_BlkioThrottleWriteIOPSDevice :: "ThrottleDevice list"
  rs_Freezer :: FreezerState
  rs_HugetlbLimit :: "HugepageLimit list"
  rs_OomKillDisable :: bool
  rs_MemorySwappiness :: "u64 option"
  rs_NetPrioIfpriomap :: "IfPrioMap list"
  rs_NetClsClassid :: u32
  rs_Rdma :: "string \<rightharpoonup> LinuxRdma"
  rs_CpuWeight :: u64
  rs_Unified :: "(string \<rightharpoonup> string) option"
  rs_SkipDevices :: bool
  rs_SkipFreezeOnSet :: bool

text \<open>The zero value.\<close>

definition emptyResources :: Resources where
  "emptyResources =
     \<lparr>rs_Devices = [], rs_Memory = 0, rs_MemoryReservation = 0, rs_MemorySwap = 0, rs_CpuShares = 0,
      rs_CpuQuota = 0, rs_CpuPeriod = 0, rs_CpuRtRuntime = 0, rs_CpuRtPeriod = 0, rs_CpusetCpus = [],
      rs_CpusetMems = [], rs_PidsLimit = 0, rs_BlkioWeight = 0, rs_BlkioLeafWeight = 0,
      rs_BlkioWeightDevice = [], rs_BlkioThrottleReadBpsDevice = [],
      rs_BlkioThrottleWriteBpsDevice = [], rs_BlkioThrottleReadIOPSDevice = [],
      rs_BlkioThrottleWriteIOPSDevice = [], rs_Freezer = Undefined, rs_HugetlbLimit = [],
      rs_OomKillDisable = False, rs_MemorySwappiness = None, rs_NetPrioIfpriomap = [],
      rs_NetClsClassid = 0, rs_Rdma = Map.empty, rs_CpuWeight = 0, rs_Unified = None,
      rs_SkipDevices = False, rs_SkipFreezeOnSet = False\<rparr>"

text \<open>
  A D-Bus variant, by its signature (y, n, q, i, u, x, t, d, or something that is not a number);
  a double is its bit pattern.
\<close>

datatype Variant =
    VByte u8 | VInt16 u16 | VUint16 u16 | VInt32 u32 | VUint32 u32 | VInt64 u64 | VUint64 u64
  | VDouble u64 | VOther string

record Property =
  pr_Name :: string
  pr_Value :: Variant

record Cgroup =
  cg_Name :: string
  cg_Parent :: string
  cg_Path :: string
  cg_ScopePrefix :: string
  cg_Resources :: "Resources option"
  cg_Systemd :: bool
  cg_SystemdProps :: "Property list"
  cg_Rootless :: bool
  cg_OwnerUID :: "i64 option"

subsection \<open>Seccomp\<close>

datatype Action = Kill | Errno | Trap | Allow | Trace | Log | Notify | KillThread | KillProcess

datatype Operator =
    EqualTo | NotEqualTo | GreaterThan | GreaterThanOrEqualTo | LessThan | LessThanOrEqualTo | MaskEqualTo

record Arg =
  a_Index :: u64
  a_Value :: u64
  a_ValueTwo :: u64
  a_Op :: Operator

record Syscall =
  sc_Name :: string
  sc_Action :: Action
  sc_ErrnoRet :: "u64 option"
  sc_Args :: "Arg list"

record Seccomp =
  se_DefaultAction :: Action
  se_Architectures :: "string list"
  se_Syscalls :: "Syscall list"
  se_DefaultErrnoRet :: "u64 option"
  se_ListenerPath :: string
  se_ListenerMetadata :: string

subsection \<open>Mounts, networks, hooks\<close>

text \<open>\<open>Timeout\<close> is a duration in nanoseconds.\<close>

record Command =
  co_Path :: string
  co_Args :: "string list"
  co_Env :: "string list"
  co_Dir :: string
  co_Timeout :: "i64 option"

record MountAttr =
  Attr_set :: u64
  Attr_clr :: u64

definition EXT_COPYUP :: u64 where "EXT_COPYUP = 1"

record Mount =
  mt_Source :: string
  mt_Destination :: string
  mt_Device :: string
  mt_Flags :: u64
  mt_PropagationFlags :: "u64 list"
  mt_Data :: string
  mt_Relabel :: string
  mt_RecAttr :: "MountAttr option"
  mt_Extensions :: u64
  mt_PremountCmds :: "Command list"
  mt_PostmountCmds :: "Command list"

definition MS_BIND :: u64 where "MS_BIND = 0x1000"

definition IsBind :: "Mount \<Rightarrow> bool" where
  "IsBind m \<longleftrightarrow> mt_Flags m AND MS_BIND \<noteq> 0"

record Network =
  nw_Type :: string
  nw_Name :: string
  nw_Bridge :: string
  nw_MacAddress :: string
  nw_Address :: string
  nw_Gateway :: string
  nw_IPv6Address :: string
  nw_IPv6Gateway :: string
  nw_Mtu :: int
  nw_TxQueueLen :: int
  nw_HostInterfaceName :: string
  nw_HairpinMode :: bool

record Route =
  ro_Destination :: string
  ro_Source :: string
  ro_Gateway :: string
  ro_InterfaceName :: string

record IntelRdt =
  ir_ClosID :: string
  ir_L3CacheSchema :: string
  ir_MemBwSchema :: string

record Rlimit =
  rl_Type :: int
  rl_Hard :: u64
  rl_Soft :: u64

record Capabilities =
  ca_Bounding :: "string list"
  ca_Effective :: "string list"
  ca_Inheritable :: "string list"
  ca_Permitted :: "string list"
  ca_Ambient :: "string list"

text \<open>A function hook is known by a name; what running it does is the caller's.\<close>

datatype Hook = CommandHook Command | FuncHook string

datatype HookName =
  Prestart | CreateRuntime | CreateContainer | StartContainer | Poststart | Poststop | OtherHook string

type_synonym HookList = "Hook list"
type_synonym Hooks = "HookName \<rightharpoonup> HookList"

definition KnownHookNames :: "string list" where
  "KnownHookNames =
     [''prestart'', ''createRuntime'', ''createContainer'', ''startContainer'', ''poststart'', ''poststop'']"

text \<open>The first hook that fails, by its index; later hooks are not run.\<close>

fun runHooksFrom :: "('s \<Rightarrow> Hook \<Rightarrow> 'e option \<times> 's) \<Rightarrow> nat \<Rightarrow> HookList \<Rightarrow> 's \<Rightarrow> (nat \<times> 'e) option \<times> 's" where
  "runHooksFrom run i [] s = (None, s)"
| "runHooksFrom run i (h # hs) s =
     (case run s h of
        (Some err, s') \<Rightarrow> (Some (i, err), s')
      | (None, s') \<Rightarrow> runHooksFrom run (Suc i) hs s')"

definition RunHooks :: "('s \<Rightarrow> Hook \<Rightarrow> 'e option \<times> 's) \<Rightarrow> HookList \<Rightarrow> 's \<Rightarrow> (nat \<times> 'e) option \<times> 's" where
  "RunHooks run hooks s = runHooksFrom run 0 hooks s"

text \<open>
  What is written as JSON: the command hooks of the six known names; and what is made of it. The
  encoder of the library is a parameter, \<open>'b\<close> the type of its output.
\<close>

fun serializeHooks :: "Hook list \<Rightarrow> Command list" where
  "serializeHooks [] = []"
| "serializeHooks (CommandHook c # hs) = c # serializeHooks hs"
| "serializeHooks (FuncHook f # hs) = serializeHooks hs"

definition hookNames :: "HookName list" where
  "hookNames = [Prestart, CreateRuntime, CreateContainer, StartContainer, Poststart, Poststop]"

definition hooksAt :: "Hooks \<Rightarrow> HookName \<Rightarrow> HookList" where
  "hooksAt hooks n = (case hooks n of None \<Rightarrow> [] | Some hs \<Rightarrow> hs)"

definition MarshalHooks :: "((HookName \<times> Command list) list \<Rightarrow> 'b) \<Rightarrow> Hooks \<Rightarrow> 'b" where
  "MarshalHooks json hooks = json (map (\<lambda>n. (n, serializeHooks (hooksAt hooks n))) hookNames)"

definition UnmarshalHooks ::
  "('b \<Rightarrow> 'e + (HookName \<times> Command list) list) \<Rightarrow> 'b \<Rightarrow> 'e + Hooks" where
  "UnmarshalHooks unjson b =
     (case unjson b of
        Inl err \<Rightarrow> Inl err
      | Inr state \<Rightarrow>
          Inr (fold (\<lambda>(n, cs) hooks. if cs = [] then hooks else hooks(n \<mapsto> map CommandHook cs)) state Map.empty))"

subsection \<open>The configuration\<close>

record IDMapC =
  im_ContainerID :: i64
  im_HostID :: i64
  im_Size :: i64

text \<open>Nil and empty slices differ for the id mappings only.\<close>

record Config =
  c_NoPivotRoot :: bool
  c_ParentDeathSignal :: int
  c_Rootfs :: string
  c_Umask :: "u32 option"
  c_Readonlyfs :: bool
  c_RootPropagation :: u64
  c_Mounts :: "Mount list"
  c_Devices :: "nat list"
  c_MountLabel :: string
  c_Hostname :: string
  c_Namespaces :: Namespaces
  c_Capabilities :: "Capabilities option"
  c_Networks :: "Network list"
  c_Routes :: "Route list"
  c_Cgroups :: "Cgroup option"
  c_AppArmorProfile :: string
  c_ProcessLabel :: string
  c_Rlimits :: "Rlimit list"
  c_OomScoreAdj :: "int option"
  c_UidMappings :: "IDMapC list option"
  c_GidMappings :: "IDMapC list option"
  c_MaskPaths :: "string list"
  c_ReadonlyPaths :: "string list"
  c_Sysctl :: "(string \<times> string) list"
  c_Seccomp :: "Seccomp option"
  c_NoNewPrivileges :: bool
  c_Hooks :: Hooks
  c_Version :: string
  c_Labels :: "string list"
  c_NoNewKeyring :: bool
  c_IntelRdt :: "IntelRdt option"
  c_RootlessEUID :: bool
  c_RootlessCgroups :: bool

datatype id_error = ErrNoMap | ErrNotMapped | ErrTooLarge i64 i64

text \<open>Signed comparison and wrapping addition, as on \<open>int64\<close>.\<close>

fun hostIDFromMapping :: "i64 \<Rightarrow> IDMapC list \<Rightarrow> i64 \<times> bool" where
  "hostIDFromMapping containerID [] = (-1, False)"
| "hostIDFromMapping containerID (m # ms) =
     (if sint (im_ContainerID m) \<le> sint containerID \<and>
         sint containerID \<le> sint (im_ContainerID m + im_Size m - 1)
      then (im_HostID m + (containerID - im_ContainerID m), True)
      else hostIDFromMapping containerID ms)"

definition maxInt :: int where "maxInt = 2 ^ 63 - 1"

definition hostID :: "Namespaces \<Rightarrow> IDMapC list option \<Rightarrow> i64 \<Rightarrow> id_error + i64" where
  "hostID nss mappings containerId =
     (if ns_Contains nss NEWUSER then
        (case mappings of
           None \<Rightarrow> Inl ErrNoMap
         | Some ms \<Rightarrow>
             (case hostIDFromMapping containerId ms of
                (idv, found) \<Rightarrow>
                  if \<not> found then Inl ErrNotMapped
                  else if maxInt < sint idv then Inl (ErrTooLarge containerId idv)
                  else Inr idv))
      else Inr containerId)"

definition HostUID :: "Config \<Rightarrow> i64 \<Rightarrow> id_error + i64" where
  "HostUID c containerId = hostID (c_Namespaces c) (c_UidMappings c) containerId"

definition HostGID :: "Config \<Rightarrow> i64 \<Rightarrow> id_error + i64" where
  "HostGID c containerId = hostID (c_Namespaces c) (c_GidMappings c) containerId"

definition HostRootUID :: "Config \<Rightarrow> id_error + i64" where
  "HostRootUID c = HostUID c 0"

definition HostRootGID :: "Config \<Rightarrow> id_error + i64" where
  "HostRootGID c = HostGID c 0"

end
