(* ===== verification/Cgutils.thy ===== *)
theory Cgutils imports Paths Bufio begin

text \<open>
  The shared cgroup functions (cgroups/utils.go and cgroups/file.go): conversions from cgroup v1 to
  cgroup v2 values at the width of the code, the parsers of /proc and cgroup files, adding a process
  to a cgroup, removing a cgroup tree, and how a cgroup file is opened. What the kernel answers to a
  system call is a parameter: a function that opens files, the outcomes of successive writes, the
  directory tree with the directories that cannot be removed yet.
\<close>

definition CgroupProcesses :: string where "CgroupProcesses = ''cgroup.procs''"
definition unifiedMountpoint :: string where "unifiedMountpoint = ''/sys/fs/cgroup''"

datatype sys_error = EINTR | EINVAL | OtherErrno string

datatype cg_error =
    NoDirectory string
  | OpenError sys_error
  | BadPid num_error
  | ScanFailed scan_error
  | InvalidEntry string
  | WriteFailed int sys_error
  | IndexPanic
  | SwapWithoutMemory
  | InvalidMemory int
  | SwapBelowMemory

subsection \<open>Conversions to cgroup v2\<close>

definition ConvertCPUSharesToCgroupV2Value :: "u64 \<Rightarrow> u64" where
  "ConvertCPUSharesToCgroupV2Value cpuShares =
     (if cpuShares = 0 then 0 else 1 + ((cpuShares - 2) * 9999) div 262142)"

definition ConvertBlkIOToIOWeightValue :: "u16 \<Rightarrow> u64" where
  "ConvertBlkIOToIOWeightValue blkIoWeight =
     (if blkIoWeight = 0 then 0 else 1 + (ucast blkIoWeight - 10) * 9999 div 990)"

definition ConvertMemorySwapToCgroupV2Value :: "int \<Rightarrow> int \<Rightarrow> cg_error + int" where
  "ConvertMemorySwapToCgroupV2Value memorySwap memory =
     (if memory = -1 \<and> memorySwap = 0 then Inr (-1)
      else if memorySwap = -1 \<or> memorySwap = 0 then Inr memorySwap
      else if memory = 0 \<or> memory = -1 then Inl SwapWithoutMemory
      else if memory < 0 then Inl (InvalidMemory memory)
      else if memorySwap < memory then Inl SwapBelowMemory
      else Inr (memorySwap - memory))"

subsection \<open>Reading cgroup files\<close>

text \<open>What opening a cgroup file for reading gives.\<close>

type_synonym opener = "string \<Rightarrow> string \<Rightarrow> sys_error + reader"

definition OpenFile :: "opener \<Rightarrow> string \<Rightarrow> string \<Rightarrow> cg_error + reader" where
  "OpenFile opn dir file =
     (if dir = [] then Inl (NoDirectory file)
      else case opn dir file of Inl e \<Rightarrow> Inl (OpenError e) | Inr r \<Rightarrow> Inr r)"

text \<open>The data that could be read comes back also with a read error.\<close>

definition ReadFile :: "opener \<Rightarrow> string \<Rightarrow> string \<Rightarrow> cg_error + (string \<times> string option)" where
  "ReadFile opn dir file = andThen (OpenFile opn dir file) (\<lambda>r. Inr (rd_data r, rd_err r))"

text \<open>The shape of a scanner loop: process the lines, then report the scanner's error.\<close>

definition scanLoop :: "(string \<Rightarrow> 's \<Rightarrow> cg_error + 's) \<Rightarrow> reader \<Rightarrow> 's \<Rightarrow> cg_error + 's" where
  "scanLoop f r s =
     (case Scan r of (ls, serr) \<Rightarrow>
        andThen (foldRes f ls s)
          (\<lambda>out. case serr of None \<Rightarrow> Inr out | Some e \<Rightarrow> Inl (ScanFailed e)))"

definition procsLine :: "string \<Rightarrow> int list \<Rightarrow> cg_error + int list" where
  "procsLine t out =
     (if t \<noteq> [] then
        (case Atoi t of (pid, err) \<Rightarrow>
           (case err of Some e \<Rightarrow> Inl (BadPid e) | None \<Rightarrow> Inr (out @ [pid])))
      else Inr out)"

definition readProcsFile :: "opener \<Rightarrow> string \<Rightarrow> cg_error + int list" where
  "readProcsFile opn dir =
     andThen (OpenFile opn dir CgroupProcesses) (\<lambda>f. scanLoop procsLine f [])"

definition GetPids :: "opener \<Rightarrow> string \<Rightarrow> cg_error + int list" where
  "GetPids opn dir = readProcsFile opn dir"

text \<open>A line of /proc/cgroups; an empty line is an index out of range.\<close>

definition subsystemLine :: "string \<Rightarrow> string list \<Rightarrow> cg_error + string list" where
  "subsystemLine text subsystems =
     (case text of
        [] \<Rightarrow> Inl IndexPanic
      | c # _ \<Rightarrow>
          if c \<noteq> CHR ''#'' then
            (let parts = Fields text in
             if 4 \<le> length parts \<and> parts ! 3 \<noteq> ''0'' then Inr (subsystems @ [parts ! 0])
             else Inr subsystems)
          else Inr subsystems)"

definition GetAllSubsystems :: "bool \<Rightarrow> opener \<Rightarrow> (string \<Rightarrow> sys_error + reader) \<Rightarrow> cg_error + string list" where
  "GetAllSubsystems unified opn openProc =
     (if unified then
        (case ReadFile opn ''/sys/fs/cgroup'' ''cgroup.controllers'' of
           Inl e \<Rightarrow> Inl e
         | Inr (data, Some e) \<Rightarrow> Inl (OpenError (OtherErrno e))
         | Inr (data, None) \<Rightarrow> Inr ([''devices'', ''freezer''] @ Fields data))
      else
        (case openProc ''/proc/cgroups'' of
           Inl e \<Rightarrow> Inl (OpenError e)
         | Inr f \<Rightarrow> scanLoop subsystemLine f []))"

definition assign :: "string \<Rightarrow> string \<Rightarrow> (string \<rightharpoonup> string) \<Rightarrow> (string \<rightharpoonup> string)" where
  "assign path subs m = m(subs \<mapsto> path)"

definition cgroupLine :: "string \<Rightarrow> (string \<rightharpoonup> string) \<Rightarrow> cg_error + (string \<rightharpoonup> string)" where
  "cgroupLine text cgroups =
     (case SplitN (CHR '':'') 3 text of
        [hid, subsystems, path] \<Rightarrow>
          Inr (fold (assign path) (Split (CHR '','') subsystems) cgroups)
      | _ \<Rightarrow> Inl (InvalidEntry text))"

definition parseCgroupFromReader :: "reader \<Rightarrow> cg_error + (string \<rightharpoonup> string)" where
  "parseCgroupFromReader r = scanLoop cgroupLine r Map.empty"

definition ParseCgroupFile :: "(string \<Rightarrow> sys_error + reader) \<Rightarrow> string \<Rightarrow> cg_error + (string \<rightharpoonup> string)" where
  "ParseCgroupFile opn path =
     (case opn path of Inl e \<Rightarrow> Inl (OpenError e) | Inr f \<Rightarrow> parseCgroupFromReader f)"

subsection \<open>Huge page sizes\<close>

datatype hp_warning = InvalidSuffix string | InvalidSize string num_error

text \<open>One turn of the loop: the page sizes so far and the first warning.\<close>

definition hugePageStep ::
  "string \<Rightarrow> string list \<times> hp_warning option \<Rightarrow> string list \<times> hp_warning option" where
  "hugePageStep file st =
     (case st of (pageSizes, warn) \<Rightarrow>
      let val = TrimPrefix file ''hugepages-'' in
      if length val = length file then (pageSizes, warn)
      else
        (let eLen = int (length val) - 2; val2 = TrimSuffix val ''kB'' in
         if int (length val2) \<noteq> eLen
         then (pageSizes, if warn = None then Some (InvalidSuffix file) else warn)
         else
           (case Atoi val2 of (sz, err) \<Rightarrow>
             (case err of
                Some e \<Rightarrow> (pageSizes, if warn = None then Some (InvalidSize file e) else warn)
              | None \<Rightarrow>
                 (pageSizes @
                    [if 2 ^ 20 \<le> sz then Itoa (sz div 2 ^ 20) @ ''GB''
                     else if 2 ^ 10 \<le> sz then Itoa (sz div 2 ^ 10) @ ''MB''
                     else val2 @ ''KB''], warn)))))"

definition getHugePageSizeFromFilenames :: "string list \<Rightarrow> string list \<times> hp_warning option" where
  "getHugePageSizeFromFilenames fileNames = fold hugePageStep fileNames ([], None)"

subsection \<open>Adding a process\<close>

text \<open>The outcomes of successive writes, None for success.\<close>

type_synonym outcomes = "nat \<Rightarrow> sys_error option"

text \<open>\<open>i\<close> is the loop counter, \<open>lastErr\<close> the error of the write before.\<close>

function writeProcLoop :: "outcomes \<Rightarrow> int \<Rightarrow> nat \<Rightarrow> sys_error option \<Rightarrow> cg_error option" where
  "writeProcLoop wr pid i lastErr =
     (if i < 5 then
        (case wr i of
           None \<Rightarrow> None
         | Some EINVAL \<Rightarrow> writeProcLoop wr pid (Suc i) (Some EINVAL)
         | Some e \<Rightarrow> Some (WriteFailed pid e))
      else map_option OpenError lastErr)"
  by pat_completeness auto
termination by (relation "measure (\<lambda>(wr, pid, i, lastErr). 5 - i)") auto

declare writeProcLoop.simps [simp del]

definition WriteCgroupProc :: "(string \<Rightarrow> sys_error option) \<Rightarrow> outcomes \<Rightarrow> string \<Rightarrow> int \<Rightarrow> cg_error option" where
  "WriteCgroupProc openErr wr dir pid =
     (if dir = [] then Some (NoDirectory CgroupProcesses)
      else if pid = -1 then None
      else case openErr dir of
        Some e \<Rightarrow> Some (WriteFailed pid e)
      | None \<Rightarrow> writeProcLoop wr pid 0 None)"

definition EnterPid ::
  "(string \<Rightarrow> bool) \<Rightarrow> (string \<Rightarrow> sys_error option) \<Rightarrow> (string \<Rightarrow> outcomes) \<Rightarrow> string list \<Rightarrow> int \<Rightarrow> cg_error option" where
  "EnterPid exists openErr wr cgroupPaths pid =
     firstErr (map (\<lambda>path. if exists path then WriteCgroupProc openErr (wr path) path pid else None) cgroupPaths)"

text \<open>Writing to a cgroup file is repeated while it is interrupted: None when it never ends.\<close>

partial_function (option) retryingWriteFile :: "outcomes \<Rightarrow> nat \<Rightarrow> sys_error option option" where
  "retryingWriteFile wr i =
     (if wr i = Some EINTR then retryingWriteFile wr (Suc i) else Some (wr i))"

subsection \<open>Removing cgroups\<close>

text \<open>
  A cgroup directory: whether the kernel refuses to remove it by itself (it has processes), and
  its subdirectories in the order ReadDir lists them.
\<close>

datatype cgdir = CgDir (busy: bool) (subs: "(string \<times> cgdir) list")

definition canRmdir :: "cgdir \<Rightarrow> bool" where
  "canRmdir d \<longleftrightarrow> \<not> busy d \<and> subs d = []"

text \<open>The result is whether there was an error, and what is left of the directory.\<close>

fun removeDir :: "cgdir \<Rightarrow> bool \<times> cgdir option"
  and removeSubs :: "(string \<times> cgdir) list \<Rightarrow> bool \<times> (string \<times> cgdir) list" where
  "removeDir (CgDir b cs) =
     (if canRmdir (CgDir b cs) then (False, None)
      else case removeSubs cs of (err, cs') \<Rightarrow>
        if err then (True, Some (CgDir b cs'))
        else if canRmdir (CgDir b cs') then (False, None)
        else (True, Some (CgDir b cs')))"
| "removeSubs [] = (False, [])"
| "removeSubs ((n, d) # cs) =
     (case removeDir d of (err, r) \<Rightarrow>
        let kept = (case r of None \<Rightarrow> [] | Some d' \<Rightarrow> [(n, d')]) in
        if err then (True, kept @ cs)
        else case removeSubs cs of (e, cs') \<Rightarrow> (e, kept @ cs'))"

definition RemovePath :: "cgdir option \<Rightarrow> bool \<times> cgdir option" where
  "RemovePath d = (case d of None \<Rightarrow> (False, None) | Some t \<Rightarrow> removeDir t)"

type_synonym cgtree = "string \<Rightarrow> cgdir option"

text \<open>One pass over the paths: the ones that still exist are kept.\<close>

fun removeRound :: "(string \<times> string) list \<Rightarrow> cgtree \<Rightarrow> (string \<times> string) list \<times> cgtree" where
  "removeRound [] fs = ([], fs)"
| "removeRound ((s, p) # ps) fs =
     (let fs1 = fs(p := snd (RemovePath (fs p))) in
      case removeRound ps fs1 of (left, fs2) \<Rightarrow>
        (if fs1 p = None then left else (s, p) # left, fs2))"

text \<open>\<open>settle i\<close> is what the rest of the system does during the i-th sleep.\<close>

fun removeRounds ::
  "nat \<Rightarrow> nat \<Rightarrow> (nat \<Rightarrow> cgtree \<Rightarrow> cgtree) \<Rightarrow> (string \<times> string) list \<Rightarrow> cgtree \<Rightarrow>
   (string \<times> string) list option \<times> cgtree" where
  "removeRounds 0 i settle paths fs = (Some paths, fs)"
| "removeRounds (Suc n) i settle paths fs =
     (case removeRound paths (if i \<noteq> 0 then settle i fs else fs) of (left, fs') \<Rightarrow>
        if left = [] then (None, fs') else removeRounds n (Suc i) settle left fs')"

text \<open>\<open>Some left\<close> is the error that names the paths left.\<close>

definition RemovePaths ::
  "(nat \<Rightarrow> cgtree \<Rightarrow> cgtree) \<Rightarrow> (string \<times> string) list \<Rightarrow> cgtree \<Rightarrow> (string \<times> string) list option \<times> cgtree" where
  "RemovePaths settle paths fs = removeRounds 5 0 settle paths fs"

subsection \<open>Opening a cgroup file\<close>

datatype resolve = RESOLVE_BENEATH | RESOLVE_NO_MAGICLINKS | RESOLVE_NO_XDEV | RESOLVE_NO_SYMLINKS

text \<open>The system call an open turns into.\<close>

datatype openCall =
    Openat2 string "resolve list"  \<comment> \<open>relative to the handle of /sys/fs/cgroup\<close>
  | Fallback string

definition cgroupfsPrefix :: string where "cgroupfsPrefix = ''/sys/fs/cgroup/''"

text \<open>\<open>prepareOpenat2\<close>: None when openat2 or the statfs of the root fails.\<close>

definition resolveFlags :: "bool \<Rightarrow> resolve list" where
  "resolveFlags isCgroup2 =
     [RESOLVE_BENEATH, RESOLVE_NO_MAGICLINKS] @
     (if isCgroup2 then [RESOLVE_NO_XDEV, RESOLVE_NO_SYMLINKS] else [])"

definition openFile :: "resolve list option \<Rightarrow> string \<Rightarrow> string \<Rightarrow> openCall" where
  "openFile prepared dir file =
     (let path = PathJoin dir (CleanPath file) in
      case prepared of
        None \<Rightarrow> Fallback path
      | Some flags \<Rightarrow>
          (let relPath = TrimPrefix path cgroupfsPrefix in
           if length relPath = length path then Fallback path
           else Openat2 relPath flags))"

subsection \<open>The conversions in natural numbers\<close>

lemma cpu_shares_nat:
  fixes s :: u64
  assumes "2 \<le> unat s" and "unat s \<le> 262144"
  shows "unat (ConvertCPUSharesToCgroupV2Value s) = 1 + (unat s - 2) * 9999 div 262142"
proof -
  have le: "(2 :: u64) \<le> s" using assms(1) by (simp add: word_le_nat_alt)
  have "unat (s - 2) = unat s - 2" using unat_sub [OF le] by simp
  moreover have "(unat s - 2) * 9999 < 2 ^ 64" using assms(2) by simp
  ultimately have m: "unat ((s - 2) * 9999) = (unat s - 2) * 9999"
    using unat_mult_lem [THEN iffD1, of "s - 2" "9999"] by simp
  have "1 + (unat s - 2) * 9999 div 262142 < 2 ^ 64"
  proof -
    have "(unat s - 2) * 9999 div 262142 \<le> (unat s - 2) * 9999" by (rule div_le_dividend)
    also have "\<dots> \<le> 262142 * 9999" using assms(2) by (intro mult_right_mono) auto
    finally show ?thesis by simp
  qed
  then have "unat (1 + ((s - 2) * 9999) div 262142) = 1 + (unat s - 2) * 9999 div 262142"
    using m by (simp add: unat_word_ariths unat_div)
  moreover have "s \<noteq> 0" using assms(1) by auto
  ultimately show ?thesis by (simp add: ConvertCPUSharesToCgroupV2Value_def)
qed

lemma blkio_weight_nat:
  fixes w :: u16
  assumes "10 \<le> unat w"
  shows "unat (ConvertBlkIOToIOWeightValue w) = 1 + (unat w - 10) * 9999 div 990"
proof -
  have "uint (ucast w :: u64) = uint w" by (rule uint_up_ucast) (simp add: is_up)
  then have u: "unat (ucast w :: u64) = unat w" by (simp only: unat_eq_nat_uint)
  have b: "unat w < 2 ^ 16" using unsigned_less [of w] by simp
  have le: "(10 :: u64) \<le> ucast w" using assms u by (simp add: word_le_nat_alt)
  have "unat ((ucast w :: u64) - 10) = unat w - 10" using unat_sub [OF le] u by simp
  moreover have "(unat w - 10) * 9999 < 2 ^ 64" using b by simp
  ultimately have m: "unat (((ucast w :: u64) - 10) * 9999) = (unat w - 10) * 9999"
    using unat_mult_lem [THEN iffD1, of "(ucast w :: u64) - 10" "9999"] by simp
  have "1 + (unat w - 10) * 9999 div 990 < 2 ^ 64"
  proof -
    have "(unat w - 10) * 9999 div 990 \<le> (unat w - 10) * 9999" by (rule div_le_dividend)
    also have "\<dots> \<le> 65536 * 9999" using b by (intro mult_right_mono) auto
    finally show ?thesis by simp
  qed
  then have "unat (1 + ((ucast w :: u64) - 10) * 9999 div 990) = 1 + (unat w - 10) * 9999 div 990"
    using m by (simp add: unat_word_ariths unat_div)
  moreover have "w \<noteq> 0" using assms by auto
  ultimately show ?thesis by (simp add: ConvertBlkIOToIOWeightValue_def)
qed

subsection \<open>Removal\<close>

text \<open>The directories the kernel still refuses to remove, by their path from the top.\<close>

fun busyDirs :: "cgdir \<Rightarrow> string list list"
  and busySubs :: "(string \<times> cgdir) list \<Rightarrow> string list list" where
  "busyDirs (CgDir b cs) = (if b then [[]] else []) @ busySubs cs"
| "busySubs [] = []"
| "busySubs ((n, d) # cs) = map (\<lambda>p. n # p) (busyDirs d) @ busySubs cs"

lemma removeDir_busy:
  "(case snd (removeDir d) of None \<Rightarrow> [] | Some d' \<Rightarrow> busyDirs d') = busyDirs d \<and>
   (fst (removeDir d) \<longleftrightarrow> busyDirs d \<noteq> []) \<and> (fst (removeDir d) \<longleftrightarrow> snd (removeDir d) \<noteq> None)"
  "busySubs (snd (removeSubs cs)) = busySubs cs \<and> (fst (removeSubs cs) \<longleftrightarrow> busySubs cs \<noteq> []) \<and>
   (fst (removeSubs cs) \<longleftrightarrow> snd (removeSubs cs) \<noteq> [])"
proof (induction d and cs rule: removeDir_removeSubs.induct)
  case (1 b cs)
  then show ?case
    by (cases "removeSubs cs") (auto simp: canRmdir_def split: if_splits)
next
  case 2
  then show ?case by simp
next
  case (3 n d cs)
  then show ?case
    by (cases "removeDir d"; cases "removeSubs cs") (auto split: option.splits if_splits)
qed

subsection \<open>Adding a process\<close>

lemma writeProcLoop_ok:
  "writeProcLoop wr pid i e = None \<longleftrightarrow>
   (\<exists>k < 5. i \<le> k \<and> wr k = None \<and> (\<forall>j. i \<le> j \<and> j < k \<longrightarrow> wr j = Some EINVAL)) \<or> (5 \<le> i \<and> e = None)"
proof (induction wr pid i e rule: writeProcLoop.induct)
  case (1 wr pid i e)
  consider (stop) "\<not> i < 5" | (ok) "i < 5" "wr i = None" | (again) "i < 5" "wr i = Some EINVAL"
    | (bad) err where "i < 5" "wr i = Some err" "err \<noteq> EINVAL" by (cases "wr i") auto
  then show ?case
  proof cases
    case stop
    then show ?thesis by (subst writeProcLoop.simps) auto
  next
    case ok
    then show ?thesis by (subst writeProcLoop.simps) auto
  next
    case again
    have eq: "writeProcLoop wr pid i e = writeProcLoop wr pid (Suc i) (Some EINVAL)"
      using again by (subst writeProcLoop.simps) simp
    have step: "i \<le> k \<and> wr k = None \<and> (\<forall>j. i \<le> j \<and> j < k \<longrightarrow> wr j = Some EINVAL) \<longleftrightarrow>
        Suc i \<le> k \<and> wr k = None \<and> (\<forall>j. Suc i \<le> j \<and> j < k \<longrightarrow> wr j = Some EINVAL)" for k
      using again(2) by (metis le_antisym not_less_eq_eq option.distinct(1) Suc_leD)
    show ?thesis unfolding eq step using 1 [OF again] again(1) by simp
  next
    case bad
    then have "writeProcLoop wr pid i e = Some (WriteFailed pid err)"
      by (subst writeProcLoop.simps) (simp split: sys_error.splits)
    moreover have "\<not> (i \<le> k \<and> wr k = None \<and> (\<forall>j. i \<le> j \<and> j < k \<longrightarrow> wr j = Some EINVAL))" for k
      using bad by (cases "i = k") (auto simp: le_less)
    ultimately show ?thesis using bad(1) by auto
  qed
qed

subsection \<open>/proc/<pid>/cgroup\<close>

text \<open>A line: hierarchy id, subsystems and path.\<close>

type_synonym cgEntry = "string \<times> string list \<times> string"

fun printCgEntry :: "cgEntry \<Rightarrow> string" where
  "printCgEntry (hid, ss, path) = hid @ '':'' @ Join '','' ss @ '':'' @ path"

fun wf_cgEntry :: "cgEntry \<Rightarrow> bool" where
  "wf_cgEntry (hid, ss, path) \<longleftrightarrow>
     CHR '':'' \<notin> set hid \<and> ss \<noteq> [] \<and> (\<forall>s \<in> set ss. CHR '':'' \<notin> set s \<and> CHR '','' \<notin> set s) \<and>
     plain_line (printCgEntry (hid, ss, path)) \<and> length (printCgEntry (hid, ss, path)) < maxScanTokenSize"

lemma Join_chars: "set (Join sep ws) \<subseteq> set sep \<union> \<Union> (set ` set ws)"
  by (induction ws) (auto simp: Join_Cons)

lemma cgroupLine_print:
  assumes "wf_cgEntry (hid, ss, path)"
  shows "cgroupLine (printCgEntry (hid, ss, path)) m = Inr (m ++ map_of (rev (map (\<lambda>s. (s, path)) ss)))"
proof -
  have "CHR '':'' \<notin> set (Join '','' ss)" using assms Join_chars [of "'',''" ss] by auto
  then have "SplitN (CHR '':'') 3 (printCgEntry (hid, ss, path)) = [hid, Join '','' ss, path]"
    using assms by (simp add: SplitN_append_sep)
  moreover have "Split (CHR '','') (Join '','' ss) = ss"
    using assms by (intro Split_Join) auto
  moreover have "fold (assign path) ss m = m ++ map_of (rev (map (\<lambda>s. (s, path)) ss))"
    by (induction ss arbitrary: m) (simp_all add: assign_def)
  ultimately show ?thesis by (simp add: cgroupLine_def)
qed

definition entriesMap :: "cgEntry list \<Rightarrow> (string \<rightharpoonup> string)" where
  "entriesMap es = map_of (rev (concat (map (\<lambda>(hid, ss, path). map (\<lambda>s. (s, path)) ss) es)))"

lemma foldRes_cgroupLine:
  "\<forall>e \<in> set es. wf_cgEntry e \<Longrightarrow> foldRes cgroupLine (map printCgEntry es) m = Inr (m ++ entriesMap es)"
proof (induction es arbitrary: m)
  case Nil
  then show ?case by (simp add: entriesMap_def)
next
  case (Cons e es)
  obtain hid ss path where e: "e = (hid, ss, path)" by (cases e)
  have "foldRes cgroupLine (map printCgEntry (e # es)) m =
      foldRes cgroupLine (map printCgEntry es) (m ++ map_of (rev (map (\<lambda>s. (s, path)) ss)))"
    using cgroupLine_print [of hid ss path m] Cons.prems by (simp add: e del: printCgEntry.simps)
  also have "\<dots> = Inr ((m ++ map_of (rev (map (\<lambda>s. (s, path)) ss))) ++ entriesMap es)"
    using Cons.prems by (intro Cons.IH) simp
  finally show ?case by (simp add: entriesMap_def e)
qed

lemma removeRound_spec:
  "removeRound paths fs = (left, fs') \<Longrightarrow>
   (\<forall>(s, p) \<in> set paths. fs' p = None \<or> (s, p) \<in> set left) \<and> (\<forall>p. fs p = None \<longrightarrow> fs' p = None)"
proof (induction paths fs arbitrary: left fs' rule: removeRound.induct)
  case (1 fs)
  then show ?case by simp
next
  case (2 s p ps fs)
  obtain fs1 where fs1: "fs1 = fs(p := snd (RemovePath (fs p)))" by blast
  obtain left1 fs2 where r: "removeRound ps fs1 = (left1, fs2)" by (cases "removeRound ps fs1")
  have ih: "\<forall>(s, q) \<in> set ps. fs2 q = None \<or> (s, q) \<in> set left1" "\<forall>q. fs1 q = None \<longrightarrow> fs2 q = None"
    using 2(1) [OF fs1 r] by simp_all
  have eq: "removeRound ((s, p) # ps) fs = (if fs1 p = None then left1 else (s, p) # left1, fs2)"
    using r fs1 by (simp add: Let_def)
  have "\<forall>q. fs q = None \<longrightarrow> fs1 q = None" by (simp add: fs1 RemovePath_def)
  then show ?case using ih 2(2) unfolding eq by (auto split: if_splits)
qed

lemma removeRounds_gone:
  assumes settle: "\<And>i f q. f q = None \<Longrightarrow> settle i f q = None"
  shows "removeRounds n i settle ps f = (None, f') \<Longrightarrow>
    (\<forall>q. f q = None \<longrightarrow> f' q = None) \<and> (\<forall>(s, p) \<in> set ps. f' p = None)"
proof (induction n arbitrary: i ps f)
  case 0
  then show ?case by simp
next
  case (Suc n)
  obtain g where g: "g = (if i \<noteq> 0 then settle i f else f)" by blast
  obtain left f1 where r: "removeRound ps g = (left, f1)" by (cases "removeRound ps g")
  have f: "\<forall>q. f q = None \<longrightarrow> g q = None" using settle by (simp add: g)
  note spec = removeRound_spec [OF r]
  have eq: "removeRounds (Suc n) i settle ps f =
      (if left = [] then (None, f1) else removeRounds n (Suc i) settle left f1)"
    using r by (simp add: g)
  show ?case
  proof (cases "left = []")
    case True
    then have "f' = f1" using Suc.prems eq by simp
    then show ?thesis using spec f True by auto
  next
    case False
    then have "removeRounds n (Suc i) settle left f1 = (None, f')" using Suc.prems eq by simp
    from Suc.IH [OF this] show ?thesis using spec f by blast
  qed
qed

subsection \<open>Properties\<close>

text \<open>On the documented range of cpu shares, 2 to 262144, the conversion to a cgroup v2 weight is
  monotone and stays between 1 and 10000.\<close>

theorem cpu_shares_weight:
  fixes a b :: u64
  assumes "2 \<le> unat a" and "unat a \<le> unat b" and "unat b \<le> 262144"
  shows "1 \<le> unat (ConvertCPUSharesToCgroupV2Value a) \<and>
    unat (ConvertCPUSharesToCgroupV2Value a) \<le> unat (ConvertCPUSharesToCgroupV2Value b) \<and>
    unat (ConvertCPUSharesToCgroupV2Value b) \<le> 10000"
proof -
  have "(unat a - 2) * 9999 div 262142 \<le> (unat b - 2) * 9999 div 262142"
    using assms by (intro div_le_mono mult_right_mono) auto
  moreover have "(unat b - 2) * 9999 div 262142 \<le> 262142 * 9999 div 262142"
    using assms by (intro div_le_mono mult_right_mono) auto
  ultimately show ?thesis using assms by (simp add: cpu_shares_nat)
qed

theorem cpu_shares_weight_witness:
  "unat (ConvertCPUSharesToCgroupV2Value 2) \<le> unat (ConvertCPUSharesToCgroupV2Value 262144)"
  using cpu_shares_weight [of 2 262144] by simp

text \<open>Below the documented ranges the conversions wrap around instead of clamping: one cpu share
  gives a weight far above the maximum of 10000, and so does a block IO weight of 9, although larger
  settings give small weights.\<close>

theorem conversions_wrap:
  "10000 < unat (ConvertCPUSharesToCgroupV2Value 1) \<and>
   10000 < unat (ConvertBlkIOToIOWeightValue 9) \<and>
   ConvertCPUSharesToCgroupV2Value 2 = 1 \<and> ConvertBlkIOToIOWeightValue 10 = 1"
  by (simp add: ConvertCPUSharesToCgroupV2Value_def ConvertBlkIOToIOWeightValue_def)

text \<open>The swap value for cgroup v2: unlimited, unset, or exactly what is missing from the memory
  limit to the combined limit; every other combination is an error.\<close>

theorem memory_swap_value:
  "ConvertMemorySwapToCgroupV2Value swap memory = Inr v \<longleftrightarrow>
    (v = -1 \<and> (swap = -1 \<or> (swap = 0 \<and> memory = -1))) \<or>
    (v = 0 \<and> swap = 0 \<and> memory \<noteq> -1) \<or>
    (0 < memory \<and> 0 \<le> v \<and> memory + v = swap)"
  unfolding ConvertMemorySwapToCgroupV2Value_def by auto

text \<open>Parsing /proc/<pid>/cgroup: the lines of any list of hierarchies are read back to the map
  from subsystem to path; paths may contain colons, and later lines win.\<close>

theorem cgroup_file_roundtrip:
  assumes "\<forall>e \<in> set es. wf_cgEntry e"
  shows "parseCgroupFromReader \<lparr>rd_data = unlines (map printCgEntry es), rd_err = None\<rparr> = Inr (entriesMap es)"
proof -
  have "scanLines (unlines (map printCgEntry es)) = (map printCgEntry es, False)"
    using assms by (intro scanLines_unlines) auto
  then show ?thesis
    using foldRes_cgroupLine [OF assms, of Map.empty]
    by (simp add: parseCgroupFromReader_def scanLoop_def Scan_def)
qed

theorem cgroup_file_roundtrip_witness:
  "parseCgroupFromReader \<lparr>rd_data = ''4:cpu,cpuacct:/user.slice/a:b'' @ [nl], rd_err = None\<rparr> =
   Inr (entriesMap [(''4'', [''cpu'', ''cpuacct''], ''/user.slice/a:b'')])"
  using cgroup_file_roundtrip [of "[(''4'', [''cpu'', ''cpuacct''], ''/user.slice/a:b'')]"]
  by (simp add: plain_line_def maxScanTokenSize_def)

text \<open>RemovePath removes a cgroup with everything below it exactly when no directory in it is
  busy; otherwise it reports an error, and the directories that are left still include every busy
  one at its place.\<close>

theorem remove_path_correct:
  "(fst (RemovePath (Some d)) \<longleftrightarrow> busyDirs d \<noteq> []) \<and>
   (snd (RemovePath (Some d)) = None \<longleftrightarrow> busyDirs d = []) \<and>
   (case snd (RemovePath (Some d)) of None \<Rightarrow> [] | Some d' \<Rightarrow> busyDirs d') = busyDirs d"
  using removeDir_busy(1) [of d] by (auto simp: RemovePath_def)

text \<open>If RemovePaths reports success, none of the given cgroups exists any more, provided no
  removed cgroup is created again between the attempts.\<close>

theorem remove_paths_success:
  assumes "RemovePaths settle paths fs = (None, fs')"
    and "\<And>i f q. f q = None \<Longrightarrow> settle i f q = None"
  shows "\<forall>(s, p) \<in> set paths. fs' p = None"
  using removeRounds_gone [OF assms(2) assms(1) [unfolded RemovePaths_def]] by blast

theorem remove_paths_success_witness:
  "\<exists>fs'. RemovePaths (\<lambda>_ f. f) [(''cpu'', ''/sys/fs/cgroup/cpu/c'')]
      (\<lambda>_. Some (CgDir False [(''d'', CgDir False [])])) = (None, fs') \<and> fs' ''/sys/fs/cgroup/cpu/c'' = None"
proof -
  let ?fs = "\<lambda>_. Some (CgDir False [(''d'', CgDir False [])])"
  have eq: "RemovePaths (\<lambda>_ f. f) [(''cpu'', ''/sys/fs/cgroup/cpu/c'')] ?fs =
      (None, ?fs(''/sys/fs/cgroup/cpu/c'' := None))"
    by (simp add: RemovePaths_def eval_nat_numeral RemovePath_def canRmdir_def)
  have "\<forall>(s, p) \<in> set [(''cpu'', ''/sys/fs/cgroup/cpu/c'')]. (?fs(''/sys/fs/cgroup/cpu/c'' := None)) p = None"
    by (rule remove_paths_success [OF eq])
  then show ?thesis using eq by (intro exI [of _ "?fs(''/sys/fs/cgroup/cpu/c'' := None)"]) simp
qed

text \<open>When adding a process to a cgroup succeeds: one of the first five writes does and all before
  it fail with EINVAL; the special pid -1 is accepted without a write.\<close>

theorem write_cgroup_proc_ok:
  "WriteCgroupProc openErr wr dir pid = None \<longleftrightarrow>
    dir \<noteq> [] \<and>
    (pid = -1 \<or> (openErr dir = None \<and>
       (\<exists>k < 5. wr k = None \<and> map wr [0..<k] = replicate k (Some EINVAL))))"
proof -
  have "map wr [0..<k] = replicate k (Some EINVAL) \<longleftrightarrow> (\<forall>j < k. wr j = Some EINVAL)" for k
    by (auto simp: list_eq_iff_nth_eq)
  then show ?thesis
    using writeProcLoop_ok [of wr pid 0 None] by (auto simp: WriteCgroupProc_def split: option.splits)
qed

text \<open>The path a call opens.\<close>

fun openedPath :: "openCall \<Rightarrow> string" where
  "openedPath (Fallback p) = p"
| "openedPath (Openat2 rel flags) = cgroupfsPrefix @ rel"

text \<open>Opening a cgroup file never leaves the directory: for every file name and every clean
  absolute directory, the path that is opened, through the handle of the cgroup root or through the
  fallback, is lexically at or below the directory; and openat2 is asked to stay beneath the root.\<close>

theorem open_file_confined:
  "(\<exists>ws. openedPath (openFile (map_option resolveFlags prep) (Clean (''/'' @ dir)) file) =
      absPath (elemsOf dir @ ws)) \<and>
   (case openFile (map_option resolveFlags prep) (Clean (''/'' @ dir)) file of
      Openat2 rel flags \<Rightarrow> RESOLVE_BENEATH \<in> set flags \<and> RESOLVE_NO_MAGICLINKS \<in> set flags
    | Fallback p \<Rightarrow> True)"
proof -
  have "openedPath (openFile (map_option resolveFlags prep) d f) = PathJoin d (CleanPath f)" for d f
    by (auto simp: openFile_def Let_def TrimPrefix_def HasPrefix_iff split: option.splits)
  moreover have "\<exists>ws. PathJoin (Clean (''/'' @ dir)) (CleanPath file) = absPath (elemsOf dir @ ws)"
    by (rule CleanPath_below)
  ultimately show ?thesis
    by (auto simp: openFile_def Let_def resolveFlags_def split: option.splits)
qed

end
