(* ===== verification/Validate.thy ===== *)
theory Validate imports Configs Cgutils begin

text \<open>
  The checks of a container configuration (configs/validate/validator.go and rootless.go). What the
  checks ask of the system (files and their inodes, the working directory, whether SELinux, Intel
  RDT and the unified cgroup hierarchy are there) is a record of parameters. The keys of
  \<open>Sysctl\<close> come in the order the map is iterated in.
\<close>

datatype stat_error = NotExist | OtherStat string

record vd_env =
  ve_Stat :: "string \<Rightarrow> stat_error option"
  ve_Getwd :: "string + string"
  ve_EvalSymlinks :: "string \<Rightarrow> string + string"
  ve_SelinuxEnabled :: bool
  ve_CATEnabled :: bool
  ve_MBAEnabled :: bool
  ve_Cgroup2Unified :: bool
  ve_Inode :: "string \<Rightarrow> string + (u64 \<times> u64)"

datatype val_error =
    RootfsStat stat_error | RootfsAbs string | RootfsSymlinks string | RootfsNotAbsOrSymlink
  | NoNetNS | NoUtsNS | NoMntNS | SelinuxDisabled
  | UserNSUnsupported | UserNSNoMappings | UserNSDisabled | CgroupNSUnsupported
  | SysctlHostIpc string | NetnsPath string string | SysctlHostNet string
  | SysctlHostname string | SysctlNoNamespace string
  | BadClosID string | CATDisabled | MBADisabled
  | PathAndName Cgroup | V1NoUnified | SwapError cg_error
  | RootlessNoUserNS | RootlessNoUid | RootlessNoGid
  | RootlessUid i64 id_error | RootlessGid i64 id_error
  | MountNotAbs Mount

subsection \<open>Single checks\<close>

text \<open>\<open>filepath.Abs\<close>.\<close>

definition PathAbs :: "vd_env \<Rightarrow> string \<Rightarrow> string + string" where
  "PathAbs ev path =
     (if IsAbs path then Inr (Clean path)
      else andThen (ve_Getwd ev) (\<lambda>wd. Inr (PathJoin wd path)))"

definition v_rootfs :: "vd_env \<Rightarrow> Config \<Rightarrow> val_error option" where
  "v_rootfs ev c =
     (case ve_Stat ev (c_Rootfs c) of
        Some err \<Rightarrow> Some (RootfsStat err)
      | None \<Rightarrow>
          (case PathAbs ev (c_Rootfs c) of
             Inl err \<Rightarrow> Some (RootfsAbs err)
           | Inr cleaned \<Rightarrow>
               (case ve_EvalSymlinks ev cleaned of
                  Inl err \<Rightarrow> Some (RootfsSymlinks err)
                | Inr resolved \<Rightarrow>
                    if Clean (c_Rootfs c) \<noteq> resolved then Some RootfsNotAbsOrSymlink else None)))"

definition v_network :: "Config \<Rightarrow> val_error option" where
  "v_network c =
     (if \<not> ns_Contains (c_Namespaces c) NEWNET then
        (if c_Networks c \<noteq> [] \<or> c_Routes c \<noteq> [] then Some NoNetNS else None)
      else None)"

definition v_hostname :: "Config \<Rightarrow> val_error option" where
  "v_hostname c =
     (if c_Hostname c \<noteq> [] \<and> \<not> ns_Contains (c_Namespaces c) NEWUTS then Some NoUtsNS else None)"

definition v_security :: "vd_env \<Rightarrow> Config \<Rightarrow> val_error option" where
  "v_security ev c =
     (if (c_MaskPaths c \<noteq> [] \<or> c_ReadonlyPaths c \<noteq> []) \<and> \<not> ns_Contains (c_Namespaces c) NEWNS
      then Some NoMntNS
      else if c_ProcessLabel c \<noteq> [] \<and> \<not> ve_SelinuxEnabled ev then Some SelinuxDisabled
      else None)"

definition v_usernamespace :: "vd_env \<Rightarrow> Config \<Rightarrow> val_error option" where
  "v_usernamespace ev c =
     (if ns_Contains (c_Namespaces c) NEWUSER then
        (if ve_Stat ev ''/proc/self/ns/user'' = Some NotExist then Some UserNSUnsupported
         else
           (let hasPath = PathOf (c_Namespaces c) NEWUSER \<noteq> [];
                hasMappings = c_UidMappings c \<noteq> None \<or> c_GidMappings c \<noteq> None
            in if \<not> hasPath \<and> \<not> hasMappings then Some UserNSNoMappings else None))
      else
        (if c_UidMappings c \<noteq> None \<or> c_GidMappings c \<noteq> None then Some UserNSDisabled else None))"

definition v_cgroupnamespace :: "vd_env \<Rightarrow> Config \<Rightarrow> val_error option" where
  "v_cgroupnamespace ev c =
     (if ns_Contains (c_Namespaces c) NEWCGROUP \<and> ve_Stat ev ''/proc/self/ns/cgroup'' = Some NotExist
      then Some CgroupNSUnsupported else None)"

definition v_intelrdt :: "vd_env \<Rightarrow> Config \<Rightarrow> val_error option" where
  "v_intelrdt ev c =
     (case c_IntelRdt c of
        None \<Rightarrow> None
      | Some ir \<Rightarrow>
          if ir_ClosID ir = ''.'' \<or> ir_ClosID ir = ''..'' \<or> CHR ''/'' \<in> set (ir_ClosID ir)
          then Some (BadClosID (ir_ClosID ir))
          else if \<not> ve_CATEnabled ev \<and> ir_L3CacheSchema ir \<noteq> [] then Some CATDisabled
          else if \<not> ve_MBAEnabled ev \<and> ir_MemBwSchema ir \<noteq> [] then Some MBADisabled
          else None)"

definition v_cgroups :: "vd_env \<Rightarrow> Config \<Rightarrow> val_error option" where
  "v_cgroups ev c =
     (case c_Cgroups c of
        None \<Rightarrow> None
      | Some cg \<Rightarrow>
          if (cg_Name cg \<noteq> [] \<or> cg_Parent cg \<noteq> []) \<and> cg_Path cg \<noteq> [] then Some (PathAndName cg)
          else
            (case cg_Resources cg of
               None \<Rightarrow> None
             | Some r \<Rightarrow>
                 if \<not> ve_Cgroup2Unified ev \<and> rs_Unified r \<noteq> None then Some V1NoUnified
                 else if ve_Cgroup2Unified ev then
                   (case ConvertMemorySwapToCgroupV2Value (rs_MemorySwap r) (rs_Memory r) of
                      Inl err \<Rightarrow> Some (SwapError err)
                    | Inr _ \<Rightarrow> None)
                 else None))"

definition v_mounts :: "Config \<Rightarrow> val_error option" where
  "v_mounts c =
     firstErr (map (\<lambda>m. if \<not> IsAbs (mt_Destination m) then Some (MountNotAbs m) else None) (c_Mounts c))"

subsection \<open>Sysctl keys\<close>

fun IndexAny :: "string \<Rightarrow> string \<Rightarrow> nat option" where
  "IndexAny [] cs = None"
| "IndexAny (x # xs) cs = (if x \<in> set cs then Some 0 else map_option Suc (IndexAny xs cs))"

definition swapSep :: "char \<Rightarrow> char" where
  "swapSep r = (if r = CHR ''.'' then CHR ''/'' else if r = CHR ''/'' then CHR ''.'' else r)"

definition convertSysctlVariableToDotsSeparator :: "string \<Rightarrow> string" where
  "convertSysctlVariableToDotsSeparator v =
     (if v = [] then v
      else case IndexAny v ''./'' of
             None \<Rightarrow> v
           | Some i \<Rightarrow> if v ! i = CHR ''.'' then v else map swapSep v)"

definition validSysctlMap :: "string list" where
  "validSysctlMap =
     [''kernel.msgmax'', ''kernel.msgmnb'', ''kernel.msgmni'', ''kernel.sem'', ''kernel.shmall'',
      ''kernel.shmmax'', ''kernel.shmmni'', ''kernel.shm_rmid_forced'']"

definition currentProcessNetns :: string where
  "currentProcessNetns = ''/proc/self/ns/net''"

text \<open>A failing \<open>stat\<close> gives the path and the error; inodes are device and number.\<close>

definition isHostNetNS :: "vd_env \<Rightarrow> string \<Rightarrow> (string \<times> string) + bool" where
  "isHostNetNS ev path =
     (case ve_Inode ev currentProcessNetns of
        Inl err \<Rightarrow> Inl (currentProcessNetns, err)
      | Inr st1 \<Rightarrow>
          (case ve_Inode ev path of
             Inl err \<Rightarrow> Inl (path, err)
           | Inr st2 \<Rightarrow> Inr (fst st1 = fst st2 \<and> snd st1 = snd st2)))"

definition hostNet :: "vd_env \<Rightarrow> Namespaces \<Rightarrow> (string \<times> string) + bool" where
  "hostNet ev nss =
     (if \<not> ns_Contains nss NEWNET then Inr True
      else let path = PathOf nss NEWNET in
           if path = [] then Inr False else isHostNetNS ev path)"

text \<open>
  One turn of the loop: the state is what \<open>netOnce\<close> has left in \<open>hostnet\<close> and
  \<open>hostnetErr\<close>, None before its first use.
\<close>

type_synonym netOnce = "((string \<times> string) + bool) option"

definition sysctlKey :: "vd_env \<Rightarrow> Namespaces \<Rightarrow> string \<Rightarrow> netOnce \<Rightarrow> val_error option \<times> netOnce" where
  "sysctlKey ev nss k st =
     (let s = convertSysctlVariableToDotsSeparator k in
      if s \<in> set validSysctlMap \<or> HasPrefix s ''fs.mqueue.'' then
        (if ns_Contains nss NEWIPC then (None, st) else (Some (SysctlHostIpc s), st))
      else if HasPrefix s ''net.'' then
        (let res = (case st of None \<Rightarrow> hostNet ev nss | Some r \<Rightarrow> r) in
         (case res of
            Inl (path, err) \<Rightarrow> Some (NetnsPath path err)
          | Inr hostnet \<Rightarrow> if hostnet then Some (SysctlHostNet s) else None, Some res))
      else if ns_Contains nss NEWUTS \<and> s = ''kernel.domainname'' then (None, st)
      else if ns_Contains nss NEWUTS \<and> s = ''kernel.hostname'' then (Some (SysctlHostname s), st)
      else (Some (SysctlNoNamespace s), st))"

fun sysctlLoop :: "vd_env \<Rightarrow> Namespaces \<Rightarrow> string list \<Rightarrow> netOnce \<Rightarrow> val_error option" where
  "sysctlLoop ev nss [] st = None"
| "sysctlLoop ev nss (k # ks) st =
     (case sysctlKey ev nss k st of
        (Some err, st') \<Rightarrow> Some err
      | (None, st') \<Rightarrow> sysctlLoop ev nss ks st')"

definition v_sysctl :: "vd_env \<Rightarrow> Config \<Rightarrow> val_error option" where
  "v_sysctl ev c = sysctlLoop ev (c_Namespaces c) (map fst (c_Sysctl c)) None"

subsection \<open>Rootless containers\<close>

definition rootlessEUIDMappings :: "Config \<Rightarrow> val_error option" where
  "rootlessEUIDMappings c =
     (if \<not> ns_Contains (c_Namespaces c) NEWUSER then Some RootlessNoUserNS
      else if PathOf (c_Namespaces c) NEWUSER = [] then
        (if c_UidMappings c = None \<or> c_UidMappings c = Some [] then Some RootlessNoUid
         else if c_GidMappings c = None \<or> c_GidMappings c = Some [] then Some RootlessNoGid
         else None)
      else None)"

text \<open>
  \<open>fmt.Sscanf(opt, prefix + "%d", &i)\<close> for a string with that prefix: spaces are skipped, a newline
  is an error, then come a sign and digits that fit 64 bits; what follows them is not looked at.
\<close>

fun skipSpace :: "string \<Rightarrow> string option" where
  "skipSpace [] = Some []"
| "skipSpace (x # xs) =
     (if x = CHR 0x0A then None else if isSpace x then skipSpace xs else Some (x # xs))"

definition scanInt :: "string \<Rightarrow> i64 option" where
  "scanInt s =
     (case skipSpace s of
        None \<Rightarrow> None
      | Some t \<Rightarrow>
          (let sgn = (if t \<noteq> [] \<and> hd t \<in> set ''+-'' then [hd t] else []);
               ds = takeWhile (\<lambda>x. digit_val x \<noteq> None) (drop (length sgn) t)
           in if ds = [] then None
              else case ParseInt10 64 (sgn @ ds) of
                     (i, None) \<Rightarrow> Some (word_of_int i)
                   | (i, Some err) \<Rightarrow> None))"

definition gidOption :: "Config \<Rightarrow> string \<Rightarrow> val_error option" where
  "gidOption c opt =
     (if HasPrefix opt ''gid='' then
        (case scanInt (drop 4 opt) of
           None \<Rightarrow> None
         | Some gid \<Rightarrow>
             (case HostGID c gid of Inl err \<Rightarrow> Some (RootlessGid gid err) | Inr _ \<Rightarrow> None))
      else None)"

definition rootlessOption :: "Config \<Rightarrow> string \<Rightarrow> val_error option" where
  "rootlessOption c opt =
     (if HasPrefix opt ''uid='' then
        (case scanInt (drop 4 opt) of
           None \<Rightarrow> None
         | Some uid \<Rightarrow>
             (case HostUID c uid of Inl err \<Rightarrow> Some (RootlessUid uid err) | Inr _ \<Rightarrow> gidOption c opt))
      else gidOption c opt)"

definition rootlessEUIDMount :: "Config \<Rightarrow> val_error option" where
  "rootlessEUIDMount c =
     firstErr (map (\<lambda>m. firstErr (map (rootlessOption c) (Split CHR '','' (mt_Data m)))) (c_Mounts c))"

definition v_rootlessEUID :: "Config \<Rightarrow> val_error option" where
  "v_rootlessEUID c =
     (if \<not> c_RootlessEUID c then None
      else firstErr [rootlessEUIDMappings c, rootlessEUIDMount c])"

subsection \<open>Validate\<close>

text \<open>The error, and the warnings that are logged instead of returned.\<close>

definition Validate :: "vd_env \<Rightarrow> Config \<Rightarrow> val_error option \<times> val_error list" where
  "Validate ev c =
     (case firstErr [v_cgroups ev c, v_rootfs ev c, v_network c, v_hostname c, v_security ev c,
                     v_usernamespace ev c, v_cgroupnamespace ev c, v_sysctl ev c, v_intelrdt ev c,
                     v_rootlessEUID c] of
        Some err \<Rightarrow> (Some err, [])
      | None \<Rightarrow> (None, case v_mounts c of None \<Rightarrow> [] | Some w \<Rightarrow> [w]))"

end
