(* ===== verification/SeccompConfig.thy ===== *)
theory SeccompConfig imports Configs "HOL-Library.Char_ord" "HOL-Library.List_Lexorder" begin

text \<open>
  The seccomp vocabulary (seccomp/config.go) and the conversion of the seccomp section of a
  specification (SetupSeccomp in specconv/spec_linux.go). The Go maps are association lists.
\<close>

definition operators :: "(string \<times> Operator) list" where
  "operators =
     [(''SCMP_CMP_NE'', NotEqualTo),
      (''SCMP_CMP_LT'', LessThan),
      (''SCMP_CMP_LE'', LessThanOrEqualTo),
      (''SCMP_CMP_EQ'', EqualTo),
      (''SCMP_CMP_GE'', GreaterThanOrEqualTo),
      (''SCMP_CMP_GT'', GreaterThan),
      (''SCMP_CMP_MASKED_EQ'', MaskEqualTo)]"

definition actions :: "(string \<times> Action) list" where
  "actions =
     [(''SCMP_ACT_KILL'', Kill),
      (''SCMP_ACT_ERRNO'', Errno),
      (''SCMP_ACT_TRAP'', Trap),
      (''SCMP_ACT_ALLOW'', Allow),
      (''SCMP_ACT_TRACE'', Trace),
      (''SCMP_ACT_LOG'', Log),
      (''SCMP_ACT_NOTIFY'', Notify),
      (''SCMP_ACT_KILL_THREAD'', KillThread),
      (''SCMP_ACT_KILL_PROCESS'', KillProcess)]"

definition archs :: "(string \<times> string) list" where
  "archs =
     [(''SCMP_ARCH_X86'', ''x86''),
      (''SCMP_ARCH_X86_64'', ''amd64''),
      (''SCMP_ARCH_X32'', ''x32''),
      (''SCMP_ARCH_ARM'', ''arm''),
      (''SCMP_ARCH_AARCH64'', ''arm64''),
      (''SCMP_ARCH_MIPS'', ''mips''),
      (''SCMP_ARCH_MIPS64'', ''mips64''),
      (''SCMP_ARCH_MIPS64N32'', ''mips64n32''),
      (''SCMP_ARCH_MIPSEL'', ''mipsel''),
      (''SCMP_ARCH_MIPSEL64'', ''mipsel64''),
      (''SCMP_ARCH_MIPSEL64N32'', ''mipsel64n32''),
      (''SCMP_ARCH_PPC'', ''ppc''),
      (''SCMP_ARCH_PPC64'', ''ppc64''),
      (''SCMP_ARCH_PPC64LE'', ''ppc64le''),
      (''SCMP_ARCH_RISCV64'', ''riscv64''),
      (''SCMP_ARCH_S390'', ''s390''),
      (''SCMP_ARCH_S390X'', ''s390x'')]"

definition KnownOperators :: "string list" where "KnownOperators = sort (map fst operators)"
definition KnownActions :: "string list" where "KnownActions = sort (map fst actions)"
definition KnownArchs :: "string list" where "KnownArchs = sort (map fst archs)"

datatype seccomp_error =
    InvalidOperator string
  | InvalidAction string
  | InvalidArch string
  | FlagsNotSupported

definition ConvertStringToOperator :: "string \<Rightarrow> seccomp_error + Operator" where
  "ConvertStringToOperator s =
     (case map_of operators s of Some op \<Rightarrow> Inr op | None \<Rightarrow> Inl (InvalidOperator s))"

definition ConvertStringToAction :: "string \<Rightarrow> seccomp_error + Action" where
  "ConvertStringToAction s =
     (case map_of actions s of Some act \<Rightarrow> Inr act | None \<Rightarrow> Inl (InvalidAction s))"

definition ConvertStringToArch :: "string \<Rightarrow> seccomp_error + string" where
  "ConvertStringToArch s =
     (case map_of archs s of Some arch \<Rightarrow> Inr arch | None \<Rightarrow> Inl (InvalidArch s))"

subsection \<open>SetupSeccomp\<close>

text \<open>The seccomp section of the runtime specification.\<close>

record LinuxSeccompArg =
  la_Index :: u64
  la_Value :: u64
  la_ValueTwo :: u64
  la_Op :: string

record LinuxSyscall =
  ls_Names :: "string list"
  ls_Action :: string
  ls_ErrnoRet :: "u64 option"
  ls_Args :: "LinuxSeccompArg list"

record LinuxSeccomp =
  lx_DefaultAction :: string
  lx_DefaultErrnoRet :: "u64 option"
  lx_Architectures :: "string list"
  lx_Flags :: "string list"
  lx_ListenerPath :: string
  lx_ListenerMetadata :: string
  lx_Syscalls :: "LinuxSyscall list"

definition convertArg :: "LinuxSeccompArg \<Rightarrow> seccomp_error + Arg" where
  "convertArg arg =
     andThen (ConvertStringToOperator (la_Op arg)) (\<lambda>newOp.
       Inr \<lparr>a_Index = la_Index arg, a_Value = la_Value arg, a_ValueTwo = la_ValueTwo arg, a_Op = newOp\<rparr>)"

definition convertName :: "LinuxSyscall \<Rightarrow> Action \<Rightarrow> string \<Rightarrow> seccomp_error + Syscall" where
  "convertName call newAction name =
     andThen (mapRes convertArg (ls_Args call)) (\<lambda>args.
       Inr \<lparr>sc_Name = name, sc_Action = newAction, sc_ErrnoRet = ls_ErrnoRet call, sc_Args = args\<rparr>)"

definition convertCall :: "LinuxSyscall \<Rightarrow> seccomp_error + Syscall list" where
  "convertCall call =
     andThen (ConvertStringToAction (ls_Action call)) (\<lambda>newAction.
       mapRes (convertName call newAction) (ls_Names call))"

definition SetupSeccomp :: "LinuxSeccomp option \<Rightarrow> seccomp_error + Seccomp option" where
  "SetupSeccomp cfg =
     (case cfg of
        None \<Rightarrow> Inr None
      | Some config \<Rightarrow>
          if lx_DefaultAction config = [] \<and> lx_Syscalls config = [] then Inr None
          else if lx_Flags config \<noteq> [] then Inl FlagsNotSupported
          else
            andThen (mapRes ConvertStringToArch (lx_Architectures config)) (\<lambda>architectures.
            andThen (ConvertStringToAction (lx_DefaultAction config)) (\<lambda>newDefaultAction.
            andThen (mapRes convertCall (lx_Syscalls config)) (\<lambda>calls.
              Inr (Some
                \<lparr>se_DefaultAction = newDefaultAction, se_Architectures = architectures,
                 se_Syscalls = concat calls, se_DefaultErrnoRet = lx_DefaultErrnoRet config,
                 se_ListenerPath = lx_ListenerPath config,
                 se_ListenerMetadata = lx_ListenerMetadata config\<rparr>)))))"

lemma convert_iff:
  "ConvertStringToOperator s = Inr p \<longleftrightarrow> map_of operators s = Some p"
  "ConvertStringToAction s = Inr a \<longleftrightarrow> map_of actions s = Some a"
  "ConvertStringToArch s = Inr r \<longleftrightarrow> map_of archs s = Some r"
  by (auto simp: ConvertStringToOperator_def ConvertStringToAction_def ConvertStringToArch_def
      split: option.splits)

text \<open>What a converted rule says: the names of the specification have become values.\<close>

definition argMeans :: "LinuxSeccompArg \<Rightarrow> Arg \<Rightarrow> bool" where
  "argMeans x y \<longleftrightarrow> a_Index y = la_Index x \<and> a_Value y = la_Value x \<and> a_ValueTwo y = la_ValueTwo x \<and>
     map_of operators (la_Op x) = Some (a_Op y)"

definition callMeans :: "LinuxSyscall \<times> string \<Rightarrow> Syscall \<Rightarrow> bool" where
  "callMeans cn y \<longleftrightarrow> sc_Name y = snd cn \<and> map_of actions (ls_Action (fst cn)) = Some (sc_Action y) \<and>
     sc_ErrnoRet y = ls_ErrnoRet (fst cn) \<and> list_all2 argMeans (ls_Args (fst cn)) (sc_Args y)"

lemma convertArg_means: "convertArg x = Inr y \<longleftrightarrow> argMeans x y"
  by (cases y) (auto simp: convertArg_def argMeans_def andThen_Inr_iff convert_iff)

lemma convertName_means:
  "map_of actions (ls_Action call) = Some act \<Longrightarrow> convertName call act name = Inr y \<longleftrightarrow> callMeans (call, name) y \<and> sc_Action y = act"
  by (cases y) (auto simp: convertName_def callMeans_def andThen_Inr_iff mapRes_Inr_iff convertArg_means)

lemma convertCall_means:
  "convertCall call = Inr ys \<Longrightarrow> list_all2 callMeans (map (Pair call) (ls_Names call)) ys"
  by (auto simp: convertCall_def andThen_Inr_iff convert_iff mapRes_Inr_iff convertName_means
      list_all2_map1 elim!: list_all2_mono)

lemma list_all2_concat:
  "list_all2 (list_all2 P) xss yss \<Longrightarrow> list_all2 P (concat xss) (concat yss)"
  by (induction rule: list_all2_induct) (auto intro: list_all2_appendI)

text \<open>The rules of a specification, one for each name of each block.\<close>

definition specRules :: "LinuxSeccomp \<Rightarrow> (LinuxSyscall \<times> string) list" where
  "specRules config = concat (map (\<lambda>call. map (Pair call) (ls_Names call)) (lx_Syscalls config))"

text \<open>Converting a seccomp section keeps its meaning: the result has one rule for every name
  of every block, in order, with the action, error number and argument conditions that block
  gives; default action and architectures are the values their names stand for.\<close>

theorem setup_seccomp_means:
  assumes "SetupSeccomp (Some config) = Inr (Some s)"
  shows "list_all2 callMeans (specRules config) (se_Syscalls s) \<and>
    map_of actions (lx_DefaultAction config) = Some (se_DefaultAction s) \<and>
    list_all2 (\<lambda>x y. map_of archs x = Some y) (lx_Architectures config) (se_Architectures s) \<and>
    lx_Flags config = []"
proof -
  obtain calls where calls: "mapRes convertCall (lx_Syscalls config) = Inr calls" "se_Syscalls s = concat calls"
    and rest: "mapRes ConvertStringToArch (lx_Architectures config) = Inr (se_Architectures s)"
      "ConvertStringToAction (lx_DefaultAction config) = Inr (se_DefaultAction s)" "lx_Flags config = []"
    using assms by (auto simp: SetupSeccomp_def andThen_Inr_iff split: if_splits)
  have "list_all2 (list_all2 callMeans) (map (\<lambda>call. map (Pair call) (ls_Names call)) (lx_Syscalls config)) calls"
    using calls(1) by (auto simp: mapRes_Inr_iff list_all2_map1 elim!: list_all2_mono dest: convertCall_means)
  then have "list_all2 callMeans (specRules config) (se_Syscalls s)"
    unfolding specRules_def calls(2) by (rule list_all2_concat)
  then show ?thesis using rest by (auto simp: convert_iff mapRes_Inr_iff)
qed

definition exampleSeccomp :: LinuxSeccomp where
  "exampleSeccomp =
     \<lparr>lx_DefaultAction = ''SCMP_ACT_ERRNO'', lx_DefaultErrnoRet = None,
      lx_Architectures = [''SCMP_ARCH_X86_64''], lx_Flags = [], lx_ListenerPath = [],
      lx_ListenerMetadata = [],
      lx_Syscalls =
        [\<lparr>ls_Names = [''read'', ''write''], ls_Action = ''SCMP_ACT_ALLOW'', ls_ErrnoRet = None,
          ls_Args = [\<lparr>la_Index = 0, la_Value = 2, la_ValueTwo = 0, la_Op = ''SCMP_CMP_LE''\<rparr>]\<rparr>]\<rparr>"

theorem setup_seccomp_example:
  "\<exists>s. SetupSeccomp (Some exampleSeccomp) = Inr (Some s) \<and>
    list_all2 callMeans (specRules exampleSeccomp) (se_Syscalls s)"
proof -
  have "\<exists>s. SetupSeccomp (Some exampleSeccomp) = Inr (Some s)"
    by (simp add: SetupSeccomp_def exampleSeccomp_def ConvertStringToArch_def ConvertStringToAction_def
        ConvertStringToOperator_def convertCall_def convertName_def convertArg_def
        archs_def actions_def operators_def)
  then show ?thesis using setup_seccomp_means by blast
qed

end
