(* ===== verification/MountOptions.thy ===== *)
theory MountOptions imports SeccompConfig begin

text \<open>
  Mount options (specconv/spec_linux.go): the option tables, parseMountOptions and
  createLibcontainerMount. The tables are association lists with the kernel's flag values.
\<close>

definition MS_RDONLY :: u64 where "MS_RDONLY = 0x1"
definition MS_NOSUID :: u64 where "MS_NOSUID = 0x2"
definition MS_NODEV :: u64 where "MS_NODEV = 0x4"
definition MS_NOEXEC :: u64 where "MS_NOEXEC = 0x8"
definition MS_SYNCHRONOUS :: u64 where "MS_SYNCHRONOUS = 0x10"
definition MS_REMOUNT :: u64 where "MS_REMOUNT = 0x20"
definition MS_MANDLOCK :: u64 where "MS_MANDLOCK = 0x40"
definition MS_DIRSYNC :: u64 where "MS_DIRSYNC = 0x80"
definition MS_NOSYMFOLLOW :: u64 where "MS_NOSYMFOLLOW = 0x100"
definition MS_NOATIME :: u64 where "MS_NOATIME = 0x400"
definition MS_NODIRATIME :: u64 where "MS_NODIRATIME = 0x800"
definition MS_REC :: u64 where "MS_REC = 0x4000"
definition MS_SILENT :: u64 where "MS_SILENT = 0x8000"
definition MS_POSIXACL :: u64 where "MS_POSIXACL = 0x10000"
definition MS_UNBINDABLE :: u64 where "MS_UNBINDABLE = 0x20000"
definition MS_PRIVATE :: u64 where "MS_PRIVATE = 0x40000"
definition MS_SLAVE :: u64 where "MS_SLAVE = 0x80000"
definition MS_SHARED :: u64 where "MS_SHARED = 0x100000"
definition MS_RELATIME :: u64 where "MS_RELATIME = 0x200000"
definition MS_I_VERSION :: u64 where "MS_I_VERSION = 0x800000"
definition MS_STRICTATIME :: u64 where "MS_STRICTATIME = 0x1000000"
definition MS_LAZYTIME :: u64 where "MS_LAZYTIME = 0x2000000"

lemmas ms_flags = MS_RDONLY_def MS_NOSUID_def MS_NODEV_def MS_NOEXEC_def MS_SYNCHRONOUS_def
  MS_REMOUNT_def MS_MANDLOCK_def MS_DIRSYNC_def MS_NOSYMFOLLOW_def MS_NOATIME_def MS_NODIRATIME_def
  MS_REC_def MS_SILENT_def MS_POSIXACL_def MS_UNBINDABLE_def MS_PRIVATE_def MS_SLAVE_def
  MS_SHARED_def MS_RELATIME_def MS_I_VERSION_def MS_STRICTATIME_def MS_LAZYTIME_def MS_BIND_def

definition MOUNT_ATTR_RDONLY :: u64 where "MOUNT_ATTR_RDONLY = 0x1"
definition MOUNT_ATTR_NOSUID :: u64 where "MOUNT_ATTR_NOSUID = 0x2"
definition MOUNT_ATTR_NODEV :: u64 where "MOUNT_ATTR_NODEV = 0x4"
definition MOUNT_ATTR_NOEXEC :: u64 where "MOUNT_ATTR_NOEXEC = 0x8"
definition MOUNT_ATTR__ATIME :: u64 where "MOUNT_ATTR__ATIME = 0x70"
definition MOUNT_ATTR_RELATIME :: u64 where "MOUNT_ATTR_RELATIME = 0x0"
definition MOUNT_ATTR_NOATIME :: u64 where "MOUNT_ATTR_NOATIME = 0x10"
definition MOUNT_ATTR_STRICTATIME :: u64 where "MOUNT_ATTR_STRICTATIME = 0x20"
definition MOUNT_ATTR_NODIRATIME :: u64 where "MOUNT_ATTR_NODIRATIME = 0x80"
definition MOUNT_ATTR_NOSYMFOLLOW :: u64 where "MOUNT_ATTR_NOSYMFOLLOW = 0x200000"

lemmas mount_attrs = MOUNT_ATTR_RDONLY_def MOUNT_ATTR_NOSUID_def MOUNT_ATTR_NODEV_def
  MOUNT_ATTR_NOEXEC_def MOUNT_ATTR__ATIME_def MOUNT_ATTR_RELATIME_def MOUNT_ATTR_NOATIME_def
  MOUNT_ATTR_STRICTATIME_def MOUNT_ATTR_NODIRATIME_def MOUNT_ATTR_NOSYMFOLLOW_def

definition namespaceMapping :: "(string \<times> NamespaceType) list" where
  "namespaceMapping =
     [(''pid'', NEWPID), (''network'', NEWNET), (''mount'', NEWNS), (''user'', NEWUSER),
      (''ipc'', NEWIPC), (''uts'', NEWUTS), (''cgroup'', NEWCGROUP)]"

definition mountPropagationMapping :: "(string \<times> u64) list" where
  "mountPropagationMapping =
     [(''rprivate'', MS_PRIVATE OR MS_REC),
      (''private'', MS_PRIVATE),
      (''rslave'', MS_SLAVE OR MS_REC),
      (''slave'', MS_SLAVE),
      (''rshared'', MS_SHARED OR MS_REC),
      (''shared'', MS_SHARED),
      (''runbindable'', MS_UNBINDABLE OR MS_REC),
      (''unbindable'', MS_UNBINDABLE),
      ([], 0)]"

text \<open>An entry: whether the option clears the flag, and the flag.\<close>

definition mountFlags :: "(string \<times> bool \<times> u64) list" where
  "mountFlags =
     [(''acl'', False, MS_POSIXACL),
      (''async'', True, MS_SYNCHRONOUS),
      (''atime'', True, MS_NOATIME),
      (''bind'', False, MS_BIND),
      (''defaults'', False, 0),
      (''dev'', True, MS_NODEV),
      (''diratime'', True, MS_NODIRATIME),
      (''dirsync'', False, MS_DIRSYNC),
      (''exec'', True, MS_NOEXEC),
      (''iversion'', False, MS_I_VERSION),
      (''lazytime'', False, MS_LAZYTIME),
      (''loud'', True, MS_SILENT),
      (''mand'', False, MS_MANDLOCK),
      (''noacl'', True, MS_POSIXACL),
      (''noatime'', False, MS_NOATIME),
      (''nodev'', False, MS_NODEV),
      (''nodiratime'', False, MS_NODIRATIME),
      (''noexec'', False, MS_NOEXEC),
      (''noiversion'', True, MS_I_VERSION),
      (''nolazytime'', True, MS_LAZYTIME),
      (''nomand'', True, MS_MANDLOCK),
      (''norelatime'', True, MS_RELATIME),
      (''nostrictatime'', True, MS_STRICTATIME),
      (''nosuid'', False, MS_NOSUID),
      (''nosymfollow'', False, MS_NOSYMFOLLOW),
      (''rbind'', False, MS_BIND OR MS_REC),
      (''relatime'', False, MS_RELATIME),
      (''remount'', False, MS_REMOUNT),
      (''ro'', False, MS_RDONLY),
      (''rw'', True, MS_RDONLY),
      (''silent'', False, MS_SILENT),
      (''strictatime'', False, MS_STRICTATIME),
      (''suid'', True, MS_NOSUID),
      (''sync'', False, MS_SYNCHRONOUS),
      (''symfollow'', True, MS_NOSYMFOLLOW)]"

definition recAttrFlags :: "(string \<times> bool \<times> u64) list" where
  "recAttrFlags =
     [(''rro'', False, MOUNT_ATTR_RDONLY),
      (''rrw'', True, MOUNT_ATTR_RDONLY),
      (''rnosuid'', False, MOUNT_ATTR_NOSUID),
      (''rsuid'', True, MOUNT_ATTR_NOSUID),
      (''rnodev'', False, MOUNT_ATTR_NODEV),
      (''rdev'', True, MOUNT_ATTR_NODEV),
      (''rnoexec'', False, MOUNT_ATTR_NOEXEC),
      (''rexec'', True, MOUNT_ATTR_NOEXEC),
      (''rnodiratime'', False, MOUNT_ATTR_NODIRATIME),
      (''rdiratime'', True, MOUNT_ATTR_NODIRATIME),
      (''rrelatime'', False, MOUNT_ATTR_RELATIME),
      (''rnorelatime'', True, MOUNT_ATTR_RELATIME),
      (''rnoatime'', False, MOUNT_ATTR_NOATIME),
      (''ratime'', True, MOUNT_ATTR_NOATIME),
      (''rstrictatime'', False, MOUNT_ATTR_STRICTATIME),
      (''rnostrictatime'', True, MOUNT_ATTR_STRICTATIME),
      (''rnosymfollow'', False, MOUNT_ATTR_NOSYMFOLLOW),
      (''rsymfollow'', True, MOUNT_ATTR_NOSYMFOLLOW)]"

definition extensionFlags :: "(string \<times> bool \<times> u64) list" where
  "extensionFlags = [(''tmpcopyup'', False, EXT_COPYUP)]"

definition KnownNamespaces :: "string list" where
  "KnownNamespaces = sort (map fst namespaceMapping)"

definition KnownMountOptions :: "string list" where
  "KnownMountOptions =
     sort (map fst mountFlags @ filter (\<lambda>k. k \<noteq> []) (map fst mountPropagationMapping) @
           map fst recAttrFlags @ map fst extensionFlags)"

subsection \<open>parseMountOptions\<close>

record mountState =
  ms_data :: "string list"
  ms_mount :: Mount
  ms_set :: u64
  ms_clr :: u64

definition emptyMount :: Mount where
  "emptyMount =
     \<lparr>mt_Source = [], mt_Destination = [], mt_Device = [], mt_Flags = 0, mt_PropagationFlags = [],
      mt_Data = [], mt_Relabel = [], mt_RecAttr = None, mt_Extensions = 0, mt_PremountCmds = [],
      mt_PostmountCmds = []\<rparr>"

text \<open>\<open>if clear then old &^ flag else old | flag\<close>\<close>

definition applyFlag :: "bool \<times> u64 \<Rightarrow> u64 \<Rightarrow> u64" where
  "applyFlag f old = (if fst f then old AND NOT (snd f) else old OR snd f)"

text \<open>The table that an option belongs to: the first that has it with a flag the platform knows.\<close>

datatype optKind =
    MountFlag "bool \<times> u64"
  | Propagation u64
  | RecAttr "bool \<times> u64"
  | Extension "bool \<times> u64"
  | DataValue

definition optionKind :: "string \<Rightarrow> optKind" where
  "optionKind opt =
     (case map_of mountFlags opt of
        Some f \<Rightarrow> if snd f \<noteq> 0 then MountFlag f else
          (case map_of mountPropagationMapping opt of
             Some p \<Rightarrow> if p \<noteq> 0 then Propagation p else DataValue
           | None \<Rightarrow> DataValue)
      | None \<Rightarrow>
          (case map_of mountPropagationMapping opt of
             Some p \<Rightarrow> if p \<noteq> 0 then Propagation p else DataValue
           | None \<Rightarrow>
               (case map_of recAttrFlags opt of
                  Some f \<Rightarrow> RecAttr f
                | None \<Rightarrow>
                    (case map_of extensionFlags opt of
                       Some f \<Rightarrow> if snd f \<noteq> 0 then Extension f else DataValue
                     | None \<Rightarrow> DataValue))))"

definition optionStep :: "string \<Rightarrow> mountState \<Rightarrow> mountState" where
  "optionStep opt st =
     (case optionKind opt of
        MountFlag f \<Rightarrow> st\<lparr>ms_mount := (ms_mount st)\<lparr>mt_Flags := applyFlag f (mt_Flags (ms_mount st))\<rparr>\<rparr>
      | Propagation p \<Rightarrow>
          st\<lparr>ms_mount := (ms_mount st)\<lparr>mt_PropagationFlags := mt_PropagationFlags (ms_mount st) @ [p]\<rparr>\<rparr>
      | RecAttr (clear, flag) \<Rightarrow>
          (if clear then st\<lparr>ms_clr := ms_clr st OR flag\<rparr>
           else st\<lparr>ms_set := ms_set st OR flag,
                   ms_clr := (if flag AND MOUNT_ATTR__ATIME = flag
                              then ms_clr st OR MOUNT_ATTR__ATIME else ms_clr st)\<rparr>)
      | Extension f \<Rightarrow>
          st\<lparr>ms_mount := (ms_mount st)\<lparr>mt_Extensions := applyFlag f (mt_Extensions (ms_mount st))\<rparr>\<rparr>
      | DataValue \<Rightarrow> st\<lparr>ms_data := ms_data st @ [opt]\<rparr>)"

definition parseMountOptions :: "string list \<Rightarrow> Mount" where
  "parseMountOptions options =
     (let st = fold optionStep options \<lparr>ms_data = [], ms_mount = emptyMount, ms_set = 0, ms_clr = 0\<rparr>
      in (ms_mount st)
           \<lparr>mt_Data := Join '','' (ms_data st),
            mt_RecAttr := (if ms_set st \<noteq> 0 \<or> ms_clr st \<noteq> 0
                           then Some \<lparr>Attr_set = ms_set st, Attr_clr = ms_clr st\<rparr> else None)\<rparr>)"

subsection \<open>createLibcontainerMount\<close>

text \<open>A mount of the specification.\<close>

record SpecMount =
  sm_Destination :: string
  sm_Type :: string
  sm_Source :: string
  sm_Options :: "string list"

abbreviation nul :: char where "nul \<equiv> CHR 0x00"

text \<open>None is the error "mount field contains null byte".\<close>

definition createLibcontainerMount :: "string \<Rightarrow> SpecMount \<Rightarrow> Mount option" where
  "createLibcontainerMount cwd m =
     (let mnt0 = parseMountOptions (sm_Options m);
          mnt1 = mnt0\<lparr>mt_Destination := sm_Destination m, mt_Source := sm_Source m, mt_Device := sm_Type m\<rparr>;
          mnt =
            (if mt_Flags mnt1 AND MS_BIND \<noteq> 0 then
               (let mnt2 = mnt1\<lparr>mt_Device := ''bind''\<rparr> in
                if \<not> IsAbs (mt_Source mnt2) then mnt2\<lparr>mt_Source := PathJoin cwd (sm_Source m)\<rparr> else mnt2)
             else mnt1)
      in if IndexByte (mt_Source mnt) nul \<noteq> None \<or> IndexByte (mt_Destination mnt) nul \<noteq> None \<or>
            IndexByte (mt_Device mnt) nul \<noteq> None
         then None else Some mnt)"

subsection \<open>What the options mean\<close>

text \<open>The effect of an option on the mount flags.\<close>

definition flagEffect :: "string \<Rightarrow> u64 \<Rightarrow> u64" where
  "flagEffect opt flags = (case optionKind opt of MountFlag f \<Rightarrow> applyFlag f flags | _ \<Rightarrow> flags)"

lemma parse_flags: "mt_Flags (parseMountOptions opts) = fold flagEffect opts 0"
proof -
  have "mt_Flags (ms_mount (fold optionStep opts st)) = fold flagEffect opts (mt_Flags (ms_mount st))" for st
    by (induction opts arbitrary: st)
       (auto simp: optionStep_def flagEffect_def split: optKind.splits prod.splits)
  then show ?thesis by (simp add: parseMountOptions_def Let_def emptyMount_def)
qed

lemma parse_data: "mt_Data (parseMountOptions opts) = Join '','' (filter (\<lambda>q. optionKind q = DataValue) opts)"
proof -
  have "ms_data (fold optionStep opts st) = ms_data st @ filter (\<lambda>q. optionKind q = DataValue) opts" for st
    by (induction opts arbitrary: st) (auto simp: optionStep_def split: optKind.splits prod.splits)
  then show ?thesis by (simp add: parseMountOptions_def Let_def)
qed

lemma flag_untouched:
  assumes "\<forall>q \<in> set opts. case optionKind q of MountFlag g \<Rightarrow> snd g AND b = 0 | _ \<Rightarrow> True"
  shows "fold flagEffect opts x AND b = x AND b"
  using assms
proof (induction opts arbitrary: x)
  case Nil
  then show ?case by simp
next
  case (Cons p opts)
  have "flagEffect p x AND b = x AND b"
  proof (cases "optionKind p")
    case (MountFlag g)
    then have "snd g AND b = 0" using Cons.prems by simp
    then have "\<And>i. \<not> (bit (snd g) i \<and> bit b i)" by (metis bit_and_iff bit_0_eq bot_apply bot_bool_def)
    then show ?thesis using MountFlag
      by (intro bit_word_eqI) (auto simp: flagEffect_def applyFlag_def bit_simps)
  qed (auto simp: flagEffect_def)
  then show ?case using Cons by simp
qed

text \<open>Among the mount options that name a kernel flag the last one wins: an option that no later
  option overrides decides its flag, set or cleared; and the data string is made of exactly the
  options that name nothing, in order.\<close>

theorem mount_option_last_wins:
  assumes "optionKind opt = MountFlag (clear, flag)"
    and "\<forall>q \<in> set later. case optionKind q of MountFlag g \<Rightarrow> snd g AND flag = 0 | _ \<Rightarrow> True"
  shows "mt_Flags (parseMountOptions (earlier @ [opt] @ later)) AND flag = (if clear then 0 else flag) \<and>
    mt_Data (parseMountOptions (earlier @ [opt] @ later)) =
      Join '','' (filter (\<lambda>q. optionKind q = DataValue) (earlier @ later))"
proof -
  let ?x = "fold flagEffect earlier 0"
  have "mt_Flags (parseMountOptions (earlier @ [opt] @ later)) AND flag = flagEffect opt ?x AND flag"
    using flag_untouched [OF assms(2)] by (simp add: parse_flags)
  also have "\<dots> = (if clear then 0 else flag)"
    by (intro bit_word_eqI) (auto simp: flagEffect_def assms(1) applyFlag_def bit_simps)
  finally show ?thesis by (simp add: parse_data assms(1))
qed

lemma option_kinds:
  "optionKind ''ro'' = MountFlag (False, 1)" "optionKind ''rw'' = MountFlag (True, 1)"
  "optionKind ''nosuid'' = MountFlag (False, 2)" "optionKind ''size=1m'' = DataValue"
  "optionKind ''rro'' = RecAttr (False, 1)" "optionKind ''rrw'' = RecAttr (True, 1)"
  by (simp_all add: optionKind_def mountFlags_def ms_flags mountPropagationMapping_def recAttrFlags_def
      extensionFlags_def mount_attrs)

theorem mount_option_last_wins_witness:
  "mt_Flags (parseMountOptions [''ro'', ''rw'', ''nosuid'']) AND 1 = 0"
  using mount_option_last_wins [of "''rw''" True 1 "[''nosuid'']" "[''ro'']"] by (simp add: option_kinds)

text \<open>The option \<open>defaults\<close> is listed with no flag and therefore handed to the file system as data.\<close>

lemma defaults_is_data: "mt_Data (parseMountOptions [''defaults'']) = ''defaults''"
  by (simp add: parse_data optionKind_def mountFlags_def mountPropagationMapping_def)

text \<open>The recursive attributes do not follow that rule: once an option has set an attribute, it is
  in the set to be set whatever comes later, so that "rro,rrw" asks to set and to clear the
  read-only attribute.\<close>

theorem recursive_set_sticks:
  assumes "optionKind opt = RecAttr (False, flag)" and "flag \<noteq> 0"
  shows "\<exists>a. mt_RecAttr (parseMountOptions (earlier @ [opt] @ later)) = Some a \<and> Attr_set a AND flag = flag"
proof -
  have mono: "ms_set st AND flag = flag \<Longrightarrow> ms_set (fold optionStep qs st) AND flag = flag" for qs st
  proof (induction qs arbitrary: st)
    case (Cons p qs)
    have "ms_set (optionStep p st) AND flag = flag"
    proof -
      have "(a OR b) AND flag = flag" if "a AND flag = flag" for a b :: u64
        using that by (auto simp: bit_eq_iff bit_simps)
      then show ?thesis using Cons.prems by (auto simp: optionStep_def split: optKind.splits prod.splits)
    qed
    then show ?case using Cons.IH by simp
  qed simp
  let ?i = "\<lparr>ms_data = [], ms_mount = emptyMount, ms_set = 0, ms_clr = 0\<rparr>"
  have "ms_set (optionStep opt (fold optionStep earlier ?i)) AND flag = flag"
    by (auto simp: optionStep_def assms(1) bit_eq_iff bit_simps)
  from mono [OF this, of later]
  have s: "ms_set (fold optionStep (earlier @ [opt] @ later) ?i) AND flag = flag" by simp
  then have "ms_set (fold optionStep (earlier @ [opt] @ later) ?i) \<noteq> 0" using assms(2) by auto
  then show ?thesis using s by (simp add: parseMountOptions_def Let_def)
qed

theorem recursive_set_sticks_witness:
  "\<exists>a. mt_RecAttr (parseMountOptions [''rro'', ''rrw'']) = Some a \<and> Attr_set a AND 1 = 1"
  using recursive_set_sticks [of "''rro''" 1 "[]" "[''rrw'']"] by (simp add: option_kinds)

end
