(* ===== verification/ConfigProps.thy ===== *)
theory ConfigProps imports Configs begin

text \<open>
  What the configuration functions guarantee: the translation of ids by a user namespace, the clone
  flags, and hooks that survive being written and read as JSON.
\<close>

subsection \<open>Id mappings\<close>

text \<open>A mapping whose ranges lie in the non-negative 64-bit numbers.\<close>

definition wf_mapping :: "IDMapC \<Rightarrow> bool" where
  "wf_mapping m \<longleftrightarrow>
     0 \<le> sint (im_ContainerID m) \<and> 0 \<le> sint (im_HostID m) \<and> 0 < sint (im_Size m) \<and>
     sint (im_ContainerID m) + sint (im_Size m) < 2 ^ 63 \<and>
     sint (im_HostID m) + sint (im_Size m) < 2 ^ 63"

definition covers :: "IDMapC \<Rightarrow> int \<Rightarrow> bool" where
  "covers m i \<longleftrightarrow> sint (im_ContainerID m) \<le> i \<and> i < sint (im_ContainerID m) + sint (im_Size m)"

definition hostRange :: "IDMapC \<Rightarrow> int set" where
  "hostRange m = {sint (im_HostID m)..<sint (im_HostID m) + sint (im_Size m)}"

lemma sint_add_small:
  fixes a b :: i64
  assumes "- (2 ^ 63) \<le> sint a + sint b" and "sint a + sint b < 2 ^ 63"
  shows "sint (a + b) = sint a + sint b"
  using assms by (simp add: sint_word_ariths signed_take_bit_int_eq_self)

lemma sint_diff_small:
  fixes a b :: i64
  assumes "- (2 ^ 63) \<le> sint a - sint b" and "sint a - sint b < 2 ^ 63"
  shows "sint (a - b) = sint a - sint b"
  using assms by (simp add: sint_word_ariths signed_take_bit_int_eq_self)

lemma mapping_last:
  assumes "wf_mapping m"
  shows "sint (im_ContainerID m + im_Size m - 1) = sint (im_ContainerID m) + sint (im_Size m) - 1"
proof -
  have "sint (im_ContainerID m + im_Size m) = sint (im_ContainerID m) + sint (im_Size m)"
    using assms by (intro sint_add_small) (auto simp: wf_mapping_def)
  then show ?thesis
    using assms sint_diff_small [of "im_ContainerID m + im_Size m" 1] by (auto simp: wf_mapping_def)
qed

lemma mapping_host:
  assumes "wf_mapping m" and "covers m (sint c)"
  shows "sint (im_HostID m + (c - im_ContainerID m)) = sint (im_HostID m) + sint c - sint (im_ContainerID m)"
proof -
  have "sint (c - im_ContainerID m) = sint c - sint (im_ContainerID m)"
    using assms by (intro sint_diff_small) (auto simp: wf_mapping_def covers_def)
  then show ?thesis
    using assms sint_add_small [of "im_HostID m" "c - im_ContainerID m"] by (auto simp: wf_mapping_def covers_def)
qed

lemma hostIDFromMapping_spec:
  assumes "\<forall>m \<in> set ms. wf_mapping m"
  shows "hostIDFromMapping c ms =
    (case find (\<lambda>m. covers m (sint c)) ms of
       None \<Rightarrow> (-1, False)
     | Some m \<Rightarrow> (im_HostID m + (c - im_ContainerID m), True))"
  using assms
proof (induction ms)
  case Nil
  then show ?case by simp
next
  case (Cons m ms)
  then have "sint c \<le> sint (im_ContainerID m + im_Size m - 1) \<longleftrightarrow> sint c < sint (im_ContainerID m) + sint (im_Size m)"
    using mapping_last [of m] by auto
  then show ?case using Cons by (simp add: covers_def)
qed

lemma hostID_source:
  assumes "ns_Contains nss NEWUSER" and "\<forall>m \<in> set ms. wf_mapping m" and "hostID nss (Some ms) c = Inr h"
  shows "\<exists>m \<in> set ms. covers m (sint c) \<and> sint h = sint (im_HostID m) + (sint c - sint (im_ContainerID m))"
proof -
  obtain m where m: "find (\<lambda>m. covers m (sint c)) ms = Some m" "h = im_HostID m + (c - im_ContainerID m)"
    using assms(1,3) hostIDFromMapping_spec [OF assms(2), of c]
    by (auto simp: hostID_def split: option.splits if_splits)
  then have "m \<in> set ms" "covers m (sint c)" using find_Some_mem [OF m(1)] by auto
  then show ?thesis using m(2) mapping_host assms(2) by auto
qed

lemma hostID_found:
  assumes "ns_Contains nss NEWUSER" and "\<forall>m \<in> set ms. wf_mapping m"
  shows "(\<exists>h. hostID nss (Some ms) c = Inr h) \<longleftrightarrow> (\<exists>m \<in> set ms. covers m (sint c))"
proof (cases "find (\<lambda>m. covers m (sint c)) ms")
  case None
  then have "hostIDFromMapping c ms = (-1, False)" using hostIDFromMapping_spec [OF assms(2), of c] by simp
  moreover have "\<not> (\<exists>m \<in> set ms. covers m (sint c))" using None unfolding find_None_all by simp
  ultimately show ?thesis using assms(1) by (simp add: hostID_def)
next
  case (Some m)
  then have m: "m \<in> set ms" "covers m (sint c)" using find_Some_mem [OF Some] by auto
  have "sint (im_HostID m + (c - im_ContainerID m)) \<le> maxInt"
    using mapping_host [of m c] m assms(2) unfolding maxInt_def wf_mapping_def covers_def by fastforce
  then show ?thesis using assms(1) hostIDFromMapping_spec [OF assms(2), of c] Some m by (auto simp: hostID_def)
qed

subsection \<open>Clone flags\<close>

lemma cloneFlagsFrom_OR: "cloneFlagsFrom n flag = flag OR cloneFlagsFrom n 0"
proof (induction n arbitrary: flag)
  case Nil
  then show ?case by simp
next
  case (Cons v n)
  show ?case
    by (simp add: Cons [of "flag OR namespaceInfo (n_Type v)"] Cons [of "namespaceInfo (n_Type v)"] Cons [of flag] or.assoc)
qed

lemma namespaceInfo_disjoint: "namespaceInfo t AND namespaceInfo u \<noteq> 0 \<longleftrightarrow> t = u \<and> t \<in> set NamespaceTypes"
  by (cases t; cases u) (simp_all add: NamespaceTypes_def)

lemma AND_OR_zero: "(a :: u64) AND (b OR c) = 0 \<longleftrightarrow> a AND b = 0 \<and> a AND c = 0"
  by (auto simp: bit_eq_iff bit_simps)

subsection \<open>Hooks\<close>

lemma serialize_commands: "map CommandHook (serializeHooks hs) = filter (\<lambda>h. \<exists>c. h = CommandHook c) hs"
  by (induction hs rule: serializeHooks.induct) auto

lemma fold_hooks:
  "distinct (map fst state) \<Longrightarrow>
   fold (\<lambda>(n, cs) hooks. if cs = [] then hooks else hooks(n \<mapsto> map CommandHook cs)) state H n =
   (case map_of state n of
      None \<Rightarrow> H n | Some [] \<Rightarrow> H n | Some cs \<Rightarrow> Some (map CommandHook cs))"
proof (induction state arbitrary: H)
  case Nil
  then show ?case by simp
next
  case (Cons x state)
  obtain m cs where x: "x = (m, cs)" by (cases x)
  have "map_of state m = None" using Cons.prems by (simp add: x map_of_eq_None_iff)
  then show ?case using Cons by (auto simp: x split: option.splits list.splits)
qed

lemma hookNames_distinct: "distinct hookNames"
  by (simp add: hookNames_def)

subsection \<open>Properties\<close>

text \<open>C28. With a user namespace whose mappings have disjoint host ranges, two container ids are never
  translated to the same host id; ids are translated exactly when a mapping covers them, within
  the host range of that mapping.\<close>

theorem host_id_injective:
  assumes "ns_Contains (c_Namespaces c) NEWUSER" and "c_UidMappings c = Some ms"
    and "\<forall>m \<in> set ms. wf_mapping m"
    and "\<forall>m \<in> set ms. \<forall>k \<in> set ms. m \<noteq> k \<longrightarrow> hostRange m \<inter> hostRange k = {}"
  shows "(\<forall>a b h. HostUID c a = Inr h \<and> HostUID c b = Inr h \<longrightarrow> a = b) \<and>
    (\<forall>a. (\<exists>h. HostUID c a = Inr h) \<longleftrightarrow> (\<exists>m \<in> set ms. covers m (sint a))) \<and>
    (\<forall>a h. HostUID c a = Inr h \<longrightarrow> (\<exists>m \<in> set ms. covers m (sint a) \<and> sint h \<in> hostRange m))"
proof (intro conjI allI impI)
  note src = hostID_source [OF assms(1,3), folded HostUID_def [of c, unfolded assms(2)]]
  have u: "HostUID c a = hostID (c_Namespaces c) (Some ms) a" for a by (simp add: HostUID_def assms(2))
  have inr: "sint h \<in> hostRange m" if "covers m (sint a)" "sint h = sint (im_HostID m) + (sint a - sint (im_ContainerID m))" for a h m
    using that by (simp add: covers_def hostRange_def)
  fix a b h
  assume ab: "HostUID c a = Inr h \<and> HostUID c b = Inr h"
  obtain m where m: "m \<in> set ms" "covers m (sint a)" "sint h = sint (im_HostID m) + (sint a - sint (im_ContainerID m))"
    using hostID_source [OF assms(1,3)] ab unfolding u by blast
  obtain k where k: "k \<in> set ms" "covers k (sint b)" "sint h = sint (im_HostID k) + (sint b - sint (im_ContainerID k))"
    using hostID_source [OF assms(1,3)] ab unfolding u by blast
  have "m = k" using inr [OF m(2,3)] inr [OF k(2,3)] assms(4) m(1) k(1) by blast
  then have "sint a = sint b" using m k by simp
  then show "a = b" by (rule signed_word_eqI)
next
  fix a
  show "(\<exists>h. HostUID c a = Inr h) \<longleftrightarrow> (\<exists>m \<in> set ms. covers m (sint a))"
    using hostID_found [OF assms(1,3)] by (simp add: HostUID_def assms(2))
next
  fix a h
  assume "HostUID c a = Inr h"
  then obtain m where "m \<in> set ms" "covers m (sint a)" "sint h = sint (im_HostID m) + (sint a - sint (im_ContainerID m))"
    using hostID_source [OF assms(1,3)] by (auto simp: HostUID_def assms(2))
  then show "\<exists>m \<in> set ms. covers m (sint a) \<and> sint h \<in> hostRange m"
    by (auto simp: covers_def hostRange_def intro!: bexI [of _ m])
qed

definition exampleConfig :: Config where
  "exampleConfig =
     \<lparr>c_NoPivotRoot = False, c_ParentDeathSignal = 0, c_Rootfs = ''/rootfs'', c_Umask = None,
      c_Readonlyfs = False, c_RootPropagation = 0, c_Mounts = [], c_Devices = [], c_MountLabel = [],
      c_Hostname = [], c_Namespaces = [\<lparr>n_Type = NEWUSER, n_Path = []\<rparr>], c_Capabilities = None,
      c_Networks = [], c_Routes = [], c_Cgroups = None, c_AppArmorProfile = [], c_ProcessLabel = [],
      c_Rlimits = [], c_OomScoreAdj = None,
      c_UidMappings = Some [\<lparr>im_ContainerID = 0, im_HostID = 1000, im_Size = 10\<rparr>],
      c_GidMappings = Some [\<lparr>im_ContainerID = 0, im_HostID = 1000, im_Size = 10\<rparr>],
      c_MaskPaths = [], c_ReadonlyPaths = [], c_Sysctl = [], c_Seccomp = None,
      c_NoNewPrivileges = False, c_Hooks = Map.empty, c_Version = [], c_Labels = [],
      c_NoNewKeyring = False, c_IntelRdt = None, c_RootlessEUID = False, c_RootlessCgroups = False\<rparr>"

theorem host_id_injective_witness:
  "\<exists>h. HostUID exampleConfig 3 = Inr h"
proof -
  let ?m = "\<lparr>im_ContainerID = 0, im_HostID = 1000, im_Size = 10\<rparr> :: IDMapC"
  have "ns_Contains (c_Namespaces exampleConfig) NEWUSER"
    "c_UidMappings exampleConfig = Some [?m]"
    "\<forall>m \<in> set [?m]. wf_mapping m"
    "\<forall>m \<in> set [?m]. \<forall>k \<in> set [?m]. m \<noteq> k \<longrightarrow> hostRange m \<inter> hostRange k = {}"
    by (simp_all add: exampleConfig_def ns_Contains_def wf_mapping_def)
  from host_id_injective [OF this] show ?thesis by (simp add: covers_def)
qed

text \<open>The clone flags ask for exactly the namespaces that have to be created: the bit of a
  type is set if and only if a namespace of that type is listed without a path to join.\<close>

theorem clone_flags_exact:
  "CloneFlags n AND namespaceInfo t \<noteq> 0 \<longleftrightarrow>
   t \<in> set NamespaceTypes \<and> (\<exists>v \<in> set n. n_Type v = t \<and> n_Path v = [])"
proof -
  have "namespaceInfo t AND cloneFlagsFrom n 0 \<noteq> 0 \<longleftrightarrow>
    t \<in> set NamespaceTypes \<and> (\<exists>v \<in> set n. n_Type v = t \<and> n_Path v = [])"
  proof (induction n)
    case Nil
    then show ?case by simp
  next
    case (Cons v n)
    have "cloneFlagsFrom (v # n) 0 = (if n_Path v = [] then namespaceInfo (n_Type v) else 0) OR cloneFlagsFrom n 0"
      using cloneFlagsFrom_OR [of n "namespaceInfo (n_Type v)"] by simp
    then show ?case using Cons namespaceInfo_disjoint [of t "n_Type v"] by (auto simp: AND_OR_zero)
  qed
  then show ?thesis by (simp add: CloneFlags_def and.commute)
qed

text \<open>Hooks written as JSON and read back: every known hook list keeps its command hooks in order
  and loses its function hooks; lists without command hooks, and unknown hook names, disappear.\<close>

theorem hooks_json_roundtrip:
  assumes "\<And>x. unjson (json x) = Inr x"
  shows "\<exists>H. UnmarshalHooks unjson (MarshalHooks json hooks) = Inr H \<and>
    (\<forall>n. hooksAt H n = (if n \<in> set hookNames then filter (\<lambda>h. \<exists>c. h = CommandHook c) (hooksAt hooks n) else []))"
proof -
  let ?state = "map (\<lambda>n. (n, serializeHooks (hooksAt hooks n))) hookNames"
  let ?H = "fold (\<lambda>(n, cs) hooks. if cs = [] then hooks else hooks(n \<mapsto> map CommandHook cs)) ?state Map.empty"
  have d: "distinct (map fst ?state)" using hookNames_distinct by (simp add: comp_def)
  have "map_of ?state n = (if n \<in> set hookNames then Some (serializeHooks (hooksAt hooks n)) else None)" for n
    by (simp add: map_of_map_restrict restrict_map_def)
  then have "hooksAt ?H n = (if n \<in> set hookNames then map CommandHook (serializeHooks (hooksAt hooks n)) else [])" for n
    using fold_hooks [OF d, of Map.empty n] by (auto simp: hooksAt_def split: list.splits)
  then show ?thesis
    using assms by (auto simp: UnmarshalHooks_def MarshalHooks_def serialize_commands)
qed

definition exampleCommand :: Command where
  "exampleCommand = \<lparr>co_Path = ''/bin/true'', co_Args = [], co_Env = [], co_Dir = [], co_Timeout = None\<rparr>"

definition exampleHooks :: Hooks where
  "exampleHooks = [Prestart \<mapsto> [FuncHook ''f'', CommandHook exampleCommand]]"

theorem hooks_json_roundtrip_witness:
  "\<exists>H. UnmarshalHooks Inr (MarshalHooks (\<lambda>x. x) exampleHooks) = (Inr H :: unit + Hooks) \<and>
    hooksAt H Prestart = [CommandHook exampleCommand]"
proof -
  have "\<exists>H. UnmarshalHooks Inr (MarshalHooks (\<lambda>x. x) exampleHooks) = (Inr H :: unit + Hooks) \<and>
    (\<forall>n. hooksAt H n = (if n \<in> set hookNames then filter (\<lambda>h. \<exists>c. h = CommandHook c)
       (hooksAt exampleHooks n) else []))"
    by (rule hooks_json_roundtrip) simp
  then show ?thesis by (auto simp: hookNames_def hooksAt_def exampleHooks_def)
qed

end
