(* ===== verification/Specconv.thy ===== *)
theory Specconv imports MountOptions Cgutils ConfigProps begin

text \<open>
  From an OCI specification to a container configuration (specconv/spec_linux.go): the default
  devices, cgroup settings, user namespace, hooks and CreateLibcontainerConfig. Devices are
  objects of a store, because the default devices are shared by all configurations and the code
  writes to them. What the process environment and other packages answer is in the record
  \<open>env\<close>: the working directory, the parser of D-Bus values, the product of a double and 10^6, the
  mappings of an existing user namespace, and the version of the specification.
\<close>

subsection \<open>The specification\<close>

record SpecRoot =
  sr_Path :: string
  sr_Readonly :: bool

record SpecDevice =
  sd_Path :: string
  sd_Type :: string
  sd_Major :: int
  sd_Minor :: int
  sd_FileMode :: "u32 option"
  sd_UID :: "u32 option"
  sd_GID :: "u32 option"

record SpecDeviceCgroup =
  dc_Allow :: bool
  dc_Type :: string
  dc_Major :: "int option"
  dc_Minor :: "int option"
  dc_Access :: string

record SpecMemory =
  me_Limit :: "int option"
  me_Reservation :: "int option"
  me_Swap :: "int option"
  me_Kernel :: "int option"
  me_KernelTCP :: "int option"
  me_Swappiness :: "u64 option"
  me_DisableOOMKiller :: "bool option"

record SpecCPU =
  cp_Shares :: "u64 option"
  cp_Quota :: "int option"
  cp_Period :: "u64 option"
  cp_RealtimeRuntime :: "int option"
  cp_RealtimePeriod :: "u64 option"
  cp_Cpus :: string
  cp_Mems :: string

record SpecWeightDevice =
  sw_Major :: int
  sw_Minor :: int
  sw_Weight :: "u16 option"
  sw_LeafWeight :: "u16 option"

record SpecThrottleDevice =
  st_Major :: int
  st_Minor :: int
  st_Rate :: u64

record SpecBlockIO =
  bi_Weight :: "u16 option"
  bi_LeafWeight :: "u16 option"
  bi_WeightDevice :: "SpecWeightDevice list"
  bi_ThrottleReadBpsDevice :: "SpecThrottleDevice list"
  bi_ThrottleWriteBpsDevice :: "SpecThrottleDevice list"
  bi_ThrottleReadIOPSDevice :: "SpecThrottleDevice list"
  bi_ThrottleWriteIOPSDevice :: "SpecThrottleDevice list"

record SpecNetwork =
  sn_ClassID :: "u32 option"
  sn_Priorities :: "(string \<times> u32) list"

record SpecResources =
  re_Devices :: "SpecDeviceCgroup list"
  re_Memory :: "SpecMemory option"
  re_CPU :: "SpecCPU option"
  re_Pids :: "int option"
  re_BlockIO :: "SpecBlockIO option"
  re_HugepageLimits :: "HugepageLimit list"
  re_Rdma :: "(string \<times> LinuxRdma) list"
  re_Network :: "SpecNetwork option"
  re_Unified :: "(string \<times> string) list"

record SpecIDMapping =
  si_ContainerID :: u32
  si_HostID :: u32
  si_Size :: u32

record SpecLinux =
  li_UIDMappings :: "SpecIDMapping list"
  li_GIDMappings :: "SpecIDMapping list"
  li_Sysctl :: "(string \<times> string) list"
  li_Resources :: "SpecResources option"
  li_CgroupsPath :: string
  li_Namespaces :: "(string \<times> string) list"
  li_Devices :: "SpecDevice list"
  li_Seccomp :: "LinuxSeccomp option"
  li_RootfsPropagation :: string
  li_MaskedPaths :: "string list"
  li_ReadonlyPaths :: "string list"
  li_MountLabel :: string
  li_IntelRdt :: "IntelRdt option"

record SpecProcess =
  sp_UID :: u32
  sp_Umask :: "u32 option"
  sp_Capabilities :: "Capabilities option"
  sp_NoNewPrivileges :: bool
  sp_OOMScoreAdj :: "int option"
  sp_SelinuxLabel :: string

text \<open>A hook of the specification; its timeout is in seconds.\<close>

record SpecHook =
  ho_Path :: string
  ho_Args :: "string list"
  ho_Env :: "string list"
  ho_Timeout :: "i64 option"

record SpecHooks =
  hk_Prestart :: "SpecHook list"
  hk_CreateRuntime :: "SpecHook list"
  hk_CreateContainer :: "SpecHook list"
  hk_StartContainer :: "SpecHook list"
  hk_Poststart :: "SpecHook list"
  hk_Poststop :: "SpecHook list"

record Spec =
  s_Root :: "SpecRoot option"
  s_Mounts :: "SpecMount list"
  s_Hostname :: string
  s_Annotations :: "(string \<times> string) list"
  s_Process :: "SpecProcess option"
  s_Linux :: "SpecLinux option"
  s_Hooks :: "SpecHooks option"

record CreateOpts =
  o_CgroupName :: string
  o_UseSystemdCgroup :: bool
  o_NoPivotRoot :: bool
  o_NoNewKeyring :: bool
  o_Spec :: Spec
  o_RootlessEUID :: bool
  o_RootlessCgroups :: bool

datatype spec_error =
    GetwdError string
  | RootRequired
  | NullByte SpecMount
  | BadDeviceType string
  | BadCgroupDeviceType string
  | AccessEmpty nat
  | BadPropertyName string string
  | BadPropertyValue string string string
  | NotANumber string string
  | IndexOutOfRange
  | BadCgroupsPath string
  | BadPropagation string
  | UnsafePropagation
  | UnknownNamespace string
  | DuplicateNamespace string
  | UsernsError string
  | MappingMismatch
  | IdError id_error
  | SeccompErr seccomp_error

record env =
  ev_Getwd :: "string + string"
  ev_ParseVariant :: "string \<Rightarrow> string + Variant"
  ev_MulMillion :: "u64 \<Rightarrow> u64"
  ev_UserNamespaceMappings :: "string \<Rightarrow> string + (IDMapC list option \<times> IDMapC list option)"
  ev_SpecVersion :: string

subsection \<open>Default devices\<close>

text \<open>The store of device objects; an address is an index.\<close>

type_synonym store = "Device list"

definition mkDevice :: "string \<Rightarrow> u32 \<Rightarrow> DevType \<Rightarrow> int \<Rightarrow> int \<Rightarrow> Permissions \<Rightarrow> Device" where
  "mkDevice path mode t mj mn perms =
     \<lparr>r_Type = t, r_Major = mj, r_Minor = mn, r_Permissions = perms, r_Allow = True,
      d_Path = path, d_FileMode = mode, d_Uid = 0, d_Gid = 0\<rparr>"

definition initialDevices :: store where
  "initialDevices =
     [mkDevice [] 0 CharDevice Wildcard Wildcard ''m'',
      mkDevice [] 0 BlockDevice Wildcard Wildcard ''m'',
      mkDevice ''/dev/null'' 0x1B6 CharDevice 1 3 ''rwm'',
      mkDevice ''/dev/random'' 0x1B6 CharDevice 1 8 ''rwm'',
      mkDevice ''/dev/full'' 0x1B6 CharDevice 1 7 ''rwm'',
      mkDevice ''/dev/tty'' 0x1B6 CharDevice 5 0 ''rwm'',
      mkDevice ''/dev/zero'' 0x1B6 CharDevice 1 5 ''rwm'',
      mkDevice ''/dev/urandom'' 0x1B6 CharDevice 1 9 ''rwm'',
      mkDevice [] 0 CharDevice 136 Wildcard ''rwm'',
      mkDevice [] 0 CharDevice 5 2 ''rwm'',
      mkDevice [] 0 CharDevice 10 200 ''rwm'']"

text \<open>\<open>AllowedDevices\<close>: the first eleven objects of the store.\<close>

definition AllowedDevices :: "nat list" where
  "AllowedDevices = [0..<11]"

definition stringToCgroupDeviceRune :: "string \<Rightarrow> spec_error + DevType" where
  "stringToCgroupDeviceRune s =
     (if s = ''a'' then Inr WildcardDevice
      else if s = ''b'' then Inr BlockDevice
      else if s = ''c'' then Inr CharDevice
      else Inl (BadCgroupDeviceType s))"

definition stringToDeviceRune :: "string \<Rightarrow> spec_error + DevType" where
  "stringToDeviceRune s =
     (if s = ''p'' then Inr FifoDevice
      else if s = ''u'' \<or> s = ''c'' then Inr CharDevice
      else if s = ''b'' then Inr BlockDevice
      else Inl (BadDeviceType s))"

definition specDevices :: "Spec \<Rightarrow> SpecDevice list" where
  "specDevices spec = (case s_Linux spec of None \<Rightarrow> [] | Some li \<Rightarrow> li_Devices li)"

definition S_IFMT :: u32 where "S_IFMT = 0xF000"

definition specDevice :: "SpecDevice \<Rightarrow> spec_error + Device" where
  "specDevice d =
     andThen (stringToDeviceRune (sd_Type d)) (\<lambda>dt.
       Inr \<lparr>r_Type = dt, r_Major = sd_Major d, r_Minor = sd_Minor d, r_Permissions = [], r_Allow = False,
            d_Path = sd_Path d,
            d_FileMode = (case sd_FileMode d of None \<Rightarrow> 0x1B6 | Some m \<Rightarrow> m AND NOT S_IFMT),
            d_Uid = (case sd_UID d of None \<Rightarrow> 0 | Some u \<Rightarrow> u),
            d_Gid = (case sd_GID d of None \<Rightarrow> 0 | Some g \<Rightarrow> g)\<rparr>)"

text \<open>
  The addresses of the default devices that are kept, those of the configuration's devices, and
  the store with the devices of the specification added.
\<close>

definition createDevices :: "Spec \<Rightarrow> store \<Rightarrow> spec_error + (nat list \<times> nat list \<times> store)" where
  "createDevices spec h =
     (let deduped = filter (\<lambda>a. \<not> (d_Path (h ! a) \<noteq> [] \<and>
                       (\<exists>sd \<in> set (specDevices spec). sd_Path sd = d_Path (h ! a)))) AllowedDevices;
          kept = filter (\<lambda>a. d_Path (h ! a) \<noteq> []) deduped
      in andThen (mapRes specDevice (specDevices spec)) (\<lambda>devs.
           Inr (deduped, kept @ [length h..<length h + length devs], h @ devs)))"

subsection \<open>Systemd properties\<close>

definition checkPropertyName :: "string \<Rightarrow> bool" where
  "checkPropertyName s \<longleftrightarrow>
     3 \<le> length s \<and>
     (\<forall>ch \<in> set s. (CHR ''A'' \<le> ch \<and> ch \<le> CHR ''Z'') \<or> (CHR ''a'' \<le> ch \<and> ch \<le> CHR ''z''))"

text \<open>Conversions to \<open>uint64\<close> sign-extend signed values; products wrap.\<close>

definition convertSecToUSec :: "env \<Rightarrow> Variant \<Rightarrow> Variant option" where
  "convertSecToUSec ev value =
     (case value of
        VByte b \<Rightarrow> Some (VUint64 (ucast b * 1000000))
      | VInt16 n \<Rightarrow> Some (VUint64 (scast n * 1000000))
      | VUint16 q \<Rightarrow> Some (VUint64 (ucast q * 1000000))
      | VInt32 i \<Rightarrow> Some (VUint64 (scast i * 1000000))
      | VUint32 u \<Rightarrow> Some (VUint64 (ucast u * 1000000))
      | VInt64 x \<Rightarrow> Some (VUint64 (x * 1000000))
      | VUint64 t \<Rightarrow> Some (VUint64 (t * 1000000))
      | VDouble d \<Rightarrow> Some (VUint64 (ev_MulMillion ev d))
      | VOther _ \<Rightarrow> None)"

definition keyPrefix :: string where "keyPrefix = ''org.systemd.property.''"

definition isLower :: "char \<Rightarrow> bool" where
  "isLower ch \<longleftrightarrow> CHR ''a'' \<le> ch \<and> ch \<le> CHR ''z''"

text \<open>One turn of the loop over the annotations.\<close>

definition systemdProp :: "env \<Rightarrow> string \<times> string \<Rightarrow> Property list \<Rightarrow> spec_error + Property list" where
  "systemdProp ev kv sp =
     (let k = fst kv; v = snd kv; name = TrimPrefix k keyPrefix in
      if length name = length k then Inr sp
      else if \<not> checkPropertyName name then Inl (BadPropertyName k name)
      else
        (case ev_ParseVariant ev v of
           Inl err \<Rightarrow> Inl (BadPropertyValue k v err)
         | Inr value \<Rightarrow>
             (let trimName = TrimSuffix name ''Sec'' in
              if length trimName < length name then
                (if trimName = [] then Inl IndexOutOfRange
                 else if isLower (last trimName) then
                   (case convertSecToUSec ev value of
                      None \<Rightarrow> Inl (NotANumber k v)
                    | Some value' \<Rightarrow> Inr (sp @ [\<lparr>pr_Name = trimName @ ''USec'', pr_Value = value'\<rparr>]))
                 else Inr (sp @ [\<lparr>pr_Name = name, pr_Value = value\<rparr>]))
              else Inr (sp @ [\<lparr>pr_Name = name, pr_Value = value\<rparr>]))))"

definition initSystemdProps :: "env \<Rightarrow> Spec \<Rightarrow> spec_error + Property list" where
  "initSystemdProps ev spec = foldRes (systemdProp ev) (s_Annotations spec) []"

subsection \<open>CreateCgroupConfig\<close>

text \<open>The path settings of the cgroup, for systemd (slice:prefix:name) and for cgroupfs.\<close>

definition cgroupPlace :: "bool \<Rightarrow> string \<Rightarrow> string \<Rightarrow> Cgroup \<Rightarrow> spec_error + Cgroup" where
  "cgroupPlace useSystemd name myCgroupPath c =
     (if useSystemd then
        (if myCgroupPath = [] then Inr (c\<lparr>cg_ScopePrefix := ''runc'', cg_Name := name\<rparr>)
         else
           (case Split (CHR '':'') myCgroupPath of
              [p0, p1, p2] \<Rightarrow> Inr (c\<lparr>cg_Parent := p0, cg_ScopePrefix := p1, cg_Name := p2\<rparr>)
            | _ \<Rightarrow> Inl (BadCgroupsPath myCgroupPath)))
      else
        Inr ((if myCgroupPath = [] then c\<lparr>cg_Name := name\<rparr> else c)\<lparr>cg_Path := myCgroupPath\<rparr>))"

definition cgroupDevice :: "nat \<times> SpecDeviceCgroup \<Rightarrow> spec_error + Rule" where
  "cgroupDevice idv =
     (let i = fst idv; d = snd idv;
          t = (if dc_Type d \<noteq> [] then dc_Type d else ''a'');
          mj = (case dc_Major d of None \<Rightarrow> -1 | Some x \<Rightarrow> x);
          mn = (case dc_Minor d of None \<Rightarrow> -1 | Some x \<Rightarrow> x)
      in if dc_Access d = [] then Inl (AccessEmpty i)
         else
           andThen (stringToCgroupDeviceRune t) (\<lambda>dt.
             Inr \<lparr>r_Type = dt, r_Major = mj, r_Minor = mn, r_Permissions = dc_Access d, r_Allow = dc_Allow d\<rparr>))"

definition resourcesMemory :: "SpecMemory \<Rightarrow> Resources \<Rightarrow> Resources" where
  "resourcesMemory m r =
     (let r1 = (case me_Limit m of None \<Rightarrow> r | Some x \<Rightarrow> r\<lparr>rs_Memory := x\<rparr>);
          r2 = (case me_Reservation m of None \<Rightarrow> r1 | Some x \<Rightarrow> r1\<lparr>rs_MemoryReservation := x\<rparr>);
          r3 = (case me_Swap m of None \<Rightarrow> r2 | Some x \<Rightarrow> r2\<lparr>rs_MemorySwap := x\<rparr>);
          r4 = (case me_Swappiness m of None \<Rightarrow> r3 | Some x \<Rightarrow> r3\<lparr>rs_MemorySwappiness := Some x\<rparr>)
      in case me_DisableOOMKiller m of None \<Rightarrow> r4 | Some x \<Rightarrow> r4\<lparr>rs_OomKillDisable := x\<rparr>)"

definition setCPU :: "SpecCPU \<Rightarrow> Resources \<Rightarrow> Resources" where
  "setCPU c r =
     (let r1 = (case cp_Shares c of None \<Rightarrow> r
                | Some x \<Rightarrow> r\<lparr>rs_CpuShares := x, rs_CpuWeight := ConvertCPUSharesToCgroupV2Value x\<rparr>);
          r2 = (case cp_Quota c of None \<Rightarrow> r1 | Some x \<Rightarrow> r1\<lparr>rs_CpuQuota := x\<rparr>);
          r3 = (case cp_Period c of None \<Rightarrow> r2 | Some x \<Rightarrow> r2\<lparr>rs_CpuPeriod := x\<rparr>);
          r4 = (case cp_RealtimeRuntime c of None \<Rightarrow> r3 | Some x \<Rightarrow> r3\<lparr>rs_CpuRtRuntime := x\<rparr>);
          r5 = (case cp_RealtimePeriod c of None \<Rightarrow> r4 | Some x \<Rightarrow> r4\<lparr>rs_CpuRtPeriod := x\<rparr>)
      in r5\<lparr>rs_CpusetCpus := cp_Cpus c, rs_CpusetMems := cp_Mems c\<rparr>)"

definition weightDevice :: "SpecWeightDevice \<Rightarrow> WeightDevice" where
  "weightDevice wd =
     NewWeightDevice (sw_Major wd) (sw_Minor wd)
       (case sw_Weight wd of None \<Rightarrow> 0 | Some x \<Rightarrow> x) (case sw_LeafWeight wd of None \<Rightarrow> 0 | Some x \<Rightarrow> x)"

definition throttleDevice :: "SpecThrottleDevice \<Rightarrow> ThrottleDevice" where
  "throttleDevice td = NewThrottleDevice (st_Major td) (st_Minor td) (st_Rate td)"

definition setBlockIO :: "SpecBlockIO \<Rightarrow> Resources \<Rightarrow> Resources" where
  "setBlockIO b r =
     (let r1 = (case bi_Weight b of None \<Rightarrow> r | Some x \<Rightarrow> r\<lparr>rs_BlkioWeight := x\<rparr>);
          r2 = (case bi_LeafWeight b of None \<Rightarrow> r1 | Some x \<Rightarrow> r1\<lparr>rs_BlkioLeafWeight := x\<rparr>)
      in r2\<lparr>rs_BlkioWeightDevice := rs_BlkioWeightDevice r2 @ map weightDevice (bi_WeightDevice b),
            rs_BlkioThrottleReadBpsDevice :=
              rs_BlkioThrottleReadBpsDevice r2 @ map throttleDevice (bi_ThrottleReadBpsDevice b),
            rs_BlkioThrottleWriteBpsDevice :=
              rs_BlkioThrottleWriteBpsDevice r2 @ map throttleDevice (bi_ThrottleWriteBpsDevice b),
            rs_BlkioThrottleReadIOPSDevice :=
              rs_BlkioThrottleReadIOPSDevice r2 @ map throttleDevice (bi_ThrottleReadIOPSDevice b),
            rs_BlkioThrottleWriteIOPSDevice :=
              rs_BlkioThrottleWriteIOPSDevice r2 @ map throttleDevice (bi_ThrottleWriteIOPSDevice b)\<rparr>)"

definition setNetwork :: "SpecNetwork \<Rightarrow> Resources \<Rightarrow> Resources" where
  "setNetwork n r =
     (let r1 = (case sn_ClassID n of None \<Rightarrow> r | Some x \<Rightarrow> r\<lparr>rs_NetClsClassid := x\<rparr>)
      in r1\<lparr>rs_NetPrioIfpriomap := rs_NetPrioIfpriomap r1 @
              map (\<lambda>(nm, p). \<lparr>ip_Interface = nm, ip_Priority = uint p\<rparr>) (sn_Priorities n)\<rparr>)"

definition setResources :: "SpecResources \<Rightarrow> Resources \<Rightarrow> spec_error + Resources" where
  "setResources r c =
     andThen (mapRes cgroupDevice (enumerate 0 (re_Devices r))) (\<lambda>devs.
       let c0 = c\<lparr>rs_Devices := rs_Devices c @ devs\<rparr>;
           c1 = (case re_Memory r of None \<Rightarrow> c0 | Some m \<Rightarrow> resourcesMemory m c0);
           c2 = (case re_CPU r of None \<Rightarrow> c1 | Some m \<Rightarrow> setCPU m c1);
           c3 = (case re_Pids r of None \<Rightarrow> c2 | Some l \<Rightarrow> c2\<lparr>rs_PidsLimit := l\<rparr>);
           c4 = (case re_BlockIO r of None \<Rightarrow> c3 | Some b \<Rightarrow> setBlockIO b c3);
           c5 = c4\<lparr>rs_HugetlbLimit := rs_HugetlbLimit c4 @ re_HugepageLimits r\<rparr>;
           c6 = (if re_Rdma r \<noteq> [] then c5\<lparr>rs_Rdma := map_of (re_Rdma r)\<rparr> else c5);
           c7 = (case re_Network r of None \<Rightarrow> c6 | Some n \<Rightarrow> setNetwork n c6);
           c8 = (if re_Unified r \<noteq> [] then c7\<lparr>rs_Unified := Some (map_of (re_Unified r))\<rparr> else c7)
       in Inr c8)"

text \<open>The rule part of a device; nothing writes to the rules of the default devices.\<close>

definition deviceRuleOf :: "store \<Rightarrow> nat \<Rightarrow> Rule" where
  "deviceRuleOf h a = Rule.truncate (h ! a)"

definition emptyCgroup :: Cgroup where
  "emptyCgroup =
     \<lparr>cg_Name = [], cg_Parent = [], cg_Path = [], cg_ScopePrefix = [], cg_Resources = Some emptyResources,
      cg_Systemd = False, cg_SystemdProps = [], cg_Rootless = False, cg_OwnerUID = None\<rparr>"

definition CreateCgroupConfig :: "env \<Rightarrow> CreateOpts \<Rightarrow> nat list \<Rightarrow> store \<Rightarrow> spec_error + Cgroup" where
  "CreateCgroupConfig ev opts defaultDevs h =
     (let spec = o_Spec opts; useSystemd = o_UseSystemdCgroup opts; name = o_CgroupName opts;
          c0 = emptyCgroup\<lparr>cg_Systemd := useSystemd, cg_Rootless := o_RootlessCgroups opts\<rparr>;
          props = (if useSystemd then initSystemdProps ev spec else Inr []);
          myCgroupPath =
            (case s_Linux spec of
               None \<Rightarrow> []
             | Some li \<Rightarrow>
                 if li_CgroupsPath li \<noteq> [] then
                   (if useSystemd then li_CgroupsPath li else CleanPath (li_CgroupsPath li))
                 else [])
      in andThen props (\<lambda>sp.
         andThen (cgroupPlace useSystemd name myCgroupPath (c0\<lparr>cg_SystemdProps := sp\<rparr>)) (\<lambda>c1.
         andThen (case s_Linux spec of
                    None \<Rightarrow> Inr emptyResources
                  | Some li \<Rightarrow>
                      (case li_Resources li of
                         None \<Rightarrow> Inr emptyResources
                       | Some r \<Rightarrow> setResources r emptyResources)) (\<lambda>res.
           Inr (c1\<lparr>cg_Resources :=
                  Some (res\<lparr>rs_Devices := rs_Devices res @ map (deviceRuleOf h) defaultDevs\<rparr>)\<rparr>)))))"

subsection \<open>User namespace\<close>

text \<open>\<open>userns.IsSameMapping\<close> (userns/userns_maps_linux.go); a nil slice has length 0.\<close>

fun IsSameMapping :: "IDMapC list \<Rightarrow> IDMapC list \<Rightarrow> bool" where
  "IsSameMapping [] [] = True"
| "IsSameMapping (a # as) (b # bs) = (a = b \<and> IsSameMapping as bs)"
| "IsSameMapping _ _ = False"

definition createIDMap :: "SpecIDMapping \<Rightarrow> IDMapC" where
  "createIDMap m =
     \<lparr>im_ContainerID = ucast (si_ContainerID m), im_HostID = ucast (si_HostID m), im_Size = ucast (si_Size m)\<rparr>"

text \<open>Appending to a slice that may be nil: it stays nil when nothing is appended.\<close>

definition appendSlice :: "'a list option \<Rightarrow> 'a list \<Rightarrow> 'a list option" where
  "appendSlice s xs = (if xs = [] then s else Some (case s of None \<Rightarrow> xs | Some ys \<Rightarrow> ys @ xs))"

definition sliceOf :: "'a list option \<Rightarrow> 'a list" where
  "sliceOf s = (case s of None \<Rightarrow> [] | Some xs \<Rightarrow> xs)"

definition specMappings :: "Spec \<Rightarrow> Config \<Rightarrow> Config" where
  "specMappings spec c =
     (case s_Linux spec of
        None \<Rightarrow> c
      | Some li \<Rightarrow>
          c\<lparr>c_UidMappings := appendSlice (c_UidMappings c) (map createIDMap (li_UIDMappings li)),
            c_GidMappings := appendSlice (c_GidMappings c) (map createIDMap (li_GIDMappings li))\<rparr>)"

definition cacheMappings :: "env \<Rightarrow> Config \<Rightarrow> spec_error + Config" where
  "cacheMappings ev c =
     (let path = PathOf (c_Namespaces c) NEWUSER in
      if path \<noteq> [] then
        (case ev_UserNamespaceMappings ev path of
           Inl err \<Rightarrow> Inl (UsernsError err)
         | Inr (uidMap, gidMap) \<Rightarrow>
             if (c_UidMappings c \<noteq> None \<or> c_GidMappings c \<noteq> None) \<and>
                (\<not> IsSameMapping (sliceOf uidMap) (sliceOf (c_UidMappings c)) \<or>
                 \<not> IsSameMapping (sliceOf gidMap) (sliceOf (c_GidMappings c)))
             then Inl MappingMismatch
             else Inr (c\<lparr>c_UidMappings := uidMap, c_GidMappings := gidMap\<rparr>))
      else Inr c)"

definition liftId :: "id_error + 'a \<Rightarrow> spec_error + 'a" where
  "liftId r = (case r of Inl e \<Rightarrow> Inl (IdError e) | Inr x \<Rightarrow> Inr x)"

text \<open>The loop over the devices of the configuration writes to the store.\<close>

definition chownDevice :: "i64 \<Rightarrow> i64 \<Rightarrow> nat \<Rightarrow> store \<Rightarrow> store" where
  "chownDevice rootUID rootGID a h = h[a := (h ! a)\<lparr>d_Uid := ucast rootUID, d_Gid := ucast rootGID\<rparr>]"

definition setupUserNamespace :: "env \<Rightarrow> Spec \<Rightarrow> Config \<Rightarrow> store \<Rightarrow> spec_error + (Config \<times> store)" where
  "setupUserNamespace ev spec c h =
     andThen (cacheMappings ev (specMappings spec c)) (\<lambda>c1.
     andThen (liftId (HostRootUID c1)) (\<lambda>rootUID.
     andThen (liftId (HostRootGID c1)) (\<lambda>rootGID.
       Inr (c1, fold (chownDevice rootUID rootGID) (c_Devices c1) h))))"

subsection \<open>Hooks\<close>

definition createCommandHook :: "SpecHook \<Rightarrow> Command" where
  "createCommandHook h =
     \<lparr>co_Path = ho_Path h, co_Args = ho_Args h, co_Env = ho_Env h, co_Dir = [],
      co_Timeout = map_option (\<lambda>t. t * 1000000000) (ho_Timeout h)\<rparr>"

definition appendHooks :: "HookName \<Rightarrow> SpecHook list \<Rightarrow> Hooks \<Rightarrow> Hooks" where
  "appendHooks n hs hooks =
     fold (\<lambda>h hk. hk(n \<mapsto> hooksAt hk n @ [CommandHook (createCommandHook h)])) hs hooks"

definition createHooks :: "Spec \<Rightarrow> Hooks" where
  "createHooks rspec =
     (case s_Hooks rspec of
        None \<Rightarrow> Map.empty
      | Some hk \<Rightarrow>
          appendHooks Poststop (hk_Poststop hk)
            (appendHooks Poststart (hk_Poststart hk)
              (appendHooks StartContainer (hk_StartContainer hk)
                (appendHooks CreateContainer (hk_CreateContainer hk)
                  (appendHooks CreateRuntime (hk_CreateRuntime hk)
                    (appendHooks Prestart (hk_Prestart hk) Map.empty))))))"

subsection \<open>CreateLibcontainerConfig\<close>

definition emptyConfig :: Config where
  "emptyConfig =
     \<lparr>c_NoPivotRoot = False, c_ParentDeathSignal = 0, c_Rootfs = [], c_Umask = None,
      c_Readonlyfs = False, c_RootPropagation = 0, c_Mounts = [], c_Devices = [], c_MountLabel = [],
      c_Hostname = [], c_Namespaces = [], c_Capabilities = None, c_Networks = [], c_Routes = [],
      c_Cgroups = None, c_AppArmorProfile = [], c_ProcessLabel = [], c_Rlimits = [],
      c_OomScoreAdj = None, c_UidMappings = None, c_GidMappings = None, c_MaskPaths = [],
      c_ReadonlyPaths = [], c_Sysctl = [], c_Seccomp = None, c_NoNewPrivileges = False,
      c_Hooks = Map.empty, c_Version = [], c_Labels = [], c_NoNewKeyring = False, c_IntelRdt = None,
      c_RootlessEUID = False, c_RootlessCgroups = False\<rparr>"

definition addNamespace :: "string \<times> string \<Rightarrow> Config \<Rightarrow> spec_error + Config" where
  "addNamespace ns c =
     (case map_of namespaceMapping (fst ns) of
        None \<Rightarrow> Inl (UnknownNamespace (fst ns))
      | Some t \<Rightarrow>
          if ns_Contains (c_Namespaces c) t then Inl (DuplicateNamespace (fst ns))
          else Inr (c\<lparr>c_Namespaces := ns_Add (c_Namespaces c) t (snd ns)\<rparr>))"

definition loopback :: Network where
  "loopback =
     \<lparr>nw_Type = ''loopback'', nw_Name = [], nw_Bridge = [], nw_MacAddress = [], nw_Address = [],
      nw_Gateway = [], nw_IPv6Address = [], nw_IPv6Gateway = [], nw_Mtu = 0, nw_TxQueueLen = 0,
      nw_HostInterfaceName = [], nw_HairpinMode = False\<rparr>"

definition addNetworks :: "Config \<Rightarrow> Config" where
  "addNetworks c =
     (if ns_Contains (c_Namespaces c) NEWNET \<and> PathOf (c_Namespaces c) NEWNET = []
      then c\<lparr>c_Networks := [loopback]\<rparr> else c)"

definition setPropagation :: "SpecLinux \<Rightarrow> Config \<Rightarrow> spec_error + Config" where
  "setPropagation li c =
     (case map_of mountPropagationMapping (li_RootfsPropagation li) of
        None \<Rightarrow> Inl (BadPropagation (li_RootfsPropagation li))
      | Some p \<Rightarrow>
          if c_NoPivotRoot c \<and> p AND MS_PRIVATE \<noteq> 0 then Inl UnsafePropagation
          else Inr (c\<lparr>c_RootPropagation := p\<rparr>))"

definition setSeccomp :: "SpecLinux \<Rightarrow> Config \<Rightarrow> spec_error + Config" where
  "setSeccomp li c =
     (if li_Seccomp li \<noteq> None then
        (case SetupSeccomp (li_Seccomp li) of
           Inl err \<Rightarrow> Inl (SeccompErr err)
         | Inr se \<Rightarrow> Inr (c\<lparr>c_Seccomp := se\<rparr>))
      else Inr c)"

definition linuxSection :: "env \<Rightarrow> Spec \<Rightarrow> SpecLinux \<Rightarrow> Config \<times> store \<Rightarrow> spec_error + (Config \<times> store)" where
  "linuxSection ev spec li ch =
     andThen (setPropagation li (fst ch)) (\<lambda>c1.
     andThen (foldRes addNamespace (li_Namespaces li) c1) (\<lambda>c2.
     let c3 = addNetworks c2 in
     andThen (if ns_Contains (c_Namespaces c3) NEWUSER
              then setupUserNamespace ev spec c3 (snd ch) else Inr (c3, snd ch)) (\<lambda>(c4, h4).
     let c5 = c4\<lparr>c_MaskPaths := li_MaskedPaths li, c_ReadonlyPaths := li_ReadonlyPaths li,
                c_MountLabel := li_MountLabel li, c_Sysctl := li_Sysctl li\<rparr> in
     andThen (setSeccomp li c5) (\<lambda>c6.
       Inr (case li_IntelRdt li of None \<Rightarrow> c6 | Some ir \<Rightarrow> c6\<lparr>c_IntelRdt := Some ir\<rparr>, h4)))))"

text \<open>Whether the container gets its own, writable cgroup file system.\<close>

definition hasRwCgroupfs :: "Config \<Rightarrow> bool" where
  "hasRwCgroupfs c \<longleftrightarrow>
     (\<exists>m \<in> set (c_Mounts c). mt_Source m = ''cgroup'' \<and> Clean (mt_Destination m) = ''/sys/fs/cgroup'' \<and>
        mt_Flags m AND MS_RDONLY = 0)"

definition setOwner :: "Spec \<Rightarrow> Config \<Rightarrow> Config" where
  "setOwner spec c =
     (let hasCgroupNS = ns_Contains (c_Namespaces c) NEWCGROUP \<and> PathOf (c_Namespaces c) NEWCGROUP = [];
          processUid = (case s_Process spec of None \<Rightarrow> 0 | Some pr \<Rightarrow> ucast (sp_UID pr))
      in if hasCgroupNS \<and> hasRwCgroupfs c then
           (case HostUID c processUid of
              Inl err \<Rightarrow> c
            | Inr ownerUid \<Rightarrow> c\<lparr>c_Cgroups := map_option (\<lambda>cg. cg\<lparr>cg_OwnerUID := Some ownerUid\<rparr>) (c_Cgroups c)\<rparr>)
         else c)"

definition setProcess :: "Spec \<Rightarrow> Config \<Rightarrow> Config" where
  "setProcess spec c =
     (case s_Process spec of
        None \<Rightarrow> c
      | Some pr \<Rightarrow>
          (let c1 = c\<lparr>c_OomScoreAdj := sp_OOMScoreAdj pr, c_NoNewPrivileges := sp_NoNewPrivileges pr,
                     c_Umask := sp_Umask pr, c_ProcessLabel := sp_SelinuxLabel pr\<rparr>
           in case sp_Capabilities pr of None \<Rightarrow> c1 | Some ca \<Rightarrow> c1\<lparr>c_Capabilities := Some ca\<rparr>))"

definition convertMount :: "string \<Rightarrow> SpecMount \<Rightarrow> spec_error + Mount" where
  "convertMount cwd m =
     (case createLibcontainerMount cwd m of None \<Rightarrow> Inl (NullByte m) | Some cm \<Rightarrow> Inr cm)"

definition specLabels :: "Spec \<Rightarrow> string list" where
  "specLabels spec = map (\<lambda>(k, v). k @ ''='' @ v) (s_Annotations spec)"

definition initialConfig :: "string \<Rightarrow> CreateOpts \<Rightarrow> SpecRoot \<Rightarrow> Config" where
  "initialConfig cwd opts root =
     emptyConfig\<lparr>
       c_Rootfs := (if IsAbs (sr_Path root) then sr_Path root else PathJoin cwd (sr_Path root)),
       c_NoPivotRoot := o_NoPivotRoot opts, c_Readonlyfs := sr_Readonly root,
       c_Hostname := s_Hostname (o_Spec opts),
       c_Labels := specLabels (o_Spec opts) @ [''bundle='' @ cwd],
       c_NoNewKeyring := o_NoNewKeyring opts, c_RootlessEUID := o_RootlessEUID opts,
       c_RootlessCgroups := o_RootlessCgroups opts\<rparr>"

text \<open>The configuration and the store after it.\<close>

definition CreateLibcontainerConfig :: "env \<Rightarrow> CreateOpts \<Rightarrow> store \<Rightarrow> spec_error + (Config \<times> store)" where
  "CreateLibcontainerConfig ev opts h =
     (case ev_Getwd ev of
        Inl err \<Rightarrow> Inl (GetwdError err)
      | Inr rcwd \<Rightarrow>
         (let cwd = Clean rcwd; spec = o_Spec opts in
          case s_Root spec of
            None \<Rightarrow> Inl RootRequired
          | Some root \<Rightarrow>
             andThen (mapRes (convertMount cwd) (s_Mounts spec)) (\<lambda>mounts.
             andThen (createDevices spec h) (\<lambda>(defaultDevs, devs, h1).
             andThen (CreateCgroupConfig ev opts defaultDevs h1) (\<lambda>cg.
             let c1 = (initialConfig cwd opts root)
                        \<lparr>c_Mounts := mounts, c_Devices := devs, c_Cgroups := Some cg\<rparr> in
             andThen (case s_Linux spec of None \<Rightarrow> Inr (c1, h1) | Some li \<Rightarrow> linuxSection ev spec li (c1, h1))
               (\<lambda>(c2, h2).
                 Inr ((setProcess spec (setOwner spec c2))
                        \<lparr>c_Hooks := createHooks spec, c_Version := ev_SpecVersion ev\<rparr>, h2)))))))"

end
