(* ===== verification/SpecconvProps.thy ===== *)
theory SpecconvProps imports Specconv begin

text \<open>
  What the conversion of a specification guarantees: where namespaces and labels of the
  configuration come from, that id mappings are well formed, which device objects it writes to, and
  an annotation that makes it panic.
\<close>

subsection \<open>Steps and the fields they keep\<close>

lemma setPropagation_keeps:
  "setPropagation li c = Inr c' \<Longrightarrow>
   c_Devices c' = c_Devices c \<and> c_Namespaces c' = c_Namespaces c \<and> c_Networks c' = c_Networks c \<and>
   c_UidMappings c' = c_UidMappings c \<and> c_GidMappings c' = c_GidMappings c"
  by (auto simp: setPropagation_def split: option.splits if_splits)

lemma addNamespace_keeps:
  "addNamespace ns c = Inr c' \<Longrightarrow>
   c_Devices c' = c_Devices c \<and> c_Networks c' = c_Networks c \<and>
   c_UidMappings c' = c_UidMappings c \<and> c_GidMappings c' = c_GidMappings c"
  by (auto simp: addNamespace_def split: option.splits if_splits)

lemma addNamespaces_keeps:
  "foldRes addNamespace nss c = Inr c' \<Longrightarrow>
   c_Devices c' = c_Devices c \<and> c_Networks c' = c_Networks c \<and>
   c_UidMappings c' = c_UidMappings c \<and> c_GidMappings c' = c_GidMappings c"
proof (induction nss arbitrary: c)
  case Nil
  then show ?case by simp
next
  case (Cons ns nss)
  then obtain c1 where c1: "addNamespace ns c = Inr c1" "foldRes addNamespace nss c1 = Inr c'"
    by (auto simp: andThen_Inr_iff)
  show ?case using Cons.IH [OF c1(2)] addNamespace_keeps [OF c1(1)] by simp
qed

lemma setSeccomp_keeps:
  "setSeccomp li c = Inr c' \<Longrightarrow>
   c_Devices c' = c_Devices c \<and> c_Namespaces c' = c_Namespaces c \<and> c_Networks c' = c_Networks c \<and>
   c_UidMappings c' = c_UidMappings c \<and> c_GidMappings c' = c_GidMappings c \<and> c_Labels c' = c_Labels c \<and>
   c_Routes c' = c_Routes c \<and> c_Cgroups c' = c_Cgroups c"
  by (auto simp: setSeccomp_def split: if_splits sum.splits)

lemma cacheMappings_keeps:
  "cacheMappings ev c = Inr c' \<Longrightarrow>
   c_Devices c' = c_Devices c \<and> c_Namespaces c' = c_Namespaces c \<and> c_Networks c' = c_Networks c"
  by (auto simp: cacheMappings_def Let_def split: if_splits sum.splits)

lemma specMappings_keeps:
  "c_Devices (specMappings spec c) = c_Devices c" "c_Namespaces (specMappings spec c) = c_Namespaces c"
  "c_Networks (specMappings spec c) = c_Networks c"
  by (simp_all add: specMappings_def split: option.splits)

lemma setOwner_keeps:
  "c_Devices (setOwner spec c) = c_Devices c" "c_Namespaces (setOwner spec c) = c_Namespaces c"
  "c_Networks (setOwner spec c) = c_Networks c" "c_UidMappings (setOwner spec c) = c_UidMappings c"
  "c_GidMappings (setOwner spec c) = c_GidMappings c" "c_Labels (setOwner spec c) = c_Labels c"
  by (auto simp: setOwner_def Let_def split: option.splits sum.splits)

lemma setProcess_keeps:
  "c_Devices (setProcess spec c) = c_Devices c" "c_Namespaces (setProcess spec c) = c_Namespaces c"
  "c_Networks (setProcess spec c) = c_Networks c" "c_UidMappings (setProcess spec c) = c_UidMappings c"
  "c_GidMappings (setProcess spec c) = c_GidMappings c" "c_Labels (setProcess spec c) = c_Labels c"
  by (auto simp: setProcess_def Let_def split: option.splits)

lemmas keeps = specMappings_keeps setOwner_keeps setProcess_keeps

lemma addNetworks_simps [simp]:
  "c_Devices (addNetworks c) = c_Devices c" "c_Namespaces (addNetworks c) = c_Namespaces c"
  "c_UidMappings (addNetworks c) = c_UidMappings c" "c_GidMappings (addNetworks c) = c_GidMappings c"
  by (simp_all add: addNetworks_def)

subsection \<open>The parts of a conversion\<close>

lemma CreateLibcontainerConfig_Inr:
  assumes "CreateLibcontainerConfig ev opts h = Inr (c, h')" and "s_Linux (o_Spec opts) = Some li"
  obtains cwd root mounts defaultDevs devs h1 cg c2 where
    "ev_Getwd ev = Inr cwd" "s_Root (o_Spec opts) = Some root"
    "createDevices (o_Spec opts) h = Inr (defaultDevs, devs, h1)"
    "CreateCgroupConfig ev opts defaultDevs h1 = Inr cg"
    "linuxSection ev (o_Spec opts) li
       ((initialConfig (Clean cwd) opts root)\<lparr>c_Mounts := mounts, c_Devices := devs, c_Cgroups := Some cg\<rparr>, h1)
     = Inr (c2, h')"
    "c = (setProcess (o_Spec opts) (setOwner (o_Spec opts) c2))
           \<lparr>c_Hooks := createHooks (o_Spec opts), c_Version := ev_SpecVersion ev\<rparr>"
  using assms
  by (auto simp: CreateLibcontainerConfig_def Let_def andThen_Inr_iff split: sum.splits option.splits prod.splits)

lemma linuxSection_Inr:
  assumes "linuxSection ev spec li (c, h) = Inr (c', h')"
  obtains c1 c2 c4 where
    "setPropagation li c = Inr c1" "foldRes addNamespace (li_Namespaces li) c1 = Inr c2"
    "(if ns_Contains (c_Namespaces c2) NEWUSER
      then setupUserNamespace ev spec (addNetworks c2) h else Inr (addNetworks c2, h)) = Inr (c4, h')"
    "c_Devices c' = c_Devices c4 \<and> c_Namespaces c' = c_Namespaces c4 \<and> c_Networks c' = c_Networks c4 \<and>
     c_UidMappings c' = c_UidMappings c4 \<and> c_GidMappings c' = c_GidMappings c4 \<and>
     c_Routes c' = c_Routes c4 \<and> c_Cgroups c' = c_Cgroups c4"
proof -
  obtain c1 where c1: "setPropagation li c = Inr c1"
    using assms by (auto simp: linuxSection_def andThen_Inr_iff)
  obtain c2 where c2: "foldRes addNamespace (li_Namespaces li) c1 = Inr c2"
    using assms c1 by (auto simp: linuxSection_def Let_def andThen_Inr_iff)
  let ?u = "if ns_Contains (c_Namespaces c2) NEWUSER
      then setupUserNamespace ev spec (addNetworks c2) h else Inr (addNetworks c2, h)"
  have eq: "linuxSection ev spec li (c, h) = andThen ?u (\<lambda>(c4, h4).
     andThen (setSeccomp li (c4\<lparr>c_MaskPaths := li_MaskedPaths li, c_ReadonlyPaths := li_ReadonlyPaths li,
                c_MountLabel := li_MountLabel li, c_Sysctl := li_Sysctl li\<rparr>)) (\<lambda>c6.
       Inr (case li_IntelRdt li of None \<Rightarrow> c6 | Some ir \<Rightarrow> c6\<lparr>c_IntelRdt := Some ir\<rparr>, h4)))"
    by (simp only: linuxSection_def Let_def fst_conv snd_conv c1 c2 andThen.simps addNetworks_simps)
  obtain c4 h4 where c4: "?u = Inr (c4, h4)"
    using assms unfolding eq by (cases ?u) auto
  obtain c6 where c6: "setSeccomp li (c4\<lparr>c_MaskPaths := li_MaskedPaths li, c_ReadonlyPaths := li_ReadonlyPaths li,
                c_MountLabel := li_MountLabel li, c_Sysctl := li_Sysctl li\<rparr>) = Inr c6"
      "c' = (case li_IntelRdt li of None \<Rightarrow> c6 | Some ir \<Rightarrow> c6\<lparr>c_IntelRdt := Some ir\<rparr>)" "h' = h4"
    using assms unfolding eq c4 by (auto simp: andThen_Inr_iff)
  note c1 c2 c4 [folded c6(3)]
  moreover have "c_Devices c' = c_Devices c4 \<and> c_Namespaces c' = c_Namespaces c4 \<and> c_Networks c' = c_Networks c4 \<and>
     c_UidMappings c' = c_UidMappings c4 \<and> c_GidMappings c' = c_GidMappings c4 \<and>
     c_Routes c' = c_Routes c4 \<and> c_Cgroups c' = c_Cgroups c4"
    using setSeccomp_keeps [OF c6(1)] c6(2) by (auto split: option.splits)
  ultimately show ?thesis using that by blast
qed

lemma liftId_Inr: "liftId r = Inr x \<longleftrightarrow> r = Inr x"
  by (cases r) (simp_all add: liftId_def)

lemma setupUserNamespace_Inr:
  assumes "setupUserNamespace ev spec c h = Inr (c', h')"
  obtains uid gid where
    "HostRootUID c' = Inr uid" "HostRootGID c' = Inr gid" "h' = fold (chownDevice uid gid) (c_Devices c') h"
    "c_Devices c' = c_Devices c" "c_Namespaces c' = c_Namespaces c" "c_Networks c' = c_Networks c"
proof -
  obtain uid gid where
    k: "cacheMappings ev (specMappings spec c) = Inr c'"
    and ids: "HostRootUID c' = Inr uid" "HostRootGID c' = Inr gid"
    and h': "h' = fold (chownDevice uid gid) (c_Devices c') h"
    using assms by (auto simp: setupUserNamespace_def andThen_Inr_iff liftId_Inr)
  show ?thesis by (rule that [OF ids h']) (use cacheMappings_keeps [OF k] in \<open>simp_all add: keeps\<close>)
qed

text \<open>A conversion in stages: devices, then namespaces, then the user namespace.\<close>

lemma conversion_stages:
  assumes "CreateLibcontainerConfig ev opts h = Inr (c, h')" and "s_Linux (o_Spec opts) = Some li"
  obtains dd devs h1 c1 c2 c4 where
    "createDevices (o_Spec opts) h = Inr (dd, devs, h1)"
    "c_Devices c1 = devs" "c_Namespaces c1 = []" "c_Networks c1 = []"
    "foldRes addNamespace (li_Namespaces li) c1 = Inr c2"
    "(if ns_Contains (c_Namespaces c2) NEWUSER
      then setupUserNamespace ev (o_Spec opts) (addNetworks c2) h1 else Inr (addNetworks c2, h1)) = Inr (c4, h')"
    "c_Namespaces c = c_Namespaces c4" "c_Networks c = c_Networks c4"
    "HostRootUID c = HostRootUID c4" "HostRootGID c = HostRootGID c4"
proof -
  from CreateLibcontainerConfig_Inr [OF assms] obtain cwd root mounts dd devs h1 cg cl where
    cd: "createDevices (o_Spec opts) h = Inr (dd, devs, h1)"
    and ls: "linuxSection ev (o_Spec opts) li
       ((initialConfig (Clean cwd) opts root)\<lparr>c_Mounts := mounts, c_Devices := devs, c_Cgroups := Some cg\<rparr>, h1)
     = Inr (cl, h')"
    and c: "c = (setProcess (o_Spec opts) (setOwner (o_Spec opts) cl))
           \<lparr>c_Hooks := createHooks (o_Spec opts), c_Version := ev_SpecVersion ev\<rparr>"
    by metis
  let ?c0 = "(initialConfig (Clean cwd) opts root)\<lparr>c_Mounts := mounts, c_Devices := devs, c_Cgroups := Some cg\<rparr>"
  from linuxSection_Inr [OF ls] obtain c1 c2 c4 where
    c1: "setPropagation li ?c0 = Inr c1" and c2: "foldRes addNamespace (li_Namespaces li) c1 = Inr c2"
    and c4: "(if ns_Contains (c_Namespaces c2) NEWUSER
      then setupUserNamespace ev (o_Spec opts) (addNetworks c2) h1 else Inr (addNetworks c2, h1)) = Inr (c4, h')"
    and cl: "c_Devices cl = c_Devices c4 \<and> c_Namespaces cl = c_Namespaces c4 \<and> c_Networks cl = c_Networks c4 \<and>
     c_UidMappings cl = c_UidMappings c4 \<and> c_GidMappings cl = c_GidMappings c4"
    by metis
  have "c_Devices c1 = devs" "c_Namespaces c1 = []" "c_Networks c1 = []"
    using setPropagation_keeps [OF c1] by (simp_all add: initialConfig_def emptyConfig_def)
  moreover have "c_Namespaces c = c_Namespaces c4" "c_Networks c = c_Networks c4"
    "HostRootUID c = HostRootUID c4" "HostRootGID c = HostRootGID c4"
    using cl by (simp_all add: HostRootUID_def HostUID_def HostRootGID_def HostGID_def c keeps)
  ultimately show ?thesis using that cd c2 c4 by blast
qed

subsection \<open>Namespaces\<close>

lemma addNamespaces_spec:
  "foldRes addNamespace nss c = Inr c' \<Longrightarrow> ns_distinct (c_Namespaces c) \<Longrightarrow>
   \<exists>ts. list_all2 (\<lambda>ns (t, p). map_of namespaceMapping (fst ns) = Some t \<and> p = snd ns) nss ts \<and>
     distinct (map fst ts) \<and> (\<forall>(t, p) \<in> set ts. \<not> ns_Contains (c_Namespaces c) t) \<and>
     c_Namespaces c' = c_Namespaces c @ map (\<lambda>(t, p). \<lparr>n_Type = t, n_Path = p\<rparr>) ts"
proof (induction nss arbitrary: c)
  case Nil
  then show ?case by (intro exI [of _ "[]"]) simp
next
  case (Cons ns nss)
  then obtain c1 where c1: "addNamespace ns c = Inr c1" "foldRes addNamespace nss c1 = Inr c'"
    by (auto simp: andThen_Inr_iff)
  obtain t where t: "map_of namespaceMapping (fst ns) = Some t" "\<not> ns_Contains (c_Namespaces c) t"
    "c1 = c\<lparr>c_Namespaces := ns_Add (c_Namespaces c) t (snd ns)\<rparr>"
    using c1(1) by (auto simp: addNamespace_def split: option.splits if_splits)
  have n1: "c_Namespaces c1 = c_Namespaces c @ [\<lparr>n_Type = t, n_Path = snd ns\<rparr>]"
    using t by (simp add: ns_Add_def ns_Contains_def)
  have "ns_distinct (c_Namespaces c1)" using t(3) Cons.prems(2) nss.inv_add by simp
  from Cons.IH [OF c1(2) this] obtain ts where
    ts: "list_all2 (\<lambda>ns (t, p). map_of namespaceMapping (fst ns) = Some t \<and> p = snd ns) nss ts"
      "distinct (map fst ts)" "\<forall>(u, p) \<in> set ts. \<not> ns_Contains (c_Namespaces c1) u"
      "c_Namespaces c' = c_Namespaces c1 @ map (\<lambda>(t, p). \<lparr>n_Type = t, n_Path = p\<rparr>) ts"
    by blast
  have "ns_Contains (c_Namespaces c1) u \<longleftrightarrow> u = t \<or> ns_Contains (c_Namespaces c) u" for u
    by (simp add: t(3) nss.contains_add)
  then show ?case using ts t n1 by (intro exI [of _ "(t, snd ns) # ts"]) auto
qed

subsection \<open>Devices\<close>

lemma fold_chown:
  "a < length h \<Longrightarrow> fold (chownDevice u g) as h ! a =
     (if a \<in> set as then (h ! a)\<lparr>d_Uid := ucast u, d_Gid := ucast g\<rparr> else h ! a)"
proof (induction as arbitrary: h)
  case Nil
  then show ?case by simp
next
  case (Cons b as)
  have "a < length (chownDevice u g b h)" using Cons.prems by (simp add: chownDevice_def)
  from Cons.IH [OF this] show ?case using Cons.prems
    by (cases "a = b") (simp_all add: chownDevice_def)
qed

lemma createDevices_keeps:
  assumes "createDevices spec h = Inr (dd, devs, h1)" and "a \<in> set AllowedDevices" and "d_Path (h ! a) \<noteq> []"
    and "\<forall>sd \<in> set (specDevices spec). sd_Path sd \<noteq> d_Path (h ! a)"
  shows "a \<in> set devs \<and> (\<exists>new. h1 = h @ new)"
  using assms by (auto simp: createDevices_def Let_def andThen_Inr_iff)

text \<open>The mappings made from 32-bit numbers are well formed.\<close>

lemma createIDMap_wf: "si_Size m \<noteq> 0 \<Longrightarrow> wf_mapping (createIDMap m)"
proof -
  assume sz: "si_Size m \<noteq> 0"
  have s: "sint (ucast (w :: u32) :: i64) = uint w" for w
  proof -
    have "uint (ucast w :: i64) = uint w" by (rule uint_up_ucast) (simp add: is_up)
    moreover have "0 \<le> uint w" "uint w < 2 ^ 32" using uint_bounded [of w] by simp_all
    moreover from this have "signed_take_bit 63 (uint w) = uint w"
      by (intro signed_take_bit_int_eq_self) (auto intro: order_trans [of _ 0])
    ultimately show ?thesis by (simp add: sint_uint)
  qed
  have b: "0 \<le> uint w \<and> uint w < 2 ^ 32" for w :: u32 using uint_bounded [of w] by simp
  have "0 < uint (si_Size m)" using sz by (metis b le_less uint_0_iff)
  then show ?thesis
    using b [of "si_ContainerID m"] b [of "si_HostID m"] b [of "si_Size m"]
    by (simp add: wf_mapping_def createIDMap_def s)
qed

subsection \<open>Labels\<close>

lemma annotation_labels:
  assumes "\<forall>(k, v) \<in> set as. CHR ''='' \<notin> set k \<and> k \<noteq> ''bundle''"
  shows "fold annotationStep (map (\<lambda>(k, v). k @ ''='' @ v) as) (b, m) = (b, m ++ map_of (rev as))"
  using assms
proof (induction as arbitrary: m)
  case Nil
  then show ?case by simp
next
  case (Cons x as)
  obtain k v where x: "x = (k, v)" by (cases x)
  have "SplitN (CHR ''='') 2 (k @ ''='' @ v) = [k, v]"
    using Cons.prems by (simp add: x SplitN_append_sep)
  then have "annotationStep (k @ ''='' @ v) (b, m) = (b, m(k \<mapsto> v))" using Cons.prems by (simp add: x)
  moreover have "fold annotationStep (map (\<lambda>(k, v). k @ ''='' @ v) as) (b, m(k \<mapsto> v)) =
      (b, m(k \<mapsto> v) ++ map_of (rev as))"
    using Cons.prems by (intro Cons.IH) simp
  ultimately show ?case by (simp add: x)
qed

subsection \<open>An example conversion\<close>

definition exampleLinux :: SpecLinux where
  "exampleLinux =
     \<lparr>li_UIDMappings = [\<lparr>si_ContainerID = 0, si_HostID = 1000, si_Size = 10\<rparr>],
      li_GIDMappings = [\<lparr>si_ContainerID = 0, si_HostID = 1000, si_Size = 10\<rparr>],
      li_Sysctl = [], li_Resources = None, li_CgroupsPath = [],
      li_Namespaces = [(''user'', []), (''network'', [])], li_Devices = [], li_Seccomp = None,
      li_RootfsPropagation = [], li_MaskedPaths = [], li_ReadonlyPaths = [], li_MountLabel = [],
      li_IntelRdt = None\<rparr>"

definition exampleSpec :: Spec where
  "exampleSpec =
     \<lparr>s_Root = Some \<lparr>sr_Path = ''rootfs'', sr_Readonly = False\<rparr>, s_Mounts = [], s_Hostname = [],
      s_Annotations = [(''org.systemd.property.Sec'', ''1'')], s_Process = None,
      s_Linux = Some exampleLinux, s_Hooks = None\<rparr>"

definition exampleOpts :: "bool \<Rightarrow> CreateOpts" where
  "exampleOpts systemd =
     \<lparr>o_CgroupName = ''c1'', o_UseSystemdCgroup = systemd, o_NoPivotRoot = False, o_NoNewKeyring = False,
      o_Spec = exampleSpec, o_RootlessEUID = False, o_RootlessCgroups = False\<rparr>"

definition exampleEnv :: env where
  "exampleEnv =
     \<lparr>ev_Getwd = Inr ''/bundle'', ev_ParseVariant = (\<lambda>_. Inr (VUint32 1)), ev_MulMillion = (\<lambda>d. d * 1000000),
      ev_UserNamespaceMappings = (\<lambda>_. Inl ''no such namespace''), ev_SpecVersion = ''1.1.0''\<rparr>"

lemma example_cgroup: "\<exists>cg. CreateCgroupConfig exampleEnv (exampleOpts False) dd h = Inr cg"
  by (simp add: CreateCgroupConfig_def exampleOpts_def exampleSpec_def exampleLinux_def cgroupPlace_def Let_def)

lemma example_devices: "\<exists>dd devs h1. createDevices exampleSpec h = Inr (dd, devs, h1)"
  by (simp add: createDevices_def specDevices_def exampleSpec_def exampleLinux_def Let_def)

lemma example_namespaces:
  "c_Namespaces c = [] \<Longrightarrow> foldRes addNamespace (li_Namespaces exampleLinux) c =
     Inr (c\<lparr>c_Namespaces := [\<lparr>n_Type = NEWUSER, n_Path = []\<rparr>, \<lparr>n_Type = NEWNET, n_Path = []\<rparr>]\<rparr>)"
  by (simp add: exampleLinux_def addNamespace_def namespaceMapping_def ns_Contains_def ns_Add_def)

lemma example_userns:
  assumes "c_Namespaces c = [\<lparr>n_Type = NEWUSER, n_Path = []\<rparr>, \<lparr>n_Type = NEWNET, n_Path = []\<rparr>]"
    and "c_UidMappings c = None" "c_GidMappings c = None"
  shows "\<exists>c' h'. setupUserNamespace exampleEnv exampleSpec c h = Inr (c', h')"
proof -
  have "hostID [\<lparr>n_Type = NEWUSER, n_Path = []\<rparr>, \<lparr>n_Type = NEWNET, n_Path = []\<rparr>]
      (Some [\<lparr>im_ContainerID = 0, im_HostID = 1000, im_Size = 10\<rparr>]) 0 = Inr 1000"
    by (simp add: hostID_def ns_Contains_def maxInt_def)
  then show ?thesis using assms
    by (simp add: setupUserNamespace_def specMappings_def cacheMappings_def exampleSpec_def exampleLinux_def
        PathOf_def appendSlice_def createIDMap_def HostRootUID_def HostUID_def HostRootGID_def HostGID_def
        liftId_def)
qed

lemma example_converts:
  "\<exists>c h'. CreateLibcontainerConfig exampleEnv (exampleOpts False) initialDevices = Inr (c, h')"
proof -
  obtain dd devs h1 where d: "createDevices exampleSpec initialDevices = Inr (dd, devs, h1)"
    using example_devices by blast
  obtain cg where cg: "CreateCgroupConfig exampleEnv (exampleOpts False) dd h1 = Inr cg"
    using example_cgroup by blast
  let ?c0 = "(initialConfig (Clean ''/bundle'') (exampleOpts False) \<lparr>sr_Path = ''rootfs'', sr_Readonly = False\<rparr>)
      \<lparr>c_Mounts := [], c_Devices := devs, c_Cgroups := Some cg\<rparr>"
  have p: "setPropagation exampleLinux ?c0 = Inr (?c0\<lparr>c_RootPropagation := 0\<rparr>)"
    by (simp add: setPropagation_def exampleLinux_def mountPropagationMapping_def)
  let ?c2 = "?c0\<lparr>c_RootPropagation := 0, c_Namespaces := [\<lparr>n_Type = NEWUSER, n_Path = []\<rparr>, \<lparr>n_Type = NEWNET, n_Path = []\<rparr>]\<rparr>"
  have n: "foldRes addNamespace (li_Namespaces exampleLinux) (?c0\<lparr>c_RootPropagation := 0\<rparr>) = Inr ?c2"
    by (subst example_namespaces) (simp_all add: initialConfig_def emptyConfig_def)
  obtain c4 h4 where u: "setupUserNamespace exampleEnv exampleSpec (addNetworks ?c2) h1 = Inr (c4, h4)"
    using example_userns [of "addNetworks ?c2" h1] by (auto simp: initialConfig_def emptyConfig_def)
  have "ns_Contains (c_Namespaces (addNetworks ?c2)) NEWUSER" by (simp add: ns_Contains_def)
  then have "\<exists>c5. linuxSection exampleEnv exampleSpec exampleLinux (?c0, h1) = Inr (c5, h4)"
    by (simp only: linuxSection_def fst_conv snd_conv p n Let_def andThen.simps u if_True prod.case)
       (simp add: setSeccomp_def exampleLinux_def)
  then obtain c5 where l: "linuxSection exampleEnv exampleSpec exampleLinux (?c0, h1) = Inr (c5, h4)" ..
  have s: "o_Spec (exampleOpts False) = exampleSpec" "s_Root exampleSpec = Some \<lparr>sr_Path = ''rootfs'', sr_Readonly = False\<rparr>"
    "s_Mounts exampleSpec = []" "s_Linux exampleSpec = Some exampleLinux" "ev_Getwd exampleEnv = Inr ''/bundle''"
    by (simp_all add: exampleOpts_def exampleSpec_def exampleEnv_def)
  show ?thesis
    unfolding CreateLibcontainerConfig_def
    by (simp only: s Let_def mapRes.simps andThen.simps d cg l prod.case sum.case option.case) blast
qed

subsection \<open>Properties\<close>

text \<open>The namespaces of the configuration are exactly those of the specification, in order, each
  type at most once and with the path given for it; a loopback network is set up exactly when the
  container gets a network namespace of its own.\<close>

theorem namespaces_from_spec:
  assumes "CreateLibcontainerConfig ev opts h = Inr (c, h')" and "s_Linux (o_Spec opts) = Some li"
  shows "list_all2 (\<lambda>ns n. map_of namespaceMapping (fst ns) = Some (n_Type n) \<and> n_Path n = snd ns)
      (li_Namespaces li) (c_Namespaces c) \<and>
    ns_distinct (c_Namespaces c) \<and>
    c_Networks c = (if ns_Contains (c_Namespaces c) NEWNET \<and> PathOf (c_Namespaces c) NEWNET = [] then [loopback] else [])"
proof -
  obtain h1 c1 c2 c4 where c1: "c_Namespaces c1 = []" "c_Networks c1 = []"
    and c2: "foldRes addNamespace (li_Namespaces li) c1 = Inr c2"
    and c4: "(if ns_Contains (c_Namespaces c2) NEWUSER
      then setupUserNamespace ev (o_Spec opts) (addNetworks c2) h1 else Inr (addNetworks c2, h1)) = Inr (c4, h')"
    and c: "c_Namespaces c = c_Namespaces c4" "c_Networks c = c_Networks c4"
    using conversion_stages [OF assms] by metis
  have n4: "c_Namespaces c4 = c_Namespaces c2 \<and> c_Networks c4 = c_Networks (addNetworks c2)"
  proof (cases "ns_Contains (c_Namespaces c2) NEWUSER")
    case True
    then have "setupUserNamespace ev (o_Spec opts) (addNetworks c2) h1 = Inr (c4, h')" using c4 by simp
    then show ?thesis by (rule setupUserNamespace_Inr) simp
  next
    case False
    then have "c4 = addNetworks c2" using c4 by simp
    then show ?thesis by simp
  qed
  obtain ts where ts: "list_all2 (\<lambda>ns (t, p). map_of namespaceMapping (fst ns) = Some t \<and> p = snd ns) (li_Namespaces li) ts"
    "distinct (map fst ts)" "c_Namespaces c2 = map (\<lambda>(t, p). \<lparr>n_Type = t, n_Path = p\<rparr>) ts"
    using addNamespaces_spec [OF c2] c1 by (auto simp: ns_distinct_def)
  have nc: "c_Namespaces c = c_Namespaces c2" "c_Networks c = c_Networks (addNetworks c2)"
    using c n4 by simp_all
  have "map n_Type (c_Namespaces c2) = map fst ts" by (simp add: ts(3) comp_def case_prod_beta)
  then have "ns_distinct (c_Namespaces c)" using ts(2) by (simp add: ns_distinct_def nc)
  moreover have "list_all2 (\<lambda>ns n. map_of namespaceMapping (fst ns) = Some (n_Type n) \<and> n_Path n = snd ns)
      (li_Namespaces li) (c_Namespaces c)"
    using ts(1) by (auto simp: nc ts(3) list_all2_map2 elim!: list_all2_mono)
  moreover have "c_Networks c2 = []" using addNamespaces_keeps [OF c2] c1 by simp
  ultimately show ?thesis by (simp add: nc addNetworks_def)
qed

theorem namespaces_from_spec_witness:
  "\<exists>c h'. CreateLibcontainerConfig exampleEnv (exampleOpts False) initialDevices = Inr (c, h') \<and>
    c_Networks c = [loopback]"
proof -
  obtain c h' where c: "CreateLibcontainerConfig exampleEnv (exampleOpts False) initialDevices = Inr (c, h')"
    using example_converts by blast
  have "s_Linux (o_Spec (exampleOpts False)) = Some exampleLinux" by (simp add: exampleOpts_def exampleSpec_def)
  from namespaces_from_spec [OF c this]
  have "c_Namespaces c = [\<lparr>n_Type = NEWUSER, n_Path = []\<rparr>, \<lparr>n_Type = NEWNET, n_Path = []\<rparr>] \<and>
     c_Networks c = (if ns_Contains (c_Namespaces c) NEWNET \<and> PathOf (c_Namespaces c) NEWNET = [] then [loopback] else [])"
    by (auto simp: exampleLinux_def namespaceMapping_def list_all2_Cons1)
  then show ?thesis using c by (simp add: ns_Contains_def PathOf_def)
qed

text \<open>Converting a specification with a user namespace writes to the default devices, which all
  configurations share: every default device that the specification does not replace is owned by
  the container's root afterwards, in this and in every later configuration.\<close>

theorem default_devices_chowned:
  assumes "CreateLibcontainerConfig ev opts h = Inr (c, h')" and "s_Linux (o_Spec opts) = Some li"
    and "ns_Contains (c_Namespaces c) NEWUSER"
    and "a \<in> set AllowedDevices" and "length h \<ge> 11" and "d_Path (h ! a) \<noteq> []"
    and "\<forall>sd \<in> set (specDevices (o_Spec opts)). sd_Path sd \<noteq> d_Path (h ! a)"
  shows "\<exists>uid gid. HostRootUID c = Inr uid \<and> HostRootGID c = Inr gid \<and>
    h' ! a = (h ! a)\<lparr>d_Uid := ucast uid, d_Gid := ucast gid\<rparr>"
proof -
  obtain dd devs h1 c1 c2 c4 where cd: "createDevices (o_Spec opts) h = Inr (dd, devs, h1)"
    and c1: "c_Devices c1 = devs" and c2: "foldRes addNamespace (li_Namespaces li) c1 = Inr c2"
    and c4: "(if ns_Contains (c_Namespaces c2) NEWUSER
      then setupUserNamespace ev (o_Spec opts) (addNetworks c2) h1 else Inr (addNetworks c2, h1)) = Inr (c4, h')"
    and c: "c_Namespaces c = c_Namespaces c4" "HostRootUID c = HostRootUID c4" "HostRootGID c = HostRootGID c4"
    using conversion_stages [OF assms(1,2)] by metis
  have "ns_Contains (c_Namespaces c2) NEWUSER"
    using c4 assms(3) c(1) by (cases "ns_Contains (c_Namespaces c2) NEWUSER") auto
  then have "setupUserNamespace ev (o_Spec opts) (addNetworks c2) h1 = Inr (c4, h')" using c4 by simp
  then obtain uid gid where ids: "HostRootUID c4 = Inr uid" "HostRootGID c4 = Inr gid"
    and h': "h' = fold (chownDevice uid gid) (c_Devices c4) h1" and d4: "c_Devices c4 = c_Devices (addNetworks c2)"
    by (rule setupUserNamespace_Inr)
  have "c_Devices c4 = devs" using d4 addNamespaces_keeps [OF c2] c1 by simp
  moreover obtain new where new: "h1 = h @ new" and ad: "a \<in> set devs"
    using createDevices_keeps [OF cd assms(4,6,7)] by blast
  moreover have a: "a < length h" using assms(4,5) by (auto simp: AllowedDevices_def)
  ultimately have "h' ! a = (h ! a)\<lparr>d_Uid := ucast uid, d_Gid := ucast gid\<rparr>"
    using fold_chown [of a h1 uid gid devs] by (simp add: h' nth_append)
  then show ?thesis using ids c by simp
qed

theorem default_devices_chowned_witness:
  "\<exists>c h'. CreateLibcontainerConfig exampleEnv (exampleOpts False) initialDevices = Inr (c, h') \<and>
    (\<exists>uid gid. h' ! 2 = (mkDevice ''/dev/null'' 0x1B6 CharDevice 1 3 ''rwm'')\<lparr>d_Uid := uid, d_Gid := gid\<rparr>)"
proof -
  obtain c h' where c: "CreateLibcontainerConfig exampleEnv (exampleOpts False) initialDevices = Inr (c, h')"
    using example_converts by blast
  have li: "s_Linux (o_Spec (exampleOpts False)) = Some exampleLinux" by (simp add: exampleOpts_def exampleSpec_def)
  obtain dd devs h1 c1 c2 c4 where c1: "c_Namespaces c1 = []"
    and c2: "foldRes addNamespace (li_Namespaces exampleLinux) c1 = Inr c2"
    and c4: "(if ns_Contains (c_Namespaces c2) NEWUSER
      then setupUserNamespace exampleEnv (o_Spec (exampleOpts False)) (addNetworks c2) h1 else Inr (addNetworks c2, h1)) = Inr (c4, h')"
    and cc: "c_Namespaces c = c_Namespaces c4"
    using conversion_stages [OF c li] by metis
  have "ns_Contains (c_Namespaces c2) NEWUSER" using c2 example_namespaces [OF c1] by (auto simp: ns_Contains_def)
  moreover from this c4 have "c_Namespaces c4 = c_Namespaces c2" using setupUserNamespace_Inr by fastforce
  ultimately have u: "ns_Contains (c_Namespaces c) NEWUSER" by (simp add: cc)
  have "\<exists>uid gid. HostRootUID c = Inr uid \<and> HostRootGID c = Inr gid \<and>
    h' ! 2 = (initialDevices ! 2)\<lparr>d_Uid := ucast uid, d_Gid := ucast gid\<rparr>"
    by (rule default_devices_chowned [OF c li u])
       (simp_all add: AllowedDevices_def initialDevices_def mkDevice_def specDevices_def exampleOpts_def
          exampleSpec_def exampleLinux_def)
  then have "\<exists>uid gid. h' ! 2 = (initialDevices ! 2)\<lparr>d_Uid := uid, d_Gid := gid\<rparr>" by blast
  then show ?thesis using c by (simp add: initialDevices_def)
qed

text \<open>The labels of a configuration give back its annotations: reading them returns the bundle
  path and, for annotations whose names contain no equals sign and are not "bundle", exactly
  the annotations of the specification.\<close>

theorem annotations_roundtrip:
  assumes "\<forall>(k, v) \<in> set (s_Annotations (o_Spec opts)). CHR ''='' \<notin> set k \<and> k \<noteq> ''bundle''"
    and "distinct (map fst (s_Annotations (o_Spec opts)))"
  shows "Annotations (c_Labels (initialConfig cwd opts root)) = (cwd, map_of (s_Annotations (o_Spec opts)))"
proof -
  let ?as = "s_Annotations (o_Spec opts)"
  have l: "c_Labels (initialConfig cwd opts root) = map (\<lambda>(k, v). k @ ''='' @ v) ?as @ [''bundle='' @ cwd]"
    by (simp add: initialConfig_def specLabels_def)
  have "map_of (rev ?as) = map_of ?as"
    using assms(2) by (subst map_of_inject_set) (simp_all add: rev_map [symmetric])
  moreover have "SplitN (CHR ''='') 2 (''bundle='' @ cwd) = [''bundle'', cwd]"
    using SplitN_append_sep [of "CHR ''=''" "''bundle''" 2 cwd] by simp
  ultimately show ?thesis
    using annotation_labels [OF assms(1), of "[]" Map.empty] by (simp add: Annotations_def l)
qed

theorem annotations_roundtrip_witness:
  "Annotations (c_Labels (initialConfig ''/bundle'' (exampleOpts False) \<lparr>sr_Path = ''rootfs'', sr_Readonly = False\<rparr>)) =
   (''/bundle'', [''org.systemd.property.Sec'' \<mapsto> ''1''])"
  using annotations_roundtrip [of "exampleOpts False" "''/bundle''" "\<lparr>sr_Path = ''rootfs'', sr_Readonly = False\<rparr>"]
  by (simp add: exampleOpts_def exampleSpec_def)

text \<open>An annotation "org.systemd.property.Sec" passes the check of property names, and then the code
  indexes the empty string in front of its suffix: with systemd cgroups the conversion panics.\<close>

theorem systemd_sec_panics:
  assumes "o_UseSystemdCgroup opts" and "s_Annotations (o_Spec opts) = (''org.systemd.property.Sec'', v) # rest"
    and "ev_ParseVariant ev v = Inr value"
  shows "CreateCgroupConfig ev opts dd h = Inl IndexOutOfRange"
proof -
  have "TrimPrefix ''org.systemd.property.Sec'' keyPrefix = ''Sec''"
    by (simp add: TrimPrefix_def keyPrefix_def)
  moreover have "checkPropertyName ''Sec''"
    by (simp add: checkPropertyName_def less_eq_char_def)
  moreover have "TrimSuffix ''Sec'' ''Sec'' = []" by (simp add: TrimSuffix_def HasSuffix_def)
  ultimately have "systemdProp ev (''org.systemd.property.Sec'', v) [] = Inl IndexOutOfRange"
    using assms(3) by (simp add: systemdProp_def)
  then show ?thesis using assms(1,2) by (simp add: CreateCgroupConfig_def initSystemdProps_def Let_def)
qed

theorem systemd_sec_panics_witness:
  "CreateCgroupConfig exampleEnv (exampleOpts True) [] initialDevices = Inl IndexOutOfRange"
  by (rule systemd_sec_panics [of _ "''1''" "[]" _ "VUint32 1"])
     (simp_all add: exampleOpts_def exampleSpec_def exampleEnv_def)

end
