(* ===== verification/ValidateProps.thy ===== *)
theory ValidateProps imports Validate SpecconvProps begin

text \<open>
  What an accepted configuration guarantees (configs/validate), and that configurations converted
  from a specification pass the checks that conversion is responsible for.
\<close>

subsection \<open>Sysctl keys\<close>

text \<open>
  The specification of the sysctl check: the namespace that a normalised key belongs to is a private
  one. A network namespace given by a path is private when it is another one than that of the
  running process.
\<close>

definition ipcKey :: "string \<Rightarrow> bool" where
  "ipcKey s \<longleftrightarrow> s \<in> set validSysctlMap \<or> HasPrefix s ''fs.mqueue.''"

definition otherNetns :: "vd_env \<Rightarrow> string \<Rightarrow> bool" where
  "otherNetns ev path \<longleftrightarrow>
     (case (ve_Inode ev currentProcessNetns, ve_Inode ev path) of
        (Inr st1, Inr st2) \<Rightarrow> st1 \<noteq> st2
      | _ \<Rightarrow> False)"

definition privateNet :: "vd_env \<Rightarrow> Namespaces \<Rightarrow> bool" where
  "privateNet ev nss \<longleftrightarrow>
     ns_Contains nss NEWNET \<and> (PathOf nss NEWNET = [] \<or> otherNetns ev (PathOf nss NEWNET))"

definition sysctlAllowed :: "vd_env \<Rightarrow> Namespaces \<Rightarrow> string \<Rightarrow> bool" where
  "sysctlAllowed ev nss s \<longleftrightarrow>
     (ipcKey s \<and> ns_Contains nss NEWIPC) \<or>
     (HasPrefix s ''net.'' \<and> privateNet ev nss) \<or>
     (s = ''kernel.domainname'' \<and> ns_Contains nss NEWUTS)"

lemma hostNet_private: "hostNet ev nss = Inr False \<longleftrightarrow> privateNet ev nss"
  by (auto simp: hostNet_def privateNet_def otherNetns_def isHostNetNS_def Let_def prod_eq_iff
      split: sum.splits)

lemma net_not_ipc: "HasPrefix s ''net.'' \<Longrightarrow> \<not> ipcKey s \<and> s \<noteq> ''kernel.domainname''"
  by (cases s) (auto simp: ipcKey_def validSysctlMap_def)

lemma sysctlKey_None:
  "fst (sysctlKey ev nss k None) = None \<longleftrightarrow>
   sysctlAllowed ev nss (convertSysctlVariableToDotsSeparator k)"
proof -
  let ?s = "convertSysctlVariableToDotsSeparator k"
  consider (ipc) "ipcKey ?s" | (net) "\<not> ipcKey ?s" "HasPrefix ?s ''net.''"
    | (other) "\<not> ipcKey ?s" "\<not> HasPrefix ?s ''net.''" by blast
  then show ?thesis
  proof cases
    case ipc
    then have "\<not> HasPrefix ?s ''net.''" using net_not_ipc by blast
    moreover have "?s \<noteq> ''kernel.domainname''" using ipc by (auto simp: ipcKey_def validSysctlMap_def)
    ultimately show ?thesis
      using ipc by (simp add: sysctlKey_def sysctlAllowed_def Let_def flip: ipcKey_def)
  next
    case net
    then have "?s \<noteq> ''kernel.domainname''" using net_not_ipc by blast
    then show ?thesis
      using net by (auto simp: sysctlKey_def sysctlAllowed_def Let_def hostNet_private [symmetric]
          simp flip: ipcKey_def split: sum.splits if_splits)
  next
    case other
    then show ?thesis
      by (auto simp: sysctlKey_def sysctlAllowed_def Let_def simp flip: ipcKey_def split: if_splits)
  qed
qed

text \<open>The memo of \<open>netOnce\<close> holds what asking again would give.\<close>

definition memo_ok :: "vd_env \<Rightarrow> Namespaces \<Rightarrow> netOnce \<Rightarrow> bool" where
  "memo_ok ev nss st \<longleftrightarrow> (case st of None \<Rightarrow> True | Some r \<Rightarrow> r = hostNet ev nss)"

lemma sysctlKey_memo:
  assumes "memo_ok ev nss st"
  shows "fst (sysctlKey ev nss k st) = fst (sysctlKey ev nss k None)"
    and "memo_ok ev nss (snd (sysctlKey ev nss k st))"
  using assms by (auto simp: sysctlKey_def Let_def memo_ok_def split: option.splits)

lemma sysctlLoop_None:
  "memo_ok ev nss st \<Longrightarrow>
   sysctlLoop ev nss ks st = None \<longleftrightarrow>
   (\<forall>k \<in> set ks. sysctlAllowed ev nss (convertSysctlVariableToDotsSeparator k))"
proof (induction ks arbitrary: st)
  case Nil
  then show ?case by simp
next
  case (Cons k ks)
  obtain r st' where k: "sysctlKey ev nss k st = (r, st')" by fastforce
  have "memo_ok ev nss st'" using sysctlKey_memo(2) [OF Cons.prems, of k] k by simp
  moreover have "r = None \<longleftrightarrow> sysctlAllowed ev nss (convertSysctlVariableToDotsSeparator k)"
    using sysctlKey_memo(1) [OF Cons.prems, of k] k by (simp flip: sysctlKey_None)
  ultimately show ?case using Cons.IH by (cases r) (simp_all add: k)
qed

text \<open>Normalising a key twice changes nothing more.\<close>

lemma IndexAny_Some: "IndexAny xs cs = Some i \<Longrightarrow> i < length xs \<and> xs ! i \<in> set cs"
  by (induction xs arbitrary: i) (auto split: if_splits)

lemma IndexAny_swap: "IndexAny (map swapSep v) ''./'' = IndexAny v ''./''"
  by (induction v) (auto simp: swapSep_def)

lemma convertSysctl_idem:
  "convertSysctlVariableToDotsSeparator (convertSysctlVariableToDotsSeparator v) =
   convertSysctlVariableToDotsSeparator v"
proof -
  have "map swapSep v ! i = CHR ''.''" if "IndexAny v ''./'' = Some i" "v ! i \<noteq> CHR ''.''" for i
    using IndexAny_Some [OF that(1)] that(2) by (auto simp: swapSep_def)
  then show ?thesis
    by (auto simp: convertSysctlVariableToDotsSeparator_def IndexAny_swap split: option.splits)
qed


definition netnsEnv :: vd_env where
  "netnsEnv =
     \<lparr>ve_Stat = (\<lambda>_. None), ve_Getwd = Inr ''/'', ve_EvalSymlinks = Inr, ve_SelinuxEnabled = False,
      ve_CATEnabled = False, ve_MBAEnabled = False, ve_Cgroup2Unified = True,
      ve_Inode = (\<lambda>p. if p = currentProcessNetns then Inr (4, 1) else Inr (4, 2))\<rparr>"


subsection \<open>Accepted configurations\<close>

lemma skipSpace_id: "s \<noteq> [] \<Longrightarrow> \<not> isSpace (hd s) \<Longrightarrow> skipSpace s = Some s"
  by (cases s) (auto simp: isSpace_def)

lemma utoa_digit_val: "x \<in> set (utoa n) \<Longrightarrow> digit_val x \<noteq> None"
  using utoa_digits [of n] digit_val_digit_char by fastforce

lemma scanInt_Itoa:
  assumes "- (2 ^ 63) \<le> i" and "i < 2 ^ 63"
  shows "scanInt (Itoa i) = Some (word_of_int i)"
proof -
  have tw: "takeWhile (\<lambda>x. \<exists>d. digit_val x = Some d) (utoa n) = utoa n" for n
    by (rule takeWhile_eq_self) (use utoa_digit_val in fastforce)
  have p: "ParseInt10 64 (Itoa i) = (i, None)" using Atoi_Itoa [OF assms] by (simp add: Atoi_def)
  have hd_digit: "digit_val (hd (utoa n)) \<noteq> None" for n
    by (rule utoa_digit_val [of _ n]) simp
  have nospace: "digit_val x = None" if "isSpace x \<or> x \<in> set ''+-''" for x
    using that by (auto simp: isSpace_def digit_val_def)
  have "\<not> isSpace (hd (utoa n))" for n
    using nospace [of "hd (utoa n)", OF disjI1] hd_digit [of n] by (rule contrapos_nn [rotated])
  then have "\<not> isSpace (hd (Itoa i))" by (simp add: Itoa_def) (simp add: isSpace_def)
  then have sk: "skipSpace (Itoa i) = Some (Itoa i)" by (intro skipSpace_id) simp_all
  show ?thesis
  proof (cases "i < 0")
    case True
    then show ?thesis using sk p by (simp add: scanInt_def tw Let_def Itoa_def)
  next
    case False
    moreover have "hd (utoa (nat i)) \<notin> set ''+-''" using hd_digit nospace by blast
    ultimately show ?thesis using sk p by (simp add: scanInt_def tw Let_def Itoa_def)
  qed
qed

lemma Validate_None:
  assumes "fst (Validate ev c) = None"
  shows "v_network c = None" "v_hostname c = None" "v_security ev c = None" "v_usernamespace ev c = None"
    "v_sysctl ev c = None" "v_rootlessEUID c = None"
proof -
  have "firstErr [v_cgroups ev c, v_rootfs ev c, v_network c, v_hostname c, v_security ev c,
      v_usernamespace ev c, v_cgroupnamespace ev c, v_sysctl ev c, v_intelrdt ev c, v_rootlessEUID c] = None"
    using assms by (simp add: Validate_def split: option.splits)
  then show "v_network c = None" "v_hostname c = None" "v_security ev c = None"
    "v_usernamespace ev c = None" "v_sysctl ev c = None" "v_rootlessEUID c = None"
    by (simp_all add: firstErr_None_iff)
qed

lemma rootless_uid:
  assumes "rootlessEUIDMount c = None" and "m \<in> set (c_Mounts c)"
    and "opt \<in> set (Split CHR '','' (mt_Data m))"
  shows "rootlessOption c opt = None"
  using assms by (auto simp: rootlessEUIDMount_def firstErr_None_iff)

lemma rootlessOption_uid:
  assumes "rootlessOption c (''uid='' @ Itoa i) = None" and "- (2 ^ 63) \<le> i" "i < 2 ^ 63"
  shows "\<exists>h. HostUID c (word_of_int i) = Inr h"
  using assms by (auto simp: rootlessOption_def scanInt_Itoa split: sum.splits)

lemma rootlessOption_gid:
  assumes "rootlessOption c (''gid='' @ Itoa i) = None" and "- (2 ^ 63) \<le> i" "i < 2 ^ 63"
  shows "\<exists>h. HostGID c (word_of_int i) = Inr h"
  using assms by (auto simp: rootlessOption_def gidOption_def scanInt_Itoa split: sum.splits)


definition rootlessConfig :: Config where
  "rootlessConfig =
     emptyConfig\<lparr>c_Rootfs := ''/r'', c_RootlessEUID := True,
       c_Namespaces := [\<lparr>n_Type = NEWUSER, n_Path = []\<rparr>],
       c_UidMappings := Some [\<lparr>im_ContainerID = 0, im_HostID = 1000, im_Size = 10\<rparr>],
       c_GidMappings := Some [\<lparr>im_ContainerID = 0, im_HostID = 1000, im_Size = 10\<rparr>],
       c_Mounts := [\<lparr>mt_Source = [], mt_Destination = ''/dev/pts'', mt_Device = ''devpts'', mt_Flags = 0,
         mt_PropagationFlags = [], mt_Data = ''mode=620,gid=5'', mt_Relabel = [], mt_RecAttr = None,
         mt_Extensions = 0, mt_PremountCmds = [], mt_PostmountCmds = []\<rparr>]\<rparr>"


subsection \<open>Converted configurations\<close>

text \<open>The fields that only the start of a conversion sets.\<close>

definition sameRest :: "Config \<Rightarrow> Config \<Rightarrow> bool" where
  "sameRest c c' \<longleftrightarrow> c_Routes c' = c_Routes c \<and> c_Cgroups c' = c_Cgroups c"

lemma sameRest_refl [simp]: "sameRest c c"
  by (simp add: sameRest_def)

lemma sameRest_trans: "sameRest a b \<Longrightarrow> sameRest b c \<Longrightarrow> sameRest a c"
  by (simp add: sameRest_def)

lemma addNamespace_rest: "addNamespace ns c = Inr c' \<Longrightarrow> sameRest c c'"
  by (auto simp: addNamespace_def sameRest_def split: option.splits if_splits)

lemma setupUserNamespace_rest: "setupUserNamespace ev spec c h = Inr (c', h') \<Longrightarrow> sameRest c c'"
  by (auto simp: setupUserNamespace_def andThen_Inr_iff cacheMappings_def Let_def sameRest_def specMappings_def
      split: sum.splits if_splits option.splits)

text \<open>What the conversion of the linux section leaves of the start, and its user namespace.\<close>

lemma linuxSection_rest:
  assumes "linuxSection ev spec li (c, h) = Inr (c', h')"
    and "c_Networks c = []" "c_UidMappings c = None" "c_GidMappings c = None"
  shows "sameRest c c'"
    and "\<not> ns_Contains (c_Namespaces c') NEWNET \<Longrightarrow> c_Networks c' = []"
    and "\<not> ns_Contains (c_Namespaces c') NEWUSER \<Longrightarrow> c_UidMappings c' = None \<and> c_GidMappings c' = None"
    and "ns_Contains (c_Namespaces c') NEWUSER \<Longrightarrow>
      (\<exists>uid gid. HostRootUID c' = Inr uid \<and> HostRootGID c' = Inr gid)"
proof -
  obtain c1 c2 c4 where c1: "setPropagation li c = Inr c1"
    and c2: "foldRes addNamespace (li_Namespaces li) c1 = Inr c2"
    and c4: "(if ns_Contains (c_Namespaces c2) NEWUSER
      then setupUserNamespace ev spec (addNetworks c2) h else Inr (addNetworks c2, h)) = Inr (c4, h')"
    and eqs: "c_Devices c' = c_Devices c4 \<and> c_Namespaces c' = c_Namespaces c4 \<and> c_Networks c' = c_Networks c4 \<and>
     c_UidMappings c' = c_UidMappings c4 \<and> c_GidMappings c' = c_GidMappings c4 \<and>
     c_Routes c' = c_Routes c4 \<and> c_Cgroups c' = c_Cgroups c4"
    using linuxSection_Inr [OF assms(1)] by metis
  have e2: "c_Networks c2 = []" "c_UidMappings c2 = None" "c_GidMappings c2 = None"
    using addNamespaces_keeps [OF c2] setPropagation_keeps [OF c1] assms(2-4) by simp_all
  have "sameRest c c1" using c1 by (auto simp: setPropagation_def sameRest_def split: option.splits if_splits)
  moreover have "sameRest c1 c2"
    by (rule foldRes_invariant [OF c2, where P = "sameRest c1"])
       (auto intro: sameRest_trans addNamespace_rest)
  moreover have "sameRest c2 (addNetworks c2)" by (simp add: addNetworks_def sameRest_def)
  ultimately have start: "sameRest c (addNetworks c2)" by (meson sameRest_trans)
  have user: "sameRest (addNetworks c2) c4 \<and> c_Namespaces c4 = c_Namespaces c2 \<and>
      c_Networks c4 = c_Networks (addNetworks c2) \<and>
      (if ns_Contains (c_Namespaces c2) NEWUSER
       then \<exists>uid gid. HostRootUID c4 = Inr uid \<and> HostRootGID c4 = Inr gid
       else c_UidMappings c4 = None \<and> c_GidMappings c4 = None)"
  proof (cases "ns_Contains (c_Namespaces c2) NEWUSER")
    case True
    then have u: "setupUserNamespace ev spec (addNetworks c2) h = Inr (c4, h')" using c4 by simp
    from setupUserNamespace_rest [OF u] setupUserNamespace_Inr [OF u] True show ?thesis
      by (metis addNetworks_simps(2))
  next
    case False
    then show ?thesis using c4 e2 by auto
  qed
  show "sameRest c c'" using start user eqs by (simp add: sameRest_def)
  show "\<not> ns_Contains (c_Namespaces c') NEWNET \<Longrightarrow> c_Networks c' = []"
    using user eqs e2 by (simp add: addNetworks_def)
  show "\<not> ns_Contains (c_Namespaces c') NEWUSER \<Longrightarrow> c_UidMappings c' = None \<and> c_GidMappings c' = None"
    using user eqs by simp
  have "HostRootUID c' = HostRootUID c4" "HostRootGID c' = HostRootGID c4"
    using eqs by (simp_all add: HostRootUID_def HostUID_def HostRootGID_def HostGID_def)
  then show "ns_Contains (c_Namespaces c') NEWUSER \<Longrightarrow>
      (\<exists>uid gid. HostRootUID c' = Inr uid \<and> HostRootGID c' = Inr gid)"
    using user eqs by simp
qed

lemma cgroupPlace_path:
  "cgroupPlace systemd name path c = Inr c' \<Longrightarrow> cg_Name c = [] \<Longrightarrow> cg_Parent c = [] \<Longrightarrow> cg_Path c = [] \<Longrightarrow>
   cg_Path c' = [] \<or> (cg_Name c' = [] \<and> cg_Parent c' = [])"
  by (auto simp: cgroupPlace_def Let_def split: if_splits list.splits)

lemma CreateCgroupConfig_path:
  "CreateCgroupConfig ev opts dd h = Inr cg \<Longrightarrow> cg_Path cg = [] \<or> (cg_Name cg = [] \<and> cg_Parent cg = [])"
  unfolding CreateCgroupConfig_def Let_def andThen_Inr_iff
  by (auto dest!: cgroupPlace_path simp: emptyCgroup_def)

lemma hostID_mapped: "hostID nss maps i = Inr x \<Longrightarrow> ns_Contains nss NEWUSER \<Longrightarrow> maps \<noteq> None \<and> maps \<noteq> Some []"
  by (auto simp: hostID_def split: option.splits)

lemma setOwner_cgroups:
  "\<exists>cg'. c_Cgroups (setOwner spec c) = map_option cg' (c_Cgroups c) \<and>
    (\<forall>cg. cg_Name (cg' cg) = cg_Name cg \<and> cg_Parent (cg' cg) = cg_Parent cg \<and> cg_Path (cg' cg) = cg_Path cg)"
proof (cases "c_Cgroups (setOwner spec c) = c_Cgroups c")
  case True
  then show ?thesis by (intro exI [of _ id]) (simp add: option.map_id0)
next
  case False
  then obtain u where "c_Cgroups (setOwner spec c) = map_option (\<lambda>cg. cg\<lparr>cg_OwnerUID := Some u\<rparr>) (c_Cgroups c)"
    by (auto simp: setOwner_def Let_def split: sum.splits if_splits)
  then show ?thesis by (intro exI [of _ "\<lambda>cg. cg\<lparr>cg_OwnerUID := Some u\<rparr>"]) simp
qed

lemma CreateLibcontainerConfig_start:
  assumes "CreateLibcontainerConfig ev opts h = Inr (c, h')"
  obtains c1 h1 c2 cg where
    "c_Networks c1 = []" "c_Routes c1 = []" "c_UidMappings c1 = None" "c_GidMappings c1 = None" "c_Namespaces c1 = []"
    "c_Cgroups c1 = Some cg" "cg_Path cg = [] \<or> (cg_Name cg = [] \<and> cg_Parent cg = [])"
    "(case s_Linux (o_Spec opts) of None \<Rightarrow> Inr (c1, h1) | Some li \<Rightarrow> linuxSection ev (o_Spec opts) li (c1, h1))
     = Inr (c2, h')"
    "c = (setProcess (o_Spec opts) (setOwner (o_Spec opts) c2))
           \<lparr>c_Hooks := createHooks (o_Spec opts), c_Version := ev_SpecVersion ev\<rparr>"
proof (cases "s_Linux (o_Spec opts)")
  case None
  then obtain cwd root mounts dd devs cg where cg: "CreateCgroupConfig ev opts dd h' = Inr cg"
    and c: "c = (setProcess (o_Spec opts) (setOwner (o_Spec opts)
        ((initialConfig (Clean cwd) opts root)\<lparr>c_Mounts := mounts, c_Devices := devs, c_Cgroups := Some cg\<rparr>)))
           \<lparr>c_Hooks := createHooks (o_Spec opts), c_Version := ev_SpecVersion ev\<rparr>"
    using assms
    by (auto simp: CreateLibcontainerConfig_def Let_def andThen_Inr_iff split: sum.splits option.splits prod.splits)
  show ?thesis
    by (rule that [OF _ _ _ _ _ _ CreateCgroupConfig_path [OF cg] _ c])
       (simp_all add: None initialConfig_def emptyConfig_def)
next
  case (Some li)
  obtain cwd root mounts dd devs h1 cg c2 where cg: "CreateCgroupConfig ev opts dd h1 = Inr cg"
    and l: "linuxSection ev (o_Spec opts) li
       ((initialConfig (Clean cwd) opts root)\<lparr>c_Mounts := mounts, c_Devices := devs, c_Cgroups := Some cg\<rparr>, h1)
     = Inr (c2, h')"
    and c: "c = (setProcess (o_Spec opts) (setOwner (o_Spec opts) c2))
           \<lparr>c_Hooks := createHooks (o_Spec opts), c_Version := ev_SpecVersion ev\<rparr>"
    using CreateLibcontainerConfig_Inr [OF assms Some] by metis
  have l': "(case s_Linux (o_Spec opts) of
      None \<Rightarrow> Inr ((initialConfig (Clean cwd) opts root)\<lparr>c_Mounts := mounts, c_Devices := devs, c_Cgroups := Some cg\<rparr>, h1)
    | Some li \<Rightarrow> linuxSection ev (o_Spec opts) li
       ((initialConfig (Clean cwd) opts root)\<lparr>c_Mounts := mounts, c_Devices := devs, c_Cgroups := Some cg\<rparr>, h1))
    = Inr (c2, h')"
    by (simp add: Some l)
  show ?thesis
    by (rule that [OF _ _ _ _ _ _ CreateCgroupConfig_path [OF cg] l' c])
       (simp_all add: initialConfig_def emptyConfig_def)
qed



end
