(* ===== verification/PatchBpf.thy ===== *)
theory PatchBpf imports SeccompConfig begin

text \<open>
  The stub that seccomp/patchbpf/enosys_linux.go puts in front of a seccomp filter, so that system
  calls newer than the filter fail with ENOSYS instead of the filter's default action. Instructions
  are those of golang.org/x/net/bpf; libseccomp (names, architectures, the exported filter) is a
  record of parameters. Maps that are iterated come with the order of iteration.
\<close>

subsection \<open>Classic BPF\<close>

datatype jump_test =
    JumpEqual | JumpNotEqual | JumpGreaterThan | JumpLessOrEqual | JumpBitsSet | JumpBitsNotSet

text \<open>
  The instructions the stub is made of, and any other one that does not jump: libseccomp's filters
  also compute with the accumulator.
\<close>

datatype 'o bpf_insn =
    LoadAbsolute u32
  | JumpIf jump_test u32 u8 u8
  | BpfJump u32
  | RetConstant u32
  | OtherInsn 'o

text \<open>What a filter sees: system call number, architecture, and the other words by offset.\<close>

record seccomp_data =
  sd_nr :: u32
  sd_arch :: u32
  sd_word :: "u32 \<Rightarrow> u32"

definition loadWord :: "seccomp_data \<Rightarrow> u32 \<Rightarrow> u32" where
  "loadWord d off = (if off = 0 then sd_nr d else if off = 4 then sd_arch d else sd_word d off)"

fun jumpTest :: "jump_test \<Rightarrow> u32 \<Rightarrow> u32 \<Rightarrow> bool" where
  "jumpTest JumpEqual a v = (a = v)"
| "jumpTest JumpNotEqual a v = (a \<noteq> v)"
| "jumpTest JumpGreaterThan a v = (v < a)"
| "jumpTest JumpLessOrEqual a v = (a \<le> v)"
| "jumpTest JumpBitsSet a v = (a AND v \<noteq> 0)"
| "jumpTest JumpBitsNotSet a v = (a AND v = 0)"

text \<open>
  Running a program on an accumulator and the rest of the machine. Jumps only go forward, so the
  rest of the program is all the control state there is; None is running off the end.
\<close>

function exec :: "('o \<Rightarrow> u32 \<times> 's \<Rightarrow> u32 \<times> 's) \<Rightarrow> seccomp_data \<Rightarrow> 'o bpf_insn list \<Rightarrow> u32 \<times> 's \<Rightarrow> u32 option" where
  "exec ext d [] s = None"
| "exec ext d (LoadAbsolute off # p) s = exec ext d p (loadWord d off, snd s)"
| "exec ext d (JumpIf c v t f # p) s = exec ext d (drop (unat (if jumpTest c (fst s) v then t else f)) p) s"
| "exec ext d (BpfJump k # p) s = exec ext d (drop (unat k) p) s"
| "exec ext d (RetConstant v # p) s = Some v"
| "exec ext d (OtherInsn oi # p) s = exec ext d p (ext oi s)"
  by pat_completeness auto
termination
  by (relation "measure (\<lambda>(ext, d, p, s). length p)") auto

subsection \<open>Architectures\<close>

datatype ScmpArch =
    ArchNative | ArchX86 | ArchAMD64 | ArchX32 | ArchARM | ArchARM64 | ArchMIPS | ArchMIPS64
  | ArchMIPS64N32 | ArchMIPSEL | ArchMIPSEL64 | ArchMIPSEL64N32 | ArchPPC | ArchPPC64 | ArchPPC64LE
  | ArchS390 | ArchS390X | ArchRISCV64 | OtherArch nat

type_synonym linuxAuditArch = u32

text \<open>The values of linux/audit.h.\<close>

definition C_AUDIT_ARCH_X86_64 :: linuxAuditArch where "C_AUDIT_ARCH_X86_64 = 0xC000003E"

text \<open>\<open>SCMP_ACT_ERRNO(ENOSYS)\<close> where ENOSYS is 38.\<close>

definition retErrnoEnosys :: u32 where "retErrnoEnosys = 0x50026"

definition s390xMultiplexSyscall :: u32 where "s390xMultiplexSyscall = 0"

fun knownAuditArch :: "ScmpArch \<Rightarrow> linuxAuditArch option" where
  "knownAuditArch ArchX86 = Some 0x40000003"
| "knownAuditArch ArchAMD64 = Some C_AUDIT_ARCH_X86_64"
| "knownAuditArch ArchX32 = Some C_AUDIT_ARCH_X86_64"
| "knownAuditArch ArchARM = Some 0x40000028"
| "knownAuditArch ArchARM64 = Some 0xC00000B7"
| "knownAuditArch ArchMIPS = Some 8"
| "knownAuditArch ArchMIPS64 = Some 0x80000008"
| "knownAuditArch ArchMIPS64N32 = Some 0xA0000008"
| "knownAuditArch ArchMIPSEL = Some 0x40000008"
| "knownAuditArch ArchMIPSEL64 = Some 0xC0000008"
| "knownAuditArch ArchMIPSEL64N32 = Some 0xE0000008"
| "knownAuditArch ArchPPC = Some 0x14"
| "knownAuditArch ArchPPC64 = Some 0x80000015"
| "knownAuditArch ArchPPC64LE = Some 0xC0000015"
| "knownAuditArch ArchS390 = Some 0x16"
| "knownAuditArch ArchS390X = Some 0x80000016"
| "knownAuditArch ArchRISCV64 = Some 0xC00000F3"
| "knownAuditArch _ = None"

datatype patch_error =
    ArchError string | NativeArchError string | UnknownArch ScmpArch
  | UnknownAmd64 ScmpArch | UnknownOverlap linuxAuditArch | MissingArch ScmpArch
  | TooManyOverlaps nat | DisassembleError | ExportError string | MidInstruction | AssembleError
  | NoNewPrivsError string | LogBitError string

text \<open>
  libseccomp, and the orders in which the code iterates over its maps. A system call number is a
  signed 32-bit value.
\<close>

record scmp_env =
  le_ArchFromString :: "string \<Rightarrow> string + ScmpArch"
  le_NativeArch :: "string + ScmpArch"
  le_Syscall :: "string \<Rightarrow> ScmpArch \<Rightarrow> u32 option"
  le_ArchOrder :: "ScmpArch list \<Rightarrow> ScmpArch list"
  le_AuditOrder :: "linuxAuditArch list \<Rightarrow> linuxAuditArch list"

text \<open>
  ArchNative is looked up and mapped again, so the function would not return if the native
  architecture were ArchNative itself.
\<close>

partial_function (option) scmpArchToAuditArch :: "scmp_env \<Rightarrow> ScmpArch \<Rightarrow> (patch_error + linuxAuditArch) option" where
  "scmpArchToAuditArch ev a =
     (if a = ArchNative then
        (case le_NativeArch ev of
           Inl err \<Rightarrow> Some (Inl (NativeArchError err))
         | Inr nat_arch \<Rightarrow> scmpArchToAuditArch ev nat_arch)
      else Some (case knownAuditArch a of Some v \<Rightarrow> Inr v | None \<Rightarrow> Inl (UnknownArch a)))"

subsection \<open>The largest system call numbers\<close>

type_synonym lastSyscallMap = "(linuxAuditArch \<times> (ScmpArch \<times> u32) list) list"

text \<open>The set of configured architectures, as a list without duplicates.\<close>

definition configuredArchs :: "scmp_env \<Rightarrow> Seccomp \<Rightarrow> patch_error + ScmpArch list" where
  "configuredArchs ev config =
     andThen (mapRes (\<lambda>s. case le_ArchFromString ev s of Inl e \<Rightarrow> Inl (ArchError e) | Inr a \<Rightarrow> Inr a)
                (se_Architectures config)) (\<lambda>scmpArchs.
     case le_NativeArch ev of
       Inl e \<Rightarrow> Inl (NativeArchError e)
     | Inr nat_arch \<Rightarrow> Inr (remdups (if nat_arch \<in> set scmpArchs then scmpArchs else scmpArchs @ [nat_arch])))"

text \<open>Unknown names are ignored; the comparison is one of signed numbers.\<close>

definition largestSyscall :: "scmp_env \<Rightarrow> Seccomp \<Rightarrow> ScmpArch \<Rightarrow> u32" where
  "largestSyscall ev config arch =
     fold (\<lambda>rule largest.
             case le_Syscall ev (sc_Name rule) arch of
               None \<Rightarrow> largest
             | Some sysno \<Rightarrow> if sint largest < sint sysno then sysno else largest)
       (se_Syscalls config) 0"

definition ensureArch :: "linuxAuditArch \<Rightarrow> lastSyscallMap \<Rightarrow> lastSyscallMap" where
  "ensureArch a ls = (if a \<in> fst ` set ls then ls else ls @ [(a, [])])"

definition setLast :: "linuxAuditArch \<Rightarrow> ScmpArch \<Rightarrow> u32 \<Rightarrow> lastSyscallMap \<Rightarrow> lastSyscallMap" where
  "setLast a arch n ls = map (\<lambda>(b, ms). (b, if b = a then ms @ [(arch, n)] else ms)) ls"

text \<open>One architecture; an entry that is there already is left alone.\<close>

definition lastSyscallStep :: "scmp_env \<Rightarrow> Seccomp \<Rightarrow> ScmpArch \<Rightarrow> lastSyscallMap \<Rightarrow> (patch_error + lastSyscallMap) option" where
  "lastSyscallStep ev config arch ls =
     (case scmpArchToAuditArch ev arch of
        None \<Rightarrow> None
      | Some (Inl err) \<Rightarrow> Some (Inl err)
      | Some (Inr auditArch) \<Rightarrow>
          (let ls1 = ensureArch auditArch ls in
           if \<exists>(b, ms) \<in> set ls1. b = auditArch \<and> arch \<in> fst ` set ms then Some (Inr ls1)
           else
             (let n = largestSyscall ev config arch in
              if n \<noteq> 0 then Some (Inr (setLast auditArch arch n ls1)) else Some (Inr ls1))))"

fun lastSyscallLoop :: "scmp_env \<Rightarrow> Seccomp \<Rightarrow> ScmpArch list \<Rightarrow> lastSyscallMap \<Rightarrow> (patch_error + lastSyscallMap) option" where
  "lastSyscallLoop ev config [] ls = Some (Inr ls)"
| "lastSyscallLoop ev config (a # as) ls =
     (case lastSyscallStep ev config a ls of
        None \<Rightarrow> None
      | Some (Inl err) \<Rightarrow> Some (Inl err)
      | Some (Inr ls') \<Rightarrow> lastSyscallLoop ev config as ls')"

definition findLastSyscalls :: "scmp_env \<Rightarrow> Seccomp \<Rightarrow> (patch_error + lastSyscallMap) option" where
  "findLastSyscalls ev config =
     (case configuredArchs ev config of
        Inl err \<Rightarrow> Some (Inl err)
      | Inr scmpArchs \<Rightarrow> lastSyscallLoop ev config (le_ArchOrder ev scmpArchs) [])"

subsection \<open>The stub\<close>

type_synonym 'o stub = "'o bpf_insn list"

definition baseTail :: "'o stub" where
  "baseTail = [BpfJump 1, RetConstant retErrnoEnosys]"

text \<open>\<open>uint32(n)\<close> and \<open>uint8(n)\<close>.\<close>

definition skip32 :: "nat \<Rightarrow> u32" where "skip32 n = word_of_nat n"
definition skip8 :: "nat \<Rightarrow> u8" where "skip8 n = word_of_nat n"

definition x32Bit :: u32 where "x32Bit = 0x40000000"

text \<open>\<open>setup\<close> on s390(x).\<close>

definition multiplexRules :: "ScmpArch \<Rightarrow> 'o stub" where
  "multiplexRules arch =
     (if arch = ArchS390 \<or> arch = ArchS390X then
        [JumpIf JumpNotEqual s390xMultiplexSyscall 1 0, RetConstant retErrnoEnosys]
      else [])"

text \<open>The comparison with one number, with a short or a long jump to the ENOSYS return.\<close>

definition compareOne :: "nat \<Rightarrow> u32 \<Rightarrow> 'o stub" where
  "compareOne baseJumpEnosys sysno =
     (if baseJumpEnosys + 1 \<le> 255 then
        [JumpIf JumpGreaterThan sysno (skip8 (baseJumpEnosys + 1)) 0,
         BpfJump (skip32 (baseJumpEnosys + 1))]
      else
        [JumpIf JumpLessOrEqual sysno 1 0,
         BpfJump (skip32 (baseJumpEnosys + 1)),
         BpfJump (skip32 (baseJumpEnosys + 1))])"

definition modePrefix :: "linuxAuditArch \<Rightarrow> ScmpArch \<Rightarrow> 'o stub \<Rightarrow> patch_error + 'o stub" where
  "modePrefix auditArch arch sectionTail =
     (if auditArch = C_AUDIT_ARCH_X86_64 then
        (if arch = ArchAMD64 then
           Inr (JumpIf JumpBitsSet x32Bit (skip8 (length sectionTail - 1)) 0 # sectionTail)
         else if arch = ArchX32 then
           Inr (JumpIf JumpBitsNotSet x32Bit (skip8 (length sectionTail - 1)) 0 # sectionTail)
         else Inl (UnknownAmd64 arch))
      else Inr sectionTail)"

text \<open>x32 and x86_64 together.\<close>

definition compareBoth :: "nat \<Rightarrow> u32 \<Rightarrow> u32 \<Rightarrow> 'o stub" where
  "compareBoth baseJumpEnosys x86sysno x32sysno =
     (if baseJumpEnosys + 2 \<le> 255 then
        [JumpIf JumpBitsSet x32Bit 1 0,
         JumpIf JumpGreaterThan x86sysno (skip8 (baseJumpEnosys + 2)) 1,
         JumpIf JumpGreaterThan x32sysno (skip8 (baseJumpEnosys + 1)) 0,
         BpfJump (skip32 (baseJumpEnosys + 1))]
      else
        [JumpIf JumpBitsSet x32Bit 1 0,
         JumpIf JumpGreaterThan x86sysno 1 2,
         JumpIf JumpLessOrEqual x32sysno 1 0,
         BpfJump (skip32 (baseJumpEnosys + 1)),
         BpfJump (skip32 (baseJumpEnosys + 1))])"

text \<open>The section of an architecture in front of a tail; None when it has no numbers.\<close>

definition archSection :: "linuxAuditArch \<Rightarrow> (ScmpArch \<times> u32) list \<Rightarrow> 'o stub \<Rightarrow> patch_error + 'o stub option" where
  "archSection auditArch maxSyscalls programTail =
     (let baseJumpEnosys = length programTail - 1; load = LoadAbsolute 0 in
      case maxSyscalls of
        [] \<Rightarrow> Inr None
      | [(arch, sysno)] \<Rightarrow>
          andThen (modePrefix auditArch arch (compareOne baseJumpEnosys sysno)) (\<lambda>sectionTail.
            Inr (Some (load # multiplexRules arch @ sectionTail)))
      | [_, _] \<Rightarrow>
          if auditArch \<noteq> C_AUDIT_ARCH_X86_64 then Inl (UnknownOverlap auditArch)
          else
            (case map_of maxSyscalls ArchX32 of
               None \<Rightarrow> Inl (MissingArch ArchX32)
             | Some x32sysno \<Rightarrow>
                 (case map_of maxSyscalls ArchAMD64 of
                    None \<Rightarrow> Inl (MissingArch ArchAMD64)
                  | Some x86sysno \<Rightarrow>
                      Inr (Some (load # compareBoth baseJumpEnosys x86sysno x32sysno))))
      | _ \<Rightarrow> Inl (TooManyOverlaps (length maxSyscalls)))"

text \<open>
  The first loop: the tail of the program, and for each architecture the distance of its section
  from the end.
\<close>

type_synonym archJumpTable = "linuxAuditArch \<Rightarrow> nat option"

definition stubStep :: "linuxAuditArch \<times> (ScmpArch \<times> u32) list \<Rightarrow> 'o stub \<times> archJumpTable \<Rightarrow> patch_error + ('o stub \<times> archJumpTable)" where
  "stubStep entry st =
     (case entry of (auditArch, maxSyscalls) \<Rightarrow> case st of (programTail, table) \<Rightarrow>
       andThen (archSection auditArch maxSyscalls programTail) (\<lambda>sec.
         case sec of
           None \<Rightarrow> Inr (programTail, table)
         | Some section \<Rightarrow>
             Inr (section @ programTail, table(auditArch \<mapsto> length (section @ programTail)))))"

text \<open>The second loop; an architecture without a section has the jump table's zero value.\<close>

definition archJump :: "archJumpTable \<Rightarrow> linuxAuditArch \<Rightarrow> 'o stub \<Rightarrow> 'o stub" where
  "archJump table auditArch programTail =
     (let jump = length programTail - (case table auditArch of None \<Rightarrow> 0 | Some n \<Rightarrow> n) in
      if jump \<le> 255 then JumpIf JumpEqual auditArch (skip8 jump) 0 # programTail
      else JumpIf JumpNotEqual auditArch 1 0 # BpfJump (skip32 jump) # programTail)"

definition generateEnosysStub :: "linuxAuditArch list \<Rightarrow> lastSyscallMap \<Rightarrow> patch_error + 'o stub" where
  "generateEnosysStub order lastSyscalls =
     andThen (foldRes stubStep lastSyscalls (baseTail, \<lambda>_. None)) (\<lambda>(programTail, table).
       Inr (LoadAbsolute 4 #
            fold (archJump table) order (BpfJump (skip32 (length programTail)) # programTail)))"

subsection \<open>Patching\<close>

fun isAllowAction :: "Action \<Rightarrow> bool" where
  "isAllowAction Allow = True"
| "isAllowAction Log = True"
| "isAllowAction Trace = True"
| "isAllowAction _ = False"

text \<open>\<open>DefaultErrnoRet\<close> is a 64-bit \<open>uint\<close>; a nil program is an empty one.\<close>

definition generatePatch :: "scmp_env \<Rightarrow> Seccomp \<Rightarrow> (patch_error + 'o stub) option" where
  "generatePatch ev config =
     (if se_DefaultErrnoRet config = Some (ucast retErrnoEnosys) then Some (Inr [])
      else if isAllowAction (se_DefaultAction config) then Some (Inr [])
      else
        (case findLastSyscalls ev config of
           None \<Rightarrow> None
         | Some (Inl err) \<Rightarrow> Some (Inl err)
         | Some (Inr lastSyscalls) \<Rightarrow>
             Some (generateEnosysStub (le_AuditOrder ev (map fst lastSyscalls)) lastSyscalls)))"

text \<open>
  \<open>bpf.Assemble\<close> is a parameter, as is what disassembling the exported filter gives; the result is
  the program that is loaded.
\<close>

definition enosysPatchFilter ::
  "scmp_env \<Rightarrow> ('o stub \<Rightarrow> 'r option) \<Rightarrow> patch_error + 'o stub \<Rightarrow> Seccomp \<Rightarrow> (patch_error + 'r) option" where
  "enosysPatchFilter ev assembler program config =
     (case program of
        Inl err \<Rightarrow> Some (Inl err)
      | Inr prog \<Rightarrow>
          (case generatePatch ev config of
             None \<Rightarrow> None
           | Some (Inl err) \<Rightarrow> Some (Inl err)
           | Some (Inr patch) \<Rightarrow>
               Some (case assembler (patch @ prog) of None \<Rightarrow> Inl AssembleError | Some r \<Rightarrow> Inr r)))"

subsection \<open>The binary form of a filter\<close>

text \<open>
  An exported instruction: 16-bit code, two 8-bit offsets, a 32-bit operand, in the byte order of
  the machine (here little-endian).
\<close>

record RawInstruction =
  raw_Op :: u16
  raw_Jt :: u8
  raw_Jf :: u8
  raw_K :: u32

fun parseProgram :: "u8 list \<Rightarrow> patch_error + RawInstruction list" where
  "parseProgram (o0 # o1 # jt # jf # k0 # k1 # k2 # k3 # rest) =
     andThen (parseProgram rest) (\<lambda>program.
       Inr (\<lparr>raw_Op = ucast o0 OR push_bit 8 (ucast o1), raw_Jt = jt, raw_Jf = jf,
             raw_K = ucast k0 OR push_bit 8 (ucast k1) OR push_bit 16 (ucast k2) OR push_bit 24 (ucast k3)\<rparr>
            # program))"
| "parseProgram [] = Inr []"
| "parseProgram _ = Inl MidInstruction"

subsection \<open>Flags of the load\<close>

definition C_FILTER_FLAG_LOG :: u64 where "C_FILTER_FLAG_LOG = 2"
definition C_FILTER_FLAG_NEW_LISTENER :: u64 where "C_FILTER_FLAG_NEW_LISTENER = 8"

text \<open>The API level and the two attributes libseccomp gives for the filter.\<close>

definition filterFlags :: "nat \<Rightarrow> string + bool \<Rightarrow> string + bool \<Rightarrow> Seccomp \<Rightarrow> patch_error + (u64 \<times> bool)" where
  "filterFlags apiLevel noNewPrivsBit logBit config =
     (case noNewPrivsBit of
        Inl e \<Rightarrow> Inl (NoNewPrivsError e)
      | Inr noNewPrivs \<Rightarrow>
          andThen (if 3 \<le> apiLevel then
                     (case logBit of
                        Inl e \<Rightarrow> Inl (LogBitError e)
                      | Inr b \<Rightarrow> Inr (if b then C_FILTER_FLAG_LOG else 0))
                   else Inr 0) (\<lambda>flags.
            Inr (if find (\<lambda>call. sc_Action call = Notify) (se_Syscalls config) \<noteq> None
                 then flags OR C_FILTER_FLAG_NEW_LISTENER else flags, noNewPrivs)))"

end
