(* ===== verification/PatchBpfProps.thy ===== *)
theory PatchBpfProps imports PatchBpf begin

text \<open>
  The ENOSYS stub does what it is for: for every map of largest numbers, in front of any program,
  it answers ENOSYS to the system calls above the largest number of the calling mode and hands every
  other call to the program.
\<close>

subsection \<open>Sections\<close>

definition stub_ok :: "'o stub \<Rightarrow> bool" where
  "stub_ok tail \<longleftrightarrow> tail \<noteq> [] \<and> last tail = RetConstant retErrnoEnosys"

lemma stub_ok_append: "stub_ok tail \<Longrightarrow> stub_ok (sec @ tail)"
  by (simp add: stub_ok_def)

lemma stub_ok_drop: "stub_ok tail \<Longrightarrow> drop (length tail - Suc 0) (tail @ prog) = RetConstant retErrnoEnosys # prog"
  by (cases tail rule: rev_cases) (simp_all add: stub_ok_def)

lemma unat_skip32: "n < 2 ^ 32 \<Longrightarrow> unat (skip32 n) = n"
  by (simp add: skip32_def unsigned_of_nat take_bit_nat_eq_self)

lemma unat_skip8: "n < 256 \<Longrightarrow> unat (skip8 n) = n"
  by (simp add: skip8_def unsigned_of_nat take_bit_nat_eq_self)

lemmas skips = unat_skip32 unat_skip8

lemma compareOne_exec:
  assumes "stub_ok tail" and "length tail < 2 ^ 31"
  shows "exec ext d (compareOne (length tail - 1) n @ tail @ prog) (a, m) =
    (if n < a then Some retErrnoEnosys else exec ext d prog (a, m))"
proof -
  have len: "length tail - Suc 0 + 1 = length tail" using assms(1) by (cases tail) (simp_all add: stub_ok_def)
  obtain k where k: "length tail = Suc k" using assms(1) by (cases tail) (simp_all add: stub_ok_def)
  have "drop k (tail @ prog) = RetConstant retErrnoEnosys # prog" using stub_ok_drop [OF assms(1), of prog] k by simp
  then show ?thesis
    using assms(2) by (auto simp: compareOne_def k skips)
qed

lemma compareOne_last:
  "drop (length (compareOne b n) - Suc 0) (compareOne b n @ rest) = BpfJump (skip32 (b + 1)) # rest"
  "0 < length (compareOne b n)" "length (compareOne b n) \<le> 3"
  by (simp_all add: compareOne_def)

lemma compareBoth_exec:
  assumes "stub_ok tail" and "length tail < 2 ^ 31"
  shows "exec ext d (compareBoth (length tail - 1) n86 n32 @ tail @ prog) (a, m) =
    (if (if a AND x32Bit \<noteq> 0 then n32 else n86) < a then Some retErrnoEnosys else exec ext d prog (a, m))"
proof -
  obtain k where k: "length tail = Suc k" using assms(1) by (cases tail) (simp_all add: stub_ok_def)
  have "drop k (tail @ prog) = RetConstant retErrnoEnosys # prog" using stub_ok_drop [OF assms(1), of prog] k by simp
  then show ?thesis
    using assms(2) by (auto simp: compareBoth_def k skips)
qed

text \<open>What the stub has to answer: whether a call of the given architecture gets ENOSYS.\<close>

definition archSays :: "linuxAuditArch \<Rightarrow> (ScmpArch \<times> u32) list \<Rightarrow> u32 \<Rightarrow> bool" where
  "archSays a ms nr =
     (case ms of
        [] \<Rightarrow> False
      | [(arch, largest)] \<Rightarrow>
          ((arch = ArchS390 \<or> arch = ArchS390X) \<and> nr = s390xMultiplexSyscall) \<or>
          (largest < nr \<and> (a = C_AUDIT_ARCH_X86_64 \<longrightarrow> (nr AND x32Bit \<noteq> 0 \<longleftrightarrow> arch = ArchX32)))
      | _ \<Rightarrow>
          (case map_of ms (if nr AND x32Bit \<noteq> 0 then ArchX32 else ArchAMD64) of
             None \<Rightarrow> False
           | Some largest \<Rightarrow> largest < nr))"

lemma modePrefix_exec:
  fixes tail :: "'o stub"
  assumes "modePrefix a arch (compareOne (length tail - 1) n) = Inr sec"
    and "stub_ok tail" and "length tail < 2 ^ 31"
  shows "exec ext d (sec @ tail @ prog) (nr, m) =
      (if n < nr \<and> (a = C_AUDIT_ARCH_X86_64 \<longrightarrow> (nr AND x32Bit \<noteq> 0 \<longleftrightarrow> arch = ArchX32))
       then Some retErrnoEnosys else exec ext d prog (nr, m))"
    and "length sec \<le> 4"
proof -
  let ?c = "compareOne (length tail - 1) n :: 'o stub"
  have le: "length ?c \<le> 3" by (rule compareOne_last(3))
  then have lt: "length ?c - Suc 0 < 256" by linarith
  have "length tail - 1 + 1 = length tail" using assms(2) by (cases tail) (simp_all add: stub_ok_def)
  then have over: "exec ext d (drop (length ?c - Suc 0) (?c @ tail @ prog)) s = exec ext d prog s" for s
    unfolding compareOne_last(1) using assms(3) by (simp add: skips)
  note c = compareOne_exec [OF assms(2,3), of ext d n prog nr m]
  have lo: "unat (skip8 (length ?c - Suc 0)) = length ?c - Suc 0" using lt by (rule unat_skip8)
  consider "a \<noteq> C_AUDIT_ARCH_X86_64" "sec = ?c"
    | "a = C_AUDIT_ARCH_X86_64" "arch = ArchAMD64" "sec = JumpIf JumpBitsSet x32Bit (skip8 (length ?c - Suc 0)) 0 # ?c"
    | "a = C_AUDIT_ARCH_X86_64" "arch = ArchX32" "sec = JumpIf JumpBitsNotSet x32Bit (skip8 (length ?c - Suc 0)) 0 # ?c"
    using assms(1) by (auto simp: modePrefix_def split: if_splits)
  then show "exec ext d (sec @ tail @ prog) (nr, m) =
      (if n < nr \<and> (a = C_AUDIT_ARCH_X86_64 \<longrightarrow> (nr AND x32Bit \<noteq> 0 \<longleftrightarrow> arch = ArchX32))
       then Some retErrnoEnosys else exec ext d prog (nr, m))"
    by cases (use c over lo in auto)
  show "length sec \<le> 4"
    using assms(1) le
    by (auto simp: modePrefix_def split: if_splits)
qed

lemma multiplexRules_exec:
  "exec ext d (multiplexRules arch @ p) (nr, m) =
    (if (arch = ArchS390 \<or> arch = ArchS390X) \<and> nr = s390xMultiplexSyscall
     then Some retErrnoEnosys else exec ext d p (nr, m))"
  "length (multiplexRules arch) \<le> 2"
  by (auto simp: multiplexRules_def)

lemma archSection_exec:
  fixes tail :: "'o stub"
  assumes "archSection a ms tail = Inr (Some sec)" and "stub_ok tail" and "length tail < 2 ^ 31"
  shows "exec ext d (sec @ tail @ prog) s =
      (if archSays a ms (sd_nr d) then Some retErrnoEnosys else exec ext d prog (sd_nr d, snd s))"
    and "length sec \<le> 7"
proof -
  have load: "loadWord d 0 = sd_nr d" by (simp add: loadWord_def)
  consider (one) arch n where "ms = [(arch, n)]" | (both) x y where "ms = [x, y]"
    using assms(1) by (auto simp: archSection_def Let_def split: list.splits)
  then have "exec ext d (sec @ tail @ prog) s =
      (if archSays a ms (sd_nr d) then Some retErrnoEnosys else exec ext d prog (sd_nr d, snd s)) \<and> length sec \<le> 7"
  proof cases
    case one
    then obtain c where c: "modePrefix a arch (compareOne (length tail - 1) n) = Inr c"
      and sec: "sec = LoadAbsolute 0 # multiplexRules arch @ c"
      using assms(1) by (auto simp: archSection_def Let_def andThen_Inr_iff)
    have mult: "length (multiplexRules arch :: 'o stub) \<le> 2" by (rule multiplexRules_exec(2))
    show ?thesis
      using modePrefix_exec(1) [OF c assms(2,3), of ext d prog "sd_nr d" "snd s"] modePrefix_exec(2) [OF c assms(2,3)]
        mult
      by (auto simp: sec load multiplexRules_exec(1) archSays_def one)
  next
    case both
    then obtain n32 n86 where "map_of ms ArchX32 = Some n32" "map_of ms ArchAMD64 = Some n86"
      and sec: "sec = LoadAbsolute 0 # compareBoth (length tail - 1) n86 n32"
      using assms(1) by (auto simp: archSection_def Let_def split: if_splits option.splits)
    moreover have "length (compareBoth (length tail - 1) n86 n32 :: 'o stub) \<le> 6" by (simp add: compareBoth_def)
    ultimately show ?thesis
      using both by (cases x; cases y) (auto simp: load compareBoth_exec [OF assms(2,3), simplified] archSays_def)
  qed
  then show "exec ext d (sec @ tail @ prog) s =
      (if archSays a ms (sd_nr d) then Some retErrnoEnosys else exec ext d prog (sd_nr d, snd s))"
    and "length sec \<le> 7" by blast+
qed

subsection \<open>The loops over the architectures\<close>

text \<open>Where an entry of the jump table leads: to a section that gives the answer of its architecture.\<close>

definition entry_ok :: "('o \<Rightarrow> u32 \<times> 's \<Rightarrow> u32 \<times> 's) \<Rightarrow> seccomp_data \<Rightarrow> 'o stub \<Rightarrow> 'o stub \<Rightarrow> archJumpTable \<Rightarrow>
    linuxAuditArch \<Rightarrow> (ScmpArch \<times> u32) list \<Rightarrow> bool" where
  "entry_ok ext d prog tail table a ms \<longleftrightarrow>
     (case table a of
        None \<Rightarrow> ms = []
      | Some n \<Rightarrow>
          n \<le> length tail \<and>
          (\<forall>s. exec ext d (drop (length tail - n) tail @ prog) s =
            (if archSays a ms (sd_nr d) then Some retErrnoEnosys else exec ext d prog (sd_nr d, snd s))))"

lemma entry_ok_prepend:
  "entry_ok ext d prog tail table a ms \<Longrightarrow> entry_ok ext d prog (pre @ tail) table a ms"
  by (auto simp: entry_ok_def split: option.splits)

lemma stubStep_Inr:
  assumes "stubStep (a, ms) (tail, table) = Inr (tail', table')"
    and "stub_ok tail" and "length tail < 2 ^ 31" and "table a = None"
  shows "stub_ok tail' \<and> length tail' \<le> length tail + 7 \<and> (\<exists>pre. tail' = pre @ tail) \<and>
    entry_ok ext d prog tail' table' a ms \<and> (\<forall>b. b \<noteq> a \<longrightarrow> table' b = table b)"
proof -
  obtain sec where sec: "archSection a ms tail = Inr sec"
    using assms(1) by (auto simp: stubStep_def andThen_Inr_iff)
  show ?thesis
  proof (cases sec)
    case None
    then have "ms = []"
      using sec by (auto simp: archSection_def Let_def andThen_Inr_iff split: list.splits option.splits if_splits)
    then show ?thesis using assms(1,2,4) sec None by (auto simp: stubStep_def entry_ok_def)
  next
    case (Some rules)
    note sec = sec [unfolded Some]
    have "tail' = rules @ tail" "table' = table(a \<mapsto> length (rules @ tail))"
      using assms(1) sec by (auto simp: stubStep_def)
    then show ?thesis
      using archSection_exec(1) [OF sec assms(2,3), of ext d prog] archSection_exec(2) [OF sec assms(2,3)] assms(2)
      by (auto simp: entry_ok_def stub_ok_def)
  qed
qed

text \<open>After the first loop every architecture has a correct entry.\<close>

lemma stubSteps_Inr:
  assumes "foldRes stubStep ls (tail, table) = Inr (tail', table')"
    and "stub_ok tail" and "length tail + 7 * length ls < 2 ^ 31"
    and "distinct (map fst ls)" and "\<forall>a \<in> fst ` set ls. table a = None"
  shows "length tail' \<le> length tail + 7 * length ls \<and> (\<exists>pre. tail' = pre @ tail) \<and>
    (\<forall>(a, ms) \<in> set ls. entry_ok ext d prog tail' table' a ms) \<and>
    (\<forall>b. b \<notin> fst ` set ls \<longrightarrow> table' b = table b)"
  using assms
proof (induction ls arbitrary: tail table)
  case Nil
  then show ?case by simp
next
  case (Cons e ls)
  obtain a ms where e: "e = (a, ms)" by fastforce
  obtain t1 tb1 where one: "stubStep (a, ms) (tail, table) = Inr (t1, tb1)"
    and rest: "foldRes stubStep ls (t1, tb1) = Inr (tail', table')"
    using Cons.prems(1) by (auto simp: e andThen_Inr_iff)
  note st = stubStep_Inr [OF one, of ext d prog]
  have st: "stub_ok t1" "length t1 \<le> length tail + 7" "\<exists>pre. t1 = pre @ tail"
      "entry_ok ext d prog t1 tb1 a ms" "\<forall>b. b \<noteq> a \<longrightarrow> tb1 b = table b"
    using st Cons.prems by (simp_all add: e)
  have "length t1 + 7 * length ls < 2 ^ 31" using st(2) Cons.prems(3) by simp
  moreover have "\<forall>b \<in> fst ` set ls. tb1 b = None"
    using st(5) Cons.prems(4,5) by (auto simp: e) (metis image_eqI fst_conv)
  moreover have "distinct (map fst ls)" using Cons.prems(4) by simp
  ultimately have ih: "length tail' \<le> length t1 + 7 * length ls" "\<exists>pre. tail' = pre @ t1"
      "\<forall>(a, ms) \<in> set ls. entry_ok ext d prog tail' table' a ms" "\<forall>b. b \<notin> fst ` set ls \<longrightarrow> table' b = tb1 b"
    using Cons.IH [OF rest st(1)] by simp_all
  have "a \<notin> fst ` set ls" using Cons.prems(4) by (simp add: e)
  then have "table' a = tb1 a" using ih(4) by simp
  moreover obtain pre where pre: "tail' = pre @ t1" using ih(2) by blast
  ultimately have "entry_ok ext d prog tail' table' a ms"
    using entry_ok_prepend [OF st(4), of pre] by (simp add: entry_ok_def)
  moreover have "\<exists>pre. tail' = pre @ tail" using pre st(3) by auto
  ultimately show ?case using ih st(2,5) by (auto simp: e)
qed

text \<open>Where the second loop sends a call, by the entry of its architecture.\<close>

definition tableTarget :: "('o \<Rightarrow> u32 \<times> 's \<Rightarrow> u32 \<times> 's) \<Rightarrow> seccomp_data \<Rightarrow> 'o stub \<Rightarrow> 'o stub \<Rightarrow> archJumpTable \<Rightarrow>
    u32 \<times> 's \<Rightarrow> u32 option" where
  "tableTarget ext d prog tail table s =
     (case table (sd_arch d) of
        None \<Rightarrow> exec ext d prog s
      | Some n \<Rightarrow> exec ext d (drop (length tail - n) tail @ prog) s)"

lemma archJump_exec:
  assumes "T = pre @ tail" and "\<forall>n. table a = Some n \<longrightarrow> n \<le> length tail" and "length T < 2 ^ 31"
    and "fst s = sd_arch d"
  shows "exec ext d (archJump table a T @ prog) s =
    (if a = sd_arch d then tableTarget ext d prog tail table s else exec ext d (T @ prog) s)"
proof -
  define jump where "jump = length T - (case table a of None \<Rightarrow> 0 | Some n \<Rightarrow> n)"
  have "jump < 2 ^ 31" using assms(3) by (simp add: jump_def split: option.splits)
  then have sk: "unat (skip32 jump) = jump" by (simp add: skips)
  have sk8: "unat (skip8 jump) = jump" if "jump \<le> 255" using that by (simp add: skips)
  have "exec ext d (drop jump (T @ prog)) s = tableTarget ext d prog tail table s" if "a = sd_arch d"
    using assms(1,2) that by (auto simp: tableTarget_def jump_def split: option.splits)
  moreover have "archJump table a T =
      (if jump \<le> 255 then JumpIf JumpEqual a (skip8 jump) 0 # T
       else JumpIf JumpNotEqual a 1 0 # BpfJump (skip32 jump) # T)"
    by (simp add: archJump_def Let_def jump_def)
  ultimately show ?thesis
    using assms(4) sk sk8 by auto
qed

lemma archJumps_exec:
  assumes "\<forall>a n. table a = Some n \<longrightarrow> n \<le> length tail" and "length tail + 2 * length order < 2 ^ 31 - 1"
    and "fst s = sd_arch d"
  shows "exec ext d (fold (archJump table) order (BpfJump (skip32 (length tail)) # tail) @ prog) s =
      (if sd_arch d \<in> set order then tableTarget ext d prog tail table s else exec ext d prog s) \<and>
    (\<exists>pre. fold (archJump table) order (BpfJump (skip32 (length tail)) # tail) = pre @ tail \<and>
      length pre \<le> Suc (2 * length order))"
  using assms(2)
proof (induction order rule: rev_induct)
  case Nil
  then show ?case by (auto simp: skips)
next
  case (snoc a order)
  let ?T = "fold (archJump table) order (BpfJump (skip32 (length tail)) # tail)"
  have ih: "exec ext d (?T @ prog) s =
      (if sd_arch d \<in> set order then tableTarget ext d prog tail table s else exec ext d prog s)"
    and "\<exists>pre. ?T = pre @ tail \<and> length pre \<le> Suc (2 * length order)"
    using snoc by simp_all
  then obtain pre where pre: "?T = pre @ tail" "length pre \<le> Suc (2 * length order)" by blast
  have "length ?T < 2 ^ 31" using pre snoc.prems by simp
  then have "exec ext d (archJump table a ?T @ prog) s =
      (if a = sd_arch d then tableTarget ext d prog tail table s else exec ext d (?T @ prog) s)"
    using archJump_exec [OF pre(1) _ _ assms(3)] assms(1) by blast
  moreover have "\<exists>pre'. archJump table a ?T = pre' @ tail \<and> length pre' \<le> Suc (2 * length (order @ [a]))"
    using pre by (auto simp: archJump_def Let_def)
  ultimately show ?case using ih by auto
qed

subsection \<open>The whole stub\<close>

definition enosysAnswer :: "lastSyscallMap \<Rightarrow> seccomp_data \<Rightarrow> bool" where
  "enosysAnswer ls d =
     (case map_of ls (sd_arch d) of None \<Rightarrow> False | Some ms \<Rightarrow> archSays (sd_arch d) ms (sd_nr d))"

lemma stub_exec:
  assumes stub: "generateEnosysStub order ls = Inr stub"
    and ls: "distinct (map fst ls)" "length ls < 2 ^ 27"
    and order: "distinct order" "set order = fst ` set ls"
  shows "\<exists>x \<in> {sd_nr d, sd_arch d}. exec ext d (stub @ prog) s =
    (if enosysAnswer ls d then Some retErrnoEnosys else exec ext d prog (x, snd s))"
proof -
  obtain tail table where loop: "foldRes stubStep ls (baseTail, \<lambda>_. None) = Inr (tail, table)"
    and st: "stub = LoadAbsolute 4 # fold (archJump table) order (BpfJump (skip32 (length tail)) # tail)"
    using stub by (auto simp: generateEnosysStub_def andThen_Inr_iff)
  have base: "stub_ok (baseTail :: 'a stub)" "length (baseTail :: 'a stub) = 2"
    by (simp_all add: baseTail_def stub_ok_def)
  have len: "length tail \<le> 2 + 7 * length ls"
    and entries: "\<forall>(a, ms) \<in> set ls. entry_ok ext d prog tail table a ms"
    and none: "\<forall>b. b \<notin> fst ` set ls \<longrightarrow> table b = None"
    using stubSteps_Inr [OF loop base(1), of ext d prog] ls by (simp_all add: base(2))
  have tbl: "\<forall>a n. table a = Some n \<longrightarrow> n \<le> length tail"
  proof (intro allI impI)
    fix a n assume n: "table a = Some n"
    then have "a \<in> fst ` set ls" using none by fastforce
    then obtain ms where "(a, ms) \<in> set ls" by force
    then have "entry_ok ext d prog tail table a ms" using entries by blast
    then show "n \<le> length tail" using n by (simp add: entry_ok_def)
  qed
  have "length order = length ls" using order ls(1) by (metis distinct_card length_map list.set_map)
  then have "length tail + 2 * length order < 2 ^ 31 - 1" using len ls(2) by simp
  from archJumps_exec [OF tbl this, of "(sd_arch d, snd s)" d ext prog]
  have run: "exec ext d (stub @ prog) s =
      (if sd_arch d \<in> fst ` set ls then tableTarget ext d prog tail table (sd_arch d, snd s)
       else exec ext d prog (sd_arch d, snd s))"
    by (simp add: st order(2) loadWord_def)
  show ?thesis
  proof (cases "sd_arch d \<in> fst ` set ls")
    case False
    then have "map_of ls (sd_arch d) = None" by (simp add: map_of_eq_None_iff)
    then show ?thesis using run False by (simp add: enosysAnswer_def)
  next
    case True
    then obtain ms where m: "map_of ls (sd_arch d) = Some ms" by (metis map_of_eq_None_iff not_None_eq)
    then have "entry_ok ext d prog tail table (sd_arch d) ms" using entries map_of_SomeD by fastforce
    then show ?thesis
      using run True m
      by (auto simp: enosysAnswer_def entry_ok_def tableTarget_def archSays_def split: option.splits)
  qed
qed

subsection \<open>The largest numbers\<close>

lemma scmpArchToAuditArch_known:
  "a \<noteq> ArchNative \<Longrightarrow> scmpArchToAuditArch ev a =
    Some (case knownAuditArch a of Some v \<Rightarrow> Inr v | None \<Rightarrow> Inl (UnknownArch a))"
  by (subst scmpArchToAuditArch.simps) simp

lemma scmpArchToAuditArch_returns:
  assumes "le_NativeArch ev \<noteq> Inr ArchNative"
  shows "\<exists>r. scmpArchToAuditArch ev a = Some r"
proof (cases "a = ArchNative")
  case True
  then show ?thesis
    using assms by (subst scmpArchToAuditArch.simps) (auto simp: scmpArchToAuditArch_known split: sum.splits)
qed (simp add: scmpArchToAuditArch_known)

lemma largestSyscall_max:
  fixes ev :: scmp_env and arch :: ScmpArch
  defines "best \<equiv> (\<lambda>rule largest. case le_Syscall ev (sc_Name rule) arch of None \<Rightarrow> largest
      | Some sysno \<Rightarrow> if sint largest < sint (sysno :: u32) then sysno else largest)"
  shows "sint m \<le> sint (fold best rules m) \<and>
    (\<forall>rule \<in> set rules. \<forall>n. le_Syscall ev (sc_Name rule) arch = Some n \<longrightarrow> sint n \<le> sint (fold best rules m)) \<and>
    (fold best rules m = m \<or> (\<exists>rule \<in> set rules. le_Syscall ev (sc_Name rule) arch = Some (fold best rules m)))"
proof (induction rules arbitrary: m)
  case Nil
  then show ?case by simp
next
  case (Cons r rules)
  have "sint m \<le> sint (best r m) \<and> (\<forall>n. le_Syscall ev (sc_Name r) arch = Some n \<longrightarrow> sint n \<le> sint (best r m)) \<and>
      (best r m = m \<or> le_Syscall ev (sc_Name r) arch = Some (best r m))"
    by (auto simp: best_def split: option.splits)
  moreover note Cons.IH [of "best r m"]
  ultimately show ?case by (auto intro: order_trans)
qed

lemma uint_eq_sint: "0 \<le> sint n \<Longrightarrow> uint n = sint (n :: u32)"
  using sint_lt [of n] by (simp add: uint_sint take_bit_int_eq_self)

lemma sint_le_imp_le: "0 \<le> sint n \<Longrightarrow> sint n \<le> sint m \<Longrightarrow> n \<le> (m :: u32)"
  using uint_eq_sint [of n] uint_eq_sint [of m] by (simp add: word_le_def)

text \<open>What the map of largest numbers holds after the loop over a list of architectures.\<close>

definition last_inv :: "scmp_env \<Rightarrow> Seccomp \<Rightarrow> ScmpArch set \<Rightarrow> lastSyscallMap \<Rightarrow> bool" where
  "last_inv ev config seen ls \<longleftrightarrow>
     distinct (map fst ls) \<and>
     (\<forall>a \<in> fst ` set ls. \<exists>arch. knownAuditArch arch = Some a) \<and>
     (\<forall>(a, ms) \<in> set ls. distinct (map fst ms) \<and>
        (\<forall>(arch, n) \<in> set ms. arch \<in> seen \<and> knownAuditArch arch = Some a \<and>
            n = largestSyscall ev config arch \<and> n \<noteq> 0)) \<and>
     (\<forall>arch \<in> seen. \<forall>a. knownAuditArch arch = Some a \<longrightarrow>
        (\<exists>ms. (a, ms) \<in> set ls \<and> (largestSyscall ev config arch \<noteq> 0 \<longrightarrow> arch \<in> fst ` set ms)))"

lemma last_invD:
  assumes "last_inv ev config seen ls"
  shows "distinct (map fst ls)"
    and "(a, ms) \<in> set ls \<Longrightarrow> distinct (map fst ms)"
    and "(a, ms) \<in> set ls \<Longrightarrow> (x, n) \<in> set ms \<Longrightarrow>
      x \<in> seen \<and> knownAuditArch x = Some a \<and> n = largestSyscall ev config x \<and> n \<noteq> 0"
    and "arch \<in> seen \<Longrightarrow> knownAuditArch arch = Some a \<Longrightarrow>
      \<exists>ms. (a, ms) \<in> set ls \<and> (largestSyscall ev config arch \<noteq> 0 \<longrightarrow> arch \<in> fst ` set ms)"
    and "a \<in> fst ` set ls \<Longrightarrow> \<exists>arch. knownAuditArch arch = Some a"
  using assms unfolding last_inv_def by (blast, fast, fast, blast, blast)

text \<open>There are only so many architectures.\<close>

lemma last_inv_length:
  assumes "last_inv ev config seen ls"
  shows "length ls \<le> 16"
proof -
  let ?known = "[0x40000003, C_AUDIT_ARCH_X86_64, 0x40000028, 0xC00000B7, 8, 0x80000008, 0xA0000008, 0x40000008,
    0xC0000008, 0xE0000008, 0x14, 0x80000015, 0xC0000015, 0x16, 0x80000016, 0xC00000F3] :: u32 list"
  have "knownAuditArch arch = Some a \<Longrightarrow> a \<in> set ?known" for arch a
    by (cases arch) simp_all
  then have "fst ` set ls \<subseteq> set ?known" using last_invD(5) [OF assms] by blast
  then have "card (fst ` set ls) \<le> length ?known" by (meson List.finite_set card_length card_mono order_trans)
  moreover have "card (fst ` set ls) = length ls"
    using last_invD(1) [OF assms] by (metis distinct_card length_map list.set_map)
  ultimately show ?thesis by simp
qed

lemma lastSyscallStep_inv:
  assumes step: "lastSyscallStep ev config arch ls = Some (Inr ls')"
    and inv: "last_inv ev config seen ls" and arch: "arch \<noteq> ArchNative"
  shows "last_inv ev config (insert arch seen) ls'"
proof -
  obtain a where a: "knownAuditArch arch = Some a"
    using step arch by (auto simp: lastSyscallStep_def scmpArchToAuditArch_known split: option.splits)
  let ?n = "largestSyscall ev config arch"
  define ls1 where "ls1 = ensureArch a ls"
  have d1: "distinct (map fst ls1)"
    using inv by (auto simp: ls1_def ensureArch_def last_inv_def)
  have k1: "\<forall>b \<in> fst ` set ls1. \<exists>x. knownAuditArch x = Some b"
    using inv a by (auto simp: ls1_def ensureArch_def last_inv_def)
  have e1: "\<forall>(b, ms) \<in> set ls1. distinct (map fst ms) \<and>
      (\<forall>(x, n) \<in> set ms. x \<in> seen \<and> knownAuditArch x = Some b \<and> n = largestSyscall ev config x \<and> n \<noteq> 0)"
    using inv by (auto simp: ls1_def ensureArch_def last_inv_def)
  have s1: "\<forall>x \<in> seen. \<forall>b. knownAuditArch x = Some b \<longrightarrow>
      (\<exists>ms. (b, ms) \<in> set ls1 \<and> (largestSyscall ev config x \<noteq> 0 \<longrightarrow> x \<in> fst ` set ms))"
    using inv by (force simp: ls1_def ensureArch_def last_inv_def)
  have "a \<in> fst ` set ls1" by (force simp: ls1_def ensureArch_def)
  then obtain ms where ms: "(a, ms) \<in> set ls1" by force
  let ?there = "\<exists>(b, ms) \<in> set ls1. b = a \<and> arch \<in> fst ` set ms"
  have c: "lastSyscallStep ev config arch ls =
      (if ?there then Some (Inr ls1)
       else if ?n \<noteq> 0 then Some (Inr (setLast a arch ?n ls1)) else Some (Inr ls1))"
    by (simp add: lastSyscallStep_def scmpArchToAuditArch_known arch a Let_def ls1_def)
  consider (there) "\<exists>(b, ms) \<in> set ls1. b = a \<and> arch \<in> fst ` set ms" "ls' = ls1"
    | (new) "\<not> (\<exists>(b, ms) \<in> set ls1. b = a \<and> arch \<in> fst ` set ms)" "?n \<noteq> 0" "ls' = setLast a arch ?n ls1"
    | (zero) "?n = 0" "ls' = ls1"
    using step unfolding c by (cases ?there; cases "?n = 0") simp_all
  then show ?thesis
  proof cases
    case there
    then have "\<exists>ms. (a, ms) \<in> set ls1 \<and> (?n \<noteq> 0 \<longrightarrow> arch \<in> fst ` set ms)" by blast
    then show ?thesis unfolding last_inv_def there(2) using d1 k1 e1 s1 a by auto
  next
    case zero
    then show ?thesis unfolding last_inv_def zero(2) using d1 k1 e1 s1 a ms by auto
  next
    case new
    have same: "map fst ls' = map fst ls1" by (auto simp: new setLast_def)
    then have "distinct (map fst ls')" using d1 by simp
    moreover have "\<forall>b \<in> fst ` set ls'. \<exists>x. knownAuditArch x = Some b"
      using k1 same by (metis list.set_map)
    moreover have "\<forall>(b, ms) \<in> set ls'. distinct (map fst ms) \<and>
      (\<forall>(x, n) \<in> set ms. x \<in> insert arch seen \<and> knownAuditArch x = Some b \<and> n = largestSyscall ev config x \<and> n \<noteq> 0)"
      using e1 new(1,2) a by (fastforce simp: new(3) setLast_def split: if_splits)
    moreover have "\<exists>ms. (b, ms) \<in> set ls' \<and> (largestSyscall ev config x \<noteq> 0 \<longrightarrow> x \<in> fst ` set ms)"
      if x: "x \<in> seen" "knownAuditArch x = Some b" for x b
    proof -
      obtain ms where "(b, ms) \<in> set ls1" "largestSyscall ev config x \<noteq> 0 \<longrightarrow> x \<in> fst ` set ms"
        using s1 x by blast
      then show ?thesis
        by (intro exI [of _ "if b = a then ms @ [(arch, ?n)] else ms"]) (force simp: new(3) setLast_def)
    qed
    moreover have "(a, ms @ [(arch, ?n)]) \<in> set ls'" using ms by (force simp: new(3) setLast_def)
    ultimately show ?thesis unfolding last_inv_def using a by fastforce
  qed
qed

lemma lastSyscallLoop_inv:
  "lastSyscallLoop ev config as ls = Some (Inr ls') \<Longrightarrow> last_inv ev config seen ls \<Longrightarrow> ArchNative \<notin> set as \<Longrightarrow>
   last_inv ev config (seen \<union> set as) ls'"
proof (induction as arbitrary: ls seen)
  case Nil
  then show ?case by simp
next
  case (Cons a as)
  then obtain ls1 where "lastSyscallStep ev config a ls = Some (Inr ls1)" "lastSyscallLoop ev config as ls1 = Some (Inr ls')"
    by (auto split: option.splits sum.splits)
  with lastSyscallStep_inv [OF this(1) Cons.prems(2)] Cons.IH Cons.prems(3) show ?case by fastforce
qed

text \<open>
  What the code relies on of libseccomp: names stand for actual architectures, the native one is an
  actual one, and iterating over a map visits each key once.
\<close>

definition scmp_ok :: "scmp_env \<Rightarrow> bool" where
  "scmp_ok ev \<longleftrightarrow>
     (\<forall>s. le_ArchFromString ev s \<noteq> Inr ArchNative) \<and> le_NativeArch ev \<noteq> Inr ArchNative \<and>
     (\<forall>xs. distinct xs \<longrightarrow> distinct (le_ArchOrder ev xs) \<and> set (le_ArchOrder ev xs) = set xs) \<and>
     (\<forall>xs. distinct xs \<longrightarrow> distinct (le_AuditOrder ev xs) \<and> set (le_AuditOrder ev xs) = set xs)"

lemma configuredArchs_ok:
  assumes "configuredArchs ev config = Inr as" and "scmp_ok ev"
  shows "distinct as \<and> ArchNative \<notin> set as"
proof -
  obtain xs nat_arch where xs: "mapRes (\<lambda>s. case le_ArchFromString ev s of Inl e \<Rightarrow> Inl (ArchError e) | Inr a \<Rightarrow> Inr a)
      (se_Architectures config) = Inr xs" and n: "le_NativeArch ev = Inr nat_arch"
    and as: "as = remdups (if nat_arch \<in> set xs then xs else xs @ [nat_arch])"
    using assms(1) by (cases "le_NativeArch ev") (auto simp: configuredArchs_def andThen_Inr_iff)
  have "ArchNative \<notin> set ys"
    if "mapRes (\<lambda>s. case le_ArchFromString ev s of Inl e \<Rightarrow> Inl (ArchError e) | Inr a \<Rightarrow> Inr a) ss = Inr ys" for ss ys
    using that assms(2) by (induction ss arbitrary: ys) (auto simp: andThen_Inr_iff scmp_ok_def split: sum.splits)
  then show ?thesis using xs n assms(2) by (auto simp: as scmp_ok_def)
qed

lemma findLastSyscalls_inv:
  assumes "findLastSyscalls ev config = Some (Inr ls)" and "scmp_ok ev"
  obtains as where "configuredArchs ev config = Inr as" "last_inv ev config (set as) ls"
proof -
  obtain as where as: "configuredArchs ev config = Inr as"
    and l: "lastSyscallLoop ev config (le_ArchOrder ev as) [] = Some (Inr ls)"
    using assms(1) by (auto simp: findLastSyscalls_def split: sum.splits)
  have o': "set (le_ArchOrder ev as) = set as" "ArchNative \<notin> set as"
    using configuredArchs_ok [OF as assms(2)] assms(2) by (auto simp: scmp_ok_def)
  have "last_inv ev config {} []" by (simp add: last_inv_def)
  from lastSyscallLoop_inv [OF l this] o' have "last_inv ev config (set as) ls" by simp
  then show ?thesis using as that by blast
qed

lemma knownAuditArch_inj:
  "knownAuditArch x = Some a \<Longrightarrow> knownAuditArch y = Some a \<Longrightarrow> x \<noteq> y \<Longrightarrow>
   a = C_AUDIT_ARCH_X86_64 \<and> (x = ArchAMD64 \<and> y = ArchX32 \<or> x = ArchX32 \<and> y = ArchAMD64)"
  by (cases x; cases y) (simp_all add: C_AUDIT_ARCH_X86_64_def)

lemma knownAuditArch_x86:
  "knownAuditArch x = Some C_AUDIT_ARCH_X86_64 \<Longrightarrow> x = ArchAMD64 \<or> x = ArchX32"
  by (cases x) (simp_all add: C_AUDIT_ARCH_X86_64_def)

text \<open>Only x86_64 has two modes.\<close>

lemma modes_cases:
  assumes "distinct (map fst ms)" and "\<forall>(arch, n) \<in> set ms. knownAuditArch arch = Some a"
  obtains (none) "ms = []" | (one) arch n where "ms = [(arch, n)]" "knownAuditArch arch = Some a"
    | (two) x n y m where "ms = [(x, n), (y, m)]" "a = C_AUDIT_ARCH_X86_64"
        "x = ArchAMD64 \<and> y = ArchX32 \<or> x = ArchX32 \<and> y = ArchAMD64"
proof (cases ms)
  case Nil
  then show ?thesis by (rule none)
next
  case (Cons p ms1)
  obtain x n where p: "p = (x, n)" by fastforce
  show ?thesis
  proof (cases ms1)
    case Nil
    then show ?thesis using one assms Cons p by simp
  next
    case (Cons q ms2)
    obtain y m where q: "q = (y, m)" by fastforce
    note ms = \<open>ms = p # ms1\<close> [unfolded Cons p q]
    have xy: "x \<noteq> y" "knownAuditArch x = Some a" "knownAuditArch y = Some a" using assms by (auto simp: ms)
    note two' = knownAuditArch_inj [OF xy(2,3,1)]
    have "ms2 = []"
    proof (rule ccontr)
      assume "ms2 \<noteq> []"
      then obtain z k ms3 where "ms2 = (z, k) # ms3" by (metis list.exhaust surj_pair)
      then have "z \<noteq> x" "z \<noteq> y" "knownAuditArch z = Some a" using assms by (auto simp: ms)
      then show False using two' knownAuditArch_x86 [of z] by auto
    qed
    then show ?thesis using two two' ms by blast
  qed
qed

lemma archSection_succeeds:
  assumes "distinct (map fst ms)" and "\<forall>(arch, n) \<in> set ms. knownAuditArch arch = Some a"
  shows "\<exists>r. archSection a ms tail = Inr r"
  using assms
proof (cases rule: modes_cases)
  case (one arch n)
  then show ?thesis using knownAuditArch_x86 [of arch]
    by (auto simp: archSection_def Let_def modePrefix_def)
qed (auto simp: archSection_def Let_def)

lemma stubSteps_succeed:
  "\<forall>(a, ms) \<in> set ls. distinct (map fst ms) \<and> (\<forall>(arch, n) \<in> set ms. knownAuditArch arch = Some a) \<Longrightarrow>
   \<exists>r. foldRes stubStep ls st = Inr r"
proof (induction ls arbitrary: st)
  case Nil
  then show ?case by simp
next
  case (Cons e ls)
  obtain a ms where e: "e = (a, ms)" by fastforce
  obtain tail table where st: "st = (tail, table)" by fastforce
  obtain r where "archSection a ms tail = Inr r" using archSection_succeeds [of ms a tail] Cons.prems by (auto simp: e)
  then have "\<exists>st'. stubStep e st = Inr st'" by (auto simp: stubStep_def e st split: option.splits)
  then show ?case using Cons by auto
qed

lemma last_inv_stub:
  "last_inv ev config seen ls \<Longrightarrow> \<exists>stub :: 'o stub. generateEnosysStub order ls = Inr stub"
proof -
  assume inv: "last_inv ev config seen ls"
  have "\<forall>(a, ms) \<in> set ls. distinct (map fst ms) \<and> (\<forall>(arch, n) \<in> set ms. knownAuditArch arch = Some a)"
    using last_invD(2,3) [OF inv] by blast
  from stubSteps_succeed [OF this, of "(baseTail :: 'o stub, \<lambda>_. None)"]
  show ?thesis by (auto simp: generateEnosysStub_def)
qed

lemma last_inv_answer:
  assumes inv: "last_inv ev config seen ls" and arch: "arch \<in> seen" "knownAuditArch arch = Some (sd_arch d)"
    and mode: "sd_arch d = C_AUDIT_ARCH_X86_64 \<longrightarrow> (sd_nr d AND x32Bit \<noteq> 0 \<longleftrightarrow> arch = ArchX32)"
    and mux: "arch = ArchS390 \<or> arch = ArchS390X \<longrightarrow> sd_nr d \<noteq> s390xMultiplexSyscall"
  shows "enosysAnswer ls d \<longleftrightarrow> largestSyscall ev config arch \<noteq> 0 \<and> largestSyscall ev config arch < sd_nr d"
proof -
  let ?n = "largestSyscall ev config arch"
  obtain ms where ms: "(sd_arch d, ms) \<in> set ls" "?n \<noteq> 0 \<longrightarrow> arch \<in> fst ` set ms"
    using last_invD(4) [OF inv arch] by blast
  then have look: "map_of ls (sd_arch d) = Some ms" using last_invD(1) [OF inv] by simp
  then have ans: "enosysAnswer ls d \<longleftrightarrow> archSays (sd_arch d) ms (sd_nr d)" by (simp add: enosysAnswer_def)
  have dm: "distinct (map fst ms)" using last_invD(2) [OF inv ms(1)] .
  have all: "\<forall>(x, n) \<in> set ms. x \<in> seen \<and> knownAuditArch x = Some (sd_arch d) \<and>
      n = largestSyscall ev config x \<and> n \<noteq> 0"
    using last_invD(3) [OF inv ms(1)] by blast
  then have "\<forall>(x, n) \<in> set ms. knownAuditArch x = Some (sd_arch d)" by blast
  with dm show ?thesis
  proof (cases rule: modes_cases)
    case none
    then show ?thesis using ms(2) by (simp add: ans archSays_def)
  next
    case (one x n)
    show ?thesis
    proof (cases "x = arch")
      case True
      then have "n = ?n" "?n \<noteq> 0" using all one by auto
      then show ?thesis using one True mode mux by (auto simp: ans archSays_def)
    next
      case False
      note m = knownAuditArch_inj [OF one(2) arch(2) False]
      have "?n = 0" using ms(2) one False by auto
      moreover have "\<not> archSays (sd_arch d) ms (sd_nr d)" using m mode by (auto simp: one(1) archSays_def)
      ultimately show ?thesis by (simp add: ans)
    qed
  next
    case (two x n y m)
    then have a: "arch = ArchAMD64 \<or> arch = ArchX32" using knownAuditArch_x86 arch(2) by simp
    have "(arch = x \<longrightarrow> n = ?n) \<and> (arch = y \<longrightarrow> m = ?n) \<and> (arch = x \<or> arch = y)"
      using all two a by auto
    moreover have "?n \<noteq> 0" using all two a by auto
    ultimately show ?thesis using two mode a by (auto simp: ans archSays_def)
  qed
qed

subsection \<open>Properties\<close>

text \<open>C20. The ENOSYS stub is correct for every map of largest numbers and in front of every program:
  with the stub, a call of an architecture whose mode (x86_64 or x32) has a largest number gets
  ENOSYS exactly when its number is above it, as does setup on s390; every other call is
  decided by the program behind the stub, entered at its start. Whatever orders the two loops take.\<close>

theorem enosys_stub_correct:
  assumes "generateEnosysStub order ls = Inr stub"
    and "distinct (map fst ls)" and "length ls < 2 ^ 27"
    and "distinct order" and "set order = fst ` set ls"
  shows "\<exists>x \<in> {sd_nr d, sd_arch d}. exec ext d (stub @ prog) s =
    (if enosysAnswer ls d then Some retErrnoEnosys else exec ext d prog (x, snd s))"
  using assms by (rule stub_exec)

definition exampleCall :: "u32 \<Rightarrow> seccomp_data" where
  "exampleCall n = \<lparr>sd_nr = n, sd_arch = C_AUDIT_ARCH_X86_64, sd_word = (\<lambda>_. 0)\<rparr>"

theorem enosys_stub_correct_witness:
  "\<exists>stub :: unit stub. generateEnosysStub [C_AUDIT_ARCH_X86_64] [(C_AUDIT_ARCH_X86_64, [(ArchAMD64, 334)])] = Inr stub \<and>
    exec (\<lambda>_ st. st) (exampleCall 335) (stub @ [RetConstant 0x7FFF0000]) (0, ()) = Some retErrnoEnosys \<and>
    exec (\<lambda>_ st. st) (exampleCall 334) (stub @ [RetConstant 0x7FFF0000]) (0, ()) = Some 0x7FFF0000"
proof -
  let ?ls = "[(C_AUDIT_ARCH_X86_64, [(ArchAMD64, 334)])] :: lastSyscallMap"
  obtain stub :: "unit stub" where stub: "generateEnosysStub [C_AUDIT_ARCH_X86_64] ?ls = Inr stub"
    by (auto simp: generateEnosysStub_def stubStep_def archSection_def modePrefix_def Let_def)
  note run = enosys_stub_correct [OF stub, of _ "\<lambda>_ st. st" "[RetConstant 0x7FFF0000]" "(0, ())"]
  have "exec (\<lambda>_ st. st) (exampleCall 335) (stub @ [RetConstant 0x7FFF0000]) (0, ()) = Some retErrnoEnosys"
    using run [of "exampleCall 335"] by (simp add: enosysAnswer_def exampleCall_def archSays_def x32Bit_def)
  moreover have "exec (\<lambda>_ st. st) (exampleCall 334) (stub @ [RetConstant 0x7FFF0000]) (0, ()) = Some 0x7FFF0000"
    using run [of "exampleCall 334"]
    by (simp add: enosysAnswer_def exampleCall_def archSays_def x32Bit_def s390xMultiplexSyscall_def)
  ultimately show ?thesis using stub by blast
qed


definition exampleScmp :: scmp_env where
  "exampleScmp =
     \<lparr>le_ArchFromString = (\<lambda>s. if s = ''amd64'' then Inr ArchAMD64 else Inl s),
      le_NativeArch = Inr ArchAMD64,
      le_Syscall = (\<lambda>s a. if s = ''read'' then Some 0 else if s = ''openat2'' then Some 437 else None),
      le_ArchOrder = id, le_AuditOrder = id\<rparr>"

definition exampleStubProfile :: Seccomp where
  "exampleStubProfile =
     \<lparr>se_DefaultAction = Errno, se_Architectures = [''amd64''],
      se_Syscalls = [\<lparr>sc_Name = ''openat2'', sc_Action = Allow, sc_ErrnoRet = None, sc_Args = []\<rparr>,
        \<lparr>sc_Name = ''read'', sc_Action = Allow, sc_ErrnoRet = None, sc_Args = []\<rparr>],
      se_DefaultErrnoRet = Some 38, se_ListenerPath = [], se_ListenerMetadata = []\<rparr>"

lemma example_ok: "scmp_ok exampleScmp"
  by (simp add: scmp_ok_def exampleScmp_def)

lemma example_archs: "configuredArchs exampleScmp exampleStubProfile = Inr [ArchAMD64]"
  by (simp add: configuredArchs_def exampleScmp_def exampleStubProfile_def)

lemma example_largest: "largestSyscall exampleScmp exampleStubProfile ArchAMD64 = 437"
  by (simp add: largestSyscall_def exampleScmp_def exampleStubProfile_def)

lemma example_patch: "\<exists>patch :: unit stub. generatePatch exampleScmp exampleStubProfile = Some (Inr patch) \<and> patch \<noteq> []"
proof -
  have order: "le_ArchOrder exampleScmp = id" "le_AuditOrder exampleScmp = id" by (simp_all add: exampleScmp_def)
  have "findLastSyscalls exampleScmp exampleStubProfile = Some (Inr [(C_AUDIT_ARCH_X86_64, [(ArchAMD64, 437)])])"
    by (simp add: findLastSyscalls_def example_archs order lastSyscallStep_def scmpArchToAuditArch_known
        ensureArch_def setLast_def example_largest)
  moreover have "se_DefaultErrnoRet exampleStubProfile \<noteq> Some (ucast retErrnoEnosys)"
      "\<not> isAllowAction (se_DefaultAction exampleStubProfile)"
    by (simp_all add: exampleStubProfile_def retErrnoEnosys_def)
  ultimately show ?thesis
    by (auto simp: generatePatch_def order generateEnosysStub_def stubStep_def archSection_def modePrefix_def Let_def)
qed


text \<open>Patching always returns: whatever the configuration, generating the stub ends, and it fails
  only for an architecture name libseccomp does not know or one without an audit value; the
  internal errors of the generator (overlaps, missing or unknown modes) never occur.\<close>

theorem patch_returns:
  assumes "scmp_ok ev"
  shows "\<exists>r. generatePatch ev config = Some r \<and>
    (\<forall>err. r = Inl err \<longrightarrow>
      (\<exists>e. err = ArchError e \<or> err = NativeArchError e) \<or> (\<exists>arch. err = UnknownArch arch \<and> knownAuditArch arch = None))"
proof -
  have loop: "\<exists>r. lastSyscallLoop ev config as ls = Some r \<and>
      (\<forall>err. r = Inl err \<longrightarrow> (\<exists>arch. err = UnknownArch arch \<and> knownAuditArch arch = None))"
    if "ArchNative \<notin> set as" for as ls
    using that
    by (induction as arbitrary: ls)
       (auto simp: lastSyscallStep_def scmpArchToAuditArch_known Let_def split: option.splits if_splits)
  have archs: "\<exists>e. err = ArchError e \<or> err = NativeArchError e" if "configuredArchs ev config = Inl err" for err
  proof -
    have "\<exists>e. x = ArchError e" if "mapRes (\<lambda>s. case le_ArchFromString ev s of Inl e \<Rightarrow> Inl (ArchError e) | Inr a \<Rightarrow> Inr a) ss = Inl x"
      for ss x
      using that by (induction ss arbitrary: x) (auto simp: andThen_Inl_iff split: sum.splits)
    then show ?thesis
      using that by (cases "le_NativeArch ev") (auto simp: configuredArchs_def andThen_Inl_iff)
  qed
  show ?thesis
  proof (cases "configuredArchs ev config")
    case (Inl err)
    then have "findLastSyscalls ev config = Some (Inl err)" by (simp add: findLastSyscalls_def)
    then show ?thesis using archs [OF Inl] by (auto simp: generatePatch_def)
  next
    case (Inr as)
    have "ArchNative \<notin> set (le_ArchOrder ev as)"
      using configuredArchs_ok [OF Inr assms] assms by (auto simp: scmp_ok_def)
    from loop [OF this, of "[]"] obtain r where r: "findLastSyscalls ev config = Some r"
      "\<forall>err. r = Inl err \<longrightarrow> (\<exists>arch. err = UnknownArch arch \<and> knownAuditArch arch = None)"
      by (auto simp: findLastSyscalls_def Inr)
    show ?thesis
    proof (cases r)
      case (Inl err)
      then show ?thesis using r by (auto simp: generatePatch_def)
    next
      case (Inr ls)
      then obtain as' where "last_inv ev config (set as') ls"
        using findLastSyscalls_inv [OF _ assms, of config ls] r(1) by metis
      from last_inv_stub [OF this] obtain stub :: "'a stub" where
        "generateEnosysStub (le_AuditOrder ev (map fst ls)) ls = Inr stub" by blast
      then show ?thesis using r(1) Inr by (auto simp: generatePatch_def)
    qed
  qed
qed

theorem patch_returns_witness:
  "\<exists>r. (generatePatch exampleScmp (exampleStubProfile\<lparr>se_Architectures := [''vax'']\<rparr>) :: (patch_error + unit stub) option) = Some r"
  using patch_returns [OF example_ok] by blast

end
