(* ===== verification/Fscommon.thy ===== *)
theory Fscommon imports Configs Cgutils DeviceFilter begin

text \<open>
  Reading and writing cgroup files as the managers do (cgroups/file.go, cgroups/fscommon/). The
  file system is explicit state: a function takes the state of the kernel and returns its result with
  the state after it. What the kernel does for a call is a parameter, the record \<open>world\<close>; the
  state is of any type.
\<close>

subsection \<open>Fallible actions on the state\<close>

datatype fs_error =
    NoDir string                      \<comment> \<open>no directory given for a file\<close>
  | SysErr sys_error                  \<comment> \<open>the errno of a system call, possibly with a message around it\<close>
  | ReadErr string
  | ScanErr scan_error
  | NumErr num_error
  | NotKeyValue string
  | ParseErr string string fs_error   \<comment> \<open>fscommon.ParseError with path, file and cause\<close>
  | MalformedLine string
  | EmptyFile
  | ExtraDash
  | MinAboveMax
  | BadRdmaEntry
  | MemoryLimitBusy int u64 u64
  | BadSwappiness u64
  | SharesTooLarge u64
  | SharesTooSmall u64
  | UnexpectedState string
  | UnableToFreeze
  | BadFreezerState string
  | UnknownFreezerState string
  | UnknownSelfFreezing string
  | DeviceErr emu_error
  | DeviceMismatch
  | DeviceModeMismatch
  | NoSubsystem
  | V1NoUnified
  | NilResources
  | CannotSetLimit string
  | NoFreezerPath
  | BadHandle string
  | InvalidCgroupPath string
  | DomainControllers string string  \<comment> \<open>path and type of a cgroup that cannot have them\<close>
  | InvalidCgroupEntry string
  | CgroupPathNotFound
  | PathAndName
  | FreezerUnsupported fs_error
  | FreezerMismatch FreezerState FreezerState
  | UnknownFreeze string
  | FreezeTimeout
  | IndexOutOfRange                 \<comment> \<open>a panic\<close>
  | SwapConversionErr cg_error
  | DeviceWeightErr string fs_error
  | BadMeminfo string
  | FilterErr filter_error
  | NoDirFD string
  | AttachErr string
  | UnifiedSlashErr string
  | UnifiedFormErr string
  | NoController string string
  | UnifiedWriteErr string fs_error
  | NotConfigured
  | RootlessLimits fs_error
  | StatErrors "fs_error list"

type_synonym ('k, 'a) io = "'k \<Rightarrow> (fs_error + 'a) \<times> 'k"

definition ioRet :: "'a \<Rightarrow> ('k, 'a) io" where "ioRet x s = (Inr x, s)"
definition ioErr :: "fs_error \<Rightarrow> ('k, 'a) io" where "ioErr e s = (Inl e, s)"

text \<open>What to do after an error, and what after a value.\<close>

definition ioCase :: "('k, 'a) io \<Rightarrow> (fs_error \<Rightarrow> ('k, 'b) io) \<Rightarrow> ('a \<Rightarrow> ('k, 'b) io) \<Rightarrow> ('k, 'b) io" where
  "ioCase m h f s = (case m s of (Inl e, s') \<Rightarrow> h e s' | (Inr x, s') \<Rightarrow> f x s')"

definition ioThen :: "('k, 'a) io \<Rightarrow> ('a \<Rightarrow> ('k, 'b) io) \<Rightarrow> ('k, 'b) io" where
  "ioThen m f = ioCase m ioErr f"

definition ioWhen :: "bool \<Rightarrow> ('k, unit) io \<Rightarrow> ('k, unit) io" where
  "ioWhen c m = (if c then m else ioRet ())"

definition ioIgnore :: "('k, 'a) io \<Rightarrow> ('k, unit) io" where
  "ioIgnore m = ioCase m (\<lambda>_. ioRet ()) (\<lambda>_. ioRet ())"

text \<open>Actions in turn, up to the first error.\<close>

fun ioSeq :: "('k, unit) io list \<Rightarrow> ('k, unit) io" where
  "ioSeq [] = ioRet ()"
| "ioSeq (m # ms) = ioThen m (\<lambda>_. ioSeq ms)"

definition ioEach :: "('a \<Rightarrow> ('k, unit) io) \<Rightarrow> 'a list \<Rightarrow> ('k, unit) io" where
  "ioEach f xs = ioSeq (map f xs)"

definition ioLift :: "fs_error + 'a \<Rightarrow> ('k, 'a) io" where
  "ioLift r s = (r, s)"

subsection \<open>The kernel\<close>

record 'k world =
  w_open :: "string \<Rightarrow> string \<Rightarrow> 'k \<Rightarrow> (sys_error + reader) \<times> 'k"
  w_write :: "string \<Rightarrow> string \<Rightarrow> string \<Rightarrow> 'k \<Rightarrow> sys_error option \<times> 'k"
  w_openProcs :: "string \<Rightarrow> 'k \<Rightarrow> sys_error option"  \<comment> \<open>opening cgroup.procs for writing\<close>
  w_mkdirAll :: "string \<Rightarrow> 'k \<Rightarrow> sys_error option \<times> 'k"
  w_mkdir :: "string \<Rightarrow> 'k \<Rightarrow> sys_error option \<times> 'k"
  w_exists :: "string \<Rightarrow> 'k \<Rightarrow> bool"
  w_statfs :: "string \<Rightarrow> 'k \<Rightarrow> sys_error + bool"   \<comment> \<open>whether it is a cgroup file system\<close>
  w_rdmaOrder :: "(string \<rightharpoonup> LinuxRdma) \<Rightarrow> string list"  \<comment> \<open>the order in which the map is iterated\<close>

abbreviation ENOENT :: sys_error where "ENOENT \<equiv> OtherErrno ''ENOENT''"
abbreviation EEXIST :: sys_error where "EEXIST \<equiv> OtherErrno ''EEXIST''"
abbreviation EBUSY :: sys_error where "EBUSY \<equiv> OtherErrno ''EBUSY''"
abbreviation ENODEV :: sys_error where "ENODEV \<equiv> OtherErrno ''ENODEV''"

text \<open>\<open>errors.Is\<close> for an errno.\<close>

fun isErrno :: "sys_error \<Rightarrow> fs_error \<Rightarrow> bool" where
  "isErrno n (SysErr m) = (m = n)"
| "isErrno n (ReadErr s) = (OtherErrno s = n)"
| "isErrno n (ParseErr p f e) = isErrno n e"
| "isErrno n (FreezerUnsupported e) = isErrno n e"
| "isErrno n (DeviceWeightErr w e) = isErrno n e"
| "isErrno n (UnifiedWriteErr k e) = isErrno n e"
| "isErrno n (RootlessLimits e) = isErrno n e"
| "isErrno n _ = False"

text \<open>\<open>cgroups.OpenFile\<close>, \<open>ReadFile\<close> and \<open>WriteFile\<close>; a write repeats while it is interrupted.\<close>

definition openRead :: "'k world \<Rightarrow> string \<Rightarrow> string \<Rightarrow> ('k, reader) io" where
  "openRead W dir file s =
     (if dir = [] then (Inl (NoDir file), s)
      else case w_open W dir file s of
        (Inl e, s') \<Rightarrow> (Inl (SysErr e), s')
      | (Inr r, s') \<Rightarrow> (Inr r, s'))"

definition readFile :: "'k world \<Rightarrow> string \<Rightarrow> string \<Rightarrow> ('k, string) io" where
  "readFile W dir file =
     ioThen (openRead W dir file) (\<lambda>r. case rd_err r of Some e \<Rightarrow> ioErr (ReadErr e) | None \<Rightarrow> ioRet (rd_data r))"

definition writeFile :: "'k world \<Rightarrow> string \<Rightarrow> string \<Rightarrow> string \<Rightarrow> ('k, unit) io" where
  "writeFile W dir file data s =
     (if dir = [] then (Inl (NoDir file), s)
      else case w_write W dir file data s of
        (Some e, s') \<Rightarrow> (Inl (SysErr e), s')
      | (None, s') \<Rightarrow> (Inr (), s'))"

definition mkdirAll :: "'k world \<Rightarrow> string \<Rightarrow> ('k, unit) io" where
  "mkdirAll W path s =
     (case w_mkdirAll W path s of (Some e, s') \<Rightarrow> (Inl (SysErr e), s') | (None, s') \<Rightarrow> (Inr (), s'))"

text \<open>\<open>os.Mkdir\<close> where an existing directory is no error.\<close>

definition mkdirIfMissing :: "'k world \<Rightarrow> string \<Rightarrow> ('k, unit) io" where
  "mkdirIfMissing W path s =
     (case w_mkdir W path s of
        (Some e, s') \<Rightarrow> if e = EEXIST then (Inr (), s') else (Inl (SysErr e), s')
      | (None, s') \<Rightarrow> (Inr (), s'))"

text \<open>\<open>cgroups.WriteCgroupProc\<close> with the writes made on the state; \<open>n\<close> is how many are left.\<close>

fun placePid :: "'k world \<Rightarrow> nat \<Rightarrow> string \<Rightarrow> int \<Rightarrow> sys_error \<Rightarrow> ('k, unit) io" where
  "placePid W 0 dir pid lastErr s = (Inl (SysErr lastErr), s)"
| "placePid W (Suc n) dir pid lastErr s =
     (case w_write W dir CgroupProcesses (Itoa pid) s of
        (None, s') \<Rightarrow> (Inr (), s')
      | (Some e, s') \<Rightarrow>
          if e = EINVAL then placePid W n dir pid e s' else (Inl (SysErr e), s'))"

definition writeCgroupProc :: "'k world \<Rightarrow> string \<Rightarrow> int \<Rightarrow> ('k, unit) io" where
  "writeCgroupProc W dir pid =
     (if dir = [] then ioErr (NoDir CgroupProcesses)
      else if pid = -1 then ioRet ()
      else (\<lambda>s. case w_openProcs W dir s of
              Some e \<Rightarrow> (Inl (SysErr e), s)
            | None \<Rightarrow> placePid W 5 dir pid EINVAL s))"

text \<open>\<open>apply\<close> of cgroups/fs/paths.go.\<close>

definition applyPath :: "'k world \<Rightarrow> string \<Rightarrow> int \<Rightarrow> ('k, unit) io" where
  "applyPath W path pid =
     (if path = [] then ioRet () else ioThen (mkdirAll W path) (\<lambda>_. writeCgroupProc W path pid))"

subsection \<open>Numbers in cgroup files\<close>

text \<open>Negative numbers are read as zero; the value counts also with an error.\<close>

definition ParseUint :: "nat \<Rightarrow> string \<Rightarrow> u64 \<times> num_error option" where
  "ParseUint bits s =
     (case ParseUint10 bits s of
        (v, None) \<Rightarrow> (word_of_nat v, None)
      | (v, Some err) \<Rightarrow>
          (case ParseInt10 bits s of
             (i, ierr) \<Rightarrow>
               if ierr = None \<and> i < 0 then (0, None)
               else if ierr = Some ErrRange \<and> i < 0 then (0, None)
               else (word_of_nat v, Some err)))"

definition ParseKeyValue :: "string \<Rightarrow> fs_error + string \<times> u64" where
  "ParseKeyValue t =
     (case SplitN (CHR '' '') 3 t of
        [k, v] \<Rightarrow> (case ParseUint 64 v of (n, None) \<Rightarrow> Inr (k, n) | (n, Some e) \<Rightarrow> Inl (NumErr e))
      | _ \<Rightarrow> Inl (NotKeyValue t))"

fun findKey :: "string \<Rightarrow> string list \<Rightarrow> num_error + u64" where
  "findKey key [] = Inr 0"
| "findKey key (line # ls) =
     (case Split (CHR '' '') line of
        [k, v] \<Rightarrow>
          if k = key then (case ParseUint 64 v of (n, None) \<Rightarrow> Inr n | (n, Some e) \<Rightarrow> Inl e)
          else findKey key ls
      | _ \<Rightarrow> findKey key ls)"

definition GetValueByKey :: "'k world \<Rightarrow> string \<Rightarrow> string \<Rightarrow> string \<Rightarrow> ('k, u64) io" where
  "GetValueByKey W path file key =
     ioThen (readFile W path file) (\<lambda>content.
       case findKey key (Split nl content) of
         Inl e \<Rightarrow> ioErr (ParseErr path file (NumErr e))
       | Inr n \<Rightarrow> ioRet n)"

definition GetCgroupParamString :: "'k world \<Rightarrow> string \<Rightarrow> string \<Rightarrow> ('k, string) io" where
  "GetCgroupParamString W path file = ioThen (readFile W path file) (\<lambda>c. ioRet (TrimSpace c))"

definition parseParamUint :: "string \<Rightarrow> num_error + u64" where
  "parseParamUint contents =
     (if contents = ''max'' then Inr (- 1)
      else case ParseUint 64 contents of (n, None) \<Rightarrow> Inr n | (n, Some e) \<Rightarrow> Inl e)"

definition GetCgroupParamUint :: "'k world \<Rightarrow> string \<Rightarrow> string \<Rightarrow> ('k, u64) io" where
  "GetCgroupParamUint W path file =
     ioThen (GetCgroupParamString W path file) (\<lambda>c.
       case parseParamUint (TrimSpace c) of
         Inl e \<Rightarrow> ioErr (ParseErr path file (NumErr e))
       | Inr n \<Rightarrow> ioRet n)"

definition GetCgroupParamInt :: "'k world \<Rightarrow> string \<Rightarrow> string \<Rightarrow> ('k, int) io" where
  "GetCgroupParamInt W path file =
     ioThen (readFile W path file) (\<lambda>c.
       if TrimSpace c = ''max'' then ioRet (2 ^ 63 - 1)
       else case ParseInt10 64 (TrimSpace c) of
         (i, None) \<Rightarrow> ioRet i
       | (i, Some e) \<Rightarrow> ioErr (ParseErr path file (NumErr e)))"

subsection \<open>RDMA\<close>

record RdmaEntry =
  re_Device :: string
  re_HcaHandles :: u32
  re_HcaObjects :: u32

definition parseRdmaKV :: "string \<Rightarrow> RdmaEntry \<Rightarrow> fs_error + RdmaEntry" where
  "parseRdmaKV raw entry =
     (case SplitN (CHR ''='') 3 raw of
        [k, v] \<Rightarrow>
          andThen (if v = ''max'' then Inr (- 1)
                   else case ParseUint10 32 v of
                     (n, None) \<Rightarrow> Inr (word_of_nat n)
                   | (n, Some e) \<Rightarrow> Inl (NumErr e)) (\<lambda>val.
            Inr (if k = ''hca_handle'' then entry\<lparr>re_HcaHandles := val\<rparr>
                 else if k = ''hca_object'' then entry\<lparr>re_HcaObjects := val\<rparr>
                 else entry))
      | _ \<Rightarrow> Inl BadRdmaEntry)"

text \<open>A line that does not parse is skipped.\<close>

definition rdmaLine :: "string \<Rightarrow> RdmaEntry list" where
  "rdmaLine text =
     (case SplitN (CHR '' '') 4 text of
        [dev, kv1, kv2] \<Rightarrow>
          (case andThen (parseRdmaKV kv1 \<lparr>re_Device = dev, re_HcaHandles = 0, re_HcaObjects = 0\<rparr>) (parseRdmaKV kv2) of
             Inl _ \<Rightarrow> []
           | Inr entry \<Rightarrow> [entry])
      | _ \<Rightarrow> [])"

definition readRdmaEntries :: "'k world \<Rightarrow> string \<Rightarrow> string \<Rightarrow> ('k, RdmaEntry list) io" where
  "readRdmaEntries W dir file =
     ioThen (openRead W dir file) (\<lambda>r.
       case Scan r of (ls, serr) \<Rightarrow>
         (case serr of Some e \<Rightarrow> ioErr (ScanErr e) | None \<Rightarrow> ioRet (concat (map rdmaLine ls))))"

text \<open>None leaves the statistics as they are; otherwise the limits and the current entries.\<close>

definition RdmaGetStats :: "'k world \<Rightarrow> string \<Rightarrow> ('k, (RdmaEntry list \<times> RdmaEntry list) option) io" where
  "RdmaGetStats W path =
     ioCase (readRdmaEntries W path ''rdma.current'')
       (\<lambda>e. if isErrno ENOENT e then ioRet None else ioErr e)
       (\<lambda>currentEntries.
          ioThen (readRdmaEntries W path ''rdma.max'') (\<lambda>maxEntries.
            if length currentEntries \<noteq> length maxEntries then ioRet None
            else ioRet (Some (maxEntries, currentEntries))))"

definition createCmdString :: "string \<Rightarrow> LinuxRdma \<Rightarrow> string" where
  "createCmdString device limits =
     device @
     (case rd_HcaHandles limits of None \<Rightarrow> [] | Some n \<Rightarrow> '' hca_handle='' @ utoa (unat n)) @
     (case rd_HcaObjects limits of None \<Rightarrow> [] | Some n \<Rightarrow> '' hca_object='' @ utoa (unat n))"

definition RdmaSet :: "'k world \<Rightarrow> string \<Rightarrow> Resources \<Rightarrow> ('k, unit) io" where
  "RdmaSet W path r =
     ioEach (\<lambda>device. case rs_Rdma r device of
                        None \<Rightarrow> ioRet ()
                      | Some limits \<Rightarrow> writeFile W path ''rdma.max'' (createCmdString device limits))
       (w_rdmaOrder W (rs_Rdma r))"

end
