(* ===== verification/Controllers.thy ===== *)
theory Controllers imports Fscommon begin

text \<open>
  The cgroup v1 controllers (cgroups/fs/): \<open>Set\<close> and \<open>Apply\<close> of every subsystem, as actions on
  the state of the kernel (theory Fscommon), the freezer's loops included. Sleeps are left out.
\<close>

definition FormatUint :: "u64 \<Rightarrow> string" where "FormatUint u = utoa (unat u)"

subsection \<open>memory\<close>

definition cgroupMemorySwapLimit :: string where "cgroupMemorySwapLimit = ''memory.memsw.limit_in_bytes''"
definition cgroupMemoryLimit :: string where "cgroupMemoryLimit = ''memory.limit_in_bytes''"
definition cgroupMemoryUsage :: string where "cgroupMemoryUsage = ''memory.usage_in_bytes''"
definition cgroupMemoryMaxUsage :: string where "cgroupMemoryMaxUsage = ''memory.max_usage_in_bytes''"

definition setMemory :: "'k world \<Rightarrow> string \<Rightarrow> int \<Rightarrow> ('k, unit) io" where
  "setMemory W path val =
     (if val = 0 then ioRet ()
      else ioCase (writeFile W path cgroupMemoryLimit (Itoa val))
        (\<lambda>e. if \<not> isErrno EBUSY e then ioErr e
             else ioThen (GetCgroupParamUint W path cgroupMemoryUsage) (\<lambda>usage.
                  ioThen (GetCgroupParamUint W path cgroupMemoryMaxUsage) (\<lambda>mx.
                    ioErr (MemoryLimitBusy val usage mx))))
        ioRet)"

definition setSwap :: "'k world \<Rightarrow> string \<Rightarrow> int \<Rightarrow> ('k, unit) io" where
  "setSwap W path val = (if val = 0 then ioRet () else writeFile W path cgroupMemorySwapLimit (Itoa val))"

text \<open>The first step writes to the caller's resources: the swap limit follows an unlimited memory.\<close>

definition adaptSwap :: "'k world \<Rightarrow> string \<Rightarrow> Resources \<Rightarrow> 'k \<Rightarrow> Resources" where
  "adaptSwap W path r s =
     (if rs_Memory r = -1 \<and> rs_MemorySwap r = 0 \<and> w_exists W (PathJoin path cgroupMemorySwapLimit) s
      then r\<lparr>rs_MemorySwap := -1\<rparr> else r)"

text \<open>The rest; the order of the two writes depends on the current limit, compared as 64-bit unsigned.\<close>

definition writeMemoryAndSwap :: "'k world \<Rightarrow> string \<Rightarrow> Resources \<Rightarrow> ('k, unit) io" where
  "writeMemoryAndSwap W path r =
     (let memoryFirst = ioSeq [setMemory W path (rs_Memory r), setSwap W path (rs_MemorySwap r)];
          swapFirst = ioSeq [setSwap W path (rs_MemorySwap r), setMemory W path (rs_Memory r)]
      in if rs_Memory r \<noteq> 0 \<and> rs_MemorySwap r \<noteq> 0
         then ioThen (GetCgroupParamUint W path cgroupMemoryLimit) (\<lambda>curLimit.
           if rs_MemorySwap r = -1 \<or> curLimit < word_of_int (rs_MemorySwap r)
           then swapFirst else memoryFirst)
         else memoryFirst)"

definition setMemoryAndSwap :: "'k world \<Rightarrow> string \<Rightarrow> Resources \<Rightarrow> ('k, unit) io" where
  "setMemoryAndSwap W path r s = writeMemoryAndSwap W path (adaptSwap W path r s) s"

text \<open>\<open>MemorySwappiness\<close> is unsigned; -1 stands for its largest value.\<close>

definition MemorySet :: "'k world \<Rightarrow> string \<Rightarrow> Resources \<Rightarrow> ('k, unit) io" where
  "MemorySet W path r = ioSeq
     [setMemoryAndSwap W path r,
      ioWhen (rs_MemoryReservation r \<noteq> 0)
        (writeFile W path ''memory.soft_limit_in_bytes'' (Itoa (rs_MemoryReservation r))),
      ioWhen (rs_OomKillDisable r) (writeFile W path ''memory.oom_control'' ''1''),
      (case rs_MemorySwappiness r of
         None \<Rightarrow> ioRet ()
       | Some sw \<Rightarrow>
           if sw = - 1 then ioRet ()
           else if sw \<le> 100 then writeFile W path ''memory.swappiness'' (FormatUint sw)
           else ioErr (BadSwappiness sw))]"

subsection \<open>cpu\<close>

text \<open>
  A period and a quota that depend on each other: a period refused with EINVAL is written again
  after the quota. \<open>SetRtSched\<close> and the middle of \<open>Set\<close> are this with their own files.
\<close>

definition setPeriodQuota :: "'k world \<Rightarrow> string \<Rightarrow> string \<Rightarrow> string \<Rightarrow> u64 \<Rightarrow> int \<Rightarrow> ('k, unit) io" where
  "setPeriodQuota W path periodFile quotaFile per quota =
     ioThen (if per \<noteq> 0
             then ioCase (writeFile W path periodFile (FormatUint per))
                    (\<lambda>e. if \<not> isErrno EINVAL e \<or> quota = 0 then ioErr e else ioRet (FormatUint per))
                    (\<lambda>_. ioRet [])
             else ioRet []) (\<lambda>again.
       ioWhen (quota \<noteq> 0) (ioSeq
         [writeFile W path quotaFile (Itoa quota),
          ioWhen (again \<noteq> []) (writeFile W path periodFile again)]))"

definition SetRtSched :: "'k world \<Rightarrow> string \<Rightarrow> Resources \<Rightarrow> ('k, unit) io" where
  "SetRtSched W path r =
     setPeriodQuota W path ''cpu.rt_period_us'' ''cpu.rt_runtime_us'' (rs_CpuRtPeriod r) (rs_CpuRtRuntime r)"

definition setShares :: "'k world \<Rightarrow> string \<Rightarrow> u64 \<Rightarrow> ('k, unit) io" where
  "setShares W path shares =
     ioThen (writeFile W path ''cpu.shares'' (FormatUint shares)) (\<lambda>_.
       ioThen (GetCgroupParamUint W path ''cpu.shares'') (\<lambda>sharesRead.
         if sharesRead < shares then ioErr (SharesTooLarge sharesRead)
         else if shares < sharesRead then ioErr (SharesTooSmall sharesRead)
         else ioRet ()))"

definition CpuSet :: "'k world \<Rightarrow> string \<Rightarrow> Resources \<Rightarrow> ('k, unit) io" where
  "CpuSet W path r = ioSeq
     [ioWhen (rs_CpuShares r \<noteq> 0) (setShares W path (rs_CpuShares r)),
      setPeriodQuota W path ''cpu.cfs_period_us'' ''cpu.cfs_quota_us'' (rs_CpuPeriod r) (rs_CpuQuota r),
      SetRtSched W path r]"

definition CpuApply :: "'k world \<Rightarrow> string \<Rightarrow> Resources \<Rightarrow> int \<Rightarrow> ('k, unit) io" where
  "CpuApply W path r pid = ioSeq
     [mkdirAll W path, SetRtSched W path r, writeCgroupProc W path pid]"

subsection \<open>cpuset\<close>

definition CpusetSet :: "'k world \<Rightarrow> string \<Rightarrow> Resources \<Rightarrow> ('k, unit) io" where
  "CpusetSet W path r = ioSeq
     [ioWhen (rs_CpusetCpus r \<noteq> []) (writeFile W path ''cpuset.cpus'' (rs_CpusetCpus r)),
      ioWhen (rs_CpusetMems r \<noteq> []) (writeFile W path ''cpuset.mems'' (rs_CpusetMems r))]"

definition getCpusetSubsystemSettings :: "'k world \<Rightarrow> string \<Rightarrow> ('k, string \<times> string) io" where
  "getCpusetSubsystemSettings W parent =
     ioThen (readFile W parent ''cpuset.cpus'') (\<lambda>cpus.
       ioThen (readFile W parent ''cpuset.mems'') (\<lambda>mems. ioRet (cpus, mems)))"

definition isEmptyCpuset :: "string \<Rightarrow> bool" where
  "isEmptyCpuset str \<longleftrightarrow> str = [] \<or> str = [nl]"

definition cpusetCopyIfNeeded :: "'k world \<Rightarrow> string \<Rightarrow> string \<Rightarrow> ('k, unit) io" where
  "cpusetCopyIfNeeded W current parent =
     ioThen (getCpusetSubsystemSettings W current) (\<lambda>(currentCpus, currentMems).
       ioThen (getCpusetSubsystemSettings W parent) (\<lambda>(parentCpus, parentMems).
         ioSeq [ioWhen (isEmptyCpuset currentCpus) (writeFile W current ''cpuset.cpus'' parentCpus),
                ioWhen (isEmptyCpuset currentMems) (writeFile W current ''cpuset.mems'' parentMems)]))"

definition ensureCpusAndMems :: "'k world \<Rightarrow> string \<Rightarrow> Resources \<Rightarrow> ('k, unit) io" where
  "ensureCpusAndMems W path r = ioSeq [CpusetSet W path r, cpusetCopyIfNeeded W path (PathDir path)]"


text \<open>
  The parents are made from the top of the hierarchy: the first directory whose parent is not a
  cgroup file system. None when the recursion never gets there.
\<close>

partial_function (option) cpusetEnsureParent :: "'k world \<Rightarrow> string \<Rightarrow> 'k \<Rightarrow> ((fs_error + unit) \<times> 'k) option" where
  "cpusetEnsureParent W current s =
     (let st = w_statfs W (PathDir current) s in
      if st = Inr False then Some (Inr (), s)
      else if isl st \<and> projl st \<noteq> ENOENT then Some (Inl (SysErr (projl st)), s)
      else Option.bind (cpusetEnsureParent W (PathDir current) s) (\<lambda>(res, s').
        Some (case res of
                Inl e \<Rightarrow> (Inl e, s')
              | Inr _ \<Rightarrow> ioThen (mkdirIfMissing W current)
                          (\<lambda>_. cpusetCopyIfNeeded W current (PathDir current)) s')))"

definition ApplyDir :: "'k world \<Rightarrow> string \<Rightarrow> Resources \<Rightarrow> int \<Rightarrow> 'k \<Rightarrow> ((fs_error + unit) \<times> 'k) option" where
  "ApplyDir W dir r pid s =
     (if dir = [] then Some (Inr (), s)
      else Option.bind (cpusetEnsureParent W (PathDir dir) s) (\<lambda>(res, s').
        Some (case res of
                Inl e \<Rightarrow> (Inl e, s')
              | Inr _ \<Rightarrow> ioSeq [mkdirIfMissing W dir, ensureCpusAndMems W dir r, writeCgroupProc W dir pid] s')))"

subsection \<open>blkio\<close>

text \<open>The names in the group once \<open>detectWeightFilenames\<close> has run; empty before.\<close>

record BlkioGroup =
  weightFilename :: string
  weightDeviceFilename :: string

definition detectWeightFilenames :: "'k world \<Rightarrow> string \<Rightarrow> 'k \<Rightarrow> BlkioGroup \<Rightarrow> BlkioGroup" where
  "detectWeightFilenames W path s g =
     (if weightFilename g \<noteq> [] then g
      else if w_exists W (PathJoin path ''blkio.weight'') s
      then \<lparr>weightFilename = ''blkio.weight'', weightDeviceFilename = ''blkio.weight_device''\<rparr>
      else \<lparr>weightFilename = ''blkio.bfq.weight'', weightDeviceFilename = ''blkio.bfq.weight_device''\<rparr>)"

definition weightDevices :: "'k world \<Rightarrow> string \<Rightarrow> BlkioGroup \<Rightarrow> WeightDevice \<Rightarrow> ('k, unit) io" where
  "weightDevices W path g wd = ioSeq
     [ioWhen (wd_Weight wd \<noteq> 0) (writeFile W path (weightDeviceFilename g) (WeightString wd)),
      ioWhen (wd_LeafWeight wd \<noteq> 0) (writeFile W path ''blkio.leaf_weight_device'' (LeafWeightString wd))]"

definition throttleDevices :: "'k world \<Rightarrow> string \<Rightarrow> string \<Rightarrow> ThrottleDevice list \<Rightarrow> ('k, unit) io" where
  "throttleDevices W path file tds = ioEach (\<lambda>td. writeFile W path file (ThrottleString td)) tds"

definition BlkioSetWith :: "'k world \<Rightarrow> string \<Rightarrow> Resources \<Rightarrow> BlkioGroup \<Rightarrow> ('k, unit) io" where
  "BlkioSetWith W path r g = ioSeq
     [ioWhen (rs_BlkioWeight r \<noteq> 0) (writeFile W path (weightFilename g) (utoa (unat (rs_BlkioWeight r)))),
      ioWhen (rs_BlkioLeafWeight r \<noteq> 0) (writeFile W path ''blkio.leaf_weight'' (utoa (unat (rs_BlkioLeafWeight r)))),
      ioEach (weightDevices W path g) (rs_BlkioWeightDevice r),
      throttleDevices W path ''blkio.throttle.read_bps_device'' (rs_BlkioThrottleReadBpsDevice r),
      throttleDevices W path ''blkio.throttle.write_bps_device'' (rs_BlkioThrottleWriteBpsDevice r),
      throttleDevices W path ''blkio.throttle.read_iops_device'' (rs_BlkioThrottleReadIOPSDevice r),
      throttleDevices W path ''blkio.throttle.write_iops_device'' (rs_BlkioThrottleWriteIOPSDevice r)]"

text \<open>The group keeps the names it has found for later calls.\<close>

definition BlkioSet :: "BlkioGroup \<Rightarrow> 'k world \<Rightarrow> string \<Rightarrow> Resources \<Rightarrow> ('k, unit) io" where
  "BlkioSet g W path r s = BlkioSetWith W path r (detectWeightFilenames W path s g) s"

subsection \<open>hugetlb, pids, net\_cls, net\_prio\<close>

text \<open>The loop has the flag \<open>skipRsvd\<close> as its state.\<close>

fun hugetlbLoop :: "'k world \<Rightarrow> string \<Rightarrow> bool \<Rightarrow> HugepageLimit list \<Rightarrow> ('k, unit) io" where
  "hugetlbLoop W path skipRsvd [] = ioRet ()"
| "hugetlbLoop W path skipRsvd (h # hs) =
     (let prefix = ''hugetlb.'' @ hp_Pagesize h; val = FormatUint (hp_Limit h) in
      ioThen (writeFile W path (prefix @ ''.limit_in_bytes'') val) (\<lambda>_.
        if skipRsvd then hugetlbLoop W path skipRsvd hs
        else ioCase (writeFile W path (prefix @ ''.rsvd'' @ ''.limit_in_bytes'') val)
               (\<lambda>e. if isErrno ENOENT e then hugetlbLoop W path True hs else ioErr e)
               (\<lambda>_. hugetlbLoop W path skipRsvd hs)))"

definition HugetlbSet :: "'k world \<Rightarrow> string \<Rightarrow> Resources \<Rightarrow> ('k, unit) io" where
  "HugetlbSet W path r = hugetlbLoop W path False (rs_HugetlbLimit r)"

definition PidsSet :: "'k world \<Rightarrow> string \<Rightarrow> Resources \<Rightarrow> ('k, unit) io" where
  "PidsSet W path r =
     ioWhen (rs_PidsLimit r \<noteq> 0)
       (writeFile W path ''pids.max'' (if 0 < rs_PidsLimit r then Itoa (rs_PidsLimit r) else ''max''))"

definition NetClsSet :: "'k world \<Rightarrow> string \<Rightarrow> Resources \<Rightarrow> ('k, unit) io" where
  "NetClsSet W path r =
     ioWhen (rs_NetClsClassid r \<noteq> 0) (writeFile W path ''net_cls.classid'' (utoa (unat (rs_NetClsClassid r))))"

definition NetPrioSet :: "'k world \<Rightarrow> string \<Rightarrow> Resources \<Rightarrow> ('k, unit) io" where
  "NetPrioSet W path r =
     ioEach (\<lambda>p. writeFile W path ''net_prio.ifpriomap'' (IfPrioCgroupString p)) (rs_NetPrioIfpriomap r)"

definition noSet :: "'k world \<Rightarrow> string \<Rightarrow> Resources \<Rightarrow> ('k, unit) io" where
  "noSet W path r = ioRet ()"

subsection \<open>freezer\<close>

fun stateString :: "FreezerState \<Rightarrow> string" where
  "stateString Undefined = []"
| "stateString Frozen = ''FROZEN''"
| "stateString Thawed = ''THAWED''"
| "stateString (OtherState s) = s"

definition writeState :: "'k world \<Rightarrow> string \<Rightarrow> FreezerState \<Rightarrow> ('k, unit) io" where
  "writeState W path st = writeFile W path ''freezer.state'' (stateString st)"

text \<open>The loop that freezes; \<open>i\<close> is its counter and \<open>n\<close> the number of turns left.\<close>

fun freezeLoop :: "'k world \<Rightarrow> string \<Rightarrow> nat \<Rightarrow> nat \<Rightarrow> ('k, unit) io" where
  "freezeLoop W path 0 i = ioErr UnableToFreeze"
| "freezeLoop W path (Suc n) i = ioSeq
     [ioIgnore (ioWhen (i mod 50 = 49) (writeState W path Thawed)),
      writeState W path Frozen,
      ioThen (readFile W path ''freezer.state'') (\<lambda>state.
        if TrimSpace state = ''FREEZING'' then freezeLoop W path n (Suc i)
        else if TrimSpace state = stateString Frozen then ioRet ()
        else ioErr (UnexpectedState (TrimSpace state)))]"

text \<open>The deferred function thaws when freezing failed.\<close>

definition FreezerSet :: "'k world \<Rightarrow> string \<Rightarrow> Resources \<Rightarrow> ('k, unit) io" where
  "FreezerSet W path r =
     (case rs_Freezer r of
        Frozen \<Rightarrow> ioCase (freezeLoop W path 1000 0)
                    (\<lambda>e. ioThen (ioIgnore (writeState W path Thawed)) (\<lambda>_. ioErr e)) ioRet
      | Thawed \<Rightarrow> writeState W path Thawed
      | Undefined \<Rightarrow> ioRet ()
      | OtherState x \<Rightarrow> ioErr (BadFreezerState x))"

text \<open>
  One read of the state: a result, or None to look again. \<open>GetState\<close> repeats it for as long as the
  cgroup is being frozen; None is a loop that does not end.
\<close>

definition selfFreezing :: "'k world \<Rightarrow> string \<Rightarrow> ('k, FreezerState) io" where
  "selfFreezing W path =
     ioCase (readFile W path ''freezer.self_freezing'')
       (\<lambda>e. if isErrno ENOENT e \<or> isErrno ENODEV e then ioRet Frozen else ioErr e)
       (\<lambda>self. if self = ''0'' @ [nl] then ioRet Thawed
               else if self = ''1'' @ [nl] then ioRet Frozen
               else ioErr (UnknownSelfFreezing self))"

definition stateTurn :: "'k world \<Rightarrow> string \<Rightarrow> ('k, FreezerState option) io" where
  "stateTurn W path =
     ioCase (readFile W path ''freezer.state'')
       (\<lambda>e. if isErrno ENOENT e \<or> isErrno ENODEV e then ioRet (Some Undefined) else ioErr e)
       (\<lambda>state. if TrimSpace state = ''THAWED'' then ioRet (Some Thawed)
                else if TrimSpace state = ''FROZEN'' then ioThen (selfFreezing W path) (\<lambda>f. ioRet (Some f))
                else if TrimSpace state = ''FREEZING'' then ioRet None
                else ioErr (UnknownFreezerState state))"

partial_function (option) GetState :: "'k world \<Rightarrow> string \<Rightarrow> 'k \<Rightarrow> ((fs_error + FreezerState) \<times> 'k) option" where
  "GetState W path s =
     (case stateTurn W path s of (res, s') \<Rightarrow>
        case res of
          Inl e \<Rightarrow> Some (Inl e, s')
        | Inr None \<Rightarrow> GetState W path s'
        | Inr (Some f) \<Rightarrow> Some (Inr f, s'))"

subsection \<open>devices\<close>

definition loadEmulator :: "'k world \<Rightarrow> string \<Rightarrow> ('k, Emulator) io" where
  "loadEmulator W path =
     ioThen (readFile W path ''devices.list'') (\<lambda>list.
       case EmulatorFromList \<lparr>rd_data = list, rd_err = None\<rparr> of
         Inl e \<Rightarrow> ioErr (DeviceErr e)
       | Inr emu \<Rightarrow> ioRet emu)"

definition buildEmulator :: "Rule list \<Rightarrow> fs_error + Emulator" where
  "buildEmulator rs = (case applyAll rs newEmulator of Inl e \<Rightarrow> Inl (DeviceErr e) | Inr emu \<Rightarrow> Inr emu)"

definition writeRule :: "'k world \<Rightarrow> string \<Rightarrow> Rule \<Rightarrow> ('k, unit) io" where
  "writeRule W path rule =
     writeFile W path (if r_Allow rule then ''devices.allow'' else ''devices.deny'') (CgroupString rule)"

text \<open>
  Whether the rule map of the built emulator has been allocated: a wildcard rule sets it to nil, an
  exception that is added makes it.
\<close>

fun rulesAllocated :: "Rule list \<Rightarrow> Emulator \<Rightarrow> bool \<Rightarrow> bool" where
  "rulesAllocated [] e b = b"
| "rulesAllocated (r # rs) e b =
     (case Apply r e of
        Inl _ \<Rightarrow> b
      | Inr e' \<Rightarrow> rulesAllocated rs e'
          (if r_Type r = WildcardDevice then False else if r_Allow r \<noteq> defaultAllow e then True else b))"

text \<open>
  The final check. \<open>reflect.DeepEqual\<close> tells an empty map from a nil one, and the map of an
  emulator that is read from a list is nil when it is empty.
\<close>

definition deepEqualEmulators :: "Emulator \<Rightarrow> Emulator \<Rightarrow> bool \<Rightarrow> bool" where
  "deepEqualEmulators currentAfter target allocated \<longleftrightarrow>
     currentAfter = target \<and> \<not> (rules target = Mapping.empty \<and> allocated)"

definition finalCheck :: "Emulator \<Rightarrow> bool \<Rightarrow> Emulator \<Rightarrow> ('k, unit) io" where
  "finalCheck target allocated currentAfter =
     (if \<not> IsBlacklist target \<and> \<not> deepEqualEmulators currentAfter target allocated then ioErr DeviceMismatch
      else if IsBlacklist target \<noteq> IsBlacklist currentAfter then ioErr DeviceModeMismatch
      else ioRet ())"

definition DevicesSet :: "bool \<Rightarrow> bool \<Rightarrow> 'k world \<Rightarrow> string \<Rightarrow> Resources \<Rightarrow> ('k, unit) io" where
  "DevicesSet inUserNS skipFinalCheck W path r =
     (if inUserNS \<or> rs_SkipDevices r then ioRet ()
      else
        ioThen (loadEmulator W path) (\<lambda>current.
        ioThen (ioLift (buildEmulator (rs_Devices r))) (\<lambda>target.
        ioThen (ioEach (writeRule W path) (Transition current target)) (\<lambda>_.
          if skipFinalCheck then ioRet ()
          else ioThen (loadEmulator W path)
                 (finalCheck target (rulesAllocated (rs_Devices r) newEmulator False))))))"

definition DevicesApply :: "'k world \<Rightarrow> string \<Rightarrow> Resources \<Rightarrow> int \<Rightarrow> ('k, unit) io" where
  "DevicesApply W path r pid =
     (if rs_SkipDevices r then ioRet ()
      else if path = [] then ioErr NoSubsystem
      else applyPath W path pid)"

end
