(* ===== verification/V1Utils.thy ===== *)
theory V1Utils imports Cgutils begin

text \<open>
  Finding the mounts and the paths of cgroup v1 (cgroups/v1_utils.go). The mount table as the
  third-party parser gives it, SecureJoin, lstat and statfs are parameters.
\<close>

record MountInfo =
  mi_Mountpoint :: string
  mi_Root :: string
  mi_VFSOptions :: string

record CgMount =
  cm_Mountpoint :: string
  cm_Root :: string
  cm_Subsystems :: "string list"

datatype v1_error =
    NotFoundError string
  | Unified
  | MountinfoError string
  | CgroupFileError cg_error
  | NoSubsystemForMount
  | RelError string string
  | BothPathAndName
  | NoCgroupMount
  | StatError string

text \<open>Whether a file is a directory, and its device.\<close>

record v1_env =
  vw_Unified :: bool
  vw_Mountinfo :: "string + MountInfo list"   \<comment> \<open>mounts of type cgroup\<close>
  vw_SecureJoin :: "string \<Rightarrow> string \<Rightarrow> string option"
  vw_Lstat :: "string \<Rightarrow> (bool \<times> nat) option"
  vw_CgroupFs :: "string \<Rightarrow> bool"
  vw_Proc :: "string \<Rightarrow> sys_error + reader"
  vw_Controllers :: "cg_error + string list"  \<comment> \<open>\<open>GetAllSubsystems\<close>\<close>

definition CgroupNamePrefix :: string where "CgroupNamePrefix = ''name=''"
definition defaultPrefix :: string where "defaultPrefix = ''/sys/fs/cgroup''"
definition hybridMountpoint :: string where "hybridMountpoint = ''/sys/fs/cgroup/unified''"

fun IsNotFound :: "v1_error \<Rightarrow> bool" where
  "IsNotFound (NotFoundError s) = True"
| "IsNotFound _ = False"

text \<open>The default path of a subsystem, empty when it is not a mount point of a cgroup hierarchy.\<close>

definition tryDefaultPath :: "v1_env \<Rightarrow> string \<Rightarrow> string \<Rightarrow> string" where
  "tryDefaultPath ev cgroupPath subsystem =
     (if \<not> HasPrefix defaultPrefix cgroupPath then []
      else
        (case vw_SecureJoin ev defaultPrefix (TrimPrefix subsystem CgroupNamePrefix) of
           None \<Rightarrow> []
         | Some path \<Rightarrow>
             (case vw_Lstat ev path of
                None \<Rightarrow> []
              | Some (isDir, dev) \<Rightarrow>
                  if \<not> isDir then []
                  else
                    (case vw_Lstat ev (PathDir path) of
                       None \<Rightarrow> []
                     | Some (_, parentDev) \<Rightarrow>
                         if dev = parentDev then []
                         else if vw_CgroupFs ev path then path else []))))"

text \<open>The first mount below a path that has the subsystem among its options.\<close>

fun findCgroupMountpointAndRootFromMI :: "MountInfo list \<Rightarrow> string \<Rightarrow> string \<Rightarrow> v1_error + string \<times> string" where
  "findCgroupMountpointAndRootFromMI [] cgroupPath subsystem = Inl (NotFoundError subsystem)"
| "findCgroupMountpointAndRootFromMI (mi # mounts) cgroupPath subsystem =
     (if HasPrefix (mi_Mountpoint mi) cgroupPath \<and> subsystem \<in> set (Split (CHR '','') (mi_VFSOptions mi))
      then Inr (mi_Mountpoint mi, mi_Root mi)
      else findCgroupMountpointAndRootFromMI mounts cgroupPath subsystem)"

definition FindCgroupMountpointAndRoot :: "v1_env \<Rightarrow> string \<Rightarrow> string \<Rightarrow> v1_error + string \<times> string" where
  "FindCgroupMountpointAndRoot ev cgroupPath subsystem =
     (if vw_Unified ev then Inl Unified
      else case vw_Mountinfo ev of
        Inl e \<Rightarrow> Inl (MountinfoError e)
      | Inr mi \<Rightarrow> findCgroupMountpointAndRootFromMI mi cgroupPath subsystem)"

definition FindCgroupMountpoint :: "v1_env \<Rightarrow> string \<Rightarrow> string \<Rightarrow> v1_error + string" where
  "FindCgroupMountpoint ev cgroupPath subsystem =
     (if vw_Unified ev then Inl Unified
      else if subsystem = [] then Inr hybridMountpoint
      else if tryDefaultPath ev cgroupPath subsystem \<noteq> [] then Inr (tryDefaultPath ev cgroupPath subsystem)
      else andThen (FindCgroupMountpointAndRoot ev cgroupPath subsystem) (\<lambda>(mnt, _). Inr mnt))"

subsection \<open>The list of mounts\<close>

text \<open>
  The subsystems of one mount that count: known ones, and unless all are asked for, ones not seen
  before. \<open>seen\<close> is the set of options marked so far.
\<close>

fun takeOptions :: "bool \<Rightarrow> string list \<Rightarrow> string list \<Rightarrow> string list \<Rightarrow> string list \<times> string list" where
  "takeOptions all known seen [] = ([], seen)"
| "takeOptions all known seen (opt # opts) =
     (if opt \<notin> set known \<or> (\<not> all \<and> opt \<in> set seen) then takeOptions all known seen opts
      else case takeOptions all known (opt # seen) opts of
             (ss, seen') \<Rightarrow> (TrimPrefix opt CgroupNamePrefix # ss, seen'))"

fun mountsLoop :: "bool \<Rightarrow> string list \<Rightarrow> string list \<Rightarrow> nat \<Rightarrow> MountInfo list \<Rightarrow> CgMount list" where
  "mountsLoop all known seen numFound [] = []"
| "mountsLoop all known seen numFound (mi # mounts) =
     (case takeOptions all known seen (Split (CHR '','') (mi_VFSOptions mi)) of (ss, seen') \<Rightarrow>
        let m = \<lparr>cm_Mountpoint = mi_Mountpoint mi, cm_Root = mi_Root mi, cm_Subsystems = ss\<rparr>;
            found = numFound + length ss
        in (if ss \<noteq> [] \<or> all then [m] else []) @
           (if \<not> all \<and> length known \<le> found then []
            else mountsLoop all known seen' found mounts))"

text \<open>\<open>known\<close> has the keys of \<open>ss\<close>, each once.\<close>

definition getCgroupMountsHelper :: "string list \<Rightarrow> MountInfo list \<Rightarrow> bool \<Rightarrow> CgMount list" where
  "getCgroupMountsHelper known mounts all = mountsLoop all known [] 0 mounts"

text \<open>\<open>names\<close> lists the keys of the map that /proc/self/cgroup gives.\<close>

definition getCgroupMountsV1 :: "v1_env \<Rightarrow> ((string \<rightharpoonup> string) \<Rightarrow> string list) \<Rightarrow> bool \<Rightarrow> v1_error + CgMount list" where
  "getCgroupMountsV1 ev names all =
     (case vw_Mountinfo ev of
        Inl e \<Rightarrow> Inl (MountinfoError e)
      | Inr mi \<Rightarrow>
          (case ParseCgroupFile (vw_Proc ev) ''/proc/self/cgroup'' of
             Inl e \<Rightarrow> Inl (CgroupFileError e)
           | Inr allSubsystems \<Rightarrow> Inr (getCgroupMountsHelper (names allSubsystems) mi all)))"

definition GetCgroupMounts :: "v1_env \<Rightarrow> ((string \<rightharpoonup> string) \<Rightarrow> string list) \<Rightarrow> bool \<Rightarrow> v1_error + CgMount list" where
  "GetCgroupMounts ev names all =
     (if vw_Unified ev then
        (case vw_Controllers ev of
           Inl e \<Rightarrow> Inl (CgroupFileError e)
         | Inr cs \<Rightarrow> Inr [\<lparr>cm_Mountpoint = unifiedMountpoint, cm_Root = unifiedMountpoint, cm_Subsystems = cs\<rparr>])
      else getCgroupMountsV1 ev names all)"

subsection \<open>The cgroup of a process\<close>

definition getControllerPath :: "v1_env \<Rightarrow> string \<Rightarrow> (string \<rightharpoonup> string) \<Rightarrow> v1_error + string" where
  "getControllerPath ev subsystem cgroups =
     (if vw_Unified ev then Inl Unified
      else case cgroups subsystem of
        Some p \<Rightarrow> Inr p
      | None \<Rightarrow>
          (case cgroups (CgroupNamePrefix @ subsystem) of
             Some p \<Rightarrow> Inr p
           | None \<Rightarrow> Inl (NotFoundError subsystem)))"

definition mountGetOwnCgroup :: "v1_env \<Rightarrow> CgMount \<Rightarrow> (string \<rightharpoonup> string) \<Rightarrow> v1_error + string" where
  "mountGetOwnCgroup ev m cgroups =
     (case cm_Subsystems m of [] \<Rightarrow> Inl NoSubsystemForMount | s # _ \<Rightarrow> getControllerPath ev s cgroups)"

text \<open>\<open>GetOwnCgroup\<close> and \<open>GetInitCgroup\<close> differ in the file they read.\<close>

definition cgroupOf :: "v1_env \<Rightarrow> string \<Rightarrow> string \<Rightarrow> v1_error + string" where
  "cgroupOf ev file subsystem =
     (if vw_Unified ev then Inl Unified
      else case ParseCgroupFile (vw_Proc ev) file of
        Inl e \<Rightarrow> Inl (CgroupFileError e)
      | Inr cgroups \<Rightarrow> getControllerPath ev subsystem cgroups)"

definition GetOwnCgroup :: "v1_env \<Rightarrow> string \<Rightarrow> v1_error + string" where
  "GetOwnCgroup ev subsystem = cgroupOf ev ''/proc/self/cgroup'' subsystem"

definition GetInitCgroup :: "v1_env \<Rightarrow> string \<Rightarrow> v1_error + string" where
  "GetInitCgroup ev subsystem = cgroupOf ev ''/proc/1/cgroup'' subsystem"

text \<open>
  \<open>filepath.Rel\<close> on the elements of two clean paths: what is left of the target after the common
  elements, with a step up for each element left of the base.
\<close>

fun dropCommon :: "string list \<Rightarrow> string list \<Rightarrow> string list \<times> string list" where
  "dropCommon (b # bs) (t # ts) = (if b = t then dropCommon bs ts else (b # bs, t # ts))"
| "dropCommon bs ts = (bs, ts)"

definition pathElems :: "string \<Rightarrow> string list" where
  "pathElems p = filter (\<lambda>w. w \<noteq> []) (Split (CHR ''/'') p)"

definition Rel :: "string \<Rightarrow> string \<Rightarrow> v1_error + string" where
  "Rel base targ =
     (let b = Clean base; t = Clean targ; b' = (if b = ''.'' then [] else b) in
      if t = b then Inr ''.''
      else if IsAbs b' \<noteq> IsAbs t then Inl (RelError base targ)
      else case dropCommon (pathElems b') (pathElems t) of (bs, ts) \<Rightarrow>
        if bs \<noteq> [] \<and> hd bs = ''..'' then Inl (RelError base targ)
        else Inr (Join ''/'' (replicate (length bs) ''..'' @ ts)))"

definition getCgroupPathHelper :: "v1_env \<Rightarrow> string \<Rightarrow> string \<Rightarrow> v1_error + string" where
  "getCgroupPathHelper ev subsystem cgroup =
     andThen (FindCgroupMountpointAndRoot ev [] subsystem) (\<lambda>(mnt, root).
       andThen (Rel root cgroup) (\<lambda>relCgroup. Inr (PathJoin mnt relCgroup)))"

definition GetOwnCgroupPath :: "v1_env \<Rightarrow> string \<Rightarrow> v1_error + string" where
  "GetOwnCgroupPath ev subsystem =
     andThen (GetOwnCgroup ev subsystem) (\<lambda>cgroup.
       if subsystem = [] then Inr hybridMountpoint else getCgroupPathHelper ev subsystem cgroup)"

definition GetInitCgroupPath :: "v1_env \<Rightarrow> string \<Rightarrow> v1_error + string" where
  "GetInitCgroupPath ev subsystem =
     andThen (GetInitCgroup ev subsystem) (getCgroupPathHelper ev subsystem)"

end
