(* ===== verification/ManagerV1.thy ===== *)
theory ManagerV1 imports Controllers V1Utils begin

text \<open>
  The cgroup v1 manager (cgroups/fs/fs.go and paths.go): the list of subsystems, the paths of a
  container's cgroups, \<open>Apply\<close>, \<open>Set\<close>, \<open>Freeze\<close> and the state of the freezer. The lock of the
  manager is left out: each operation runs alone.
\<close>

subsection \<open>The subsystems\<close>

record 'k subsystem =
  sub_Name :: string
  sub_Apply :: "'k world \<Rightarrow> string \<Rightarrow> Resources \<Rightarrow> int \<Rightarrow> 'k \<Rightarrow> ((fs_error + unit) \<times> 'k) option"
  sub_Set :: "'k world \<Rightarrow> string \<Rightarrow> Resources \<Rightarrow> ('k, unit) io"

text \<open>A controller whose \<open>Apply\<close> always returns, and one with the shared \<open>apply\<close>.\<close>

definition returning :: "('k world \<Rightarrow> string \<Rightarrow> Resources \<Rightarrow> int \<Rightarrow> ('k, unit) io) \<Rightarrow>
    'k world \<Rightarrow> string \<Rightarrow> Resources \<Rightarrow> int \<Rightarrow> 'k \<Rightarrow> ((fs_error + unit) \<times> 'k) option" where
  "returning f W path r pid s = Some (f W path r pid s)"

definition plainApply :: "'k world \<Rightarrow> string \<Rightarrow> Resources \<Rightarrow> int \<Rightarrow> ('k, unit) io" where
  "plainApply W path r pid = applyPath W path pid"

definition NameApply :: "bool \<Rightarrow> 'k world \<Rightarrow> string \<Rightarrow> Resources \<Rightarrow> int \<Rightarrow> ('k, unit) io" where
  "NameApply join W path r pid = ioWhen join (ioIgnore (applyPath W path pid))"

definition plainSub :: "string \<Rightarrow> ('k world \<Rightarrow> string \<Rightarrow> Resources \<Rightarrow> ('k, unit) io) \<Rightarrow> 'k subsystem" where
  "plainSub name st = \<lparr>sub_Name = name, sub_Apply = returning plainApply, sub_Set = st\<rparr>"

definition NameGroup :: "string \<Rightarrow> bool \<Rightarrow> 'k subsystem" where
  "NameGroup name join = \<lparr>sub_Name = name, sub_Apply = returning (NameApply join), sub_Set = noSet\<rparr>"

text \<open>
  The subsystems in the order the manager goes through them; in hybrid mode one more, for cgroup v2.
  \<open>inUserNS\<close> says whether the process is in a user namespace, \<open>g\<close> is the state of the blkio group.
\<close>

definition subsystems :: "bool \<Rightarrow> bool \<Rightarrow> BlkioGroup \<Rightarrow> 'k subsystem list" where
  "subsystems hybrid inUserNS g =
     [\<lparr>sub_Name = ''cpuset'', sub_Apply = ApplyDir, sub_Set = CpusetSet\<rparr>,
      \<lparr>sub_Name = ''devices'', sub_Apply = returning DevicesApply, sub_Set = DevicesSet inUserNS False\<rparr>,
      plainSub ''memory'' MemorySet,
      \<lparr>sub_Name = ''cpu'', sub_Apply = returning CpuApply, sub_Set = CpuSet\<rparr>,
      plainSub ''cpuacct'' noSet,
      plainSub ''pids'' PidsSet,
      plainSub ''blkio'' (BlkioSet g),
      plainSub ''hugetlb'' HugetlbSet,
      plainSub ''net_cls'' NetClsSet,
      plainSub ''net_prio'' NetPrioSet,
      plainSub ''perf_event'' noSet,
      plainSub ''freezer'' FreezerSet,
      plainSub ''rdma'' RdmaSet,
      NameGroup ''name=systemd'' True,
      NameGroup ''misc'' True] @
     (if hybrid then [NameGroup [] True] else [])"

subsection \<open>The paths\<close>

definition innerPath :: "Cgroup \<Rightarrow> v1_error + string" where
  "innerPath c =
     (if (cg_Name c \<noteq> [] \<or> cg_Parent c \<noteq> []) \<and> cg_Path c \<noteq> [] then Inl BothPathAndName
      else (let inner = CleanPath (cg_Path c) in
            Inr (if inner = [] then PathJoin (CleanPath (cg_Parent c)) (CleanPath (cg_Name c)) else inner)))"

text \<open>\<open>filepath.Join\<close> of three elements.\<close>

definition PathJoin3 :: "string \<Rightarrow> string \<Rightarrow> string \<Rightarrow> string" where
  "PathJoin3 a b c =
     (case filter (\<lambda>w. w \<noteq> []) [a, b, c] of [] \<Rightarrow> [] | ws \<Rightarrow> Clean (Join ''/'' ws))"

definition subsysPath :: "v1_env \<Rightarrow> string \<Rightarrow> string \<Rightarrow> string \<Rightarrow> v1_error + string" where
  "subsysPath ev root inner subsystem =
     (if IsAbs inner then
        andThen (FindCgroupMountpoint ev root subsystem) (\<lambda>mnt. Inr (PathJoin3 root (PathBase mnt) inner))
      else
        andThen (GetOwnCgroupPath ev subsystem) (\<lambda>parentPath. Inr (PathJoin parentPath inner)))"

text \<open>The default root, when it looks right: (directory, other device, tmpfs, first entry a cgroup).\<close>

record root_env =
  rt_Lstat :: "(bool \<times> nat) option"
  rt_ParentDev :: "nat option"
  rt_Tmpfs :: bool
  rt_FirstEntry :: "string option"
  rt_CgroupFs :: "string \<Rightarrow> bool"
  rt_StatOk :: "string \<Rightarrow> bool"
  rt_Names :: "(string \<rightharpoonup> string) \<Rightarrow> string list"

definition defaultCgroupRoot :: string where "defaultCgroupRoot = ''/sys/fs/cgroup''"

definition tryDefaultCgroupRoot :: "root_env \<Rightarrow> string" where
  "tryDefaultCgroupRoot rt =
     (case (rt_Lstat rt, rt_ParentDev rt, rt_FirstEntry rt) of
        (Some (isDir, dev), Some pdev, Some name) \<Rightarrow>
          if isDir \<and> dev \<noteq> pdev \<and> rt_Tmpfs rt \<and> rt_CgroupFs rt (PathJoin defaultCgroupRoot name)
          then defaultCgroupRoot else []
      | _ \<Rightarrow> [])"

text \<open>\<open>cached\<close> is the value found by an earlier call.\<close>

definition rootPath :: "v1_env \<Rightarrow> root_env \<Rightarrow> string \<Rightarrow> v1_error + string" where
  "rootPath ev rt cached =
     (if cached \<noteq> [] then Inr cached
      else if tryDefaultCgroupRoot rt \<noteq> [] then Inr (tryDefaultCgroupRoot rt)
      else andThen (GetCgroupMounts ev (rt_Names rt) False) (\<lambda>mi.
        case mi of
          [] \<Rightarrow> Inl NoCgroupMount
        | m # _ \<Rightarrow>
            (let root = PathDir (cm_Mountpoint m) in
             if rt_StatOk rt root then Inr root else Inl (StatError root))))"

definition skipDevices :: "Cgroup \<Rightarrow> bool" where
  "skipDevices cg = (case cg_Resources cg of None \<Rightarrow> False | Some r \<Rightarrow> rs_SkipDevices r)"

definition addSubsysPath ::
  "v1_env \<Rightarrow> Cgroup \<Rightarrow> string \<Rightarrow> string \<Rightarrow> string \<Rightarrow> (string \<rightharpoonup> string) \<Rightarrow> v1_error + (string \<rightharpoonup> string)" where
  "addSubsysPath ev cg root inner name paths =
     (case subsysPath ev root inner name of
        Inr p \<Rightarrow> Inr (paths(name \<mapsto> p))
      | Inl e \<Rightarrow>
          if IsNotFound e \<and> (skipDevices cg \<or> name \<noteq> ''devices'') then Inr paths else Inl e)"

definition initPaths :: "v1_env \<Rightarrow> root_env \<Rightarrow> string \<Rightarrow> string list \<Rightarrow> Cgroup \<Rightarrow> v1_error + (string \<rightharpoonup> string)" where
  "initPaths ev rt cached names cg =
     andThen (rootPath ev rt cached) (\<lambda>root.
       andThen (innerPath cg) (\<lambda>inner.
         foldRes (addSubsysPath ev cg root inner) names Map.empty))"

subsection \<open>The manager\<close>

record manager =
  m_cgroups :: Cgroup
  m_paths :: "string \<rightharpoonup> string"

datatype new_error = ResourcesNil | NewUnified | PathError v1_error

definition NewManager :: "(Cgroup \<Rightarrow> v1_error + (string \<rightharpoonup> string)) \<Rightarrow> Cgroup \<Rightarrow> (string \<rightharpoonup> string) option \<Rightarrow> new_error + manager" where
  "NewManager initp cg paths =
     (case cg_Resources cg of
        None \<Rightarrow> Inl ResourcesNil
      | Some r \<Rightarrow>
          if rs_Unified r \<noteq> None then Inl NewUnified
          else (case paths of
                  Some ps \<Rightarrow> Inr \<lparr>m_cgroups = cg, m_paths = ps\<rparr>
                | None \<Rightarrow>
                    (case initp cg of
                       Inl e \<Rightarrow> Inl (PathError e)
                     | Inr ps \<Rightarrow> Inr \<lparr>m_cgroups = cg, m_paths = ps\<rparr>)))"

definition ignorableErrnos :: "sys_error list" where
  "ignorableErrnos = [OtherErrno ''EPERM'', OtherErrno ''EACCES'', OtherErrno ''EROFS'']"

definition isIgnorableError :: "bool \<Rightarrow> fs_error \<Rightarrow> bool" where
  "isIgnorableError rootless err \<longleftrightarrow> rootless \<and> (\<exists>n \<in> set ignorableErrnos. isErrno n err)"

text \<open>
  \<open>m.paths[name]\<close> of a missing name is empty. Apply drops a path it may not join; None is an
  \<open>Apply\<close> of a subsystem that does not return.
\<close>

definition pathOf :: "manager \<Rightarrow> string \<Rightarrow> string" where
  "pathOf m name = (case m_paths m name of None \<Rightarrow> [] | Some p \<Rightarrow> p)"

definition resourcesOf :: "manager \<Rightarrow> Resources" where
  "resourcesOf m = (case cg_Resources (m_cgroups m) of None \<Rightarrow> emptyResources | Some r \<Rightarrow> r)"

fun managerApplyLoop ::
  "'k world \<Rightarrow> int \<Rightarrow> 'k subsystem list \<Rightarrow> manager \<Rightarrow> 'k \<Rightarrow> (fs_error option \<times> manager \<times> 'k) option" where
  "managerApplyLoop W pid [] m s = Some (None, m, s)"
| "managerApplyLoop W pid (sys # syss) m s =
     (case m_paths m (sub_Name sys) of
        None \<Rightarrow> managerApplyLoop W pid syss m s
      | Some p \<Rightarrow>
          (case sub_Apply sys W p (resourcesOf m) pid s of
             None \<Rightarrow> None
           | Some (Inr _, s') \<Rightarrow> managerApplyLoop W pid syss m s'
           | Some (Inl e, s') \<Rightarrow>
               if isIgnorableError (cg_Rootless (m_cgroups m)) e \<and> cg_Path (m_cgroups m) = []
               then managerApplyLoop W pid syss (m\<lparr>m_paths := (m_paths m)(sub_Name sys := None)\<rparr>) s'
               else Some (Some e, m, s')))"

text \<open>
  Set; the resources come back because the memory subsystem writes to them (\<open>adaptSwap\<close>).
\<close>

fun managerSetLoop ::
  "'k world \<Rightarrow> manager \<Rightarrow> 'k subsystem list \<Rightarrow> Resources \<Rightarrow> 'k \<Rightarrow> fs_error option \<times> Resources \<times> 'k" where
  "managerSetLoop W m [] r s = (None, r, s)"
| "managerSetLoop W m (sys # syss) r s =
     (let path = pathOf m (sub_Name sys);
          r' = (if sub_Name sys = ''memory'' then adaptSwap W path r s else r) in
      case sub_Set sys W path r s of
        (Inr _, s') \<Rightarrow> managerSetLoop W m syss r' s'
      | (Inl e, s') \<Rightarrow>
          if cg_Rootless (m_cgroups m) \<and> sub_Name sys = ''devices'' then managerSetLoop W m syss r' s'
          else if path = [] then (Some (CannotSetLimit (sub_Name sys)), r', s')
          else (Some e, r', s'))"

definition managerSet ::
  "'k world \<Rightarrow> 'k subsystem list \<Rightarrow> manager \<Rightarrow> Resources option \<Rightarrow> 'k \<Rightarrow> fs_error option \<times> Resources option \<times> 'k" where
  "managerSet W syss m ro s =
     (case ro of
        None \<Rightarrow> (None, None, s)
      | Some r \<Rightarrow>
          if rs_Unified r \<noteq> None then (Some V1NoUnified, ro, s)
          else (case managerSetLoop W m syss r s of (e, r', s') \<Rightarrow> (e, Some r', s')))"

text \<open>The wanted state is kept in the manager only when freezing or thawing worked.\<close>

definition setFreezer :: "FreezerState \<Rightarrow> manager \<Rightarrow> manager" where
  "setFreezer st m =
     m\<lparr>m_cgroups := (m_cgroups m)\<lparr>cg_Resources := Some ((resourcesOf m)\<lparr>rs_Freezer := st\<rparr>)\<rparr>\<rparr>"

definition managerFreeze ::
  "'k world \<Rightarrow> manager \<Rightarrow> FreezerState \<Rightarrow> 'k \<Rightarrow> fs_error option \<times> manager \<times> 'k" where
  "managerFreeze W m st s =
     (if pathOf m ''freezer'' = [] then (Some NoFreezerPath, m, s)
      else
        (let prevState = rs_Freezer (resourcesOf m); m' = setFreezer st m in
         case FreezerSet W (pathOf m ''freezer'') (resourcesOf m') s of
           (Inl e, s') \<Rightarrow> (Some e, setFreezer prevState m', s')
         | (Inr _, s') \<Rightarrow> (None, m', s')))"

definition GetFreezerState :: "'k world \<Rightarrow> manager \<Rightarrow> 'k \<Rightarrow> ((fs_error + FreezerState) \<times> 'k) option" where
  "GetFreezerState W m s =
     (if pathOf m ''freezer'' = [] then Some (Inr Undefined, s) else GetState W (pathOf m ''freezer'') s)"

definition OOMKillCount :: "'k world \<Rightarrow> manager \<Rightarrow> ('k, u64) io" where
  "OOMKillCount W m =
     ioCase (GetValueByKey W (pathOf m ''memory'') ''memory.oom_control'' ''oom_kill'')
       (\<lambda>e. if cg_Rootless (m_cgroups m) \<and> isErrno ENOENT e then ioRet 0 else ioErr e) ioRet"

definition managerExists :: "'k world \<Rightarrow> manager \<Rightarrow> 'k \<Rightarrow> bool" where
  "managerExists W m s = w_exists W (pathOf m ''devices'') s"

end
