(* ===== verification/ControllersProps.thy ===== *)
theory ControllersProps imports ManagerV1 begin

text \<open>
  What the cgroup v1 controllers do to the kernel. What the kernel does for a file is a hypothesis:
  the limits a memory cgroup keeps and which writes it accepts, likewise for periods with quotas, the
  list of devices, the freezer and cpusets.
\<close>

lemmas io_defs = ioRet_def ioErr_def ioCase_def ioThen_def ioWhen_def ioIgnore_def ioLift_def

lemma ioSeq_Cons_Inr: "m s = (Inr (), s') \<Longrightarrow> ioSeq (m # ms) s = ioSeq ms s'"
  by (simp add: io_defs)

lemma ioSeq_Cons_Inl: "m s = (Inl e, s') \<Longrightarrow> ioSeq (m # ms) s = (Inl e, s')"
  by (simp add: io_defs)

lemma ioThen_Inr: "m s = (Inr x, s') \<Longrightarrow> ioThen m f s = f x s'"
  by (simp add: io_defs)

lemma ioThen_Inl: "m s = (Inl e, s') \<Longrightarrow> ioThen m f s = (Inl e, s')"
  by (simp add: io_defs)

lemma ioCase_Inr: "m s = (Inr x, s') \<Longrightarrow> ioCase m h f s = f x s'"
  by (simp add: io_defs)

lemma ioCase_Inl: "m s = (Inl e, s') \<Longrightarrow> ioCase m h f s = h e s'"
  by (simp add: io_defs)

lemma ioThen_ok: "ioThen m f s = (Inr y, s') \<longleftrightarrow> (\<exists>x u. m s = (Inr x, u) \<and> f x u = (Inr y, s'))"
  by (auto simp: io_defs split: prod.splits sum.splits)

lemma ioSeq_Nil_ok: "ioSeq [] s = (Inr (), s)"
  by (simp add: io_defs)

lemma ioSeq_Cons_ok: "ioSeq (m # ms) s = (Inr (), s') \<longleftrightarrow> (\<exists>u. m s = (Inr (), u) \<and> ioSeq ms u = (Inr (), s'))"
  by (auto simp: ioThen_ok)

declare ioSeq.simps [simp del]

lemma ioWhen_True: "ioWhen True m = m" and ioWhen_False: "ioWhen False m s = (Inr (), s)"
  by (simp_all add: io_defs)

lemma ioIgnore_ok: "ioIgnore m s = (Inr (), snd (m s))"
  by (simp add: io_defs split: prod.splits sum.splits)

lemmas io_steps = ioSeq_Cons_Inr ioSeq_Cons_Inl ioSeq_Nil_ok ioThen_Inr ioThen_Inl ioCase_Inr ioCase_Inl

lemma writeFile_ok: "dir \<noteq> [] \<Longrightarrow> w_write W dir file data s = (None, s') \<Longrightarrow> writeFile W dir file data s = (Inr (), s')"
  by (simp add: writeFile_def)

lemma writeFile_fails: "dir \<noteq> [] \<Longrightarrow> w_write W dir file data s = (Some e, s') \<Longrightarrow> writeFile W dir file data s = (Inl (SysErr e), s')"
  by (simp add: writeFile_def)

lemma readFile_ok:
  "dir \<noteq> [] \<Longrightarrow> w_open W dir file s = (Inr \<lparr>rd_data = d, rd_err = None\<rparr>, s') \<Longrightarrow> readFile W dir file s = (Inr d, s')"
  by (simp add: readFile_def openRead_def io_defs)

subsection \<open>Numbers\<close>

lemma ParseUint_utoa: "n < 2 ^ 64 \<Longrightarrow> ParseUint 64 (utoa n) = (word_of_nat n, None)"
  by (simp add: ParseUint_def ParseUint10_utoa)

lemma isSpace_digit: "c \<in> set (utoa n) \<Longrightarrow> \<not> isSpace c"
  using utoa_digits [of n] digit_char_printable by (fastforce simp: isSpace_def)

lemma TrimSpace_utoa: "TrimSpace (utoa n) = utoa n"
  by (rule TrimSpace_idem_no_space) (simp add: isSpace_digit)

lemma TrimSpace_snoc_nl:
  assumes "\<And>c. c \<in> set s \<Longrightarrow> \<not> isSpace c"
  shows "TrimSpace (s @ [nl]) = s"
proof (cases "s = []")
  case True
  then show ?thesis by (simp add: TrimSpace_def isSpace_def)
next
  case False
  have d: "dropWhile isSpace t = t" if "set t \<subseteq> set s" for t using that assms by (cases t) auto
  have "dropWhile isSpace (s @ [nl]) = s @ [nl]" using False assms by (cases s) auto
  then show ?thesis using d [of "rev s"] by (simp add: TrimSpace_def isSpace_def)
qed

lemma param_utoa: "n < 2 ^ 64 \<Longrightarrow> parseParamUint (TrimSpace (TrimSpace (utoa n @ [nl]))) = Inr (word_of_nat n)"
proof -
  assume n: "n < 2 ^ 64"
  have "utoa n \<noteq> ''max''"
    using utoa_digits [of n] digit_char_printable by fastforce
  then show ?thesis using n
    by (simp add: TrimSpace_snoc_nl isSpace_digit TrimSpace_utoa parseParamUint_def ParseUint_utoa)
qed

lemma GetCgroupParamUint_ok:
  assumes "path \<noteq> []" "w_open W path file s = (Inr \<lparr>rd_data = utoa n @ [nl], rd_err = None\<rparr>, s')" "n < 2 ^ 64"
  shows "GetCgroupParamUint W path file s = (Inr (word_of_nat n), s')"
  unfolding GetCgroupParamUint_def GetCgroupParamString_def
  using readFile_ok [OF assms(1,2)] param_utoa [OF assms(3)] by (simp add: io_defs)

subsection \<open>memory\<close>

text \<open>
  A memory cgroup: \<open>lim\<close> and \<open>sw\<close> read its two limits from the state, \<open>mx\<close> is the value of an
  unlimited one and \<open>rnd\<close> rounds to pages. A write is only promised to work when memory stays at
  most the sum of memory and swap; the file for the latter exists.
\<close>

definition limitBytes :: "nat \<Rightarrow> (nat \<Rightarrow> nat) \<Rightarrow> int \<Rightarrow> nat" where
  "limitBytes mx rnd v = (if v = -1 then mx else rnd (nat v))"

definition memory_cgroup ::
  "'k world \<Rightarrow> string \<Rightarrow> ('k \<Rightarrow> nat) \<Rightarrow> ('k \<Rightarrow> nat) \<Rightarrow> nat \<Rightarrow> (nat \<Rightarrow> nat) \<Rightarrow> bool" where
  "memory_cgroup W path lim sw mx rnd \<longleftrightarrow>
     path \<noteq> [] \<and> mono rnd \<and> mx < 2 ^ 63 \<and> (\<forall>n. rnd n \<le> mx) \<and>
     (\<forall>s. lim s \<le> sw s \<and> sw s \<le> mx \<and> rnd (lim s) = lim s) \<and>
     (\<forall>s. w_exists W (PathJoin path cgroupMemorySwapLimit) s) \<and>
     (\<forall>s. w_open W path cgroupMemoryLimit s = (Inr \<lparr>rd_data = utoa (lim s) @ [nl], rd_err = None\<rparr>, s)) \<and>
     (\<forall>s v. -1 \<le> v \<and> v < 2 ^ 63 \<and> limitBytes mx rnd v \<le> sw s \<longrightarrow>
        (\<exists>s'. w_write W path cgroupMemoryLimit (Itoa v) s = (None, s') \<and>
              lim s' = limitBytes mx rnd v \<and> sw s' = sw s)) \<and>
     (\<forall>s v. -1 \<le> v \<and> v < 2 ^ 63 \<and> lim s \<le> limitBytes mx rnd v \<longrightarrow>
        (\<exists>s'. w_write W path cgroupMemorySwapLimit (Itoa v) s = (None, s') \<and>
              sw s' = limitBytes mx rnd v \<and> lim s' = lim s))"

definition limit_value :: "int \<Rightarrow> bool" where
  "limit_value v \<longleftrightarrow> v \<noteq> 0 \<and> -1 \<le> v \<and> v < 2 ^ 63"

lemma memory_writes:
  assumes "memory_cgroup W path lim sw mx rnd"
  shows "limit_value v \<Longrightarrow> limitBytes mx rnd v \<le> sw s \<Longrightarrow>
      \<exists>s'. setMemory W path v s = (Inr (), s') \<and> lim s' = limitBytes mx rnd v \<and> sw s' = sw s"
    and "limit_value v \<Longrightarrow> lim s \<le> limitBytes mx rnd v \<Longrightarrow>
      \<exists>s'. setSwap W path v s = (Inr (), s') \<and> sw s' = limitBytes mx rnd v \<and> lim s' = lim s"
proof -
  assume v: "limit_value v"
  { assume "limitBytes mx rnd v \<le> sw s"
    then obtain s' where "w_write W path cgroupMemoryLimit (Itoa v) s = (None, s')"
      "lim s' = limitBytes mx rnd v" "sw s' = sw s"
      using assms v unfolding memory_cgroup_def limit_value_def by blast
    then show "\<exists>s'. setMemory W path v s = (Inr (), s') \<and> lim s' = limitBytes mx rnd v \<and> sw s' = sw s"
      using assms v by (auto simp: limit_value_def setMemory_def writeFile_def memory_cgroup_def io_defs) }
  { assume "lim s \<le> limitBytes mx rnd v"
    then obtain s' where "w_write W path cgroupMemorySwapLimit (Itoa v) s = (None, s')"
      "sw s' = limitBytes mx rnd v" "lim s' = lim s"
      using assms v unfolding memory_cgroup_def limit_value_def by blast
    then show "\<exists>s'. setSwap W path v s = (Inr (), s') \<and> sw s' = limitBytes mx rnd v \<and> lim s' = lim s"
      using assms v by (auto simp: limit_value_def setSwap_def writeFile_def memory_cgroup_def) }
qed

lemma memory_first:
  assumes "memory_cgroup W path lim sw mx rnd" "limit_value m" "limit_value v"
    and "limitBytes mx rnd m \<le> limitBytes mx rnd v" "limitBytes mx rnd m \<le> sw s"
  shows "\<exists>s'. ioSeq [setMemory W path m, setSwap W path v] s = (Inr (), s') \<and>
    lim s' = limitBytes mx rnd m \<and> sw s' = limitBytes mx rnd v"
proof -
  obtain u where u: "setMemory W path m s = (Inr (), u)" "lim u = limitBytes mx rnd m"
    using memory_writes(1) [OF assms(1,2,5)] by blast
  obtain s' where "setSwap W path v u = (Inr (), s')" "sw s' = limitBytes mx rnd v" "lim s' = lim u"
    using memory_writes(2) [OF assms(1,3), of u] assms(4) u(2) by auto
  with u show ?thesis by (simp add: ioSeq_Cons_ok ioSeq_Nil_ok io_steps)
qed

lemma swap_first:
  assumes "memory_cgroup W path lim sw mx rnd" "limit_value m" "limit_value v"
    and "limitBytes mx rnd m \<le> limitBytes mx rnd v" "lim s \<le> limitBytes mx rnd v"
  shows "\<exists>s'. ioSeq [setSwap W path v, setMemory W path m] s = (Inr (), s') \<and>
    lim s' = limitBytes mx rnd m \<and> sw s' = limitBytes mx rnd v"
proof -
  obtain u where u: "setSwap W path v s = (Inr (), u)" "sw u = limitBytes mx rnd v"
    using memory_writes(2) [OF assms(1,3,5)] by blast
  obtain s' where "setMemory W path m u = (Inr (), s')" "lim s' = limitBytes mx rnd m" "sw s' = sw u"
    using memory_writes(1) [OF assms(1,2), of u] assms(4) u(2) by auto
  with u show ?thesis by (simp add: io_steps)
qed

text \<open>
  A request the code is made for: a limit on memory with a larger one on memory and swap, or no
  limit on the latter; no limit on memory asks for none on swap, also when it is not given.
\<close>

definition memory_request :: "Resources \<Rightarrow> int \<Rightarrow> bool" where
  "memory_request r v \<longleftrightarrow>
     (0 < rs_Memory r \<and> rs_Memory r < 2 ^ 63 \<and>
        (rs_MemorySwap r = -1 \<or> (rs_Memory r \<le> rs_MemorySwap r \<and> rs_MemorySwap r < 2 ^ 63)) \<and>
        v = rs_MemorySwap r) \<or>
     (rs_Memory r = -1 \<and> (rs_MemorySwap r = -1 \<or> rs_MemorySwap r = 0) \<and> v = -1)"

lemma limit_compare:
  assumes "memory_cgroup W path lim sw mx rnd" "0 < v" "v < 2 ^ 63"
  shows "(word_of_nat (lim s) :: u64) < word_of_int v \<longleftrightarrow> int (lim s) < v"
proof -
  have "lim s \<le> mx" "mx < 2 ^ 63" using assms(1) order_trans unfolding memory_cgroup_def by blast+
  then have "lim s < 2 ^ 64" by simp
  then have "uint (word_of_nat (lim s) :: u64) = int (lim s)"
    by (simp add: unsigned_of_nat take_bit_nat_eq_self)
  moreover have "uint (word_of_int v :: u64) = v"
    using assms(2,3) by (simp add: unsigned_of_int take_bit_int_eq_self)
  ultimately show ?thesis by (simp add: word_less_def)
qed

text \<open>Memory limits: whatever limits a memory cgroup has, setting a valid pair of limits for memory
  and for memory with swap succeeds and leaves exactly these limits. The order of the two writes is
  right in every case, so the kernel never sees memory above memory and swap; an unlimited memory
  takes the limit on swap away too.\<close>

theorem memory_limits_set:
  assumes "memory_cgroup W path lim sw mx rnd" and "memory_request r v"
  shows "\<exists>s'. setMemoryAndSwap W path r s = (Inr (), s') \<and>
    lim s' = limitBytes mx rnd (rs_Memory r) \<and> sw s' = limitBytes mx rnd v"
proof -
  let ?r = "adaptSwap W path r s"
  have ex: "w_exists W (PathJoin path cgroupMemorySwapLimit) s"
    and rd: "w_open W path cgroupMemoryLimit s = (Inr \<lparr>rd_data = utoa (lim s) @ [nl], rd_err = None\<rparr>, s)"
    and ne: "path \<noteq> []" and inv: "lim s \<le> sw s" "sw s \<le> mx" "mx < 2 ^ 63" "rnd (lim s) = lim s"
    and rnd: "mono rnd" "\<And>n. rnd n \<le> mx"
    using assms(1) unfolding memory_cgroup_def by blast+
  have r: "rs_Memory ?r = rs_Memory r" "rs_MemorySwap ?r = v"
    using assms(2) ex by (auto simp: adaptSwap_def memory_request_def)
  have nz: "limit_value (rs_Memory r)" "limit_value v"
    using assms(2) by (auto simp: memory_request_def limit_value_def)
  then have nz0: "rs_Memory r \<noteq> 0" "v \<noteq> 0" by (simp_all add: limit_value_def)
  have le: "limitBytes mx rnd (rs_Memory r) \<le> limitBytes mx rnd v"
    using assms(2) rnd monoD [OF rnd(1)] by (auto simp: memory_request_def limitBytes_def)
  have get: "GetCgroupParamUint W path cgroupMemoryLimit s = (Inr (word_of_nat (lim s)), s)"
    using GetCgroupParamUint_ok [OF ne rd] inv by simp
  show ?thesis
  proof (cases "v = -1 \<or> (word_of_nat (lim s) :: u64) < word_of_int v")
    case True
    have "lim s \<le> limitBytes mx rnd v"
    proof (cases "v = -1")
      case False
      then have "0 < v" "v < 2 ^ 63" using assms(2) by (auto simp: memory_request_def)
      then have "lim s \<le> nat v" using True False limit_compare [OF assms(1)] by simp
      then have "rnd (lim s) \<le> rnd (nat v)" by (rule monoD [OF rnd(1)])
      then show ?thesis using False inv(4) by (simp add: limitBytes_def)
    qed (use inv in \<open>simp add: limitBytes_def\<close>)
    then show ?thesis
      using swap_first [OF assms(1) nz le] True nz0 r
      by (simp add: setMemoryAndSwap_def writeMemoryAndSwap_def Let_def ioThen_Inr [where m = "GetCgroupParamUint W path cgroupMemoryLimit", OF get])
  next
    case False
    then have "0 < v" "v < 2 ^ 63" using assms(2) by (auto simp: memory_request_def)
    then have "nat v \<le> lim s" using False limit_compare [OF assms(1)] by simp
    then have "limitBytes mx rnd v \<le> sw s"
      using False monoD [OF rnd(1), of "nat v" "lim s"] inv by (simp add: limitBytes_def)
    then show ?thesis
      using memory_first [OF assms(1) nz le] le False nz0 r
      by (simp add: setMemoryAndSwap_def writeMemoryAndSwap_def Let_def ioThen_Inr [where m = "GetCgroupParamUint W path cgroupMemoryLimit", OF get])
  qed
qed


text \<open>A kernel that keeps the two limits.\<close>

definition memMax :: nat where "memMax = 2 ^ 63 - 4096"

definition memWorld :: "(nat \<times> nat) world" where
  "memWorld =
     \<lparr>w_open = (\<lambda>dir file s. (Inr \<lparr>rd_data = utoa (min (min (fst s) (snd s)) memMax) @ [nl], rd_err = None\<rparr>, s)),
      w_write = (\<lambda>dir file data s.
        let v = limitBytes memMax (\<lambda>n. min n memMax) (fst (Atoi data)) in
        if file = cgroupMemoryLimit
        then (if v \<le> min (snd s) memMax then (None, (v, snd s)) else (Some EINVAL, s))
        else if min (min (fst s) (snd s)) memMax \<le> v then (None, (min (fst s) (snd s), v))
        else (Some EINVAL, s)),
      w_openProcs = (\<lambda>_ _. None), w_mkdirAll = (\<lambda>_ s. (None, s)), w_mkdir = (\<lambda>_ s. (None, s)),
      w_exists = (\<lambda>_ _. True), w_statfs = (\<lambda>_ _. Inr True), w_rdmaOrder = (\<lambda>_. [])\<rparr>"

lemma memWorld_cgroup:
  "memory_cgroup memWorld ''/m'' (\<lambda>s. min (min (fst s) (snd s)) memMax) (\<lambda>s. min (snd s) memMax) memMax (\<lambda>n. min n memMax)"
proof -
  have at: "Atoi (Itoa v) = (v, None)" if "-1 \<le> v" "v < 2 ^ 63" for v
    using that by (intro Atoi_Itoa) auto
  have fd: "cgroupMemorySwapLimit \<noteq> cgroupMemoryLimit"
    by (simp add: cgroupMemorySwapLimit_def cgroupMemoryLimit_def)
  have lb: "limitBytes memMax (\<lambda>n. min n memMax) v \<le> memMax" for v by (simp add: limitBytes_def)
  have mono: "mono (\<lambda>n. min n memMax)" by (auto simp: mono_def)
  show ?thesis
    unfolding memory_cgroup_def
  proof (intro conjI allI impI)
    show "memMax < 2 ^ 63" by (simp add: memMax_def)
  next
    fix s :: "nat \<times> nat" and v :: int
    let ?v = "limitBytes memMax (\<lambda>n. min n memMax) v"
    { assume a: "-1 \<le> v \<and> v < 2 ^ 63 \<and> ?v \<le> min (snd s) memMax"
      then have "w_write memWorld ''/m'' cgroupMemoryLimit (Itoa v) s = (None, (?v, snd s))"
        by (simp add: memWorld_def at Let_def)
      then show "\<exists>s'. w_write memWorld ''/m'' cgroupMemoryLimit (Itoa v) s = (None, s') \<and>
          min (min (fst s') (snd s')) memMax = ?v \<and> min (snd s') memMax = min (snd s) memMax"
        using a by simp }
    { assume a: "-1 \<le> v \<and> v < 2 ^ 63 \<and> min (min (fst s) (snd s)) memMax \<le> ?v"
      then have "w_write memWorld ''/m'' cgroupMemorySwapLimit (Itoa v) s = (None, (min (fst s) (snd s), ?v))"
        using fd by (simp add: memWorld_def at Let_def)
      then show "\<exists>s'. w_write memWorld ''/m'' cgroupMemorySwapLimit (Itoa v) s = (None, s') \<and>
          min (snd s') memMax = ?v \<and> min (min (fst s') (snd s')) memMax = min (min (fst s) (snd s)) memMax"
        using a lb [of v] by (auto simp: min_def) }
  qed (auto simp: memWorld_def mono min_le_iff_disj)
qed

theorem memory_limits_set_witness:
  "\<exists>s'. setMemoryAndSwap memWorld ''/m'' (emptyResources\<lparr>rs_Memory := 100, rs_MemorySwap := 300\<rparr>) (500, 600) = (Inr (), s') \<and>
     min (min (fst s') (snd s')) memMax = 100"
proof -
  let ?r = "emptyResources\<lparr>rs_Memory := 100, rs_MemorySwap := 300\<rparr>"
  have "memory_request ?r 300" by (simp add: memory_request_def emptyResources_def)
  from memory_limits_set [OF memWorld_cgroup this, of "(500, 600)"] show ?thesis
    by (auto simp: limitBytes_def memMax_def emptyResources_def)
qed


subsection \<open>cpu\<close>

text \<open>
  A period and a quota of a group whose parent allows \<open>a / b\<close> of a cpu: a value that breaks the
  bound is refused with EINVAL, one that keeps it is taken.
\<close>

definition fits :: "nat \<Rightarrow> nat \<Rightarrow> int \<Rightarrow> nat \<Rightarrow> bool" where
  "fits a b q p \<longleftrightarrow> q * int b \<le> int a * int p"

definition bandwidth_cgroup ::
  "'k world \<Rightarrow> string \<Rightarrow> string \<Rightarrow> string \<Rightarrow> ('k \<Rightarrow> nat) \<Rightarrow> ('k \<Rightarrow> int) \<Rightarrow> nat \<Rightarrow> nat \<Rightarrow> bool" where
  "bandwidth_cgroup W path periodFile quotaFile per quo a b \<longleftrightarrow>
     path \<noteq> [] \<and> (\<forall>s. fits a b (quo s) (per s)) \<and>
     (\<forall>s p. p < 2 ^ 64 \<longrightarrow>
        (\<exists>s'. w_write W path periodFile (utoa p) s = (if fits a b (quo s) p then None else Some EINVAL, s') \<and>
              per s' = (if fits a b (quo s) p then p else per s) \<and> quo s' = quo s)) \<and>
     (\<forall>s q. - (2 ^ 63) \<le> q \<and> q < 2 ^ 63 \<and> fits a b q (per s) \<longrightarrow>
        (\<exists>s'. w_write W path quotaFile (Itoa q) s = (None, s') \<and> quo s' = q \<and> per s' = per s))"

lemma bandwidth_period:
  fixes p :: u64
  assumes "bandwidth_cgroup W path pf qf per quo a b"
  shows "fits a b (quo s) (unat p) \<Longrightarrow>
      \<exists>s'. writeFile W path pf (FormatUint p) s = (Inr (), s') \<and> per s' = unat p \<and> quo s' = quo s"
    and "\<not> fits a b (quo s) (unat p) \<Longrightarrow>
      \<exists>s'. writeFile W path pf (FormatUint p) s = (Inl (SysErr EINVAL), s') \<and> per s' = per s \<and> quo s' = quo s"
proof -
  have "unat p < 2 ^ 64" using unsigned_less [of p] by simp
  then obtain s' where "w_write W path pf (FormatUint p) s =
      (if fits a b (quo s) (unat p) then None else Some EINVAL, s')"
    "per s' = (if fits a b (quo s) (unat p) then unat p else per s)" "quo s' = quo s" "path \<noteq> []"
    using assms unfolding bandwidth_cgroup_def FormatUint_def by blast
  then show "fits a b (quo s) (unat p) \<Longrightarrow>
      \<exists>s'. writeFile W path pf (FormatUint p) s = (Inr (), s') \<and> per s' = unat p \<and> quo s' = quo s"
    and "\<not> fits a b (quo s) (unat p) \<Longrightarrow>
      \<exists>s'. writeFile W path pf (FormatUint p) s = (Inl (SysErr EINVAL), s') \<and> per s' = per s \<and> quo s' = quo s"
    by (simp_all add: writeFile_def)
qed

lemma bandwidth_quota:
  assumes "bandwidth_cgroup W path pf qf per quo a b" "- (2 ^ 63) \<le> q" "q < 2 ^ 63" "fits a b q (per s)"
  shows "\<exists>s'. writeFile W path qf (Itoa q) s = (Inr (), s') \<and> quo s' = q \<and> per s' = per s"
proof -
  obtain s' where "w_write W path qf (Itoa q) s = (None, s')" "quo s' = q" "per s' = per s" "path \<noteq> []"
    using assms unfolding bandwidth_cgroup_def by blast
  then show ?thesis by (simp add: writeFile_def)
qed

text \<open>A period that is refused is smaller, so the new quota fits the old period too.\<close>

lemma fits_old_period: "fits a b q p \<Longrightarrow> \<not> fits a b q p' \<Longrightarrow> fits a b q' p' \<Longrightarrow> fits a b q' p"
proof -
  assume "fits a b q p" "\<not> fits a b q p'" "fits a b q' p'"
  then have "int a * int p' < int a * int p" "q' * int b \<le> int a * int p'" by (simp_all add: fits_def)
  then show ?thesis by (simp add: fits_def)
qed

text \<open>C19. CPU bandwidth: a period and a quota that fit the parent's bandwidth together are set from every
  state of the cgroup, although the kernel checks each write alone: when it refuses the period
  because of the old quota, the second attempt after the quota succeeds.\<close>

theorem cpu_bandwidth_set:
  assumes "bandwidth_cgroup W path pf qf per quo a b"
    and "p \<noteq> 0" and "q \<noteq> 0" and "- (2 ^ 63) \<le> q" and "q < 2 ^ 63" and "fits a b q (unat p)"
  shows "\<exists>s'. setPeriodQuota W path pf qf p q s = (Inr (), s') \<and> per s' = unat p \<and> quo s' = q"
proof (cases "fits a b (quo s) (unat p)")
  case True
  obtain u where u: "writeFile W path pf (FormatUint p) s = (Inr (), u)" "per u = unat p"
    using bandwidth_period(1) [OF assms(1) True] by blast
  obtain s' where "writeFile W path qf (Itoa q) u = (Inr (), s')" "quo s' = q" "per s' = per u"
    using bandwidth_quota [OF assms(1,4,5), of u] assms(6) u(2) by auto
  with u show ?thesis using assms(2,3) by (simp add: setPeriodQuota_def ioSeq.simps io_defs)
next
  case False
  obtain u where u: "writeFile W path pf (FormatUint p) s = (Inl (SysErr EINVAL), u)"
      "per u = per s" "quo u = quo s"
    using bandwidth_period(2) [OF assms(1) False] by blast
  have "fits a b (quo s) (per s)" using assms(1) unfolding bandwidth_cgroup_def by blast
  then have "fits a b q (per u)" using fits_old_period [OF _ False assms(6)] u(2) by simp
  then obtain v where v: "writeFile W path qf (Itoa q) u = (Inr (), v)" "quo v = q"
    using bandwidth_quota [OF assms(1,4,5)] by blast
  then obtain s' where "writeFile W path pf (FormatUint p) v = (Inr (), s')" "per s' = unat p" "quo s' = quo v"
    using bandwidth_period(1) [OF assms(1), of v p] assms(6) by auto
  moreover have "FormatUint p \<noteq> []" by (simp add: FormatUint_def)
  ultimately show ?thesis using u v assms(2,3)
    by (simp add: setPeriodQuota_def ioSeq.simps io_defs)
qed

text \<open>A group below a parent with one whole cpu.\<close>

definition cpuQuo :: "nat \<times> int \<Rightarrow> int" where "cpuQuo s = min (snd s) (int (fst s))"

definition cpuWorld :: "(nat \<times> int) world" where
  "cpuWorld =
     \<lparr>w_open = (\<lambda>_ _ s. (Inl ENOENT, s)),
      w_write = (\<lambda>dir file data s.
        if file = ''cpu.cfs_period_us'' then
          (let p = fst (ParseUint10 64 data) in
           if cpuQuo s \<le> int p then (None, (p, cpuQuo s)) else (Some EINVAL, s))
        else
          (let q = fst (Atoi data) in if q \<le> int (fst s) then (None, (fst s, q)) else (Some EINVAL, s))),
      w_openProcs = (\<lambda>_ _. None), w_mkdirAll = (\<lambda>_ s. (None, s)), w_mkdir = (\<lambda>_ s. (None, s)),
      w_exists = (\<lambda>_ _. True), w_statfs = (\<lambda>_ _. Inr True), w_rdmaOrder = (\<lambda>_. [])\<rparr>"

lemma cpuWorld_cgroup: "bandwidth_cgroup cpuWorld ''/c'' ''cpu.cfs_period_us'' ''cpu.cfs_quota_us'' fst cpuQuo 1 1"
  unfolding bandwidth_cgroup_def
  by (auto simp: cpuWorld_def fits_def cpuQuo_def Let_def Atoi_Itoa ParseUint10_utoa)

theorem cpu_bandwidth_set_witness:
  "\<exists>s'. setPeriodQuota cpuWorld ''/c'' ''cpu.cfs_period_us'' ''cpu.cfs_quota_us'' 1000 500 (100000, 50000) = (Inr (), s') \<and>
     fst s' = 1000 \<and> cpuQuo s' = 500"
  using cpu_bandwidth_set [OF cpuWorld_cgroup, of 1000 500 "(100000, 50000)"] by (simp add: fits_def)

subsection \<open>freezer\<close>

lemma freezeLoop_Suc:
  "freezeLoop W path (Suc n) i s =
     (case writeState W path Frozen (snd (ioWhen (i mod 50 = 49) (writeState W path Thawed) s)) of
        (Inl e, s2) \<Rightarrow> (Inl e, s2)
      | (Inr _, s2) \<Rightarrow>
          (case readFile W path ''freezer.state'' s2 of
             (Inl e, s3) \<Rightarrow> (Inl e, s3)
           | (Inr d, s3) \<Rightarrow>
               if TrimSpace d = ''FREEZING'' then freezeLoop W path n (Suc i) s3
               else if TrimSpace d = ''FROZEN'' then (Inr (), s3)
               else (Inl (UnexpectedState (TrimSpace d)), s3)))"
  by (simp add: ioSeq_Cons_Inr [OF ioIgnore_ok])
     (auto simp: ioSeq.simps io_defs split: prod.splits sum.splits)

lemma freezeLoop_0: "freezeLoop W path 0 i s = (Inl UnableToFreeze, s)"
  by (simp add: io_defs)

declare freezeLoop.simps [simp del]

text \<open>The loop only succeeds right after a read of FROZEN that follows a write of FROZEN.\<close>

lemma freezeLoop_frozen:
  "freezeLoop W path n i s = (Inr (), s') \<Longrightarrow>
   \<exists>v u d. writeState W path Frozen v = (Inr (), u) \<and>
     readFile W path ''freezer.state'' u = (Inr d, s') \<and> TrimSpace d = ''FROZEN''"
proof (induction n arbitrary: i s)
  case 0
  then show ?case by (simp add: freezeLoop_0)
next
  case (Suc n)
  let ?v = "snd (ioWhen (i mod 50 = 49) (writeState W path Thawed) s)"
  obtain u where u: "writeState W path Frozen ?v = (Inr (), u)"
    using Suc.prems by (auto simp: freezeLoop_Suc split: prod.splits sum.splits)
  obtain d t where d: "readFile W path ''freezer.state'' u = (Inr d, t)"
    using Suc.prems u by (auto simp: freezeLoop_Suc split: prod.splits sum.splits)
  show ?case
  proof (cases "TrimSpace d = ''FREEZING''")
    case True
    then have "freezeLoop W path n (Suc i) t = (Inr (), s')"
      using Suc.prems u d by (simp add: freezeLoop_Suc)
    then show ?thesis by (rule Suc.IH)
  next
    case False
    then have "TrimSpace d = ''FROZEN'' \<and> t = s'"
      using Suc.prems u d by (simp add: freezeLoop_Suc split: if_splits)
    with u d show ?thesis by blast
  qed
qed

text \<open>C26. Freezing is all or nothing: the freezer's Set either succeeds right after the kernel has
  answered FROZEN to a write of FROZEN, or it fails and the last thing it did was to write THAWED,
  so a cgroup is never left half frozen.\<close>

theorem freezer_set_frozen_or_thawed:
  "(\<exists>v u d s'. FreezerSet W path (r\<lparr>rs_Freezer := Frozen\<rparr>) s = (Inr (), s') \<and>
      writeState W path Frozen v = (Inr (), u) \<and>
      readFile W path ''freezer.state'' u = (Inr d, s') \<and> TrimSpace d = ''FROZEN'') \<or>
   (\<exists>e u. FreezerSet W path (r\<lparr>rs_Freezer := Frozen\<rparr>) s = (Inl e, snd (writeState W path Thawed u)))"
proof (cases "freezeLoop W path 1000 0 s")
  case (Pair res t)
  show ?thesis
  proof (cases res)
    case (Inl e)
    then have "FreezerSet W path (r\<lparr>rs_Freezer := Frozen\<rparr>) s = (Inl e, snd (writeState W path Thawed t))"
      using Pair ioIgnore_ok [of "writeState W path Thawed" t] by (simp add: FreezerSet_def ioRet_def ioErr_def ioCase_def ioThen_def)
    then show ?thesis by blast
  next
    case (Inr x)
    then have "freezeLoop W path 1000 0 s = (Inr (), t)" using Pair by simp
    moreover from this have "FreezerSet W path (r\<lparr>rs_Freezer := Frozen\<rparr>) s = (Inr (), t)"
      by (simp add: FreezerSet_def io_defs)
    ultimately show ?thesis using freezeLoop_frozen [of W path 1000 0 s t] by blast
  qed
qed

text \<open>The state after a number of looks at the state file.\<close>

definition afterLooks :: "'k world \<Rightarrow> string \<Rightarrow> nat \<Rightarrow> 'k \<Rightarrow> 'k" where
  "afterLooks W path n s = ((\<lambda>u. snd (stateTurn W path u)) ^^ n) s"

lemma afterLooks_Suc: "afterLooks W path (Suc n) s = afterLooks W path n (snd (stateTurn W path s))"
  unfolding afterLooks_def funpow_Suc_right comp_def ..

lemma GetState_step:
  "GetState W path s =
     (case stateTurn W path s of
        (Inl e, s') \<Rightarrow> Some (Inl e, s')
      | (Inr None, s') \<Rightarrow> GetState W path s'
      | (Inr (Some f), s') \<Rightarrow> Some (Inr f, s'))"
  by (subst GetState.simps) (simp split: prod.splits sum.splits option.splits)

lemma GetState_settles:
  "fst (stateTurn W path (afterLooks W path n s)) \<noteq> Inr None \<Longrightarrow> \<exists>x. GetState W path s = Some x"
proof (induction n arbitrary: s)
  case 0
  then show ?case
    by (subst GetState_step) (auto simp: afterLooks_def split: prod.splits sum.splits option.splits)
next
  case (Suc n)
  show ?case
  proof (cases "fst (stateTurn W path s) = Inr None")
    case True
    then have "GetState W path s = GetState W path (snd (stateTurn W path s))"
      by (subst GetState_step) (auto split: prod.splits)
    then show ?thesis using Suc by (simp add: afterLooks_Suc)
  next
    case False
    then show ?thesis
      by (subst GetState_step) (auto split: prod.splits sum.splits option.splits)
  qed
qed

lemma GetState_returns:
  assumes "GetState W path s = Some x"
  shows "\<exists>n. fst (stateTurn W path (afterLooks W path n s)) \<noteq> Inr None"
  using assms
proof (induction rule: GetState.raw_induct [rotated, consumes 1, case_names turn])
  case (turn rec W path s y)
  show ?case
  proof (cases "fst (stateTurn W path s) = Inr None")
    case True
    then have "rec W path (snd (stateTurn W path s)) = Some y"
      using turn(2) by (auto split: prod.splits)
    from turn(1) [OF this] obtain n where
      "fst (stateTurn W path (afterLooks W path n (snd (stateTurn W path s)))) \<noteq> Inr None" by blast
    then show ?thesis by (intro exI [of _ "Suc n"]) (simp add: afterLooks_Suc)
  next
    case False
    then show ?thesis by (intro exI [of _ 0]) (simp add: afterLooks_def)
  qed
qed


end
