(* ===== verification/DevicesSetProps.thy ===== *)
theory DevicesSetProps imports ControllersProps begin

text \<open>
  The devices controller of cgroup v1 on a kernel whose devices cgroup is the emulator's: reading
  the list, writing the transition and the final check together bring the cgroup to the requested
  state.
\<close>

subsection \<open>Emulators without empty exceptions\<close>

definition strict :: "Emulator \<Rightarrow> bool" where
  "strict e \<longleftrightarrow> (\<forall>m \<in> Mapping.keys (rules e). permOf e m \<noteq> {})"

definition listable :: "Emulator \<Rightarrow> bool" where
  "listable e \<longleftrightarrow> emu_inv e \<and> strict e \<and> (\<forall>m \<in> Mapping.keys (rules e). num_ok (major m) \<and> num_ok (minor m))"

lemma strict_keys: "strict e \<Longrightarrow> m \<in> Mapping.keys (rules e) \<longleftrightarrow> permOf e m \<noteq> {}"
  by (auto simp: strict_def permOf_def permSet_missing)

lemma listable_reset [simp]: "listable \<lparr>defaultAllow = b, rules = Mapping.empty\<rparr>"
  by (simp add: listable_def strict_def)

lemma listable_new [simp]: "listable newEmulator"
  by (simp add: newEmulator_def)

lemma emulator_eqI:
  assumes "listable e" and "listable e'" and "absEmu e = absEmu e'"
  shows "e = e'"
proof -
  have p: "permOf e = permOf e'" and d: "defaultAllow e = defaultAllow e'"
    using assms(3) by (simp_all add: absEmu_def)
  have k: "m \<in> Mapping.keys (rules e) \<longleftrightarrow> m \<in> Mapping.keys (rules e')" for m
    using strict_keys assms(1,2) p unfolding listable_def by metis
  have "permsAt (rules e) m = permsAt (rules e') m" for m
    using IsValid_eqI emu_inv_valid assms(1,2) p unfolding listable_def permOf_def by metis
  then have pa: "permsAt (rules e) m = permsAt (rules e') m" for m .
  have "Mapping.lookup (rules e) m = Mapping.lookup (rules e') m" for m
    using k [of m] pa [of m] unfolding permsAt_def Mapping.lookup_default_def keys_is_none_rep
    by (cases "Mapping.lookup (rules e) m"; cases "Mapping.lookup (rules e') m") simp_all
  then have "rules e = rules e'" by (rule mapping_eqI)
  with d show ?thesis by simp
qed

lemma addRule_strict:
  assumes "addRule e rule = Inr e'" and "strict e" and "permSet (dr_perms rule) \<noteq> {}"
  shows "Mapping.keys (rules e') \<subseteq> insert (dr_meta rule) (Mapping.keys (rules e)) \<and> strict e'"
  using assms addRule_perm [OF assms(1)]
  by (auto simp: addRule_def Let_def strict_def)

lemma rmRule_strict:
  assumes "rmRule e rule = Inr e'" and "strict e"
  shows "Mapping.keys (rules e') \<subseteq> insert (dr_meta rule) (Mapping.keys (rules e)) \<and> strict e'"
proof -
  let ?n = "Difference (permsAt (rules e) (dr_meta rule)) (dr_perms rule)"
  have "e' = e\<lparr>rules := (if IsEmpty ?n then Mapping.delete (dr_meta rule) (rules e)
      else Mapping.update (dr_meta rule) ?n (rules e))\<rparr>"
    using assms(1) by (auto simp: rmRule_def Let_def split: option.splits if_splits)
  moreover have "permSet ?n \<noteq> {}" if "\<not> IsEmpty ?n" using that by (simp add: valid_IsEmpty)
  ultimately show ?thesis using assms(2)
    by (auto simp: strict_def permOf_def emu_simps split: if_splits)
qed

lemma wrapErr_Inr: "wrapErr t x = Inr y \<longleftrightarrow> x = Inr y"
  by (cases x) (simp_all add: wrapErr_def)

lemma Apply_listable:
  assumes "Apply r e = Inr e'" and "listable e" and "list_rule r \<or> r_Type r = WildcardDevice"
  shows "listable e'"
proof -
  have inv: "emu_inv e'" using Apply_inv assms(1,2) unfolding listable_def by blast
  show ?thesis
  proof (cases "r_Type r = WildcardDevice")
    case True
    then have "\<exists>b. e' = \<lparr>defaultAllow = b, rules = Mapping.empty\<rparr>"
      using assms(1) by (auto simp: Apply_def allow_def deny_def isWildcardRule_def split: if_splits)
    then show ?thesis by auto
  next
    case False
    then have lr: "list_rule r" using assms(3) by blast
    let ?rule = "\<lparr>dr_meta = ruleMeta r, dr_perms = r_Permissions r\<rparr>"
    have ne: "permSet (r_Permissions r) \<noteq> {}"
      using lr valid_IsEmpty [of "r_Permissions r"] by (auto simp: list_rule_def IsEmpty_def)
    have "addRule e ?rule = Inr e' \<or> rmRule e ?rule = Inr e'"
      using assms(1) False
      by (auto simp: Apply_def Let_def allow_def deny_def isWildcardRule_def wrapErr_Inr split: if_splits)
    then have sub: "Mapping.keys (rules e') \<subseteq> insert (ruleMeta r) (Mapping.keys (rules e)) \<and> strict e'"
      using addRule_strict [of e ?rule e'] rmRule_strict [of e ?rule e'] ne assms(2)
      unfolding listable_def by auto
    then show ?thesis
      using inv assms(2) lr unfolding listable_def list_rule_def by fastforce
  qed
qed

lemma applyAll_listable:
  assumes "applyAll rs e = Inr e'" and "listable e" and "\<forall>r \<in> set rs. list_rule r \<or> r_Type r = WildcardDevice"
  shows "listable e'"
  using assms(1) unfolding applyAll_def
  by (rule foldRes_invariant [where P = listable]) (use assms Apply_listable in blast)+

subsection \<open>The devices cgroup of the kernel\<close>

definition allDevices :: string where "allDevices = ''a *:* rwm''"

text \<open>What devices.list shows: with everything allowed, one line whatever the exceptions are.\<close>

definition listLines :: "Emulator \<Rightarrow> string list" where
  "listLines e = (if defaultAllow e then [allDevices] else map CgroupString (Rules e))"

text \<open>The state an emulator gets from the list.\<close>

definition visible :: "Emulator \<Rightarrow> Emulator" where
  "visible e = (if defaultAllow e then \<lparr>defaultAllow = True, rules = Mapping.empty\<rparr> else e)"

definition devices_cgroup :: "'k world \<Rightarrow> string \<Rightarrow> ('k \<Rightarrow> Emulator) \<Rightarrow> bool" where
  "devices_cgroup W path em \<longleftrightarrow> path \<noteq> [] \<and>
     (\<forall>s. w_open W path ''devices.list'' s = (Inr \<lparr>rd_data = unlines (listLines (em s)), rd_err = None\<rparr>, s)) \<and>
     (\<forall>s r e'. (list_rule r \<or> r = disruptiveRule (r_Allow r)) \<and> Apply r (em s) = Inr e' \<longrightarrow>
        (\<exists>s'. w_write W path (if r_Allow r then ''devices.allow'' else ''devices.deny'') (CgroupString r) s = (None, s') \<and>
              em s' = e'))"

lemma parseListLine_all: "parseListLine allDevices = Inr None"
proof -
  have "FieldsFunc isListSep allDevices = [''a'', ''*'', ''*'', ''rwm'']"
  proof -
    have sep: "isListSep CHR '' ''" "isListSep CHR '':''" by (simp_all add: isListSep_def)
    have "FieldsFunc isListSep ''rwm'' = [''rwm'']"
      by (rule FieldsFunc_last) (auto simp: isListSep_def)
    moreover have "FieldsFunc isListSep (''*'' @ CHR '' '' # t) = ''*'' # FieldsFunc isListSep t"
        "FieldsFunc isListSep (''*'' @ CHR '':'' # t) = ''*'' # FieldsFunc isListSep t"
        "FieldsFunc isListSep (''a'' @ CHR '' '' # t) = ''a'' # FieldsFunc isListSep t" for t
      using sep by (subst FieldsFunc_field; force simp: isListSep_def FieldsFunc_skip)+
    ultimately show ?thesis by (simp add: allDevices_def)
  qed
  then show ?thesis by (simp add: parseListLine_def dev_types)
qed

lemma EmulatorFromList_all:
  "EmulatorFromList \<lparr>rd_data = unlines [allDevices], rd_err = None\<rparr> = Inr \<lparr>defaultAllow = True, rules = Mapping.empty\<rparr>"
proof -
  have "scanLines (unlines [allDevices]) = ([allDevices], False)"
    by (rule scanLines_unlines) (simp add: allDevices_def plain_line_def maxScanTokenSize_def)
  then show ?thesis
    by (simp add: EmulatorFromList_def Scan_def parseListLine_all addListLine_def wrapErr_def allow_def isWildcardRule_def)
qed

lemma EmulatorFromList_visible:
  assumes "listable e"
  shows "EmulatorFromList \<lparr>rd_data = unlines (listLines e), rd_err = None\<rparr> = Inr (visible e)"
proof (cases "defaultAllow e")
  case True
  then show ?thesis using EmulatorFromList_all by (simp add: listLines_def visible_def)
next
  case False
  obtain e' where e': "applyAll (Rules e) newEmulator = Inr e'" "absEmu e' = absEmu e"
      "EmulatorFromList \<lparr>rd_data = unlines (map CgroupString (Rules e)), rd_err = None\<rparr> = Inr e'"
    using EmulatorFromList_rules False assms unfolding listable_def by blast
  have "\<forall>r \<in> set (Rules e). list_rule r"
    using diffRules_list_rule assms unfolding listable_def Rules_allow_list [OF False] by blast
  then have "listable e'" using applyAll_listable [OF e'(1)] by simp
  then have "e' = e" using emulator_eqI assms e'(2) by blast
  then show ?thesis using e'(3) False by (simp add: listLines_def visible_def)
qed

lemma loadEmulator_visible:
  assumes "devices_cgroup W path em" and "listable (em s)"
  shows "loadEmulator W path s = (Inr (visible (em s)), s)"
proof -
  have "readFile W path ''devices.list'' s = (Inr (unlines (listLines (em s))), s)"
    by (rule readFile_ok) (use assms(1) in \<open>simp_all add: devices_cgroup_def\<close>)
  then show ?thesis
    by (simp add: loadEmulator_def io_defs EmulatorFromList_visible [OF assms(2)])
qed

lemma writeRules_apply:
  assumes "devices_cgroup W path em" and "applyAll rs (em s) = Inr e"
    and "\<forall>r \<in> set rs. list_rule r \<or> r = disruptiveRule (r_Allow r)"
  shows "\<exists>s'. ioEach (writeRule W path) rs s = (Inr (), s') \<and> em s' = e"
  using assms(2,3)
proof (induction rs arbitrary: s)
  case Nil
  then show ?case by (simp add: ioEach_def ioSeq_Nil_ok applyAll_def)
next
  case (Cons r rs)
  obtain u where u: "Apply r (em s) = Inr u" "applyAll rs u = Inr e"
    using Cons.prems(1) by (auto simp: applyAll_def andThen_Inr_iff)
  have "list_rule r \<or> r = disruptiveRule (r_Allow r)" using Cons.prems(2) by simp
  then obtain t where t:
      "w_write W path (if r_Allow r then ''devices.allow'' else ''devices.deny'') (CgroupString r) s = (None, t)" "em t = u"
    using assms(1) u(1) unfolding devices_cgroup_def by blast
  then have "writeRule W path r s = (Inr (), t)"
    using assms(1) by (simp add: writeRule_def writeFile_def devices_cgroup_def)
  moreover obtain s' where "ioEach (writeRule W path) rs t = (Inr (), s')" "em s' = e"
    using Cons.IH [of t] t(2) u(2) Cons.prems(2) by auto
  ultimately show ?case by (simp add: ioEach_def ioSeq_Cons_Inr)
qed


subsection \<open>Setting the devices\<close>

lemma Transition_rules:
  assumes "listable s" and "listable t" and "r \<in> set (Transition s t)"
  shows "list_rule r \<or> r = disruptiveRule (r_Allow r)"
proof -
  have "list_rule r" if "r \<in> set (diffRules alw (rules u) other)" "listable u" for alw u other
    using that diffRules_list_rule unfolding listable_def by blast
  then show ?thesis using assms
    by (auto simp: Transition_def Let_def disruptiveRule_def diffRules_def split: if_splits)
qed

text \<open>The reset does not look at the exceptions, so the visible state is as good as the true one.\<close>

lemma applyAll_visible:
  "applyAll (Transition (visible e) t) e = applyAll (Transition (visible e) t) (visible e)"
proof (cases "defaultAllow e")
  case True
  then have "IsBlacklist (visible e)" by (simp add: visible_def IsBlacklist_def)
  then have "Transition (visible e) t = disruptiveRule (defaultAllow t) # diffRules (\<not> defaultAllow t) (rules t) Mapping.empty"
    by (simp add: Transition_disruptive)
  moreover have "Apply (disruptiveRule b) e = Apply (disruptiveRule b) (visible e)" for b
    by (simp add: disruptiveRule_def Apply_def CanCgroup_def dev_types allow_def deny_def isWildcardRule_def)
  ultimately show ?thesis by (simp add: applyAll_def)
next
  case False
  then show ?thesis by (simp add: visible_def)
qed

lemma disruptive_type: "r_Type (disruptiveRule b) = WildcardDevice"
  by (simp add: disruptiveRule_def dev_types)

lemma visible_listable: "listable e \<Longrightarrow> listable (visible e)"
  by (simp add: visible_def)



text \<open>A kernel whose state is the devices cgroup.\<close>

definition devWorld :: "Emulator world" where
  "devWorld =
     \<lparr>w_open = (\<lambda>dir file e. (Inr \<lparr>rd_data = unlines (listLines e), rd_err = None\<rparr>, e)),
      w_write = (\<lambda>dir file data e.
        case parseListLine data of
          Inl _ \<Rightarrow> (Some EINVAL, e)
        | Inr rule \<Rightarrow>
            (case (if file = ''devices.allow'' then allow e rule else deny e rule) of
               Inl _ \<Rightarrow> (Some EINVAL, e)
             | Inr e' \<Rightarrow> (None, e'))),
      w_openProcs = (\<lambda>_ _. None), w_mkdirAll = (\<lambda>_ s. (None, s)), w_mkdir = (\<lambda>_ s. (None, s)),
      w_exists = (\<lambda>_ _. True), w_statfs = (\<lambda>_ _. Inr True), w_rdmaOrder = (\<lambda>_. [])\<rparr>"

lemma parseListLine_disruptive: "parseListLine (CgroupString (disruptiveRule b)) = Inr None"
proof -
  have "CgroupString (disruptiveRule b) = allDevices"
    by (simp add: CgroupString_eq disruptiveRule_def printNumber_def Wildcard_def allDevices_def)
  then show ?thesis by (simp add: parseListLine_all)
qed

lemma devWorld_cgroup: "devices_cgroup devWorld ''/d'' (\<lambda>e. e)"
  unfolding devices_cgroup_def
proof (intro conjI allI impI)
  fix s e' :: Emulator and r :: Rule
  assume a: "(list_rule r \<or> r = disruptiveRule (r_Allow r)) \<and> Apply r s = Inr e'"
  have "(if r_Allow r then allow s ro else deny s ro) = Inr e'"
    if "ro = (if r_Type r = WildcardDevice then None
              else Some \<lparr>dr_meta = ruleMeta r, dr_perms = r_Permissions r\<rparr>)" for ro
    using a that by (auto simp: Apply_def Let_def split: if_splits)
  moreover have "parseListLine (CgroupString r) =
      Inr (if r_Type r = WildcardDevice then None
           else Some \<lparr>dr_meta = ruleMeta r, dr_perms = r_Permissions r\<rparr>)"
  proof (cases "list_rule r")
    case True
    then have "r_Type r \<noteq> WildcardDevice" by (auto simp: list_rule_def dev_types)
    with parseListLine_CgroupString [OF True] show ?thesis by simp
  next
    case False
    then have "r = disruptiveRule (r_Allow r)" using a by blast
    then show ?thesis using parseListLine_disruptive disruptive_type by metis
  qed
  ultimately show "\<exists>s'. w_write devWorld ''/d'' (if r_Allow r then ''devices.allow'' else ''devices.deny'') (CgroupString r) s = (None, s') \<and> s' = e'"
    by (cases "r_Allow r") (auto simp: devWorld_def)
qed (simp_all add: devWorld_def)

lemma example_listable:
  "IsValidPerms p \<Longrightarrow> p \<noteq> [] \<Longrightarrow> listable (exampleEmulator p)"
  using exampleEmulator_inv [of p] valid_IsEmpty [of p]
  by (auto simp: listable_def strict_def exampleEmulator_perm IsEmpty_def num_ok_def exampleEmulator_def permOf_def emu_simps)

lemma example_valid: "IsValidPerms ''rw''" "IsValidPerms ''rwm''"
  by (auto simp: IsValidPerms_iff canonical_def permSet_def)

lemma example_apply: "Apply (exampleRule ''rw'') newEmulator = Inr (exampleEmulator ''rw'')"
proof -
  have "Union ''rw'' [] = ''rw''" by (simp add: Union_canonical canonical_def permSet_def)
  then show ?thesis
    by (simp add: Apply_def exampleRule_def CanCgroup_def dev_types allow_def
        isWildcardRule_def newEmulator_def addRule_def wrapErr_def emu_simps exampleEmulator_def)
qed

lemma example_build: "buildEmulator [exampleRule ''rw''] = Inr (exampleEmulator ''rw'')"
  by (simp add: buildEmulator_def applyAll_def example_apply)


text \<open>
  The limit of the final check: rules that add an exception and take it away again ask for an empty
  allow-list, and the check refuses it although the cgroup is in that state, because it compares an
  allocated empty map with a nil one.
\<close>

lemma devices_set_empty_refused:
  "DevicesSet False False devWorld ''/d''
     (emptyResources\<lparr>rs_Devices := [exampleRule ''rw'', (exampleRule ''rw'')\<lparr>r_Allow := False\<rparr>]\<rparr>) newEmulator =
   (Inl DeviceMismatch, newEmulator)"
proof -
  let ?deny = "(exampleRule ''rw'')\<lparr>r_Allow := False\<rparr>"
  let ?rs = "[exampleRule ''rw'', ?deny]"
  let ?r = "emptyResources\<lparr>rs_Devices := ?rs\<rparr>"
  note a1 = example_apply
  have d: "Difference ''rw'' ''rw'' = []" "Intersection [] ''rw'' = []"
    by (simp_all add: Difference_canonical Intersection_canonical canonical_def permSet_def)
  have "permsAt (rules (exampleEmulator ''rw'')) m = (if m = DeviceMeta CHR ''c'' 1 3 then ''rw'' else [])" for m
    by (simp add: exampleEmulator_def emu_simps)
  moreover have "Mapping.delete k (Mapping.update k v Mapping.empty) = Mapping.empty" for k :: deviceMeta and v :: Permissions
    by (simp add: Mapping.delete_update)
  ultimately have a2: "Apply ?deny (exampleEmulator ''rw'') = Inr newEmulator"
    using d
    by (simp add: Apply_def exampleRule_def CanCgroup_def dev_types deny_def isWildcardRule_def rmRule_def
        partialMetas_def Wildcard_def IsEmpty_def wrapErr_def exampleEmulator_def newEmulator_def)
  have b: "buildEmulator [exampleRule ''rw'', ?deny] = Inr newEmulator"
    using a1 a2 by (simp add: buildEmulator_def applyAll_def)
  have al: "rulesAllocated [exampleRule ''rw'', ?deny] newEmulator False"
    using a1 a2 by (simp add: exampleRule_def newEmulator_def dev_types exampleEmulator_def)
  have l: "loadEmulator devWorld ''/d'' newEmulator = (Inr newEmulator, newEmulator)"
    using loadEmulator_visible [OF devWorld_cgroup, of newEmulator] by (simp add: visible_def newEmulator_def)
  have t: "Transition newEmulator newEmulator = []"
    by (simp add: Transition_def IsBlacklist_def newEmulator_def diffRules_def)
  have "finalCheck newEmulator True newEmulator newEmulator = (Inl DeviceMismatch, newEmulator)"
    by (simp add: finalCheck_def deepEqualEmulators_def IsBlacklist_def newEmulator_def io_defs)
  then have f: "(finalCheck newEmulator (rulesAllocated ?rs newEmulator False) :: Emulator \<Rightarrow> (Emulator, unit) io)
      newEmulator newEmulator = (Inl DeviceMismatch, newEmulator)"
    using al by simp
  have w: "ioEach (writeRule devWorld ''/d'') (Transition newEmulator newEmulator) newEmulator = (Inr (), newEmulator)"
    by (simp add: t ioEach_def ioSeq_Nil_ok)
  have bl: "ioLift (buildEmulator ?rs) newEmulator = (Inr newEmulator, newEmulator)"
    by (simp only: b ioLift_def)
  have r: "rs_Devices ?r = ?rs" "rs_SkipDevices ?r = False" by (simp_all add: emptyResources_def)
  show ?thesis
    unfolding DevicesSet_def r
    by (simp only: if_False simp_thms ioThen_Inr [where m = "loadEmulator devWorld ''/d''", OF l]
        ioThen_Inr [where m = "ioLift (buildEmulator ?rs)", OF bl]
        ioThen_Inr [where m = "ioEach (writeRule devWorld ''/d'') (Transition newEmulator newEmulator)", OF w] f)
qed

end
