(* ===== verification/ManagerV1Props.thy ===== *)
theory ManagerV1Props imports DevicesSetProps begin

text \<open>
  The cgroup v1 manager over its subsystems. The interface of a subsystem's \<open>Set\<close> is a locale:
  it only touches files below the path it is given, and none without a path. The cpuset
  controller's own way of making parents is here too.
\<close>

subsection \<open>Actions that keep a property of the state\<close>

named_theorems stays_intros "actions that keep a property of the state"

definition stays :: "('k \<Rightarrow> bool) \<Rightarrow> ('k, 'a) io \<Rightarrow> bool" where
  "stays I m \<longleftrightarrow> (\<forall>s. I s \<longrightarrow> I (snd (m s)))"

text \<open>Reading and writing files of a directory keeps it.\<close>

definition keeps :: "'k world \<Rightarrow> ('k \<Rightarrow> bool) \<Rightarrow> string \<Rightarrow> bool" where
  "keeps W I path \<longleftrightarrow>
     (\<forall>f d s. I s \<longrightarrow> I (snd (w_write W path f d s))) \<and> (\<forall>f s. I s \<longrightarrow> I (snd (w_open W path f s)))"

lemma stays_ret [stays_intros]: "stays I (ioRet x)"
  and stays_err [stays_intros]: "stays I (ioErr e)"
  and stays_lift [stays_intros]: "stays I (ioLift res)"
  by (simp_all add: stays_def io_defs)

lemma stays_case [stays_intros]:
  "stays I m \<Longrightarrow> (\<And>e. stays I (h e)) \<Longrightarrow> (\<And>x. stays I (f x)) \<Longrightarrow> stays I (ioCase m h f)"
  unfolding stays_def io_defs by (metis (no_types, lifting) prod.case_eq_if sum.case_eq_if)

lemma stays_then [stays_intros]: "stays I m \<Longrightarrow> (\<And>x. stays I (f x)) \<Longrightarrow> stays I (ioThen m f)"
  unfolding ioThen_def by (intro stays_intros)

lemma stays_when [stays_intros]: "(c \<Longrightarrow> stays I m) \<Longrightarrow> stays I (ioWhen c m)"
  by (simp add: ioWhen_def stays_ret)

lemma stays_ignore [stays_intros]: "stays I m \<Longrightarrow> stays I (ioIgnore m)"
  unfolding ioIgnore_def by (intro stays_intros)

lemma stays_seq [stays_intros]: "(\<And>m. m \<in> set ms \<Longrightarrow> stays I m) \<Longrightarrow> stays I (ioSeq ms)"
  by (induction ms) (simp_all add: ioSeq.simps stays_intros)

lemma stays_each [stays_intros]: "(\<And>x. stays I (f x)) \<Longrightarrow> stays I (ioEach f xs)"
  unfolding ioEach_def by (rule stays_seq) auto

lemma stays_if [stays_intros]: "stays I m \<Longrightarrow> stays I n \<Longrightarrow> stays I (if c then m else n)"
  by simp

lemma stays_write [stays_intros]: "dir \<noteq> [] \<longrightarrow> keeps W I dir \<Longrightarrow> stays I (writeFile W dir f d)"
  unfolding stays_def writeFile_def keeps_def
  by (auto split: prod.splits option.splits) (metis snd_conv)+

lemma stays_open [stays_intros]: "dir \<noteq> [] \<longrightarrow> keeps W I dir \<Longrightarrow> stays I (openRead W dir f)"
  unfolding stays_def openRead_def keeps_def
  by (auto split: prod.splits sum.splits) (metis snd_conv)+

lemma stays_option [stays_intros]:
  "(x = None \<Longrightarrow> stays I a) \<Longrightarrow> (\<And>y. stays I (b y)) \<Longrightarrow> stays I (case x of None \<Rightarrow> a | Some y \<Rightarrow> b y)"
  by (cases x) simp_all

lemma stays_sum [stays_intros]:
  "(\<And>y. stays I (a y)) \<Longrightarrow> (\<And>y. stays I (b y)) \<Longrightarrow> stays I (case x of Inl y \<Rightarrow> a y | Inr y \<Rightarrow> b y)"
  by (cases x) simp_all

lemma stays_read [stays_intros]: "dir \<noteq> [] \<longrightarrow> keeps W I dir \<Longrightarrow> stays I (readFile W dir f)"
  unfolding readFile_def by (intro stays_intros)

lemma stays_string [stays_intros]: "dir \<noteq> [] \<longrightarrow> keeps W I dir \<Longrightarrow> stays I (GetCgroupParamString W dir f)"
  unfolding GetCgroupParamString_def by (intro stays_intros)

lemma stays_uint [stays_intros]: "dir \<noteq> [] \<longrightarrow> keeps W I dir \<Longrightarrow> stays I (GetCgroupParamUint W dir f)"
  unfolding GetCgroupParamUint_def by (intro stays_intros)

subsection \<open>The interface of a subsystem's Set\<close>

locale subsystem_set =
  fixes set_op :: "'k world \<Rightarrow> string \<Rightarrow> Resources \<Rightarrow> ('k, unit) io"
  assumes confined: "(path \<noteq> [] \<longrightarrow> keeps W I path) \<Longrightarrow> stays I (set_op W path r)"
begin

lemma frame: "(path \<noteq> [] \<longrightarrow> keeps W I path) \<Longrightarrow> I s \<Longrightarrow> I (snd (set_op W path r s))"
  using confined unfolding stays_def by blast

lemma no_path: "snd (set_op W [] r s) = s"
  using frame [of "[]" W "\<lambda>t. t = s" s r] by simp

end

lemma stays_setMemory [stays_intros]: "dir \<noteq> [] \<longrightarrow> keeps W I dir \<Longrightarrow> stays I (setMemory W dir v)"
  unfolding setMemory_def by (intro stays_intros)

lemma stays_setSwap [stays_intros]: "dir \<noteq> [] \<longrightarrow> keeps W I dir \<Longrightarrow> stays I (setSwap W dir v)"
  unfolding setSwap_def by (intro stays_intros)

interpretation mem: subsystem_set MemorySet
proof
  fix path :: string and W :: "'k world" and I r
  assume k: "path \<noteq> [] \<longrightarrow> keeps W I path"
  have "stays I (writeMemoryAndSwap W path r')" for r'
    unfolding writeMemoryAndSwap_def Let_def using k by (auto intro!: stays_intros)
  then have "stays I (setMemoryAndSwap W path r)" by (simp add: stays_def setMemoryAndSwap_def)
  then show "stays I (MemorySet W path r)"
    unfolding MemorySet_def using k by (auto intro!: stays_intros split: option.split)
qed

lemma stays_periodQuota [stays_intros]:
  "dir \<noteq> [] \<longrightarrow> keeps W I dir \<Longrightarrow> stays I (setPeriodQuota W dir pf qf p q)"
  unfolding setPeriodQuota_def by (auto intro!: stays_intros)

interpretation cpu: subsystem_set CpuSet
  by unfold_locales (auto simp: CpuSet_def SetRtSched_def setShares_def intro!: stays_intros)

interpretation cpuset: subsystem_set CpusetSet
  by unfold_locales (auto simp: CpusetSet_def intro!: stays_intros)

lemma stays_loadEmulator [stays_intros]: "dir \<noteq> [] \<longrightarrow> keeps W I dir \<Longrightarrow> stays I (loadEmulator W dir)"
  unfolding loadEmulator_def by (intro stays_intros)

interpretation devs: subsystem_set "DevicesSet inUserNS skipFinalCheck"
  by unfold_locales (auto simp: DevicesSet_def writeRule_def finalCheck_def intro!: stays_intros)

interpretation blk: subsystem_set "BlkioSet g"
proof
  fix path :: string and W :: "'k world" and I r
  assume "path \<noteq> [] \<longrightarrow> keeps W I path"
  then have "stays I (BlkioSetWith W path r h)" for h
    by (auto simp: BlkioSetWith_def weightDevices_def throttleDevices_def intro!: stays_intros)
  then show "stays I (BlkioSet g W path r)" by (simp add: stays_def BlkioSet_def)
qed

lemma stays_hugetlb: "dir \<noteq> [] \<longrightarrow> keeps W I dir \<Longrightarrow> stays I (hugetlbLoop W dir b hs)"
proof (induction hs arbitrary: b)
  case Nil
  then show ?case by (simp add: stays_intros)
next
  case (Cons h hs)
  then show ?case by (auto simp: Let_def intro!: stays_intros)
qed

interpretation huge: subsystem_set HugetlbSet
  by unfold_locales (simp add: HugetlbSet_def stays_hugetlb)

interpretation pids: subsystem_set PidsSet
  by unfold_locales (auto simp: PidsSet_def intro!: stays_intros)

interpretation netcls: subsystem_set NetClsSet
  by unfold_locales (auto simp: NetClsSet_def intro!: stays_intros)

interpretation netprio: subsystem_set NetPrioSet
  by unfold_locales (auto simp: NetPrioSet_def intro!: stays_intros)

interpretation nothing: subsystem_set noSet
  by unfold_locales (auto simp: noSet_def intro!: stays_intros)

interpretation rdma: subsystem_set RdmaSet
  by unfold_locales (auto simp: RdmaSet_def intro!: stays_intros)

lemma stays_writeState [stays_intros]: "dir \<noteq> [] \<longrightarrow> keeps W I dir \<Longrightarrow> stays I (writeState W dir st)"
  unfolding writeState_def by (intro stays_intros)

lemma stays_freezeLoop: "dir \<noteq> [] \<longrightarrow> keeps W I dir \<Longrightarrow> stays I (freezeLoop W dir n i)"
proof (induction n arbitrary: i)
  case 0
  then show ?case by (simp add: freezeLoop.simps stays_intros)
next
  case (Suc n)
  then show ?case by (auto simp: freezeLoop.simps intro!: stays_intros)
qed

interpretation freezer: subsystem_set FreezerSet
  by unfold_locales
     (auto simp: FreezerSet_def stays_freezeLoop intro!: stays_intros split: FreezerState.split)


lemmas controllers_confined =
  mem.subsystem_set_axioms cpu.subsystem_set_axioms cpuset.subsystem_set_axioms
  devs.subsystem_set_axioms blk.subsystem_set_axioms huge.subsystem_set_axioms
  pids.subsystem_set_axioms netcls.subsystem_set_axioms netprio.subsystem_set_axioms
  nothing.subsystem_set_axioms rdma.subsystem_set_axioms freezer.subsystem_set_axioms

lemma subsystems_set:
  "sys \<in> set (subsystems hybrid inUserNS g) \<Longrightarrow> subsystem_set (sub_Set sys)"
  unfolding subsystems_def plainSub_def NameGroup_def
  using controllers_confined by (auto split: if_splits)

subsection \<open>Set of the manager\<close>

lemma managerSetLoop_Cons:
  "managerSetLoop W m (sys # syss) r s =
     (let path = pathOf m (sub_Name sys);
          r' = (if sub_Name sys = ''memory'' then adaptSwap W path r s else r);
          s' = snd (sub_Set sys W path r s) in
      case fst (sub_Set sys W path r s) of
        Inr _ \<Rightarrow> managerSetLoop W m syss r' s'
      | Inl e \<Rightarrow>
          if cg_Rootless (m_cgroups m) \<and> sub_Name sys = ''devices'' then managerSetLoop W m syss r' s'
          else if path = [] then (Some (CannotSetLimit (sub_Name sys)), r', s')
          else (Some e, r', s'))"
  by (simp only: managerSetLoop.simps Let_def case_prod_beta)

declare managerSetLoop.simps(2) [simp del]

lemma managerSetLoop_frame:
  assumes "\<And>sys. sys \<in> set syss \<Longrightarrow> subsystem_set (sub_Set sys)"
    and "\<And>name p. m_paths m name = Some p \<Longrightarrow> p \<noteq> [] \<Longrightarrow> keeps W I p" and "I s"
  shows "I (snd (snd (managerSetLoop W m syss r s)))"
  using assms(1,3)
proof (induction syss arbitrary: r s)
  case Nil
  then show ?case by simp
next
  case (Cons sys syss)
  have "pathOf m (sub_Name sys) \<noteq> [] \<longrightarrow> keeps W I (pathOf m (sub_Name sys))"
    using assms(2) by (auto simp: pathOf_def split: option.splits)
  then have "I (snd (sub_Set sys W (pathOf m (sub_Name sys)) r s))"
    using subsystem_set.frame Cons.prems by (metis list.set_intros(1))
  then show ?case using Cons.IH Cons.prems(1)
    by (auto simp: managerSetLoop_Cons Let_def split: sum.splits if_splits)
qed

text \<open>C30. The manager's Set stays inside the container: a property of the kernel's state that does not
  depend on the files of the manager's own cgroup directories still holds after Set, whatever
  resources are asked for, which subsystems have a directory, and whether Set succeeds or fails
  half way. In particular a subsystem without a directory never touches a file.\<close>

theorem manager_set_confined:
  assumes "\<And>name p. m_paths m name = Some p \<Longrightarrow> p \<noteq> [] \<Longrightarrow> keeps W I p" and "I s"
  shows "I (snd (snd (managerSet W (subsystems hybrid inUserNS g) m ro s)))"
proof -
  have "I (snd (snd (managerSetLoop W m (subsystems hybrid inUserNS g) r s)))" for r
    by (rule managerSetLoop_frame [where I = I, OF subsystems_set assms])
  then show ?thesis using assms(2) by (auto simp: managerSet_def split: option.splits prod.splits) (metis snd_conv)+
qed

text \<open>A world in which files outside the container are just that: a write is recorded by directory.\<close>

definition logWorld :: "(string \<times> string \<times> string) list world" where
  "logWorld =
     \<lparr>w_open = (\<lambda>_ _ s. (Inl ENOENT, s)), w_write = (\<lambda>dir file data s. (None, s @ [(dir, file, data)])),
      w_openProcs = (\<lambda>_ _. None), w_mkdirAll = (\<lambda>_ s. (None, s)), w_mkdir = (\<lambda>_ s. (None, s)),
      w_exists = (\<lambda>_ _. True), w_statfs = (\<lambda>_ _. Inr True), w_rdmaOrder = (\<lambda>_. [])\<rparr>"

definition exampleManager :: manager where
  "exampleManager =
     \<lparr>m_cgroups = \<lparr>cg_Name = [], cg_Parent = [], cg_Path = [], cg_ScopePrefix = [], cg_Resources = None,
        cg_Systemd = False, cg_SystemdProps = [], cg_Rootless = False, cg_OwnerUID = None\<rparr>,
      m_paths = [''pids'' \<mapsto> ''/p'']\<rparr>"

theorem manager_set_confined_witness:
  "list_all (\<lambda>(dir, _, _). dir = ''/p'')
     (snd (snd (managerSet logWorld (subsystems False True \<lparr>weightFilename = [], weightDeviceFilename = []\<rparr>)
        exampleManager (Some (emptyResources\<lparr>rs_PidsLimit := 5, rs_Memory := 7\<rparr>)) [])))"
  by (rule manager_set_confined [where I = "list_all (\<lambda>(dir, _, _). dir = ''/p'')"])
     (auto simp: exampleManager_def keeps_def logWorld_def split: if_splits)

text \<open>What a request asks of a subsystem.\<close>

definition asks :: "(string \<Rightarrow> bool) \<Rightarrow> Resources \<Rightarrow> bool" where
  "asks is r \<longleftrightarrow>
     (is ''cpuset'' \<and> (rs_CpusetCpus r \<noteq> [] \<or> rs_CpusetMems r \<noteq> [])) \<or>
     (is ''devices'' \<and> \<not> rs_SkipDevices r) \<or>
     (is ''memory'' \<and> (rs_Memory r \<noteq> 0 \<or> rs_MemorySwap r \<noteq> 0 \<or> rs_MemoryReservation r \<noteq> 0 \<or> rs_OomKillDisable r \<or>
        (\<exists>sw. rs_MemorySwappiness r = Some sw \<and> sw \<noteq> - 1))) \<or>
     (is ''cpu'' \<and> (rs_CpuShares r \<noteq> 0 \<or> rs_CpuPeriod r \<noteq> 0 \<or> rs_CpuQuota r \<noteq> 0 \<or>
        rs_CpuRtPeriod r \<noteq> 0 \<or> rs_CpuRtRuntime r \<noteq> 0)) \<or>
     (is ''pids'' \<and> rs_PidsLimit r \<noteq> 0) \<or>
     (is ''blkio'' \<and> (rs_BlkioWeight r \<noteq> 0 \<or> rs_BlkioLeafWeight r \<noteq> 0 \<or>
        (\<exists>wd \<in> set (rs_BlkioWeightDevice r). wd_Weight wd \<noteq> 0 \<or> wd_LeafWeight wd \<noteq> 0) \<or>
        rs_BlkioThrottleReadBpsDevice r \<noteq> [] \<or> rs_BlkioThrottleWriteBpsDevice r \<noteq> [] \<or>
        rs_BlkioThrottleReadIOPSDevice r \<noteq> [] \<or> rs_BlkioThrottleWriteIOPSDevice r \<noteq> [])) \<or>
     (is ''hugetlb'' \<and> rs_HugetlbLimit r \<noteq> []) \<or>
     (is ''net_cls'' \<and> rs_NetClsClassid r \<noteq> 0) \<or>
     (is ''net_prio'' \<and> rs_NetPrioIfpriomap r \<noteq> []) \<or>
     (is ''freezer'' \<and> rs_Freezer r \<noteq> Undefined)"

definition fails :: "('k, 'a) io \<Rightarrow> bool" where
  "fails m \<longleftrightarrow> (\<forall>s. isl (fst (m s)))"

lemma writeFile_no_dir: "writeFile W [] f d s = (Inl (NoDir f), s)"
  by (simp add: writeFile_def)

lemma fails_write: "fails (writeFile W [] f d)"
  and fails_err: "fails (ioErr e)"
  by (simp_all add: fails_def writeFile_no_dir io_defs)

lemma fails_then: "fails m \<Longrightarrow> fails (ioThen m f)"
  unfolding fails_def io_defs by (metis (no_types, lifting) case_prod_beta fst_conv isl_def sum.case_eq_if)

lemma fails_when: "c \<Longrightarrow> fails m \<Longrightarrow> fails (ioWhen c m)"
  by (simp add: ioWhen_def)

lemma fails_seq: "m \<in> set ms \<Longrightarrow> fails m \<Longrightarrow> fails (ioSeq ms)"
proof (induction ms)
  case Nil
  then show ?case by simp
next
  case (Cons n ms)
  show ?case
  proof (cases "n = m")
    case True
    then show ?thesis using Cons.prems fails_then by (simp add: ioSeq.simps)
  next
    case False
    then have "fails (ioSeq ms)" using Cons by auto
    then show ?thesis
      by (auto simp: fails_def ioSeq.simps io_defs split: prod.splits sum.splits)
  qed
qed

lemma fails_each: "x \<in> set xs \<Longrightarrow> fails (f x) \<Longrightarrow> fails (ioEach f xs)"
  unfolding ioEach_def by (rule fails_seq) auto

lemma fails_setMemory: "v \<noteq> 0 \<Longrightarrow> fails (setMemory W [] v)"
  by (simp add: fails_def setMemory_def writeFile_no_dir io_defs)

lemma fails_setSwap: "v \<noteq> 0 \<Longrightarrow> fails (setSwap W [] v)"
  by (simp add: setSwap_def fails_write)

lemma fails_memory_swap:
  "rs_Memory r \<noteq> 0 \<or> rs_MemorySwap r \<noteq> 0 \<Longrightarrow> fails (setMemoryAndSwap W [] r)"
proof -
  assume a: "rs_Memory r \<noteq> 0 \<or> rs_MemorySwap r \<noteq> 0"
  have "fails (writeMemoryAndSwap W [] r')" if "rs_Memory r' \<noteq> 0 \<or> rs_MemorySwap r' \<noteq> 0" for r'
  proof (cases "rs_Memory r' \<noteq> 0 \<and> rs_MemorySwap r' \<noteq> 0")
    case True
    have "fails (GetCgroupParamUint W [] cgroupMemoryLimit)"
      by (simp add: fails_def GetCgroupParamUint_def GetCgroupParamString_def readFile_def openRead_def io_defs)
    then show ?thesis using True by (simp add: writeMemoryAndSwap_def Let_def fails_then)
  next
    case False
    then show ?thesis using that
      by (auto simp: writeMemoryAndSwap_def Let_def intro: fails_seq fails_setMemory fails_setSwap)
  qed
  moreover have "rs_Memory (adaptSwap W [] r s) \<noteq> 0 \<or> rs_MemorySwap (adaptSwap W [] r s) \<noteq> 0" for s
    using a by (simp add: adaptSwap_def)
  ultimately show ?thesis by (simp add: fails_def setMemoryAndSwap_def)
qed

lemma fails_memory:
  assumes "rs_Memory r \<noteq> 0 \<or> rs_MemorySwap r \<noteq> 0 \<or> rs_MemoryReservation r \<noteq> 0 \<or> rs_OomKillDisable r \<or>
    (\<exists>sw. rs_MemorySwappiness r = Some sw \<and> sw \<noteq> - 1)"
  shows "fails (MemorySet W [] r)"
proof -
  consider "rs_Memory r \<noteq> 0 \<or> rs_MemorySwap r \<noteq> 0" | "rs_MemoryReservation r \<noteq> 0" | "rs_OomKillDisable r"
    | sw where "rs_MemorySwappiness r = Some sw" "sw \<noteq> - 1" using assms by blast
  then show ?thesis
    unfolding MemorySet_def
  proof cases
    case 1
    then show "fails (ioSeq [setMemoryAndSwap W [] r, a, b, c])" for a b c
      by (intro fails_seq [OF _ fails_memory_swap]) auto
  next
    case 2
    then show "fails (ioSeq [a, ioWhen (rs_MemoryReservation r \<noteq> 0) (writeFile W [] f d), b, c])" for a b c f d
      by (intro fails_seq [OF _ fails_when [OF _ fails_write]]) auto
  next
    case 3
    then show "fails (ioSeq [a, b, ioWhen (rs_OomKillDisable r) (writeFile W [] f d), c])" for a b c f d
      by (intro fails_seq [OF _ fails_when [OF _ fails_write]]) auto
  next
    case 4
    then show "fails (ioSeq [a, b, c, case rs_MemorySwappiness r of None \<Rightarrow> ioRet ()
       | Some sw \<Rightarrow> if sw = - 1 then ioRet ()
           else if sw \<le> 100 then writeFile W [] ''memory.swappiness'' (FormatUint sw)
           else ioErr (BadSwappiness sw)])" for a b c
      using fails_write fails_err
      by (intro fails_seq [where m = "case rs_MemorySwappiness r of None \<Rightarrow> ioRet ()
       | Some sw \<Rightarrow> if sw = - 1 then ioRet ()
           else if sw \<le> 100 then writeFile W [] ''memory.swappiness'' (FormatUint sw)
           else ioErr (BadSwappiness sw)"]) auto
  qed
qed

lemma fails_periodQuota: "p \<noteq> 0 \<or> q \<noteq> 0 \<Longrightarrow> fails (setPeriodQuota W [] pf qf p q)"
proof (cases "p = 0")
  case True
  assume "p \<noteq> 0 \<or> q \<noteq> 0"
  then have q: "q \<noteq> 0" using True by simp
  have "fails (ioWhen (q \<noteq> 0) (ioSeq [writeFile W [] qf (Itoa q), x]))" for x
    by (intro fails_when [OF q] fails_seq [where m = "writeFile W [] qf (Itoa q)"] fails_write) simp
  then show ?thesis using True by (simp add: setPeriodQuota_def fails_def ioThen_def ioCase_def ioRet_def)
next
  case False
  have "fails (ioCase (writeFile W [] pf (FormatUint p))
      (\<lambda>e. if \<not> isErrno EINVAL e \<or> q = 0 then ioErr e else ioRet (FormatUint p)) (\<lambda>_. ioRet []))"
    by (simp add: fails_def ioCase_def writeFile_no_dir ioErr_def)
  then show ?thesis using False by (simp add: setPeriodQuota_def fails_then)
qed

lemma fails_cpu:
  assumes "rs_CpuShares r \<noteq> 0 \<or> rs_CpuPeriod r \<noteq> 0 \<or> rs_CpuQuota r \<noteq> 0 \<or> rs_CpuRtPeriod r \<noteq> 0 \<or> rs_CpuRtRuntime r \<noteq> 0"
  shows "fails (CpuSet W [] r)"
proof -
  let ?a = "ioWhen (rs_CpuShares r \<noteq> 0) (setShares W [] (rs_CpuShares r))"
  let ?b = "setPeriodQuota W [] ''cpu.cfs_period_us'' ''cpu.cfs_quota_us'' (rs_CpuPeriod r) (rs_CpuQuota r)"
  have a: "fails ?a" if "rs_CpuShares r \<noteq> 0"
    unfolding setShares_def by (intro fails_when [OF that] fails_then fails_write)
  have b: "fails ?b" if "rs_CpuPeriod r \<noteq> 0 \<or> rs_CpuQuota r \<noteq> 0"
    using that by (rule fails_periodQuota)
  have c: "fails (SetRtSched W [] r)" if "rs_CpuRtPeriod r \<noteq> 0 \<or> rs_CpuRtRuntime r \<noteq> 0"
    unfolding SetRtSched_def using that by (rule fails_periodQuota)
  from a b c assms have "fails ?a \<or> fails ?b \<or> fails (SetRtSched W [] r)" by blast
  then show ?thesis unfolding CpuSet_def
    using fails_seq [of _ "[?a, ?b, SetRtSched W [] r]"] by auto
qed


lemma fails_blkio:
  assumes "rs_BlkioWeight r \<noteq> 0 \<or> rs_BlkioLeafWeight r \<noteq> 0 \<or>
    (\<exists>wd \<in> set (rs_BlkioWeightDevice r). wd_Weight wd \<noteq> 0 \<or> wd_LeafWeight wd \<noteq> 0) \<or>
    rs_BlkioThrottleReadBpsDevice r \<noteq> [] \<or> rs_BlkioThrottleWriteBpsDevice r \<noteq> [] \<or>
    rs_BlkioThrottleReadIOPSDevice r \<noteq> [] \<or> rs_BlkioThrottleWriteIOPSDevice r \<noteq> []"
  shows "fails (BlkioSet g W [] r)"
proof -
  have "fails (BlkioSetWith W [] r h)" for h
  proof -
    have w: "fails (ioWhen c (writeFile W [] f d))" if c for c f d
      using that by (intro fails_when fails_write)
    have wd: "fails (weightDevices W [] h x)" if "wd_Weight x \<noteq> 0 \<or> wd_LeafWeight x \<noteq> 0" for x
    proof (cases "wd_Weight x = 0")
      case True
      then have "wd_LeafWeight x \<noteq> 0" using that by simp
      from w [OF this] show ?thesis unfolding weightDevices_def
        by (rule fails_seq [rotated]) (rule list.set_intros(2), rule list.set_intros(1))
    next
      case False
      from w [OF this] show ?thesis unfolding weightDevices_def
        by (rule fails_seq [rotated]) (rule list.set_intros(1))
    qed
    have td: "fails (throttleDevices W [] f xs)" if "xs \<noteq> []" for f xs
      using that unfolding throttleDevices_def by (intro fails_each [of "hd xs"] fails_write) simp
    have ex: "\<exists>m \<in> set ms. fails m \<Longrightarrow> fails (ioSeq ms)" for ms :: "('a, unit) io list"
      using fails_seq by blast
    show ?thesis unfolding BlkioSetWith_def
      using assms w wd td by (intro ex) (auto intro: fails_each)
  qed
  then show ?thesis by (simp add: fails_def BlkioSet_def)
qed

lemma fails_hugetlb: "rs_HugetlbLimit r \<noteq> [] \<Longrightarrow> fails (HugetlbSet W [] r)"
  by (cases "rs_HugetlbLimit r") (auto simp: HugetlbSet_def Let_def intro!: fails_then fails_write)

lemma fails_freezer: "rs_Freezer r \<noteq> Undefined \<Longrightarrow> fails (FreezerSet W [] r)"
proof -
  have "fails (freezeLoop W [] (Suc n) 0)" for n
    unfolding freezeLoop.simps
    by (rule fails_seq [where m = "writeState W [] Frozen"]) (simp_all add: writeState_def fails_write)
  then have "fails (freezeLoop W [] 1000 0)" by (metis eval_nat_numeral(2) numeral_eq_Suc)
  then have "fails (ioCase (freezeLoop W [] 1000 0)
      (\<lambda>e. ioThen (ioIgnore (writeState W [] Thawed)) (\<lambda>_. ioErr e)) ioRet)"
    by (auto simp: fails_def io_defs writeState_def writeFile_no_dir split: prod.splits sum.splits)
       (metis fst_conv sum.disc(2))
  moreover assume "rs_Freezer r \<noteq> Undefined"
  ultimately show ?thesis
    by (cases "rs_Freezer r") (simp_all add: FreezerSet_def writeState_def fails_write fails_err)
qed

lemma fails_devices: "\<not> rs_SkipDevices r \<Longrightarrow> fails (DevicesSet False b W [] r)"
  by (simp add: DevicesSet_def fails_def loadEmulator_def readFile_def openRead_def io_defs)

lemma asks_names:
  "asks (\<lambda>n. n = ''cpuset'') r \<longleftrightarrow> rs_CpusetCpus r \<noteq> [] \<or> rs_CpusetMems r \<noteq> []"
  "asks (\<lambda>n. n = ''devices'') r \<longleftrightarrow> \<not> rs_SkipDevices r"
  "asks (\<lambda>n. n = ''memory'') r \<longleftrightarrow> rs_Memory r \<noteq> 0 \<or> rs_MemorySwap r \<noteq> 0 \<or> rs_MemoryReservation r \<noteq> 0 \<or>
     rs_OomKillDisable r \<or> (\<exists>sw. rs_MemorySwappiness r = Some sw \<and> sw \<noteq> - 1)"
  "asks (\<lambda>n. n = ''cpu'') r \<longleftrightarrow> rs_CpuShares r \<noteq> 0 \<or> rs_CpuPeriod r \<noteq> 0 \<or> rs_CpuQuota r \<noteq> 0 \<or>
     rs_CpuRtPeriod r \<noteq> 0 \<or> rs_CpuRtRuntime r \<noteq> 0"
  "\<not> asks (\<lambda>n. n = ''cpuacct'') r"
  "asks (\<lambda>n. n = ''pids'') r \<longleftrightarrow> rs_PidsLimit r \<noteq> 0"
  "asks (\<lambda>n. n = ''blkio'') r \<longleftrightarrow> rs_BlkioWeight r \<noteq> 0 \<or> rs_BlkioLeafWeight r \<noteq> 0 \<or>
     (\<exists>wd \<in> set (rs_BlkioWeightDevice r). wd_Weight wd \<noteq> 0 \<or> wd_LeafWeight wd \<noteq> 0) \<or>
     rs_BlkioThrottleReadBpsDevice r \<noteq> [] \<or> rs_BlkioThrottleWriteBpsDevice r \<noteq> [] \<or>
     rs_BlkioThrottleReadIOPSDevice r \<noteq> [] \<or> rs_BlkioThrottleWriteIOPSDevice r \<noteq> []"
  "asks (\<lambda>n. n = ''hugetlb'') r \<longleftrightarrow> rs_HugetlbLimit r \<noteq> []"
  "asks (\<lambda>n. n = ''net_cls'') r \<longleftrightarrow> rs_NetClsClassid r \<noteq> 0"
  "asks (\<lambda>n. n = ''net_prio'') r \<longleftrightarrow> rs_NetPrioIfpriomap r \<noteq> []"
  "\<not> asks (\<lambda>n. n = ''perf_event'') r"
  "asks (\<lambda>n. n = ''freezer'') r \<longleftrightarrow> rs_Freezer r \<noteq> Undefined"
  "\<not> asks (\<lambda>n. n = ''rdma'') r" "\<not> asks (\<lambda>n. n = ''name=systemd'') r" "\<not> asks (\<lambda>n. n = ''misc'') r"
  "\<not> asks (\<lambda>n. n = []) r"
  unfolding asks_def by simp_all

lemma asks_fails:
  assumes "asks (\<lambda>n. n = sub_Name sys) r" and "sys \<in> set (subsystems hybrid False g)"
  shows "fails (sub_Set sys W [] r)"
proof -
  have cs: "fails (CpusetSet W [] r)" if "rs_CpusetCpus r \<noteq> [] \<or> rs_CpusetMems r \<noteq> []"
  proof (cases "rs_CpusetCpus r = []")
    case True
    with that show ?thesis unfolding CpusetSet_def
      by (intro fails_seq [where m = "ioWhen (rs_CpusetMems r \<noteq> []) (writeFile W [] ''cpuset.mems'' (rs_CpusetMems r))"]
          fails_when fails_write) auto
  next
    case False
    then show ?thesis unfolding CpusetSet_def
      by (intro fails_seq [where m = "ioWhen (rs_CpusetCpus r \<noteq> []) (writeFile W [] ''cpuset.cpus'' (rs_CpusetCpus r))"]
          fails_when fails_write) auto
  qed
  have pi: "fails (PidsSet W [] r)" if "rs_PidsLimit r \<noteq> 0"
    unfolding PidsSet_def by (rule fails_when [OF that fails_write])
  have nc: "fails (NetClsSet W [] r)" if "rs_NetClsClassid r \<noteq> 0"
    unfolding NetClsSet_def by (rule fails_when [OF that fails_write])
  have np: "fails (NetPrioSet W [] r)" if "rs_NetPrioIfpriomap r \<noteq> []"
    unfolding NetPrioSet_def using that by (intro fails_each [of "hd (rs_NetPrioIfpriomap r)"] fails_write) simp
  note fs = cs pi nc np fails_memory [of r W] fails_cpu [of r W] fails_blkio [of r g W]
      fails_hugetlb [of r W] fails_freezer [of r W] fails_devices [of r False W]
  show ?thesis
    using assms(2) unfolding subsystems_def plainSub_def NameGroup_def
    by (simp split: if_splits; elim disjE; insert assms(1) fs; simp add: asks_names)
qed


lemma asks_swap: "asks is r \<Longrightarrow> asks is (r\<lparr>rs_MemorySwap := -1\<rparr>)"
  unfolding asks_def by (elim disjE; simp)

text \<open>A successful Set has gone through every subsystem.\<close>

lemma managerSetLoop_reached:
  assumes "fst (managerSetLoop W m syss r s) = None" and "sys \<in> set syss"
    and "\<not> (cg_Rootless (m_cgroups m) \<and> sub_Name sys = ''devices'')"
  shows "\<exists>r' s'. (\<not> isl (fst (sub_Set sys W (pathOf m (sub_Name sys)) r' s'))) \<and> (r' = r \<or> r' = r\<lparr>rs_MemorySwap := -1\<rparr>)"
  using assms(1,2)
proof (induction syss arbitrary: r s)
  case Nil
  then show ?case by simp
next
  case (Cons x syss)
  let ?r = "if sub_Name x = ''memory'' then adaptSwap W (pathOf m (sub_Name x)) r s else r"
  let ?s = "snd (sub_Set x W (pathOf m (sub_Name x)) r s)"
  have r: "?r = r \<or> ?r = r\<lparr>rs_MemorySwap := -1\<rparr>" by (auto simp: adaptSwap_def)
  have "sys = x \<Longrightarrow> \<not> isl (fst (sub_Set x W (pathOf m (sub_Name x)) r s))"
    using Cons.prems(1) assms(3) by (auto simp: managerSetLoop_Cons Let_def isl_def split: if_splits)
  moreover have "fst (managerSetLoop W m syss ?r ?s) = None"
    using Cons.prems(1) by (auto simp: managerSetLoop_Cons Let_def split: if_splits sum.splits)
  ultimately show ?case
    using Cons.IH [of ?r ?s] Cons.prems(2) r by fastforce
qed




end
