(* ===== verification/CpusetProps.thy ===== *)
theory CpusetProps imports ControllersProps begin

text \<open>
  The cpuset controller: a process can only enter a cpuset with cpus and memory nodes, so the
  controller fills the directory and its parents from the top down.
\<close>

definition cpusetFiles :: "string list" where "cpusetFiles = [''cpuset.cpus'', ''cpuset.mems'']"

text \<open>
  Cpusets of the kernel, \<open>val dir file\<close> being the content of a file: reading gives the content, a
  write that succeeds makes the file non-empty when something is written, and neither that nor
  anything else empties a file; the root of the hierarchy is never empty.
\<close>

definition cpuset_kernel :: "'k world \<Rightarrow> (string \<Rightarrow> string \<Rightarrow> 'k \<Rightarrow> string) \<Rightarrow> bool" where
  "cpuset_kernel W val \<longleftrightarrow>
     (\<forall>d f s r s'. w_open W d f s = (Inr r, s') \<longrightarrow> rd_err r = None \<longrightarrow> rd_data r = val d f s) \<and>
     (\<forall>d f s. snd (w_open W d f s) = s) \<and>
     (\<forall>d f x s s'. w_write W d f x s = (None, s') \<longrightarrow> \<not> isEmptyCpuset x \<longrightarrow> \<not> isEmptyCpuset (val d f s')) \<and>
     (\<forall>d f d' f' x s. \<not> isEmptyCpuset (val d f s) \<longrightarrow> (d', f') \<noteq> (d, f) \<or> \<not> isEmptyCpuset x \<longrightarrow>
        \<not> isEmptyCpuset (val d f (snd (w_write W d' f' x s)))) \<and>
     (\<forall>d f p s. \<not> isEmptyCpuset (val d f s) \<longrightarrow> \<not> isEmptyCpuset (val d f (snd (w_mkdir W p s)))) \<and>
     (\<forall>d f s. w_statfs W (PathDir d) s = Inr False \<longrightarrow> f \<in> set cpusetFiles \<longrightarrow> \<not> isEmptyCpuset (val d f s))"

definition populated :: "(string \<Rightarrow> string \<Rightarrow> 'k \<Rightarrow> string) \<Rightarrow> string \<Rightarrow> 'k \<Rightarrow> bool" where
  "populated val dir s \<longleftrightarrow> (\<forall>f \<in> set cpusetFiles. \<not> isEmptyCpuset (val dir f s))"

lemma kernel_write_other:
  assumes "cpuset_kernel W val" and "\<not> isEmptyCpuset (val d f s)" and "(d', f') \<noteq> (d, f) \<or> \<not> isEmptyCpuset x"
  shows "\<not> isEmptyCpuset (val d f (snd (w_write W d' f' x s)))"
proof -
  have "\<forall>d f d' f' x s. \<not> isEmptyCpuset (val d f s) \<longrightarrow> (d', f') \<noteq> (d, f) \<or> \<not> isEmptyCpuset x \<longrightarrow>
      \<not> isEmptyCpuset (val d f (snd (w_write W d' f' x s)))"
    using assms(1) unfolding cpuset_kernel_def by (elim conjE)
  then show ?thesis using assms(2,3) by blast
qed

lemma readFile_val:
  assumes "cpuset_kernel W val" and "readFile W d f s = (Inr c, s')"
  shows "c = val d f s \<and> s' = s"
proof -
  from assms(2) have ne: "d \<noteq> []" by (auto simp: readFile_def openRead_def io_defs)
  obtain res u where o: "w_open W d f s = (res, u)" by (cases "w_open W d f s")
  have "u = s" using assms(1) o unfolding cpuset_kernel_def by (metis snd_conv)
  from assms(2) ne o obtain r where r: "res = Inr r" "rd_err r = None" "c = rd_data r" "s' = u"
    by (cases res) (auto simp: readFile_def openRead_def io_defs split: option.splits)
  have "\<forall>d f s r s'. w_open W d f s = (Inr r, s') \<longrightarrow> rd_err r = None \<longrightarrow> rd_data r = val d f s"
    using assms(1) unfolding cpuset_kernel_def by (rule conjunct1)
  then have "rd_data r = val d f s" using o r by blast
  with r \<open>u = s\<close> show ?thesis by simp
qed

lemma writeFile_val:
  assumes "cpuset_kernel W val" and "writeFile W d f x s = (Inr (), s')" and "\<not> isEmptyCpuset x"
  shows "\<not> isEmptyCpuset (val d f s')"
    and "\<not> isEmptyCpuset (val d' f' s) \<Longrightarrow> \<not> isEmptyCpuset (val d' f' s')"
proof -
  from assms(2) have w: "w_write W d f x s = (None, s')"
    by (auto simp: writeFile_def split: if_splits prod.splits option.splits)
  then show "\<not> isEmptyCpuset (val d f s')" using assms(1,3) unfolding cpuset_kernel_def by blast
  assume "\<not> isEmptyCpuset (val d' f' s)"
  then have "\<not> isEmptyCpuset (val d' f' (snd (w_write W d f x s)))"
    using assms(1,3) unfolding cpuset_kernel_def by blast
  then show "\<not> isEmptyCpuset (val d' f' s')" using w by simp
qed

lemma mkdir_val:
  assumes "cpuset_kernel W val" and "mkdirIfMissing W p s = (Inr (), s')" and "\<not> isEmptyCpuset (val d f s)"
  shows "\<not> isEmptyCpuset (val d f s')"
proof -
  have "s' = snd (w_mkdir W p s)"
    using assms(2) by (auto simp: mkdirIfMissing_def split: prod.splits option.splits if_splits)
  then show ?thesis using assms(1,3) unfolding cpuset_kernel_def by blast
qed

text \<open>One file: it is left alone when it has something, and takes the parent's content otherwise.\<close>

lemma copyFile_val:
  assumes "cpuset_kernel W val" and "\<not> isEmptyCpuset p"
    and "ioWhen (isEmptyCpuset (val d f s)) (writeFile W d f p) s0 = (Inr (), s')"
    and "isEmptyCpuset (val d f s) \<or> \<not> isEmptyCpuset (val d f s0)"
  shows "\<not> isEmptyCpuset (val d f s') \<and>
    (\<forall>d' f'. \<not> isEmptyCpuset (val d' f' s0) \<longrightarrow> \<not> isEmptyCpuset (val d' f' s'))"
proof (cases "isEmptyCpuset (val d f s)")
  case True
  then have "writeFile W d f p s0 = (Inr (), s')" using assms(3) by (simp add: ioWhen_def)
  from writeFile_val [OF assms(1) this assms(2)] show ?thesis by blast
next
  case False
  then show ?thesis using assms(3,4) by (simp add: ioWhen_def ioRet_def)
qed

lemma copy_populates:
  assumes k: "cpuset_kernel W val" and "cpusetCopyIfNeeded W cur par s = (Inr (), s')" and "populated val par s"
  shows "populated val cur s' \<and> (\<forall>d. populated val d s \<longrightarrow> populated val d s')"
proof -
  have get: "v = (val d ''cpuset.cpus'' s, val d ''cpuset.mems'' s) \<and> u = s"
    if "getCpusetSubsystemSettings W d s = (Inr v, u)" for d v u
    using that readFile_val [OF k]
    unfolding getCpusetSubsystemSettings_def by (auto simp: ioThen_ok ioRet_def dest!: readFile_val [OF k])
  obtain u where
    "ioSeq [ioWhen (isEmptyCpuset (val cur ''cpuset.cpus'' s)) (writeFile W cur ''cpuset.cpus'' (val par ''cpuset.cpus'' s)),
            ioWhen (isEmptyCpuset (val cur ''cpuset.mems'' s)) (writeFile W cur ''cpuset.mems'' (val par ''cpuset.mems'' s))] s
     = (Inr (), s')"
    using assms(2) unfolding cpusetCopyIfNeeded_def
    by (auto simp: ioThen_ok dest!: get)
  then obtain u where
      c: "ioWhen (isEmptyCpuset (val cur ''cpuset.cpus'' s)) (writeFile W cur ''cpuset.cpus'' (val par ''cpuset.cpus'' s)) s = (Inr (), u)"
      and m: "ioWhen (isEmptyCpuset (val cur ''cpuset.mems'' s)) (writeFile W cur ''cpuset.mems'' (val par ''cpuset.mems'' s)) u = (Inr (), s')"
    by (auto simp: ioSeq_Cons_ok ioSeq_Nil_ok)
  have p: "\<not> isEmptyCpuset (val par ''cpuset.cpus'' s)" "\<not> isEmptyCpuset (val par ''cpuset.mems'' s)"
    using assms(3) by (simp_all add: populated_def cpusetFiles_def)
  have 1: "\<not> isEmptyCpuset (val cur ''cpuset.cpus'' u)"
      "\<And>d f. \<not> isEmptyCpuset (val d f s) \<Longrightarrow> \<not> isEmptyCpuset (val d f u)"
    using copyFile_val [OF k p(1) c] by blast+
  have 2: "\<not> isEmptyCpuset (val cur ''cpuset.mems'' s')"
      "\<And>d f. \<not> isEmptyCpuset (val d f u) \<Longrightarrow> \<not> isEmptyCpuset (val d f s')"
    using copyFile_val [OF k p(2) m] 1(2) by blast+
  show ?thesis using 1 2 by (auto simp: populated_def cpusetFiles_def)
qed

text \<open>Making the parents of a directory.\<close>

lemma ensureParent_populates:
  assumes "cpusetEnsureParent W cur s = Some (Inr (), s')" and k: "cpuset_kernel W val"
  shows "populated val cur s'"
proof -
  have "\<forall>s'. y = (Inr (), s') \<longrightarrow> populated val cur s'"
    if "cpusetEnsureParent W cur s = Some y" "cpuset_kernel W val" for cur s y
    using that
  proof (induction rule: cpusetEnsureParent.raw_induct [rotated, consumes 1, case_names turn])
    case (turn rec W cur s y)
    show ?case
    proof (intro allI impI)
      fix s' assume y: "y = (Inr (), s')"
      show "populated val cur s'"
      proof (cases "w_statfs W (PathDir cur) s = Inr False")
        case True
        then have "s' = s" using turn(2) y by (simp add: Let_def)
        then show ?thesis using True turn(3) unfolding populated_def cpuset_kernel_def by blast
      next
        case False
        then obtain u where u: "rec W (PathDir cur) s = Some (Inr (), u)"
            "ioThen (mkdirIfMissing W cur) (\<lambda>_. cpusetCopyIfNeeded W cur (PathDir cur)) u = (Inr (), s')"
          using turn(2) y
          by (auto simp: Let_def split: if_splits Option.bind_splits sum.splits)
        have p: "populated val (PathDir cur) u" using turn(1) [OF u(1) turn(3)] by blast
        obtain v where v: "mkdirIfMissing W cur u = (Inr (), v)"
            "cpusetCopyIfNeeded W cur (PathDir cur) v = (Inr (), s')"
          using u(2) by (auto simp: ioThen_ok)
        have "populated val (PathDir cur) v"
          using p mkdir_val [OF turn(3) v(1)] by (auto simp: populated_def)
        then show ?thesis using copy_populates [OF turn(3) v(2)] by blast
      qed
    qed
  qed
  then show ?thesis using assms by blast
qed


lemma placePid_populated:
  assumes "cpuset_kernel W val"
  shows "populated val d s \<Longrightarrow> populated val d (snd (placePid W n dir pid e s))"
proof (induction n arbitrary: e s)
  case 0
  then show ?case by simp
next
  case (Suc n)
  have "\<not> isEmptyCpuset (val d f (snd (w_write W dir CgroupProcesses (Itoa pid) s)))" if "f \<in> set cpusetFiles" for f
  proof -
    have "f \<noteq> CgroupProcesses" using that by (auto simp: cpusetFiles_def CgroupProcesses_def)
    then show ?thesis using kernel_write_other [OF assms, of d f s dir CgroupProcesses "Itoa pid"] Suc.prems that
      unfolding populated_def by blast
  qed
  then have "populated val d (snd (w_write W dir CgroupProcesses (Itoa pid) s))" by (simp add: populated_def)
  then show ?case using Suc.IH by (auto split: prod.splits option.splits)
qed

lemma set_other_dir:
  assumes "cpuset_kernel W val" and "CpusetSet W dir r s = (Inr (), s')" and "d \<noteq> dir" and "populated val d s"
  shows "populated val d s'"
proof -
  have w: "populated val d u'" if "populated val d u" "writeFile W dir f x u = (Inr (), u')" for f x u u'
  proof -
    have "u' = snd (w_write W dir f x u)"
      using that(2) by (auto simp: writeFile_def split: if_splits prod.splits option.splits)
    then show ?thesis
      using that(1) kernel_write_other [OF assms(1), of d _ u dir f x] assms(3) unfolding populated_def by auto
  qed
  have t: "populated val d u'" if "populated val d u" "ioWhen c (writeFile W dir f x) u = (Inr (), u')" for c f x u u'
    using that w [of u f x u'] by (cases c) (simp_all add: ioWhen_def ioRet_def)
  obtain v where "ioWhen (rs_CpusetCpus r \<noteq> []) (writeFile W dir ''cpuset.cpus'' (rs_CpusetCpus r)) s = (Inr (), v)"
      "ioWhen (rs_CpusetMems r \<noteq> []) (writeFile W dir ''cpuset.mems'' (rs_CpusetMems r)) v = (Inr (), s')"
    using assms(2) unfolding CpusetSet_def by (auto simp only: ioSeq_Cons_ok ioSeq_Nil_ok)
  then show ?thesis using t assms(4) by blast
qed

text \<open>C13. Before a process enters a cpuset, the cpuset has cpus and memory nodes: when ApplyDir succeeds,
  the directory and its parent are populated, whatever the request leaves out, because each empty
  file takes over the content of the parent, from the root of the hierarchy down.\<close>

theorem cpuset_populated:
  assumes "cpuset_kernel W val" and "dir \<noteq> []" and "PathDir dir \<noteq> dir"
    and "ApplyDir W dir r pid s = Some (Inr (), s')"
  shows "populated val dir s' \<and> populated val (PathDir dir) s'"
proof -
  note k = assms(1)
  obtain u where u: "cpusetEnsureParent W (PathDir dir) s = Some (Inr (), u)"
      "ioSeq [mkdirIfMissing W dir, ensureCpusAndMems W dir r, writeCgroupProc W dir pid] u = (Inr (), s')"
    using assms(2,4) by (auto simp: ApplyDir_def split: Option.bind_splits sum.splits)
  have p: "populated val (PathDir dir) u" by (rule ensureParent_populates [OF u(1) k])
  obtain v w x where v: "mkdirIfMissing W dir u = (Inr (), v)" and w: "CpusetSet W dir r v = (Inr (), w)"
    and x: "cpusetCopyIfNeeded W dir (PathDir dir) w = (Inr (), x)" and z: "writeCgroupProc W dir pid x = (Inr (), s')"
    using u(2) by (auto simp: ioSeq_Cons_ok ioSeq_Nil_ok ensureCpusAndMems_def)
  have "populated val (PathDir dir) v" using p mkdir_val [OF k v] by (auto simp: populated_def)
  then have "populated val (PathDir dir) w" by (rule set_other_dir [OF k w assms(3)])
  then have "populated val dir x \<and> populated val (PathDir dir) x" using copy_populates [OF k x] by blast
  moreover have "populated val d s'" if "populated val d x" for d
    using z that placePid_populated [OF k that, of 5 dir pid EINVAL]
    by (auto simp: writeCgroupProc_def ioRet_def ioErr_def split: if_splits option.splits)
  ultimately show ?thesis by blast
qed

subsection \<open>The parents end\<close>

lemma cleanElems_snoc_Nil: "cleanElems r (ws @ [[]]) = cleanElems r ws"
  by (simp add: cleanElems_def cleanStep.simps)

lemma Join_snoc: "us \<noteq> [] \<Longrightarrow> Join ''/'' (us @ [w]) = Join ''/'' us @ CHR ''/'' # w"
  by (induction us) (auto simp: Join_Cons)

lemma PathDir_absPath:
  assumes "\<forall>w \<in> set ws. elem_ok w"
  shows "PathDir (absPath ws) = absPath (butlast ws)"
proof (cases ws rule: rev_cases)
  case Nil
  then show ?thesis
    by (simp add: PathDir_def absPath_def Clean_abs elemsOf_def cleanElems_def cleanStep.simps)
next
  case (snoc us w)
  then have w: "CHR ''/'' \<notin> set w" and us: "\<forall>w \<in> set us. elem_ok w" using assms by (auto simp: elem_ok_def)
  show ?thesis
  proof (cases "us = []")
    case True
    then have "absPath ws = [] @ CHR ''/'' # w" using snoc by (simp add: absPath_def)
    then have "PathDir (absPath ws) = Clean [CHR ''/'']"
      unfolding PathDir_def using LastIndexByte_append [OF w, of "[]"] by simp
    then show ?thesis using True snoc by (simp add: Clean_abs elemsOf_def cleanElems_def cleanStep.simps)
  next
    case False
    then have "absPath ws = absPath us @ CHR ''/'' # w" using snoc Join_snoc by (simp add: absPath_def)
    then have "PathDir (absPath ws) = Clean (absPath us @ [CHR ''/''])"
      using LastIndexByte_append [OF w, of "absPath us"] by (simp add: PathDir_def)
    also have "\<dots> = absPath (elemsOf (Join ''/'' us @ [CHR ''/'']))" by (simp add: absPath_def Clean_abs)
    also have "Join ''/'' us @ [CHR ''/''] = Join ''/'' (us @ [[]])" using False Join_snoc by simp
    also have "elemsOf (Join ''/'' (us @ [[]])) = us"
    proof -
      have sp: "Split (CHR ''/'') (Join ''/'' (us @ [[]])) = us @ [[]]"
      proof (rule Split_Join)
        fix v assume "v \<in> set (us @ [[]])"
        then have "v \<in> set us \<or> v = []" by auto
        with us have "elem_ok v \<or> v = []" by blast
        then show "CHR ''/'' \<notin> set v" by (elim disjE) (simp_all add: elem_ok_def)
      qed simp
      show ?thesis
        unfolding elemsOf_def sp cleanElems_snoc_Nil by (rule cleanElems_id [OF us])
    qed
    finally show ?thesis using snoc by simp
  qed
qed


lemma PathDir_root: "PathDir ''/'' = ''/''"
  using PathDir_absPath [of "[]"] by (simp add: absPath_def)

lemma PathDir_iterate:
  assumes "\<forall>w \<in> set ws. elem_ok w"
  shows "(PathDir ^^ length ws) (absPath ws) = ''/''"
  using assms
proof (induction ws rule: rev_induct)
  case Nil
  then show ?case by (simp add: absPath_def)
next
  case (snoc w ws)
  have "(PathDir ^^ length (ws @ [w])) (absPath (ws @ [w])) =
      (PathDir ^^ length ws) (PathDir (absPath (ws @ [w])))"
    by (simp add: funpow_swap1 del: funpow.simps) (simp add: funpow_swap1)
  also have "PathDir (absPath (ws @ [w])) = absPath ws"
    using PathDir_absPath [of "ws @ [w]"] snoc.prems by simp
  finally show ?case using snoc by simp
qed

text \<open>The directory of an absolute path is clean.\<close>

lemma PathDir_abs:
  assumes "IsAbs p"
  shows "\<exists>ws. (\<forall>w \<in> set ws. elem_ok w) \<and> PathDir p = absPath ws"
proof -
  obtain q where q: "p = CHR ''/'' # q" using assms IsAbs_Cons by blast
  obtain i where i: "LastIndexByte p (CHR ''/'') = Some i"
    using q LastIndexByte_None [of p "CHR ''/''"] by (cases "LastIndexByte p (CHR ''/'')") auto
  have "take (Suc i) p = CHR ''/'' # take i q" using q by simp
  then have "PathDir p = absPath (elemsOf (take i q))" using i by (simp add: PathDir_def Clean_abs)
  then show ?thesis using elemsOf_ok by blast
qed

text \<open>The recursion ends at the root of the file system, which is no cgroup directory.\<close>

lemma ensureParent_returns:
  assumes "\<forall>s. w_statfs W ''/'' s = Inr False"
  shows "(PathDir ^^ n) cur = ''/'' \<Longrightarrow> \<exists>x. cpusetEnsureParent W cur s = Some x"
proof (induction n arbitrary: cur)
  case 0
  then show ?case using assms PathDir_root by (subst cpusetEnsureParent.simps) simp
next
  case (Suc n)
  then have "(PathDir ^^ n) (PathDir cur) = ''/''" by (simp add: funpow_swap1)
  then obtain x where x: "cpusetEnsureParent W (PathDir cur) s = Some x" using Suc.IH by blast
  show ?case by (subst cpusetEnsureParent.simps) (simp add: Let_def x split: prod.split)
qed

text \<open>C24. Making a cpuset ends: for every absolute directory, ApplyDir returns, whatever the kernel
  answers on the way, as long as the root of the file system is not itself a cgroup file system.\<close>

theorem cpuset_apply_returns:
  assumes "IsAbs dir" and "\<forall>s. w_statfs W ''/'' s = Inr False"
  shows "\<exists>x. ApplyDir W dir r pid s = Some x"
proof -
  obtain ws where "\<forall>w \<in> set ws. elem_ok w" "PathDir dir = absPath ws" using PathDir_abs assms(1) by blast
  then have "(PathDir ^^ length ws) (PathDir dir) = ''/''" using PathDir_iterate by simp
  from ensureParent_returns [OF assms(2) this, of s] obtain x where
    "cpusetEnsureParent W (PathDir dir) s = Some x" by blast
  then show ?thesis by (cases x) (simp add: ApplyDir_def)
qed

text \<open>A kernel with cpusets below /c: a directory without an entry is empty.\<close>

type_synonym cpusets = "((string \<times> string) \<times> string) list"

definition cpusetVal :: "string \<Rightarrow> string \<Rightarrow> cpusets \<Rightarrow> string" where
  "cpusetVal d f s =
     (let x = (case map_of s (d, f) of Some x \<Rightarrow> x | None \<Rightarrow> []) in
      if isEmptyCpuset x then (if PathDir d = ''/'' then ''0-3'' else []) else x)"

definition cpusetWorld :: "cpusets world" where
  "cpusetWorld =
     \<lparr>w_open = (\<lambda>dir file s. (Inr \<lparr>rd_data = cpusetVal dir file s, rd_err = None\<rparr>, s)),
      w_write = (\<lambda>dir file data s. if isEmptyCpuset data then (Some EINVAL, s) else (None, ((dir, file), data) # s)),
      w_openProcs = (\<lambda>_ _. None), w_mkdirAll = (\<lambda>_ s. (None, s)), w_mkdir = (\<lambda>_ s. (Some EEXIST, s)),
      w_exists = (\<lambda>_ _. True), w_statfs = (\<lambda>p _. Inr (p \<noteq> ''/'')), w_rdmaOrder = (\<lambda>_. [])\<rparr>"

lemma cpusetWorld_kernel: "cpuset_kernel cpusetWorld cpusetVal"
  unfolding cpuset_kernel_def
proof (intro conjI allI impI)
  fix d f d' f' x and s :: cpusets
  assume "\<not> isEmptyCpuset (cpusetVal d f s)" "(d', f') \<noteq> (d, f) \<or> \<not> isEmptyCpuset x"
  then show "\<not> isEmptyCpuset (cpusetVal d f (snd (w_write cpusetWorld d' f' x s)))"
    by (auto simp: cpusetWorld_def cpusetVal_def Let_def)
qed (auto simp: cpusetWorld_def cpusetVal_def Let_def isEmptyCpuset_def split: if_splits)

lemma PathDir_example: "PathDir ''/c/a'' = ''/c''" "PathDir ''/c'' = ''/''"
  using PathDir_absPath [of "[''c'', ''a'']"] PathDir_absPath [of "[''c'']"]
  by (simp_all add: absPath_def elem_ok_def)

theorem cpuset_apply_returns_witness:
  "\<exists>x. ApplyDir cpusetWorld ''/c/a'' emptyResources 7 [] = Some x"
  by (rule cpuset_apply_returns) (simp_all add: IsAbs_Cons cpusetWorld_def)

theorem cpuset_populated_witness:
  "\<exists>s'. ApplyDir cpusetWorld ''/c/a'' emptyResources 7 [] = Some (Inr (), s') \<and> populated cpusetVal ''/c/a'' s'"
proof -
  have e: "cpusetEnsureParent cpusetWorld ''/c'' [] = Some (Inr (), [])"
    by (subst cpusetEnsureParent.simps) (simp add: PathDir_example cpusetWorld_def)
  have five: "(5 :: nat) = Suc 4" by simp
  have seven: "Itoa 7 = ''7''" by (simp add: Itoa_def utoa.simps [of 7] digit_char_def)
  have pp: "placePid cpusetWorld 5 ''/c/a'' 7 EINVAL s = (Inr (), ((''/c/a'', CgroupProcesses), ''7'') # s)" for s
    by (simp only: five placePid.simps) (simp add: cpusetWorld_def isEmptyCpuset_def seven)
  have op: "w_openProcs cpusetWorld d s = None" for d s by (simp add: cpusetWorld_def)
  obtain s' where s': "ApplyDir cpusetWorld ''/c/a'' emptyResources 7 [] = Some (Inr (), s')"
  proof -
    obtain t where t: "ensureCpusAndMems cpusetWorld ''/c/a'' emptyResources [] = (Inr (), t)"
      by (simp add: ensureCpusAndMems_def CpusetSet_def cpusetCopyIfNeeded_def
          getCpusetSubsystemSettings_def readFile_def openRead_def writeFile_def cpusetWorld_def
          ioSeq.simps io_defs emptyResources_def PathDir_example cpusetVal_def isEmptyCpuset_def)
    have m: "mkdirIfMissing cpusetWorld ''/c/a'' [] = (Inr (), [])"
      by (simp add: mkdirIfMissing_def cpusetWorld_def)
    have w: "\<exists>u. writeCgroupProc cpusetWorld ''/c/a'' 7 t = (Inr (), u)"
      by (simp add: writeCgroupProc_def op pp)
    then have "\<exists>s'. ioSeq [mkdirIfMissing cpusetWorld ''/c/a'', ensureCpusAndMems cpusetWorld ''/c/a'' emptyResources,
        writeCgroupProc cpusetWorld ''/c/a'' 7] [] = (Inr (), s')"
      using m t by (auto simp: ioSeq_Cons_ok ioSeq_Nil_ok)
    then show ?thesis using that e by (auto simp: ApplyDir_def PathDir_example)
  qed
  with cpuset_populated [OF cpusetWorld_kernel _ _ s'] show ?thesis by (simp add: PathDir_example)
qed

end
