(* ===== verification/FsStats.thy ===== *)
theory FsStats imports ManagerV1 begin

text \<open>
  The statistics of the cgroup v1 controllers (\<open>GetStats\<close> in cgroups/fs/, the records of
  cgroups/stats.go): the parsers of the statistics files and how their results are put together.
\<close>

subsection \<open>The records\<close>

record ThrottlingData =
  th_Periods :: u64
  th_ThrottledPeriods :: u64
  th_ThrottledTime :: u64

record CpuUsage =
  cu_TotalUsage :: u64
  cu_PercpuUsage :: "u64 list"
  cu_PercpuUsageInKernelmode :: "u64 list"
  cu_PercpuUsageInUsermode :: "u64 list"
  cu_UsageInKernelmode :: u64
  cu_UsageInUsermode :: u64

record MemoryData =
  md_Usage :: u64
  md_MaxUsage :: u64
  md_Failcnt :: u64
  md_Limit :: u64

definition emptyMemoryData :: MemoryData where
  "emptyMemoryData = \<lparr>md_Usage = 0, md_MaxUsage = 0, md_Failcnt = 0, md_Limit = 0\<rparr>"

record PageStats =
  pg_Total :: u64
  pg_Nodes :: "u8 \<rightharpoonup> u64"

text \<open>The fields of PageUsageByNUMA; the flag is for the hierarchical ones.\<close>

datatype numaField = Total bool | File bool | Anon bool | Unevictable bool

type_synonym PageUsageByNUMA = "numaField \<Rightarrow> PageStats"

record MemoryStats =
  ms_Stats :: "string \<rightharpoonup> u64"
  ms_Cache :: u64
  ms_Usage :: MemoryData
  ms_SwapUsage :: MemoryData
  ms_SwapOnlyUsage :: MemoryData
  ms_KernelUsage :: MemoryData
  ms_KernelTCPUsage :: MemoryData
  ms_UseHierarchy :: bool
  ms_PageUsageByNUMA :: PageUsageByNUMA

record BlkioStatEntry =
  be_Major :: u64
  be_Minor :: u64
  be_Op :: string
  be_Value :: u64

datatype blkioField =
    IoServiceBytes | IoServiced | IoQueued | IoServiceTime | IoWaitTime | IoMerged | IoTime | Sectors

record HugetlbStats =
  hs_Usage :: u64
  hs_MaxUsage :: u64
  hs_Failcnt :: u64

subsection \<open>Numbers with a prefix\<close>

text \<open>
  \<open>strconv.ParseUint(s, 0, 64)\<close>: the prefix gives the base, underscores may separate digits.
\<close>

definition lowerByte :: "char \<Rightarrow> nat" where
  "lowerByte c = (let n = of_char c :: nat in if 65 \<le> n \<and> n \<le> 90 then n + 32 else n)"

definition alnumVal :: "char \<Rightarrow> nat option" where
  "alnumVal c = (case digit_val c of Some d \<Rightarrow> Some d
     | None \<Rightarrow> if 97 \<le> lowerByte c \<and> lowerByte c \<le> 122 then Some (lowerByte c - 87) else None)"

fun prefixBase :: "string \<Rightarrow> nat \<times> string" where
  "prefixBase (z # c # cs) =
     (if z \<noteq> CHR ''0'' then (10, z # c # cs)
      else if cs \<noteq> [] \<and> lowerByte c = 98 then (2, cs)
      else if cs \<noteq> [] \<and> lowerByte c = 111 then (8, cs)
      else if cs \<noteq> [] \<and> lowerByte c = 120 then (16, cs)
      else (8, c # cs))"
| "prefixBase [z] = (if z = CHR ''0'' then (8, []) else (10, [z]))"
| "prefixBase [] = (10, [])"

fun parseBase :: "nat \<Rightarrow> nat \<Rightarrow> nat \<Rightarrow> string \<Rightarrow> nat \<times> num_error option" where
  "parseBase mx base n [] = (n, None)"
| "parseBase mx base n (c # cs) =
     (if c = CHR ''_'' then parseBase mx base n cs
      else case alnumVal c of
        None \<Rightarrow> (0, Some ErrSyntax)
      | Some d \<Rightarrow>
          if base \<le> d then (0, Some ErrSyntax)
          else if mx < base * n + d then (mx, Some ErrRange)
          else parseBase mx base (base * n + d) cs)"

text \<open>The last thing seen: the start, a digit, an underscore, something else.\<close>

datatype seen = Start | Digit | Underscore | Other

fun underscoresFit :: "bool \<Rightarrow> seen \<Rightarrow> string \<Rightarrow> bool" where
  "underscoresFit hex i [] = (i \<noteq> Underscore)"
| "underscoresFit hex i (c # cs) =
     (if digit_val c \<noteq> None \<or> (hex \<and> 97 \<le> lowerByte c \<and> lowerByte c \<le> 102) then underscoresFit hex Digit cs
      else if c = CHR ''_'' then (if i \<noteq> Digit then False else underscoresFit hex Underscore cs)
      else if i = Underscore then False
      else underscoresFit hex Other cs)"

text \<open>A sign has been refused before.\<close>

definition underscoreOK :: "string \<Rightarrow> bool" where
  "underscoreOK s =
     (case s of
        z # c # cs \<Rightarrow>
          if z = CHR ''0'' \<and> lowerByte c \<in> {98, 111, 120} then underscoresFit (lowerByte c = 120) Digit cs
          else underscoresFit False Start s
      | _ \<Rightarrow> underscoresFit False Start s)"

definition ParseUint0 :: "nat \<Rightarrow> string \<Rightarrow> nat \<times> num_error option" where
  "ParseUint0 bits s =
     (if s = [] then (0, Some ErrSyntax)
      else case prefixBase s of (base, ds) \<Rightarrow>
        (case parseBase (2 ^ bits - 1) base 0 ds of
           (n, Some e) \<Rightarrow> (n, Some e)
         | (n, None) \<Rightarrow> if CHR ''_'' \<in> set ds \<and> \<not> underscoreOK s then (0, Some ErrSyntax) else (n, None)))"

subsection \<open>Statistics files line by line\<close>

text \<open>A loop over the lines of a file that reports the first bad line; \<open>checked\<close> says whether the
  scanner's own error is looked at afterwards.\<close>

definition scanStats :: "bool \<Rightarrow> (string \<Rightarrow> 's \<Rightarrow> fs_error + 's) \<Rightarrow> string \<Rightarrow> string \<Rightarrow> reader \<Rightarrow> 's \<Rightarrow> fs_error + 's" where
  "scanStats checked f path file r st =
     (case Scan r of (ls, serr) \<Rightarrow>
        andThen (foldRes f ls st) (\<lambda>out.
          case serr of
            Some e \<Rightarrow> if checked then Inl (ParseErr path file (ScanErr e)) else Inr out
          | None \<Rightarrow> Inr out))"

text \<open>A file that does not exist has no statistics.\<close>

definition optionalFile :: "'k world \<Rightarrow> string \<Rightarrow> string \<Rightarrow> (reader \<Rightarrow> fs_error + 's) \<Rightarrow> 's \<Rightarrow> ('k, 's) io" where
  "optionalFile W path file f none =
     ioCase (openRead W path file)
       (\<lambda>e. if isErrno ENOENT e then ioRet none else ioErr e)
       (\<lambda>r. ioLift (f r))"

definition parseNumber64 :: "string \<Rightarrow> string \<Rightarrow> string \<Rightarrow> fs_error + u64" where
  "parseNumber64 path file s =
     (case ParseUint10 64 s of (n, None) \<Rightarrow> Inr (word_of_nat n) | (n, Some e) \<Rightarrow> Inl (ParseErr path file (NumErr e)))"

subsection \<open>cpu and cpuacct\<close>

definition cpuStatLine :: "string \<Rightarrow> string \<Rightarrow> ThrottlingData \<Rightarrow> fs_error + ThrottlingData" where
  "cpuStatLine path line th =
     (case ParseKeyValue line of
        Inl e \<Rightarrow> Inl (ParseErr path ''cpu.stat'' e)
      | Inr (t, v) \<Rightarrow>
          Inr (if t = ''nr_periods'' then th\<lparr>th_Periods := v\<rparr>
               else if t = ''nr_throttled'' then th\<lparr>th_ThrottledPeriods := v\<rparr>
               else if t = ''throttled_time'' then th\<lparr>th_ThrottledTime := v\<rparr>
               else th))"

definition CpuGetStats :: "'k world \<Rightarrow> string \<Rightarrow> ThrottlingData \<Rightarrow> ('k, ThrottlingData) io" where
  "CpuGetStats W path th =
     optionalFile W path ''cpu.stat'' (\<lambda>r. scanStats False (cpuStatLine path) path ''cpu.stat'' r th) th"

definition nanosecondsInSecond :: u64 where "nanosecondsInSecond = 1000000000"
definition clockTicks :: u64 where "clockTicks = 100"

text \<open>Ticks to nanoseconds; the product is taken modulo 2^64.\<close>

definition ticksToNano :: "u64 \<Rightarrow> u64" where
  "ticksToNano t = (t * nanosecondsInSecond) div clockTicks"

definition cpuBreakdown :: "string \<Rightarrow> string \<Rightarrow> fs_error + u64 \<times> u64" where
  "cpuBreakdown path data =
     (let file = ''cpuacct.stat''; fields = Fields data in
      if length fields < 4 \<or> fields ! 0 \<noteq> ''user'' \<or> fields ! 2 \<noteq> ''system''
      then Inl (ParseErr path file (MalformedLine data))
      else andThen (parseNumber64 path file (fields ! 1)) (\<lambda>u.
           andThen (parseNumber64 path file (fields ! 3)) (\<lambda>k. Inr (ticksToNano u, ticksToNano k))))"

definition getCpuUsageBreakdown :: "'k world \<Rightarrow> string \<Rightarrow> ('k, u64 \<times> u64) io" where
  "getCpuUsageBreakdown W path =
     ioThen (readFile W path ''cpuacct.stat'') (\<lambda>data. ioLift (cpuBreakdown path data))"

definition getPercpuUsage :: "'k world \<Rightarrow> string \<Rightarrow> ('k, u64 list) io" where
  "getPercpuUsage W path =
     ioThen (readFile W path ''cpuacct.usage_percpu'') (\<lambda>data.
       ioLift (mapRes (parseNumber64 path ''cpuacct.usage_percpu'') (Fields data)))"

text \<open>A line of cpuacct.usage_all: cpu, user and system time; the pair is (kernel, user).\<close>

definition usageAllLine :: "string \<Rightarrow> string \<Rightarrow> u64 list \<times> u64 list \<Rightarrow> fs_error + u64 list \<times> u64 list" where
  "usageAllLine path line acc =
     (case SplitN (CHR '' '') 4 line of
        [_, user, system] \<Rightarrow>
          andThen (parseNumber64 path ''cpuacct.usage_all'' system) (\<lambda>k.
          andThen (parseNumber64 path ''cpuacct.usage_all'' user) (\<lambda>u.
            Inr (fst acc @ [k], snd acc @ [u])))
      | _ \<Rightarrow> Inr acc)"

text \<open>The first line is a header and is skipped.\<close>

definition usageAll :: "string \<Rightarrow> reader \<Rightarrow> fs_error + u64 list \<times> u64 list" where
  "usageAll path r =
     (case Scan r of (ls, serr) \<Rightarrow>
        andThen (foldRes (usageAllLine path) (drop 1 ls) ([], [])) (\<lambda>out.
          case serr of Some e \<Rightarrow> Inl (ParseErr path ''cpuacct.usage_all'' (ScanErr e)) | None \<Rightarrow> Inr out))"

definition getPercpuUsageInModes :: "'k world \<Rightarrow> string \<Rightarrow> ('k, u64 list \<times> u64 list) io" where
  "getPercpuUsageInModes W path = optionalFile W path ''cpuacct.usage_all'' (usageAll path) ([], [])"

definition CpuacctGetStats :: "'k world \<Rightarrow> string \<Rightarrow> CpuUsage \<Rightarrow> ('k, CpuUsage) io" where
  "CpuacctGetStats W path cu s =
     (if \<not> w_exists W path s then (Inr cu, s)
      else ioThen (getCpuUsageBreakdown W path) (\<lambda>(user, kernel).
           ioThen (GetCgroupParamUint W path ''cpuacct.usage'') (\<lambda>total.
           ioThen (getPercpuUsage W path) (\<lambda>percpu.
           ioThen (getPercpuUsageInModes W path) (\<lambda>(kmode, umode).
             ioRet \<lparr>cu_TotalUsage = total, cu_PercpuUsage = percpu, cu_PercpuUsageInKernelmode = kmode,
                    cu_PercpuUsageInUsermode = umode, cu_UsageInKernelmode = kernel, cu_UsageInUsermode = user\<rparr>)))) s)"

subsection \<open>pids and hugetlb\<close>

definition PidsGetStats :: "'k world \<Rightarrow> string \<Rightarrow> u64 \<times> u64 \<Rightarrow> ('k, u64 \<times> u64) io" where
  "PidsGetStats W path old s =
     (if \<not> w_exists W path s then (Inr old, s)
      else ioThen (GetCgroupParamUint W path ''pids.current'') (\<lambda>current.
           ioThen (GetCgroupParamUint W path ''pids.max'') (\<lambda>mx.
             ioRet (current, if mx = - 1 then 0 else mx))) s)"

text \<open>The three files of a page size.\<close>

definition hugetlbEntry :: "'k world \<Rightarrow> string \<Rightarrow> string \<Rightarrow> u64 \<Rightarrow> ('k, HugetlbStats) io" where
  "hugetlbEntry W path pre usage =
     ioThen (GetCgroupParamUint W path (pre @ ''.max_usage_in_bytes'')) (\<lambda>mx.
     ioThen (GetCgroupParamUint W path (pre @ ''.failcnt'')) (\<lambda>fc.
       ioRet \<lparr>hs_Usage = usage, hs_MaxUsage = mx, hs_Failcnt = fc\<rparr>))"

text \<open>
  The loop over the page sizes; once the reservation files are missing they are not tried again
  (\<open>rsvd\<close> is then empty, and the same page size is done over).
\<close>

fun hugetlbStatsLoop ::
  "'k world \<Rightarrow> string \<Rightarrow> bool \<Rightarrow> string list \<Rightarrow> (string \<rightharpoonup> HugetlbStats) \<Rightarrow> ('k, string \<rightharpoonup> HugetlbStats) io" where
  "hugetlbStatsLoop W path rsvd [] m = ioRet m"
| "hugetlbStatsLoop W path rsvd (pageSize # ps) m =
     (let plain = ''hugetlb.'' @ pageSize; prefix = (if rsvd then plain @ ''.rsvd'' else plain);
          finish = (\<lambda>pre again usage. ioThen (hugetlbEntry W path pre usage)
                      (\<lambda>st. hugetlbStatsLoop W path again ps (m(pageSize \<mapsto> st))))
      in ioCase (GetCgroupParamUint W path (prefix @ ''.usage_in_bytes''))
           (\<lambda>e. if rsvd \<and> isErrno ENOENT e
                then ioThen (GetCgroupParamUint W path (plain @ ''.usage_in_bytes'')) (finish plain False)
                else ioErr e)
           (finish prefix rsvd))"

definition HugetlbGetStats ::
  "'k world \<Rightarrow> string list \<Rightarrow> string \<Rightarrow> (string \<rightharpoonup> HugetlbStats) \<Rightarrow> ('k, string \<rightharpoonup> HugetlbStats) io" where
  "HugetlbGetStats W pageSizes path m s =
     (if \<not> w_exists W path s then (Inr m, s) else hugetlbStatsLoop W path True pageSizes m s)"

subsection \<open>cpuset\<close>

definition parseCpu :: "string \<Rightarrow> string \<Rightarrow> string \<Rightarrow> fs_error + nat" where
  "parseCpu path file s =
     (case ParseUint10 16 s of (n, None) \<Rightarrow> Inr n | (n, Some e) \<Rightarrow> Inl (ParseErr path file (NumErr e)))"

definition cpuRange :: "string \<Rightarrow> string \<Rightarrow> string \<Rightarrow> u16 list \<Rightarrow> fs_error + u16 list" where
  "cpuRange path file s extracted =
     (case SplitN (CHR ''-'') 3 s of
        [a, b] \<Rightarrow>
          andThen (parseCpu path file a) (\<lambda>mn. andThen (parseCpu path file b) (\<lambda>mx.
            if mx < mn then Inl (ParseErr path file MinAboveMax)
            else Inr (extracted @ map word_of_nat [mn..<Suc mx])))
      | [a] \<Rightarrow> andThen (parseCpu path file s) (\<lambda>n. Inr (extracted @ [word_of_nat n]))
      | _ \<Rightarrow> Inl (ParseErr path file ExtraDash))"

definition cpusetStat :: "string \<Rightarrow> string \<Rightarrow> string \<Rightarrow> fs_error + u16 list" where
  "cpusetStat path file content =
     (if content = [] then Inl (ParseErr path file EmptyFile)
      else foldRes (cpuRange path file) (Split (CHR '','') content) [])"

definition getCpusetStat :: "'k world \<Rightarrow> string \<Rightarrow> string \<Rightarrow> ('k, u16 list) io" where
  "getCpusetStat W path file =
     ioThen (GetCgroupParamString W path file) (\<lambda>c. ioLift (cpusetStat path file c))"


text \<open>A file that is missing leaves the zero value; the fields in the order they are read.\<close>

record CPUSetStats =
  cs_CPUs :: "u16 list"
  cs_Mems :: "u16 list"
  cs_Flags :: "string \<rightharpoonup> u64"
  cs_SchedRelaxDomainLevel :: int

definition missingIs :: "'a \<Rightarrow> ('k, 'a) io \<Rightarrow> ('k, 'a) io" where
  "missingIs v m = ioCase m (\<lambda>e. if isErrno ENOENT e then ioRet v else ioErr e) ioRet"

definition cpusetFlag :: "'k world \<Rightarrow> string \<Rightarrow> string \<Rightarrow> (string \<rightharpoonup> u64) \<Rightarrow> ('k, string \<rightharpoonup> u64) io" where
  "cpusetFlag W path file m =
     ioThen (missingIs 0 (GetCgroupParamUint W path file)) (\<lambda>v. ioRet (m(file \<mapsto> v)))"

fun cpusetFlags :: "'k world \<Rightarrow> string \<Rightarrow> string list \<Rightarrow> (string \<rightharpoonup> u64) \<Rightarrow> ('k, string \<rightharpoonup> u64) io" where
  "cpusetFlags W path [] m = ioRet m"
| "cpusetFlags W path (f # fs) m = ioThen (cpusetFlag W path f m) (cpusetFlags W path fs)"

definition CpusetGetStats :: "'k world \<Rightarrow> string \<Rightarrow> ('k, CPUSetStats) io" where
  "CpusetGetStats W path =
     ioThen (missingIs [] (getCpusetStat W path ''cpuset.cpus'')) (\<lambda>cpus.
     ioThen (cpusetFlag W path ''cpuset.cpu_exclusive'' Map.empty) (\<lambda>fl.
     ioThen (missingIs [] (getCpusetStat W path ''cpuset.mems'')) (\<lambda>mems.
     ioThen (cpusetFlags W path
       [''cpuset.mem_hardwall'', ''cpuset.mem_exclusive'', ''cpuset.memory_migrate'', ''cpuset.memory_spread_page'',
        ''cpuset.memory_spread_slab'', ''cpuset.memory_pressure'', ''cpuset.sched_load_balance''] fl) (\<lambda>flags.
     ioThen (missingIs 0 (GetCgroupParamInt W path ''cpuset.sched_relax_domain_level'')) (\<lambda>level.
       ioRet \<lparr>cs_CPUs = cpus, cs_Mems = mems, cs_Flags = flags, cs_SchedRelaxDomainLevel = level\<rparr>)))))"

subsection \<open>memory\<close>

definition memoryStatLine :: "string \<Rightarrow> string \<Rightarrow> (string \<rightharpoonup> u64) \<Rightarrow> fs_error + (string \<rightharpoonup> u64)" where
  "memoryStatLine path line m =
     (case ParseKeyValue line of
        Inl e \<Rightarrow> Inl (ParseErr path ''memory.stat'' e)
      | Inr (t, v) \<Rightarrow> Inr (m(t \<mapsto> v)))"

definition getMemoryData :: "'k world \<Rightarrow> string \<Rightarrow> string \<Rightarrow> ('k, MemoryData) io" where
  "getMemoryData W path name =
     (let moduleName = (if name \<noteq> [] then ''memory.'' @ name else ''memory'') in
      ioCase (GetCgroupParamUint W path (moduleName @ ''.usage_in_bytes''))
        (\<lambda>e. if name \<noteq> [] \<and> isErrno ENOENT e then ioRet emptyMemoryData else ioErr e)
        (\<lambda>usage.
           ioThen (GetCgroupParamUint W path (moduleName @ ''.max_usage_in_bytes'')) (\<lambda>mx.
           ioThen (GetCgroupParamUint W path (moduleName @ ''.failcnt'')) (\<lambda>fc.
           ioCase (GetCgroupParamUint W path (moduleName @ ''.limit_in_bytes''))
             (\<lambda>e. if name = ''kmem'' \<and> isErrno ENOENT e
                  then ioRet \<lparr>md_Usage = usage, md_MaxUsage = mx, md_Failcnt = fc, md_Limit = 0\<rparr> else ioErr e)
             (\<lambda>lim. ioRet \<lparr>md_Usage = usage, md_MaxUsage = mx, md_Failcnt = fc, md_Limit = lim\<rparr>)))))"

definition getNUMAField :: "string \<Rightarrow> numaField option" where
  "getNUMAField name = map_of
     [(''total'', Total False), (''file'', File False), (''anon'', Anon False), (''unevictable'', Unevictable False),
      (''hierarchical_total'', Total True), (''hierarchical_file'', File True), (''hierarchical_anon'', Anon True),
      (''hierarchical_unevictable'', Unevictable True)] name"

abbreviation numaFile :: string where "numaFile \<equiv> ''memory.numa_stat''"

text \<open>The columns after the first, \<open>N<id>=<pages>\<close>.\<close>

definition numaColumn :: "string \<Rightarrow> string \<Rightarrow> string \<Rightarrow> (u8 \<rightharpoonup> u64) \<Rightarrow> fs_error + (u8 \<rightharpoonup> u64)" where
  "numaColumn path line column nodes =
     (case SplitN (CHR ''='') 2 column of
        [key, val] \<Rightarrow>
          if length key < 2 \<or> hd key \<noteq> CHR ''N'' then Inl (ParseErr path numaFile (MalformedLine line))
          else (case ParseUint10 8 (drop 1 key) of
                  (n, Some e) \<Rightarrow> Inl (ParseErr path numaFile (NumErr e))
                | (n, None) \<Rightarrow>
                    andThen (parseNumber64 path numaFile val) (\<lambda>usage. Inr (nodes(word_of_nat n \<mapsto> usage))))
      | _ \<Rightarrow> Inl (ParseErr path numaFile (MalformedLine line)))"

text \<open>A line whose first column has no \<open>=\<close> or an unknown name is skipped.\<close>

definition numaLine :: "string \<Rightarrow> string \<Rightarrow> PageUsageByNUMA \<Rightarrow> fs_error + PageUsageByNUMA" where
  "numaLine path line stats =
     (case SplitN (CHR '' '') 256 line of
        [] \<Rightarrow> Inr stats
      | first # columns \<Rightarrow>
          (case SplitN (CHR ''='') 2 first of
             [key, val] \<Rightarrow>
               (case getNUMAField key of
                  None \<Rightarrow> Inr stats
                | Some field \<Rightarrow>
                    (case ParseUint0 64 val of
                       (n, Some e) \<Rightarrow> Inl (ParseErr path numaFile (NumErr e))
                     | (n, None) \<Rightarrow>
                         andThen (foldRes (numaColumn path line) columns Map.empty) (\<lambda>nodes.
                           Inr (stats(field := \<lparr>pg_Total = word_of_nat n, pg_Nodes = nodes\<rparr>)))))
           | _ \<Rightarrow> Inr stats))"

definition emptyNUMA :: PageUsageByNUMA where
  "emptyNUMA = (\<lambda>_. \<lparr>pg_Total = 0, pg_Nodes = Map.empty\<rparr>)"

definition getPageUsageByNUMA :: "'k world \<Rightarrow> string \<Rightarrow> ('k, PageUsageByNUMA) io" where
  "getPageUsageByNUMA W path =
     optionalFile W path numaFile (\<lambda>r. scanStats True (numaLine path) path numaFile r emptyNUMA) emptyNUMA"

text \<open>The difference between the two counters is taken modulo 2^64.\<close>

definition swapOnly :: "MemoryData \<Rightarrow> MemoryData \<Rightarrow> MemoryData" where
  "swapOnly swapUsage memoryUsage =
     emptyMemoryData\<lparr>md_Usage := md_Usage swapUsage - md_Usage memoryUsage,
                     md_Failcnt := md_Failcnt swapUsage - md_Failcnt memoryUsage\<rparr>"

text \<open>None: no memory.stat, the statistics stay as they are. The error of the scanner is not looked at.\<close>

definition MemoryGetStats :: "'k world \<Rightarrow> string \<Rightarrow> (string \<rightharpoonup> u64) \<Rightarrow> ('k, MemoryStats option) io" where
  "MemoryGetStats W path old =
     ioThen (optionalFile W path ''memory.stat''
               (\<lambda>r. andThen (scanStats False (memoryStatLine path) path ''memory.stat'' r old) (\<lambda>m. Inr (Some m))) None)
       (\<lambda>found. case found of
          None \<Rightarrow> ioRet None
        | Some m \<Rightarrow>
            ioThen (getMemoryData W path []) (\<lambda>memoryUsage.
            ioThen (getMemoryData W path ''memsw'') (\<lambda>swapUsage.
            ioThen (getMemoryData W path ''kmem'') (\<lambda>kernelUsage.
            ioThen (getMemoryData W path ''kmem.tcp'') (\<lambda>kernelTCPUsage.
            ioThen (GetCgroupParamUint W path ''memory.use_hierarchy'') (\<lambda>hier.
            ioThen (getPageUsageByNUMA W path) (\<lambda>pages.
              ioRet (Some \<lparr>ms_Stats = m, ms_Cache = (case m ''cache'' of None \<Rightarrow> 0 | Some v \<Rightarrow> v),
                 ms_Usage = memoryUsage, ms_SwapUsage = swapUsage, ms_SwapOnlyUsage = swapOnly swapUsage memoryUsage,
                 ms_KernelUsage = kernelUsage, ms_KernelTCPUsage = kernelTCPUsage, ms_UseHierarchy = (hier = 1),
                 ms_PageUsageByNUMA = pages\<rparr>))))))))"

subsection \<open>blkio\<close>

definition splitBlkioStatLine :: "char \<Rightarrow> bool" where
  "splitBlkioStatLine c \<longleftrightarrow> c = CHR '' '' \<or> c = CHR '':''"

definition blkioLine :: "string \<Rightarrow> string \<Rightarrow> string \<Rightarrow> BlkioStatEntry list \<Rightarrow> fs_error + BlkioStatEntry list" where
  "blkioLine dir file line acc =
     (let fields = FieldsFunc splitBlkioStatLine line in
      if length fields < 3 then
        (if length fields = 2 \<and> fields ! 0 = ''Total'' then Inr acc
         else Inl (ParseErr dir file (MalformedLine line)))
      else
        andThen (parseNumber64 dir file (fields ! 0)) (\<lambda>mj.
        andThen (parseNumber64 dir file (fields ! 1)) (\<lambda>mn.
        (let opname = (if length fields = 4 then fields ! 2 else []);
             valueField = (if length fields = 4 then 3 else 2) in
         andThen (parseNumber64 dir file (fields ! valueField)) (\<lambda>v.
           Inr (acc @ [\<lparr>be_Major = mj, be_Minor = mn, be_Op = opname, be_Value = v\<rparr>]))))))"

text \<open>The empty list stands for a nil slice.\<close>

definition getBlkioStat :: "'k world \<Rightarrow> string \<Rightarrow> string \<Rightarrow> ('k, BlkioStatEntry list) io" where
  "getBlkioStat W dir file =
     optionalFile W dir file (\<lambda>r. scanStats True (blkioLine dir file) dir file r []) []"

type_synonym blkioGroup = "(string \<times> blkioField) list"

definition bfqNames :: "string \<Rightarrow> blkioGroup" where
  "bfqNames pre = map (\<lambda>(n, f). (pre @ n, f))
     [(''sectors_recursive'', Sectors), (''io_service_time_recursive'', IoServiceTime),
      (''io_wait_time_recursive'', IoWaitTime), (''io_merged_recursive'', IoMerged),
      (''io_queued_recursive'', IoQueued), (''time_recursive'', IoTime),
      (''io_serviced_recursive'', IoServiced), (''io_service_bytes_recursive'', IoServiceBytes)]"

definition orderedStats :: "blkioGroup list" where
  "orderedStats =
     [bfqNames ''blkio.bfq.'',
      [(''blkio.bfq.io_serviced_recursive'', IoServiced), (''blkio.bfq.io_service_bytes_recursive'', IoServiceBytes)],
      bfqNames ''blkio.'',
      [(''blkio.throttle.io_serviced_recursive'', IoServiced), (''blkio.throttle.io_service_bytes_recursive'', IoServiceBytes)],
      [(''blkio.throttle.io_serviced'', IoServiced), (''blkio.throttle.io_service_bytes'', IoServiceBytes)]]"

type_synonym BlkioStats = "blkioField \<Rightarrow> BlkioStatEntry list"

text \<open>
  One group of files: whether to go on with the next group. An error or an empty file ends the group;
  at its first file the next group is tried, later everything ends, with the error when there is one.
\<close>

fun blkioGroupLoop :: "'k world \<Rightarrow> string \<Rightarrow> bool \<Rightarrow> blkioGroup \<Rightarrow> BlkioStats \<Rightarrow> ('k, bool \<times> BlkioStats) io" where
  "blkioGroupLoop W path first [] st = ioRet (True, st)"
| "blkioGroupLoop W path first ((file, field) # fs) st =
     ioCase (getBlkioStat W path file)
       (\<lambda>e. if first then ioRet (True, st) else ioErr e)
       (\<lambda>entries.
          if entries = [] then ioRet (first, st)
          else if fs = [] then ioRet (False, st(field := entries))
          else blkioGroupLoop W path False fs (st(field := entries)))"

fun blkioGroups :: "'k world \<Rightarrow> string \<Rightarrow> blkioGroup list \<Rightarrow> BlkioStats \<Rightarrow> ('k, BlkioStats) io" where
  "blkioGroups W path [] st = ioRet st"
| "blkioGroups W path (g # gs) st =
     ioThen (blkioGroupLoop W path True g st) (\<lambda>(more, st'). if more then blkioGroups W path gs st' else ioRet st')"

definition BlkioGetStats :: "'k world \<Rightarrow> string \<Rightarrow> BlkioStats \<Rightarrow> ('k, BlkioStats) io" where
  "BlkioGetStats W path st = blkioGroups W path orderedStats st"


subsection \<open>All subsystems\<close>

record Stats =
  sx_Throttling :: ThrottlingData
  sx_CpuUsage :: CpuUsage
  sx_CPUSet :: "CPUSetStats option"
  sx_Memory :: "MemoryStats option"
  sx_MemoryMap :: "string \<rightharpoonup> u64"
  sx_Pids :: "u64 \<times> u64"
  sx_Blkio :: BlkioStats
  sx_Hugetlb :: "string \<rightharpoonup> HugetlbStats"
  sx_Rdma :: "(RdmaEntry list \<times> RdmaEntry list) option"

definition NewStats :: Stats where
  "NewStats =
     \<lparr>sx_Throttling = \<lparr>th_Periods = 0, th_ThrottledPeriods = 0, th_ThrottledTime = 0\<rparr>,
      sx_CpuUsage = \<lparr>cu_TotalUsage = 0, cu_PercpuUsage = [], cu_PercpuUsageInKernelmode = [],
        cu_PercpuUsageInUsermode = [], cu_UsageInKernelmode = 0, cu_UsageInUsermode = 0\<rparr>,
      sx_CPUSet = None, sx_Memory = None, sx_MemoryMap = Map.empty, sx_Pids = (0, 0),
      sx_Blkio = (\<lambda>_. []), sx_Hugetlb = Map.empty, sx_Rdma = None\<rparr>"

text \<open>A subsystem without a path has no statistics; the others come in the order of the list.\<close>

definition statsOf :: "'k world \<Rightarrow> string list \<Rightarrow> string \<Rightarrow> string \<Rightarrow> Stats \<Rightarrow> ('k, Stats) io" where
  "statsOf W pageSizes name path st =
     (if path = [] then ioRet st
      else if name = ''cpuset'' then ioThen (CpusetGetStats W path) (\<lambda>x. ioRet (st\<lparr>sx_CPUSet := Some x\<rparr>))
      else if name = ''memory'' then
        ioThen (MemoryGetStats W path (sx_MemoryMap st)) (\<lambda>x. ioRet (st\<lparr>sx_Memory := x\<rparr>))
      else if name = ''cpu'' then
        ioThen (CpuGetStats W path (sx_Throttling st)) (\<lambda>x. ioRet (st\<lparr>sx_Throttling := x\<rparr>))
      else if name = ''cpuacct'' then
        ioThen (CpuacctGetStats W path (sx_CpuUsage st)) (\<lambda>x. ioRet (st\<lparr>sx_CpuUsage := x\<rparr>))
      else if name = ''pids'' then ioThen (PidsGetStats W path (sx_Pids st)) (\<lambda>x. ioRet (st\<lparr>sx_Pids := x\<rparr>))
      else if name = ''blkio'' then ioThen (BlkioGetStats W path (sx_Blkio st)) (\<lambda>x. ioRet (st\<lparr>sx_Blkio := x\<rparr>))
      else if name = ''hugetlb'' then
        ioThen (HugetlbGetStats W pageSizes path (sx_Hugetlb st)) (\<lambda>x. ioRet (st\<lparr>sx_Hugetlb := x\<rparr>))
      else if name = ''rdma'' then ioThen (RdmaGetStats W path) (\<lambda>x. ioRet (st\<lparr>sx_Rdma := x\<rparr>))
      else ioRet st)"

fun managerGetStats :: "'k world \<Rightarrow> string list \<Rightarrow> manager \<Rightarrow> string list \<Rightarrow> Stats \<Rightarrow> ('k, Stats) io" where
  "managerGetStats W pageSizes m [] st = ioRet st"
| "managerGetStats W pageSizes m (name # names) st =
     ioThen (statsOf W pageSizes name (pathOf m name) st) (managerGetStats W pageSizes m names)"

end
