(* ===== verification/SystemdUnits.thy ===== *)
theory SystemdUnits imports ManagerV1 begin

text \<open>
  From resources to the properties of a systemd unit (cgroups/systemd/common.go, cpuset.go and the
  property generators of v1.go and v2.go). The D-Bus property constructors of the third-party
  package are constructors here; /proc/devices, stat and the version of systemd are parameters.
\<close>

subsection \<open>Properties and errors\<close>

record deviceAllowEntry =
  da_Path :: string
  da_Perms :: string

text \<open>The value a variant is made of.\<close>

datatype sdValue =
    SdBool bool | SdString string | SdU64 u64 | SdBytes "u8 list" | SdU32s "u32 list"
  | SdDevices "deviceAllowEntry list"

text \<open>\<open>Configured\<close> is a property taken over from the configuration (\<open>SystemdProps\<close>).\<close>

datatype sdProp =
    PropDescription string | PropWants string | PropSlice string
  | newProp string sdValue
  | Configured Property

datatype bus_error = DbusError string | OtherBusError string

datatype sd_error =
    InvalidSlice string
  | NoGroupPrefix DevType
  | OpenDevices sys_error
  | ScanDevicesLine string
  | ReadDevices scan_error
  | ApplyRule emu_error
  | DenyRule Rule
  | InvalidDeviceType DevType
  | FindGroup DevType int sd_error
  | RangeNumber num_error
  | InvalidRange string
  | EmptyRange
  | CpusConversion string sd_error
  | MemsConversion string sd_error
  | SwapConversion cg_error
  | UnifiedSlash string
  | UnifiedForm string
  | UnifiedValue string string
  | UnifiedPeriod string num_error
  | UnifiedQuota string num_error
  | UnifiedNumber string num_error
  | UnifiedRange string string sd_error
  | BusFailed bus_error
  | UnitResult string string
  | StartTimeout string
  | StopTimeout string
  | VersionMatch string
  | VersionNumber num_error
  | RootlessV1
  | UnifiedOnV1
  | PathsError v1_error
  | SdNoSubsystem
  | FileErr fs_error

record sd_env =
  sd_Devices :: "sys_error + reader"    \<comment> \<open>opening /proc/devices\<close>
  sd_Stat :: "string \<Rightarrow> bool"
  sd_Version :: int                     \<comment> \<open>\<open>systemdVersion\<close>, asked once\<close>
  sd_Order :: "(string \<rightharpoonup> string) \<Rightarrow> (string \<times> string) list"  \<comment> \<open>the map in the order it is iterated\<close>

subsection \<open>CPU sets\<close>

text \<open>
  \<open>big.Int\<close> is a natural number here. Its bytes are big-endian with no leading zeros.
\<close>

fun littleBytes :: "nat \<Rightarrow> u8 list" where
  "littleBytes n = (if n = 0 then [] else word_of_nat (n mod 256) # littleBytes (n div 256))"

declare littleBytes.simps [simp del]

definition bigBytes :: "nat \<Rightarrow> u8 list" where "bigBytes n = rev (littleBytes n)"

definition parseRangeNumber :: "string \<Rightarrow> sd_error + nat" where
  "parseRangeNumber s =
     (case ParseUint10 32 s of (n, None) \<Rightarrow> Inr n | (n, Some e) \<Rightarrow> Inl (RangeNumber e))"

definition setRange :: "string \<Rightarrow> nat \<Rightarrow> sd_error + nat" where
  "setRange elt bits =
     (let r = TrimSpace elt in
      if r = [] then Inr bits
      else (case SplitN (CHR ''-'') 2 r of
              a # b # _ \<Rightarrow>
                andThen (parseRangeNumber a) (\<lambda>start. andThen (parseRangeNumber b) (\<lambda>end'.
                  if end' < start then Inl (InvalidRange r)
                  else Inr (fold set_bit [start..<Suc end'] bits)))
            | [a] \<Rightarrow> andThen (parseRangeNumber a) (\<lambda>val. Inr (set_bit val bits))
            | [] \<Rightarrow> Inr bits))"

text \<open>The last step reverses the bytes: systemd wants the lowest first.\<close>

definition RangeToBits :: "string \<Rightarrow> sd_error + u8 list" where
  "RangeToBits str =
     andThen (foldRes setRange (Split (CHR '','') str) 0) (\<lambda>bits.
       let ret = bigBytes bits in if ret = [] then Inl EmptyRange else Inr (rev ret))"

subsection \<open>Slices and units\<close>

fun expandLoop :: "string \<Rightarrow> string list \<Rightarrow> string \<Rightarrow> string \<Rightarrow> sd_error + string" where
  "expandLoop sl [] path pre = Inr path"
| "expandLoop sl (component # cs) path pre =
     (if component = [] then Inl (InvalidSlice sl)
      else expandLoop sl cs (path @ ''/'' @ pre @ component @ ''.slice'') (pre @ component @ ''-''))"

definition ExpandSlice :: "string \<Rightarrow> sd_error + string" where
  "ExpandSlice sl =
     (if length sl < length ''.slice'' \<or> \<not> HasSuffix sl ''.slice'' then Inl (InvalidSlice sl)
      else if CHR ''/'' \<in> set sl then Inl (InvalidSlice sl)
      else (let sliceName = TrimSuffix sl ''.slice'' in
            if sliceName = ''-'' then Inr ''/''
            else expandLoop sl (Split (CHR ''-'') sliceName) [] []))"

definition getUnitName :: "Cgroup \<Rightarrow> string" where
  "getUnitName c =
     (if \<not> HasSuffix (cg_Name c) ''.slice'' then cg_ScopePrefix c @ ''-'' @ cg_Name c @ ''.scope'' else cg_Name c)"

definition getUnitType :: "string \<Rightarrow> string" where
  "getUnitType unitName = (if HasSuffix unitName ''.slice'' then ''Slice'' else ''Scope'')"

text \<open>The first run of digits: the optional v before it changes nothing.\<close>

definition systemdVersionAtoi :: "string \<Rightarrow> sd_error + int" where
  "systemdVersionAtoi verStr =
     (let digits = takeWhile (\<lambda>c. digit_val c \<noteq> None) (dropWhile (\<lambda>c. digit_val c = None) verStr) in
      if digits = [] then Inl (VersionMatch verStr)
      else (case Atoi digits of (ver, None) \<Rightarrow> Inr ver | (_, Some e) \<Rightarrow> Inl (VersionNumber e)))"

subsection \<open>Devices\<close>

definition groupPrefix :: "DevType \<Rightarrow> sd_error + string" where
  "groupPrefix ruleType =
     (if ruleType = BlockDevice then Inr ''block-''
      else if ruleType = CharDevice then Inr ''char-''
      else Inl (NoGroupPrefix ruleType))"

text \<open>
  \<open>fmt.Sscanf(line, "%d %s")\<close> on a line with no space around it: a number of 64 bits, at least one
  space and a word.
\<close>

definition scanDeviceLine :: "string \<Rightarrow> (int \<times> string) option" where
  "scanDeviceLine line =
     (let sgn = (if line \<noteq> [] \<and> hd line \<in> set ''+-'' then [hd line] else []);
          ds = takeWhile (\<lambda>c. digit_val c \<noteq> None) (drop (length sgn) line);
          rest = drop (length sgn + length ds) line;
          name = takeWhile (\<lambda>c. \<not> isSpace c) (dropWhile isSpace rest)
      in if ds = [] \<or> rest = [] \<or> \<not> isSpace (hd rest) \<or> name = [] then None
         else (case ParseInt10 64 (sgn @ ds) of (i, None) \<Rightarrow> Some (i, name) | _ \<Rightarrow> None))"

text \<open>The state of the loop is the type of the last header; None before the first.\<close>

fun deviceGroupLoop :: "DevType \<Rightarrow> int \<Rightarrow> string \<Rightarrow> DevType option \<Rightarrow> string list \<Rightarrow> scan_error option \<Rightarrow> sd_error + string" where
  "deviceGroupLoop ruleType ruleMajor pre currentType [] serr =
     (case serr of Some e \<Rightarrow> Inl (ReadDevices e) | None \<Rightarrow> Inr [])"
| "deviceGroupLoop ruleType ruleMajor pre currentType (text # lines) serr =
     (let line = TrimSpace text in
      if line = ''Block devices:'' then deviceGroupLoop ruleType ruleMajor pre (Some BlockDevice) lines serr
      else if line = ''Character devices:'' then deviceGroupLoop ruleType ruleMajor pre (Some CharDevice) lines serr
      else if line = [] then deviceGroupLoop ruleType ruleMajor pre currentType lines serr
      else if currentType \<noteq> Some ruleType then deviceGroupLoop ruleType ruleMajor pre currentType lines serr
      else (case scanDeviceLine line of
              None \<Rightarrow> Inl (ScanDevicesLine line)
            | Some (currMajor, currName) \<Rightarrow>
                if currMajor = ruleMajor then Inr (pre @ currName)
                else deviceGroupLoop ruleType ruleMajor pre currentType lines serr))"

definition findDeviceGroup :: "sd_env \<Rightarrow> DevType \<Rightarrow> int \<Rightarrow> sd_error + string" where
  "findDeviceGroup ev ruleType ruleMajor =
     (case sd_Devices ev of
        Inl e \<Rightarrow> Inl (OpenDevices e)
      | Inr fh \<Rightarrow>
          andThen (groupPrefix ruleType) (\<lambda>pre.
            case Scan fh of (lines, serr) \<Rightarrow> deviceGroupLoop ruleType ruleMajor pre None lines serr))"

definition allowAllDevices :: "sdProp list" where
  "allowAllDevices = [newProp ''DevicePolicy'' (SdString ''auto''), newProp ''DeviceAllow'' (SdDevices [])]"

text \<open>The entry of a rule; none for a rule systemd cannot express.\<close>

definition deviceEntry :: "sd_env \<Rightarrow> Rule \<Rightarrow> sd_error + deviceAllowEntry list" where
  "deviceEntry ev rule =
     (let entry = (\<lambda>path. [\<lparr>da_Path = path, da_Perms = r_Permissions rule\<rparr>]) in
      if \<not> r_Allow rule then Inl (DenyRule rule)
      else if r_Type rule \<noteq> BlockDevice \<and> r_Type rule \<noteq> CharDevice then Inl (InvalidDeviceType (r_Type rule))
      else if r_Major rule = Wildcard then
        (if r_Minor rule \<noteq> Wildcard then Inr []
         else andThen (groupPrefix (r_Type rule)) (\<lambda>pre. Inr (entry (pre @ ''*''))))
      else if r_Minor rule = Wildcard then
        (case findDeviceGroup ev (r_Type rule) (r_Major rule) of
           Inl e \<Rightarrow> Inl (FindGroup (r_Type rule) (r_Major rule) e)
         | Inr grp \<Rightarrow> Inr (if grp = [] then [] else entry grp))
      else
        (let path = (if r_Type rule = BlockDevice then ''/dev/block/'' else ''/dev/char/'') @
                    Itoa (r_Major rule) @ '':'' @ Itoa (r_Minor rule) in
         Inr (if sd_Version ev < 240 \<and> \<not> sd_Stat ev path then [] else entry path)))"

definition deviceEntries :: "sd_env \<Rightarrow> Rule list \<Rightarrow> sd_error + deviceAllowEntry list" where
  "deviceEntries ev finalRules =
     foldRes (\<lambda>rule acc. andThen (deviceEntry ev rule) (\<lambda>e. Inr (acc @ e))) finalRules []"

definition generateDeviceProperties :: "sd_env \<Rightarrow> Resources \<Rightarrow> sd_error + sdProp list" where
  "generateDeviceProperties ev r =
     (if rs_SkipDevices r then Inr []
      else (let properties = [newProp ''DevicePolicy'' (SdString ''strict''), newProp ''DeviceAllow'' (SdDevices [])] in
        case applyAll (rs_Devices r) newEmulator of
          Inl e \<Rightarrow> Inl (ApplyRule e)
        | Inr configEmu \<Rightarrow>
            if IsBlacklist configEmu then Inr (if IsAllowAll configEmu then allowAllDevices else properties)
            else andThen (deviceEntries ev (Rules configEmu)) (\<lambda>deviceAllowList.
                   Inr (properties @ [newProp ''DeviceAllow'' (SdDevices deviceAllowList)]))))"

subsection \<open>Resources\<close>

definition defCPUQuotaPeriod :: u64 where "defCPUQuotaPeriod = 100000"

text \<open>
  \<open>quota\<close> is an int64: the product wraps around at 64 bits before it is read as unsigned.
\<close>

definition cpuQuotaPerSec :: "int \<Rightarrow> u64 \<Rightarrow> u64" where
  "cpuQuotaPerSec quota per =
     (if 0 < quota then
        (let p = (if per = 0 then defCPUQuotaPeriod else per);
             v = word_of_int (quota * 1000000) div p in
         if v mod 10000 \<noteq> 0 then (v div 10000 + 1) * 10000 else v)
      else - 1)"

definition addCpuQuota :: "sd_env \<Rightarrow> int \<Rightarrow> u64 \<Rightarrow> sdProp list" where
  "addCpuQuota ev quota per =
     (if per \<noteq> 0 \<and> 242 \<le> sd_Version ev then [newProp ''CPUQuotaPeriodUSec'' (SdU64 per)] else []) @
     (if quota \<noteq> 0 \<or> per \<noteq> 0 then [newProp ''CPUQuotaPerSecUSec'' (SdU64 (cpuQuotaPerSec quota per))] else [])"

definition addCpuset :: "sd_env \<Rightarrow> string \<Rightarrow> string \<Rightarrow> sd_error + sdProp list" where
  "addCpuset ev cpus mems =
     (if cpus = [] \<and> mems = [] \<or> sd_Version ev < 244 then Inr []
      else
        andThen (if cpus = [] then Inr []
                 else case RangeToBits cpus of
                        Inl e \<Rightarrow> Inl (CpusConversion cpus e)
                      | Inr bits \<Rightarrow> Inr [newProp ''AllowedCPUs'' (SdBytes bits)]) (\<lambda>p1.
        andThen (if mems = [] then Inr []
                 else case RangeToBits mems of
                        Inl e \<Rightarrow> Inl (MemsConversion mems e)
                      | Inr bits \<Rightarrow> Inr [newProp ''AllowedMemoryNodes'' (SdBytes bits)]) (\<lambda>p2.
        Inr (p1 @ p2))))"

text \<open>A signed number of the configuration as \<open>uint64(n)\<close>; a property only when the condition holds.\<close>

definition propWhen :: "bool \<Rightarrow> string \<Rightarrow> u64 \<Rightarrow> sdProp list" where
  "propWhen c name v = (if c then [newProp name (SdU64 v)] else [])"

definition genV1ResourcesProperties :: "sd_env \<Rightarrow> Resources \<Rightarrow> sd_error + sdProp list" where
  "genV1ResourcesProperties ev r =
     andThen (generateDeviceProperties ev r) (\<lambda>dev.
     andThen (addCpuset ev (rs_CpusetCpus r) (rs_CpusetMems r)) (\<lambda>cpuset.
       Inr (dev @
            propWhen (rs_Memory r \<noteq> 0) ''MemoryLimit'' (word_of_int (rs_Memory r)) @
            propWhen (rs_CpuShares r \<noteq> 0) ''CPUShares'' (rs_CpuShares r) @
            addCpuQuota ev (rs_CpuQuota r) (rs_CpuPeriod r) @
            propWhen (rs_BlkioWeight r \<noteq> 0) ''BlockIOWeight'' (ucast (rs_BlkioWeight r)) @
            propWhen (0 < rs_PidsLimit r \<or> rs_PidsLimit r = -1) ''TasksMax'' (word_of_int (rs_PidsLimit r)) @
            cpuset)))"

subsection \<open>The unified map of cgroup v2\<close>

definition parseUnified64 :: "string \<Rightarrow> string \<Rightarrow> sd_error + u64" where
  "parseUnified64 k v =
     (case ParseUint10 64 v of (n, None) \<Rightarrow> Inr (word_of_nat n) | (_, Some e) \<Rightarrow> Inl (UnifiedNumber k e))"

definition parseUnifiedMax :: "string \<Rightarrow> string \<Rightarrow> sd_error + u64" where
  "parseUnifiedMax k v = (if v = ''max'' then Inr (- 1) else parseUnified64 k v)"

text \<open>The value of cpu.max. The messages of the two errors are swapped in the code.\<close>

definition unifiedCpuMax :: "sd_env \<Rightarrow> string \<Rightarrow> string \<Rightarrow> sd_error + sdProp list" where
  "unifiedCpuMax ev k v =
     (let sv = Fields v in
      if length sv < 1 \<or> 2 < length sv then Inl (UnifiedValue k v)
      else
        andThen (if sv ! 0 \<noteq> ''max''
                 then (case ParseInt10 64 (sv ! 0) of (q, None) \<Rightarrow> Inr q | (_, Some e) \<Rightarrow> Inl (UnifiedPeriod k e))
                 else Inr 0) (\<lambda>quota.
        andThen (if length sv = 2
                 then (case ParseUint10 64 (sv ! 1) of
                         (p, None) \<Rightarrow> Inr (word_of_nat p) | (_, Some e) \<Rightarrow> Inl (UnifiedQuota k e))
                 else Inr defCPUQuotaPeriod) (\<lambda>per.
        Inr (addCpuQuota ev quota per))))"

definition memoryProps :: "string \<rightharpoonup> string" where
  "memoryProps = [''memory.high'' \<mapsto> ''MemoryHigh'', ''memory.low'' \<mapsto> ''MemoryLow'', ''memory.min'' \<mapsto> ''MemoryMin'',
                  ''memory.max'' \<mapsto> ''MemoryMax'', ''memory.swap.max'' \<mapsto> ''MemorySwapMax'']"

definition cpusetProps :: "string \<rightharpoonup> string" where
  "cpusetProps = [''cpuset.cpus'' \<mapsto> ''AllowedCPUs'', ''cpuset.mems'' \<mapsto> ''AllowedMemoryNodes'']"

definition unifiedProp :: "sd_env \<Rightarrow> string \<Rightarrow> string \<Rightarrow> sd_error + sdProp list" where
  "unifiedProp ev k val =
     (if CHR ''/'' \<in> set k then Inl (UnifiedSlash k)
      else if length (SplitN (CHR ''.'') 2 k) \<noteq> 2 then Inl (UnifiedForm k)
      else (let v = TrimSpace val; number = (\<lambda>name. map_sum id (\<lambda>n. [newProp name (SdU64 n)])) in
        if k = ''cpu.max'' then unifiedCpuMax ev k v
        else if k = ''cpu.weight'' then number ''CPUWeight'' (parseUnified64 k v)
        else if k = ''pids.max'' then number ''TasksMax'' (parseUnifiedMax k v)
        else (case cpusetProps k of
           Some name \<Rightarrow>
             (case RangeToBits v of
                Inl e \<Rightarrow> Inl (UnifiedRange k v e)
              | Inr bits \<Rightarrow> Inr (if 244 \<le> sd_Version ev then [newProp name (SdBytes bits)] else []))
         | None \<Rightarrow>
             (case memoryProps k of
                Some name \<Rightarrow> number name (parseUnifiedMax k v)
              | None \<Rightarrow> Inr []))))"

definition unifiedResToSystemdProps :: "sd_env \<Rightarrow> (string \<rightharpoonup> string) \<Rightarrow> sd_error + sdProp list" where
  "unifiedResToSystemdProps ev res =
     foldRes (\<lambda>(k, v) props. andThen (unifiedProp ev k v) (\<lambda>p. Inr (props @ p))) (sd_Order ev res) []"

definition genV2ResourcesProperties :: "sd_env \<Rightarrow> Resources \<Rightarrow> sd_error + sdProp list" where
  "genV2ResourcesProperties ev r =
     andThen (generateDeviceProperties ev r) (\<lambda>dev.
     andThen (case ConvertMemorySwapToCgroupV2Value (rs_MemorySwap r) (rs_Memory r) of
                Inl e \<Rightarrow> Inl (SwapConversion e) | Inr swap \<Rightarrow> Inr swap) (\<lambda>swap.
     andThen (addCpuset ev (rs_CpusetCpus r) (rs_CpusetMems r)) (\<lambda>cpuset.
     andThen (case rs_Unified r of None \<Rightarrow> Inr [] | Some u \<Rightarrow> unifiedResToSystemdProps ev u) (\<lambda>unified.
       Inr (dev @
            propWhen (rs_Memory r \<noteq> 0) ''MemoryMax'' (word_of_int (rs_Memory r)) @
            propWhen (rs_MemoryReservation r \<noteq> 0) ''MemoryLow'' (word_of_int (rs_MemoryReservation r)) @
            propWhen (swap \<noteq> 0) ''MemorySwapMax'' (word_of_int swap) @
            propWhen (rs_CpuWeight r \<noteq> 0) ''CPUWeight'' (rs_CpuWeight r) @
            addCpuQuota ev (rs_CpuQuota r) (rs_CpuPeriod r) @
            propWhen (0 < rs_PidsLimit r \<or> rs_PidsLimit r = -1) ''TasksMax'' (word_of_int (rs_PidsLimit r)) @
            cpuset @ unified)))))"

end
