(* ===== verification/SystemdUnitsProps.thy ===== *)
theory SystemdUnitsProps imports SystemdUnits FsStats begin

text \<open>
  What the conversions for systemd mean: the bit mask of a CPU list agrees with the other parser of
  such lists (cgroups/fs/cpuset.go), a slice name expands to the chain of its parents, and the
  quota is rounded up to what systemd can express.
\<close>

subsection \<open>Bytes and bits\<close>

definition bitAt :: "u8 list \<Rightarrow> nat \<Rightarrow> bool" where
  "bitAt bs k \<longleftrightarrow> k div 8 < length bs \<and> bit (bs ! (k div 8)) (k mod 8)"

lemma bitAt_Cons: "bitAt (b # bs) k \<longleftrightarrow> (if k < 8 then bit b k else bitAt bs (k - 8))"
proof (cases "k < 8")
  case True
  then show ?thesis by (simp add: bitAt_def)
next
  case False
  then have "k div 8 = Suc ((k - 8) div 8)" "k mod 8 = (k - 8) mod 8"
    by (simp_all add: le_div_geq le_mod_geq)
  then show ?thesis using False by (simp add: bitAt_def)
qed

lemma bitAt_littleBytes: "bitAt (littleBytes n) k \<longleftrightarrow> bit n k"
proof (induction n arbitrary: k rule: littleBytes.induct)
  case (1 n)
  show ?case
  proof (cases "n = 0")
    case True
    then show ?thesis by (simp add: littleBytes.simps [of 0] bitAt_def)
  next
    case False
    have low: "bit (word_of_nat (n mod 256) :: u8) k \<longleftrightarrow> bit n k" if "k < 8"
    proof -
      have "n mod 256 = take_bit 8 n" by (simp add: take_bit_eq_mod)
      then show ?thesis using that by (simp add: bit_of_nat_iff bit_take_bit_iff)
    qed
    have "n div 256 = drop_bit 8 n" by (simp add: drop_bit_eq_div)
    then have "bit (n div 256) (k - 8) \<longleftrightarrow> bit n k" if "\<not> k < 8"
      using that by (simp add: bit_drop_bit_eq)
    then show ?thesis using False low "1.IH" [OF False]
      by (simp add: littleBytes.simps [of n] bitAt_Cons)
  qed
qed

lemma unat_small: "n < 2 ^ LENGTH('a) \<Longrightarrow> unat (word_of_nat n :: 'a::len word) = n"
  by (simp add: unsigned_of_nat take_bit_nat_eq_self)

lemma littleBytes_last: "n \<noteq> 0 \<Longrightarrow> last (littleBytes n) \<noteq> 0"
proof (induction n rule: littleBytes.induct)
  case (1 n)
  show ?case
  proof (cases "n div 256 = 0")
    case True
    then have "n < 256" by simp
    then have "unat (word_of_nat n :: u8) = n" by (intro unat_small) simp
    then have "(word_of_nat (n mod 256) :: u8) \<noteq> 0"
      using "1.prems" \<open>n < 256\<close> by auto
    then show ?thesis using True "1.prems" by (simp add: littleBytes.simps [of n] littleBytes.simps [of 0])
  next
    case False
    then have "littleBytes (n div 256) \<noteq> []" by (subst littleBytes.simps) simp
    then show ?thesis using False "1.IH" "1.prems" by (subst littleBytes.simps) simp
  qed
qed

lemma bit_fold_set_bit: "bit (fold set_bit ks (n::nat)) k \<longleftrightarrow> bit n k \<or> k \<in> set ks"
  by (induction ks arbitrary: n) (auto simp: bit_set_bit_iff)

subsection \<open>Two parsers of CPU lists\<close>

lemma parseDigits_more: "parseDigits mx n ds = (m, None) \<Longrightarrow> mx \<le> mx' \<Longrightarrow> parseDigits mx' n ds = (m, None)"
  by (induction ds arbitrary: n) (auto split: option.splits if_splits)

lemma parseCpu_range:
  assumes "parseCpu path file s = Inr n"
  shows "parseRangeNumber s = Inr n" and "n < 2 ^ 16" and "s \<noteq> []" and "\<forall>c \<in> set s. digit_val c \<noteq> None"
proof -
  have p: "ParseUint10 16 s = (n, None)"
    using assms by (auto simp: parseCpu_def split: prod.splits option.splits)
  then show ne: "s \<noteq> []" by (auto simp: ParseUint10_def)
  then have d: "parseDigits (2 ^ 16 - 1) 0 s = (n, None)" using p by (simp add: ParseUint10_def)
  from parseDigits_more [OF this, of "2 ^ 32 - 1"] ne
  show "parseRangeNumber s = Inr n" by (simp add: parseRangeNumber_def ParseUint10_def)
  show "n < 2 ^ 16" using ParseUint10_bound [of 16 s] p by simp
  show "\<forall>c \<in> set s. digit_val c \<noteq> None" by (rule parseDigits_digits [OF d])
qed

lemma digit_not_space: "digit_val c \<noteq> None \<Longrightarrow> \<not> isSpace c"
  and digit_not_dash: "digit_val c \<noteq> None \<Longrightarrow> c \<noteq> CHR ''-''"
  by (auto simp: digit_val_def isSpace_def Let_def split: if_splits)

lemma SplitN_single: "SplitN c n s = [a] \<Longrightarrow> s = a"
  by (induction c n s arbitrary: a rule: SplitN.induct) (auto split: if_splits list.splits)

lemma SplitN3_two: "SplitN c 3 s = [a, b] \<Longrightarrow> s = a @ c # b \<and> c \<notin> set a"
proof (induction c "3 :: nat" s arbitrary: a rule: SplitN.induct)
  case (1 c)
  then show ?case by simp
next
  case (2 c x xs)
  show ?case
  proof (cases "x = c")
    case True
    then have "a = []" "SplitN c 2 xs = [b]" using "2.prems" by auto
    then show ?thesis using True SplitN_single by auto
  next
    case False
    then obtain w where w: "SplitN c 3 xs = [w, b]" "a = x # w"
      using "2.prems" by (auto split: list.splits)
    with "2.hyps"(2) [OF _ _ w(1)] False show ?thesis by auto
  qed
qed

text \<open>A list of numbers and the bits set so far say the same.\<close>

definition sameCpus :: "u16 list \<Rightarrow> nat \<Rightarrow> bool" where
  "sameCpus cpus bits \<longleftrightarrow> (\<forall>k. bit bits k \<longleftrightarrow> k \<in> unat ` set cpus)"

lemma unat_words: "(\<And>n. n \<in> set ns \<Longrightarrow> n < 2 ^ 16) \<Longrightarrow> unat ` set (map word_of_nat ns :: u16 list) = set ns"
  by (force simp: unat_small image_iff)

lemma cpuRange_setRange:
  assumes "cpuRange path file s cpus = Inr cpus'" and "sameCpus cpus bits"
  shows "\<exists>bits'. setRange s bits = Inr bits' \<and> sameCpus cpus' bits' \<and> set cpus' \<noteq> {}"
proof -
  consider (one) a where "SplitN (CHR ''-'') 3 s = [a]" | (two) a b where "SplitN (CHR ''-'') 3 s = [a, b]"
    using assms(1) by (auto simp: cpuRange_def split: list.splits)
  then show ?thesis
  proof cases
    case one
    then obtain n where n: "parseCpu path file s = Inr n" "cpus' = cpus @ [word_of_nat n]"
      using assms(1) by (auto simp: cpuRange_def andThen_Inr_iff)
    note p = parseCpu_range [OF n(1)]
    have "TrimSpace s = s" using p(4) digit_not_space by (intro TrimSpace_idem_no_space) blast
    moreover have "SplitN (CHR ''-'') 2 s = [s]" using p(4) digit_not_dash by (intro SplitN_no_sep) blast
    ultimately have "setRange s bits = Inr (set_bit n bits)" using p(1,3) by (simp add: setRange_def Let_def)
    moreover have "sameCpus cpus' (set_bit n bits)"
      using assms(2) p(2) n(2) by (auto simp: sameCpus_def bit_set_bit_iff unat_small)
    ultimately show ?thesis using n(2) by auto
  next
    case (two a b)
    then have s: "s = a @ CHR ''-'' # b" "CHR ''-'' \<notin> set a" using SplitN3_two by blast+
    obtain mn mx where m: "parseCpu path file a = Inr mn" "parseCpu path file b = Inr mx" "\<not> mx < mn"
        "cpus' = cpus @ map word_of_nat [mn..<Suc mx]"
      using assms(1) two by (auto simp: cpuRange_def andThen_Inr_iff simp del: upt_Suc split: if_splits)
    note pa = parseCpu_range [OF m(1)] and pb = parseCpu_range [OF m(2)]
    have "TrimSpace s = s" using pa(4) pb(4) digit_not_space s(1)
      by (intro TrimSpace_idem_no_space) (auto simp: isSpace_def)
    moreover have "SplitN (CHR ''-'') 2 s = [a, b]" using s by (simp add: SplitN_append_sep)
    ultimately have "setRange s bits = Inr (fold set_bit [mn..<Suc mx] bits)"
      using s(1) m(3) pa(1) pb(1) by (simp add: setRange_def Let_def del: upt_Suc)
    moreover have "unat ` set (map word_of_nat [mn..<Suc mx] :: u16 list) = set [mn..<Suc mx]"
      using pb(2) by (intro unat_words) auto
    then have "sameCpus cpus' (fold set_bit [mn..<Suc mx] bits)"
      using assms(2) m(4) by (simp add: sameCpus_def bit_fold_set_bit image_Un del: upt_Suc)
    ultimately show ?thesis using m(3,4) by simp
  qed
qed

lemma cpuRanges_setRanges:
  assumes "foldRes (cpuRange path file) ws cpus = Inr cpus'" and "sameCpus cpus bits"
  shows "\<exists>bits'. foldRes setRange ws bits = Inr bits' \<and> sameCpus cpus' bits' \<and> (ws \<noteq> [] \<longrightarrow> set cpus' \<noteq> {})"
  using assms
proof (induction ws arbitrary: cpus bits)
  case Nil
  then show ?case by simp
next
  case (Cons w ws)
  then obtain c where c: "cpuRange path file w cpus = Inr c" "foldRes (cpuRange path file) ws c = Inr cpus'"
    by (auto simp: andThen_Inr_iff)
  obtain b where b: "setRange w bits = Inr b" "sameCpus c b" "set c \<noteq> {}"
    using cpuRange_setRange [OF c(1) Cons.prems(2)] by blast
  from Cons.IH [OF c(2) b(2)] obtain b' where
    b': "foldRes setRange ws b = Inr b'" "sameCpus cpus' b'" "ws \<noteq> [] \<longrightarrow> set cpus' \<noteq> {}" by blast
  have "set cpus' \<noteq> {}" using b' b(3) c(2) by (cases ws) auto
  then show ?case using b(1) b' by simp
qed

text \<open>C29. The two parsers of CPU lists agree: a list that the statistics of cgroups/fs read as certain
  CPUs is turned by RangeToBits into the mask with exactly the bits of these CPUs, lowest byte first
  and without a zero byte at the end.\<close>

theorem range_to_bits_agrees:
  assumes "cpusetStat path file content = Inr cpus"
  shows "\<exists>mask. RangeToBits content = Inr mask \<and>
    {k. bitAt mask k} = unat ` set cpus \<and> mask \<noteq> [] \<and> last mask \<noteq> 0"
proof -
  have f: "foldRes (cpuRange path file) (Split (CHR '','') content) [] = Inr cpus"
    using assms by (simp add: cpusetStat_def split: if_splits)
  have "sameCpus [] 0" by (simp add: sameCpus_def)
  from cpuRanges_setRanges [OF f this] obtain bits where
    b: "foldRes setRange (Split (CHR '','') content) 0 = Inr bits" "sameCpus cpus bits" "set cpus \<noteq> {}" by auto
  obtain c where "c \<in> set cpus" using b(3) by (cases cpus) auto
  then have "bit bits (unat c)" using b(2) by (simp add: sameCpus_def)
  then have nz: "bits \<noteq> 0" by (rule contrapos_pn) simp
  then have ne: "littleBytes bits \<noteq> []" by (subst littleBytes.simps) simp
  then have "RangeToBits content = Inr (littleBytes bits)"
    using b(1) by (simp add: RangeToBits_def bigBytes_def Let_def)
  moreover have "{k. bitAt (littleBytes bits) k} = unat ` set cpus"
    using b(2) by (auto simp: bitAt_littleBytes sameCpus_def)
  moreover have "last (littleBytes bits) \<noteq> 0" using nz by (rule littleBytes_last)
  ultimately show ?thesis using ne by blast
qed

theorem range_to_bits_agrees_witness:
  "\<exists>mask. RangeToBits ''1,3-4'' = Inr mask \<and> {k. bitAt mask k} = {1, 3, 4}"
proof -
  have "cpusetStat [] [] ''1,3-4'' = Inr [1, 3, 4]"
    by (simp add: cpusetStat_def cpuRange_def parseCpu_def ParseUint10_def digit_val_def Let_def numeral_3_eq_3)
  from range_to_bits_agrees [OF this] show ?thesis by auto
qed

subsection \<open>Slices\<close>

lemma HasSuffix_iff: "HasSuffix s p \<longleftrightarrow> (\<exists>t. s = t @ p)"
  unfolding HasSuffix_def HasPrefix_iff by (metis rev_append rev_rev_ident)

text \<open>The slices from the top down to a slice, each below the one before.\<close>

definition sliceChain :: "string \<Rightarrow> string list \<Rightarrow> string" where
  "sliceChain pre cs =
     concat (map (\<lambda>i. ''/'' @ pre @ Join ''-'' (take (Suc i) cs) @ ''.slice'') [0..<length cs])"

lemma map_upt_Suc_shift: "map f [0..<Suc n] = f 0 # map (\<lambda>i. f (Suc i)) [0..<n]"
  by (simp add: upt_conv_Cons map_Suc_upt [symmetric] comp_def del: upt_Suc)

lemma sliceChain_Cons:
  "sliceChain pre (c # cs) = ''/'' @ pre @ c @ ''.slice'' @ sliceChain (pre @ c @ ''-'') cs"
proof -
  have "map (\<lambda>i. ''/'' @ pre @ Join ''-'' (take (Suc (Suc i)) (c # cs)) @ ''.slice'') [0..<length cs] =
      map (\<lambda>i. ''/'' @ (pre @ c @ ''-'') @ Join ''-'' (take (Suc i) cs) @ ''.slice'') [0..<length cs]"
    by (rule map_cong) (auto simp: Join_Cons)
  then show ?thesis
    unfolding sliceChain_def list.size(4) One_nat_def add_Suc_right add_0_right map_upt_Suc_shift
    by (simp only: concat.simps) simp
qed

lemma expandLoop_iff:
  "expandLoop sl cs path pre = Inr res \<longleftrightarrow> [] \<notin> set cs \<and> res = path @ sliceChain pre cs"
proof (induction sl cs path pre rule: expandLoop.induct)
  case (1 sl path pre)
  then show ?case by (auto simp: sliceChain_def)
next
  case (2 sl c cs path pre)
  then show ?case by (cases "c = []") (simp_all add: sliceChain_Cons)
qed

lemma set_Join_dash: "c \<noteq> CHR ''-'' \<Longrightarrow> c \<notin> set (Join ''-'' ws) \<longleftrightarrow> (\<forall>w \<in> set ws. c \<notin> set w)"
  by (induction ws) (auto simp: Join_Cons)

text \<open>C27. A slice name stands for the chain of its parents: ExpandSlice accepts exactly the root slice and
  the names made of non-empty components without a path separator, and its result has one element
  for each leading part of the name, from the shortest to the whole.\<close>

theorem expand_slice_chain:
  "ExpandSlice sl = Inr path \<longleftrightarrow>
     (sl = ''-.slice'' \<and> path = ''/'') \<or>
     (\<exists>cs. cs \<noteq> [] \<and> (\<forall>c \<in> set cs. c \<noteq> [] \<and> CHR ''-'' \<notin> set c \<and> CHR ''/'' \<notin> set c) \<and>
           sl = Join ''-'' cs @ ''.slice'' \<and> path = sliceChain [] cs)"
proof (cases "HasSuffix sl ''.slice''")
  case False
  then show ?thesis unfolding ExpandSlice_def HasSuffix_iff by auto
next
  case True
  then obtain name where sl: "sl = name @ ''.slice''" unfolding HasSuffix_iff by blast
  let ?cs = "Split (CHR ''-'') name"
  have trim: "TrimSuffix sl ''.slice'' = name" using True by (simp add: TrimSuffix_def sl)
  have eq: "ExpandSlice sl = Inr path \<longleftrightarrow> CHR ''/'' \<notin> set name \<and>
      (if name = ''-'' then path = ''/'' else [] \<notin> set ?cs \<and> path = sliceChain [] ?cs)"
    using True trim by (auto simp: ExpandSlice_def expandLoop_iff sl)
  have parts: "cs = ?cs" if "sl = Join ''-'' cs @ ''.slice''" "cs \<noteq> []" "\<forall>c \<in> set cs. CHR ''-'' \<notin> set c" for cs
    using Split_Join [of cs "CHR ''-''"] that by (simp add: sl)
  show ?thesis
  proof (cases "name = ''-''")
    case dash: True
    have False if "cs \<noteq> []" "\<forall>c \<in> set cs. c \<noteq> [] \<and> CHR ''-'' \<notin> set c" "sl = Join ''-'' cs @ ''.slice''" for cs
      using parts [of cs] that dash by auto
    then show ?thesis using eq dash by (auto simp: sl)
  next
    case no_dash: False
    have slash: "CHR ''/'' \<notin> set name \<longleftrightarrow> (\<forall>c \<in> set ?cs. CHR ''/'' \<notin> set c)"
      using set_Join_dash [of "CHR ''/''" ?cs] by (simp add: Join_Split)
    show ?thesis
    proof
      assume "ExpandSlice sl = Inr path"
      then have "[] \<notin> set ?cs" "path = sliceChain [] ?cs" "\<forall>c \<in> set ?cs. CHR ''/'' \<notin> set c"
        using eq no_dash slash by auto
      moreover have "sl = Join ''-'' ?cs @ ''.slice''" by (simp add: sl Join_Split)
      moreover have "\<forall>c \<in> set ?cs. CHR ''-'' \<notin> set c" using Split_parts_no_sep by blast
      ultimately show "(sl = ''-.slice'' \<and> path = ''/'') \<or>
          (\<exists>cs. cs \<noteq> [] \<and> (\<forall>c \<in> set cs. c \<noteq> [] \<and> CHR ''-'' \<notin> set c \<and> CHR ''/'' \<notin> set c) \<and>
            sl = Join ''-'' cs @ ''.slice'' \<and> path = sliceChain [] cs)"
        by (intro disjI2 exI [of _ ?cs]) (metis Split_Nil)
    next
      assume "(sl = ''-.slice'' \<and> path = ''/'') \<or>
          (\<exists>cs. cs \<noteq> [] \<and> (\<forall>c \<in> set cs. c \<noteq> [] \<and> CHR ''-'' \<notin> set c \<and> CHR ''/'' \<notin> set c) \<and>
            sl = Join ''-'' cs @ ''.slice'' \<and> path = sliceChain [] cs)"
      moreover have "sl \<noteq> ''-.slice''" using no_dash sl by auto
      ultimately obtain cs where cs: "cs \<noteq> []" "\<forall>c \<in> set cs. c \<noteq> [] \<and> CHR ''-'' \<notin> set c \<and> CHR ''/'' \<notin> set c"
          "sl = Join ''-'' cs @ ''.slice''" "path = sliceChain [] cs" by blast
      then have "cs = ?cs" by (intro parts) auto
      then show "ExpandSlice sl = Inr path" using cs eq no_dash slash by auto
    qed
  qed
qed

theorem expand_slice_chain_witness: "ExpandSlice ''a-b.slice'' = Inr ''/a.slice/a-b.slice''"
  unfolding expand_slice_chain
  by (rule disjI2, rule exI [of _ "[''a'', ''b'']"]) (simp add: sliceChain_def)

subsection \<open>The CPU quota\<close>

lemma ceil_percent:
  fixes n :: nat
  shows "n mod 10000 = 0 \<Longrightarrow> (n + 9999) div 10000 * 10000 = n"
    and "n mod 10000 \<noteq> 0 \<Longrightarrow> (n + 9999) div 10000 = n div 10000 + 1"
proof -
  obtain q r where qr: "n = q * 10000 + r" "r < 10000" "n div 10000 = q" "n mod 10000 = r"
    using div_mult_mod_eq [of n 10000] by (metis mod_less_divisor zero_less_numeral)
  show "n mod 10000 = 0 \<Longrightarrow> (n + 9999) div 10000 * 10000 = n" using qr by simp
  show "n mod 10000 \<noteq> 0 \<Longrightarrow> (n + 9999) div 10000 = n div 10000 + 1"
    unfolding qr(3,4) qr(1) using qr(2) by (intro div_nat_eqI) simp_all
qed

lemma round_up_percent:
  assumes "unat (v :: u64) < 2 ^ 63"
  shows "unat (if v mod 10000 \<noteq> 0 then (v div 10000 + 1) * 10000 else v) = (unat v + 9999) div 10000 * 10000"
proof -
  have m: "unat (v mod 10000) = unat v mod 10000" by (simp add: unat_mod_distrib)
  have d: "unat (v div 10000) = unat v div 10000" by (simp add: unat_div_distrib)
  show ?thesis
  proof (cases "v mod 10000 = 0")
    case True
    then have "unat v mod 10000 = 0" using m by simp
    then have r: "(unat v + 9999) div 10000 * 10000 = unat v" by (rule ceil_percent)
    have "(if v mod 10000 \<noteq> 0 then (v div 10000 + 1) * 10000 else v) = v"
      by (rule if_not_P) (simp only: True simp_thms)
    then show ?thesis by (rule trans [OF arg_cong [of _ _ unat] r [symmetric]])
  next
    case False
    then have nz: "unat v mod 10000 \<noteq> 0" using m by (metis unat_eq_zero)
    have "unat (v div 10000) + unat (1 :: u64) < 2 ^ LENGTH(64)"
      unfolding d using assms by simp
    from iffD1 [OF unat_add_lem this] have s: "unat (v div 10000 + 1) = unat v div 10000 + 1"
      by (simp only: d unat_1)
    have "unat v div 10000 * 10000 \<le> unat v" by (rule div_times_less_eq_dividend)
    then have "unat (v div 10000 + 1) * unat (10000 :: u64) < 2 ^ LENGTH(64)"
      unfolding s using assms by simp
    from iffD1 [OF unat_mult_lem this] have "unat ((v div 10000 + 1) * 10000) = (unat v div 10000 + 1) * 10000"
      unfolding s by simp
    moreover have "(unat v + 9999) div 10000 = unat v div 10000 + 1" using nz by (rule ceil_percent)
    moreover have "(if v mod 10000 \<noteq> 0 then (v div 10000 + 1) * 10000 else v) = (v div 10000 + 1) * 10000"
      by (rule if_P [OF False])
    ultimately show ?thesis by (simp only:)
  qed
qed

text \<open>C8. The quota systemd is given is the least whole percent that is not below the share of a second the
  container asked for, rounded down to microseconds; no step of the computation wraps around as long
  as the quota times a million fits the signed 64 bits it is computed in.\<close>

theorem cpu_quota_rounded:
  assumes "0 < quota" and "quota * 1000000 < 2 ^ 63" and "per \<noteq> 0"
  shows "unat (cpuQuotaPerSec quota per) =
    (nat quota * 1000000 div unat per + 9999) div 10000 * 10000"
proof -
  let ?v = "word_of_int (quota * 1000000) div per :: u64"
  have "unat (word_of_int k :: u64) = nat k" if "0 \<le> k" "k < 2 ^ 63" for k
    using that by (simp add: unsigned_of_int take_bit_int_eq_self)
  from this [of "quota * 1000000"] have q: "unat (word_of_int (quota * 1000000) :: u64) = nat quota * 1000000"
    using assms(1,2) by (simp only: nat_mult_distrib) simp
  then have v: "unat ?v = nat quota * 1000000 div unat per" by (simp only: unat_div_distrib)
  have "int (nat quota * 1000000) < int (2 ^ 63)" using assms(1,2) by simp
  then have "nat quota * 1000000 < 2 ^ 63" by (simp only: of_nat_less_iff)
  then have "unat ?v < 2 ^ 63" unfolding v by (rule le_less_trans [OF div_le_dividend])
  from round_up_percent [OF this] show ?thesis
    using assms(1,3) by (simp only: cpuQuotaPerSec_def Let_def v if_True if_False)
qed

theorem cpu_quota_rounded_witness: "unat (cpuQuotaPerSec 33333 100000) = 340000"
proof -
  have "unat (100000 :: u64) = 100000" by simp
  then show ?thesis using cpu_quota_rounded [of 33333 100000] by simp
qed

end
