(* ===== verification/SystemdV1.thy ===== *)
theory SystemdV1 imports SystemdUnits begin

text \<open>
  The systemd manager of cgroup v1 (cgroups/systemd/v1.go), with starting and stopping units
  (common.go) and the connection that is made again (dbus.go). Systemd shares its state with the
  kernel: the record \<open>bus\<close> says what it answers and does. Its operations stand for the calls after
  \<open>retryOnDisconnect\<close>, which is modelled by itself.
\<close>

subsection \<open>The bus\<close>

datatype job = Refused bus_error | JobResult string | NoAnswer

record 'k bus =
  b_start :: "string \<Rightarrow> sdProp list \<Rightarrow> 'k \<Rightarrow> job \<times> 'k"     \<comment> \<open>\<open>StartTransientUnit\<close> and the wait for its job\<close>
  b_stop :: "string \<Rightarrow> 'k \<Rightarrow> job \<times> 'k"
  b_reset :: "string \<Rightarrow> 'k \<Rightarrow> 'k"
  b_setProps :: "string \<Rightarrow> sdProp list \<Rightarrow> 'k \<Rightarrow> bus_error option \<times> 'k"
  b_getProp :: "string \<Rightarrow> string \<Rightarrow> string \<Rightarrow> 'k \<Rightarrow> bus_error + sdValue"   \<comment> \<open>unit, type, property\<close>

text \<open>A substring, as \<open>strings.Contains\<close> looks for it.\<close>

fun Contains :: "string \<Rightarrow> string \<Rightarrow> bool" where
  "Contains [] sub = (sub = [])"
| "Contains (c # cs) sub = (HasPrefix (c # cs) sub \<or> Contains cs sub)"

fun isDbusError :: "bus_error \<Rightarrow> string \<Rightarrow> bool" where
  "isDbusError (DbusError n) name = Contains n name"
| "isDbusError (OtherBusError e) name = False"

definition isUnitExists :: "bus_error \<Rightarrow> bool" where
  "isUnitExists e = isDbusError e ''org.freedesktop.systemd1.UnitExists''"

text \<open>
  A connection is kept until an operation finds it closed; then it is made again and the operation
  repeated, for as long as that happens. None is a loop that does not end.
\<close>

datatype op_answer = OpDone | OpClosed | OpFailed bus_error

definition getConnection :: "('k \<Rightarrow> (bus_error + 'c) \<times> 'k) \<Rightarrow> 'c option \<Rightarrow> 'k \<Rightarrow> (bus_error + 'c) \<times> 'k" where
  "getConnection newConnection conn s = (case conn of Some c \<Rightarrow> (Inr c, s) | None \<Rightarrow> newConnection s)"

partial_function (option) retryOnDisconnect ::
  "('k \<Rightarrow> (bus_error + 'c) \<times> 'k) \<Rightarrow> ('c \<Rightarrow> 'k \<Rightarrow> op_answer \<times> 'k) \<Rightarrow> 'c option \<Rightarrow> 'k \<Rightarrow> (bus_error option \<times> 'c option \<times> 'k) option" where
  "retryOnDisconnect newConnection op conn s =
     (case getConnection newConnection conn s of
        (Inl e, s') \<Rightarrow> Some (Some e, None, s')
      | (Inr c, s') \<Rightarrow>
          (case op c s' of
             (OpDone, t) \<Rightarrow> Some (None, Some c, t)
           | (OpFailed e, t) \<Rightarrow> Some (Some e, Some c, t)
           | (OpClosed, t) \<Rightarrow> retryOnDisconnect newConnection op None t))"

subsection \<open>Units\<close>

fun waitStarted :: "'k bus \<Rightarrow> string \<Rightarrow> job \<times> 'k \<Rightarrow> (sd_error + unit) \<times> 'k" where
  "waitStarted B unitName (Refused e, s) = (Inl (BusFailed e), s)"
| "waitStarted B unitName (JobResult st, s) =
     (if st = ''done'' then (Inr (), s) else (Inl (UnitResult unitName st), b_reset B unitName s))"
| "waitStarted B unitName (NoAnswer, s) = (Inl (StartTimeout unitName), b_reset B unitName s)"

text \<open>A unit of that name may be left over from a failure: it is reset and the start tried once more.\<close>

definition startUnit :: "'k bus \<Rightarrow> string \<Rightarrow> sdProp list \<Rightarrow> bool \<Rightarrow> 'k \<Rightarrow> (sd_error + unit) \<times> 'k" where
  "startUnit B unitName props ignoreExist s =
     (case b_start B unitName props s of
        (Refused e, s') \<Rightarrow>
          if \<not> isUnitExists e then (Inl (BusFailed e), s')
          else if ignoreExist then (Inr (), s')
          else waitStarted B unitName (b_start B unitName props (b_reset B unitName s'))
      | answer \<Rightarrow> waitStarted B unitName answer)"

definition stopUnit :: "'k bus \<Rightarrow> string \<Rightarrow> 'k \<Rightarrow> (sd_error + unit) \<times> 'k" where
  "stopUnit B unitName s =
     (case b_stop B unitName s of
        (NoAnswer, s') \<Rightarrow> (Inl (StopTimeout unitName), s')
      | (_, s') \<Rightarrow> (Inr (), b_reset B unitName s'))"

subsection \<open>The manager and its paths\<close>

text \<open>The record of cgroups/fs/ is used: a configuration and the path of each subsystem.\<close>

definition legacySubsystems :: "bool \<Rightarrow> BlkioGroup \<Rightarrow> 'k subsystem list" where
  "legacySubsystems inUserNS g =
     [\<lparr>sub_Name = ''cpuset'', sub_Apply = ApplyDir, sub_Set = CpusetSet\<rparr>,
      \<lparr>sub_Name = ''devices'', sub_Apply = returning DevicesApply, sub_Set = DevicesSet inUserNS False\<rparr>,
      plainSub ''memory'' MemorySet,
      \<lparr>sub_Name = ''cpu'', sub_Apply = returning CpuApply, sub_Set = CpuSet\<rparr>,
      plainSub ''cpuacct'' noSet,
      plainSub ''pids'' PidsSet,
      plainSub ''blkio'' (BlkioSet g),
      plainSub ''hugetlb'' HugetlbSet,
      plainSub ''perf_event'' noSet,
      plainSub ''freezer'' FreezerSet,
      plainSub ''net_prio'' NetPrioSet,
      plainSub ''net_cls'' NetClsSet,
      NameGroup ''name=systemd'' False,
      plainSub ''rdma'' RdmaSet,
      NameGroup ''misc'' False]"

definition legacyNames :: "string list" where
  "legacyNames =
     [''cpuset'', ''devices'', ''memory'', ''cpu'', ''cpuacct'', ''pids'', ''blkio'', ''hugetlb'', ''perf_event'',
      ''freezer'', ''net_prio'', ''net_cls'', ''name=systemd'', ''rdma'', ''misc'']"

definition getSubsystemPath :: "v1_env \<Rightarrow> string \<Rightarrow> string \<Rightarrow> string \<Rightarrow> v1_error + string" where
  "getSubsystemPath ev sl unitName name =
     andThen (FindCgroupMountpoint ev [] name) (\<lambda>mountpoint. Inr (PathJoin3 mountpoint sl unitName))"

definition legacyPath :: "v1_env \<Rightarrow> string \<Rightarrow> string \<Rightarrow> string \<Rightarrow> (string \<rightharpoonup> string) \<Rightarrow> sd_error + (string \<rightharpoonup> string)" where
  "legacyPath ev sl unitName name paths =
     (case getSubsystemPath ev sl unitName name of
        Inl e \<Rightarrow> if name \<noteq> ''devices'' \<and> IsNotFound e then Inr paths else Inl (PathsError e)
      | Inr p \<Rightarrow> Inr (paths(name \<mapsto> p)))"

text \<open>In hybrid mode an error other than "not found" leaves an empty path and is dropped.\<close>

definition legacyInitPaths :: "v1_env \<Rightarrow> bool \<Rightarrow> Cgroup \<Rightarrow> sd_error + (string \<rightharpoonup> string)" where
  "legacyInitPaths ev hybrid c =
     andThen (if cg_Parent c \<noteq> [] then ExpandSlice (cg_Parent c) else Inr ''system.slice'') (\<lambda>sl.
     andThen (foldRes (legacyPath ev sl (getUnitName c)) legacyNames Map.empty) (\<lambda>paths.
       if \<not> hybrid then Inr paths
       else (case getSubsystemPath ev sl (getUnitName c) [] of
               Inl e \<Rightarrow> if IsNotFound e then Inl (PathsError e) else Inr (paths([] \<mapsto> []))
             | Inr p \<Rightarrow> Inr (paths([] \<mapsto> p)))))"

definition NewLegacyManager :: "v1_env \<Rightarrow> bool \<Rightarrow> Cgroup \<Rightarrow> (string \<rightharpoonup> string) option \<Rightarrow> sd_error + manager" where
  "NewLegacyManager ev hybrid cg paths =
     (if cg_Rootless cg then Inl RootlessV1
      else if (case cg_Resources cg of None \<Rightarrow> False | Some r \<Rightarrow> rs_Unified r \<noteq> None) then Inl UnifiedOnV1
      else andThen (case paths of None \<Rightarrow> legacyInitPaths ev hybrid cg | Some ps \<Rightarrow> Inr ps) (\<lambda>ps.
             Inr \<lparr>m_cgroups = cg, m_paths = ps\<rparr>))"

subsection \<open>Apply\<close>

definition liftFile :: "(fs_error + 'a) \<times> 'k \<Rightarrow> (sd_error + 'a) \<times> 'k" where
  "liftFile x = (map_sum FileErr id (fst x), snd x)"

text \<open>The properties of the unit; \<open>io\<close> names the accounting of block devices.\<close>

definition unitProperties :: "Cgroup \<Rightarrow> string \<Rightarrow> string \<Rightarrow> int \<Rightarrow> sdProp list" where
  "unitProperties c sl io pid =
     [PropDescription (''libcontainer container '' @ cg_Name c)] @
     (if HasSuffix (getUnitName c) ''.slice'' then [PropWants sl]
      else [PropSlice sl, newProp ''Delegate'' (SdBool True)]) @
     (if pid \<noteq> -1 then [newProp ''PIDs'' (SdU32s [word_of_int pid])] else []) @
     [newProp ''MemoryAccounting'' (SdBool True), newProp ''CPUAccounting'' (SdBool True),
      newProp io (SdBool True), newProp ''TasksAccounting'' (SdBool True),
      newProp ''DefaultDependencies'' (SdBool False)] @
     map Configured (cg_SystemdProps c)"

definition joinPlain :: "'k world \<Rightarrow> string \<Rightarrow> int \<Rightarrow> ('k, unit) io" where
  "joinPlain W path pid = ioSeq [mkdirAll W path, writeCgroupProc W path pid]"

fun joinCgroups :: "'k world \<Rightarrow> manager \<Rightarrow> int \<Rightarrow> string list \<Rightarrow> 'k \<Rightarrow> ((fs_error + unit) \<times> 'k) option" where
  "joinCgroups W m pid [] s = Some (Inr (), s)"
| "joinCgroups W m pid (name # names) s =
     (case (if name = ''name=systemd'' then None else m_paths m name) of
        None \<Rightarrow> joinCgroups W m pid names s
      | Some path \<Rightarrow>
          Option.bind (if name = ''cpuset'' then ApplyDir W path (resourcesOf m) pid s
                       else Some (joinPlain W path pid s)) (\<lambda>(res, s').
            if isl res then Some (res, s') else joinCgroups W m pid names s'))"

definition legacyApply :: "'k world \<Rightarrow> 'k bus \<Rightarrow> manager \<Rightarrow> int \<Rightarrow> 'k \<Rightarrow> ((sd_error + unit) \<times> 'k) option" where
  "legacyApply W B m pid s =
     (let c = m_cgroups m; sl = (if cg_Parent c \<noteq> [] then cg_Parent c else ''system.slice'') in
      case startUnit B (getUnitName c) (unitProperties c sl ''BlockIOAccounting'' pid) (pid = -1) s of
        (Inl e, s') \<Rightarrow> Some (Inl e, s')
      | (Inr _, s') \<Rightarrow> map_option liftFile (joinCgroups W m pid legacyNames s'))"

subsection \<open>The freezer\<close>

definition doFreeze :: "'k world \<Rightarrow> manager \<Rightarrow> FreezerState \<Rightarrow> 'k \<Rightarrow> (sd_error + unit) \<times> 'k" where
  "doFreeze W m st s =
     (case m_paths m ''freezer'' of
        None \<Rightarrow> (Inl SdNoSubsystem, s)
      | Some path \<Rightarrow> liftFile (FreezerSet W path (emptyResources\<lparr>rs_Freezer := st\<rparr>) s))"

definition legacyFreeze :: "'k world \<Rightarrow> manager \<Rightarrow> FreezerState \<Rightarrow> 'k \<Rightarrow> (sd_error + unit) \<times> manager \<times> 'k" where
  "legacyFreeze W m st s =
     (case doFreeze W m st s of
        (Inl e, s') \<Rightarrow> (Inl e, m, s')
      | (Inr _, s') \<Rightarrow> (Inr (), setFreezer st m, s'))"

definition legacyFreezerState :: "'k world \<Rightarrow> manager \<Rightarrow> 'k \<Rightarrow> ((fs_error + FreezerState) \<times> 'k) option" where
  "legacyFreezerState W m s =
     (case m_paths m ''freezer'' of None \<Rightarrow> Some (Inr Undefined, s) | Some path \<Rightarrow> GetState W path s)"

text \<open>With the default device policy and no entries setting properties does not touch devices.\<close>

definition devicesUntouched :: "'k bus \<Rightarrow> string \<Rightarrow> 'k \<Rightarrow> bool" where
  "devicesUntouched B unitName s \<longleftrightarrow>
     b_getProp B unitName (getUnitType unitName) ''DevicePolicy'' s = Inr (SdString ''auto'') \<and>
     b_getProp B unitName (getUnitType unitName) ''DeviceAllow'' s
       \<in> {Inr (SdDevices []), Inr (SdBytes []), Inr (SdU32s [])}"

definition freezeBeforeSet ::
  "'k world \<Rightarrow> 'k bus \<Rightarrow> manager \<Rightarrow> string \<Rightarrow> Resources \<Rightarrow> 'k \<Rightarrow> ((fs_error + bool \<times> bool) \<times> 'k) option" where
  "freezeBeforeSet W B m unitName r s =
     (if rs_SkipDevices r \<and> (rs_SkipFreezeOnSet r \<or> devicesUntouched B unitName s) then Some (Inr (False, False), s)
      else Option.bind (legacyFreezerState W m s) (\<lambda>(res, s').
        Some (map_sum id (\<lambda>st. (st \<noteq> Frozen, st \<noteq> Frozen \<and> rs_Freezer r \<noteq> Frozen)) res, s')))"

subsection \<open>Set\<close>

fun legacySetLoop ::
  "'k world \<Rightarrow> manager \<Rightarrow> 'k subsystem list \<Rightarrow> Resources \<Rightarrow> 'k \<Rightarrow> (fs_error + unit) \<times> Resources \<times> 'k" where
  "legacySetLoop W m [] r s = (Inr (), r, s)"
| "legacySetLoop W m (sys # syss) r s =
     (case m_paths m (sub_Name sys) of
        None \<Rightarrow> legacySetLoop W m syss r s
      | Some path \<Rightarrow>
          (let r' = (if sub_Name sys = ''memory'' then adaptSwap W path r s else r) in
           case sub_Set sys W path r s of
             (Inr _, s') \<Rightarrow> legacySetLoop W m syss r' s'
           | (Inl e, s') \<Rightarrow> (Inl e, r', s')))"

text \<open>Freezing; a manager without a freezer goes on unfrozen.\<close>

definition freezeForSet :: "'k world \<Rightarrow> manager \<Rightarrow> bool \<Rightarrow> bool \<Rightarrow> 'k \<Rightarrow> (sd_error + unit) \<times> 'k" where
  "freezeForSet W m needsFreeze needsThaw s =
     (if \<not> needsFreeze then (Inr (), s)
      else (case doFreeze W m Frozen s of
              (Inl e, s') \<Rightarrow>
                if e = SdNoSubsystem then (Inr (), s')
                else (Inl e, if needsThaw then snd (doFreeze W m Thawed s') else s')
            | (Inr _, s') \<Rightarrow> (Inr (), s')))"

definition setUnfrozen ::
  "'k world \<Rightarrow> 'k bus \<Rightarrow> manager \<Rightarrow> 'k subsystem list \<Rightarrow> sdProp list \<Rightarrow> bool \<Rightarrow> Resources \<Rightarrow> 'k \<Rightarrow> (sd_error + unit) \<times> 'k" where
  "setUnfrozen W B m syss props needsThaw r s =
     (case b_setProps B (getUnitName (m_cgroups m)) props s of (setErr, s1) \<Rightarrow>
        let s2 = (if needsThaw then snd (doFreeze W m Thawed s1) else s1) in
        case setErr of
          Some e \<Rightarrow> (Inl (BusFailed e), s2)
        | None \<Rightarrow> (case legacySetLoop W m syss r s2 of (res, _, s3) \<Rightarrow> liftFile (res, s3)))"

definition legacySet ::
  "'k world \<Rightarrow> 'k bus \<Rightarrow> sd_env \<Rightarrow> manager \<Rightarrow> 'k subsystem list \<Rightarrow> Resources option \<Rightarrow> 'k \<Rightarrow> ((sd_error + unit) \<times> 'k) option" where
  "legacySet W B ev m syss ro s =
     (case ro of
        None \<Rightarrow> Some (Inr (), s)
      | Some r \<Rightarrow>
          if rs_Unified r \<noteq> None then Some (Inl UnifiedOnV1, s)
          else (case genV1ResourcesProperties ev r of
                  Inl e \<Rightarrow> Some (Inl e, s)
                | Inr props \<Rightarrow>
                    Option.bind (freezeBeforeSet W B m (getUnitName (m_cgroups m)) r s) (\<lambda>(res, s1). Some
                      (case res of
                         Inl e \<Rightarrow> (Inl (FileErr e), s1)
                       | Inr (needsFreeze, needsThaw) \<Rightarrow>
                           (case freezeForSet W m needsFreeze needsThaw s1 of
                              (Inl e, s2) \<Rightarrow> (Inl e, s2)
                            | (Inr _, s2) \<Rightarrow> setUnfrozen W B m syss props needsThaw r s2)))))"

definition legacyExists :: "'k world \<Rightarrow> manager \<Rightarrow> 'k \<Rightarrow> bool" where
  "legacyExists W m s = w_exists W (pathOf m ''devices'') s"

definition legacyOOMKillCount :: "'k world \<Rightarrow> manager \<Rightarrow> ('k, u64) io" where
  "legacyOOMKillCount W m = GetValueByKey W (pathOf m ''memory'') ''memory.oom_control'' ''oom_kill''"

end
