(* ===== verification/SystemdV1Props.thy ===== *)
theory SystemdV1Props imports SystemdV1 ManagerV1Props begin

text \<open>
  The systemd manager of cgroup v1: setting resources does not leave a running container frozen,
  and the loop that connects again to a bus that was closed ends when the bus stays open.
\<close>

subsection \<open>Reading keeps a property\<close>

lemma stays_readFile:
  assumes "\<And>f s. I s \<Longrightarrow> I (snd (w_open W dir f s))"
  shows "stays I (readFile W dir f)"
proof -
  have "stays I (openRead W dir f)"
    using assms unfolding stays_def openRead_def by (auto split: prod.splits sum.splits) (metis snd_conv)+
  then show ?thesis unfolding readFile_def by (rule stays_then) (auto intro!: stays_intros)
qed

lemma stays_stateTurn:
  assumes "\<And>f s. I s \<Longrightarrow> I (snd (w_open W dir f s))"
  shows "stays I (stateTurn W dir)"
proof -
  have "stays I (selfFreezing W dir)"
    unfolding selfFreezing_def by (rule stays_case [OF stays_readFile [of I, OF assms]]) (auto intro!: stays_intros)
  then show ?thesis unfolding stateTurn_def
    by (intro stays_case [OF stays_readFile [of I, OF assms]]) (auto intro!: stays_then stays_ret stays_err)
qed

lemma GetState_keeps:
  assumes "GetState W dir s = Some x"
  shows "(\<forall>f s. I s \<longrightarrow> I (snd (w_open W dir f s))) \<Longrightarrow> I s \<Longrightarrow> I (snd x)"
  using assms
proof (induction rule: GetState.raw_induct [rotated, consumes 1, case_names turn])
  case (turn rec W dir s x)
  have "stays I (stateTurn W dir)" using turn.prems(1) by (intro stays_stateTurn) blast
  then have "I (snd (stateTurn W dir s))" using turn.prems(2) by (simp add: stays_def)
  then show ?case using turn.IH turn.hyps turn.prems(1)
    by (auto split: prod.splits sum.splits option.splits)
qed

subsection \<open>Set and the freezer\<close>

lemma legacy_set: "sys \<in> set (legacySubsystems inUserNS g) \<Longrightarrow> subsystem_set (sub_Set sys)"
  unfolding legacySubsystems_def plainSub_def NameGroup_def
  using controllers_confined by auto

lemma legacy_freezer:
  "sys \<in> set (legacySubsystems inUserNS g) \<Longrightarrow> sub_Name sys = ''freezer'' \<Longrightarrow> sub_Set sys = FreezerSet"
  unfolding legacySubsystems_def plainSub_def NameGroup_def by auto

lemma legacy_names: "map sub_Name (legacySubsystems inUserNS g) = legacyNames"
  by (simp add: legacySubsystems_def legacyNames_def plainSub_def NameGroup_def)

text \<open>
  A kernel with a freezer: writing THAWED to its state thaws, and nothing but a write to its
  directory freezes; systemd does not freeze when it sets properties.
\<close>

definition freezer_kernel :: "'k world \<Rightarrow> 'k bus \<Rightarrow> string \<Rightarrow> ('k \<Rightarrow> bool) \<Rightarrow> bool" where
  "freezer_kernel W B path thawed \<longleftrightarrow>
     (\<forall>s. thawed (snd (writeState W path Thawed s))) \<and>
     (\<forall>dir f s. thawed s \<longrightarrow> thawed (snd (w_open W dir f s))) \<and>
     (\<forall>dir f d s. thawed s \<longrightarrow> dir \<noteq> path \<longrightarrow> thawed (snd (w_write W dir f d s))) \<and>
     (\<forall>u props s. thawed s \<longrightarrow> thawed (snd (b_setProps B u props s)))"

lemma freezer_kernelD:
  assumes "freezer_kernel W B path thawed"
  shows "thawed (snd (writeState W path Thawed s))"
    and "thawed s \<Longrightarrow> thawed (snd (w_open W dir f s))"
    and "dir \<noteq> path \<Longrightarrow> keeps W thawed dir"
    and "thawed s \<Longrightarrow> thawed (snd (b_setProps B u props s))"
  using assms unfolding freezer_kernel_def keeps_def by blast+

lemma FreezerSet_thawed:
  assumes "freezer_kernel W B path thawed" and "rs_Freezer r \<noteq> Frozen" and "thawed s"
  shows "thawed (snd (FreezerSet W path r s))"
  using assms(2,3) freezer_kernelD(1) [OF assms(1)]
  by (cases "rs_Freezer r") (simp_all add: FreezerSet_def io_defs)

lemma doFreeze_thaws:
  "freezer_kernel W B path thawed \<Longrightarrow> m_paths m ''freezer'' = Some path \<Longrightarrow> thawed (snd (doFreeze W m Thawed s))"
  by (simp add: doFreeze_def liftFile_def FreezerSet_def freezer_kernelD(1) [of W B path thawed])

lemma legacySetLoop_Cons:
  "legacySetLoop W m (sys # syss) r s =
     (case m_paths m (sub_Name sys) of
        None \<Rightarrow> legacySetLoop W m syss r s
      | Some path \<Rightarrow>
          (let r' = (if sub_Name sys = ''memory'' then adaptSwap W path r s else r);
               s' = snd (sub_Set sys W path r s) in
           case fst (sub_Set sys W path r s) of
             Inr _ \<Rightarrow> legacySetLoop W m syss r' s'
           | Inl e \<Rightarrow> (Inl e, r', s')))"
  by (simp only: legacySetLoop.simps Let_def case_prod_beta)

declare legacySetLoop.simps(2) [simp del]

lemma legacySetLoop_thawed:
  assumes k: "freezer_kernel W B path thawed"
    and "\<And>sys. sys \<in> set syss \<Longrightarrow> subsystem_set (sub_Set sys) \<and> (sub_Name sys = ''freezer'' \<longrightarrow> sub_Set sys = FreezerSet)"
    and p: "\<And>name. m_paths m name = Some path \<longleftrightarrow> name = ''freezer''"
    and "rs_Freezer r \<noteq> Frozen" and "thawed s"
  shows "thawed (snd (snd (legacySetLoop W m syss r s)))"
  using assms(2,4,5)
proof (induction syss arbitrary: r s)
  case Nil
  then show ?case by simp
next
  case (Cons sys syss)
  have step: "thawed (snd (sub_Set sys W q r s))" if q: "m_paths m (sub_Name sys) = Some q" for q
  proof (cases "sub_Name sys = ''freezer''")
    case True
    then have "q = path" using p q by (metis option.inject)
    then show ?thesis using True Cons.prems FreezerSet_thawed [OF k] by simp
  next
    case False
    then have "q \<noteq> path" using p q by blast
    then have "keeps W thawed q" by (rule freezer_kernelD(3) [OF k])
    then show ?thesis using Cons.prems subsystem_set.frame by (metis list.set_intros(1))
  qed
  have "rs_Freezer (if sub_Name sys = ''memory'' then adaptSwap W q r s else r) \<noteq> Frozen" for q
    using Cons.prems(2) by (simp add: adaptSwap_def)
  then show ?case using step Cons.IH Cons.prems
    by (auto simp: legacySetLoop_Cons Let_def split: option.splits sum.splits)
qed

lemma freezeBeforeSet_thawed:
  assumes "freezer_kernel W B path thawed" and "freezeBeforeSet W B m u r s = Some (res, s')" and "thawed s"
    and "rs_Freezer r \<noteq> Frozen"
  shows "thawed s'" and "res = Inr (nf, nt) \<Longrightarrow> nf = nt"
proof -
  show "thawed s'"
    using assms(2,3) GetState_keeps [where I = thawed] freezer_kernelD(2) [OF assms(1)]
    by (fastforce simp: freezeBeforeSet_def legacyFreezerState_def split: if_splits option.splits Option.bind_splits)
  show "res = Inr (nf, nt) \<Longrightarrow> nf = nt"
    using assms(2,4) by (auto simp: freezeBeforeSet_def map_sum_def split: if_splits Option.bind_splits sum.splits)
qed

text \<open>C3. Set does not leave a running container frozen: when the freezer has its own directory and the
  request does not ask for freezing, a container that runs before Set runs after it, whatever
  systemd and the kernel answer to anything on the way, also when Set fails.\<close>

theorem legacy_set_thaws:
  assumes k: "freezer_kernel W B path thawed"
    and p: "\<And>name. m_paths m name = Some path \<longleftrightarrow> name = ''freezer''"
    and f: "rs_Freezer r \<noteq> Frozen" and "thawed s"
    and set: "legacySet W B ev m (legacySubsystems inUserNS g) (Some r) s = Some (res, s')"
  shows "thawed s'"
proof -
  have loop: "thawed t \<Longrightarrow> thawed (snd (snd (legacySetLoop W m (legacySubsystems inUserNS g) r t)))" for t
    by (rule legacySetLoop_thawed [OF k _ p f]) (auto intro: legacy_set legacy_freezer)
  have thaw: "thawed (snd (doFreeze W m Thawed t))" for t
    using doFreeze_thaws [OF k] p by blast
  have freeze: "thawed (snd (freezeForSet W m nt nt t)) \<or> (nt \<and> \<not> isl (fst (freezeForSet W m nt nt t)))"
    if "thawed t" for nt t
    using that thaw by (auto simp: freezeForSet_def split: prod.splits sum.splits)
  have unfrozen: "thawed (snd (setUnfrozen W B m (legacySubsystems inUserNS g) props nt r t))"
    if "nt \<or> thawed t" for props nt t
    using that thaw loop freezer_kernelD(4) [OF k]
    by (auto simp: setUnfrozen_def liftFile_def Let_def split: prod.splits option.splits) (metis snd_conv)+
  show ?thesis
  proof (cases "genV1ResourcesProperties ev r")
    case (Inl e)
    then show ?thesis using set assms(4) by (auto simp: legacySet_def split: if_splits)
  next
    case (Inr props)
    show ?thesis
    proof (cases "rs_Unified r = None")
      case False
      then show ?thesis using set assms(4) by (auto simp: legacySet_def)
    next
      case True
      then obtain b s1 where b: "freezeBeforeSet W B m (getUnitName (m_cgroups m)) r s = Some (b, s1)"
        using set Inr by (auto simp: legacySet_def split: Option.bind_splits)
      note b1 = freezeBeforeSet_thawed [OF k b assms(4) f]
      show ?thesis
      proof (cases b)
        case (Inl e)
        then show ?thesis using set b b1(1) True \<open>genV1ResourcesProperties ev r = Inr props\<close>
          by (simp add: legacySet_def)
      next
        case (Inr needs)
        then obtain nt where nt: "b = Inr (nt, nt)" using b1(2) by (cases needs) auto
        have "(res, s') = (case freezeForSet W m nt nt s1 of
            (Inl e, s2) \<Rightarrow> (Inl e, s2)
          | (Inr _, s2) \<Rightarrow> setUnfrozen W B m (legacySubsystems inUserNS g) props nt r s2)"
          using set b nt True \<open>genV1ResourcesProperties ev r = Inr props\<close> by (simp add: legacySet_def)
        then show ?thesis using freeze [OF b1(1), of nt] unfrozen [of nt _ props]
          by (auto split: prod.splits sum.splits) (metis snd_conv)+
      qed
    qed
  qed
qed

text \<open>A kernel whose state is whether the cgroup /f is frozen.\<close>

definition freezerWorld :: "bool world" where
  "freezerWorld =
     \<lparr>w_open = (\<lambda>_ _ s. (Inr \<lparr>rd_data = (if s then ''FROZEN'' else ''THAWED''), rd_err = None\<rparr>, s)),
      w_write = (\<lambda>dir _ data s. (None, if dir = ''/f'' then data = ''FROZEN'' else s)),
      w_openProcs = (\<lambda>_ _. None), w_mkdirAll = (\<lambda>_ s. (None, s)), w_mkdir = (\<lambda>_ s. (None, s)),
      w_exists = (\<lambda>_ _. True), w_statfs = (\<lambda>_ _. Inr True), w_rdmaOrder = (\<lambda>_. [])\<rparr>"

definition quietBus :: "'k bus" where
  "quietBus =
     \<lparr>b_start = (\<lambda>_ _ s. (JobResult ''done'', s)), b_stop = (\<lambda>_ s. (JobResult ''done'', s)), b_reset = (\<lambda>_ s. s),
      b_setProps = (\<lambda>_ _ s. (None, s)), b_getProp = (\<lambda>_ _ _ _. Inl (OtherBusError ''closed''))\<rparr>"

definition exampleSdEnv :: sd_env where
  "exampleSdEnv =
     \<lparr>sd_Devices = Inl ENOENT, sd_Stat = (\<lambda>_. True), sd_Version = 250, sd_Order = (\<lambda>_. [])\<rparr>"

definition freezerManager :: manager where
  "freezerManager =
     \<lparr>m_cgroups = \<lparr>cg_Name = ''x'', cg_Parent = [], cg_Path = [], cg_ScopePrefix = ''c'', cg_Resources = None,
        cg_Systemd = True, cg_SystemdProps = [], cg_Rootless = False, cg_OwnerUID = None\<rparr>,
      m_paths = [''freezer'' \<mapsto> ''/f'', ''pids'' \<mapsto> ''/p'']\<rparr>"

theorem legacy_set_thaws_witness:
  "\<exists>res. legacySet freezerWorld quietBus exampleSdEnv freezerManager
     (legacySubsystems True \<lparr>weightFilename = [], weightDeviceFilename = []\<rparr>)
     (Some (emptyResources\<lparr>rs_PidsLimit := 5\<rparr>)) False = Some (res, False)"
proof -
  let ?r = "emptyResources\<lparr>rs_PidsLimit := 5\<rparr>"
  let ?syss = "legacySubsystems True \<lparr>weightFilename = [], weightDeviceFilename = []\<rparr>"
  have k: "freezer_kernel freezerWorld quietBus ''/f'' (\<lambda>s. \<not> s)"
    by (simp add: freezer_kernel_def writeState_def writeFile_def freezerWorld_def quietBus_def)
  have p: "m_paths freezerManager name = Some ''/f'' \<longleftrightarrow> name = ''freezer''" for name
    by (simp add: freezerManager_def)
  have "GetState freezerWorld ''/f'' False = Some (Inr Thawed, False)"
    by (subst GetState.simps)
       (simp add: stateTurn_def readFile_def openRead_def freezerWorld_def io_defs TrimSpace_def isSpace_def)
  then have "\<exists>x. legacySet freezerWorld quietBus exampleSdEnv freezerManager ?syss (Some ?r) False = Some x"
    by (simp add: legacySet_def freezeBeforeSet_def legacyFreezerState_def freezerManager_def emptyResources_def
        split: sum.split) auto
  then obtain res s' where l: "legacySet freezerWorld quietBus exampleSdEnv freezerManager ?syss (Some ?r) False = Some (res, s')"
    by auto
  have "rs_Freezer ?r \<noteq> Frozen" by (simp add: emptyResources_def)
  from legacy_set_thaws [OF k p this _ l] l show ?thesis by auto
qed

subsection \<open>The connection\<close>

text \<open>The state after \<open>n\<close> attempts that found the connection closed.\<close>

definition attempt :: "('k \<Rightarrow> (bus_error + 'c) \<times> 'k) \<Rightarrow> ('c \<Rightarrow> 'k \<Rightarrow> op_answer \<times> 'k) \<Rightarrow> 'c option \<Rightarrow> 'k \<Rightarrow> bool \<times> 'k" where
  "attempt newConnection op conn s =
     (case getConnection newConnection conn s of
        (Inl e, s') \<Rightarrow> (False, s')
      | (Inr c, s') \<Rightarrow> (case op c s' of (a, t) \<Rightarrow> (a = OpClosed, t)))"

lemma retry_step:
  "retryOnDisconnect newConnection op conn s =
     (if fst (attempt newConnection op conn s)
      then retryOnDisconnect newConnection op None (snd (attempt newConnection op conn s))
      else case getConnection newConnection conn s of
        (Inl e, s') \<Rightarrow> Some (Some e, None, s')
      | (Inr c, s') \<Rightarrow>
          (case op c s' of
             (OpFailed e, t) \<Rightarrow> Some (Some e, Some c, t)
           | (_, t) \<Rightarrow> Some (None, Some c, t)))"
  by (subst retryOnDisconnect.simps) (auto simp: attempt_def split: prod.splits sum.splits op_answer.splits)

text \<open>When the operation succeeds no error is returned and the connection is kept for the next one; an
  operation that keeps finding its connection closed is repeated for ever.\<close>

lemma retry_returns:
  assumes "\<not> fst (attempt newConnection op None (((\<lambda>t. snd (attempt newConnection op None t)) ^^ n) s))"
  shows "\<exists>x. retryOnDisconnect newConnection op None s = Some x"
  using assms
proof (induction n arbitrary: s)
  case 0
  then show ?case by (subst retry_step) (auto split: prod.splits sum.splits op_answer.splits)
next
  case (Suc n)
  then have "\<exists>x. retryOnDisconnect newConnection op None (snd (attempt newConnection op None s)) = Some x"
    by (simp add: funpow_Suc_right del: funpow.simps)
  then show ?case by (subst retry_step) (auto split: prod.splits sum.splits op_answer.splits)
qed

end
