(* ===== verification/Fs2.thy ===== *)
theory Fs2 imports ManagerV1 begin

text \<open>
  The manager of cgroup v2 (cgroups/fs2/): creating the directory of a container with the controllers
  of its parents enabled, setting resources and freezing. There is one directory for all
  controllers. The kernel is that of \<open>Fscommon\<close>; the record \<open>kernel2\<close> adds what only this package
  asks of it.
\<close>

record 'k kernel2 =
  k2_openRW :: "string \<Rightarrow> string \<Rightarrow> 'k \<Rightarrow> sys_error option"  \<comment> \<open>opening for reading and writing\<close>
  k2_remove :: "string \<Rightarrow> 'k \<Rightarrow> 'k"                        \<comment> \<open>\<open>os.Remove\<close>\<close>
  k2_openDir :: "string \<Rightarrow> 'k \<Rightarrow> bool"
  k2_attach :: "insn list \<Rightarrow> string \<Rightarrow> string \<Rightarrow> 'k \<Rightarrow> string option \<times> 'k"  \<comment> \<open>load and attach a filter\<close>
  k2_inUserNS :: bool
  k2_order :: "(string \<rightharpoonup> string) \<Rightarrow> (string \<times> string) list"  \<comment> \<open>a map in the order it is iterated\<close>

definition UnifiedMountpoint :: string where "UnifiedMountpoint = ''/sys/fs/cgroup''"

subsection \<open>Which controllers a request needs\<close>

definition isPidsSet :: "Resources \<Rightarrow> bool" where "isPidsSet r \<longleftrightarrow> rs_PidsLimit r \<noteq> 0"

definition isMemorySet :: "Resources \<Rightarrow> bool" where
  "isMemorySet r \<longleftrightarrow> rs_MemoryReservation r \<noteq> 0 \<or> rs_Memory r \<noteq> 0 \<or> rs_MemorySwap r \<noteq> 0"

definition isIoSet :: "Resources \<Rightarrow> bool" where
  "isIoSet r \<longleftrightarrow>
     rs_BlkioWeight r \<noteq> 0 \<or> rs_BlkioWeightDevice r \<noteq> [] \<or> rs_BlkioThrottleReadBpsDevice r \<noteq> [] \<or>
     rs_BlkioThrottleWriteBpsDevice r \<noteq> [] \<or> rs_BlkioThrottleReadIOPSDevice r \<noteq> [] \<or>
     rs_BlkioThrottleWriteIOPSDevice r \<noteq> []"

definition isCpuSet :: "Resources \<Rightarrow> bool" where
  "isCpuSet r \<longleftrightarrow> rs_CpuWeight r \<noteq> 0 \<or> rs_CpuQuota r \<noteq> 0 \<or> rs_CpuPeriod r \<noteq> 0"

definition isCpusetSet :: "Resources \<Rightarrow> bool" where
  "isCpusetSet r \<longleftrightarrow> rs_CpusetCpus r \<noteq> [] \<or> rs_CpusetMems r \<noteq> []"

definition isHugeTlbSet :: "Resources \<Rightarrow> bool" where "isHugeTlbSet r \<longleftrightarrow> rs_HugetlbLimit r \<noteq> []"

definition supportedControllers :: "'k world \<Rightarrow> ('k, string) io" where
  "supportedControllers W = readFile W UnifiedMountpoint ''/cgroup.controllers''"

definition needAnyControllers :: "'k world \<Rightarrow> Resources option \<Rightarrow> ('k, bool) io" where
  "needAnyControllers W ro =
     (case ro of
        None \<Rightarrow> ioRet False
      | Some r \<Rightarrow>
          ioThen (supportedControllers W) (\<lambda>content.
            let have = (\<lambda>ctr. ctr \<in> set (Fields content)) in
            ioRet (isPidsSet r \<and> have ''pids'' \<or> isMemorySet r \<and> have ''memory'' \<or> isIoSet r \<and> have ''io'' \<or>
                   isCpuSet r \<and> have ''cpu'' \<or> isCpusetSet r \<and> have ''cpuset'' \<or> isHugeTlbSet r \<and> have ''hugetlb'')))"

definition containsDomainController :: "Resources \<Rightarrow> bool" where
  "containsDomainController r \<longleftrightarrow> isMemorySet r \<or> isIoSet r \<or> isCpuSet r \<or> isHugeTlbSet r"

subsection \<open>Creating the directory\<close>

text \<open>\<open>data, _ := ReadFile(dir, file)\<close>: what could be read, empty when the file cannot be opened.\<close>

definition readAnyway :: "'k world \<Rightarrow> string \<Rightarrow> string \<Rightarrow> 'k \<Rightarrow> string \<times> 'k" where
  "readAnyway W dir file s =
     (case openRead W dir file s of (Inr r, s') \<Rightarrow> (rd_data r, s') | (Inl _, s') \<Rightarrow> ([], s'))"

text \<open>All controllers at once; if the kernel refuses, one by one with errors ignored.\<close>

definition enableControllers :: "'k world \<Rightarrow> string \<Rightarrow> string \<Rightarrow> 'k \<Rightarrow> 'k" where
  "enableControllers W current res s =
     (case writeFile W current ''cgroup.subtree_control'' res s of
        (Inr _, s') \<Rightarrow> s'
      | (Inl _, s') \<Rightarrow>
          fold (\<lambda>ctr t. snd (writeFile W current ''cgroup.subtree_control'' ctr t)) (Split (CHR '' '') res) s')"

text \<open>The mode of a cgroup: an error when the request needs controllers it cannot have. Resources that
  are not given are a nil pointer.\<close>

definition checkType :: "'k world \<Rightarrow> Resources option \<Rightarrow> string \<Rightarrow> 'k \<Rightarrow> fs_error option \<times> 'k" where
  "checkType W ro current s =
     (case readAnyway W current ''cgroup.type'' s of (content, s1) \<Rightarrow>
        let cgType = TrimSpace content in
        if cgType \<notin> {''domain invalid'', ''domain threaded'', ''threaded''} then (None, s1)
        else (case ro of
                None \<Rightarrow> (Some NilResources, s1)
              | Some r \<Rightarrow>
                  if containsDomainController r then (Some (DomainControllers current cgType), s1)
                  else if cgType = ''domain invalid''
                  then (None, snd (writeFile W current ''cgroup.type'' ''threaded'' s1))
                  else (None, s1)))"

text \<open>
  The loop over the path elements: \<open>first\<close> is the mount point, which exists; \<open>created\<close> has the
  directories made so far, the last one first.
\<close>

fun createLoop ::
  "'k world \<Rightarrow> Resources option \<Rightarrow> string \<Rightarrow> bool \<Rightarrow> string \<Rightarrow> string list \<Rightarrow> string list \<Rightarrow> 'k \<Rightarrow> fs_error option \<times> string list \<times> 'k" where
  "createLoop W ro res first current [] created s = (None, created, s)"
| "createLoop W ro res first current (e # es) created s =
     (let cur = PathJoin current e;
          enable = (\<lambda>t. if es \<noteq> [] then enableControllers W cur res t else t) in
      if first then createLoop W ro res False cur es created (enable s)
      else (case w_mkdir W cur s of (err, s1) \<Rightarrow>
        (case (if err = Some EEXIST then None else err) of
           Some n \<Rightarrow> (Some (SysErr n), created, s1)
         | None \<Rightarrow>
             (let created' = (if err = None then cur # created else created) in
              case checkType W ro cur s1 of
                (Some e', s2) \<Rightarrow> (Some e', created', s2)
              | (None, s2) \<Rightarrow> createLoop W ro res False cur es created' (enable s2)))))"

text \<open>
  On an error the directories made here are removed, the last one first; a panic is no error for the
  deferred functions, they see an \<open>Err\<close> that is still nil.
\<close>

definition CreateCgroupPath :: "'k world \<Rightarrow> 'k kernel2 \<Rightarrow> string \<Rightarrow> Cgroup \<Rightarrow> ('k, unit) io" where
  "CreateCgroupPath W K path c =
     (if \<not> HasPrefix path UnifiedMountpoint then ioErr (InvalidCgroupPath path)
      else ioThen (supportedControllers W) (\<lambda>content s.
        case createLoop W (cg_Resources c) (''+'' @ Join '' +'' (Fields content)) True ''/sys/fs''
               (drop 3 (Split (CHR ''/'') path)) [] s of
          (None, _, s') \<Rightarrow> (Inr (), s')
        | (Some e, created, s') \<Rightarrow> (Inl e, if e = NilResources then s' else fold (k2_remove K) created s')))"

subsection \<open>The path of a container\<close>

text \<open>The entry of hierarchy 0 in /proc/self/cgroup.\<close>

fun unifiedEntry :: "string list \<Rightarrow> scan_error option \<Rightarrow> fs_error + string" where
  "unifiedEntry [] serr = (case serr of Some e \<Rightarrow> Inl (ScanErr e) | None \<Rightarrow> Inl CgroupPathNotFound)"
| "unifiedEntry (text # ls) serr =
     (case SplitN (CHR '':'') 3 text of
        [a, b, c] \<Rightarrow> if a = ''0'' \<and> b = [] then Inr c else unifiedEntry ls serr
      | _ \<Rightarrow> Inl (InvalidCgroupEntry text))"

definition parseUnifiedCgroup :: "reader \<Rightarrow> fs_error + string" where
  "parseUnifiedCgroup r = (case Scan r of (ls, serr) \<Rightarrow> unifiedEntry ls serr)"

text \<open>\<open>own\<close> is /proc/self/cgroup.\<close>

definition defaultDirPath :: "sys_error + reader \<Rightarrow> Cgroup \<Rightarrow> fs_error + string" where
  "defaultDirPath own c =
     (if (cg_Name c \<noteq> [] \<or> cg_Parent c \<noteq> []) \<and> cg_Path c \<noteq> [] then Inl PathAndName
      else
        (let inner0 = CleanPath (cg_Path c);
             inner = (if inner0 = [] then PathJoin (CleanPath (cg_Parent c)) (CleanPath (cg_Name c)) else inner0)
         in if IsAbs inner then Inr (PathJoin UnifiedMountpoint inner)
            else (case own of
                    Inl e \<Rightarrow> Inl (SysErr e)
                  | Inr r \<Rightarrow>
                      andThen (parseUnifiedCgroup r) (\<lambda>ownCgroup.
                        Inr (PathJoin3 UnifiedMountpoint (PathDir ownCgroup) inner)))))"

subsection \<open>Freezer\<close>

definition maxIter :: nat where "maxIter = 1000"

text \<open>
  The lines of cgroup.events: frozen, not frozen with so many attempts left and the file to be read
  again, or no such line. A line that ends after its blank is an index out of range.
\<close>

datatype frozen_answer = IsFrozen | AgainWith nat | NoFrozenLine | TimedOut | FrozenPanic

fun frozenLines :: "bool \<Rightarrow> nat \<Rightarrow> string list \<Rightarrow> frozen_answer" where
  "frozenLines seen left [] = (if seen then AgainWith left else NoFrozenLine)"
| "frozenLines seen left (line # ls) =
     (if left = 0 then TimedOut
      else if \<not> HasPrefix line ''frozen '' then frozenLines seen left ls
      else (case drop (length ''frozen '') line of
              [] \<Rightarrow> FrozenPanic
            | c # _ \<Rightarrow> if c = CHR ''1'' then IsFrozen else frozenLines True (left - 1) ls))"

lemma frozenLines_left: "frozenLines seen left ls = AgainWith l \<Longrightarrow> l \<le> left \<and> (\<not> seen \<longrightarrow> l < left)"
  by (induction seen left ls arbitrary: l rule: frozenLines.induct)
     (auto split: if_splits list.splits, fastforce+)

text \<open>
  The scanner reads the file from its start again after each pass over a group that is not frozen.
  The kernel ends the file with a newline.
\<close>

function waitFrozen :: "'k world \<Rightarrow> string \<Rightarrow> nat \<Rightarrow> 'k \<Rightarrow> (fs_error + FreezerState) \<times> 'k" where
  "waitFrozen W dir left s =
     (case openRead W dir ''cgroup.events'' s of
        (Inl e, s') \<Rightarrow> (Inl e, s')
      | (Inr r, s') \<Rightarrow>
          (case frozenLines False left (fst (Scan r)) of
             IsFrozen \<Rightarrow> (Inr Frozen, s')
           | TimedOut \<Rightarrow> (Inl FreezeTimeout, s')
           | FrozenPanic \<Rightarrow> (Inl IndexOutOfRange, s')
           | NoFrozenLine \<Rightarrow>
               (case snd (Scan r) of Some e \<Rightarrow> (Inl (ScanErr e), s') | None \<Rightarrow> (Inr Undefined, s'))
           | AgainWith l \<Rightarrow>
               (case snd (Scan r) of Some e \<Rightarrow> (Inl (ScanErr e), s') | None \<Rightarrow> waitFrozen W dir l s')))"
  by pat_completeness auto
termination
  by (relation "measure (\<lambda>(W, dir, left, s). left)") (auto dest: frozenLines_left)

declare waitFrozen.simps [simp del]

text \<open>The first two bytes of cgroup.freeze; an empty file is the error of the read.\<close>

definition readFreezer :: "'k world \<Rightarrow> string \<Rightarrow> ('k, FreezerState) io" where
  "readFreezer W dir =
     ioThen (readFile W dir ''cgroup.freeze'') (\<lambda>content.
       if content = [] then ioErr (ReadErr ''EOF'')
       else if take 2 content = ''0'' @ [nl] then ioRet Thawed
       else if take 2 content = ''1'' @ [nl] then waitFrozen W dir maxIter
       else ioErr (UnknownFreeze (take 2 content)))"

definition setFreezer2 :: "'k world \<Rightarrow> 'k kernel2 \<Rightarrow> string \<Rightarrow> FreezerState \<Rightarrow> ('k, unit) io" where
  "setFreezer2 W K dir st =
     (let set = (\<lambda>stateStr s.
        case (if dir = [] then Some (NoDir ''cgroup.freeze'') else map_option SysErr (k2_openRW K dir ''cgroup.freeze'' s)) of
          Some e \<Rightarrow> if st \<noteq> Frozen then (Inr (), s) else (Inl (FreezerUnsupported e), s)
        | None \<Rightarrow>
            ioThen (writeFile W dir ''cgroup.freeze'' stateStr) (\<lambda>_.
              ioThen (readFreezer W dir) (\<lambda>actual.
                if actual \<noteq> st then ioErr (FreezerMismatch st actual) else ioRet ())) s)
      in case st of
           Undefined \<Rightarrow> ioRet ()
         | Frozen \<Rightarrow> set ''1''
         | Thawed \<Rightarrow> set ''0''
         | OtherState x \<Rightarrow> ioErr (BadFreezerState x))"

definition getFreezer :: "'k world \<Rightarrow> string \<Rightarrow> ('k, FreezerState) io" where
  "getFreezer W dir =
     ioCase (openRead W dir ''cgroup.freeze'')
       (\<lambda>e. if isErrno ENOENT e \<or> isErrno ENODEV e then ioRet Undefined else ioErr e)
       (\<lambda>_. readFreezer W dir)"

subsection \<open>memory, pids, cpu, cpuset, hugetlb\<close>

definition numToStr :: "int \<Rightarrow> string" where
  "numToStr value = (if value = 0 then [] else if value = -1 then ''max'' else Itoa value)"

text \<open>An empty number is not written.\<close>

definition writeNumber :: "'k world \<Rightarrow> string \<Rightarrow> string \<Rightarrow> string \<Rightarrow> ('k, unit) io" where
  "writeNumber W dir file val = ioWhen (val \<noteq> []) (writeFile W dir file val)"

definition setMemory2 :: "'k world \<Rightarrow> string \<Rightarrow> Resources \<Rightarrow> ('k, unit) io" where
  "setMemory2 W dir r =
     (if \<not> isMemorySet r then ioRet ()
      else (case ConvertMemorySwapToCgroupV2Value (rs_MemorySwap r) (rs_Memory r) of
              Inl e \<Rightarrow> ioErr (SwapConversionErr e)
            | Inr swap \<Rightarrow> ioSeq
                [writeNumber W dir ''memory.swap.max''
                   (if swap = 0 \<and> 0 < rs_MemorySwap r then ''0'' else numToStr swap),
                 writeNumber W dir ''memory.max'' (numToStr (rs_Memory r)),
                 writeNumber W dir ''memory.low'' (numToStr (rs_MemoryReservation r))]))"

definition setPids2 :: "'k world \<Rightarrow> string \<Rightarrow> Resources \<Rightarrow> ('k, unit) io" where
  "setPids2 W dir r = (if \<not> isPidsSet r then ioRet () else writeNumber W dir ''pids.max'' (numToStr (rs_PidsLimit r)))"

definition setCpu2 :: "'k world \<Rightarrow> string \<Rightarrow> Resources \<Rightarrow> ('k, unit) io" where
  "setCpu2 W dir r =
     (if \<not> isCpuSet r then ioRet ()
      else ioSeq
        [ioWhen (rs_CpuWeight r \<noteq> 0) (writeFile W dir ''cpu.weight'' (FormatUint (rs_CpuWeight r))),
         ioWhen (rs_CpuQuota r \<noteq> 0 \<or> rs_CpuPeriod r \<noteq> 0)
           (writeFile W dir ''cpu.max''
              ((if 0 < rs_CpuQuota r then Itoa (rs_CpuQuota r) else ''max'') @ '' '' @
               FormatUint (if rs_CpuPeriod r = 0 then 100000 else rs_CpuPeriod r)))])"

definition setCpuset2 :: "'k world \<Rightarrow> string \<Rightarrow> Resources \<Rightarrow> ('k, unit) io" where
  "setCpuset2 W dir r =
     (if \<not> isCpusetSet r then ioRet ()
      else ioSeq
        [ioWhen (rs_CpusetCpus r \<noteq> []) (writeFile W dir ''cpuset.cpus'' (rs_CpusetCpus r)),
         ioWhen (rs_CpusetMems r \<noteq> []) (writeFile W dir ''cpuset.mems'' (rs_CpusetMems r))])"

fun hugetlbLoop2 :: "'k world \<Rightarrow> string \<Rightarrow> bool \<Rightarrow> HugepageLimit list \<Rightarrow> ('k, unit) io" where
  "hugetlbLoop2 W dir skipRsvd [] = ioRet ()"
| "hugetlbLoop2 W dir skipRsvd (h # hs) =
     (let pre = ''hugetlb.'' @ hp_Pagesize h; val = FormatUint (hp_Limit h) in
      ioThen (writeFile W dir (pre @ ''.max'') val) (\<lambda>_.
        if skipRsvd then hugetlbLoop2 W dir skipRsvd hs
        else ioCase (writeFile W dir (pre @ ''.rsvd'' @ ''.max'') val)
               (\<lambda>e. if isErrno ENOENT e then hugetlbLoop2 W dir True hs else ioErr e)
               (\<lambda>_. hugetlbLoop2 W dir skipRsvd hs)))"

definition setHugeTlb2 :: "'k world \<Rightarrow> string \<Rightarrow> Resources \<Rightarrow> ('k, unit) io" where
  "setHugeTlb2 W dir r = (if \<not> isHugeTlbSet r then ioRet () else hugetlbLoop2 W dir False (rs_HugetlbLimit r))"

subsection \<open>io\<close>

text \<open>
  The buffer of 32 bytes the file is read into keeps its zero bytes; \<open>bytes.TrimSpace\<close> does not
  take them away. None: the file could not be opened.
\<close>

definition bfqBuffer :: "string \<Rightarrow> string" where
  "bfqBuffer content = take 32 content @ replicate (32 - length content) (CHR 0x00)"

definition bfqDeviceWeightSupported :: "string option \<Rightarrow> bool" where
  "bfqDeviceWeightSupported bfq =
     (case bfq of None \<Rightarrow> False | Some content \<Rightarrow> snd (ParseInt10 64 (TrimSpace (bfqBuffer content))) \<noteq> None)"

text \<open>Whether the BFQ file is there; errors other than a missing file end \<open>setIo\<close>.\<close>

definition openBfq :: "'k kernel2 \<Rightarrow> string \<Rightarrow> Resources \<Rightarrow> 'k \<Rightarrow> fs_error + bool" where
  "openBfq K dir r s =
     (if rs_BlkioWeight r = 0 \<and> rs_BlkioWeightDevice r = [] then Inr False
      else if dir = [] then Inl (NoDir ''io.bfq.weight'')
      else (case k2_openRW K dir ''io.bfq.weight'' s of
              None \<Rightarrow> Inr True
            | Some e \<Rightarrow> if e = ENOENT then Inr False else Inl (SysErr e)))"

definition setWeight :: "'k world \<Rightarrow> string \<Rightarrow> bool \<Rightarrow> u16 \<Rightarrow> ('k, unit) io" where
  "setWeight W dir bfq weight =
     ioWhen (weight \<noteq> 0)
       (if bfq then writeFile W dir ''io.bfq.weight'' (utoa (unat weight))
        else writeFile W dir ''io.weight'' (FormatUint (ConvertBlkIOToIOWeightValue weight)))"

definition setDeviceWeights :: "'k world \<Rightarrow> string \<Rightarrow> bool \<Rightarrow> WeightDevice list \<Rightarrow> ('k, unit) io" where
  "setDeviceWeights W dir bfq wds s =
     (if bfq then
        (case readAnyway W dir ''io.bfq.weight'' s of (content, s') \<Rightarrow>
           ioWhen (bfqDeviceWeightSupported (Some content))
             (ioEach (\<lambda>wd. ioCase (writeFile W dir ''io.bfq.weight'' (WeightString wd @ [nl]))
                              (\<lambda>e. ioErr (DeviceWeightErr (WeightString wd) e)) ioRet) wds) s')
      else (Inr (), s))"

definition throttle2 :: "'k world \<Rightarrow> string \<Rightarrow> string \<Rightarrow> ThrottleDevice list \<Rightarrow> ('k, unit) io" where
  "throttle2 W dir name tds = ioEach (\<lambda>td. writeFile W dir ''io.max'' (StringName td name)) tds"

definition setIo2 :: "'k world \<Rightarrow> 'k kernel2 \<Rightarrow> string \<Rightarrow> Resources \<Rightarrow> ('k, unit) io" where
  "setIo2 W K dir r s =
     (if \<not> isIoSet r then (Inr (), s)
      else (case openBfq K dir r s of
              Inl e \<Rightarrow> (Inl e, s)
            | Inr bfq \<Rightarrow> ioSeq
                [setWeight W dir bfq (rs_BlkioWeight r),
                 setDeviceWeights W dir bfq (rs_BlkioWeightDevice r),
                 throttle2 W dir ''rbps'' (rs_BlkioThrottleReadBpsDevice r),
                 throttle2 W dir ''wbps'' (rs_BlkioThrottleWriteBpsDevice r),
                 throttle2 W dir ''riops'' (rs_BlkioThrottleReadIOPSDevice r),
                 throttle2 W dir ''wiops'' (rs_BlkioThrottleWriteIOPSDevice r)] s))"

subsection \<open>devices\<close>

definition isRWM :: "Permissions \<Rightarrow> bool" where
  "isRWM perms \<longleftrightarrow> CHR ''r'' \<in> set perms \<and> CHR ''w'' \<in> set perms \<and> CHR ''m'' \<in> set perms"

definition canSkipEBPFError :: "bool \<Rightarrow> Resources \<Rightarrow> bool" where
  "canSkipEBPFError inUserNS r \<longleftrightarrow> inUserNS \<or> list_all (\<lambda>dev. r_Allow dev \<and> isRWM (r_Permissions dev)) (rs_Devices r)"

definition setDevices2 :: "'k kernel2 \<Rightarrow> string \<Rightarrow> Resources \<Rightarrow> ('k, unit) io" where
  "setDevices2 K dir r s =
     (if rs_SkipDevices r then (Inr (), s)
      else (case DeviceFilter (rs_Devices r) of
              Inl e \<Rightarrow> (Inl (FilterErr e), s)
            | Inr (prog, lic) \<Rightarrow>
                if \<not> k2_openDir K dir s then (Inl (NoDirFD dir), s)
                else (case k2_attach K prog lic dir s of
                        (None, s') \<Rightarrow> (Inr (), s')
                      | (Some e, s') \<Rightarrow>
                          if canSkipEBPFError (k2_inUserNS K) r then (Inr (), s') else (Inl (AttachErr e), s'))))"

subsection \<open>The manager\<close>

record manager2 =
  m2_config :: Cgroup
  m2_dirPath :: string
  m2_controllers :: "string list option"

definition NewManager2 :: "sys_error + reader \<Rightarrow> Cgroup \<Rightarrow> string \<Rightarrow> fs_error + manager2" where
  "NewManager2 own config dirPath =
     andThen (if dirPath = [] then defaultDirPath own config else Inr dirPath) (\<lambda>dir.
       Inr \<lparr>m2_config = config, m2_dirPath = dir, m2_controllers = None\<rparr>)"

definition getControllers :: "'k world \<Rightarrow> manager2 \<Rightarrow> ('k, manager2) io" where
  "getControllers W m =
     (if m2_controllers m \<noteq> None then ioRet m
      else ioCase (readFile W (m2_dirPath m) ''cgroup.controllers'')
             (\<lambda>e. if cg_Rootless (m2_config m) \<and> cg_Path (m2_config m) = [] then ioRet m else ioErr e)
             (\<lambda>data. ioRet (m\<lparr>m2_controllers := Some (Fields data)\<rparr>)))"

definition Apply2 :: "'k world \<Rightarrow> 'k kernel2 \<Rightarrow> manager2 \<Rightarrow> int \<Rightarrow> ('k, unit) io" where
  "Apply2 W K m pid =
     (let c = m2_config m in
      ioCase (CreateCgroupPath W K (m2_dirPath m) c)
        (\<lambda>err. if cg_Rootless c \<and> cg_Path c = []
               then ioCase (needAnyControllers W (cg_Resources c))
                      (\<lambda>_. ioErr (RootlessLimits err))
                      (\<lambda>blNeed. if \<not> blNeed then ioRet () else ioErr (RootlessLimits err))
               else ioErr err)
        (\<lambda>_. writeCgroupProc W (m2_dirPath m) pid))"

definition unifiedError :: "manager2 \<Rightarrow> string \<Rightarrow> fs_error \<Rightarrow> fs_error" where
  "unifiedError m k e =
     (if isErrno (OtherErrno ''EPERM'') e \<or> isErrno (OtherErrno ''EACCES'') e \<or> isErrno ENOENT e
      then (case SplitN (CHR ''.'') 2 k of
              [c, _] \<Rightarrow>
                if (case m2_controllers m of None \<Rightarrow> True | Some cs \<Rightarrow> c \<notin> set cs) \<and> c \<noteq> ''cgroup''
                then NoController k c else UnifiedWriteErr k e
            | _ \<Rightarrow> UnifiedFormErr k)
      else UnifiedWriteErr k e)"

definition setUnified :: "'k world \<Rightarrow> manager2 \<Rightarrow> (string \<times> string) list \<Rightarrow> ('k, unit) io" where
  "setUnified W m res =
     ioEach (\<lambda>(k, v). if CHR ''/'' \<in> set k then ioErr (UnifiedSlashErr k)
                      else ioCase (writeFile W (m2_dirPath m) k v) (\<lambda>e. ioErr (unifiedError m k e)) ioRet) res"

text \<open>The writes of \<open>Set\<close> in order, for a manager that knows its controllers.\<close>

definition setSteps :: "'k world \<Rightarrow> 'k kernel2 \<Rightarrow> manager2 \<Rightarrow> Resources \<Rightarrow> ('k, unit) io list" where
  "setSteps W K m r =
     (let dir = m2_dirPath m in
      [setPids2 W dir r, setMemory2 W dir r, setIo2 W K dir r, setCpu2 W dir r,
       (if cg_Rootless (m2_config m) then ioIgnore (setDevices2 K dir r) else setDevices2 K dir r),
       setCpuset2 W dir r, setHugeTlb2 W dir r, RdmaSet W dir r, setFreezer2 W K dir (rs_Freezer r),
       setUnified W m (case rs_Unified r of None \<Rightarrow> [] | Some u \<Rightarrow> k2_order K u)])"

definition Set2 :: "'k world \<Rightarrow> 'k kernel2 \<Rightarrow> manager2 \<Rightarrow> Resources option \<Rightarrow> ('k, manager2) io" where
  "Set2 W K m ro =
     (case ro of
        None \<Rightarrow> ioRet m
      | Some r \<Rightarrow>
          ioThen (getControllers W m) (\<lambda>m'.
            ioThen (ioSeq (setSteps W K m' r)) (\<lambda>_.
              ioRet (m'\<lparr>m2_config := (m2_config m')\<lparr>cg_Resources := Some r\<rparr>\<rparr>))))"

definition Freeze2 :: "'k world \<Rightarrow> 'k kernel2 \<Rightarrow> manager2 \<Rightarrow> FreezerState \<Rightarrow> ('k, manager2) io" where
  "Freeze2 W K m st =
     (case cg_Resources (m2_config m) of
        None \<Rightarrow> ioErr NotConfigured
      | Some r \<Rightarrow>
          ioThen (setFreezer2 W K (m2_dirPath m) st) (\<lambda>_.
            ioRet (m\<lparr>m2_config := (m2_config m)\<lparr>cg_Resources := Some (r\<lparr>rs_Freezer := st\<rparr>)\<rparr>\<rparr>)))"

definition OOMKillCount2 :: "'k world \<Rightarrow> manager2 \<Rightarrow> ('k, u64) io" where
  "OOMKillCount2 W m =
     ioCase (GetValueByKey W (m2_dirPath m) ''memory.events'' ''oom_kill'')
       (\<lambda>e. if cg_Rootless (m2_config m) \<and> isErrno ENOENT e then ioRet 0 else ioErr e) ioRet"

end
