(* ===== verification/Fs2Props.thy ===== *)
theory Fs2Props imports Fs2 ManagerV1Props begin

text \<open>
  What the cgroup v2 manager guarantees: a creation that fails leaves no directory behind, Set stays
  in the directory of the container, the two memory limits add up to the one asked for, and freezing
  is confirmed by the kernel.
\<close>

subsection \<open>Directories\<close>

text \<open>
  A kernel with a tree of directories, each given by the elements of its path: reading and writing
  files do not change the tree, a directory is made below one that is there, and only an empty
  directory can be removed.
\<close>

definition treeKernel :: "'k world \<Rightarrow> 'k kernel2 \<Rightarrow> ('k \<Rightarrow> string list set) \<Rightarrow> bool" where
  "treeKernel W K dirs \<longleftrightarrow>
     (\<forall>d f s. dirs (snd (w_open W d f s)) = dirs s) \<and>
     (\<forall>d f x s. dirs (snd (w_write W d f x s)) = dirs s) \<and>
     (\<forall>p s s'. w_mkdir W p s = (None, s') \<longrightarrow> elemsOf p \<notin> dirs s \<and> dirs s' = insert (elemsOf p) (dirs s)) \<and>
     (\<forall>p s s' e. w_mkdir W p s = (Some e, s') \<longrightarrow> dirs s' = dirs s \<and> (e = EEXIST \<longrightarrow> elemsOf p \<in> dirs s)) \<and>
     (\<forall>p s. dirs (k2_remove K p s) = (if \<exists>e. elemsOf p @ [e] \<in> dirs s then dirs s else dirs s - {elemsOf p}))"

definition isTree :: "string list set \<Rightarrow> bool" where
  "isTree ds \<longleftrightarrow> (\<forall>ws e. ws @ [e] \<in> ds \<longrightarrow> ws \<in> ds)"

lemma treeKernelD:
  assumes "treeKernel W K dirs"
  shows "dirs (snd (w_open W d f s)) = dirs s"
    and "dirs (snd (w_write W d f x s)) = dirs s"
    and "w_mkdir W p s = (None, s') \<Longrightarrow> elemsOf p \<notin> dirs s \<and> dirs s' = insert (elemsOf p) (dirs s)"
    and "w_mkdir W p s = (Some e, s') \<Longrightarrow> dirs s' = dirs s \<and> (e = EEXIST \<longrightarrow> elemsOf p \<in> dirs s)"
    and "dirs (k2_remove K p s) = (if \<exists>e. elemsOf p @ [e] \<in> dirs s then dirs s else dirs s - {elemsOf p})"
  using assms unfolding treeKernel_def by (elim conjE, iprover)+

lemma tree_keeps: "treeKernel W K dirs \<Longrightarrow> keeps W (\<lambda>s. dirs s = D) dir"
  unfolding keeps_def using treeKernelD(1,2) [of W K dirs] by simp

lemma tree_write: "treeKernel W K dirs \<Longrightarrow> dirs (snd (writeFile W dir f x s)) = dirs s"
  using stays_write [OF impI [OF tree_keeps [of W K dirs "dirs s" dir]], of f x]
  unfolding stays_def by blast

lemma tree_readAnyway:
  assumes t: "treeKernel W K dirs"
  shows "dirs (snd (readAnyway W dir f s)) = dirs s"
proof -
  have "dirs (snd (openRead W dir f s)) = dirs s"
    using stays_open [OF impI [OF tree_keeps [OF t, of "dirs s" dir]], of f]
    unfolding stays_def by blast
  then show ?thesis by (simp add: readAnyway_def case_prod_beta split: sum.split)
qed

lemma tree_enable:
  assumes t: "treeKernel W K dirs"
  shows "dirs (enableControllers W cur res s) = dirs s"
proof -
  have "dirs (fold (\<lambda>ctr u. snd (writeFile W cur ''cgroup.subtree_control'' ctr u)) cs u) = dirs u" for cs u
    by (induction cs arbitrary: u) (simp_all add: tree_write [OF t])
  moreover have "dirs (snd (writeFile W cur ''cgroup.subtree_control'' res s)) = dirs s" by (rule tree_write [OF t])
  ultimately show ?thesis by (simp add: enableControllers_def case_prod_beta split: sum.split)
qed

lemma tree_checkType:
  assumes t: "treeKernel W K dirs"
  shows "dirs (snd (checkType W ro cur s)) = dirs s"
  by (simp add: checkType_def Let_def case_prod_beta tree_readAnyway [OF t] tree_write [OF t] split: option.split)

lemma PathJoin_elem:
  assumes "\<forall>w \<in> set ws. elem_ok w" and "elem_ok e"
  shows "PathJoin (absPath ws) e = absPath (ws @ [e])"
  using Clean_below(1) [OF assms(1), of "[e]"] assms(2) by (simp add: PathJoin_abs)

text \<open>The directories below \<open>ws\<close> on the way along \<open>es\<close>.\<close>

fun wayDown :: "string list \<Rightarrow> string list \<Rightarrow> string list list" where
  "wayDown ws [] = []"
| "wayDown ws (e # es) = (ws @ [e]) # wayDown (ws @ [e]) es"

text \<open>The longest first.\<close>

abbreviation deepestFirst :: "string list list \<Rightarrow> bool" where
  "deepestFirst \<equiv> sorted_wrt (\<lambda>a b. strict_prefix b a)"

lemma createLoop_step:
  assumes t: "treeKernel W K dirs" and ws: "\<forall>w \<in> set ws. elem_ok w" and e: "elem_ok e"
    and run: "createLoop W ro res False (absPath ws) (e # es) created s = (r, created', s')"
    and d: "deepestFirst (map elemsOf created)" "\<forall>c \<in> set (map elemsOf created). prefix c ws"
    and D: "dirs s = D \<union> set (map elemsOf created)"
  obtains
    (stuck) n where "r = Some n" "created' = created" "dirs s' = dirs s"
  | (refused) n made where "r = Some n" "created' = made" "dirs s' = D \<union> set (map elemsOf made)"
      "deepestFirst (map elemsOf made)" "set (map elemsOf made) \<subseteq> (- D) \<union> set (map elemsOf created)"
  | (entered) made u where "createLoop W ro res False (absPath (ws @ [e])) es made u = (r, created', s')"
      "dirs u = D \<union> set (map elemsOf made)" "ws @ [e] \<in> dirs u" "dirs u \<subseteq> insert (ws @ [e]) (dirs s)" "dirs s \<subseteq> dirs u"
      "deepestFirst (map elemsOf made)" "\<forall>c \<in> set (map elemsOf made). prefix c (ws @ [e])"
      "set (map elemsOf made) \<subseteq> (- D) \<union> set (map elemsOf created)"
proof -
  let ?cur = "absPath (ws @ [e])"
  have cur: "PathJoin (absPath ws) e = ?cur" "elemsOf ?cur = ws @ [e]"
    using ws e by (simp_all add: PathJoin_elem elemsOf_absPath)
  obtain err s1 where mk: "w_mkdir W ?cur s = (err, s1)" by fastforce
  obtain chk s2 where ck: "checkType W ro ?cur s1 = (chk, s2)" by fastforce
  have s2: "dirs s2 = dirs s1" using tree_checkType [OF t, of ro ?cur s1] ck by simp
  show thesis
  proof (cases "err = None \<or> err = Some EEXIST")
    case False
    then have "r = Some (SysErr (the err))" "created' = created" "s' = s1"
      using run mk by (auto simp: cur(1) Let_def)
    moreover have "dirs s1 = dirs s" using treeKernelD(4) [OF t, of ?cur s "the err" s1] mk False by auto
    ultimately show thesis using stuck by simp
  next
    case True
    define made where "made = (if err = None then ?cur # created else created)"
    have new: "dirs s1 = D \<union> set (map elemsOf made)" "ws @ [e] \<in> dirs s1" "dirs s1 \<subseteq> insert (ws @ [e]) (dirs s)"
        "dirs s \<subseteq> dirs s1" "set (map elemsOf made) \<subseteq> (- D) \<union> set (map elemsOf created)"
      using True treeKernelD(3) [OF t, of ?cur s s1] treeKernelD(4) [OF t, of ?cur s EEXIST s1] mk cur(2) D
      by (auto simp: made_def)
    have ord: "deepestFirst (map elemsOf made)" "\<forall>c \<in> set (map elemsOf made). prefix c (ws @ [e])"
      using d cur(2) by (auto simp: made_def prefix_append strict_prefix_def)
    show thesis
    proof (cases chk)
      case (Some n)
      then have "r = Some n" "created' = made" "s' = s2"
        using run mk ck True by (auto simp: cur(1) Let_def made_def)
      then show thesis using refused s2 new ord by metis
    next
      case None
      define u where "u = (if es \<noteq> [] then enableControllers W ?cur res s2 else s2)"
      have "createLoop W ro res False ?cur es made u = (r, created', s')"
        using run mk ck True None by (auto simp: cur(1) Let_def made_def u_def)
      moreover have "dirs u = dirs s1" using s2 tree_enable [OF t] by (simp add: u_def)
      ultimately show thesis using entered new ord by metis
    qed
  qed
qed

lemma createLoop_dirs:
  assumes t: "treeKernel W K dirs"
  shows "\<lbrakk>\<forall>w \<in> set ws. elem_ok w; \<forall>w \<in> set es. elem_ok w;
      createLoop W ro res False (absPath ws) es created s = (r, created', s');
      deepestFirst (map elemsOf created); \<forall>c \<in> set (map elemsOf created). prefix c ws;
      dirs s = D \<union> set (map elemsOf created)\<rbrakk>
    \<Longrightarrow> dirs s' = D \<union> set (map elemsOf created') \<and> deepestFirst (map elemsOf created') \<and>
      set (map elemsOf created') \<subseteq> (- D) \<union> set (map elemsOf created) \<and>
      (r = None \<longrightarrow> dirs s' = dirs s \<union> set (wayDown ws es))"
proof (induction es arbitrary: ws created s)
  case Nil
  then show ?case by auto
next
  case (Cons e es)
  from Cons.prems(2) have ok: "elem_ok e" "\<forall>w \<in> set es. elem_ok w" by auto
  show ?case
  proof (cases rule: createLoop_step [OF t Cons.prems(1) ok(1) Cons.prems(3-6), case_names stuck refused entered])
    case stuck
    then show ?thesis using Cons.prems(4,6) by simp
  next
    case refused
    then show ?thesis by simp
  next
    case (entered made u)
    have "\<forall>w \<in> set (ws @ [e]). elem_ok w" using Cons.prems(1) ok(1) by simp
    from Cons.IH [OF this ok(2) entered(1,6,7,2)] have
      ih: "dirs s' = D \<union> set (map elemsOf created')" "deepestFirst (map elemsOf created')"
        "set (map elemsOf created') \<subseteq> (- D) \<union> set (map elemsOf made)"
        "r = None \<longrightarrow> dirs s' = dirs u \<union> set (wayDown (ws @ [e]) es)"
      by blast+
    have "dirs u = insert (ws @ [e]) (dirs s)" using entered(3-5) by blast
    moreover have "set (map elemsOf created') \<subseteq> (- D) \<union> set (map elemsOf created)" using ih(3) entered(8) by blast
    ultimately show ?thesis using ih by simp
  qed
qed

lemma removed_again:
  assumes t: "treeKernel W K dirs" and tree: "isTree D"
  shows "\<lbrakk>dirs s = D \<union> set (map elemsOf ps); deepestFirst (map elemsOf ps); set (map elemsOf ps) \<subseteq> - D\<rbrakk>
    \<Longrightarrow> dirs (fold (k2_remove K) ps s) = D"
proof (induction ps arbitrary: s)
  case Nil
  then show ?case by simp
next
  case (Cons p ps)
  have "elemsOf p @ [e] \<notin> dirs s" for e
  proof
    assume m: "elemsOf p @ [e] \<in> dirs s"
    have "elemsOf p @ [e] \<notin> D" using tree Cons.prems(3) by (auto simp: isTree_def)
    then obtain x where x: "x \<in> set ps" "elemsOf x = elemsOf p @ [e]" using m Cons.prems(1) by auto
    then have "strict_prefix (elemsOf x) (elemsOf p)" using Cons.prems(2) by auto
    then show False using x(2) by (auto dest: prefix_length_less)
  qed
  moreover have "elemsOf p \<notin> D \<union> set (map elemsOf ps)" using Cons.prems by auto
  ultimately have "dirs (k2_remove K p s) = D \<union> set (map elemsOf ps)"
    using treeKernelD(5) [OF t, of p s] Cons.prems(1) by auto
  then show ?case using Cons by simp
qed

abbreviation mountElems :: "string list" where "mountElems \<equiv> [''sys'', ''fs'', ''cgroup'']"

text \<open>C7. Creating the directory of a container, for every path below the mount point, all or nothing:
  when it succeeds, the directories on the way are there and no others have been made; when it fails,
  because a directory cannot be made or because the group is in a mode that the requested controllers
  cannot live with, the directories made before the failure are removed, the deepest first, and the
  tree is as it was. (Only a panic, for a group without resources in such a mode, leaves them.)\<close>

theorem create_path_all_or_nothing:
  assumes t: "treeKernel W K dirs" and tree: "isTree (dirs s)" and es: "\<forall>w \<in> set es. elem_ok w"
    and run: "CreateCgroupPath W K (absPath (mountElems @ es)) c s = (r, s')"
  shows "(r = Inr () \<longrightarrow> dirs s' = dirs s \<union> set (wayDown mountElems es)) \<and>
    (isl r \<and> r \<noteq> Inl NilResources \<longrightarrow> dirs s' = dirs s)"
proof -
  have pre: "HasPrefix (absPath (mountElems @ es)) UnifiedMountpoint"
    by (auto simp: HasPrefix_iff absPath_def UnifiedMountpoint_def Join_Cons)
  have ok: "\<forall>w \<in> set mountElems. elem_ok w" "\<forall>w \<in> set [''sys'', ''fs'']. elem_ok w" "elem_ok ''cgroup''"
    by (simp_all add: elem_ok_def)
  have sp: "drop 3 (Split (CHR ''/'') (absPath (mountElems @ es))) = ''cgroup'' # es"
    using es ok(1) Split_absPath [of "mountElems @ es"] by simp
  have join: "PathJoin ''/sys/fs'' ''cgroup'' = absPath mountElems"
    using PathJoin_elem [OF ok(2,3)] by (simp add: absPath_def)
  obtain content s1 where rd: "supportedControllers W s = (content, s1)" by fastforce
  have s1: "dirs s1 = dirs s"
    using stays_read [OF impI [OF tree_keeps [OF t, of "dirs s" UnifiedMountpoint]], of "''/cgroup.controllers''"] rd
    unfolding stays_def supportedControllers_def by (metis snd_conv)
  show ?thesis
  proof (cases content)
    case (Inl e)
    then show ?thesis using run pre rd s1 by (auto simp: CreateCgroupPath_def io_defs)
  next
    case (Inr x)
    define res where "res = ''+'' @ Join '' +'' (Fields x)"
    define u where "u = (if es \<noteq> [] then enableControllers W (absPath mountElems) res s1 else s1)"
    have u: "dirs u = dirs s" using s1 tree_enable [OF t] by (simp add: u_def)
    obtain ro created s2 where loop: "createLoop W (cg_Resources c) res False (absPath mountElems) es [] u = (ro, created, s2)"
      by (metis prod_cases3)
    have dirs: "dirs s2 = dirs s \<union> set (map elemsOf created)" "deepestFirst (map elemsOf created)"
        "set (map elemsOf created) \<subseteq> - dirs s" "ro = None \<longrightarrow> dirs s2 = dirs s \<union> set (wayDown mountElems es)"
      using createLoop_dirs [OF t ok(1) es loop, of "dirs s"] u by auto
    have first: "createLoop W (cg_Resources c) res True ''/sys/fs'' (''cgroup'' # es) [] s1 = (ro, created, s2)"
      using loop join by (simp add: u_def)
    have "(r, s') = (case ro of None \<Rightarrow> (Inr (), s2)
        | Some e \<Rightarrow> (Inl e, if e = NilResources then s2 else fold (k2_remove K) created s2))"
      unfolding run [symmetric] CreateCgroupPath_def sp using pre rd first Inr
      by (simp add: io_defs res_def del: createLoop.simps split: option.split)
    then show ?thesis using dirs removed_again [OF t tree dirs(1-3)] by (auto split: option.splits)
  qed
qed

text \<open>A small tree: no directory more than five levels deep.\<close>

definition treeWorld :: "string list list world" where
  "treeWorld =
     \<lparr>w_open = (\<lambda>_ _ s. (Inr \<lparr>rd_data = ''pids'', rd_err = None\<rparr>, s)), w_write = (\<lambda>_ _ _ s. (None, s)),
      w_openProcs = (\<lambda>_ _. None), w_mkdirAll = (\<lambda>_ s. (None, s)),
      w_mkdir = (\<lambda>p s. if elemsOf p \<in> set s then (Some EEXIST, s)
                       else if 5 < length (elemsOf p) then (Some (OtherErrno ''EAGAIN''), s)
                       else (None, elemsOf p # s)),
      w_exists = (\<lambda>_ _. True), w_statfs = (\<lambda>_ _. Inr True), w_rdmaOrder = (\<lambda>_. [])\<rparr>"

definition treeKernel2 :: "string list list kernel2" where
  "treeKernel2 =
     \<lparr>k2_openRW = (\<lambda>_ _ _. None),
      k2_remove = (\<lambda>p s. if list_ex (\<lambda>q. q \<noteq> [] \<and> butlast q = elemsOf p) s then s else removeAll (elemsOf p) s),
      k2_openDir = (\<lambda>_ _. True), k2_attach = (\<lambda>_ _ _ s. (None, s)), k2_inUserNS = False, k2_order = (\<lambda>_. [])\<rparr>"

lemma treeKernel_example: "treeKernel treeWorld treeKernel2 set"
proof -
  have "list_ex (\<lambda>q. q \<noteq> [] \<and> butlast q = ws) s \<longleftrightarrow> (\<exists>e. ws @ [e] \<in> set s)" for ws and s :: "string list list"
    by (auto simp: list_ex_iff) (metis append_butlast_last_id, metis butlast_snoc snoc_eq_iff_butlast)
  then show ?thesis by (auto simp: treeKernel_def treeWorld_def treeKernel2_def split: if_splits)
qed

definition plainCgroup :: Cgroup where
  "plainCgroup =
     \<lparr>cg_Name = [], cg_Parent = [], cg_Path = [], cg_ScopePrefix = [], cg_Resources = Some emptyResources,
      cg_Systemd = False, cg_SystemdProps = [], cg_Rootless = False, cg_OwnerUID = None\<rparr>"

abbreviation exampleTree :: "string list list" where
  "exampleTree \<equiv> [mountElems, [''sys'', ''fs''], [''sys''], []]"

theorem create_path_all_or_nothing_witness:
  "fst (CreateCgroupPath treeWorld treeKernel2 ''/sys/fs/cgroup/a/b/c'' plainCgroup exampleTree) =
     Inl (SysErr (OtherErrno ''EAGAIN'')) \<and>
   set (snd (CreateCgroupPath treeWorld treeKernel2 ''/sys/fs/cgroup/a/b/c'' plainCgroup exampleTree)) = set exampleTree"
proof -
  let ?run = "CreateCgroupPath treeWorld treeKernel2 ''/sys/fs/cgroup/a/b/c'' plainCgroup exampleTree"
  have path: "''/sys/fs/cgroup/a/b/c'' = absPath (mountElems @ [''a'', ''b'', ''c''])" by (simp add: absPath_def)
  have tree: "isTree (set exampleTree)" by (auto simp: isTree_def append_eq_Cons_conv)
  have es: "\<forall>w \<in> set [''a'', ''b'', ''c'']. elem_ok w" by (simp add: elem_ok_def)
  have e: "fst ?run = Inl (SysErr (OtherErrno ''EAGAIN''))" by code_simp
  have "?run = (fst ?run, snd ?run)" by simp
  from create_path_all_or_nothing [OF treeKernel_example tree es this [unfolded path], folded path] e
  show ?thesis by simp
qed

subsection \<open>Freezing\<close>

lemma frozen_prefix: "HasPrefix line ''frozen '' \<Longrightarrow> drop (length ''frozen '') line = CHR ''1'' # cs \<Longrightarrow> HasPrefix line ''frozen 1''"
  by (auto simp: HasPrefix_iff)

lemma frozenLines_IsFrozen: "frozenLines seen left ls = IsFrozen \<Longrightarrow> \<exists>line \<in> set ls. HasPrefix line ''frozen 1''"
proof (induction seen left ls rule: frozenLines.induct)
  case (2 seen left line ls)
  show ?case
  proof (cases "HasPrefix line ''frozen ''")
    case True
    then show ?thesis
      using 2 frozen_prefix [OF True] by (cases "drop (length ''frozen '') line") (auto split: if_splits)
  qed (use 2 in \<open>auto split: if_splits\<close>)
qed (simp split: if_splits)

lemma waitFrozen_confirmed:
  "waitFrozen W dir left s = (Inr st, s') \<Longrightarrow>
     st = Undefined \<or> st = Frozen \<and> (\<exists>t r. openRead W dir ''cgroup.events'' t = (Inr r, s') \<and>
       (\<exists>line \<in> set (fst (Scan r)). HasPrefix line ''frozen 1''))"
proof (induction W dir left s rule: waitFrozen.induct)
  case (1 W dir left s)
  obtain x u where op: "openRead W dir ''cgroup.events'' s = (x, u)" by fastforce
  show ?case
  proof (cases x)
    case (Inl e)
    then show ?thesis using 1(2) op by (simp add: waitFrozen.simps)
  next
    case (Inr r)
    show ?thesis
    proof (cases "frozenLines False left (fst (Scan r))")
      case IsFrozen
      then have "\<exists>line \<in> set (fst (Scan r)). HasPrefix line ''frozen 1''" by (rule frozenLines_IsFrozen)
      then show ?thesis using 1(2) op Inr IsFrozen by (auto simp: waitFrozen.simps)
    next
      case (AgainWith l)
      then show ?thesis using 1(2) op Inr 1(1) [OF op [symmetric] _ AgainWith]
        by (auto simp: waitFrozen.simps [of W dir left s] split: option.splits)
    qed (use 1(2) op Inr in \<open>auto simp: waitFrozen.simps split: option.splits\<close>)
  qed
qed

lemma readFreezer_confirmed:
  assumes "readFreezer W dir s = (Inr st, s')"
  shows "(st = Frozen \<longrightarrow> (\<exists>t r. openRead W dir ''cgroup.events'' t = (Inr r, s') \<and>
             (\<exists>line \<in> set (fst (Scan r)). HasPrefix line ''frozen 1''))) \<and>
         (st = Thawed \<longrightarrow> (\<exists>content. readFile W dir ''cgroup.freeze'' s = (Inr content, s') \<and> take 2 content = ''0'' @ [nl]))"
proof -
  obtain x u where rd: "readFile W dir ''cgroup.freeze'' s = (x, u)" by fastforce
  show ?thesis
  proof (cases x)
    case (Inr content)
    then show ?thesis
      using assms rd waitFrozen_confirmed [of W dir maxIter u st s']
      by (auto simp: readFreezer_def io_defs split: if_splits)
  qed (use assms rd in \<open>simp add: readFreezer_def io_defs\<close>)
qed


text \<open>A group that is frozen at the second look.\<close>

definition frozenWorld :: "nat world" where
  "frozenWorld =
     \<lparr>w_open = (\<lambda>_ f n.
        (Inr \<lparr>rd_data = (if f = ''cgroup.freeze'' then ''1'' @ [nl]
                      else unlines [''populated 1'', if n = 0 then ''frozen 0'' else ''frozen 1'']), rd_err = None\<rparr>,
         if f = ''cgroup.freeze'' then n else Suc n)),
      w_write = (\<lambda>_ _ _ s. (None, s)), w_openProcs = (\<lambda>_ _. None), w_mkdirAll = (\<lambda>_ s. (None, s)),
      w_mkdir = (\<lambda>_ s. (None, s)), w_exists = (\<lambda>_ _. True), w_statfs = (\<lambda>_ _. Inr True), w_rdmaOrder = (\<lambda>_. [])\<rparr>"

definition quietKernel2 :: "'k kernel2" where
  "quietKernel2 =
     \<lparr>k2_openRW = (\<lambda>_ _ _. None), k2_remove = (\<lambda>_ s. s), k2_openDir = (\<lambda>_ _. True),
      k2_attach = (\<lambda>_ _ _ s. (None, s)), k2_inUserNS = False, k2_order = (\<lambda>_. [])\<rparr>"


subsection \<open>Memory\<close>

text \<open>A directory whose files hold what was written last.\<close>

definition storing :: "'k world \<Rightarrow> string \<Rightarrow> ('k \<Rightarrow> string \<rightharpoonup> string) \<Rightarrow> bool" where
  "storing W dir content \<longleftrightarrow> dir \<noteq> [] \<and>
     (\<forall>f d s. \<exists>s'. w_write W dir f d s = (None, s') \<and> content s' = (content s)(f \<mapsto> d))"

text \<open>A limit as the kernel reads it; none is \<open>max\<close>.\<close>

definition asLimit :: "string \<Rightarrow> int option" where
  "asLimit t = (if t = ''max'' then None else Some (fst (Atoi t)))"

lemma storing_write:
  "storing W dir content \<Longrightarrow> \<exists>s'. writeFile W dir f d s = (Inr (), s') \<and> content s' = (content s)(f \<mapsto> d)"
  unfolding storing_def by (metis writeFile_ok)

lemma storing_number:
  assumes "storing W dir content"
  shows "\<exists>s'. writeNumber W dir f val s = (Inr (), s') \<and>
     content s' = (if val = [] then content s else (content s)(f \<mapsto> val))"
  using storing_write [OF assms, of f val s] by (cases "val = []") (auto simp: writeNumber_def io_defs)

lemma Itoa_not_max: "Itoa i \<noteq> ''max''"
  using Itoa_chars [of i] by auto

lemma asLimit_Itoa: "- (2 ^ 63) \<le> i \<Longrightarrow> i < 2 ^ 63 \<Longrightarrow> asLimit (Itoa i) = Some i"
  by (simp add: asLimit_def Itoa_not_max Atoi_Itoa)

lemma asLimit_max: "asLimit ''max'' = None"
  by (simp add: asLimit_def)

lemma asLimit_zero: "asLimit ''0'' = Some 0"
proof -
  have "Itoa 0 = ''0''" by (simp add: Itoa_def utoa.simps digit_char_def)
  then show ?thesis using asLimit_Itoa [of 0] by simp
qed

text \<open>C37. Memory limits of cgroup v2, where the kernel counts memory and swap apart: for a valid pair of a
  limit on memory and one on memory with swap, the files end up with the limit on memory and with the
  difference; no limit is written as "max", and a difference of zero is written as zero although zero
  elsewhere means that nothing is asked for. Other files keep their contents, the reservation apart.
  A limit on memory with swap that is given without one on memory, or is below it, is refused before
  anything is written.\<close>

theorem memory_v2_limits_set:
  assumes "storing W dir content"
  shows "(memory_request r v \<longrightarrow>
      (\<exists>s' a b. setMemory2 W dir r s = (Inr (), s') \<and>
        content s' ''memory.max'' = Some a \<and> asLimit a = (if rs_Memory r = -1 then None else Some (rs_Memory r)) \<and>
        content s' ''memory.swap.max'' = Some b \<and> asLimit b = (if v = -1 then None else Some (v - rs_Memory r)) \<and>
        (\<forall>f. f \<notin> {''memory.max'', ''memory.swap.max'', ''memory.low''} \<longrightarrow> content s' f = content s f))) \<and>
    (0 < rs_MemorySwap r \<and> (rs_Memory r \<le> 0 \<or> rs_MemorySwap r < rs_Memory r) \<longrightarrow>
      isl (fst (setMemory2 W dir r s)) \<and> snd (setMemory2 W dir r s) = s)"
proof (intro conjI impI)
  assume q: "memory_request r v"
  have set: "isMemorySet r" using q by (auto simp: isMemorySet_def memory_request_def)
  define swap where "swap = (if v = -1 then -1 else v - rs_Memory r)"
  have conv: "ConvertMemorySwapToCgroupV2Value (rs_MemorySwap r) (rs_Memory r) = Inr swap"
    using q by (auto simp: ConvertMemorySwapToCgroupV2Value_def memory_request_def swap_def)
  define b where "b = (if swap = 0 \<and> 0 < rs_MemorySwap r then ''0'' else numToStr swap)"
  have b: "b \<noteq> []" "asLimit b = (if v = -1 then None else Some (v - rs_Memory r))"
    using q asLimit_Itoa [of swap] asLimit_zero
    by (auto simp: b_def numToStr_def swap_def memory_request_def asLimit_max)
  have a: "numToStr (rs_Memory r) \<noteq> []"
      "asLimit (numToStr (rs_Memory r)) = (if rs_Memory r = -1 then None else Some (rs_Memory r))"
    using q asLimit_Itoa [of "rs_Memory r"] by (auto simp: numToStr_def memory_request_def asLimit_def)
  obtain s1 where s1: "writeNumber W dir ''memory.swap.max'' b s = (Inr (), s1)"
      "content s1 = (content s)(''memory.swap.max'' \<mapsto> b)"
    using storing_number [OF assms, of "''memory.swap.max''" b s] b(1) by auto
  obtain s2 where s2: "writeNumber W dir ''memory.max'' (numToStr (rs_Memory r)) s1 = (Inr (), s2)"
      "content s2 = (content s1)(''memory.max'' \<mapsto> numToStr (rs_Memory r))"
    using storing_number [OF assms, of "''memory.max''" "numToStr (rs_Memory r)" s1] a(1) by auto
  obtain s3 where s3: "writeNumber W dir ''memory.low'' (numToStr (rs_MemoryReservation r)) s2 = (Inr (), s3)"
      "content s3 = content s2 \<or> (\<exists>x. content s3 = (content s2)(''memory.low'' \<mapsto> x))"
    using storing_number [OF assms, of "''memory.low''" "numToStr (rs_MemoryReservation r)" s2] by metis
  have "setMemory2 W dir r s = (Inr (), s3)"
    using set conv s1(1) s2(1) s3(1) by (simp add: setMemory2_def io_steps ioRet_def b_def [symmetric])
  moreover have "content s3 ''memory.max'' = Some (numToStr (rs_Memory r))" "content s3 ''memory.swap.max'' = Some b"
      "\<forall>f. f \<notin> {''memory.max'', ''memory.swap.max'', ''memory.low''} \<longrightarrow> content s3 f = content s f"
    using s1(2) s2(2) s3(2) by auto
  ultimately show "\<exists>s' a b. setMemory2 W dir r s = (Inr (), s') \<and>
        content s' ''memory.max'' = Some a \<and> asLimit a = (if rs_Memory r = -1 then None else Some (rs_Memory r)) \<and>
        content s' ''memory.swap.max'' = Some b \<and> asLimit b = (if v = -1 then None else Some (v - rs_Memory r)) \<and>
        (\<forall>f. f \<notin> {''memory.max'', ''memory.swap.max'', ''memory.low''} \<longrightarrow> content s' f = content s f)"
    using a(2) b(2) by blast
next
  assume bad: "0 < rs_MemorySwap r \<and> (rs_Memory r \<le> 0 \<or> rs_MemorySwap r < rs_Memory r)"
  then have "isl (ConvertMemorySwapToCgroupV2Value (rs_MemorySwap r) (rs_Memory r))"
    by (auto simp: ConvertMemorySwapToCgroupV2Value_def)
  then obtain e where "ConvertMemorySwapToCgroupV2Value (rs_MemorySwap r) (rs_Memory r) = Inl e"
    by (auto simp: isl_def)
  then have "setMemory2 W dir r s = (Inl (SwapConversionErr e), s)"
    using bad by (simp add: setMemory2_def isMemorySet_def ioErr_def)
  then show "isl (fst (setMemory2 W dir r s))" "snd (setMemory2 W dir r s) = s" by simp_all
qed

definition fileWorld :: "(string \<rightharpoonup> string) world" where
  "fileWorld =
     \<lparr>w_open = (\<lambda>_ f m. (case m f of None \<Rightarrow> Inl ENOENT | Some t \<Rightarrow> Inr \<lparr>rd_data = t, rd_err = None\<rparr>, m)),
      w_write = (\<lambda>_ f d m. (None, m(f \<mapsto> d))), w_openProcs = (\<lambda>_ _. None), w_mkdirAll = (\<lambda>_ s. (None, s)),
      w_mkdir = (\<lambda>_ s. (None, s)), w_exists = (\<lambda>_ _. True), w_statfs = (\<lambda>_ _. Inr True), w_rdmaOrder = (\<lambda>_. [])\<rparr>"

lemma storing_example: "storing fileWorld ''/c'' id"
  by (simp add: storing_def fileWorld_def)

theorem memory_v2_limits_set_witness:
  "\<exists>s' b. setMemory2 fileWorld ''/c'' (emptyResources\<lparr>rs_Memory := 100, rs_MemorySwap := 100\<rparr>) Map.empty = (Inr (), s') \<and>
     s' ''memory.swap.max'' = Some b \<and> asLimit b = Some 0"
proof -
  let ?r = "emptyResources\<lparr>rs_Memory := 100, rs_MemorySwap := 100\<rparr>"
  have "memory_request ?r 100" by (simp add: memory_request_def emptyResources_def)
  with memory_v2_limits_set [OF storing_example, of ?r 100 Map.empty] show ?thesis
    by (auto simp: emptyResources_def)
qed

subsection \<open>BFQ\<close>

text \<open>
  The kernel's old answer, a single number, is meant to show that weights per device are not
  supported. With the zero bytes of the buffer behind it it is never read as a number, so every
  answer shorter than the buffer counts as support.
\<close>

lemma parseDigits_range: "parseDigits mx n ds = (m, Some ErrRange) \<Longrightarrow> m = mx"
  by (induction mx n ds rule: parseDigits.induct) (auto split: option.splits if_splits)

lemma splitSign_bad: "c \<in> set s \<Longrightarrow> c \<noteq> CHR ''+'' \<Longrightarrow> c \<noteq> CHR ''-'' \<Longrightarrow> c \<in> set (snd (splitSign s))"
  by (cases s) auto

lemma ParseInt10_not_digit:
  assumes "c \<in> set s" and "c \<noteq> CHR ''+''" and "c \<noteq> CHR ''-''" and "digit_val c = None"
  shows "snd (ParseInt10 64 s) \<noteq> None"
proof -
  obtain neg ds where sp: "splitSign s = (neg, ds)" by fastforce
  then have c: "c \<in> set ds" using splitSign_bad [OF assms(1-3)] by simp
  obtain un err where p: "ParseUint10 64 ds = (un, err)" by fastforce
  have ne: "s \<noteq> []" using assms(1) by auto
  show ?thesis
  proof (cases err)
    case None
    then have "\<forall>x \<in> set ds. digit_val x \<noteq> None"
      using p parseDigits_digits by (fastforce simp: ParseUint10_def split: if_splits)
    then show ?thesis using c assms(4) by blast
  next
    case (Some e)
    then show ?thesis
    proof (cases e)
      case ErrRange
      then have "un = 2 ^ 64 - 1" using p Some parseDigits_range by (fastforce simp: ParseUint10_def split: if_splits)
      then show ?thesis using ne sp p Some ErrRange by (simp add: ParseInt10_def)
    qed (use ne sp p Some in \<open>simp add: ParseInt10_def\<close>)
  qed
qed

lemma dropWhile_keeps: "x \<in> set xs \<Longrightarrow> \<not> P x \<Longrightarrow> x \<in> set (dropWhile P xs)"
  by (induction xs) auto

lemma TrimSpace_keeps: "c \<in> set s \<Longrightarrow> \<not> isSpace c \<Longrightarrow> c \<in> set (TrimSpace s)"
  by (simp add: TrimSpace_def dropWhile_keeps)

lemma bfq_supported_short: "length content < 32 \<Longrightarrow> bfqDeviceWeightSupported (Some content)"
proof -
  assume "length content < 32"
  then have "CHR 0x00 \<in> set (bfqBuffer content)" by (simp add: bfqBuffer_def)
  then have "CHR 0x00 \<in> set (TrimSpace (bfqBuffer content))" by (rule TrimSpace_keeps) code_simp
  then have "snd (ParseInt10 64 (TrimSpace (bfqBuffer content))) \<noteq> None"
    by (rule ParseInt10_not_digit) code_simp+
  then show ?thesis by (simp add: bfqDeviceWeightSupported_def)
qed

subsection \<open>Set stays in the directory\<close>

lemma stays_readAnyway: "dir \<noteq> [] \<longrightarrow> keeps W I dir \<Longrightarrow> I s \<Longrightarrow> I (snd (readAnyway W dir f s))"
  using stays_open [of dir W I f] by (simp add: readAnyway_def stays_def case_prod_beta split: sum.split)

lemma stays_number [stays_intros]: "dir \<noteq> [] \<longrightarrow> keeps W I dir \<Longrightarrow> stays I (writeNumber W dir f v)"
  unfolding writeNumber_def by (intro stays_intros)

lemma stays_hugetlb2: "dir \<noteq> [] \<longrightarrow> keeps W I dir \<Longrightarrow> stays I (hugetlbLoop2 W dir b hs)"
proof (induction hs arbitrary: b)
  case Nil
  then show ?case by (simp add: stays_intros)
next
  case (Cons h hs)
  then show ?case by (auto simp: Let_def intro!: stays_intros)
qed

interpretation mem2: subsystem_set setMemory2
  by unfold_locales (auto simp: setMemory2_def intro!: stays_intros)

interpretation pids2: subsystem_set setPids2
  by unfold_locales (auto simp: setPids2_def intro!: stays_intros)

interpretation cpu2: subsystem_set setCpu2
  by unfold_locales (auto simp: setCpu2_def intro!: stays_intros)

interpretation cpuset2: subsystem_set setCpuset2
  by unfold_locales (auto simp: setCpuset2_def intro!: stays_intros)

interpretation huge2: subsystem_set setHugeTlb2
  by unfold_locales (auto simp: setHugeTlb2_def stays_hugetlb2 intro!: stays_intros)

lemma stays_setIo2:
  assumes k: "dir \<noteq> [] \<longrightarrow> keeps W I dir"
  shows "stays I (setIo2 W K dir r)"
proof -
  have weights: "stays I (setDeviceWeights W dir bfq wds)" for bfq wds
  proof -
    have "stays I (ioWhen c (ioEach (\<lambda>wd. ioCase (writeFile W dir ''io.bfq.weight'' (WeightString wd @ [nl]))
        (\<lambda>e. ioErr (DeviceWeightErr (WeightString wd) e)) ioRet) wds))" for c
      using k by (auto intro!: stays_intros)
    moreover have "I (snd (readAnyway W dir ''io.bfq.weight'' s))" if "I s" for s using k that by (rule stays_readAnyway)
    ultimately show ?thesis by (simp add: stays_def setDeviceWeights_def case_prod_beta)
  qed
  have "stays I (ioSeq [setWeight W dir bfq (rs_BlkioWeight r), setDeviceWeights W dir bfq (rs_BlkioWeightDevice r),
     throttle2 W dir ''rbps'' (rs_BlkioThrottleReadBpsDevice r), throttle2 W dir ''wbps'' (rs_BlkioThrottleWriteBpsDevice r),
     throttle2 W dir ''riops'' (rs_BlkioThrottleReadIOPSDevice r), throttle2 W dir ''wiops'' (rs_BlkioThrottleWriteIOPSDevice r)])" for bfq
    using k weights by (auto simp: setWeight_def throttle2_def intro!: stays_intros)
  then show ?thesis unfolding stays_def setIo2_def by (auto split: sum.split)
qed

interpretation io2: subsystem_set "\<lambda>W. setIo2 W K"
  by unfold_locales (rule stays_setIo2)

lemma stays_waitFrozen:
  "dir \<noteq> [] \<longrightarrow> keeps W I dir \<Longrightarrow> I s \<Longrightarrow> I (snd (waitFrozen W dir left s))"
proof (induction W dir left s rule: waitFrozen.induct)
  case (1 W dir left s)
  obtain x u where op: "openRead W dir ''cgroup.events'' s = (x, u)" by fastforce
  then have u: "I u" using stays_open [OF 1(2), of "''cgroup.events''"] 1(3) unfolding stays_def by (metis snd_conv)
  show ?case
  proof (cases x)
    case (Inr r)
    then show ?thesis
    proof (cases "frozenLines False left (fst (Scan r))")
      case (AgainWith l)
      then show ?thesis using op u Inr 1(1) [OF op [symmetric] _ AgainWith] 1(2)
        by (auto simp: waitFrozen.simps [of W dir left s] split: option.splits)
    qed (use op u Inr in \<open>auto simp: waitFrozen.simps split: option.splits\<close>)
  qed (use op u in \<open>simp add: waitFrozen.simps\<close>)
qed

lemma stays_setFreezer2:
  assumes k: "dir \<noteq> [] \<longrightarrow> keeps W I dir"
  shows "stays I (setFreezer2 W K dir st)"
proof -
  have wait: "stays I (waitFrozen W dir n)" for n using stays_waitFrozen [OF k] by (simp add: stays_def)
  then have "stays I (readFreezer W dir)" using k unfolding readFreezer_def by (auto intro!: stays_intros)
  then have "stays I (ioThen (writeFile W dir ''cgroup.freeze'' x) (\<lambda>_. ioThen (readFreezer W dir) (\<lambda>actual.
          if actual \<noteq> st then ioErr (FreezerMismatch st actual) else ioRet ())))" for x
    using k by (auto intro!: stays_intros)
  then show ?thesis
    unfolding stays_def setFreezer2_def Let_def
    by (auto simp: ioRet_def ioErr_def split: FreezerState.split option.split)
qed

text \<open>
  The counterpart of \<open>manager_set_confined\<close>: a property of the state that does not depend on
  the files of the container's directory, nor on the filter attached to it, holds after Set.
\<close>

theorem unified_set_confined:
  assumes k: "m2_dirPath m \<noteq> [] \<longrightarrow> keeps W I (m2_dirPath m)"
    and a: "\<And>prog lic s. I s \<Longrightarrow> I (snd (k2_attach K prog lic (m2_dirPath m) s))" and "I s"
  shows "I (snd (Set2 W K m ro s))"
proof -
  let ?d = "m2_dirPath m"
  have dev: "stays I (setDevices2 K ?d r)" for r
    using a unfolding stays_def setDevices2_def
    by (auto split: sum.split prod.split option.split) (metis snd_conv)+
  have uni: "stays I (setUnified W n u)" if "m2_dirPath n = ?d" for n u
    using k that unfolding setUnified_def by (auto intro!: stays_intros split: prod.split)
  have rdma: "stays I (RdmaSet W ?d r)" for r using k by (rule rdma.confined)
  have steps: "stays I (ioSeq (setSteps W K n r))" if "m2_dirPath n = ?d" for n r
    using that dev uni [OF that] rdma stays_setFreezer2 [OF k]
      mem2.confined [OF k] pids2.confined [OF k] cpu2.confined [OF k] cpuset2.confined [OF k]
      huge2.confined [OF k] io2.confined [OF k]
    by (intro stays_seq) (auto simp: setSteps_def Let_def stays_ignore)
  show ?thesis
  proof (cases ro)
    case (Some r)
    obtain x u where g: "getControllers W m s = (x, u)" by fastforce
    have "stays I (getControllers W m)" using k unfolding getControllers_def by (auto intro!: stays_intros)
    then have u: "I u" using assms(3) g unfolding stays_def by (metis snd_conv)
    show ?thesis
    proof (cases x)
      case (Inl e)
      then show ?thesis using Some g u by (simp add: Set2_def io_defs)
    next
      case (Inr n)
      then have "m2_dirPath n = ?d" using g
        by (auto simp: getControllers_def io_defs split: if_splits prod.splits sum.splits)
      then have "stays I (ioThen (ioSeq (setSteps W K n r)) (\<lambda>_.
          ioRet (n\<lparr>m2_config := (m2_config n)\<lparr>cg_Resources := Some r\<rparr>\<rparr>)))"
        using steps by (intro stays_then stays_ret)
      then show ?thesis using Some g Inr u by (simp add: Set2_def ioThen_Inr [where m = "getControllers W m"] stays_def)
    qed
  qed (use assms(3) in \<open>simp add: Set2_def ioRet_def\<close>)
qed

end
