(* ===== verification/Fs2Stats.thy ===== *)
theory Fs2Stats imports FsStats Fs2 begin

text \<open>
  The statistics of cgroup v2 (\<open>stat...\<close> in cgroups/fs2/ and \<open>manager.GetStats\<close>). The functions
  fill one record as they read, and what they have filled stays when they fail later: the state of an
  action is the kernel together with the statistics.
\<close>

subsection \<open>Filling the statistics\<close>

definition onKernel :: "('k, 'a) io \<Rightarrow> ('k \<times> Stats, 'a) io" where
  "onKernel m ks = (case m (fst ks) of (r, k) \<Rightarrow> (r, (k, snd ks)))"

definition fill :: "(Stats \<Rightarrow> Stats) \<Rightarrow> ('k \<times> Stats, unit) io" where
  "fill f ks = (Inr (), (fst ks, f (snd ks)))"

text \<open>A file whose lines fill the statistics; the scanner's error comes after the lines.\<close>

definition fillLines :: "(string \<Rightarrow> fs_error + (Stats \<Rightarrow> Stats)) \<Rightarrow> string \<Rightarrow> string \<Rightarrow> reader \<Rightarrow> ('k \<times> Stats, unit) io" where
  "fillLines f path file r =
     (case Scan r of (ls, serr) \<Rightarrow>
        ioThen (ioEach (\<lambda>line. case f line of Inl e \<Rightarrow> ioErr e | Inr g \<Rightarrow> fill g) ls) (\<lambda>_.
          case serr of Some e \<Rightarrow> ioErr (ParseErr path file (ScanErr e)) | None \<Rightarrow> ioRet ()))"

definition noMemory :: "(string \<rightharpoonup> u64) \<Rightarrow> MemoryStats" where
  "noMemory m =
     \<lparr>ms_Stats = m, ms_Cache = 0, ms_Usage = emptyMemoryData, ms_SwapUsage = emptyMemoryData,
      ms_SwapOnlyUsage = emptyMemoryData, ms_KernelUsage = emptyMemoryData, ms_KernelTCPUsage = emptyMemoryData,
      ms_UseHierarchy = False, ms_PageUsageByNUMA = emptyNUMA\<rparr>"

text \<open>The memory statistics of the record; before the first is written they are the zero value.\<close>

definition memoryOf :: "Stats \<Rightarrow> MemoryStats" where
  "memoryOf st = (case sx_Memory st of None \<Rightarrow> noMemory (sx_MemoryMap st) | Some m \<Rightarrow> m)"

definition fillMemory :: "(MemoryStats \<Rightarrow> MemoryStats) \<Rightarrow> Stats \<Rightarrow> Stats" where
  "fillMemory f st = st\<lparr>sx_Memory := Some (f (memoryOf st))\<rparr>"

subsection \<open>pids\<close>

definition statPidsFromCgroupProcs :: "'k world \<Rightarrow> string \<Rightarrow> ('k \<times> Stats, unit) io" where
  "statPidsFromCgroupProcs W dir =
     ioThen (ioCase (onKernel (readFile W dir ''cgroup.procs''))
               (\<lambda>e. if isErrno (OtherErrno ''ENOTSUP'') e then onKernel (readFile W dir ''cgroup.threads'') else ioErr e)
               ioRet)
       (\<lambda>contents. fill (\<lambda>st. st\<lparr>sx_Pids := (word_of_nat (count_list contents nl), 0)\<rparr>))"

definition statPids :: "'k world \<Rightarrow> string \<Rightarrow> ('k \<times> Stats, unit) io" where
  "statPids W dir =
     ioCase (onKernel (GetCgroupParamUint W dir ''pids.current''))
       (\<lambda>e. if isErrno ENOENT e then statPidsFromCgroupProcs W dir else ioErr e)
       (\<lambda>current.
          ioThen (onKernel (GetCgroupParamUint W dir ''pids.max'')) (\<lambda>mx.
            fill (\<lambda>st. st\<lparr>sx_Pids := (current, if mx = - 1 then 0 else mx)\<rparr>)))"

subsection \<open>memory\<close>

definition getMemoryDataV2 :: "'k world \<Rightarrow> string \<Rightarrow> string \<Rightarrow> ('k, MemoryData) io" where
  "getMemoryDataV2 W path name =
     (let moduleName = (if name \<noteq> [] then ''memory.'' @ name else ''memory'') in
      ioCase (GetCgroupParamUint W path (moduleName @ ''.current''))
        (\<lambda>e. if name \<noteq> [] \<and> isErrno ENOENT e then ioRet emptyMemoryData else ioErr e)
        (\<lambda>usage.
           ioThen (GetCgroupParamUint W path (moduleName @ ''.max'')) (\<lambda>lim.
           ioThen (missingIs 0 (GetCgroupParamUint W path (moduleName @ ''.peak''))) (\<lambda>mx.
             ioRet \<lparr>md_Usage = usage, md_MaxUsage = mx, md_Failcnt = 0, md_Limit = lim\<rparr>))))"

text \<open>
  The loop over /proc/meminfo: it stops at the second of the two fields it knows; the flag says
  whether it did, the numbers are free and total swap.
\<close>

fun meminfoLoop :: "nat \<Rightarrow> u64 \<times> u64 \<Rightarrow> string list \<Rightarrow> fs_error + bool \<times> u64 \<times> u64" where
  "meminfoLoop found acc [] = Inr (False, acc)"
| "meminfoLoop found acc (line # ls) =
     (case SplitN (CHR '':'') 3 line of
        [k, v] \<Rightarrow>
          if k \<noteq> ''SwapFree'' \<and> k \<noteq> ''SwapTotal'' then meminfoLoop found acc ls
          else (case ParseUint10 64 (TrimSpace (TrimSuffix v '' kB'')) of
                  (_, Some _) \<Rightarrow> Inl (ParseErr [] ''/proc/meminfo'' (BadMeminfo k))
                | (n, None) \<Rightarrow>
                    (let acc' = (if k = ''SwapFree'' then (word_of_nat n, snd acc) else (fst acc, word_of_nat n)) in
                     if Suc found = 2 then Inr (True, acc') else meminfoLoop (Suc found) acc' ls))
      | _ \<Rightarrow> meminfoLoop found acc ls)"

definition swapFromMeminfo :: "reader \<Rightarrow> fs_error + u64 \<times> u64" where
  "swapFromMeminfo r =
     (case Scan r of (ls, serr) \<Rightarrow>
        andThen (meminfoLoop 0 (0, 0) ls) (\<lambda>(stopped, acc).
          case serr of
            Some e \<Rightarrow> if stopped then Inr acc else Inl (ParseErr [] ''/proc/meminfo'' (ScanErr e))
          | None \<Rightarrow> Inr acc))"

definition statOr0 :: "MemoryStats \<Rightarrow> string \<Rightarrow> u64" where
  "statOr0 m k = (case ms_Stats m k of None \<Rightarrow> 0 | Some v \<Rightarrow> v)"

text \<open>All sums and products are taken modulo 2^64.\<close>

definition rootMemory :: "u64 \<times> u64 \<Rightarrow> MemoryStats \<Rightarrow> MemoryStats" where
  "rootMemory swap m =
     (let usage = statOr0 m ''anon'' + statOr0 m ''file'' in
      m\<lparr>ms_Usage := (ms_Usage m)\<lparr>md_Usage := usage, md_Limit := - 1\<rparr>,
        ms_SwapUsage := (ms_SwapUsage m)\<lparr>md_Usage := (snd swap - fst swap) * 1024 + usage, md_Limit := - 1\<rparr>\<rparr>)"

definition rootStatsFromMeminfo :: "'k world \<Rightarrow> ('k \<times> Stats, unit) io" where
  "rootStatsFromMeminfo W =
     ioThen (onKernel (openRead W ''/proc'' ''meminfo'')) (\<lambda>r.
     ioThen (ioLift (swapFromMeminfo r)) (\<lambda>swap. fill (fillMemory (rootMemory swap))))"

text \<open>The combined figures of version 1: memory and swap together.\<close>

definition combinedSwap :: "MemoryData \<Rightarrow> MemoryData \<Rightarrow> MemoryData" where
  "combinedSwap mem swap =
     swap\<lparr>md_Usage := md_Usage swap + md_Usage mem,
          md_Limit := (if md_Limit swap \<noteq> - 1 then md_Limit swap + md_Limit mem else - 1),
          md_MaxUsage := 0\<rparr>"

definition memoryLine2 :: "string \<Rightarrow> string \<Rightarrow> fs_error + (Stats \<Rightarrow> Stats)" where
  "memoryLine2 dir line =
     (case ParseKeyValue line of
        Inl e \<Rightarrow> Inl (ParseErr dir ''memory.stat'' e)
      | Inr (t, v) \<Rightarrow> Inr (fillMemory (\<lambda>m. m\<lparr>ms_Stats := (ms_Stats m)(t \<mapsto> v)\<rparr>)))"

definition statMemory :: "'k world \<Rightarrow> string \<Rightarrow> ('k \<times> Stats, unit) io" where
  "statMemory W dir =
     ioThen (onKernel (openRead W dir ''memory.stat'')) (\<lambda>r.
     ioThen (fillLines (memoryLine2 dir) dir ''memory.stat'' r) (\<lambda>_.
     ioThen (fill (fillMemory (\<lambda>m. m\<lparr>ms_Cache := statOr0 m ''file'', ms_UseHierarchy := True\<rparr>))) (\<lambda>_.
     ioCase (onKernel (getMemoryDataV2 W dir []))
       (\<lambda>e. if isErrno ENOENT e \<and> dir = UnifiedMountpoint then rootStatsFromMeminfo W else ioErr e)
       (\<lambda>mem.
          ioThen (fill (fillMemory (\<lambda>m. m\<lparr>ms_Usage := mem\<rparr>))) (\<lambda>_.
          ioThen (onKernel (getMemoryDataV2 W dir ''swap'')) (\<lambda>swap.
            fill (fillMemory (\<lambda>m. m\<lparr>ms_SwapOnlyUsage := swap, ms_SwapUsage := combinedSwap mem swap\<rparr>))))))))"

subsection \<open>io\<close>

text \<open>A line of fields becomes an entry of a map; of two lines with the same first field the later counts.\<close>

definition mapFileLine :: "string \<Rightarrow> (string \<rightharpoonup> string list) \<Rightarrow> (string \<rightharpoonup> string list)" where
  "mapFileLine line m = (case Fields line of k # v # vs \<Rightarrow> m(k \<mapsto> v # vs) | _ \<Rightarrow> m)"

definition readCgroup2MapFile :: "'k world \<Rightarrow> string \<Rightarrow> string \<Rightarrow> ('k, string \<rightharpoonup> string list) io" where
  "readCgroup2MapFile W dir file =
     ioThen (openRead W dir file) (\<lambda>r.
       case Scan r of (ls, serr) \<Rightarrow>
         (case serr of Some e \<Rightarrow> ioErr (ParseErr dir file (ScanErr e)) | None \<Rightarrow> ioRet (fold mapFileLine ls Map.empty)))"

definition ioTable :: "string \<Rightarrow> (string \<times> blkioField) option" where
  "ioTable opn = map_of
     [(''rbytes'', (''Read'', IoServiceBytes)), (''wbytes'', (''Write'', IoServiceBytes)),
      (''rios'', (''Read'', IoServiced)), (''wios'', (''Write'', IoServiced))] opn"

definition ioItem :: "string \<Rightarrow> u64 \<Rightarrow> u64 \<Rightarrow> string \<Rightarrow> BlkioStats \<Rightarrow> fs_error + BlkioStats" where
  "ioItem dir mj mn item st =
     (case Split (CHR ''='') item of
        [k, v] \<Rightarrow>
          (case ioTable k of
             None \<Rightarrow> Inr st
           | Some (opn, table) \<Rightarrow>
               andThen (parseNumber64 dir ''io.stat'' v) (\<lambda>value.
                 Inr (st(table := st table @ [\<lparr>be_Major = mj, be_Minor = mn, be_Op = opn, be_Value = value\<rparr>]))))
      | _ \<Rightarrow> Inr st)"

definition ioDevice :: "string \<Rightarrow> string \<times> string list \<Rightarrow> BlkioStats \<Rightarrow> fs_error + BlkioStats" where
  "ioDevice dir kv st =
     (case Split (CHR '':'') (fst kv) of
        [a, b] \<Rightarrow>
          andThen (parseNumber64 dir ''io.stat'' a) (\<lambda>mj.
          andThen (parseNumber64 dir ''io.stat'' b) (\<lambda>mn. foldRes (ioItem dir mj mn) (snd kv) st))
      | _ \<Rightarrow> Inr st)"

text \<open>\<open>order\<close> is a map in the order it is iterated.\<close>

definition statIo ::
  "((string \<rightharpoonup> string list) \<Rightarrow> (string \<times> string list) list) \<Rightarrow> 'k world \<Rightarrow> string \<Rightarrow> ('k \<times> Stats, unit) io" where
  "statIo order W dir =
     ioThen (onKernel (readCgroup2MapFile W dir ''io.stat'')) (\<lambda>values.
     ioThen (ioLift (foldRes (ioDevice dir) (order values) (\<lambda>_. []))) (\<lambda>parsed.
       fill (\<lambda>st. st\<lparr>sx_Blkio := parsed\<rparr>)))"

subsection \<open>cpu and hugetlb\<close>

text \<open>Microseconds to nanoseconds, modulo 2^64.\<close>

definition cpuLine2 :: "string \<Rightarrow> string \<Rightarrow> fs_error + (Stats \<Rightarrow> Stats)" where
  "cpuLine2 dir line =
     (case ParseKeyValue line of
        Inl e \<Rightarrow> Inl (ParseErr dir ''cpu.stat'' e)
      | Inr (t, v) \<Rightarrow> Inr (\<lambda>st.
          if t = ''usage_usec'' then st\<lparr>sx_CpuUsage := (sx_CpuUsage st)\<lparr>cu_TotalUsage := v * 1000\<rparr>\<rparr>
          else if t = ''user_usec'' then st\<lparr>sx_CpuUsage := (sx_CpuUsage st)\<lparr>cu_UsageInUsermode := v * 1000\<rparr>\<rparr>
          else if t = ''system_usec'' then st\<lparr>sx_CpuUsage := (sx_CpuUsage st)\<lparr>cu_UsageInKernelmode := v * 1000\<rparr>\<rparr>
          else if t = ''nr_periods'' then st\<lparr>sx_Throttling := (sx_Throttling st)\<lparr>th_Periods := v\<rparr>\<rparr>
          else if t = ''nr_throttled'' then st\<lparr>sx_Throttling := (sx_Throttling st)\<lparr>th_ThrottledPeriods := v\<rparr>\<rparr>
          else if t = ''throttled_usec'' then st\<lparr>sx_Throttling := (sx_Throttling st)\<lparr>th_ThrottledTime := v * 1000\<rparr>\<rparr>
          else st))"

definition statCpu :: "'k world \<Rightarrow> string \<Rightarrow> ('k \<times> Stats, unit) io" where
  "statCpu W dir =
     ioThen (onKernel (openRead W dir ''cpu.stat'')) (fillLines (cpuLine2 dir) dir ''cpu.stat'')"

text \<open>As in version 1, the reservation files are given up at the first one missing.\<close>

fun statHugeTlbLoop :: "'k world \<Rightarrow> string \<Rightarrow> bool \<Rightarrow> string list \<Rightarrow> ('k \<times> Stats, unit) io" where
  "statHugeTlbLoop W dir rsvd [] = ioRet ()"
| "statHugeTlbLoop W dir rsvd (pagesize # ps) =
     (let plain = ''hugetlb.'' @ pagesize;
          finish = (\<lambda>again usage.
            ioThen (onKernel (GetValueByKey W dir ((if again then plain @ ''.rsvd'' else plain) @ ''.events'') ''max'')) (\<lambda>fc.
            ioThen (fill (\<lambda>st. st\<lparr>sx_Hugetlb := (sx_Hugetlb st)
                      (pagesize \<mapsto> \<lparr>hs_Usage = usage, hs_MaxUsage = 0, hs_Failcnt = fc\<rparr>)\<rparr>)) (\<lambda>_.
              statHugeTlbLoop W dir again ps)))
      in ioCase (onKernel (GetCgroupParamUint W dir ((if rsvd then plain @ ''.rsvd'' else plain) @ ''.current'')))
           (\<lambda>e. if rsvd \<and> isErrno ENOENT e
                then ioThen (onKernel (GetCgroupParamUint W dir (plain @ ''.current''))) (finish False)
                else ioErr e)
           (finish rsvd))"

definition statHugeTlb :: "'k world \<Rightarrow> string list \<Rightarrow> string \<Rightarrow> ('k \<times> Stats, unit) io" where
  "statHugeTlb W pageSizes dir = statHugeTlbLoop W dir True pageSizes"

definition statRdma :: "'k world \<Rightarrow> string \<Rightarrow> ('k \<times> Stats, unit) io" where
  "statRdma W dir =
     ioThen (onKernel (RdmaGetStats W dir)) (\<lambda>found.
       case found of None \<Rightarrow> ioRet () | Some x \<Rightarrow> fill (\<lambda>st. st\<lparr>sx_Rdma := Some x\<rparr>))"

subsection \<open>All of them\<close>

text \<open>Each part is run whatever became of the others; the errors are collected. \<open>strict\<close> parts report a
  missing file too.\<close>

fun collect :: "(bool \<times> ('s, unit) io) list \<Rightarrow> fs_error list \<Rightarrow> 's \<Rightarrow> fs_error list \<times> 's" where
  "collect [] errs s = (errs, s)"
| "collect ((strict, m) # ms) errs s =
     (case m s of
        (Inr _, s') \<Rightarrow> collect ms errs s'
      | (Inl e, s') \<Rightarrow> collect ms (if strict \<or> \<not> isErrno ENOENT e then errs @ [e] else errs) s')"

definition statParts ::
  "((string \<rightharpoonup> string list) \<Rightarrow> (string \<times> string list) list) \<Rightarrow> 'k world \<Rightarrow> string list \<Rightarrow> string \<Rightarrow> (bool \<times> ('k \<times> Stats, unit) io) list" where
  "statParts order W pageSizes dir =
     [(True, statPids W dir), (False, statMemory W dir), (False, statIo order W dir), (False, statCpu W dir),
      (False, statHugeTlb W pageSizes dir), (False, statRdma W dir)]"

text \<open>The statistics come with the error, if there is one.\<close>

definition GetStats2 ::
  "((string \<rightharpoonup> string list) \<Rightarrow> (string \<times> string list) list) \<Rightarrow> 'k world \<Rightarrow> string list \<Rightarrow> manager2 \<Rightarrow> 'k \<Rightarrow>
     (Stats \<times> fs_error option) \<times> 'k" where
  "GetStats2 order W pageSizes m k =
     (case collect (statParts order W pageSizes (m2_dirPath m)) [] (k, NewStats) of
        (errs, k', st) \<Rightarrow>
          ((st, if errs \<noteq> [] \<and> \<not> cg_Rootless (m2_config m) then Some (StatErrors errs) else None), k'))"

end
