(* ===== verification/SystemdV2.thy ===== *)
theory SystemdV2 imports SystemdV1 Fs2 begin

text \<open>
  The systemd manager of cgroup v2 (cgroups/systemd/v2.go), finding the user's bus (user.go) and the
  choice of a manager (cgroups/manager/new.go). The manager starts a unit over the bus of
  \<open>SystemdV1\<close> and leaves the files to the manager of \<open>Fs2\<close>.
\<close>

subsection \<open>What it asks of its surroundings\<close>

record 'k sd2 =
  u_managerCG :: "'k \<Rightarrow> bus_error + string"              \<comment> \<open>\<open>getManagerProperty("ControlGroup")\<close>\<close>
  u_SecureJoin :: "string \<Rightarrow> string \<Rightarrow> sys_error + string"
  u_chown :: "string \<Rightarrow> int \<Rightarrow> 'k \<Rightarrow> sys_error option \<times> 'k"   \<comment> \<open>the group is left as it is\<close>

subsection \<open>Path and creation\<close>

record unified =
  um_cgroups :: Cgroup
  um_path :: string
  um_fsMgr :: manager2

definition defaultSlice :: "Cgroup \<Rightarrow> string" where
  "defaultSlice c = (if cg_Rootless c then ''user.slice'' else ''system.slice'')"

text \<open>A rootless container is below the group of the user's own systemd.\<close>

definition getSliceFull :: "'k sd2 \<Rightarrow> Cgroup \<Rightarrow> 'k \<Rightarrow> sd_error + string" where
  "getSliceFull U c s =
     andThen (if cg_Parent c \<noteq> [] then ExpandSlice (cg_Parent c) else Inr (defaultSlice c)) (\<lambda>sl.
       if cg_Rootless c
       then (case u_managerCG U s of Inl e \<Rightarrow> Inl (BusFailed e) | Inr managerCG \<Rightarrow> Inr (PathJoin managerCG sl))
       else Inr sl)"

definition initPath :: "'k sd2 \<Rightarrow> Cgroup \<Rightarrow> string \<Rightarrow> 'k \<Rightarrow> sd_error + string" where
  "initPath U c path s =
     (if path \<noteq> [] then Inr path
      else andThen (getSliceFull U c s) (\<lambda>sliceFull.
             case u_SecureJoin U UnifiedMountpoint (PathJoin sliceFull (getUnitName c)) of
               Inl e \<Rightarrow> Inl (FileErr (SysErr e))
             | Inr p \<Rightarrow> Inr p))"

definition NewUnifiedManager :: "'k sd2 \<Rightarrow> sys_error + reader \<Rightarrow> Cgroup \<Rightarrow> string \<Rightarrow> 'k \<Rightarrow> sd_error + unified" where
  "NewUnifiedManager U own c path s =
     andThen (initPath U c path s) (\<lambda>p.
       case NewManager2 own c p of
         Inl e \<Rightarrow> Inl (FileErr e)
       | Inr f \<Rightarrow> Inr \<lparr>um_cgroups = c, um_path = p, um_fsMgr = f\<rparr>)"

subsection \<open>Apply\<close>

text \<open>The files the kernel wants to be given to the owner of a delegated group.\<close>

definition cgroupFilesToChown :: "'k world \<Rightarrow> 'k \<Rightarrow> (sd_error + string list) \<times> 'k" where
  "cgroupFilesToChown W s =
     (case openRead W ''/sys/kernel/cgroup'' ''delegate'' s of
        (Inl _, s') \<Rightarrow> (Inr [''cgroup.procs'', ''cgroup.subtree_control'', ''cgroup.threads''], s')
      | (Inr r, s') \<Rightarrow>
          (case Scan r of (ls, Some e) \<Rightarrow> (Inl (FileErr (ScanErr e)), s') | (ls, None) \<Rightarrow> (Inr ls, s')))"

text \<open>A file that is not there is passed over.\<close>

fun chownFiles :: "'k sd2 \<Rightarrow> string \<Rightarrow> int \<Rightarrow> string list \<Rightarrow> 'k \<Rightarrow> (sd_error + unit) \<times> 'k" where
  "chownFiles U path uid [] s = (Inr (), s)"
| "chownFiles U path uid (v # vs) s =
     (case u_chown U (path @ ''/'' @ v) uid s of (err, s') \<Rightarrow>
        (case (if err = Some ENOENT then None else err) of
           Some e \<Rightarrow> (Inl (FileErr (SysErr e)), s')
         | None \<Rightarrow> chownFiles U path uid vs s'))"

definition delegate :: "'k world \<Rightarrow> 'k sd2 \<Rightarrow> string \<Rightarrow> int \<Rightarrow> 'k \<Rightarrow> (sd_error + unit) \<times> 'k" where
  "delegate W U path uid s =
     (case u_chown U path uid s of
        (Some e, s1) \<Rightarrow> (Inl (FileErr (SysErr e)), s1)
      | (None, s1) \<Rightarrow>
          (case cgroupFilesToChown W s1 of
             (Inl e, s2) \<Rightarrow> (Inl e, s2)
           | (Inr files, s2) \<Rightarrow> chownFiles U path uid files s2))"

definition unifiedApply ::
  "'k world \<Rightarrow> 'k kernel2 \<Rightarrow> 'k bus \<Rightarrow> 'k sd2 \<Rightarrow> unified \<Rightarrow> int \<Rightarrow> 'k \<Rightarrow> (sd_error + unit) \<times> 'k" where
  "unifiedApply W K B U m pid s =
     (let c = um_cgroups m; sl = (if cg_Parent c \<noteq> [] then cg_Parent c else defaultSlice c) in
      case startUnit B (getUnitName c) (unitProperties c sl ''IOAccounting'' pid) (pid = -1) s of
        (Inl e, s1) \<Rightarrow> (Inl e, s1)
      | (Inr _, s1) \<Rightarrow>
          (case CreateCgroupPath W K (um_path m) c s1 of
             (Inl e, s2) \<Rightarrow> (Inl (FileErr e), s2)
           | (Inr _, s2) \<Rightarrow>
               (case cg_OwnerUID c of
                  None \<Rightarrow> (Inr (), s2)
                | Some uid \<Rightarrow> delegate W U (um_path m) (sint uid) s2)))"

subsection \<open>Set and Freeze\<close>

definition unifiedSet ::
  "'k world \<Rightarrow> 'k kernel2 \<Rightarrow> 'k bus \<Rightarrow> sd_env \<Rightarrow> unified \<Rightarrow> Resources option \<Rightarrow> 'k \<Rightarrow> (sd_error + unified) \<times> 'k" where
  "unifiedSet W K B ev m ro s =
     (case ro of
        None \<Rightarrow> (Inr m, s)
      | Some r \<Rightarrow>
          (case genV2ResourcesProperties ev r of
             Inl e \<Rightarrow> (Inl e, s)
           | Inr props \<Rightarrow>
               (case b_setProps B (getUnitName (um_cgroups m)) props s of
                  (Some e, s1) \<Rightarrow> (Inl (BusFailed e), s1)
                | (None, s1) \<Rightarrow>
                    (case Set2 W K (um_fsMgr m) (Some r) s1 of
                       (Inl e, s2) \<Rightarrow> (Inl (FileErr e), s2)
                     | (Inr f, s2) \<Rightarrow> (Inr (m\<lparr>um_cgroups := m2_config f, um_fsMgr := f\<rparr>), s2)))))"

definition unifiedFreeze :: "'k world \<Rightarrow> 'k kernel2 \<Rightarrow> unified \<Rightarrow> FreezerState \<Rightarrow> ('k, unified) io" where
  "unifiedFreeze W K m st =
     ioThen (Freeze2 W K (um_fsMgr m) st) (\<lambda>f. ioRet (m\<lparr>um_cgroups := m2_config f, um_fsMgr := f\<rparr>))"

subsection \<open>The user's bus\<close>

datatype detect_error = BusctlFailed | BadOwnerUID num_error | NoOwnerUID | DetectScan scan_error | SystemctlFailed | NoBusAddress

fun ownerUID :: "string list \<Rightarrow> (detect_error + int) option" where
  "ownerUID [] = None"
| "ownerUID (line # ls) =
     (if HasPrefix (TrimSpace line) ''OwnerUID=''
      then Some (case Atoi (TrimPrefix (TrimSpace line) ''OwnerUID='') of
                   (i, None) \<Rightarrow> Inr i | (i, Some e) \<Rightarrow> Inl (BadOwnerUID e))
      else ownerUID ls)"

text \<open>\<open>busctl\<close> is the output of the command, None when it failed.\<close>

definition DetectUID :: "bool \<Rightarrow> int \<Rightarrow> string option \<Rightarrow> detect_error + int" where
  "DetectUID inUserNS getuid busctl =
     (if \<not> inUserNS then Inr getuid
      else (case busctl of
              None \<Rightarrow> Inl BusctlFailed
            | Some b \<Rightarrow>
                (case Scan \<lparr>rd_data = b, rd_err = None\<rparr> of (ls, serr) \<Rightarrow>
                   (case ownerUID ls of
                      Some res \<Rightarrow> res
                    | None \<Rightarrow> (case serr of Some e \<Rightarrow> Inl (DetectScan e) | None \<Rightarrow> Inl NoOwnerUID)))))"

fun busAddress :: "string list \<Rightarrow> string option" where
  "busAddress [] = None"
| "busAddress (line # ls) =
     (if HasPrefix (TrimSpace line) ''DBUS_SESSION_BUS_ADDRESS=''
      then Some (TrimPrefix (TrimSpace line) ''DBUS_SESSION_BUS_ADDRESS='') else busAddress ls)"

definition DetectUserDbusSessionBusAddress ::
  "(string \<Rightarrow> string) \<Rightarrow> (string \<Rightarrow> bool) \<Rightarrow> string option \<Rightarrow> detect_error + string" where
  "DetectUserDbusSessionBusAddress getenv stat systemctl =
     (let env = getenv ''DBUS_SESSION_BUS_ADDRESS''; xdr = getenv ''XDG_RUNTIME_DIR''; busPath = PathJoin xdr ''bus'' in
      if env \<noteq> [] then Inr env
      else if xdr \<noteq> [] \<and> stat busPath then Inr (''unix:path='' @ busPath)
      else (case systemctl of
              None \<Rightarrow> Inl SystemctlFailed
            | Some b \<Rightarrow>
                (case busAddress (fst (Scan \<lparr>rd_data = b, rd_err = None\<rparr>)) of
                   Some a \<Rightarrow> Inr a
                 | None \<Rightarrow> Inl NoBusAddress)))"

subsection \<open>The choice of a manager\<close>

datatype path_error = NotSinglePath | InvalidPath string

datatype choice_error = NilConfig | NoSystemd | InconsistentPaths path_error | Fs2Failed fs_error | SystemdFailed sd_error | FsFailed new_error

datatype any_manager = FsV1 manager | SystemdLegacy manager | FsV2 manager2 | SystemdUnified unified

text \<open>The entries of the map of paths; none for a nil map.\<close>

definition getUnifiedPath :: "(string \<times> string) list \<Rightarrow> path_error + string" where
  "getUnifiedPath paths =
     (if 1 < length paths then Inl NotSinglePath
      else (let path = (case map_of paths [] of None \<Rightarrow> [] | Some p \<Rightarrow> p) in
            if path \<noteq> [] \<and> (Clean path \<noteq> path \<or> \<not> IsAbs path) then Inl (InvalidPath path) else Inr path))"

text \<open>What is found out about the host.\<close>

record 'k host =
  h_runningSystemd :: bool
  h_unifiedMode :: bool
  h_hybrid :: bool
  h_v1 :: v1_env
  h_v1Paths :: "Cgroup \<Rightarrow> v1_error + (string \<rightharpoonup> string)"   \<comment> \<open>\<open>initPaths\<close> of cgroups/fs/\<close>
  h_ownCgroup :: "sys_error + reader"
  h_sd2 :: "'k sd2"

definition errAs :: "('a \<Rightarrow> 'c) \<Rightarrow> ('b \<Rightarrow> 'd) \<Rightarrow> 'a + 'b \<Rightarrow> 'c + 'd" where "errAs f g = map_sum f g"

definition NewWithPaths :: "'k host \<Rightarrow> Cgroup option \<Rightarrow> (string \<times> string) list option \<Rightarrow> 'k \<Rightarrow> choice_error + any_manager" where
  "NewWithPaths h config paths s =
     (case config of
        None \<Rightarrow> Inl NilConfig
      | Some c \<Rightarrow>
          if cg_Systemd c \<and> \<not> h_runningSystemd h then Inl NoSystemd
          else if h_unifiedMode h
          then (case getUnifiedPath (case paths of None \<Rightarrow> [] | Some ps \<Rightarrow> ps) of
                  Inl e \<Rightarrow> Inl (InconsistentPaths e)
                | Inr path \<Rightarrow>
                    if cg_Systemd c
                    then errAs SystemdFailed SystemdUnified (NewUnifiedManager (h_sd2 h) (h_ownCgroup h) c path s)
                    else errAs Fs2Failed FsV2 (NewManager2 (h_ownCgroup h) c path))
          else if cg_Systemd c
          then errAs SystemdFailed SystemdLegacy (NewLegacyManager (h_v1 h) (h_hybrid h) c (map_option map_of paths))
          else errAs FsFailed FsV1 (NewManager (h_v1Paths h) c (map_option map_of paths)))"

definition NewCgroupManager :: "'k host \<Rightarrow> Cgroup option \<Rightarrow> 'k \<Rightarrow> choice_error + any_manager" where
  "NewCgroupManager h config s = NewWithPaths h config None s"

end
