(* ===== verification/SystemdV2Props.thy ===== *)
theory SystemdV2Props imports SystemdV2 Fs2Props begin

text \<open>
  The manager that is chosen fits the host and the configuration, and its directory is where it
  should be.
\<close>

subsection \<open>Paths without dot-dot\<close>

definition noUp :: "string \<Rightarrow> bool" where
  "noUp s \<longleftrightarrow> ''..'' \<notin> set (Split (CHR ''/'') s)"

definition plainElems :: "string \<Rightarrow> string list" where
  "plainElems s = filter (\<lambda>w. w \<noteq> [] \<and> w \<noteq> ''.'') (Split (CHR ''/'') s)"

lemma fold_no_up:
  "''..'' \<notin> set ws \<Longrightarrow> fold (cleanStep r) ws acc = rev (filter (\<lambda>w. w \<noteq> [] \<and> w \<noteq> ''.'') ws) @ acc"
  by (induction ws arbitrary: acc) (auto simp: cleanStep.simps)

lemma cleanElems_no_up: "noUp s \<Longrightarrow> cleanElems r (Split (CHR ''/'') s) = plainElems s"
  by (simp add: cleanElems_def noUp_def plainElems_def fold_no_up)

lemma plainElems_ok: "noUp s \<Longrightarrow> w \<in> set (plainElems s) \<Longrightarrow> elem_ok w"
  using Split_parts_no_sep by (auto simp: noUp_def plainElems_def elem_ok_def)

lemma noUp_below [simp]: "noUp (a @ CHR ''/'' # b) \<longleftrightarrow> noUp a \<and> noUp b"
  by (simp add: noUp_def Split_append)

lemma plainElems_below [simp]: "plainElems (a @ CHR ''/'' # b) = plainElems a @ plainElems b"
  by (simp add: plainElems_def Split_append)

lemma noUp_absPath: "\<forall>w \<in> set ws. elem_ok w \<Longrightarrow> noUp (absPath ws)"
  by (auto simp: noUp_def Split_absPath elem_ok_def)

lemma noUp_Join: "\<forall>w \<in> set ws. elem_ok w \<Longrightarrow> ws \<noteq> [] \<Longrightarrow> noUp (Join ''/'' ws)"
  by (auto simp: noUp_def Split_Join_ok elem_ok_def)

lemma noUp_Clean: "noUp s \<Longrightarrow> noUp (Clean s)"
proof -
  assume s: "noUp s"
  have ok: "\<forall>w \<in> set (plainElems s). elem_ok w" using plainElems_ok [OF s] by blast
  show ?thesis
    using noUp_absPath [OF ok] noUp_Join [OF ok] cleanElems_no_up [OF s]
    by (cases "plainElems s = []") (auto simp: Clean_def Let_def absPath_def noUp_def)
qed

lemma noUp_CleanPath: "noUp (CleanPath p)"
proof (cases p rule: CleanPath_cases)
  case (2 ws)
  then show ?thesis by (simp add: noUp_absPath)
next
  case (3 ws)
  then show ?thesis by (simp add: noUp_Join)
qed (simp_all add: noUp_def)

lemma noUp_PathJoin: "noUp a \<Longrightarrow> noUp b \<Longrightarrow> noUp (PathJoin a b)"
  by (simp add: PathJoin_def noUp_Clean) (simp add: noUp_def)

lemma PathDir_elems:
  assumes "IsAbs x"
  shows "noUp (PathDir x) \<and> PathDir x \<noteq> []"
proof -
  obtain q where x: "x = CHR ''/'' # q" using assms by (auto simp: IsAbs_Cons)
  then obtain i where "LastIndexByte x (CHR ''/'') = Some i"
    using LastIndexByte_None [of x "CHR ''/''"] by (cases "LastIndexByte x (CHR ''/'')") auto
  then have "PathDir x = absPath (elemsOf (take i q))" using Clean_abs by (simp add: PathDir_def x)
  then show ?thesis using noUp_absPath [of "elemsOf (take i q)"] elemsOf_ok by (simp add: absPath_def)
qed

lemma below_mount:
  assumes "noUp s"
  shows "Clean (UnifiedMountpoint @ CHR ''/'' # s) = absPath (mountElems @ plainElems s)"
proof -
  have u: "UnifiedMountpoint = CHR ''/'' # ''sys/fs/cgroup''" by (simp add: UnifiedMountpoint_def)
  have "noUp (''sys/fs/cgroup'' @ CHR ''/'' # s)" using assms by (simp add: noUp_def)
  then have "elemsOf (''sys/fs/cgroup'' @ CHR ''/'' # s) = plainElems (''sys/fs/cgroup'' @ CHR ''/'' # s)"
    unfolding elemsOf_def by (rule cleanElems_no_up)
  also have "\<dots> = mountElems @ plainElems s" by (simp add: plainElems_def)
  finally show ?thesis using Clean_abs [of "''sys/fs/cgroup'' @ CHR ''/'' # s"] by (simp add: u)
qed

text \<open>Where a container is put when no directory is given: below the mount point, whatever names the
  configuration has and however far up its own cgroup is.\<close>

lemma default_path_below:
  assumes own: "\<And>r x. own = Inr r \<Longrightarrow> parseUnifiedCgroup r = Inr x \<Longrightarrow> IsAbs x"
    and p: "defaultDirPath own c = Inr p"
  shows "\<exists>es. (\<forall>w \<in> set es. elem_ok w) \<and> p = absPath (mountElems @ es)"
proof -
  define inner where "inner = (if CleanPath (cg_Path c) = []
      then PathJoin (CleanPath (cg_Parent c)) (CleanPath (cg_Name c)) else CleanPath (cg_Path c))"
  have inner: "noUp inner" by (simp add: inner_def noUp_CleanPath noUp_PathJoin)
  have path: "(if IsAbs inner then Inr (PathJoin UnifiedMountpoint inner)
      else case own of Inl e \<Rightarrow> Inl (SysErr e)
        | Inr r \<Rightarrow> andThen (parseUnifiedCgroup r) (\<lambda>x. Inr (PathJoin3 UnifiedMountpoint (PathDir x) inner))) = Inr p"
  proof (cases "CleanPath (cg_Path c) = []")
    case True
    then have i: "inner = PathJoin (CleanPath (cg_Parent c)) (CleanPath (cg_Name c))" by (simp add: inner_def)
    show ?thesis unfolding i using p True by (simp add: defaultDirPath_def Let_def split: if_splits)
  next
    case False
    then have i: "inner = CleanPath (cg_Path c)" by (simp add: inner_def)
    show ?thesis unfolding i using p False by (simp add: defaultDirPath_def Let_def split: if_splits)
  qed
  have "\<exists>s. noUp s \<and> p = Clean (UnifiedMountpoint @ CHR ''/'' # s)"
  proof (cases "IsAbs inner")
    case True
    then have "p = PathJoin UnifiedMountpoint inner"
      using path by simp
    then show ?thesis using inner by (auto simp: PathJoin_def UnifiedMountpoint_def)
  next
    case False
    then obtain r x where r: "own = Inr r" "parseUnifiedCgroup r = Inr x" "p = PathJoin3 UnifiedMountpoint (PathDir x) inner"
      using path by (auto simp: andThen_Inr_iff split: sum.splits)
    have d: "noUp (PathDir x)" "PathDir x \<noteq> []" using PathDir_elems own r(1,2) by blast+
    then have "p = Clean (UnifiedMountpoint @ CHR ''/'' # (if inner = [] then PathDir x else PathDir x @ CHR ''/'' # inner))"
      using r(3) by (simp add: PathJoin3_def UnifiedMountpoint_def)
    moreover have "noUp (if inner = [] then PathDir x else PathDir x @ CHR ''/'' # inner)" using d inner by simp
    ultimately show ?thesis by blast
  qed
  then show ?thesis using below_mount plainElems_ok by metis
qed

subsection \<open>The choice\<close>

lemma below_mount_clean:
  assumes "\<forall>w \<in> set es. elem_ok w"
  shows "IsAbs (absPath (mountElems @ es)) \<and> Clean (absPath (mountElems @ es)) = absPath (mountElems @ es)"
  using assms Clean_absPath [of "mountElems @ es"] by (auto simp: IsAbs_Cons absPath_def elem_ok_def)

lemma unified_path_clean:
  "getUnifiedPath paths = Inr p \<Longrightarrow> p \<noteq> [] \<Longrightarrow> IsAbs p \<and> Clean p = p"
  by (auto simp: getUnifiedPath_def Let_def split: if_splits option.splits)

lemma NewManager2_path:
  assumes "NewManager2 own c path = Inr m" and "path \<noteq> [] \<Longrightarrow> IsAbs path \<and> Clean path = path"
    and "\<And>r x. own = Inr r \<Longrightarrow> parseUnifiedCgroup r = Inr x \<Longrightarrow> IsAbs x"
  shows "m2_config m = c \<and> IsAbs (m2_dirPath m) \<and> Clean (m2_dirPath m) = m2_dirPath m \<and>
    (path = [] \<longrightarrow> HasPrefix (m2_dirPath m) UnifiedMountpoint)"
proof -
  obtain d where d: "(if path = [] then defaultDirPath own c else Inr path) = Inr d"
      and m: "m = \<lparr>m2_config = c, m2_dirPath = d, m2_controllers = None\<rparr>"
    using assms(1) by (auto simp: NewManager2_def andThen_Inr_iff)
  show ?thesis
  proof (cases "path = []")
    case True
    then obtain es where es: "\<forall>w \<in> set es. elem_ok w" "d = absPath (mountElems @ es)"
      using default_path_below [of own c d] assms(3) d by auto
    then have "HasPrefix d UnifiedMountpoint" by (auto simp: HasPrefix_iff absPath_def UnifiedMountpoint_def Join_Cons)
    then show ?thesis using below_mount_clean [OF es(1)] es(2) m True by simp
  next
    case False
    then show ?thesis using assms(2) d m by simp
  qed
qed


definition ownExample :: reader where
  "ownExample = \<lparr>rd_data = unlines [''0::/../user.slice/a.scope''], rd_err = None\<rparr>"

lemma ownExample_path: "parseUnifiedCgroup ownExample = Inr ''/../user.slice/a.scope''"
proof -
  have "scanLines (unlines [''0::/../user.slice/a.scope'']) = ([''0::/../user.slice/a.scope''], False)"
    by (rule scanLines_unlines) (auto simp: plain_line_def maxScanTokenSize_def)
  then show ?thesis by (simp add: parseUnifiedCgroup_def Scan_def ownExample_def del: unlines_simps)
qed

text \<open>A host with cgroup v2 whose own group is outside of the cgroup namespace.\<close>

definition exampleHost :: "nat host" where
  "exampleHost =
     \<lparr>h_runningSystemd = True, h_unifiedMode = True, h_hybrid = False,
      h_v1 = \<lparr>vw_Unified = True, vw_Mountinfo = Inr [], vw_SecureJoin = (\<lambda>_ _. None), vw_Lstat = (\<lambda>_. None),
        vw_CgroupFs = (\<lambda>_. False), vw_Proc = (\<lambda>_. Inl ENOENT), vw_Controllers = Inr []\<rparr>,
      h_v1Paths = (\<lambda>_. Inr Map.empty), h_ownCgroup = Inr ownExample,
      h_sd2 = \<lparr>u_managerCG = (\<lambda>_. Inr ''/''), u_SecureJoin = (\<lambda>r p. Inr (PathJoin r p)), u_chown = (\<lambda>_ _ s. (None, s))\<rparr>\<rparr>"


end
