(* ===== verification/IntelRdt.thy ===== *)
theory IntelRdt imports SystemdV1 begin

text \<open>
  Intel RDT groups (intelrdt/): finding the resctrl file system and its features, putting a process
  into the group of its class of service, setting schemata, removing the group, statistics. The
  kernel is the record \<open>resctrl\<close>; reading does not change its state.
\<close>

subsection \<open>The kernel\<close>

record 'k resctrl =
  rt_statfs :: "sys_error + bool"                \<comment> \<open>whether resctrl is mounted at the default place\<close>
  rt_mounts :: "string + (string \<times> string) list"  \<comment> \<open>type and mount point, in order\<close>
  rt_stat :: "string \<Rightarrow> 'k \<Rightarrow> sys_error option"
  rt_open :: "string \<Rightarrow> 'k \<Rightarrow> sys_error + reader"
  rt_readDir :: "string \<Rightarrow> 'k \<Rightarrow> sys_error + (string \<times> bool) list"  \<comment> \<open>names, and whether a directory\<close>
  rt_write :: "string \<Rightarrow> string \<Rightarrow> 'k \<Rightarrow> sys_error option \<times> 'k"
  rt_mkdirAll :: "string \<Rightarrow> 'k \<Rightarrow> sys_error option \<times> 'k"
  rt_removeAll :: "string \<Rightarrow> 'k \<Rightarrow> sys_error option \<times> 'k"

datatype rdt_error =
    RdtNotFound
  | RdtSys sys_error
  | RdtReading string
  | RdtMounts string
  | RdtBadUint string string
  | RdtNoDir string
  | RdtScan scan_error
  | ClosMissing sys_error
  | WriteErr string sys_error
  | AddPidErr int sys_error
  | WithStatus rdt_error string   \<comment> \<open>the cause and the kernel's last_cmd_status\<close>

definition defaultResctrlMountpoint :: string where "defaultResctrlMountpoint = ''/sys/fs/resctrl''"
definition intelRdtTasks :: string where "intelRdtTasks = ''tasks''"

text \<open>Of the mounts the filter takes the first one of the type.\<close>

definition findIntelRdtMountpointDir :: "'k resctrl \<Rightarrow> rdt_error + string" where
  "findIntelRdtMountpointDir R =
     (case rt_mounts R of
        Inl e \<Rightarrow> Inl (RdtMounts e)
      | Inr ms \<Rightarrow> (case find (\<lambda>m. fst m = ''resctrl'') ms of None \<Rightarrow> Inl RdtNotFound | Some m \<Rightarrow> Inr (snd m)))"

definition rdtRoot :: "'k resctrl \<Rightarrow> rdt_error + string" where
  "rdtRoot R =
     (case rt_statfs R of
        Inl e \<Rightarrow> Inl (if e = ENOENT then RdtNotFound else RdtSys e)
      | Inr mounted \<Rightarrow> if mounted then Inr defaultResctrlMountpoint else findIntelRdtMountpointDir R)"

subsection \<open>Files\<close>

definition rdtReadFile :: "'k resctrl \<Rightarrow> string \<Rightarrow> 'k \<Rightarrow> rdt_error + string" where
  "rdtReadFile R name s =
     (case rt_open R name s of
        Inl e \<Rightarrow> Inl (RdtSys e)
      | Inr r \<Rightarrow> (case rd_err r of Some e \<Rightarrow> Inl (RdtReading e) | None \<Rightarrow> Inr (rd_data r)))"

definition getIntelRdtParamUint :: "'k resctrl \<Rightarrow> string \<Rightarrow> string \<Rightarrow> 'k \<Rightarrow> rdt_error + u64" where
  "getIntelRdtParamUint R path file s =
     andThen (rdtReadFile R (PathJoin path file) s) (\<lambda>contents.
       case ParseUint 64 (TrimSpace contents) of
         (n, None) \<Rightarrow> Inr n
       | (n, Some e) \<Rightarrow> Inl (RdtBadUint contents (PathJoin path file)))"

definition getIntelRdtParamString :: "'k resctrl \<Rightarrow> string \<Rightarrow> string \<Rightarrow> 'k \<Rightarrow> rdt_error + string" where
  "getIntelRdtParamString R path file s =
     andThen (rdtReadFile R (PathJoin path file) s) (\<lambda>contents. Inr (TrimSpace contents))"

definition getLastCmdStatus :: "'k resctrl \<Rightarrow> 'k \<Rightarrow> rdt_error + string" where
  "getLastCmdStatus R s =
     andThen (rdtRoot R) (\<lambda>root. getIntelRdtParamString R (PathJoin root ''info'') ''last_cmd_status'' s)"

definition newLastCmdError :: "'k resctrl \<Rightarrow> rdt_error \<Rightarrow> 'k \<Rightarrow> rdt_error" where
  "newLastCmdError R e s = (case getLastCmdStatus R s of Inr st \<Rightarrow> WithStatus e st | Inl _ \<Rightarrow> e)"

definition rdtWriteFile :: "'k resctrl \<Rightarrow> string \<Rightarrow> string \<Rightarrow> string \<Rightarrow> 'k \<Rightarrow> rdt_error option \<times> 'k" where
  "rdtWriteFile R dir file data s =
     (if dir = [] then (Some (RdtNoDir file), s)
      else (case rt_write R (PathJoin dir file) (data @ [nl]) s of
              (None, s') \<Rightarrow> (None, s')
            | (Some e, s') \<Rightarrow> (Some (newLastCmdError R (WriteErr data e) s'), s')))"

text \<open>No pid is attached for \<open>-1\<close>.\<close>

definition WriteIntelRdtTasks :: "'k resctrl \<Rightarrow> string \<Rightarrow> int \<Rightarrow> 'k \<Rightarrow> rdt_error option \<times> 'k" where
  "WriteIntelRdtTasks R dir pid s =
     (if dir = [] then (Some (RdtNoDir intelRdtTasks), s)
      else if pid = -1 then (None, s)
      else (case rt_write R (PathJoin dir intelRdtTasks) (Itoa pid) s of
              (None, s') \<Rightarrow> (None, s')
            | (Some e, s') \<Rightarrow> (Some (newLastCmdError R (AddPidErr pid e) s'), s')))"

subsection \<open>Features\<close>

record monFeatures =
  mf_mbmTotalBytes :: bool
  mf_mbmLocalBytes :: bool
  mf_llcOccupancy :: bool

definition noMonFeatures :: monFeatures where
  "noMonFeatures = \<lparr>mf_mbmTotalBytes = False, mf_mbmLocalBytes = False, mf_llcOccupancy = False\<rparr>"

definition monFeature :: "string \<Rightarrow> monFeatures \<Rightarrow> monFeatures" where
  "monFeature feature m =
     (if feature = ''mbm_total_bytes'' then m\<lparr>mf_mbmTotalBytes := True\<rparr>
      else if feature = ''mbm_local_bytes'' then m\<lparr>mf_mbmLocalBytes := True\<rparr>
      else if feature = ''llc_occupancy'' then m\<lparr>mf_llcOccupancy := True\<rparr>
      else m)"

definition parseMonFeatures :: "reader \<Rightarrow> monFeatures \<times> scan_error option" where
  "parseMonFeatures r = (fold monFeature (fst (Scan r)) noMonFeatures, snd (Scan r))"

definition getMonFeatures :: "'k resctrl \<Rightarrow> string \<Rightarrow> 'k \<Rightarrow> rdt_error + monFeatures" where
  "getMonFeatures R root s =
     (case rt_open R (PathJoin (PathJoin (PathJoin root ''info'') ''L3_MON'') ''mon_features'') s of
        Inl e \<Rightarrow> Inl (RdtSys e)
      | Inr r \<Rightarrow> (case parseMonFeatures r of (m, None) \<Rightarrow> Inr m | (m, Some e) \<Rightarrow> Inl (RdtScan e)))"

record rdtFeatures =
  rf_cat :: bool
  rf_mba :: bool
  rf_mbm :: bool
  rf_cmt :: bool
  rf_mon :: monFeatures

text \<open>Looked up once; an error ends the look-up with what has been found.\<close>

definition featuresInit :: "'k resctrl \<Rightarrow> 'k \<Rightarrow> rdtFeatures" where
  "featuresInit R s =
     (let off = \<lparr>rf_cat = False, rf_mba = False, rf_mbm = False, rf_cmt = False, rf_mon = noMonFeatures\<rparr> in
      case rdtRoot R of
        Inl _ \<Rightarrow> off
      | Inr root \<Rightarrow>
          (let info = PathJoin root ''info'';
               found = off\<lparr>rf_cat := (rt_stat R (PathJoin info ''L3'') s = None),
                           rf_mba := (rt_stat R (PathJoin info ''MB'') s = None)\<rparr> in
           if rt_stat R (PathJoin info ''L3_MON'') s \<noteq> None then found
           else (case getMonFeatures R root s of
                   Inl _ \<Rightarrow> found
                 | Inr m \<Rightarrow> found\<lparr>rf_mon := m, rf_mbm := (mf_mbmTotalBytes m \<or> mf_mbmLocalBytes m),
                                  rf_cmt := mf_llcOccupancy m\<rparr>)))"

subsection \<open>The manager\<close>

record rdtManager =
  rm_config :: Config
  rm_id :: string
  rm_path :: string

definition newRdtManager :: "Config \<Rightarrow> string \<Rightarrow> string \<Rightarrow> rdtManager" where
  "newRdtManager config cid path = \<lparr>rm_config = config, rm_id = cid, rm_path = path\<rparr>"

definition NewRdtManager :: "'k resctrl \<Rightarrow> Config \<Rightarrow> string \<Rightarrow> string \<Rightarrow> rdtManager option" where
  "NewRdtManager R config cid path =
     (if c_IntelRdt config = None then None
      else if isl (rdtRoot R) then None
      else Some (newRdtManager config cid path))"

text \<open>The group of the class of service, or one named like the container.\<close>

definition getIntelRdtPath :: "'k resctrl \<Rightarrow> rdtManager \<Rightarrow> rdt_error + string" where
  "getIntelRdtPath R m =
     andThen (rdtRoot R) (\<lambda>root.
       Inr (PathJoin root
         (case c_IntelRdt (rm_config m) of
            Some rdt \<Rightarrow> if ir_ClosID rdt \<noteq> [] then ir_ClosID rdt else rm_id m
          | None \<Rightarrow> rm_id m)))"

text \<open>The path is remembered; on an error it is empty.\<close>

definition rdtGetPath :: "'k resctrl \<Rightarrow> rdtManager \<Rightarrow> rdtManager" where
  "rdtGetPath R m =
     (if rm_path m = [] then m\<lparr>rm_path := (case getIntelRdtPath R m of Inl _ \<Rightarrow> [] | Inr p \<Rightarrow> p)\<rparr> else m)"

definition rdtApply :: "'k resctrl \<Rightarrow> rdtManager \<Rightarrow> int \<Rightarrow> 'k \<Rightarrow> (rdt_error + rdtManager) \<times> 'k" where
  "rdtApply R m pid s =
     (case c_IntelRdt (rm_config m) of
        None \<Rightarrow> (Inr m, s)
      | Some rdt \<Rightarrow>
          (case getIntelRdtPath R m of
             Inl e \<Rightarrow> (Inl e, s)
           | Inr path \<Rightarrow>
               (let preset = ir_ClosID rdt \<noteq> [] \<and> ir_L3CacheSchema rdt = [] \<and> ir_MemBwSchema rdt = [] in
                case (if preset then rt_stat R path s else None) of
                  Some e \<Rightarrow> (Inl (ClosMissing e), s)
                | None \<Rightarrow>
                    (case rt_mkdirAll R path s of
                       (Some e, s1) \<Rightarrow> (Inl (newLastCmdError R (RdtSys e) s1), s1)
                     | (None, s1) \<Rightarrow>
                         (case WriteIntelRdtTasks R path pid s1 of
                            (Some e, s2) \<Rightarrow> (Inl (newLastCmdError R e s2), s2)
                          | (None, s2) \<Rightarrow> (Inr (m\<lparr>rm_path := path\<rparr>), s2))))))"

text \<open>A group with a name of its own belongs to others as well and is left.\<close>

definition rdtDestroy :: "'k resctrl \<Rightarrow> rdtManager \<Rightarrow> 'k \<Rightarrow> (rdt_error + rdtManager) \<times> 'k" where
  "rdtDestroy R m s =
     (case c_IntelRdt (rm_config m) of
        None \<Rightarrow> (Inr m, s)
      | Some rdt \<Rightarrow>
          if ir_ClosID rdt \<noteq> [] then (Inr m, s)
          else (let m' = rdtGetPath R m in
                case rt_removeAll R (rm_path m') s of
                  (Some e, s') \<Rightarrow> (Inl (RdtSys e), s')
                | (None, s') \<Rightarrow> (Inr (m'\<lparr>rm_path := []\<rparr>), s')))"

text \<open>One write with the schemata that are given.\<close>

definition rdtSet :: "'k resctrl \<Rightarrow> rdtManager \<Rightarrow> Config \<Rightarrow> 'k \<Rightarrow> (rdt_error option \<times> rdtManager) \<times> 'k" where
  "rdtSet R m container s =
     (case c_IntelRdt container of
        None \<Rightarrow> ((None, m), s)
      | Some rdt \<Rightarrow>
          (let m' = rdtGetPath R m; l3 = ir_L3CacheSchema rdt; mb = ir_MemBwSchema rdt;
               wr = (\<lambda>text. case rdtWriteFile R (rm_path m') ''schemata'' text s of (e, s') \<Rightarrow> ((e, m'), s')) in
           if l3 \<noteq> [] \<and> mb \<noteq> [] then wr (l3 @ [nl] @ mb)
           else if l3 \<noteq> [] then wr l3
           else if mb \<noteq> [] then wr mb
           else ((None, m'), s)))"

subsection \<open>Statistics\<close>

record L3CacheInfo =
  l3_CbmMask :: string
  l3_MinCbmBits :: u64
  l3_NumClosids :: u64

record MemBwInfo =
  mb_BandwidthGran :: u64
  mb_DelayLinear :: u64
  mb_MinBandwidth :: u64
  mb_NumClosids :: u64

record rdtStats =
  rs_L3CacheInfo :: "L3CacheInfo option"
  rs_L3CacheSchemaRoot :: string
  rs_L3CacheSchema :: string
  rs_MemBwInfo :: "MemBwInfo option"
  rs_MemBwSchemaRoot :: string
  rs_MemBwSchema :: string
  rs_MBMStats :: "(u64 \<times> u64) list option"   \<comment> \<open>total and local bytes\<close>
  rs_CMTStats :: "u64 list option"

definition newRdtStats :: rdtStats where
  "newRdtStats =
     \<lparr>rs_L3CacheInfo = None, rs_L3CacheSchemaRoot = [], rs_L3CacheSchema = [], rs_MemBwInfo = None,
      rs_MemBwSchemaRoot = [], rs_MemBwSchema = [], rs_MBMStats = None, rs_CMTStats = None\<rparr>"

definition getL3CacheInfo :: "'k resctrl \<Rightarrow> 'k \<Rightarrow> rdt_error + L3CacheInfo" where
  "getL3CacheInfo R s =
     andThen (rdtRoot R) (\<lambda>root.
       (let path = PathJoin (PathJoin root ''info'') ''L3'' in
        andThen (getIntelRdtParamString R path ''cbm_mask'' s) (\<lambda>mask.
        andThen (getIntelRdtParamUint R path ''min_cbm_bits'' s) (\<lambda>bits.
        andThen (getIntelRdtParamUint R path ''num_closids'' s) (\<lambda>n.
          Inr \<lparr>l3_CbmMask = mask, l3_MinCbmBits = bits, l3_NumClosids = n\<rparr>)))))"

definition getMemBwInfo :: "'k resctrl \<Rightarrow> 'k \<Rightarrow> rdt_error + MemBwInfo" where
  "getMemBwInfo R s =
     andThen (rdtRoot R) (\<lambda>root.
       (let path = PathJoin (PathJoin root ''info'') ''MB'' in
        andThen (getIntelRdtParamUint R path ''bandwidth_gran'' s) (\<lambda>gran.
        andThen (getIntelRdtParamUint R path ''delay_linear'' s) (\<lambda>dl.
        andThen (getIntelRdtParamUint R path ''min_bandwidth'' s) (\<lambda>mn.
        andThen (getIntelRdtParamUint R path ''num_closids'' s) (\<lambda>n.
          Inr \<lparr>mb_BandwidthGran = gran, mb_DelayLinear = dl, mb_MinBandwidth = mn, mb_NumClosids = n\<rparr>))))))"

text \<open>A counter that is not enabled is zero and not read.\<close>

definition getMBMNumaNodeStats :: "'k resctrl \<Rightarrow> monFeatures \<Rightarrow> string \<Rightarrow> 'k \<Rightarrow> rdt_error + u64 \<times> u64" where
  "getMBMNumaNodeStats R mon numaPath s =
     andThen (if mf_mbmTotalBytes mon then getIntelRdtParamUint R numaPath ''mbm_total_bytes'' s else Inr 0) (\<lambda>total.
     andThen (if mf_mbmLocalBytes mon then getIntelRdtParamUint R numaPath ''mbm_local_bytes'' s else Inr 0) (\<lambda>loc.
       Inr (total, loc)))"

definition getCMTNumaNodeStats :: "'k resctrl \<Rightarrow> monFeatures \<Rightarrow> string \<Rightarrow> 'k \<Rightarrow> rdt_error + u64" where
  "getCMTNumaNodeStats R mon numaPath s =
     (if mf_llcOccupancy mon then getIntelRdtParamUint R numaPath ''llc_occupancy'' s else Inr 0)"

definition numaNode ::
  "'k resctrl \<Rightarrow> rdtFeatures \<Rightarrow> string \<Rightarrow> 'k \<Rightarrow> string \<times> bool \<Rightarrow> (u64 \<times> u64) list \<times> u64 list \<Rightarrow> rdt_error + (u64 \<times> u64) list \<times> u64 list" where
  "numaNode R f dir s file acc =
     (if \<not> snd file then Inr acc
      else (let numaPath = PathJoin dir (fst file) in
        andThen (if rf_mbm f then andThen (getMBMNumaNodeStats R (rf_mon f) numaPath s) (\<lambda>x. Inr (fst acc @ [x])) else Inr (fst acc)) (\<lambda>mbm.
        andThen (if rf_cmt f then andThen (getCMTNumaNodeStats R (rf_mon f) numaPath s) (\<lambda>x. Inr (snd acc @ [x])) else Inr (snd acc)) (\<lambda>cmt.
          Inr (mbm, cmt)))))"

definition getMonitoringStats :: "'k resctrl \<Rightarrow> rdtFeatures \<Rightarrow> string \<Rightarrow> 'k \<Rightarrow> rdtStats \<Rightarrow> rdt_error + rdtStats" where
  "getMonitoringStats R f containerPath s st =
     (let dir = PathJoin containerPath ''mon_data'' in
      case rt_readDir R dir s of
        Inl e \<Rightarrow> Inl (RdtSys e)
      | Inr numaFiles \<Rightarrow>
          andThen (foldRes (numaNode R f dir s) numaFiles ([], [])) (\<lambda>(mbm, cmt).
            Inr (st\<lparr>rs_MBMStats := Some mbm, rs_CMTStats := Some cmt\<rparr>)))"

text \<open>The last line that has the name in it counts.\<close>

definition schemaWith :: "string \<Rightarrow> string list \<Rightarrow> string" where
  "schemaWith name lines = fold (\<lambda>l acc. if Contains l name then TrimSpace l else acc) lines []"

text \<open>None: the configuration has no RDT section.\<close>

definition rdtGetStats :: "'k resctrl \<Rightarrow> rdtManager \<Rightarrow> 'k \<Rightarrow> (rdt_error + rdtStats option) \<times> rdtManager" where
  "rdtGetStats R m s =
     (if c_IntelRdt (rm_config m) = None then (Inr None, m)
      else (case rdtRoot R of
        Inl e \<Rightarrow> (Inl e, m)
      | Inr root \<Rightarrow>
          (case getIntelRdtParamString R root ''schemata'' s of
             Inl e \<Rightarrow> (Inl e, m)
           | Inr rootText \<Rightarrow>
               (let m' = rdtGetPath R m; f = featuresInit R s; roots = Split nl rootText in
                (andThen (getIntelRdtParamString R (rm_path m') ''schemata'' s) (\<lambda>text.
                 (let own = Split nl text in
                  andThen (if rf_cat f
                           then andThen (getL3CacheInfo R s) (\<lambda>info. Inr (newRdtStats\<lparr>rs_L3CacheInfo := Some info,
                                  rs_L3CacheSchemaRoot := schemaWith ''L3'' roots, rs_L3CacheSchema := schemaWith ''L3'' own\<rparr>))
                           else Inr newRdtStats) (\<lambda>st1.
                  andThen (if rf_mba f
                           then andThen (getMemBwInfo R s) (\<lambda>info. Inr (st1\<lparr>rs_MemBwInfo := Some info,
                                  rs_MemBwSchemaRoot := schemaWith ''MB'' roots, rs_MemBwSchema := schemaWith ''MB'' own\<rparr>))
                           else Inr st1) (\<lambda>st2.
                  andThen (if rf_mbm f \<or> rf_cmt f then getMonitoringStats R f (rm_path m') s st2 else Inr st2) (\<lambda>st3.
                    Inr (Some st3)))))),
                 m')))))"

end
