(* ===== verification/IntelRdtProps.thy ===== *)
theory IntelRdtProps imports IntelRdt ValidateProps Fs2Props begin

text \<open>
  The RDT manager touches one group: a directory right below the root of resctrl, named by the class
  of service, which the validation has checked, or by the container.
\<close>

lemma Validate_rdt:
  assumes "fst (Validate ev c) = None" and "c_IntelRdt c = Some rdt" and "ir_ClosID rdt \<noteq> []"
  shows "elem_ok (ir_ClosID rdt)"
proof -
  have "firstErr [v_cgroups ev c, v_rootfs ev c, v_network c, v_hostname c, v_security ev c,
      v_usernamespace ev c, v_cgroupnamespace ev c, v_sysctl ev c, v_intelrdt ev c, v_rootlessEUID c] = None"
    using assms(1) by (simp add: Validate_def split: option.splits)
  then have "v_intelrdt ev c = None" by (simp add: firstErr_None_iff)
  then show ?thesis using assms(2,3) by (auto simp: v_intelrdt_def elem_ok_def split: if_splits)
qed

definition groupName :: "IntelRdt \<Rightarrow> string \<Rightarrow> string" where
  "groupName rdt cid = (if ir_ClosID rdt \<noteq> [] then ir_ClosID rdt else cid)"

lemma getIntelRdtPath_group:
  assumes "rdtRoot R = Inr (absPath rs)" and "\<forall>w \<in> set rs. elem_ok w"
    and "c_IntelRdt (rm_config m) = Some rdt" and "elem_ok (groupName rdt (rm_id m))"
  shows "getIntelRdtPath R m = Inr (absPath (rs @ [groupName rdt (rm_id m)]))"
  using assms PathJoin_elem [OF assms(2,4)] by (simp add: getIntelRdtPath_def groupName_def)

text \<open>Both ways of writing the file below a clean directory are the same.\<close>

lemma PathJoin_file:
  "\<forall>w \<in> set rs. elem_ok w \<Longrightarrow> rs \<noteq> [] \<Longrightarrow> elem_ok f \<Longrightarrow> PathJoin (absPath rs) f = absPath rs @ ''/'' @ f"
  by (simp add: PathJoin_elem) (simp add: absPath_def Join_append)

text \<open>C22. The RDT manager of a validated configuration keeps to one directory right below the root of
  resctrl: the group of the class of service of the configuration, or the group named like the
  container. Whatever property of the kernel's state does not depend on that directory and its
  files still holds after joining a process, setting the schemata and destroying the group, also
  when they fail. A group with an explicit class of service is never removed: then nothing is assumed
  about removing directories. The remembered path is that of the group afterwards.\<close>

theorem rdt_stays_in_group:
  assumes valid: "fst (Validate ev c) = None" and rdt: "c_IntelRdt c = Some rdt"
    and m: "rm_config m = c" "elem_ok (rm_id m)"
    and root: "rdtRoot R = Inr (absPath rs)" "\<forall>w \<in> set rs. elem_ok w"
    and grp: "dir = absPath (rs @ [groupName rdt (rm_id m)])" "rm_path m \<in> {[], dir}"
    and wr: "\<And>f d s. elem_ok f \<Longrightarrow> I s \<Longrightarrow> I (snd (rt_write R (dir @ ''/'' @ f) d s))"
    and mk: "\<And>s. I s \<Longrightarrow> I (snd (rt_mkdirAll R dir s))"
    and rm: "\<And>s. ir_ClosID rdt = [] \<Longrightarrow> I s \<Longrightarrow> I (snd (rt_removeAll R dir s))"
    and I: "I s"
  shows "I (snd (rdtApply R m pid s)) \<and> I (snd (rdtSet R m c s)) \<and> I (snd (rdtDestroy R m s)) \<and>
    (case fst (rdtApply R m pid s) of Inl _ \<Rightarrow> True | Inr m' \<Rightarrow> rm_path m' = dir)"
proof -
  have ok: "elem_ok (groupName rdt (rm_id m))"
    using Validate_rdt [OF valid rdt] m(2) by (simp add: groupName_def)
  have path: "getIntelRdtPath R m = Inr dir"
    using getIntelRdtPath_group [OF root, of m rdt] m(1) rdt ok grp(1) by simp
  have get: "rm_path (rdtGetPath R m) = dir" using grp(2) path by (auto simp: rdtGetPath_def)
  have ne: "dir \<noteq> []" by (simp add: grp(1) absPath_def)
  have below: "PathJoin dir f = dir @ ''/'' @ f" if "elem_ok f" for f
    using PathJoin_file [of "rs @ [groupName rdt (rm_id m)]" f] root(2) ok that by (auto simp: grp(1))
  have names: "elem_ok ''schemata''" "elem_ok intelRdtTasks" by (simp_all add: elem_ok_def intelRdtTasks_def)
  have tasks: "I (snd (WriteIntelRdtTasks R dir pid t))" if "I t" for t
    using that ne wr [OF names(2)] below [OF names(2)]
    by (simp add: WriteIntelRdtTasks_def case_prod_beta split: option.split)
  have schema: "I (snd (rdtWriteFile R dir ''schemata'' d t))" if "I t" for d t
    using that ne wr [OF names(1)] below [OF names(1)]
    by (simp add: rdtWriteFile_def case_prod_beta split: option.split)
  have "I (snd (rdtApply R m pid s))"
    using I mk tasks path m(1) rdt
    by (simp add: rdtApply_def Let_def case_prod_beta split: option.split)
  moreover have "I (snd (rdtSet R m c s))"
    using I schema get rdt by (simp add: rdtSet_def Let_def case_prod_beta)
  moreover have "I (snd (rdtDestroy R m s))"
    using I rm get m(1) rdt by (simp add: rdtDestroy_def Let_def case_prod_beta split: option.split)
  moreover have "case fst (rdtApply R m pid s) of Inl _ \<Rightarrow> True | Inr m' \<Rightarrow> rm_path m' = dir"
    using path m(1) rdt by (simp add: rdtApply_def Let_def case_prod_beta split: option.split)
  ultimately show ?thesis by blast
qed

text \<open>A log of what is done to paths.\<close>

definition rdtLog :: "string list resctrl" where
  "rdtLog =
     \<lparr>rt_statfs = Inr True, rt_mounts = Inr [], rt_stat = (\<lambda>_ _. None), rt_open = (\<lambda>_ _. Inl ENOENT),
      rt_readDir = (\<lambda>_ _. Inr []), rt_write = (\<lambda>p _ s. (None, p # s)), rt_mkdirAll = (\<lambda>p s. (None, p # s)),
      rt_removeAll = (\<lambda>p s. (None, p # s))\<rparr>"

definition rdtConfig :: Config where
  "rdtConfig =
     emptyConfig\<lparr>c_Rootfs := ''/r'', c_IntelRdt := Some \<lparr>ir_ClosID = ''gold'', ir_L3CacheSchema = [], ir_MemBwSchema = []\<rparr>\<rparr>"

theorem rdt_stays_in_group_witness:
  "list_all (\<lambda>p. HasPrefix p ''/sys/fs/resctrl/gold'') (snd (rdtApply rdtLog (newRdtManager rdtConfig ''c1'' []) 7 [])) \<and>
   snd (rdtApply rdtLog (newRdtManager rdtConfig ''c1'' []) 7 []) \<noteq> []"
proof -
  let ?m = "newRdtManager rdtConfig ''c1'' []"
  let ?rdt = "\<lparr>ir_ClosID = ''gold'', ir_L3CacheSchema = [], ir_MemBwSchema = []\<rparr>"
  let ?rs = "[''sys'', ''fs'', ''resctrl'']"
  let ?group = "absPath (?rs @ [groupName ?rdt (rm_id ?m)])"
  let ?I = "list_all (\<lambda>p. HasPrefix p ''/sys/fs/resctrl/gold'')"
  have valid: "fst (Validate netnsEnv rdtConfig) = None"
    by (simp add: Validate_def v_cgroups_def v_rootfs_def v_network_def v_hostname_def v_security_def v_usernamespace_def
        v_cgroupnamespace_def v_sysctl_def v_intelrdt_def v_rootlessEUID_def PathAbs_def IsAbs_def
        rdtConfig_def emptyConfig_def ns_Contains_def netnsEnv_def)
  have root: "rdtRoot rdtLog = Inr (absPath ?rs)"
    by (simp add: rdtRoot_def rdtLog_def defaultResctrlMountpoint_def absPath_def)
  have group: "?group = ''/sys/fs/resctrl/gold''" by (simp add: groupName_def absPath_def)
  have "?I (snd (rdtApply rdtLog ?m 7 []))"
    by (rule rdt_stays_in_group [where I = ?I and rdt = ?rdt and dir = ?group and rs = ?rs, OF valid, THEN conjunct1])
       (use root group in \<open>auto simp: rdtConfig_def newRdtManager_def elem_ok_def groupName_def rdtLog_def HasPrefix_iff\<close>)
  moreover have "snd (rdtApply rdtLog ?m 7 []) \<noteq> []" by code_simp
  ultimately show ?thesis by blast
qed

end
