(* ===== verification/Ebpf.thy ===== *)
theory Ebpf imports Fs2 begin

text \<open>
  Loading the device filter of cgroup v2 (cgroups/ebpf/ebpf_linux.go): finding the programs that are
  attached to a group, attaching the new one and taking the old ones away. Programs are known by
  their ids; what the bpf system call does is the record \<open>bpf\<close>, for one group.
\<close>

subsection \<open>The system call\<close>

record 'k bpf =
  e_query :: "nat \<Rightarrow> 'k \<Rightarrow> sys_error option \<times> nat \<times> nat list"  \<comment> \<open>slots given; errno, count and ids\<close>
  e_fromID :: "nat \<Rightarrow> 'k \<Rightarrow> sys_error option"
  e_load :: "insn list \<Rightarrow> string \<Rightarrow> 'k \<Rightarrow> (sys_error + nat) \<times> 'k"
  e_attach :: "nat \<Rightarrow> nat option \<Rightarrow> 'k \<Rightarrow> sys_error option \<times> 'k"  \<comment> \<open>in place of a program, if one is given\<close>
  e_detach :: "nat \<Rightarrow> 'k \<Rightarrow> sys_error option \<times> 'k"

datatype bpf_error =
    QueryFailed sys_error
  | FetchFailed nat sys_error
  | IncompleteList
  | EmptySlots              \<comment> \<open>the address of an element of an empty slice, a panic\<close>
  | LoadFailed sys_error
  | AttachFailed sys_error
  | DetachFailed nat sys_error

definition isPermission :: "sys_error \<Rightarrow> bool" where
  "isPermission e \<longleftrightarrow> e = OtherErrno ''EPERM'' \<or> e = OtherErrno ''EACCES''"

abbreviation ENOSPC :: sys_error where "ENOSPC \<equiv> OtherErrno ''ENOSPC''"

subsection \<open>Programs that are attached\<close>

text \<open>A program that may not be accessed is passed over.\<close>

fun fetchPrograms :: "'k bpf \<Rightarrow> 'k \<Rightarrow> nat list \<Rightarrow> bpf_error + nat list" where
  "fetchPrograms E s [] = Inr []"
| "fetchPrograms E s (progId # ids) =
     (case e_fromID E progId s of
        None \<Rightarrow> andThen (fetchPrograms E s ids) (\<lambda>ps. Inr (progId # ps))
      | Some e \<Rightarrow> if isPermission e then fetchPrograms E s ids else Inl (FetchFailed progId e))"

text \<open>With too few slots the kernel tells the number there are, and the query is made again.\<close>

fun findAttached :: "'k bpf \<Rightarrow> nat \<Rightarrow> nat \<Rightarrow> 'k \<Rightarrow> bpf_error + nat list" where
  "findAttached E 0 slots s = Inl IncompleteList"
| "findAttached E (Suc retries) slots s =
     (if slots = 0 then Inl EmptySlots
      else (case e_query E slots s of
              (None, cnt, progIds) \<Rightarrow> fetchPrograms E s (take cnt progIds)
            | (Some errno, cnt, progIds) \<Rightarrow>
                if errno = ENOSPC then findAttached E retries cnt s else Inl (QueryFailed errno)))"

definition findAttachedCgroupDeviceFilters :: "'k bpf \<Rightarrow> 'k \<Rightarrow> bpf_error + nat list" where
  "findAttachedCgroupDeviceFilters E s = findAttached E 10 64 s"

subsection \<open>Replacing\<close>

text \<open>
  The probe for replacing: whether a small program loads, whether /dev/null opens, and the errno of
  attaching the program to it in place of nothing.
\<close>

definition haveBpfProgReplace :: "bool \<Rightarrow> bool \<Rightarrow> sys_error option \<Rightarrow> bool" where
  "haveBpfProgReplace loads devnull attach \<longleftrightarrow> loads \<and> devnull \<and> attach \<noteq> Some EINVAL"

fun detachAll :: "'k bpf \<Rightarrow> nat list \<Rightarrow> 'k \<Rightarrow> bpf_error option \<times> 'k" where
  "detachAll E [] s = (None, s)"
| "detachAll E (p # ps) s =
     (case e_detach E p s of
        (Some e, s') \<Rightarrow> (Some (DetachFailed p e), s')
      | (None, s') \<Rightarrow> detachAll E ps s')"

text \<open>The program of the function that is returned for undoing; none is \<open>nilCloser\<close>.\<close>

definition LoadAttachCgroupDeviceFilter ::
  "'k bpf \<Rightarrow> bool \<Rightarrow> insn list \<Rightarrow> string \<Rightarrow> 'k \<Rightarrow> (bpf_error option \<times> nat option) \<times> 'k" where
  "LoadAttachCgroupDeviceFilter E haveReplace prog lic s =
     (case findAttachedCgroupDeviceFilters E s of
        Inl e \<Rightarrow> ((Some e, None), s)
      | Inr oldProgs \<Rightarrow>
          (let useReplaceProg = (haveReplace \<and> length oldProgs = 1) in
           case e_load E prog lic s of
             (Inl e, s1) \<Rightarrow> ((Some (LoadFailed e), None), s1)
           | (Inr new, s1) \<Rightarrow>
               (case e_attach E new (if useReplaceProg then Some (hd oldProgs) else None) s1 of
                  (Some e, s2) \<Rightarrow> ((Some (AttachFailed e), None), s2)
                | (None, s2) \<Rightarrow>
                    if useReplaceProg then ((None, Some new), s2)
                    else (case detachAll E oldProgs s2 of (err, s3) \<Rightarrow> ((err, Some new), s3)))))"

definition closeFilter :: "'k bpf \<Rightarrow> nat option \<Rightarrow> 'k \<Rightarrow> bpf_error option \<times> 'k" where
  "closeFilter E closer s =
     (case closer of
        None \<Rightarrow> (None, s)
      | Some new \<Rightarrow> (case e_detach E new s of (Some e, s') \<Rightarrow> (Some (DetachFailed new e), s') | (None, s') \<Rightarrow> (None, s')))"

subsection \<open>A kernel with a list of attached programs\<close>

text \<open>
  The programs of the group; the ones of \<open>hidden\<close> may not be accessed. A new program has an id that is
  not attached. What fails changes nothing.
\<close>

definition bpfKernel :: "'k bpf \<Rightarrow> ('k \<Rightarrow> nat list) \<Rightarrow> nat set \<Rightarrow> bool" where
  "bpfKernel E attached hidden \<longleftrightarrow>
     (\<forall>slots s. e_query E slots s =
        (if length (attached s) \<le> slots then (None, length (attached s), attached s)
         else (Some ENOSPC, length (attached s), take slots (attached s)))) \<and>
     (\<forall>p s. e_fromID E p s = (if p \<in> hidden then Some (OtherErrno ''EPERM'') else None)) \<and>
     (\<forall>prog lic s r s'. e_load E prog lic s = (r, s') \<longrightarrow> attached s' = attached s \<and>
        (\<forall>p. r = Inr p \<longrightarrow> p \<notin> set (attached s))) \<and>
     (\<forall>p s s'. e_attach E p None s = (None, s') \<longrightarrow> attached s' = attached s @ [p]) \<and>
     (\<forall>p q s s'. e_attach E p (Some q) s = (None, s') \<longrightarrow>
        attached s' = map (\<lambda>x. if x = q then p else x) (attached s)) \<and>
     (\<forall>p q s s' e. e_attach E p q s = (Some e, s') \<longrightarrow> attached s' = attached s) \<and>
     (\<forall>p s s'. e_detach E p s = (None, s') \<longrightarrow> attached s' = removeAll p (attached s)) \<and>
     (\<forall>p s s' e. e_detach E p s = (Some e, s') \<longrightarrow> attached s' = attached s)"

lemma bpfKernelD:
  assumes "bpfKernel E attached hidden"
  shows "e_query E slots s =
        (if length (attached s) \<le> slots then (None, length (attached s), attached s)
         else (Some ENOSPC, length (attached s), take slots (attached s)))"
    and "e_fromID E p s = (if p \<in> hidden then Some (OtherErrno ''EPERM'') else None)"
    and "e_load E prog lic s = (r, s') \<Longrightarrow> attached s' = attached s \<and> (\<forall>p. r = Inr p \<longrightarrow> p \<notin> set (attached s))"
    and "e_attach E p None s = (None, s') \<Longrightarrow> attached s' = attached s @ [p]"
    and "e_attach E p (Some q) s = (None, s') \<Longrightarrow> attached s' = map (\<lambda>x. if x = q then p else x) (attached s)"
    and "e_attach E p r' s = (Some e, s') \<Longrightarrow> attached s' = attached s"
    and "e_detach E p s = (None, s') \<Longrightarrow> attached s' = removeAll p (attached s)"
    and "e_detach E p s = (Some e, s') \<Longrightarrow> attached s' = attached s"
proof -
  note k = assms [unfolded bpfKernel_def]
  note k3 = k [THEN conjunct2, THEN conjunct2] and k6 = k [THEN conjunct2, THEN conjunct2, THEN conjunct2, THEN conjunct2, THEN conjunct2]
  show "e_query E slots s =
        (if length (attached s) \<le> slots then (None, length (attached s), attached s)
         else (Some ENOSPC, length (attached s), take slots (attached s)))"
    using k [THEN conjunct1] by blast
  show "e_fromID E p s = (if p \<in> hidden then Some (OtherErrno ''EPERM'') else None)"
    using k [THEN conjunct2, THEN conjunct1] by blast
  show "e_load E prog lic s = (r, s') \<Longrightarrow> attached s' = attached s \<and> (\<forall>p. r = Inr p \<longrightarrow> p \<notin> set (attached s))"
    using k3 [THEN conjunct1] by blast
  show "e_attach E p None s = (None, s') \<Longrightarrow> attached s' = attached s @ [p]"
    using k3 [THEN conjunct2, THEN conjunct1] by blast
  show "e_attach E p (Some q) s = (None, s') \<Longrightarrow> attached s' = map (\<lambda>x. if x = q then p else x) (attached s)"
    using k3 [THEN conjunct2, THEN conjunct2, THEN conjunct1] by blast
  show "e_attach E p r' s = (Some e, s') \<Longrightarrow> attached s' = attached s" using k6 [THEN conjunct1] by blast
  show "e_detach E p s = (None, s') \<Longrightarrow> attached s' = removeAll p (attached s)"
    using k6 [THEN conjunct2, THEN conjunct1] by blast
  show "e_detach E p s = (Some e, s') \<Longrightarrow> attached s' = attached s"
    using k6 [THEN conjunct2, THEN conjunct2] by blast
qed

lemma fetch_visible:
  assumes "bpfKernel E attached hidden"
  shows "fetchPrograms E s ids = Inr (filter (\<lambda>p. p \<notin> hidden) ids)"
  by (induction ids) (simp_all add: bpfKernelD(2) [OF assms] isPermission_def)

lemma find_visible:
  assumes k: "bpfKernel E attached hidden"
  shows "findAttachedCgroupDeviceFilters E s = Inr (filter (\<lambda>p. p \<notin> hidden) (attached s))"
proof (cases "length (attached s) \<le> 64")
  case True
  then show ?thesis
    by (simp add: findAttachedCgroupDeviceFilters_def numeral_eq_Suc bpfKernelD(1) [OF k] fetch_visible [OF k])
next
  case False
  then have "attached s \<noteq> []" by auto
  then show ?thesis using False
    by (simp add: findAttachedCgroupDeviceFilters_def numeral_eq_Suc bpfKernelD(1) [OF k] fetch_visible [OF k])
qed

lemma detachAll_result:
  assumes k: "bpfKernel E attached hidden"
  shows "detachAll E ps s = (r, s') \<Longrightarrow>
     (\<exists>qs. set qs \<subseteq> set ps \<and> (r = None \<longrightarrow> qs = ps) \<and> attached s' = filter (\<lambda>x. x \<notin> set qs) (attached s))"
proof (induction ps arbitrary: s)
  case Nil
  then show ?case by simp
next
  case (Cons p ps)
  obtain x u where d: "e_detach E p s = (x, u)" by fastforce
  show ?case
  proof (cases x)
    case (Some e)
    then have "r \<noteq> None" "attached s' = attached s" using Cons.prems d bpfKernelD(8) [OF k, of p s e u] by auto
    then show ?thesis by (intro exI [of _ "[]"]) simp
  next
    case None
    then have u: "attached u = removeAll p (attached s)" using bpfKernelD(7) [OF k] d by simp
    from Cons.IH [of u] obtain qs where qs: "set qs \<subseteq> set ps" "r = None \<longrightarrow> qs = ps"
        "attached s' = filter (\<lambda>x. x \<notin> set qs) (attached u)"
      using Cons.prems d None by auto
    then show ?thesis using u
      by (intro exI [of _ "p # qs"]) (auto simp: removeAll_filter_not_eq intro: filter_cong)
  qed
qed

text \<open>C5. Replacing the device filter of a group fails closed. When it succeeds, exactly the new program
  and those that may not be accessed are attached. When it fails, either nothing has changed or the
  new program is attached as well: a group that was under a filter is at no outcome without one,
  because the new program is attached before an old one is taken away, or in its place.\<close>

theorem filter_replaced_closed:
  assumes k: "bpfKernel E attached hidden"
    and run: "LoadAttachCgroupDeviceFilter E haveReplace prog lic s = ((err, closer), s')"
  shows "(err = None \<longrightarrow> (\<exists>new. closer = Some new \<and> new \<notin> set (attached s) \<and>
           set (attached s') = insert new (set (attached s) \<inter> hidden))) \<and>
    (err \<noteq> None \<longrightarrow> attached s' = attached s \<or> (\<exists>new. closer = Some new \<and> new \<in> set (attached s'))) \<and>
    (attached s \<noteq> [] \<longrightarrow> attached s' \<noteq> [])"
proof -
  let ?old = "filter (\<lambda>p. p \<notin> hidden) (attached s)"
  define use where "use = (haveReplace \<and> length ?old = 1)"
  obtain l s1 where ld: "e_load E prog lic s = (l, s1)" by fastforce
  have s1: "attached s1 = attached s" "\<And>p. l = Inr p \<Longrightarrow> p \<notin> set (attached s)" using bpfKernelD(3) [OF k ld] by auto
  show ?thesis
  proof (cases l)
    case (Inl e)
    then show ?thesis using run find_visible [OF k, of s] ld s1
      by (auto simp: LoadAttachCgroupDeviceFilter_def Let_def)
  next
    case (Inr new)
    obtain a s2 where at: "e_attach E new (if use then Some (hd ?old) else None) s1 = (a, s2)" by fastforce
    show ?thesis
    proof (cases a)
      case (Some e)
      then show ?thesis using run find_visible [OF k, of s] ld Inr at s1 bpfKernelD(6) [OF k, of new _ s1 e s2]
        by (auto simp: LoadAttachCgroupDeviceFilter_def Let_def use_def)
    next
      case None
      have fresh: "new \<notin> set (attached s)" using s1(2) Inr by blast
      show ?thesis
      proof (cases use)
        case True
        then obtain q where q: "?old = [q]" by (auto simp: use_def length_Suc_conv)
        then have "set ?old = {q}" by simp
        then have "q \<in> set (attached s)" "q \<notin> hidden" "\<forall>x \<in> set (attached s). x \<noteq> q \<longrightarrow> x \<in> hidden" by auto
        moreover have "attached s2 = map (\<lambda>x. if x = q then new else x) (attached s)"
          using bpfKernelD(5) [OF k] at True None q s1(1) by simp
        moreover have "err = None" "closer = Some new" "s' = s2"
          using run find_visible [OF k, of s] ld Inr at None True q
          by (auto simp: LoadAttachCgroupDeviceFilter_def Let_def use_def)
        ultimately show ?thesis using fresh by auto
      next
        case False
        then have s2: "attached s2 = attached s @ [new]" using bpfKernelD(4) [OF k] at None s1(1) by simp
        obtain r s3 where dt: "detachAll E ?old s2 = (r, s3)" by fastforce
        then have res: "err = r" "closer = Some new" "s' = s3"
          using run find_visible [OF k, of s] ld Inr at None False
          by (auto simp: LoadAttachCgroupDeviceFilter_def Let_def use_def)
        obtain qs where qs: "set qs \<subseteq> set ?old" "r = None \<longrightarrow> qs = ?old"
            "attached s3 = filter (\<lambda>x. x \<notin> set qs) (attached s2)"
          using detachAll_result [OF k dt] by blast
        then have "new \<in> set (attached s3)" using fresh s2 by auto
        moreover have "r = None \<Longrightarrow> set (attached s3) = insert new (set (attached s) \<inter> hidden)"
          using qs s2 fresh by auto
        ultimately show ?thesis using res fresh by auto
      qed
    qed
  qed
qed

text \<open>A group with two old programs, the first of them hidden.\<close>

definition exampleBpf :: "nat list bpf" where
  "exampleBpf =
     \<lparr>e_query = (\<lambda>slots s. if length s \<le> slots then (None, length s, s) else (Some ENOSPC, length s, take slots s)),
      e_fromID = (\<lambda>p s. if p = 1 then Some (OtherErrno ''EPERM'') else None),
      e_load = (\<lambda>_ _ s. (Inr (Suc (sum_list s)), s)),
      e_attach = (\<lambda>p q s. (None, case q of None \<Rightarrow> s @ [p] | Some x \<Rightarrow> map (\<lambda>y. if y = x then p else y) s)),
      e_detach = (\<lambda>p s. (None, removeAll p s))\<rparr>"

lemma exampleBpf_kernel: "bpfKernel exampleBpf id {1}"
  by (auto simp: bpfKernel_def exampleBpf_def dest: member_le_sum_list)

theorem filter_replaced_closed_witness:
  "\<exists>new s'. LoadAttachCgroupDeviceFilter exampleBpf False [] ''Apache'' [1, 2] = ((None, Some new), s') \<and> set s' = {new, 1}"
proof -
  have run: "LoadAttachCgroupDeviceFilter exampleBpf False [] ''Apache'' [1, 2] = ((None, Some 4), [1, 4])"
    by code_simp
  from filter_replaced_closed [OF exampleBpf_kernel run] run show ?thesis by auto
qed

end
