(* ===== verification/ProcStat.thy ===== *)
theory ProcStat imports Gostring begin

text \<open>
  The state of a process (system/proc.go): the parser of /proc/<pid>/stat, whose second field is a
  name the process chooses.
\<close>

subsection \<open>States\<close>

text \<open>A state is a byte; these are the ones with a name.\<close>

definition procStateString :: "char \<Rightarrow> string" where
  "procStateString s =
     (case map_of
        [(CHR ''X'', ''dead''), (CHR ''D'', ''disk sleep''), (CHR ''R'', ''running''), (CHR ''S'', ''sleeping''),
         (CHR ''T'', ''stopped''), (CHR ''t'', ''tracing stop''), (CHR ''Z'', ''zombie''), (CHR ''P'', ''parked''),
         (CHR ''I'', ''idle'')] s of
        Some t \<Rightarrow> t
      | None \<Rightarrow> ''unknown ('' @ [s] @ '')'')"

record Stat_t =
  st_Name :: string
  st_State :: char
  st_StartTime :: nat

datatype proc_stat_error = BadStatData | TooShort | BadStartTime num_error | StatRead string

subsection \<open>The parser\<close>

definition minAfterName :: nat where "minAfterName = 20 * 2 + 1"

text \<open>What is left after so many blanks; nothing if there are fewer.\<close>

fun skipSpaces :: "nat \<Rightarrow> string \<Rightarrow> string" where
  "skipSpaces 0 s = s"
| "skipSpaces (Suc n) [] = []"
| "skipSpaces (Suc n) (c # cs) = (if c = CHR '' '' then skipSpaces n cs else skipSpaces (Suc n) cs)"

definition afterName :: "string \<Rightarrow> string \<Rightarrow> proc_stat_error + Stat_t" where
  "afterName pname rest =
     (case rest of
        [] \<Rightarrow> Inl BadStatData
      | st # _ \<Rightarrow>
          (let start = skipSpaces (22 - 3) rest in
           case IndexByte start (CHR '' '') of
             None \<Rightarrow> Inl TooShort
           | Some i \<Rightarrow>
               (case ParseUint10 64 (take i start) of
                  (n, None) \<Rightarrow> Inr \<lparr>st_Name = pname, st_State = st, st_StartTime = n\<rparr>
                | (n, Some e) \<Rightarrow> Inl (BadStartTime e))))"

text \<open>The name is between the first opening and the last closing parenthesis.\<close>

definition parseStat :: "string \<Rightarrow> proc_stat_error + Stat_t" where
  "parseStat data =
     (case IndexByte data (CHR ''('') of
        None \<Rightarrow> Inl BadStatData
      | Some first \<Rightarrow>
          if length data \<le> first + minAfterName then Inl BadStatData
          else (case LastIndexByte data (CHR '')'') of
                  None \<Rightarrow> Inl BadStatData
                | Some lst \<Rightarrow>
                    if lst \<le> first \<or> length data \<le> lst + minAfterName then Inl BadStatData
                    else afterName (take (lst - Suc first) (drop (Suc first) data)) (drop (lst + 2) data)))"

text \<open>\<open>file\<close> is what reading the file gives.\<close>

definition ProcStatOf :: "(string \<Rightarrow> string + string) \<Rightarrow> int \<Rightarrow> proc_stat_error + Stat_t" where
  "ProcStatOf readFile pid =
     (case readFile (''/proc/'' @ Itoa pid @ ''/stat'') of
        Inl e \<Rightarrow> Inl (StatRead e)
      | Inr data \<Rightarrow> parseStat data)"

subsection \<open>What the kernel prints\<close>

definition words :: "string list \<Rightarrow> string" where
  "words ws = concat (map (\<lambda>w. w @ '' '') ws)"

text \<open>Fields 1 to 22, of which \<open>fs\<close> are those from 4 to 21, and what follows.\<close>

definition printStat :: "int \<Rightarrow> Stat_t \<Rightarrow> string list \<Rightarrow> string \<Rightarrow> string" where
  "printStat pid st fs rest =
     Itoa pid @ '' ('' @ st_Name st @ '') '' @ words ([st_State st] # fs) @ utoa (st_StartTime st) @ '' '' @ rest"

definition stat_field :: "string \<Rightarrow> bool" where
  "stat_field w \<longleftrightarrow> w \<noteq> [] \<and> CHR '' '' \<notin> set w \<and> CHR '')'' \<notin> set w"

lemma skipSpaces_word: "CHR '' '' \<notin> set w \<Longrightarrow> skipSpaces (Suc n) (w @ CHR '' '' # t) = skipSpaces n t"
  by (induction w) auto

lemma skipSpaces_words: "\<forall>w \<in> set ws. CHR '' '' \<notin> set w \<Longrightarrow> skipSpaces (length ws) (words ws @ t) = t"
  by (induction ws) (auto simp: words_def skipSpaces_word)

lemma words_length: "\<forall>w \<in> set ws. w \<noteq> [] \<Longrightarrow> 2 * length ws \<le> length (words ws)"
proof (induction ws)
  case (Cons w ws)
  have "1 \<le> length w" using Cons.prems by (simp add: Suc_le_eq)
  moreover have "2 * length ws \<le> length (words ws)" using Cons by simp
  moreover have "length (words (w # ws)) = length w + 1 + length (words ws)" by (simp add: words_def)
  ultimately show ?case by (simp del: length_greater_0_conv)
qed (simp add: words_def)

lemma words_chars: "c \<in> set (words ws) \<Longrightarrow> c = CHR '' '' \<or> (\<exists>w \<in> set ws. c \<in> set w)"
  by (auto simp: words_def split: if_splits)

lemma utoa_no_char: "c \<notin> set ''-0123456789'' \<Longrightarrow> c \<notin> set (utoa n)"
  using Itoa_chars [of "int n"] by (auto simp: Itoa_def)

text \<open>C23. Reading what the kernel prints for a process gives its name, its state and its start time back,
  whatever name the process has given itself: the name may contain blanks, newlines and both
  parentheses, and cannot change how the fields after it are read. The state is any byte that is not
  a blank or a closing parenthesis; the fields in between are any words without these.\<close>

theorem proc_stat_roundtrip:
  assumes "length fs = 18" and flds: "\<forall>w \<in> set fs. stat_field w"
    and st: "st_State st \<noteq> CHR '' ''" "st_State st \<noteq> CHR '')''"
    and start: "st_StartTime st < 2 ^ 64" and rest: "CHR '')'' \<notin> set rest"
  shows "parseStat (printStat pid st fs rest) = Inr st"
proof -
  let ?ws = "[st_State st] # fs"
  define tl where "tl = words ?ws @ utoa (st_StartTime st) @ '' '' @ rest"
  define pre where "pre = Itoa pid @ '' ''"
  have data: "printStat pid st fs rest = pre @ CHR ''('' # st_Name st @ CHR '')'' # CHR '' '' # tl"
    by (simp add: printStat_def pre_def tl_def)
  have nosp: "\<forall>w \<in> set ?ws. CHR '' '' \<notin> set w" and ne: "\<forall>w \<in> set ?ws. w \<noteq> []"
    using flds st by (auto simp: stat_field_def)
  have "CHR '')'' \<notin> set (words ?ws)"
    using words_chars [of "CHR '')''" ?ws] flds st(2) by (auto simp: stat_field_def)
  then have close: "CHR '')'' \<notin> set (CHR '' '' # tl)"
    using rest utoa_no_char [of "CHR '')''"] by (auto simp: tl_def)
  have opn: "CHR ''('' \<notin> set pre" using Itoa_chars [of pid] by (auto simp: pre_def)
  have len: "40 \<le> length tl"
    using words_length [OF ne] assms(1) length_greater_0_conv [of "utoa (st_StartTime st)"]
    by (auto simp: tl_def simp del: length_greater_0_conv)
  define first where "first = length pre"
  define lst where "lst = first + Suc (length (st_Name st))"
  have i: "IndexByte (printStat pid st fs rest) (CHR ''('') = Some first"
    unfolding data first_def by (rule IndexByte_append [OF opn])
  have "printStat pid st fs rest = (pre @ CHR ''('' # st_Name st) @ CHR '')'' # (CHR '' '' # tl)" by (simp add: data)
  then have l: "LastIndexByte (printStat pid st fs rest) (CHR '')'') = Some lst"
    using LastIndexByte_append [OF close, of "pre @ CHR ''('' # st_Name st"] by (simp add: lst_def first_def)
  have parts: "take (lst - Suc first) (drop (Suc first) (printStat pid st fs rest)) = st_Name st"
      "drop (lst + 2) (printStat pid st fs rest) = tl"
    by (simp_all add: data lst_def first_def eval_nat_numeral)
  have "parseStat (printStat pid st fs rest) = afterName (st_Name st) tl"
    using i l parts len by (simp add: parseStat_def minAfterName_def) (simp add: data lst_def first_def)
  moreover have "skipSpaces (22 - 3) tl = utoa (st_StartTime st) @ '' '' @ rest"
    using skipSpaces_words [OF nosp] assms(1) by (simp add: tl_def)
  moreover have "IndexByte (utoa (st_StartTime st) @ '' '' @ rest) (CHR '' '') = Some (length (utoa (st_StartTime st)))"
    using IndexByte_append [OF utoa_no_char [of "CHR '' ''"]] by simp
  moreover obtain cs where "tl = st_State st # cs" by (simp add: tl_def words_def)
  ultimately show ?thesis
    using ParseUint10_utoa [OF start] by (simp add: afterName_def Let_def)
qed

theorem proc_stat_roundtrip_witness:
  "parseStat (printStat 7 \<lparr>st_Name = ''a) Z 0 ('', st_State = CHR ''S'', st_StartTime = 42\<rparr> (replicate 18 ''0'') []) =
     Inr \<lparr>st_Name = ''a) Z 0 ('', st_State = CHR ''S'', st_StartTime = 42\<rparr>"
  by (rule proc_stat_roundtrip) (simp_all add: stat_field_def)

end
