(* ===== verification/SeccompLoad.thy ===== *)
theory SeccompLoad imports PatchBpf begin

text \<open>
  Building a seccomp filter and loading it: seccomp/seccomp_linux.go, and PatchAndLoad of
  seccomp/patchbpf/enosys_linux.go. libseccomp is a parameter, its filters are values of a type of
  their own; the system calls that load a filter are a parameter and leave a list of events.
\<close>

subsection \<open>The vocabulary of libseccomp\<close>

text \<open>Two of the actions carry a 16-bit code.\<close>

datatype ScmpAction =
    ActInvalid | ActKillThread | ActKillProcess | ActTrap | ActNotify
  | ActErrno u16 | ActTrace u16 | ActLog | ActAllow

datatype ScmpCompareOp =
    CompareInvalid | CompareNotEqual | CompareLess | CompareLessOrEqual | CompareEqual
  | CompareGreaterEqual | CompareGreater | CompareMaskedEqual

text \<open>
  Of libseccomp's functions the code calls these; \<open>'f\<close> are filters and \<open>'c\<close> conditions. An
  operation on a filter gives the changed filter. The exported filter is what \<open>bpf.Disassemble\<close>
  and \<open>bpf.Assemble\<close> of golang.org/x/net/bpf read and write.
\<close>

record ('f, 'c, 'o, 'r) scmp_lib =
  sl_API :: nat
  sl_NewFilter :: "ScmpAction \<Rightarrow> string + 'f"
  sl_AddArch :: "ScmpArch \<Rightarrow> 'f \<Rightarrow> string + 'f"
  sl_SetNoNewPrivsBit :: "bool \<Rightarrow> 'f \<Rightarrow> string + 'f"
  sl_GetNoNewPrivsBit :: "'f \<Rightarrow> string + bool"
  sl_GetLogBit :: "'f \<Rightarrow> string + bool"
  sl_GetSyscallFromName :: "string \<Rightarrow> u32 option"
  sl_MakeCondition :: "u64 \<Rightarrow> ScmpCompareOp \<Rightarrow> u64 list \<Rightarrow> string + 'c"
  sl_AddRule :: "u32 \<Rightarrow> ScmpAction \<Rightarrow> 'f \<Rightarrow> string + 'f"
  sl_AddRuleConditional :: "u32 \<Rightarrow> ScmpAction \<Rightarrow> 'c list \<Rightarrow> 'f \<Rightarrow> string + 'f"
  sl_ExportBPF :: "'f \<Rightarrow> string + u8 list"
  sl_Disassemble :: "RawInstruction list \<Rightarrow> 'o stub \<times> bool"
  sl_Assemble :: "'o stub \<Rightarrow> 'r list option"
  sl_Env :: scmp_env

datatype seccomp_load_error =
    NilConfig | NotifyUnsupported nat | NotifyWrite | NotifyDefault
  | FilterErr string | ArchErr string | AddArchErr string | NnpErr string
  | EmptyName | CondErr string | AddRuleErr string string | LoadErr load_error | IndexPanic
and load_error = PatchErr patch_error | FlagsErr patch_error | NnpPrctlErr string | SetFilterErr string | EmptyFilterPanic

subsection \<open>Conversions\<close>

text \<open>\<open>SetReturnCode(int16(code))\<close> keeps the low 16 bits. EPERM is 1.\<close>

definition retCode :: "u64 option \<Rightarrow> u16" where
  "retCode errnoRet = (case errnoRet of Some n \<Rightarrow> ucast n | None \<Rightarrow> 1)"

text \<open>The default case of the source's switch has no counterpart: \<open>Action\<close> has these values only.\<close>

definition getAction :: "Action \<Rightarrow> u64 option \<Rightarrow> ScmpAction" where
  "getAction act errnoRet =
     (case act of
        Kill \<Rightarrow> ActKillThread
      | KillThread \<Rightarrow> ActKillThread
      | Errno \<Rightarrow> ActErrno (retCode errnoRet)
      | Trap \<Rightarrow> ActTrap
      | Allow \<Rightarrow> ActAllow
      | Trace \<Rightarrow> ActTrace (retCode errnoRet)
      | Log \<Rightarrow> ActLog
      | Notify \<Rightarrow> ActNotify
      | KillProcess \<Rightarrow> ActKillProcess)"

fun getOperator :: "Operator \<Rightarrow> ScmpCompareOp" where
  "getOperator EqualTo = CompareEqual"
| "getOperator NotEqualTo = CompareNotEqual"
| "getOperator GreaterThan = CompareGreater"
| "getOperator GreaterThanOrEqualTo = CompareGreaterEqual"
| "getOperator LessThan = CompareLess"
| "getOperator LessThanOrEqualTo = CompareLessOrEqual"
| "getOperator MaskEqualTo = CompareMaskedEqual"

definition getCondition :: "('f, 'c, 'o, 'r) scmp_lib \<Rightarrow> Arg \<Rightarrow> string + 'c" where
  "getCondition lib arg = sl_MakeCondition lib (a_Index arg) (getOperator (a_Op arg)) [a_Value arg, a_ValueTwo arg]"

subsection \<open>The rule of one system call\<close>

definition syscallMaxArguments :: nat where "syscallMaxArguments = 6"

text \<open>
  The conditions and how many there are for each argument. The counters are an array of six: an
  index beyond it is a panic.
\<close>

definition addCondition ::
  "('f, 'c, 'o, 'r) scmp_lib \<Rightarrow> Arg \<Rightarrow> nat list \<times> 'c list \<Rightarrow> seccomp_load_error + nat list \<times> 'c list" where
  "addCondition lib arg st =
     (case getCondition lib arg of
        Inl e \<Rightarrow> Inl (CondErr e)
      | Inr newCond \<Rightarrow>
          (let i = unat (a_Index arg) in
           if i < length (fst st) then Inr ((fst st)[i := fst st ! i + 1], snd st @ [newCond])
           else Inl IndexPanic))"

definition addSyscallRule :: "('f, 'c, 'o, 'r) scmp_lib \<Rightarrow> string \<Rightarrow> u32 \<Rightarrow> ScmpAction \<Rightarrow> 'c list \<Rightarrow> 'f \<Rightarrow> seccomp_load_error + 'f" where
  "addSyscallRule lib name callNum callAct conds flt =
     (case sl_AddRuleConditional lib callNum callAct conds flt of
        Inl e \<Rightarrow> Inl (AddRuleErr name e)
      | Inr f \<Rightarrow> Inr f)"

definition addConditional ::
  "('f, 'c, 'o, 'r) scmp_lib \<Rightarrow> Syscall \<Rightarrow> u32 \<Rightarrow> ScmpAction \<Rightarrow> 'f \<Rightarrow> seccomp_load_error + 'f" where
  "addConditional lib call callNum callAct flt =
     andThen (foldRes (addCondition lib) (sc_Args call) (replicate syscallMaxArguments 0, [])) (\<lambda>(argCounts, conditions).
       let hasMultipleArgs = list_ex (\<lambda>count. 1 < count) argCounts in
       if hasMultipleArgs then
         foldRes (\<lambda>cond. addSyscallRule lib (sc_Name call) callNum callAct [cond]) conditions flt
       else addSyscallRule lib (sc_Name call) callNum callAct conditions flt)"

definition matchCall :: "('f, 'c, 'o, 'r) scmp_lib \<Rightarrow> ScmpAction \<Rightarrow> Syscall \<Rightarrow> 'f \<Rightarrow> seccomp_load_error + 'f" where
  "matchCall lib defAct call flt =
     (if sc_Name call = [] then Inl EmptyName
      else
        (let callAct = getAction (sc_Action call) (sc_ErrnoRet call) in
         if callAct = defAct then Inr flt
         else
           (case sl_GetSyscallFromName lib (sc_Name call) of
              None \<Rightarrow> Inr flt
            | Some callNum \<Rightarrow>
                if sc_Args call = [] then
                  (case sl_AddRule lib callNum callAct flt of
                     Inl e \<Rightarrow> Inl (AddRuleErr (sc_Name call) e)
                   | Inr f \<Rightarrow> Inr f)
                else addConditional lib call callNum callAct flt)))"

subsection \<open>Loading a filter\<close>

text \<open>\<open>disassembleFilter\<close>; the pipe between the library and the reader carries the exported bytes.\<close>

definition disassembleFilter :: "('f, 'c, 'o, 'r) scmp_lib \<Rightarrow> 'f \<Rightarrow> patch_error + 'o stub" where
  "disassembleFilter lib flt =
     (case sl_ExportBPF lib flt of
        Inl e \<Rightarrow> Inl (ExportError e)
      | Inr bytes \<Rightarrow>
          andThen (parseProgram bytes) (\<lambda>rawProgram.
            case sl_Disassemble lib rawProgram of
              (prog, ok) \<Rightarrow> if ok then Inr prog else Inl DisassembleError))"

text \<open>
  The calls that reach the kernel, with the length of the program as the kernel is told it, and
  their answers: an error, and the file descriptor of \<open>seccomp(2)\<close>.
\<close>

datatype 'r sys_event =
    SetNoNewPrivs
  | PrctlFilter u16 "'r list"
  | SeccompFilter u64 u16 "'r list"

record 'r loader =
  lo_NoNewPrivs :: "string option"
  lo_Prctl :: "u16 \<Rightarrow> 'r list \<Rightarrow> string option"
  lo_Seccomp :: "u64 \<Rightarrow> u16 \<Rightarrow> 'r list \<Rightarrow> u64 \<times> string option"

text \<open>The address of the first instruction is taken: an empty program is a panic.\<close>

definition sysSeccompSetFilter :: "'r loader \<Rightarrow> u64 \<Rightarrow> 'r list \<Rightarrow> (load_error + int) \<times> 'r sys_event list" where
  "sysSeccompSetFilter ld flags prog =
     (let len = word_of_nat (length prog) in
      if prog = [] then (Inl EmptyFilterPanic, [])
      else if flags = 0 then
        ((case lo_Prctl ld len prog of None \<Rightarrow> Inr (-1) | Some e \<Rightarrow> Inl (SetFilterErr e)), [PrctlFilter len prog])
      else
        (case lo_Seccomp ld flags len prog of
           (fdptr, err) \<Rightarrow>
             (let fd = (if flags AND C_FILTER_FLAG_NEW_LISTENER \<noteq> 0 then sint fdptr else -1) in
              ((case err of None \<Rightarrow> Inr fd | Some e \<Rightarrow> Inl (SetFilterErr e)), [SeccompFilter flags len prog]))))"

text \<open>None is the architecture lookup that does not return.\<close>

definition PatchAndLoad ::
  "('f, 'c, 'o, 'r) scmp_lib \<Rightarrow> 'r loader \<Rightarrow> Seccomp \<Rightarrow> 'f \<Rightarrow> ((load_error + int) \<times> 'r sys_event list) option" where
  "PatchAndLoad lib ld config flt =
     (case enosysPatchFilter (sl_Env lib) (sl_Assemble lib) (disassembleFilter lib flt) config of
        None \<Rightarrow> None
      | Some (Inl e) \<Rightarrow> Some (Inl (PatchErr e), [])
      | Some (Inr fprog) \<Rightarrow> Some
          (case filterFlags (sl_API lib) (sl_GetNoNewPrivsBit lib flt) (sl_GetLogBit lib flt) config of
             Inl e \<Rightarrow> (Inl (FlagsErr e), [])
           | Inr (seccompFlags, noNewPrivs) \<Rightarrow>
               if noNewPrivs then
                 (case lo_NoNewPrivs ld of
                    Some e \<Rightarrow> (Inl (NnpPrctlErr e), [SetNoNewPrivs])
                  | None \<Rightarrow>
                      (case sysSeccompSetFilter ld seccompFlags fprog of
                         (r, evs) \<Rightarrow> (r, SetNoNewPrivs # evs)))
               else sysSeccompSetFilter ld seccompFlags fprog))"

subsection \<open>InitSeccomp\<close>

fun checkNotify :: "nat \<Rightarrow> Syscall list \<Rightarrow> seccomp_load_error option" where
  "checkNotify apiLevel [] = None"
| "checkNotify apiLevel (call # calls) =
     (if sc_Action call = Notify then
        (if apiLevel < 6 then Some (NotifyUnsupported apiLevel)
         else if sc_Name call = ''write'' then Some NotifyWrite
         else checkNotify apiLevel calls)
      else checkNotify apiLevel calls)"

definition addArch :: "('f, 'c, 'o, 'r) scmp_lib \<Rightarrow> string \<Rightarrow> 'f \<Rightarrow> seccomp_load_error + 'f" where
  "addArch lib arch flt =
     (case le_ArchFromString (sl_Env lib) arch of
        Inl e \<Rightarrow> Inl (ArchErr e)
      | Inr scmpArch \<Rightarrow>
          (case sl_AddArch lib scmpArch flt of Inl e \<Rightarrow> Inl (AddArchErr e) | Inr f \<Rightarrow> Inr f))"

text \<open>The filter of a configuration, before it is loaded.\<close>

definition buildFilter :: "('f, 'c, 'o, 'r) scmp_lib \<Rightarrow> Seccomp \<Rightarrow> seccomp_load_error + 'f" where
  "buildFilter lib config =
     (let defaultAction = getAction (se_DefaultAction config) (se_DefaultErrnoRet config) in
      case checkNotify (sl_API lib) (se_Syscalls config) of
        Some err \<Rightarrow> Inl err
      | None \<Rightarrow>
          if defaultAction = ActNotify then Inl NotifyDefault
          else
            (case sl_NewFilter lib defaultAction of
               Inl e \<Rightarrow> Inl (FilterErr e)
             | Inr f0 \<Rightarrow>
                 andThen (foldRes (addArch lib) (se_Architectures config) f0) (\<lambda>f1.
                   case sl_SetNoNewPrivsBit lib False f1 of
                     Inl e \<Rightarrow> Inl (NnpErr e)
                   | Inr f2 \<Rightarrow> foldRes (matchCall lib defaultAction) (se_Syscalls config) f2)))"

definition InitSeccomp ::
  "('f, 'c, 'o, 'r) scmp_lib \<Rightarrow> 'r loader \<Rightarrow> Seccomp option \<Rightarrow> ((seccomp_load_error + int) \<times> 'r sys_event list) option" where
  "InitSeccomp lib ld config =
     (case config of
        None \<Rightarrow> Some (Inl NilConfig, [])
      | Some cfg \<Rightarrow>
          (case buildFilter lib cfg of
             Inl e \<Rightarrow> Some (Inl e, [])
           | Inr flt \<Rightarrow>
               (case PatchAndLoad lib ld cfg flt of
                  None \<Rightarrow> None
                | Some (Inl e, evs) \<Rightarrow> Some (Inl (LoadErr e), evs)
                | Some (Inr fd, evs) \<Rightarrow> Some (Inr fd, evs))))"
end
