(* ===== verification/SeccompLoadProps.thy ===== *)
theory SeccompLoadProps imports SeccompLoad begin

text \<open>
  What the filter built from a configuration does to a system call, under the documented behaviour of
  libseccomp, and from there what the seccomp section of a specification means.
\<close>

subsection \<open>Conditions and rules\<close>

type_synonym scmp_cond = "u64 \<times> ScmpCompareOp \<times> u64 \<times> u64"
type_synonym scmp_rule = "u32 \<times> ScmpAction \<times> scmp_cond list"

text \<open>How libseccomp compares an argument with the one or two values of a condition.\<close>

fun scmpCompare :: "ScmpCompareOp \<Rightarrow> u64 \<Rightarrow> u64 \<Rightarrow> u64 \<Rightarrow> bool" where
  "scmpCompare CompareInvalid x a b = False"
| "scmpCompare CompareNotEqual x a b = (x \<noteq> a)"
| "scmpCompare CompareLess x a b = (x < a)"
| "scmpCompare CompareLessOrEqual x a b = (x \<le> a)"
| "scmpCompare CompareEqual x a b = (x = a)"
| "scmpCompare CompareGreaterEqual x a b = (a \<le> x)"
| "scmpCompare CompareGreater x a b = (a < x)"
| "scmpCompare CompareMaskedEqual x a b = (x AND a = b)"

definition condHolds :: "(u64 \<Rightarrow> u64) \<Rightarrow> scmp_cond \<Rightarrow> bool" where
  "condHolds arg c = (case c of (i, op, a, b) \<Rightarrow> scmpCompare op (arg i) a b)"

text \<open>A rule applies to a call with that number for which all its conditions hold.\<close>

definition ruleHits :: "u32 \<Rightarrow> (u64 \<Rightarrow> u64) \<Rightarrow> ScmpAction \<Rightarrow> scmp_rule \<Rightarrow> bool" where
  "ruleHits nr arg act r \<longleftrightarrow> fst r = nr \<and> fst (snd r) = act \<and> list_all (condHolds arg) (snd (snd r))"

text \<open>
  The documented behaviour of libseccomp: a new filter has its default action and no rule, the two
  functions that add a rule add that one, and the others leave the rules alone. A condition is
  made of what it is given, for one of six arguments.
\<close>

definition lib_ok ::
  "('f, 'c, 'o, 'r) scmp_lib \<Rightarrow> ('f \<Rightarrow> scmp_rule list) \<Rightarrow> ('f \<Rightarrow> ScmpAction) \<Rightarrow> ('c \<Rightarrow> scmp_cond) \<Rightarrow> bool" where
  "lib_ok lib rules deflt view \<longleftrightarrow>
     (\<forall>a f. sl_NewFilter lib a = Inr f \<longrightarrow> rules f = [] \<and> deflt f = a) \<and>
     (\<forall>a f f'. sl_AddArch lib a f = Inr f' \<longrightarrow> rules f' = rules f \<and> deflt f' = deflt f) \<and>
     (\<forall>b f f'. sl_SetNoNewPrivsBit lib b f = Inr f' \<longrightarrow> rules f' = rules f \<and> deflt f' = deflt f) \<and>
     (\<forall>n a f f'. sl_AddRule lib n a f = Inr f' \<longrightarrow> rules f' = rules f @ [(n, a, [])] \<and> deflt f' = deflt f) \<and>
     (\<forall>n a cs f f'. sl_AddRuleConditional lib n a cs f = Inr f' \<longrightarrow>
        rules f' = rules f @ [(n, a, map view cs)] \<and> deflt f' = deflt f) \<and>
     (\<forall>i p a b c. sl_MakeCondition lib i p [a, b] = Inr c \<longrightarrow> view c = (i, p, a, b) \<and> i < 6)"

lemma lib_okD:
  assumes "lib_ok lib rules deflt view"
  shows "sl_NewFilter lib a = Inr f \<Longrightarrow> rules f = [] \<and> deflt f = a"
    and "sl_AddArch lib arch f = Inr f' \<Longrightarrow> rules f' = rules f \<and> deflt f' = deflt f"
    and "sl_SetNoNewPrivsBit lib b f = Inr f' \<Longrightarrow> rules f' = rules f \<and> deflt f' = deflt f"
    and "sl_AddRule lib n a f = Inr f' \<Longrightarrow> rules f' = rules f @ [(n, a, [])] \<and> deflt f' = deflt f"
    and "sl_AddRuleConditional lib n a cs f = Inr f' \<Longrightarrow> rules f' = rules f @ [(n, a, map view cs)] \<and> deflt f' = deflt f"
    and "sl_MakeCondition lib i p [v, w] = Inr c \<Longrightarrow> view c = (i, p, v, w) \<and> i < 6"
  using assms by (auto simp: lib_ok_def)

subsection \<open>The rules of one call\<close>

definition argCond :: "Arg \<Rightarrow> scmp_cond" where
  "argCond a = (a_Index a, getOperator (a_Op a), a_Value a, a_ValueTwo a)"

text \<open>With an argument that has two conditions, every condition is a rule of its own.\<close>

definition callRules :: "(string \<Rightarrow> u32 option) \<Rightarrow> ScmpAction \<Rightarrow> Syscall \<Rightarrow> scmp_rule list" where
  "callRules num defAct call =
     (let act = getAction (sc_Action call) (sc_ErrnoRet call) in
      if act = defAct then []
      else
        (case num (sc_Name call) of
           None \<Rightarrow> []
         | Some n \<Rightarrow>
             if distinct (map a_Index (sc_Args call)) then [(n, act, map argCond (sc_Args call))]
             else map (\<lambda>a. (n, act, [argCond a])) (sc_Args call)))"

lemma addCondition_Inr:
  "addCondition lib a st = Inr st' \<longleftrightarrow> (\<exists>c. getCondition lib a = Inr c \<and> unat (a_Index a) < length (fst st) \<and>
     st' = ((fst st)[unat (a_Index a) := fst st ! unat (a_Index a) + 1], snd st @ [c]))"
  by (auto simp: addCondition_def Let_def split: sum.splits)

lemma addConditions:
  assumes ok: "lib_ok lib rules deflt view"
    and "foldRes (addCondition lib) args (counts, conds) = Inr (counts', conds')"
  shows "\<exists>cs. conds' = conds @ cs \<and> map view cs = map argCond args \<and> length counts' = length counts \<and>
    (\<forall>i < length counts. counts' ! i = counts ! i + count_list (map (\<lambda>a. unat (a_Index a)) args) i) \<and>
    (\<forall>a \<in> set args. unat (a_Index a) < length counts)"
  using assms(2)
proof (induction args arbitrary: counts conds)
  case (Cons a args)
  obtain c where c: "getCondition lib a = Inr c" and i: "unat (a_Index a) < length counts"
    and rest: "foldRes (addCondition lib) args
      (counts[unat (a_Index a) := counts ! unat (a_Index a) + 1], conds @ [c]) = Inr (counts', conds')"
    using Cons.prems by (auto simp: andThen_Inr_iff addCondition_Inr)
  have v: "view c = argCond a"
    using c lib_okD(6) [OF ok] by (simp add: getCondition_def argCond_def)
  obtain cs where "conds' = (conds @ [c]) @ cs" "map view cs = map argCond args" "length counts' = length counts"
    "\<forall>i < length counts. counts' ! i = counts[unat (a_Index a) := counts ! unat (a_Index a) + 1] ! i
       + count_list (map (\<lambda>a. unat (a_Index a)) args) i"
    "\<forall>a \<in> set args. unat (a_Index a) < length counts"
    using Cons.IH [OF rest] by auto
  then show ?case using v i by (intro exI [of _ "c # cs"]) (auto simp: nth_list_update)
qed simp

lemma distinct_count_list: "distinct xs \<longleftrightarrow> (\<forall>x \<in> set xs. count_list xs x \<le> 1)"
  by (induction xs) (auto simp: count_list_0_iff count_notin)

lemma counts_multiple:
  assumes "length counts = n" "\<forall>i < n. counts ! i = count_list (map (\<lambda>a. unat (a_Index a)) args) i"
    "\<forall>a \<in> set args. unat (a_Index a) < n"
  shows "list_ex (\<lambda>count. 1 < count) counts \<longleftrightarrow> \<not> distinct (map a_Index args)"
proof -
  have "distinct (map (\<lambda>a. unat (a_Index a)) args) \<longleftrightarrow> distinct (map a_Index args)"
    by (simp add: distinct_map inj_on_def word_unat_eq_iff [symmetric])
  moreover have "list_ex (\<lambda>count. 1 < count) counts \<longleftrightarrow>
      (\<exists>i < n. 1 < count_list (map (\<lambda>a. unat (a_Index a)) args) i)"
    using assms(1,2) by (auto simp: list_ex_length)
  moreover have "\<dots> \<longleftrightarrow> \<not> distinct (map (\<lambda>a. unat (a_Index a)) args)"
  proof -
    have "i < n" if "i \<in> set (map (\<lambda>a. unat (a_Index a)) args)" for i using assms(3) that by auto
    moreover have "i \<in> set (map (\<lambda>a. unat (a_Index a)) args)" if "1 < count_list (map (\<lambda>a. unat (a_Index a)) args) i" for i
      using that count_notin by fastforce
    ultimately show ?thesis unfolding distinct_count_list not_le [symmetric] by blast
  qed
  ultimately show ?thesis by simp
qed

lemma addSyscallRule_Inr: "addSyscallRule lib name n act cs f = Inr f' \<longleftrightarrow> sl_AddRuleConditional lib n act cs f = Inr f'"
  by (auto simp: addSyscallRule_def split: sum.splits)

lemma addRules_each:
  assumes ok: "lib_ok lib rules deflt view"
    and "foldRes (\<lambda>cond. addSyscallRule lib name n act [cond]) cs f = Inr f'"
  shows "rules f' = rules f @ map (\<lambda>c. (n, act, [view c])) cs \<and> deflt f' = deflt f"
  using assms(2)
proof (induction cs arbitrary: f)
  case (Cons c cs)
  obtain f1 where f1: "sl_AddRuleConditional lib n act [c] f = Inr f1"
      "foldRes (\<lambda>cond. addSyscallRule lib name n act [cond]) cs f1 = Inr f'"
    using Cons.prems by (auto simp: andThen_Inr_iff addSyscallRule_Inr)
  then show ?case using Cons.IH [OF f1(2)] lib_okD(5) [OF ok f1(1)] by simp
qed simp

lemma addConditional_rules:
  assumes ok: "lib_ok lib rules deflt view" and r: "addConditional lib call n act f = Inr f'"
  shows "rules f' = rules f @ (if distinct (map a_Index (sc_Args call)) then [(n, act, map argCond (sc_Args call))]
      else map (\<lambda>a. (n, act, [argCond a])) (sc_Args call)) \<and> deflt f' = deflt f"
proof -
  obtain counts cs where
    fold: "foldRes (addCondition lib) (sc_Args call) (replicate syscallMaxArguments 0, []) = Inr (counts, cs)"
    and rest: "(if list_ex (\<lambda>count. 1 < count) counts
      then foldRes (\<lambda>cond. addSyscallRule lib (sc_Name call) n act [cond]) cs f
      else addSyscallRule lib (sc_Name call) n act cs f) = Inr f'"
    using r by (auto simp: addConditional_def andThen_Inr_iff Let_def)
  have view: "map view cs = map argCond (sc_Args call)"
    and counts: "length counts = 6" "\<forall>i < 6. counts ! i = count_list (map (\<lambda>a. unat (a_Index a)) (sc_Args call)) i"
      "\<forall>a \<in> set (sc_Args call). unat (a_Index a) < 6"
    using addConditions [OF ok fold] by (auto simp: syscallMaxArguments_def)
  have "map (\<lambda>c. (n, act, [view c])) cs = map (\<lambda>c. (n, act, [c])) (map view cs)" by simp
  then show ?thesis
    using rest counts_multiple [OF counts] addRules_each [OF ok] lib_okD(5) [OF ok]
    by (auto simp: view addSyscallRule_Inr comp_def split: if_splits)
qed

lemma matchCall_rules:
  assumes ok: "lib_ok lib rules deflt view" and r: "matchCall lib d call f = Inr f'"
  shows "rules f' = rules f @ callRules (sl_GetSyscallFromName lib) d call \<and> deflt f' = deflt f"
  using r addConditional_rules [OF ok] lib_okD(4) [OF ok]
  by (auto simp: matchCall_def callRules_def Let_def split: if_splits option.splits sum.splits)

lemma matchCalls_rules:
  assumes ok: "lib_ok lib rules deflt view" and "foldRes (matchCall lib d) calls f = Inr f'"
  shows "rules f' = rules f @ concat (map (callRules (sl_GetSyscallFromName lib) d) calls) \<and> deflt f' = deflt f"
  using assms(2)
proof (induction calls arbitrary: f)
  case (Cons call calls)
  then obtain f1 where "matchCall lib d call f = Inr f1" "foldRes (matchCall lib d) calls f1 = Inr f'"
    by (auto simp: andThen_Inr_iff)
  then show ?case using Cons.IH matchCall_rules [OF ok] by fastforce
qed simp

lemma addArchs_rules:
  assumes ok: "lib_ok lib rules deflt view" and "foldRes (addArch lib) names f = Inr f'"
  shows "rules f' = rules f \<and> deflt f' = deflt f"
  using assms(2)
  by (rule foldRes_invariant) (auto simp: addArch_def dest: lib_okD(2) [OF ok] split: sum.splits)

lemma buildFilter_rules:
  assumes ok: "lib_ok lib rules deflt view" and b: "buildFilter lib config = Inr f"
  shows "deflt f = getAction (se_DefaultAction config) (se_DefaultErrnoRet config) \<and>
    rules f = concat (map (callRules (sl_GetSyscallFromName lib) (deflt f)) (se_Syscalls config)) \<and>
    checkNotify (sl_API lib) (se_Syscalls config) = None"
proof -
  let ?d = "getAction (se_DefaultAction config) (se_DefaultErrnoRet config)"
  have n: "checkNotify (sl_API lib) (se_Syscalls config) = None" and d: "?d \<noteq> ActNotify"
    using b by (auto simp: buildFilter_def Let_def split: option.splits if_splits)
  obtain f0 where f0: "sl_NewFilter lib ?d = Inr f0"
    using b n d by (cases "sl_NewFilter lib ?d") (simp_all add: buildFilter_def Let_def)
  obtain f1 where f1: "foldRes (addArch lib) (se_Architectures config) f0 = Inr f1"
    and "(case sl_SetNoNewPrivsBit lib False f1 of
        Inl e \<Rightarrow> Inl (NnpErr e) | Inr f2 \<Rightarrow> foldRes (matchCall lib ?d) (se_Syscalls config) f2) = Inr f"
    using b n d f0 by (auto simp: buildFilter_def Let_def andThen_Inr_iff)
  then obtain f2 where f2: "sl_SetNoNewPrivsBit lib False f1 = Inr f2"
    and f: "foldRes (matchCall lib ?d) (se_Syscalls config) f2 = Inr f"
    by (auto split: sum.splits)
  show ?thesis
    using lib_okD(1) [OF ok f0] addArchs_rules [OF ok f1] lib_okD(3) [OF ok f2] matchCalls_rules [OF ok f] n
    by simp
qed

lemma checkNotify_None:
  "checkNotify level calls = None \<Longrightarrow> call \<in> set calls \<Longrightarrow> sc_Action call = Notify \<Longrightarrow> 6 \<le> level \<and> sc_Name call \<noteq> ''write''"
  by (induction level calls rule: checkNotify.induct) (auto split: if_splits)

subsection \<open>What a section means\<close>

fun opHolds :: "Operator \<Rightarrow> u64 \<Rightarrow> u64 \<Rightarrow> u64 \<Rightarrow> bool" where
  "opHolds EqualTo x a b = (x = a)"
| "opHolds NotEqualTo x a b = (x \<noteq> a)"
| "opHolds GreaterThan x a b = (a < x)"
| "opHolds GreaterThanOrEqualTo x a b = (a \<le> x)"
| "opHolds LessThan x a b = (x < a)"
| "opHolds LessThanOrEqualTo x a b = (x \<le> a)"
| "opHolds MaskEqualTo x a b = (x AND a = b)"

text \<open>The condition of a section on an argument, and the rule of a block for one of its names.\<close>

definition specArgHolds :: "(u64 \<Rightarrow> u64) \<Rightarrow> LinuxSeccompArg \<Rightarrow> bool" where
  "specArgHolds arg x =
     (case map_of operators (la_Op x) of
        None \<Rightarrow> False
      | Some p \<Rightarrow> opHolds p (arg (la_Index x)) (la_Value x) (la_ValueTwo x))"

definition specApplies :: "(u64 \<Rightarrow> u64) \<Rightarrow> LinuxSyscall \<Rightarrow> bool" where
  "specApplies arg call =
     (if distinct (map la_Index (ls_Args call)) then list_all (specArgHolds arg) (ls_Args call)
      else list_ex (specArgHolds arg) (ls_Args call))"

definition specAction :: "string \<Rightarrow> u64 option \<Rightarrow> ScmpAction option" where
  "specAction act errnoRet = map_option (\<lambda>a. getAction a errnoRet) (map_of actions act)"

definition specHits ::
  "(string \<Rightarrow> u32 option) \<Rightarrow> u32 \<Rightarrow> (u64 \<Rightarrow> u64) \<Rightarrow> ScmpAction \<Rightarrow> LinuxSyscall \<times> string \<Rightarrow> bool" where
  "specHits num nr arg act cn \<longleftrightarrow>
     num (snd cn) = Some nr \<and> specAction (ls_Action (fst cn)) (ls_ErrnoRet (fst cn)) = Some act \<and>
     specApplies arg (fst cn)"

lemma scmpCompare_op: "scmpCompare (getOperator p) x a b = opHolds p x a b"
  by (cases p) auto

lemma argMeans_holds: "argMeans x y \<Longrightarrow> condHolds arg (argCond y) = specArgHolds arg x"
  by (auto simp: argMeans_def condHolds_def argCond_def specArgHolds_def scmpCompare_op)

lemma callRules_hit:
  assumes m: "callMeans cn y"
  shows "list_ex (ruleHits nr arg act) (callRules num d y) \<longleftrightarrow> act \<noteq> d \<and> specHits num nr arg act cn"
proof -
  let ?xs = "ls_Args (fst cn)" and ?ys = "sc_Args y"
  have args: "list_all2 argMeans ?xs ?ys" using m by (simp add: callMeans_def)
  have idx: "map a_Index ?ys = map la_Index ?xs"
    using args by (induction rule: list_all2_induct) (auto simp: argMeans_def)
  have all: "list_all (condHolds arg) (map argCond ?ys) = list_all (specArgHolds arg) ?xs"
    using args by (induction rule: list_all2_induct) (auto simp: argMeans_holds)
  have ex: "list_ex (\<lambda>a. condHolds arg (argCond a)) ?ys = list_ex (specArgHolds arg) ?xs"
    using args by (induction rule: list_all2_induct) (auto simp: argMeans_holds)
  have act: "specAction (ls_Action (fst cn)) (ls_ErrnoRet (fst cn)) = Some (getAction (sc_Action y) (sc_ErrnoRet y))"
    and name: "sc_Name y = snd cn" using m by (simp_all add: callMeans_def specAction_def)
  have ex': "list_ex (ruleHits nr arg act) (map (\<lambda>a. (n, b, [argCond a])) zs) \<longleftrightarrow>
      n = nr \<and> b = act \<and> list_ex (\<lambda>a. condHolds arg (argCond a)) zs" for n b and zs :: "Arg list"
    by (induction zs) (auto simp: ruleHits_def)
  have all': "ruleHits nr arg act (n, b, cs) \<longleftrightarrow> n = nr \<and> b = act \<and> list_all (condHolds arg) cs" for n b cs
    by (simp add: ruleHits_def)
  show ?thesis
    unfolding specHits_def specApplies_def callRules_def Let_def act name idx
    by (simp add: ex' all' all ex split: option.split) auto
qed

lemma concat_hit:
  "list_all2 callMeans cns ys \<Longrightarrow>
     list_ex (ruleHits nr arg act) (concat (map (callRules num d) ys)) \<longleftrightarrow> act \<noteq> d \<and> list_ex (specHits num nr arg act) cns"
  by (induction rule: list_all2_induct) (auto simp: callRules_hit)

text \<open>The program that reaches the kernel is the ENOSYS stub, then what libseccomp exports for the filter.\<close>

definition kernelProgram :: "'r sys_event \<Rightarrow> 'r list option" where
  "kernelProgram ev = (case ev of SetNoNewPrivs \<Rightarrow> None | PrctlFilter len p \<Rightarrow> Some p | SeccompFilter flags len p \<Rightarrow> Some p)"

definition isPatched :: "('f, 'c, 'o, 'r) scmp_lib \<Rightarrow> Seccomp \<Rightarrow> 'f \<Rightarrow> 'r list \<Rightarrow> bool" where
  "isPatched lib config flt fprog \<longleftrightarrow>
     (\<exists>patch prog. generatePatch (sl_Env lib) config = Some (Inr patch) \<and> disassembleFilter lib flt = Inr prog \<and>
        sl_Assemble lib (patch @ prog) = Some fprog)"

lemma enosysPatchFilter_Inr:
  "enosysPatchFilter (sl_Env lib) (sl_Assemble lib) (disassembleFilter lib flt) config = Some (Inr fprog) \<Longrightarrow>
     isPatched lib config flt fprog"
  by (auto simp: enosysPatchFilter_def isPatched_def split: sum.splits option.splits)

lemma sysSeccompSetFilter_Inr:
  "sysSeccompSetFilter ld flags fprog = (Inr fd, evs) \<Longrightarrow> map kernelProgram evs = [Some fprog]"
  by (auto simp: sysSeccompSetFilter_def kernelProgram_def Let_def split: if_splits prod.splits option.splits)

lemma PatchAndLoad_Inr:
  assumes "PatchAndLoad lib ld config flt = Some (Inr fd, evs)"
  shows "\<exists>fprog. isPatched lib config flt fprog \<and> evs \<noteq> [] \<and> kernelProgram (last evs) = Some fprog"
proof -
  obtain fprog where p: "enosysPatchFilter (sl_Env lib) (sl_Assemble lib) (disassembleFilter lib flt) config = Some (Inr fprog)"
    using assms unfolding PatchAndLoad_def by (simp split: option.splits sum.splits)
  have "evs \<noteq> [] \<and> kernelProgram (last evs) = Some fprog"
    using assms p sysSeccompSetFilter_Inr [of ld _ fprog fd]
    by (fastforce simp: PatchAndLoad_def split: sum.splits prod.splits if_splits option.splits)
  then show ?thesis using enosysPatchFilter_Inr [OF p] by blast
qed

lemma InitSeccomp_Inr:
  assumes "InitSeccomp lib ld (Some config) = Some (Inr fd, evs)"
  shows "\<exists>flt. buildFilter lib config = Inr flt \<and> PatchAndLoad lib ld config flt = Some (Inr fd, evs)"
  using assms unfolding InitSeccomp_def by (simp split: sum.splits option.splits prod.splits)

text \<open>C31. If a seccomp section is converted and its filter loaded, then the program the kernel gets
  last is the ENOSYS stub followed by a filter with the default action of the section, in which a
  call with any number and arguments is given an action by some rule exactly when the section gives
  it: a block with that action names a call of that number, the action is not the default one, and
  the conditions of the block hold -- all of them if each is on another argument, and any one of
  them as soon as two are on the same argument.\<close>

theorem loaded_filter_means_section:
  assumes ok: "lib_ok lib rules deflt view"
    and conv: "SetupSeccomp (Some spec) = Inr (Some config)"
    and load: "InitSeccomp lib ld (Some config) = Some (Inr fd, evs)"
  shows "\<exists>flt fprog. isPatched lib config flt fprog \<and> kernelProgram (last evs) = Some fprog \<and>
    specAction (lx_DefaultAction spec) (lx_DefaultErrnoRet spec) = Some (deflt flt) \<and>
    (\<forall>nr arg act. list_ex (ruleHits nr arg act) (rules flt) \<longleftrightarrow>
       act \<noteq> deflt flt \<and> list_ex (specHits (sl_GetSyscallFromName lib) nr arg act) (specRules spec))"
proof -
  obtain flt where b: "buildFilter lib config = Inr flt" and l: "PatchAndLoad lib ld config flt = Some (Inr fd, evs)"
    using InitSeccomp_Inr [OF load] by blast
  obtain fprog where p: "isPatched lib config flt fprog" "kernelProgram (last evs) = Some fprog"
    using PatchAndLoad_Inr [OF l] by blast
  have calls: "list_all2 callMeans (specRules spec) (se_Syscalls config)"
    and d: "map_of actions (lx_DefaultAction spec) = Some (se_DefaultAction config)"
    using setup_seccomp_means [OF conv] by simp_all
  have e: "se_DefaultErrnoRet config = lx_DefaultErrnoRet spec"
    using conv by (auto simp: SetupSeccomp_def andThen_Inr_iff split: if_splits)
  show ?thesis
    using p buildFilter_rules [OF ok b] d e concat_hit [OF calls, of _ _ _ "sl_GetSyscallFromName lib" "deflt flt"]
    by (intro exI [of _ flt] exI [of _ fprog]) (auto simp: specAction_def)
qed

lemma notify_never_on_write:
  assumes ok: "lib_ok lib rules deflt view" and load: "InitSeccomp lib ld (Some config) = Some (Inr fd, evs)"
    and "call \<in> set (se_Syscalls config)" "sc_Action call = Notify"
  shows "6 \<le> sl_API lib \<and> sc_Name call \<noteq> ''write''"
  using InitSeccomp_Inr [OF load] buildFilter_rules [OF ok] checkNotify_None assms(3,4) by blast

subsection \<open>An instance\<close>

text \<open>A library that keeps its rules in a list, and a section that denies a call by either of two masks.\<close>

definition exampleLib :: "(ScmpAction \<times> scmp_rule list, scmp_cond, unit, unit bpf_insn) scmp_lib" where
  "exampleLib =
     \<lparr>sl_API = 6, sl_NewFilter = (\<lambda>a. Inr (a, [])), sl_AddArch = (\<lambda>a f. Inr f),
      sl_SetNoNewPrivsBit = (\<lambda>b f. Inr f), sl_GetNoNewPrivsBit = (\<lambda>f. Inr False), sl_GetLogBit = (\<lambda>f. Inr False),
      sl_GetSyscallFromName = map_of [(''clone'', 56)],
      sl_MakeCondition = (\<lambda>i p vs. if i < 6 then Inr (i, p, vs ! 0, vs ! 1) else Inl ''argument''),
      sl_AddRule = (\<lambda>n a f. Inr (fst f, snd f @ [(n, a, [])])),
      sl_AddRuleConditional = (\<lambda>n a cs f. Inr (fst f, snd f @ [(n, a, cs)])),
      sl_ExportBPF = (\<lambda>f. Inr []), sl_Disassemble = (\<lambda>p. ([RetConstant 0], True)), sl_Assemble = Some,
      sl_Env =
        \<lparr>le_ArchFromString = (\<lambda>s. Inr ArchAMD64), le_NativeArch = Inr ArchAMD64, le_Syscall = (\<lambda>s a. None),
         le_ArchOrder = id, le_AuditOrder = id\<rparr>\<rparr>"

definition exampleDeny :: LinuxSeccomp where
  "exampleDeny =
     \<lparr>lx_DefaultAction = ''SCMP_ACT_ALLOW'', lx_DefaultErrnoRet = None,
      lx_Architectures = [''SCMP_ARCH_X86_64''], lx_Flags = [], lx_ListenerPath = [],
      lx_ListenerMetadata = [],
      lx_Syscalls =
        [\<lparr>ls_Names = [''clone'', ''clone9''], ls_Action = ''SCMP_ACT_ERRNO'', ls_ErrnoRet = Some 38,
          ls_Args = [\<lparr>la_Index = 0, la_Value = 1, la_ValueTwo = 1, la_Op = ''SCMP_CMP_MASKED_EQ''\<rparr>,
                     \<lparr>la_Index = 0, la_Value = 4, la_ValueTwo = 4, la_Op = ''SCMP_CMP_MASKED_EQ''\<rparr>]\<rparr>]\<rparr>"

definition exampleDenyConfig :: Seccomp where
  "exampleDenyConfig =
     (let args = [\<lparr>a_Index = 0, a_Value = 1, a_ValueTwo = 1, a_Op = MaskEqualTo\<rparr>,
                  \<lparr>a_Index = 0, a_Value = 4, a_ValueTwo = 4, a_Op = MaskEqualTo\<rparr>] in
      \<lparr>se_DefaultAction = Allow, se_Architectures = [''amd64''],
       se_Syscalls =
         [\<lparr>sc_Name = ''clone'', sc_Action = Errno, sc_ErrnoRet = Some 38, sc_Args = args\<rparr>,
          \<lparr>sc_Name = ''clone9'', sc_Action = Errno, sc_ErrnoRet = Some 38, sc_Args = args\<rparr>],
       se_DefaultErrnoRet = None, se_ListenerPath = [], se_ListenerMetadata = []\<rparr>)"

definition exampleLoader :: "unit bpf_insn loader" where
  "exampleLoader = \<lparr>lo_NoNewPrivs = None, lo_Prctl = (\<lambda>len p. None), lo_Seccomp = (\<lambda>fl len p. (7, None))\<rparr>"

lemma exampleLib_ok: "lib_ok exampleLib snd fst id"
  by (auto simp: lib_ok_def exampleLib_def split: if_splits)

lemma exampleDeny_config: "SetupSeccomp (Some exampleDeny) = Inr (Some exampleDenyConfig)"
  by (simp add: SetupSeccomp_def exampleDeny_def exampleDenyConfig_def ConvertStringToArch_def
      ConvertStringToAction_def ConvertStringToOperator_def convertCall_def convertName_def convertArg_def
      archs_def actions_def operators_def Let_def)

lemma six_counters: "replicate syscallMaxArguments (0 :: nat) = [0, 0, 0, 0, 0, 0]"
  by (simp add: syscallMaxArguments_def eval_nat_numeral)

lemma exampleDeny_filter:
  "buildFilter exampleLib exampleDenyConfig =
     Inr (ActAllow, [(56, ActErrno 38, [(0, CompareMaskedEqual, 1, 1)]), (56, ActErrno 38, [(0, CompareMaskedEqual, 4, 4)])])"
  by (simp add: buildFilter_def exampleLib_def exampleDenyConfig_def getAction_def retCode_def addArch_def matchCall_def
      addConditional_def addCondition_def getCondition_def addSyscallRule_def six_counters Let_def)

lemma exampleDeny_loaded:
  "InitSeccomp exampleLib exampleLoader (Some exampleDenyConfig) = Some (Inr (-1), [PrctlFilter 1 [RetConstant 0]])"
  unfolding InitSeccomp_def option.case exampleDeny_filter sum.case
  by (simp add: PatchAndLoad_def enosysPatchFilter_def disassembleFilter_def generatePatch_def exampleLib_def
      exampleDenyConfig_def filterFlags_def sysSeccompSetFilter_def exampleLoader_def Let_def)

theorem loaded_filter_means_section_witness:
  "\<exists>flt fprog. isPatched exampleLib exampleDenyConfig flt fprog \<and>
     kernelProgram (last [PrctlFilter 1 [RetConstant 0]]) = Some fprog \<and> fst flt = ActAllow \<and>
     list_ex (ruleHits 56 (\<lambda>i. 4) (ActErrno 38)) (snd flt) \<and>
     \<not> list_ex (ruleHits 56 (\<lambda>i. 2) (ActErrno 38)) (snd flt)"
proof -
  have hits: "list_ex (specHits (sl_GetSyscallFromName exampleLib) 56 (\<lambda>i. 4) (ActErrno 38)) (specRules exampleDeny)"
      "\<not> list_ex (specHits (sl_GetSyscallFromName exampleLib) 56 (\<lambda>i. 2) (ActErrno 38)) (specRules exampleDeny)"
    by (simp_all add: specHits_def specRules_def exampleDeny_def exampleLib_def specAction_def specApplies_def
        specArgHolds_def actions_def operators_def getAction_def retCode_def)
  have d: "specAction (lx_DefaultAction exampleDeny) (lx_DefaultErrnoRet exampleDeny) = Some ActAllow"
    by (simp add: specAction_def exampleDeny_def actions_def getAction_def)
  obtain flt fprog where f: "isPatched exampleLib exampleDenyConfig flt fprog"
      "kernelProgram (last [PrctlFilter 1 [RetConstant 0]]) = Some fprog" "fst flt = ActAllow"
    and r: "\<And>nr arg act. list_ex (ruleHits nr arg act) (snd flt) \<longleftrightarrow>
       act \<noteq> fst flt \<and> list_ex (specHits (sl_GetSyscallFromName exampleLib) nr arg act) (specRules exampleDeny)"
    using loaded_filter_means_section [OF exampleLib_ok exampleDeny_config exampleDeny_loaded] d by auto
  show ?thesis
    using f hits by (intro exI [of _ flt] exI [of _ fprog]) (simp add: r)
qed
end
