(* ===== verification/RootFs.thy ===== *)
theory RootFs imports Paths begin

text \<open>
  Making and opening a directory below a root that others may be changing: IsLexicallyInRoot and
  MkdirAllInRootOpen of utils/utils_unix.go, over the openat(2) and mkdirat(2) wrappers of
  system/linux.go. The kernel is a parameter whose answers depend on a state that the code does not
  see, so that another process may change the directories between any two calls.
\<close>

unbundle bit_operations_syntax

subsection \<open>filepath.Rel\<close>

fun stripCommon :: "string list \<Rightarrow> string list \<Rightarrow> string list \<times> string list" where
  "stripCommon (b # bs) (t # ts) = (if b = t then stripCommon bs ts else (b # bs, t # ts))"
| "stripCommon bs ts = (bs, ts)"

definition pathWords :: "string \<Rightarrow> string list" where
  "pathWords p = filter (\<lambda>w. w \<noteq> []) (Split (CHR ''/'') p)"

definition FilepathRel :: "string \<Rightarrow> string \<Rightarrow> string option" where
  "FilepathRel basepath targpath =
     (let base = Clean basepath; targ = Clean targpath in
      if targ = base then Some ''.''
      else
        (let base' = (if base = ''.'' then [] else base) in
         if IsAbs base' \<noteq> IsAbs targ then None
         else
           (case stripCommon (pathWords base') (pathWords targ) of
              (bs, ts) \<Rightarrow>
                if bs \<noteq> [] \<and> hd bs = ''..'' then None
                else Some (Join ''/'' (replicate (length bs) ''..'' @ ts)))))"

subsection \<open>The calls\<close>

datatype open_flag = O_DIRECTORY | O_NOFOLLOW | O_CLOEXEC

text \<open>The code tells these errors apart.\<close>

datatype open_error = Enotdir | Enoent | OtherOpen string

text \<open>An open directory: its descriptor and the name given to it.\<close>

record 'h dir_file =
  df_Fd :: 'h
  df_Name :: string

datatype 'h dir_event =
    RootOpened string "open_flag list" "open_error + 'h"
  | OpenedAt 'h string "open_flag list" "open_error + 'h"
  | MadeAt 'h string u32 "string option"
  | DirClosed 'h

record ('h, 's) dir_kernel =
  dk_Open :: "string \<Rightarrow> open_flag list \<Rightarrow> 's \<Rightarrow> (open_error + 'h) \<times> 's"
  dk_Openat :: "'h \<Rightarrow> string \<Rightarrow> open_flag list \<Rightarrow> 's \<Rightarrow> (open_error + 'h) \<times> 's"
  dk_Mkdirat :: "'h \<Rightarrow> string \<Rightarrow> u32 \<Rightarrow> 's \<Rightarrow> string option \<times> 's"
  dk_Close :: "'h \<Rightarrow> 's \<Rightarrow> 's"

text \<open>The name of a file opened below a directory is only used in messages.\<close>

definition prepareAt :: "'h dir_file \<Rightarrow> string \<Rightarrow> 'h \<times> string" where
  "prepareAt dir path =
     (let dirName = df_Name dir;
          dirName = (if HasSuffix dirName ''/'' then dirName else dirName @ ''/'')
      in (df_Fd dir, dirName @ path))"

definition Openat ::
  "('h, 's) dir_kernel \<Rightarrow> 'h dir_file \<Rightarrow> string \<Rightarrow> open_flag list \<Rightarrow> 's \<Rightarrow> (open_error + 'h dir_file) \<times> 'h dir_event list \<times> 's" where
  "Openat k dir path flags s =
     (case prepareAt dir path of
        (dirFd, fullPath) \<Rightarrow>
          (case dk_Openat k dirFd path flags s of
             (r, s') \<Rightarrow>
               ((case r of Inl e \<Rightarrow> Inl e | Inr fd \<Rightarrow> Inr \<lparr>df_Fd = fd, df_Name = fullPath\<rparr>),
                [OpenedAt dirFd path flags r], s')))"

definition Mkdirat ::
  "('h, 's) dir_kernel \<Rightarrow> 'h dir_file \<Rightarrow> string \<Rightarrow> u32 \<Rightarrow> 's \<Rightarrow> string option \<times> 'h dir_event list \<times> 's" where
  "Mkdirat k dir path mode s =
     (case prepareAt dir path of
        (dirFd, fullPath) \<Rightarrow>
          (case dk_Mkdirat k dirFd path mode s of
             (r, s') \<Rightarrow> (r, [MadeAt dirFd path mode r], s')))"

definition closeDir :: "('h, 's) dir_kernel \<Rightarrow> 'h dir_file \<Rightarrow> 's \<Rightarrow> 'h dir_event list \<times> 's" where
  "closeDir k dir s = ([DirClosed (df_Fd dir)], dk_Close k (df_Fd dir) s)"

subsection \<open>MkdirAllInRoot\<close>

definition IsLexicallyInRoot :: "string \<Rightarrow> string \<Rightarrow> bool" where
  "IsLexicallyInRoot root path =
     HasPrefix (if path \<noteq> ''/'' then path @ ''/'' else path) (if root \<noteq> ''/'' then root @ ''/'' else root)"

datatype mkdir_error =
    SecureJoinErr string | RelErr | ModeErr u32 | OpenRootErr open_error
  | Breakout string | NotADirectory string string | MkdirFailed string | OpenNewErr open_error | OpenFailed open_error

type_synonym ('h, 's) mk_result = "(mkdir_error + 'h dir_file) \<times> 'h dir_event list \<times> 's"

text \<open>On an error the current directory is closed.\<close>

definition failDir :: "('h, 's) dir_kernel \<Rightarrow> 'h dir_file \<Rightarrow> mkdir_error \<Rightarrow> 's \<Rightarrow> ('h, 's) mk_result" where
  "failDir k dir e s = (case closeDir k dir s of (ev, s') \<Rightarrow> (Inl e, ev, s'))"

definition after :: "'h dir_event list \<Rightarrow> ('h, 's) mk_result \<Rightarrow> ('h, 's) mk_result" where
  "after evs r = (case r of (x, evs', s) \<Rightarrow> (x, evs @ evs', s))"

definition dirFlags :: "open_flag list" where "dirFlags = [O_DIRECTORY, O_NOFOLLOW, O_CLOEXEC]"

fun mkdirParts :: "('h, 's) dir_kernel \<Rightarrow> u32 \<Rightarrow> string \<Rightarrow> string list \<Rightarrow> 'h dir_file \<Rightarrow> 's \<Rightarrow> ('h, 's) mk_result" where
  "mkdirParts k mode subPath [] currentDir s = (Inr currentDir, [], s)"
| "mkdirParts k mode subPath (part # parts) currentDir s =
     (if part = [] \<or> part = ''.'' then mkdirParts k mode subPath parts currentDir s
      else if part = ''..'' then failDir k currentDir (Breakout subPath) s
      else
        (case Openat k currentDir part dirFlags s of
           (Inr nextDir, ev1, s1) \<Rightarrow>
             (case closeDir k currentDir s1 of
                (ev2, s2) \<Rightarrow> after (ev1 @ ev2) (mkdirParts k mode subPath parts nextDir s2))
         | (Inl Enotdir, ev1, s1) \<Rightarrow> after ev1 (failDir k currentDir (NotADirectory (df_Name currentDir) part) s1)
         | (Inl Enoent, ev1, s1) \<Rightarrow>
             (case Mkdirat k currentDir part mode s1 of
                (Some e, ev2, s2) \<Rightarrow> after (ev1 @ ev2) (failDir k currentDir (MkdirFailed e) s2)
              | (None, ev2, s2) \<Rightarrow>
                  (case Openat k currentDir part dirFlags s2 of
                     (Inl e, ev3, s3) \<Rightarrow> after (ev1 @ ev2 @ ev3) (failDir k currentDir (OpenNewErr e) s3)
                   | (Inr nextDir, ev3, s3) \<Rightarrow>
                       (case closeDir k currentDir s3 of
                          (ev4, s4) \<Rightarrow>
                            after (ev1 @ ev2 @ ev3 @ ev4) (mkdirParts k mode subPath parts nextDir s4))))
         | (Inl (OtherOpen e), ev1, s1) \<Rightarrow> after ev1 (failDir k currentDir (OpenFailed (OtherOpen e)) s1)))"

text \<open>\<open>sj\<close> is \<open>securejoin.SecureJoin\<close>.\<close>

definition mkdirTarget :: "(string \<Rightarrow> string \<Rightarrow> string + string) \<Rightarrow> string \<Rightarrow> string \<Rightarrow> string + string" where
  "mkdirTarget sj root unsafePath = (if IsLexicallyInRoot root unsafePath then Inr unsafePath else sj root unsafePath)"

definition MkdirAllInRootOpen ::
  "('h, 's) dir_kernel \<Rightarrow> (string \<Rightarrow> string \<Rightarrow> string + string) \<Rightarrow> string \<Rightarrow> string \<Rightarrow> u32 \<Rightarrow> 's \<Rightarrow> ('h, 's) mk_result" where
  "MkdirAllInRootOpen k sj root unsafePath mode s =
     (case mkdirTarget sj root unsafePath of
        Inl e \<Rightarrow> (Inl (SecureJoinErr e), [], s)
      | Inr fullPath \<Rightarrow>
          (case FilepathRel root fullPath of
             None \<Rightarrow> (Inl RelErr, [], s)
           | Some subPath \<Rightarrow>
               if mode AND NOT 0xFFF \<noteq> 0 then (Inl (ModeErr mode), [], s)
               else
                 (case dk_Open k root [O_DIRECTORY, O_CLOEXEC] s of
                    (Inl e, s1) \<Rightarrow> (Inl (OpenRootErr e), [RootOpened root [O_DIRECTORY, O_CLOEXEC] (Inl e)], s1)
                  | (Inr fd, s1) \<Rightarrow>
                      after [RootOpened root [O_DIRECTORY, O_CLOEXEC] (Inr fd)]
                        (mkdirParts k mode subPath (Split (CHR ''/'') subPath) \<lparr>df_Fd = fd, df_Name = root\<rparr> s1))))"

definition MkdirAllInRoot ::
  "('h, 's) dir_kernel \<Rightarrow> (string \<Rightarrow> string \<Rightarrow> string + string) \<Rightarrow> string \<Rightarrow> string \<Rightarrow> u32 \<Rightarrow> 's \<Rightarrow>
     mkdir_error option \<times> 'h dir_event list \<times> 's" where
  "MkdirAllInRoot k sj root unsafePath mode s =
     (case MkdirAllInRootOpen k sj root unsafePath mode s of
        (Inl e, evs, s1) \<Rightarrow> (Some e, evs, s1)
      | (Inr f, evs, s1) \<Rightarrow> (case closeDir k f s1 of (ev, s2) \<Rightarrow> (None, evs @ ev, s2)))"

subsection \<open>A walk down from the root\<close>

text \<open>
  A walk starts in an open directory and goes down: it only opens a directory or makes one inside
  the current one, by a proper name and without following a symbolic link, and moves to the opened
  directory by closing the one it leaves. What is left is the directory still open, if any, and the
  names walked.
\<close>

fun dirWalk :: "u32 \<Rightarrow> 'h \<Rightarrow> 'h dir_event list \<Rightarrow> ('h option \<times> string list) option" where
  "dirWalk mode cur [] = Some (Some cur, [])"
| "dirWalk mode cur (OpenedAt fd part flags (Inl e) # evs) =
     (if fd = cur \<and> elem_ok part \<and> flags = dirFlags then dirWalk mode cur evs else None)"
| "dirWalk mode cur (MadeAt fd part m r # evs) =
     (if fd = cur \<and> elem_ok part \<and> m = mode then dirWalk mode cur evs else None)"
| "dirWalk mode cur (OpenedAt fd part flags (Inr fd') # DirClosed c # evs) =
     (if fd = cur \<and> elem_ok part \<and> flags = dirFlags \<and> c = cur
      then map_option (\<lambda>(h, ps). (h, part # ps)) (dirWalk mode fd' evs) else None)"
| "dirWalk mode cur [DirClosed c] = (if c = cur then Some (None, []) else None)"
| "dirWalk mode cur evs = None"

definition stepNames :: "string list \<Rightarrow> string list" where
  "stepNames parts = filter (\<lambda>w. w \<noteq> [] \<and> w \<noteq> ''.'') parts"

lemma mkdirParts_walk:
  assumes "mkdirParts k mode subPath parts dir s = (r, evs, s')" "\<forall>w \<in> set parts. CHR ''/'' \<notin> set w"
  shows "case r of
      Inr f \<Rightarrow> dirWalk mode (df_Fd dir) evs = Some (Some (df_Fd f), stepNames parts) \<and> ''..'' \<notin> set parts
    | Inl e \<Rightarrow> \<exists>ps. dirWalk mode (df_Fd dir) evs = Some (None, ps)"
  using assms
proof (induction parts arbitrary: dir s r evs s')
  case Nil
  then show ?case by (auto simp: stepNames_def)
next
  case (Cons part parts)
  have sl: "\<forall>w \<in> set parts. CHR ''/'' \<notin> set w" using Cons.prems(2) by simp
  show ?case
  proof (cases "part = [] \<or> part = ''.'' \<or> part = ''..''")
    case True
    then show ?thesis
      using Cons.IH [OF _ sl, of dir s r evs s'] Cons.prems(1)
      by (auto simp: failDir_def closeDir_def stepNames_def split: sum.splits)
  next
    case False
    then have ok: "elem_ok part" using Cons.prems(2) by (simp add: elem_ok_def)
    have step: "case r of
        Inr f \<Rightarrow> map_option (\<lambda>(h, ps). (h, part # ps)) (dirWalk mode fd' evs') =
            Some (Some (df_Fd f), stepNames (part # parts)) \<and> ''..'' \<notin> set (part # parts)
      | Inl e \<Rightarrow> \<exists>ps. map_option (\<lambda>(h, ps). (h, part # ps)) (dirWalk mode fd' evs') = Some (None, ps)"
      if "mkdirParts k mode subPath parts \<lparr>df_Fd = fd', df_Name = nm\<rparr> s1 = (r, evs', s')" for fd' nm s1 evs'
      using Cons.IH [OF that sl] False by (auto simp: stepNames_def split: sum.splits)
    note defs = Openat_def Mkdirat_def prepareAt_def closeDir_def failDir_def after_def Let_def
    obtain o1 s1 where o1: "dk_Openat k (df_Fd dir) part dirFlags s = (o1, s1)" by fastforce
    show ?thesis
    proof (cases o1)
      case (Inr fd')
      then show ?thesis
        using Cons.prems(1) False o1 ok step [of fd']
        by (auto simp: defs split: prod.splits sum.splits)
    next
      case (Inl e1)
      obtain m s2 where m: "dk_Mkdirat k (df_Fd dir) part mode s1 = (m, s2)" by fastforce
      obtain o2 s3 where o2: "dk_Openat k (df_Fd dir) part dirFlags s2 = (o2, s3)" by fastforce
      show ?thesis
        using Cons.prems(1) False o1 m o2 Inl ok step
        by (cases e1; cases m; cases o2) (auto simp: defs split: prod.splits sum.splits)
    qed
  qed
qed

lemma stripCommon_split: "\<exists>cs. bs = cs @ fst (stripCommon bs ts) \<and> ts = cs @ snd (stripCommon bs ts)"
proof (induction bs ts rule: stripCommon.induct)
  case (1 b bs t ts)
  show ?case
  proof (cases "b = t")
    case True
    then obtain cs where "bs = cs @ fst (stripCommon bs ts)" "ts = cs @ snd (stripCommon bs ts)" using 1 by auto
    then show ?thesis using True by (intro exI [of _ "b # cs"]) simp
  qed simp
qed simp_all

lemma Clean_IsAbs: "IsAbs p \<Longrightarrow> Clean p = absPath (elemsOf p)"
  using cleanElems_slash by (auto simp: IsAbs_Cons Clean_abs elemsOf_def)

lemma pathWords_absPath: "\<forall>w \<in> set ws. elem_ok w \<Longrightarrow> pathWords (absPath ws) = ws"
  by (auto simp: pathWords_def Split_absPath elem_ok_def filter_id_conv)

lemma FilepathRel_below:
  assumes abs: "IsAbs root" "IsAbs p" and r: "FilepathRel root p = Some sub"
    and up: "''..'' \<notin> set (Split (CHR ''/'') sub)"
  shows "elemsOf p = elemsOf root @ stepNames (Split (CHR ''/'') sub)"
proof -
  have ok: "\<forall>w \<in> set (elemsOf q). elem_ok w" for q using elemsOf_ok by blast
  obtain bs ts where st: "stripCommon (elemsOf root) (elemsOf p) = (bs, ts)" by fastforce
  obtain cs where cs: "elemsOf root = cs @ bs" "elemsOf p = cs @ ts"
    using stripCommon_split [of "elemsOf root" "elemsOf p"] st by auto
  have words: "\<forall>w \<in> set bs \<union> set ts. elem_ok w" using ok [of root] ok [of p] cs by auto
  have notdot: "absPath ws \<noteq> ''.''" "IsAbs (absPath ws)" for ws by (simp_all add: absPath_def IsAbs_Cons)
  show ?thesis
  proof (cases "absPath (elemsOf p) = absPath (elemsOf root)")
    case True
    then have "elemsOf p = elemsOf root" by (metis elemsOf_absPath ok)
    moreover have "sub = ''.''" using r True by (simp add: FilepathRel_def Clean_IsAbs abs)
    ultimately show ?thesis by (simp add: stepNames_def)
  next
    case False
    have hd: "bs \<noteq> [] \<Longrightarrow> hd bs \<noteq> ''..''" using words by (cases bs) (auto simp: elem_ok_def)
    then have sub: "sub = Join ''/'' (replicate (length bs) ''..'' @ ts)"
      using r False by (auto simp: FilepathRel_def Clean_IsAbs abs notdot pathWords_absPath ok st Let_def split: if_splits)
    have ne: "replicate (length bs) ''..'' @ ts \<noteq> []" using False cs by auto
    have noslash: "CHR ''/'' \<notin> set w" if w: "w \<in> set (replicate (length bs) ''..'' @ ts)" for w
    proof (cases "w \<in> set ts")
      case True
      then show ?thesis using words by (simp add: elem_ok_def)
    next
      case False
      then have "w = ''..''" using w by (simp add: in_set_replicate)
      then show ?thesis by simp
    qed
    have split: "Split (CHR ''/'') sub = replicate (length bs) ''..'' @ ts"
      unfolding sub by (rule Split_Join [OF ne noslash])
    moreover have "bs = []" using up unfolding split by (cases bs) simp_all
    ultimately show ?thesis
      using cs words by (simp add: stepNames_def elem_ok_def filter_id_conv)
  qed
qed

text \<open>If a directory opened in another by its name lies below it, a walk ends below its start.\<close>

fun opened :: "'h dir_event list \<Rightarrow> ('h \<times> 'h) list" where
  "opened (OpenedAt fd part flags (Inr fd') # evs) = (fd, fd') # opened evs"
| "opened (ev # evs) = opened evs"
| "opened [] = []"

lemma dirWalk_descends:
  "dirWalk mode cur evs = Some (Some h, ps) \<Longrightarrow> (cur, h) \<in> (set (opened evs))\<^sup>*"
proof (induction mode cur evs arbitrary: ps rule: dirWalk.induct)
  case (4 mode cur fd part flags fd' c evs)
  then have "(fd', h) \<in> (set (opened evs))\<^sup>*" and "fd = cur" by (auto split: if_splits)
  then have "(fd', h) \<in> (set (opened (OpenedAt fd part flags (Inr fd') # DirClosed c # evs)))\<^sup>*"
    by (auto elim: rtrancl_mono [THEN subsetD, rotated])
  then show ?case using \<open>fd = cur\<close> by (auto intro: converse_rtrancl_into_rtrancl)
qed (auto split: if_splits)

definition rootFlags :: "open_flag list" where "rootFlags = [O_DIRECTORY, O_CLOEXEC]"

text \<open>C32. Whatever other processes do to the directories, making a directory below a root is a walk
  down from the root: apart from opening the root, every call opens or makes an entry with a proper
  name (no slash, not empty, not a dot or two) in the directory reached so far, never following a
  symbolic link. On success exactly one directory is left open, the one that the walk has reached,
  and for absolute paths the names walked are those by which the cleaned path extends the root; a
  failure leaves no directory open.\<close>

theorem mkdir_in_root_walks:
  assumes "MkdirAllInRootOpen k sj root unsafePath mode s = (r, evs, s')"
  shows "case r of
      Inr f \<Rightarrow> \<exists>fd es parts full. evs = RootOpened root rootFlags (Inr fd) # es \<and>
        dirWalk mode fd es = Some (Some (df_Fd f), parts) \<and> mkdirTarget sj root unsafePath = Inr full \<and>
        (IsAbs root \<and> IsAbs full \<longrightarrow> elemsOf full = elemsOf root @ parts)
    | Inl e \<Rightarrow> evs = [] \<or> (\<exists>e'. evs = [RootOpened root rootFlags (Inl e')]) \<or>
        (\<exists>fd es parts. evs = RootOpened root rootFlags (Inr fd) # es \<and> dirWalk mode fd es = Some (None, parts))"
proof (cases "evs = [] \<or> (\<exists>e'. evs = [RootOpened root rootFlags (Inl e')])")
  case True
  then show ?thesis
    using assms by (auto simp: MkdirAllInRootOpen_def after_def rootFlags_def
        split: sum.splits option.splits if_splits prod.splits)
next
  case False
  obtain full sub fd s1 es where full: "mkdirTarget sj root unsafePath = Inr full"
    and sub: "FilepathRel root full = Some sub"
    and parts: "mkdirParts k mode sub (Split (CHR ''/'') sub) \<lparr>df_Fd = fd, df_Name = root\<rparr> s1 = (r, es, s')"
    and evs: "evs = RootOpened root rootFlags (Inr fd) # es"
    using assms False by (auto simp: MkdirAllInRootOpen_def after_def rootFlags_def
        split: sum.splits option.splits if_splits prod.splits)
  have "\<forall>w \<in> set (Split (CHR ''/'') sub). CHR ''/'' \<notin> set w" using Split_parts_no_sep by blast
  then show ?thesis
    using mkdirParts_walk [OF parts] full evs FilepathRel_below [OF _ _ sub] by (auto split: sum.splits)
qed

text \<open>A kernel whose descriptors are paths, and whose state is the list of the directories there are.\<close>

definition exampleDirs :: "(string, string list) dir_kernel" where
  "exampleDirs =
     (let look = (\<lambda>p s. (if p \<in> set s then Inr p else Inl Enoent, s)) in
      \<lparr>dk_Open = (\<lambda>p flags s. look p s), dk_Openat = (\<lambda>d p flags s. look (d @ ''/'' @ p) s),
       dk_Mkdirat = (\<lambda>d p mode s. (None, (d @ ''/'' @ p) # s)), dk_Close = (\<lambda>d s. s)\<rparr>)"

definition exampleRun :: "(string, string list) mk_result" where
  "exampleRun = MkdirAllInRootOpen exampleDirs (\<lambda>r p. Inl ''none'') ''/r'' ''/r/a/./b'' 0x1ED [''/r'', ''/r/a'']"

definition exampleEvents :: "string dir_event list" where
  "exampleEvents =
     [RootOpened ''/r'' rootFlags (Inr ''/r''),
      OpenedAt ''/r'' ''a'' dirFlags (Inr ''/r/a''), DirClosed ''/r'',
      OpenedAt ''/r/a'' ''b'' dirFlags (Inl Enoent), MadeAt ''/r/a'' ''b'' 0x1ED None,
      OpenedAt ''/r/a'' ''b'' dirFlags (Inr ''/r/a/b''), DirClosed ''/r/a'']"

lemma exampleRun_result:
  "exampleRun = (Inr \<lparr>df_Fd = ''/r/a/b'', df_Name = ''/r/a/b''\<rparr>, exampleEvents, [''/r/a/b'', ''/r'', ''/r/a''])"
  by code_simp

theorem mkdir_in_root_walks_witness:
  "\<exists>fd es parts. exampleEvents = RootOpened ''/r'' rootFlags (Inr fd) # es \<and>
     dirWalk 0x1ED fd es = Some (Some ''/r/a/b'', parts) \<and> elemsOf ''/r/a/./b'' = elemsOf ''/r'' @ parts"
proof -
  have "mkdirTarget (\<lambda>r p. Inl ''none'') ''/r'' ''/r/a/./b'' = Inr ''/r/a/./b''" "IsAbs ''/r''" "IsAbs ''/r/a/./b''"
    by code_simp+
  then show ?thesis
    using mkdir_in_root_walks [OF exampleRun_result [unfolded exampleRun_def]] by auto
qed
end
