(* ===== verification/SpecExample.thy ===== *)
theory SpecExample imports ValidateProps begin

text \<open>
  The example specification and its variant for users without privileges (specconv/example.go), and
  what a configuration made of such a variant is like.
\<close>

subsection \<open>The example\<close>

text \<open>The fields of a specification that are not read by the conversion.\<close>

record POSIXRlimit =
  pr_Type :: string
  pr_Hard :: u64
  pr_Soft :: u64

record FullSpec = Spec +
  fs_Version :: string
  fs_Terminal :: bool
  fs_Args :: "string list"
  fs_Env :: "string list"
  fs_Cwd :: string
  fs_Rlimits :: "POSIXRlimit list"

definition exampleCaps :: "string list" where
  "exampleCaps = [''CAP_AUDIT_WRITE'', ''CAP_KILL'', ''CAP_NET_BIND_SERVICE'']"

definition specMount :: "string \<Rightarrow> string \<Rightarrow> string \<Rightarrow> string list \<Rightarrow> SpecMount" where
  "specMount dest t src opts = \<lparr>sm_Destination = dest, sm_Type = t, sm_Source = src, sm_Options = opts\<rparr>"

definition exampleMounts :: "SpecMount list" where
  "exampleMounts =
     [specMount ''/proc'' ''proc'' ''proc'' [],
      specMount ''/dev'' ''tmpfs'' ''tmpfs'' [''nosuid'', ''strictatime'', ''mode=755'', ''size=65536k''],
      specMount ''/dev/pts'' ''devpts'' ''devpts''
        [''nosuid'', ''noexec'', ''newinstance'', ''ptmxmode=0666'', ''mode=0620'', ''gid=5''],
      specMount ''/dev/shm'' ''tmpfs'' ''shm'' [''nosuid'', ''noexec'', ''nodev'', ''mode=1777'', ''size=65536k''],
      specMount ''/dev/mqueue'' ''mqueue'' ''mqueue'' [''nosuid'', ''noexec'', ''nodev''],
      specMount ''/sys'' ''sysfs'' ''sysfs'' [''nosuid'', ''noexec'', ''nodev'', ''ro''],
      specMount ''/sys/fs/cgroup'' ''cgroup'' ''cgroup'' [''nosuid'', ''noexec'', ''nodev'', ''relatime'', ''ro'']]"

definition exampleProcess :: SpecProcess where
  "exampleProcess =
     \<lparr>sp_UID = 0, sp_Umask = None,
      sp_Capabilities = Some
        \<lparr>ca_Bounding = exampleCaps, ca_Effective = exampleCaps, ca_Inheritable = [],
         ca_Permitted = exampleCaps, ca_Ambient = exampleCaps\<rparr>,
      sp_NoNewPrivileges = True, sp_OOMScoreAdj = None, sp_SelinuxLabel = []\<rparr>"

text \<open>\<open>unified\<close>: whether the host has the unified cgroup hierarchy.\<close>

definition exampleSection :: "bool \<Rightarrow> SpecLinux" where
  "exampleSection unified =
     \<lparr>li_UIDMappings = [], li_GIDMappings = [], li_Sysctl = [],
      li_Resources = Some
        \<lparr>re_Devices = [\<lparr>dc_Allow = False, dc_Type = [], dc_Major = None, dc_Minor = None, dc_Access = ''rwm''\<rparr>],
         re_Memory = None, re_CPU = None, re_Pids = None, re_BlockIO = None, re_HugepageLimits = [],
         re_Rdma = [], re_Network = None, re_Unified = []\<rparr>,
      li_CgroupsPath = [],
      li_Namespaces = [(''pid'', []), (''network'', []), (''ipc'', []), (''uts'', []), (''mount'', [])]
        @ (if unified then [(''cgroup'', [])] else []),
      li_Devices = [], li_Seccomp = None, li_RootfsPropagation = [],
      li_MaskedPaths = [''/proc/acpi'', ''/proc/asound'', ''/proc/kcore'', ''/proc/keys'', ''/proc/latency_stats'',
        ''/proc/timer_list'', ''/proc/timer_stats'', ''/proc/sched_debug'', ''/sys/firmware'', ''/proc/scsi''],
      li_ReadonlyPaths = [''/proc/bus'', ''/proc/fs'', ''/proc/irq'', ''/proc/sys'', ''/proc/sysrq-trigger''],
      li_MountLabel = [], li_IntelRdt = None\<rparr>"

text \<open>\<open>specVersion\<close> is \<open>specs.Version\<close>.\<close>

definition ExampleSpec :: "string \<Rightarrow> bool \<Rightarrow> FullSpec" where
  "ExampleSpec specVersion unified =
     \<lparr>s_Root = Some \<lparr>sr_Path = ''rootfs'', sr_Readonly = True\<rparr>, s_Mounts = exampleMounts,
      s_Hostname = ''runc'', s_Annotations = [], s_Process = Some exampleProcess,
      s_Linux = Some (exampleSection unified), s_Hooks = None,
      fs_Version = specVersion, fs_Terminal = True, fs_Args = [''sh''],
      fs_Env = [''PATH=/usr/local/sbin:/usr/local/bin:/usr/sbin:/usr/bin:/sbin:/bin'', ''TERM=xterm''],
      fs_Cwd = ''/'',
      fs_Rlimits = [\<lparr>pr_Type = ''RLIMIT_NOFILE'', pr_Hard = 1024, pr_Soft = 1024\<rparr>]\<rparr>"

subsection \<open>Without privileges\<close>

definition rootlessNamespaces :: "(string \<times> string) list \<Rightarrow> (string \<times> string) list" where
  "rootlessNamespaces nss =
     filter (\<lambda>ns. fst ns \<noteq> ''network'' \<and> fst ns \<noteq> ''user'') nss @ [(''user'', [])]"

text \<open>\<open>uint32(os.Geteuid())\<close>\<close>

definition selfMapping :: "i64 \<Rightarrow> SpecIDMapping list" where
  "selfMapping hostid = [\<lparr>si_ContainerID = 0, si_HostID = ucast hostid, si_Size = 1\<rparr>]"

definition rootlessMount :: "SpecMount \<Rightarrow> SpecMount" where
  "rootlessMount m =
     (if Clean (sm_Destination m) = ''/sys'' then
        specMount ''/sys'' ''none'' ''/sys'' [''rbind'', ''nosuid'', ''noexec'', ''nodev'', ''ro'']
      else m\<lparr>sm_Options := filter (\<lambda>q. \<not> HasPrefix q ''gid='' \<and> \<not> HasPrefix q ''uid='') (sm_Options m)\<rparr>)"

text \<open>Without a linux section the code dereferences a nil pointer.\<close>

definition ToRootless :: "i64 \<Rightarrow> i64 \<Rightarrow> 'a Spec_scheme \<Rightarrow> 'a Spec_scheme option" where
  "ToRootless euid egid spec =
     (case s_Linux spec of
        None \<Rightarrow> None
      | Some li \<Rightarrow> Some (spec\<lparr>
          s_Linux := Some (li\<lparr>li_Namespaces := rootlessNamespaces (li_Namespaces li),
            li_UIDMappings := selfMapping euid, li_GIDMappings := selfMapping egid, li_Resources := None\<rparr>),
          s_Mounts := map rootlessMount (s_Mounts spec)\<rparr>))"

subsection \<open>Mount options\<close>

lemma rootlessOption_plain:
  "\<not> HasPrefix q ''uid='' \<Longrightarrow> \<not> HasPrefix q ''gid='' \<Longrightarrow> rootlessOption c q = None"
  by (simp add: rootlessOption_def gidOption_def)

lemma createMount_data: "createLibcontainerMount cwd m = Some cm \<Longrightarrow> mt_Data cm = mt_Data (parseMountOptions (sm_Options m))"
  by (auto simp: createLibcontainerMount_def Let_def split: if_splits)

text \<open>Options that cannot be taken for others once they are joined by commas.\<close>

definition noComma :: "SpecMount \<Rightarrow> bool" where
  "noComma m \<longleftrightarrow> (\<forall>q \<in> set (sm_Options m). CHR '','' \<notin> set q)"

definition noIds :: "string \<Rightarrow> bool" where
  "noIds q \<longleftrightarrow> \<not> HasPrefix q ''uid='' \<and> \<not> HasPrefix q ''gid='' \<and> CHR '','' \<notin> set q"

lemma rootlessMount_options:
  assumes "noComma m" "q \<in> set (sm_Options (rootlessMount m))"
  shows "noIds q"
proof (cases "Clean (sm_Destination m) = ''/sys''")
  case True
  then have "q \<in> set [''rbind'', ''nosuid'', ''noexec'', ''nodev'', ''ro'']"
    using assms(2) by (simp add: rootlessMount_def specMount_def)
  then show ?thesis by (auto simp: noIds_def)
next
  case False
  then show ?thesis using assms by (auto simp: rootlessMount_def noComma_def noIds_def)
qed

lemma noIds_data:
  assumes "\<forall>q \<in> set opts. noIds q" and "w \<in> set (Split (CHR '','') (mt_Data (parseMountOptions opts)))"
  shows "noIds w"
proof -
  let ?ds = "filter (\<lambda>q. optionKind q = DataValue) opts"
  show ?thesis
  proof (cases "?ds = []")
    case True
    then have "w = []" using assms(2) by (simp add: parse_data)
    then show ?thesis by (simp add: noIds_def)
  next
    case False
    then have "Split (CHR '','') (Join '','' ?ds) = ?ds"
      by (rule Split_Join) (use assms(1) in \<open>auto simp: noIds_def\<close>)
    then have "w \<in> set ?ds" using assms(2) by (simp only: parse_data)
    then show ?thesis using assms(1) by simp
  qed
qed

lemma rootless_mounts_accepted:
  assumes conv: "mapRes (convertMount cwd) (map rootlessMount ms) = Inr mounts" and nc: "\<forall>m \<in> set ms. noComma m"
    and c: "c_Mounts c = mounts"
  shows "rootlessEUIDMount c = None"
proof -
  have "rootlessOption c w = None" if cm: "cm \<in> set mounts" and w: "w \<in> set (Split (CHR '','') (mt_Data cm))" for cm w
  proof -
    obtain m where m: "m \<in> set ms" "createLibcontainerMount cwd (rootlessMount m) = Some cm"
      using conv cm by (auto simp: mapRes_Inr_iff list_all2_conv_all_nth in_set_conv_nth convertMount_def
          split: option.splits)
    have "\<forall>q \<in> set (sm_Options (rootlessMount m)). noIds q" using rootlessMount_options nc m(1) by blast
    then have "noIds w" using w noIds_data unfolding createMount_data [OF m(2)] by blast
    then show ?thesis by (intro rootlessOption_plain) (simp_all add: noIds_def)
  qed
  then show ?thesis by (auto simp: rootlessEUIDMount_def firstErr_None_iff c)
qed

subsection \<open>What the linux section keeps\<close>

lemma linuxSection_mounts:
  assumes "linuxSection ev spec li (c, h) = Inr (c', h')"
  shows "c_Mounts c' = c_Mounts c" and "c_RootlessEUID c' = c_RootlessEUID c"
proof -
  define P where "P c2 \<longleftrightarrow> c_Mounts c2 = c_Mounts c \<and> c_RootlessEUID c2 = c_RootlessEUID c" for c2 :: Config
  obtain c1 where c1: "setPropagation li c = Inr c1"
    using assms by (auto simp: linuxSection_def andThen_Inr_iff)
  obtain c2 where c2: "foldRes addNamespace (li_Namespaces li) c1 = Inr c2"
    using assms c1 by (auto simp: linuxSection_def Let_def andThen_Inr_iff)
  have "P c1" using c1 by (auto simp: setPropagation_def P_def split: option.splits if_splits)
  then have "P c2"
    by (rule foldRes_invariant [OF c2]) (auto simp: addNamespace_def P_def split: option.splits if_splits)
  then have n: "P (addNetworks c2)" by (simp add: addNetworks_def P_def)
  let ?u = "if ns_Contains (c_Namespaces c2) NEWUSER
      then setupUserNamespace ev spec (addNetworks c2) h else Inr (addNetworks c2, h)"
  have eq: "linuxSection ev spec li (c, h) = andThen ?u (\<lambda>(c4, h4).
     andThen (setSeccomp li (c4\<lparr>c_MaskPaths := li_MaskedPaths li, c_ReadonlyPaths := li_ReadonlyPaths li,
                c_MountLabel := li_MountLabel li, c_Sysctl := li_Sysctl li\<rparr>)) (\<lambda>c6.
       Inr (case li_IntelRdt li of None \<Rightarrow> c6 | Some ir \<Rightarrow> c6\<lparr>c_IntelRdt := Some ir\<rparr>, h4)))"
    by (simp only: linuxSection_def Let_def fst_conv snd_conv c1 c2 andThen.simps addNetworks_simps)
  obtain c4 h4 where c4: "?u = Inr (c4, h4)"
    using assms unfolding eq by (cases ?u) auto
  have "P c4"
    using c4 n by (auto simp: setupUserNamespace_def andThen_Inr_iff cacheMappings_def Let_def specMappings_def P_def
        split: if_splits sum.splits option.splits)
  moreover obtain c6 where c6: "setSeccomp li (c4\<lparr>c_MaskPaths := li_MaskedPaths li, c_ReadonlyPaths := li_ReadonlyPaths li,
                c_MountLabel := li_MountLabel li, c_Sysctl := li_Sysctl li\<rparr>) = Inr c6"
      "c' = (case li_IntelRdt li of None \<Rightarrow> c6 | Some ir \<Rightarrow> c6\<lparr>c_IntelRdt := Some ir\<rparr>)"
    using assms unfolding eq c4 by (auto simp: andThen_Inr_iff)
  ultimately have "P c6" by (auto simp: setSeccomp_def P_def split: if_splits sum.splits)
  then have "P c'" using c6(2) by (auto simp: P_def split: option.splits)
  then show "c_Mounts c' = c_Mounts c" "c_RootlessEUID c' = c_RootlessEUID c" by (simp_all add: P_def)
qed

lemma conversion_mounts:
  assumes "CreateLibcontainerConfig ev opts h = Inr (c, h')" and "s_Linux (o_Spec opts) = Some li"
  shows "\<exists>cwd. mapRes (convertMount cwd) (s_Mounts (o_Spec opts)) = Inr (c_Mounts c)"
    and "c_RootlessEUID c = o_RootlessEUID opts"
proof -
  obtain rcwd root mounts dd devs h1 cg c2 where m: "mapRes (convertMount (Clean rcwd)) (s_Mounts (o_Spec opts)) = Inr mounts"
    and l: "linuxSection ev (o_Spec opts) li
       ((initialConfig (Clean rcwd) opts root)\<lparr>c_Mounts := mounts, c_Devices := devs, c_Cgroups := Some cg\<rparr>, h1)
     = Inr (c2, h')"
    and c: "c = (setProcess (o_Spec opts) (setOwner (o_Spec opts) c2))
           \<lparr>c_Hooks := createHooks (o_Spec opts), c_Version := ev_SpecVersion ev\<rparr>"
    using assms
    by (auto simp: CreateLibcontainerConfig_def Let_def andThen_Inr_iff split: sum.splits option.splits prod.splits)
  have "c_Mounts c2 = mounts" "c_RootlessEUID c2 = o_RootlessEUID opts"
    using linuxSection_mounts [OF l] by (simp_all add: initialConfig_def)
  then have "c_Mounts c = mounts" "c_RootlessEUID c = o_RootlessEUID opts"
    by (auto simp: c setProcess_def setOwner_def Let_def split: option.splits sum.splits)
  then show "\<exists>cwd. mapRes (convertMount cwd) (s_Mounts (o_Spec opts)) = Inr (c_Mounts c)"
    "c_RootlessEUID c = o_RootlessEUID opts" using m by blast+
qed

lemma conversion_mappings:
  assumes conv: "CreateLibcontainerConfig ev opts h = Inr (c, h')" and li: "s_Linux (o_Spec opts) = Some li"
    and user: "ns_Contains (c_Namespaces c) NEWUSER" "PathOf (c_Namespaces c) NEWUSER = []"
  shows "c_UidMappings c = appendSlice None (map createIDMap (li_UIDMappings li)) \<and>
    c_GidMappings c = appendSlice None (map createIDMap (li_GIDMappings li))"
proof -
  obtain cwd root mounts dd devs h1 cg c2 where l: "linuxSection ev (o_Spec opts) li
       ((initialConfig (Clean cwd) opts root)\<lparr>c_Mounts := mounts, c_Devices := devs, c_Cgroups := Some cg\<rparr>, h1)
     = Inr (c2, h')"
    and c: "c = (setProcess (o_Spec opts) (setOwner (o_Spec opts) c2))
           \<lparr>c_Hooks := createHooks (o_Spec opts), c_Version := ev_SpecVersion ev\<rparr>"
    using CreateLibcontainerConfig_Inr [OF conv li] by metis
  obtain c3 c4 c5 where c3: "setPropagation li ((initialConfig (Clean cwd) opts root)
        \<lparr>c_Mounts := mounts, c_Devices := devs, c_Cgroups := Some cg\<rparr>) = Inr c3"
    and c4: "foldRes addNamespace (li_Namespaces li) c3 = Inr c4"
    and c5: "(if ns_Contains (c_Namespaces c4) NEWUSER
      then setupUserNamespace ev (o_Spec opts) (addNetworks c4) h1 else Inr (addNetworks c4, h1)) = Inr (c5, h')"
    and eqs: "c_Devices c2 = c_Devices c5 \<and> c_Namespaces c2 = c_Namespaces c5 \<and> c_Networks c2 = c_Networks c5 \<and>
     c_UidMappings c2 = c_UidMappings c5 \<and> c_GidMappings c2 = c_GidMappings c5 \<and>
     c_Routes c2 = c_Routes c5 \<and> c_Cgroups c2 = c_Cgroups c5"
    using linuxSection_Inr [OF l] by metis
  have none: "c_UidMappings c4 = None" "c_GidMappings c4 = None"
    using addNamespaces_keeps [OF c4] setPropagation_keeps [OF c3] by (simp_all add: initialConfig_def emptyConfig_def)
  have same: "c_Namespaces c = c_Namespaces c5" "c_UidMappings c = c_UidMappings c5" "c_GidMappings c = c_GidMappings c5"
    using eqs by (simp_all add: c keeps)
  have u: "setupUserNamespace ev (o_Spec opts) (addNetworks c4) h1 = Inr (c5, h')"
  proof (cases "ns_Contains (c_Namespaces c4) NEWUSER")
    case False
    then have "c_Namespaces c5 = c_Namespaces c4" using c5 by (auto simp: addNetworks_def)
    then show ?thesis using False user(1) by (simp add: same)
  qed (use c5 in simp)
  have ns: "c_Namespaces c5 = c_Namespaces c4" by (rule setupUserNamespace_Inr [OF u]) simp
  then have "PathOf (c_Namespaces c4) NEWUSER = []" using user(2) by (simp add: same)
  then have "c5 = specMappings (o_Spec opts) (addNetworks c4)"
    using u li by (auto simp: setupUserNamespace_def andThen_Inr_iff cacheMappings_def Let_def specMappings_def)
  then show ?thesis by (simp add: same specMappings_def li none)
qed

subsection \<open>Configurations for users without privileges\<close>

lemma rootless_namespace_types:
  "map_of namespaceMapping s = Some NEWUSER \<longleftrightarrow> s = ''user''"
  "map_of namespaceMapping s = Some NEWNET \<longleftrightarrow> s = ''network''"
  by (auto simp: namespaceMapping_def)

lemma ns_Contains_ex: "ns_Contains nss t \<longleftrightarrow> (\<exists>n \<in> set nss. n_Type n = t)"
  by (induction nss) (auto simp: ns_Contains_def)

lemma PathOf_unique:
  "(\<forall>n \<in> set nss. n_Type n = t \<longrightarrow> n_Path n = p) \<Longrightarrow> ns_Contains nss t \<Longrightarrow> PathOf nss t = p"
  by (induction nss) (auto simp: PathOf_def ns_Contains_def split: option.splits)

lemma list_all2_mem2: "list_all2 P xs ys \<Longrightarrow> y \<in> set ys \<Longrightarrow> \<exists>x \<in> set xs. P x y"
  by (induction rule: list_all2_induct) auto

lemma rootless_namespaces:
  assumes ns: "list_all2 (\<lambda>ns n. map_of namespaceMapping (fst ns) = Some (n_Type n) \<and> n_Path n = snd ns)
      (rootlessNamespaces nss) cns"
  shows "ns_Contains cns NEWUSER" "PathOf cns NEWUSER = []" "\<not> ns_Contains cns NEWNET"
proof -
  have one: "\<exists>ns \<in> set (rootlessNamespaces nss). map_of namespaceMapping (fst ns) = Some (n_Type n) \<and> n_Path n = snd ns"
    if "n \<in> set cns" for n
    by (rule list_all2_mem2 [OF ns that])
  obtain as b where "cns = as @ [b]" "map_of namespaceMapping ''user'' = Some (n_Type b)"
    using ns by (auto simp: rootlessNamespaces_def list_all2_append1 list_all2_Cons1)
  moreover from this have "n_Type b = NEWUSER"
    using rootless_namespace_types(1) [THEN iffD2, OF refl] by simp
  ultimately have "\<exists>n \<in> set cns. n_Type n = NEWUSER" by simp
  then show u: "ns_Contains cns NEWUSER" by (simp add: ns_Contains_ex)
  show "PathOf cns NEWUSER = []"
  proof (rule PathOf_unique [OF _ u], intro ballI impI)
    fix n assume "n \<in> set cns" "n_Type n = NEWUSER"
    then obtain ns where "ns \<in> set (rootlessNamespaces nss)" "fst ns = ''user''" "n_Path n = snd ns"
      using one rootless_namespace_types(1) by metis
    then show "n_Path n = []" by (auto simp: rootlessNamespaces_def)
  qed
  have "''network'' \<notin> fst ` set (rootlessNamespaces nss)" by (auto simp: rootlessNamespaces_def)
  then show "\<not> ns_Contains cns NEWNET"
    using one rootless_namespace_types(2) unfolding ns_Contains_ex by (metis image_eqI)
qed

lemma self_hostID:
  assumes "ns_Contains nss NEWUSER"
  shows "hostID nss (appendSlice None (map createIDMap (selfMapping e))) i =
    (if i = 0 then Inr (ucast (ucast e :: u32)) else Inl ErrNotMapped)"
proof -
  let ?h = "ucast (ucast e :: u32) :: i64"
  have "sint i = 0 \<longleftrightarrow> i = 0" by (rule signed_eq_0_iff)
  then have z: "0 \<le> sint i \<and> sint i \<le> 0 \<longleftrightarrow> i = 0" by linarith
  have "appendSlice None (map createIDMap (selfMapping e)) =
      Some [\<lparr>im_ContainerID = 0, im_HostID = ?h, im_Size = 1\<rparr>]"
    by (simp add: appendSlice_def selfMapping_def createIDMap_def)
  moreover have "hostIDFromMapping i [\<lparr>im_ContainerID = 0, im_HostID = ?h, im_Size = 1\<rparr>] =
      (if i = 0 then (?h, True) else (-1, False))"
    using z by simp
  moreover have "\<not> maxInt < sint ?h"
    using sint_lt [of ?h] unfolding maxInt_def by simp
  ultimately show ?thesis using assms by (simp add: hostID_def)
qed


subsection \<open>The example, converted\<close>

definition rootlessExample :: Spec where
  "rootlessExample = the (ToRootless 1000 1000 (Spec.truncate (ExampleSpec ''1.0.2'' True)))"

definition rootlessOpts :: CreateOpts where
  "rootlessOpts =
     \<lparr>o_CgroupName = ''c1'', o_UseSystemdCgroup = False, o_NoPivotRoot = False, o_NoNewKeyring = False,
      o_Spec = rootlessExample, o_RootlessEUID = True, o_RootlessCgroups = True\<rparr>"

lemma rootlessExample_converts:
  "case CreateLibcontainerConfig exampleEnv rootlessOpts initialDevices of
     Inl e \<Rightarrow> False
   | Inr (c, h') \<Rightarrow> fst (Validate netnsEnv c) = None"
  by code_simp


text \<open>
  An option that hides another behind a comma is kept, and the check then sees the hidden one.
\<close>

lemma comma_option_kept:
  "sm_Options (rootlessMount (specMount ''/x'' ''tmpfs'' ''tmpfs'' [''size=1m,uid=5''])) = [''size=1m,uid=5'']"
  "''uid=5'' \<in> set (Split (CHR '','') (mt_Data (parseMountOptions [''size=1m,uid=5''])))"
  by code_simp+
end
