(* ===== verification/Managers.thy ===== *)
theory Managers imports SystemdV2 Fs2Stats Fs2Props begin

text \<open>
  The rest of the four cgroup managers (cgroups/fs/fs.go, cgroups/fs2/fs2.go, cgroups/systemd/v1.go
  and v2.go): removing the group, its paths and processes; the processes of a whole tree of groups
  (cgroups/getallpids.go); and the connection to systemd (cgroups/systemd/dbus.go, user.go,
  common.go). Cgroup directories are the trees of \<open>Cgutils\<close>.
\<close>

subsection \<open>All processes of a tree\<close>

lemma andThen_assoc: "andThen (andThen r f) g = andThen r (\<lambda>x. andThen (f x) g)"
  by (cases r) simp_all

lemma mapRes_append:
  "mapRes f (xs @ ys) = andThen (mapRes f xs) (\<lambda>us. andThen (mapRes f ys) (\<lambda>vs. Inr (us @ vs)))"
proof (induction xs)
  case Nil
  then show ?case by (cases "mapRes f ys") simp_all
qed (simp add: andThen_assoc)

text \<open>
  \<open>filepath.WalkDir\<close> visits a directory before those in it, and stops at the first error; the
  processes found until then are returned with it. Files are skipped.
\<close>

fun walkPids :: "opener \<Rightarrow> string \<Rightarrow> cgdir \<Rightarrow> int list \<Rightarrow> int list \<times> cg_error option"
  and walkSubs :: "opener \<Rightarrow> string \<Rightarrow> (string \<times> cgdir) list \<Rightarrow> int list \<Rightarrow> int list \<times> cg_error option" where
  "walkPids opn p (CgDir b cs) pids =
     (case readProcsFile opn p of
        Inl e \<Rightarrow> (pids, Some e)
      | Inr cPids \<Rightarrow> walkSubs opn p cs (pids @ cPids))"
| "walkSubs opn p [] pids = (pids, None)"
| "walkSubs opn p ((n, d) # cs) pids =
     (case walkPids opn (PathJoin p n) d pids of
        (pids', Some e) \<Rightarrow> (pids', Some e)
      | (pids', None) \<Rightarrow> walkSubs opn p cs pids')"

definition GetAllPids :: "opener \<Rightarrow> cgtree \<Rightarrow> string \<Rightarrow> int list \<times> cg_error option" where
  "GetAllPids opn fs path =
     (case fs path of
        None \<Rightarrow> ([], Some (OpenError (OtherErrno ''ENOENT'')))
      | Some d \<Rightarrow> walkPids opn path d [])"

fun treeDirs :: "string \<Rightarrow> cgdir \<Rightarrow> string list"
  and subDirs :: "string \<Rightarrow> (string \<times> cgdir) list \<Rightarrow> string list" where
  "treeDirs p (CgDir b cs) = p # subDirs p cs"
| "subDirs p [] = []"
| "subDirs p ((n, d) # cs) = treeDirs (PathJoin p n) d @ subDirs p cs"

lemma walkPids_iff:
  "walkPids opn p d pids = (out, None) \<longleftrightarrow>
     (\<exists>pss. mapRes (readProcsFile opn) (treeDirs p d) = Inr pss \<and> out = pids @ concat pss)"
  "walkSubs opn p cs pids = (out, None) \<longleftrightarrow>
     (\<exists>pss. mapRes (readProcsFile opn) (subDirs p cs) = Inr pss \<and> out = pids @ concat pss)"
proof (induction opn p d pids and opn p cs pids arbitrary: out and out rule: walkPids_walkSubs.induct)
  case (1 opn p b cs pids)
  then show ?case by (cases "readProcsFile opn p") (auto simp: andThen_Inr_iff)
next
  case (3 opn p n d cs pids)
  show ?case
  proof (cases "walkPids opn (PathJoin p n) d pids")
    case (Pair pids' e)
    show ?thesis
    proof (cases e)
      case None
      obtain pss where "mapRes (readProcsFile opn) (treeDirs (PathJoin p n) d) = Inr pss" "pids' = pids @ concat pss"
        using "3.IH"(1) [of pids'] Pair None by auto
      then show ?thesis
        using "3.IH"(2) [OF Pair [symmetric] None] Pair None
        by (auto simp: mapRes_append andThen_Inr_iff)
    next
      case (Some err)
      then have "\<nexists>pss. mapRes (readProcsFile opn) (treeDirs (PathJoin p n) d) = Inr pss"
        using "3.IH"(1) Pair by fastforce
      then show ?thesis using Pair Some by (auto simp: mapRes_append andThen_Inr_iff)
    qed
  qed
qed auto

text \<open>Success is the processes of all groups of the tree, from the top.\<close>

lemma GetAllPids_tree:
  "GetAllPids opn fs path = (out, None) \<longleftrightarrow>
     (\<exists>d pss. fs path = Some d \<and> mapRes (readProcsFile opn) (treeDirs path d) = Inr pss \<and> out = concat pss)"
  by (auto simp: GetAllPids_def walkPids_iff split: option.splits)

subsection \<open>cgroups/fs\<close>

text \<open>
  \<open>order\<close> lists the map of paths in the order it is iterated. The result of a removal is whether it
  failed.
\<close>

definition fs1Destroy ::
  "((string \<rightharpoonup> string) \<Rightarrow> (string \<times> string) list) \<Rightarrow> (nat \<Rightarrow> cgtree \<Rightarrow> cgtree) \<Rightarrow> manager \<Rightarrow> cgtree \<Rightarrow> bool \<times> cgtree" where
  "fs1Destroy order settle m fs =
     (case RemovePaths settle (order (m_paths m)) fs of (left, fs') \<Rightarrow> (left \<noteq> None, fs'))"

definition fs1Path :: "manager \<Rightarrow> string \<Rightarrow> string" where "fs1Path m subsys = pathOf m subsys"

definition fs1GetPids :: "opener \<Rightarrow> manager \<Rightarrow> cg_error + int list" where
  "fs1GetPids opn m = GetPids opn (fs1Path m ''devices'')"

definition fs1GetAllPids :: "opener \<Rightarrow> cgtree \<Rightarrow> manager \<Rightarrow> int list \<times> cg_error option" where
  "fs1GetAllPids opn fs m = GetAllPids opn fs (fs1Path m ''devices'')"

definition fs1GetPaths :: "manager \<Rightarrow> (string \<rightharpoonup> string)" where "fs1GetPaths m = m_paths m"
definition fs1GetCgroups :: "manager \<Rightarrow> Cgroup" where "fs1GetCgroups m = m_cgroups m"

subsection \<open>cgroups/fs2\<close>

definition fs2Destroy :: "manager2 \<Rightarrow> cgtree \<Rightarrow> bool \<times> cgtree" where
  "fs2Destroy m fs =
     (case RemovePath (fs (m2_dirPath m)) of (failed, left) \<Rightarrow> (failed, fs(m2_dirPath m := left)))"

definition fs2Path :: "manager2 \<Rightarrow> string \<Rightarrow> string" where "fs2Path m subsys = m2_dirPath m"
definition fs2GetPids :: "opener \<Rightarrow> manager2 \<Rightarrow> cg_error + int list" where "fs2GetPids opn m = GetPids opn (m2_dirPath m)"

definition fs2GetAllPids :: "opener \<Rightarrow> cgtree \<Rightarrow> manager2 \<Rightarrow> int list \<times> cg_error option" where
  "fs2GetAllPids opn fs m = GetAllPids opn fs (m2_dirPath m)"

definition fs2GetPaths :: "manager2 \<Rightarrow> (string \<rightharpoonup> string)" where "fs2GetPaths m = [[] \<mapsto> m2_dirPath m]"
definition fs2GetCgroups :: "manager2 \<Rightarrow> Cgroup" where "fs2GetCgroups m = m2_config m"

definition fs2GetFreezerState :: "'k world \<Rightarrow> manager2 \<Rightarrow> ('k, FreezerState) io" where
  "fs2GetFreezerState W m = getFreezer W (m2_dirPath m)"

definition fs2Exists :: "'k world \<Rightarrow> manager2 \<Rightarrow> 'k \<Rightarrow> bool" where "fs2Exists W m s = w_exists W (m2_dirPath m) s"

subsection \<open>cgroups/systemd for cgroup v1\<close>

text \<open>The directories are removed whether or not the unit could be stopped.\<close>

definition legacyDestroy ::
  "'k bus \<Rightarrow> ((string \<rightharpoonup> string) \<Rightarrow> (string \<times> string) list) \<Rightarrow> (nat \<Rightarrow> cgtree \<Rightarrow> cgtree) \<Rightarrow> manager \<Rightarrow> 'k \<Rightarrow> cgtree \<Rightarrow>
     bool \<times> 'k \<times> cgtree" where
  "legacyDestroy B order settle m s fs =
     (case stopUnit B (getUnitName (m_cgroups m)) s of
        (stopErr, s') \<Rightarrow>
          (case RemovePaths settle (order (m_paths m)) fs of
             (left, fs') \<Rightarrow>
               (if left \<noteq> None \<and> \<not> isl stopErr then (True, s', fs') else (isl stopErr, s', fs'))))"

definition legacyPathOf :: "manager \<Rightarrow> string \<Rightarrow> string" where "legacyPathOf m subsys = pathOf m subsys"

text \<open>None is \<open>errSubsystemDoesNotExist\<close>.\<close>

definition legacyGetPids :: "opener \<Rightarrow> manager \<Rightarrow> (cg_error + int list) option" where
  "legacyGetPids opn m = map_option (GetPids opn) (m_paths m ''devices'')"

definition legacyGetAllPids :: "opener \<Rightarrow> cgtree \<Rightarrow> manager \<Rightarrow> (int list \<times> cg_error option) option" where
  "legacyGetAllPids opn fs m = map_option (GetAllPids opn fs) (m_paths m ''devices'')"

definition legacyGetStats :: "'k world \<Rightarrow> string list \<Rightarrow> manager \<Rightarrow> ('k, Stats) io" where
  "legacyGetStats W pageSizes m = managerGetStats W pageSizes m legacyNames NewStats"

definition legacyGetPaths :: "manager \<Rightarrow> (string \<rightharpoonup> string)" where "legacyGetPaths m = m_paths m"
definition legacyGetCgroups :: "manager \<Rightarrow> Cgroup" where "legacyGetCgroups m = m_cgroups m"

subsection \<open>cgroups/systemd for cgroup v2\<close>

definition unifiedDestroy :: "'k bus \<Rightarrow> unified \<Rightarrow> 'k \<Rightarrow> cgtree \<Rightarrow> bool \<times> 'k \<times> cgtree" where
  "unifiedDestroy B m s fs =
     (case stopUnit B (getUnitName (um_cgroups m)) s of
        (Inl e, s') \<Rightarrow> (True, s', fs)
      | (Inr _, s') \<Rightarrow> (case fs2Destroy (um_fsMgr m) fs of (failed, fs') \<Rightarrow> (failed, s', fs')))"

definition unifiedPath :: "unified \<Rightarrow> string \<Rightarrow> string" where "unifiedPath m subsys = um_path m"
definition unifiedGetPids :: "opener \<Rightarrow> unified \<Rightarrow> cg_error + int list" where "unifiedGetPids opn m = GetPids opn (um_path m)"

definition unifiedGetAllPids :: "opener \<Rightarrow> cgtree \<Rightarrow> unified \<Rightarrow> int list \<times> cg_error option" where
  "unifiedGetAllPids opn fs m = GetAllPids opn fs (um_path m)"

definition unifiedGetPaths :: "unified \<Rightarrow> (string \<rightharpoonup> string)" where "unifiedGetPaths m = [[] \<mapsto> um_path m]"
definition unifiedGetCgroups :: "unified \<Rightarrow> Cgroup" where "unifiedGetCgroups m = um_cgroups m"

definition unifiedGetFreezerState :: "'k world \<Rightarrow> unified \<Rightarrow> ('k, FreezerState) io" where
  "unifiedGetFreezerState W m = fs2GetFreezerState W (um_fsMgr m)"

definition unifiedExists :: "'k world \<Rightarrow> unified \<Rightarrow> 'k \<Rightarrow> bool" where "unifiedExists W m s = w_exists W (um_path m) s"

definition unifiedOOMKillCount :: "'k world \<Rightarrow> unified \<Rightarrow> ('k, u64) io" where
  "unifiedOOMKillCount W m = OOMKillCount2 W (um_fsMgr m)"

definition unifiedGetStats ::
  "((string \<rightharpoonup> string list) \<Rightarrow> (string \<times> string list) list) \<Rightarrow> 'k world \<Rightarrow> string list \<Rightarrow> unified \<Rightarrow> 'k \<Rightarrow>
     (Stats \<times> fs_error option) \<times> 'k" where
  "unifiedGetStats order W pageSizes m s = GetStats2 order W pageSizes (um_fsMgr m) s"

subsection \<open>The connection to systemd\<close>

text \<open>The globals of the package: the connection, and whether it is to the systemd of a user.\<close>

record 'c dbus_state =
  db_C :: "'c option"
  db_Inited :: bool
  db_Rootless :: bool

text \<open>None is the panic of a process that wants both kinds.\<close>

definition newDbusConnManager :: "bool \<Rightarrow> 'c dbus_state \<Rightarrow> 'c dbus_state option" where
  "newDbusConnManager rootless d =
     (if db_Inited d \<and> rootless \<noteq> db_Rootless d then None
      else Some (d\<lparr>db_Inited := True, db_Rootless := rootless\<rparr>))"

text \<open>What the D-Bus library is asked for; \<open>'c\<close> are connections.\<close>

record ('c, 'k) dbus_lib =
  dl_System :: "'k \<Rightarrow> (bus_error + 'c) \<times> 'k"
  dl_Dial :: "string \<Rightarrow> 'k \<Rightarrow> (bus_error + 'c) \<times> 'k"
  dl_AuthExternal :: "string \<Rightarrow> 'c \<Rightarrow> 'k \<Rightarrow> bus_error option \<times> 'k"
  dl_Hello :: "'c \<Rightarrow> 'k \<Rightarrow> bus_error option \<times> 'k"
  dl_Close :: "'c \<Rightarrow> 'k \<Rightarrow> 'k"

datatype connect_error = NoUserBus detect_error | DialFailed string bus_error | AuthFailed string int bus_error
  | HelloFailed string int bus_error | ConnectFailed bus_error

definition newUserSystemdDbus ::
  "('c, 'k) dbus_lib \<Rightarrow> detect_error + string \<Rightarrow> detect_error + int \<Rightarrow> 'k \<Rightarrow> (connect_error + 'c) \<times> 'k" where
  "newUserSystemdDbus L detectedAddr detectedUID s =
     (case detectedAddr of
        Inl e \<Rightarrow> (Inl (NoUserBus e), s)
      | Inr addr \<Rightarrow>
          (case detectedUID of
             Inl e \<Rightarrow> (Inl (NoUserBus e), s)
           | Inr uid \<Rightarrow>
               (case dl_Dial L addr s of
                  (Inl e, s1) \<Rightarrow> (Inl (DialFailed addr e), s1)
                | (Inr conn, s1) \<Rightarrow>
                    (case dl_AuthExternal L (Itoa uid) conn s1 of
                       (Some e, s2) \<Rightarrow> (Inl (AuthFailed addr uid e), dl_Close L conn s2)
                     | (None, s2) \<Rightarrow>
                         (case dl_Hello L conn s2 of
                            (Some e, s3) \<Rightarrow> (Inl (HelloFailed addr uid e), dl_Close L conn s3)
                          | (None, s3) \<Rightarrow> (Inr conn, s3))))))"

definition newConnection ::
  "('c, 'k) dbus_lib \<Rightarrow> detect_error + string \<Rightarrow> detect_error + int \<Rightarrow> 'c dbus_state \<Rightarrow> 'k \<Rightarrow> (connect_error + 'c) \<times> 'k" where
  "newConnection L detectedAddr detectedUID d s =
     (if db_Rootless d then newUserSystemdDbus L detectedAddr detectedUID s
      else (case dl_System L s of (Inl e, s') \<Rightarrow> (Inl (ConnectFailed e), s') | (Inr c, s') \<Rightarrow> (Inr c, s')))"

definition resetConnection :: "('c, 'k) dbus_lib \<Rightarrow> 'c \<Rightarrow> 'c dbus_state \<Rightarrow> 'k \<Rightarrow> 'c dbus_state \<times> 'k" where
  "resetConnection L conn d s =
     (if db_C d = Some conn then (d\<lparr>db_C := None\<rparr>, dl_Close L conn s) else (d, s))"

text \<open>
  \<open>systemdVersion\<close>: \<open>version\<close> is what \<open>getManagerProperty\<close> says. A text without a number leaves 0.
\<close>

definition systemdVersion :: "bus_error + string \<Rightarrow> int" where
  "systemdVersion verStr =
     (case verStr of
        Inl e \<Rightarrow> -1
      | Inr v \<Rightarrow>
          (case systemdVersionAtoi v of
             Inr ver \<Rightarrow> ver
           | Inl (VersionMatch t) \<Rightarrow> 0
           | Inl e \<Rightarrow> -1))"

text \<open>\<open>Lstat\<close> of /run/systemd/system: whether there is a directory.\<close>

definition IsRunningSystemd :: "(string \<Rightarrow> sys_error + bool) \<Rightarrow> bool" where
  "IsRunningSystemd lstatIsDir = (lstatIsDir ''/run/systemd/system'' = Inr True)"

subsection \<open>The interface cgroups.Manager\<close>

definition DestroyManager ::
  "'k bus \<Rightarrow> ((string \<rightharpoonup> string) \<Rightarrow> (string \<times> string) list) \<Rightarrow> (nat \<Rightarrow> cgtree \<Rightarrow> cgtree) \<Rightarrow> any_manager \<Rightarrow> 'k \<Rightarrow> cgtree \<Rightarrow>
     bool \<times> 'k \<times> cgtree" where
  "DestroyManager B order settle M s fs =
     (case M of
        FsV1 m \<Rightarrow> (case fs1Destroy order settle m fs of (failed, fs') \<Rightarrow> (failed, s, fs'))
      | SystemdLegacy m \<Rightarrow> legacyDestroy B order settle m s fs
      | FsV2 m \<Rightarrow> (case fs2Destroy m fs of (failed, fs') \<Rightarrow> (failed, s, fs'))
      | SystemdUnified m \<Rightarrow> unifiedDestroy B m s fs)"

definition ManagerPaths :: "any_manager \<Rightarrow> (string \<rightharpoonup> string)" where
  "ManagerPaths M =
     (case M of
        FsV1 m \<Rightarrow> fs1GetPaths m
      | SystemdLegacy m \<Rightarrow> legacyGetPaths m
      | FsV2 m \<Rightarrow> fs2GetPaths m
      | SystemdUnified m \<Rightarrow> unifiedGetPaths m)"

definition managerUnit :: "any_manager \<Rightarrow> string option" where
  "managerUnit M =
     (case M of
        SystemdLegacy m \<Rightarrow> Some (getUnitName (legacyGetCgroups m))
      | SystemdUnified m \<Rightarrow> Some (getUnitName (unifiedGetCgroups m))
      | _ \<Rightarrow> None)"

definition onePath :: "any_manager \<Rightarrow> bool" where
  "onePath M = (case M of SystemdUnified m \<Rightarrow> m2_dirPath (um_fsMgr m) = um_path m | _ \<Rightarrow> True)"

lemma RemovePath_success: "RemovePath d = (False, left) \<Longrightarrow> left = None"
  using removeDir_busy(1) by (cases d) (auto simp: RemovePath_def, metis fst_conv snd_conv not_None_eq)

lemma fs2Destroy_success:
  "fs2Destroy m fs = (False, fs') \<Longrightarrow> fs' (m2_dirPath m) = None \<and> (\<forall>p. fs p = None \<longrightarrow> fs' p = None)"
  by (auto simp: fs2Destroy_def split: prod.splits dest: RemovePath_success)

lemma RemovePaths_success:
  assumes "RemovePaths settle (order m) fs = (None, fs')" "map_of (order m) = m"
    and settle: "\<And>i f q. f q = None \<Longrightarrow> settle i f q = None"
  shows "(\<forall>sub p. m sub = Some p \<longrightarrow> fs' p = None) \<and> (\<forall>p. fs p = None \<longrightarrow> fs' p = None)"
proof -
  have "(sub, p) \<in> set (order m)" if "m sub = Some p" for sub p
    using that assms(2) map_of_SomeD by metis
  then show ?thesis
    using removeRounds_gone [OF settle assms(1) [unfolded RemovePaths_def]] by fastforce
qed


text \<open>A container group with a group inside, for a systemd that stops every unit.\<close>

definition stoppingBus :: "unit bus" where
  "stoppingBus =
     \<lparr>b_start = (\<lambda>u ps s. (JobResult ''done'', s)), b_stop = (\<lambda>u s. (JobResult ''done'', s)), b_reset = (\<lambda>u s. s),
      b_setProps = (\<lambda>u ps s. (None, s)), b_getProp = (\<lambda>u t n s. Inl (OtherBusError ''none''))\<rparr>"

definition exampleUnified :: unified where
  "exampleUnified =
     (let c = plainCgroup\<lparr>cg_Name := ''c1'', cg_ScopePrefix := ''runc''\<rparr>; p = ''/sys/fs/cgroup/system.slice/runc-c1.scope'' in
      \<lparr>um_cgroups = c, um_path = p, um_fsMgr = \<lparr>m2_config = c, m2_dirPath = p, m2_controllers = None\<rparr>\<rparr>)"

definition oneOrder :: "(string \<rightharpoonup> string) \<Rightarrow> (string \<times> string) list" where
  "oneOrder m = (case m [] of None \<Rightarrow> [] | Some p \<Rightarrow> [([], p)])"

end
