(* ===== verification/HostDevices.thy ===== *)
theory HostDevices imports Devices Paths begin

text \<open>
  The devices of the host (devices/device_unix.go): what lstat tells of a path, and the walk through
  /dev. A directory tree is a value: every directory with its entries in the order they are listed,
  or the error of listing it, and for everything else what lstat answers.
\<close>

subsection \<open>One device\<close>

definition S_IFMT_mask :: u32 where "S_IFMT_mask = 0xF000"
definition S_IFBLK :: u32 where "S_IFBLK = 0x6000"
definition S_IFCHR :: u32 where "S_IFCHR = 0x2000"
definition S_IFIFO :: u32 where "S_IFIFO = 0x1000"

record Stat =
  stat_Mode :: u32
  stat_Rdev :: u64
  stat_Uid :: u32
  stat_Gid :: u32

datatype dev_error = ErrNotADevice | ErrNotExist | OtherSys string

text \<open>\<open>number\<close> is \<open>unix.Major\<close> and \<open>unix.Minor\<close>.\<close>

definition DeviceFromPath :: "(u64 \<Rightarrow> u32 \<times> u32) \<Rightarrow> (string \<Rightarrow> dev_error + Stat) \<Rightarrow> string \<Rightarrow> string \<Rightarrow> dev_error + Device" where
  "DeviceFromPath number lstat path permissions =
     andThen (lstat path) (\<lambda>stat.
       let mode = stat_Mode stat; fmt = mode AND S_IFMT_mask;
           dev = (\<lambda>t. Inr
             \<lparr>r_Type = t, r_Major = uint (fst (number (stat_Rdev stat))), r_Minor = uint (snd (number (stat_Rdev stat))),
              r_Permissions = permissions, r_Allow = False, d_Path = path, d_FileMode = mode AND NOT S_IFMT_mask,
              d_Uid = stat_Uid stat, d_Gid = stat_Gid stat\<rparr>)
       in if fmt = S_IFBLK then dev BlockDevice
          else if fmt = S_IFCHR then dev CharDevice
          else if fmt = S_IFIFO then dev FifoDevice
          else Inl ErrNotADevice)"

subsection \<open>All devices below a directory\<close>

datatype node = DirNode "dev_error + (string \<times> node) list" | OtherNode "dev_error + Stat"

definition skippedDirs :: "string list" where
  "skippedDirs = [''pts'', ''shm'', ''fd'', ''mqueue'', ''.lxc'', ''.lxd-mounts'', ''.udev'']"

text \<open>What becomes of an entry that is not a directory.\<close>

definition entryDevice :: "(u64 \<Rightarrow> u32 \<times> u32) \<Rightarrow> string \<Rightarrow> string \<Rightarrow> dev_error + Stat \<Rightarrow> dev_error + Device list" where
  "entryDevice number path name lst =
     (if name = ''console'' then Inr []
      else
        (case DeviceFromPath number (\<lambda>p. lst) (PathJoin path name) ''rwm'' of
           Inl ErrNotADevice \<Rightarrow> Inr []
         | Inl ErrNotExist \<Rightarrow> Inr []
         | Inl e \<Rightarrow> Inl e
         | Inr device \<Rightarrow> if r_Type device = FifoDevice then Inr [] else Inr [device]))"

fun GetDevices :: "(u64 \<Rightarrow> u32 \<times> u32) \<Rightarrow> string \<Rightarrow> node \<Rightarrow> dev_error + Device list"
  and devicesOf :: "(u64 \<Rightarrow> u32 \<times> u32) \<Rightarrow> string \<Rightarrow> (string \<times> node) list \<Rightarrow> Device list \<Rightarrow> dev_error + Device list" where
  "GetDevices number path (DirNode (Inl e)) = Inl e"
| "GetDevices number path (DirNode (Inr files)) = devicesOf number path files []"
| "GetDevices number path (OtherNode lst) = Inl (OtherSys ''ENOTDIR'')"
| "devicesOf number path [] out = Inr out"
| "devicesOf number path ((name, DirNode d) # files) out =
     (if name \<in> set skippedDirs then devicesOf number path files out
      else andThen (GetDevices number (PathJoin path name) (DirNode d)) (\<lambda>sub. devicesOf number path files (out @ sub)))"
| "devicesOf number path ((name, OtherNode lst) # files) out =
     andThen (entryDevice number path name lst) (\<lambda>ds. devicesOf number path files (out @ ds))"

definition HostDevices :: "(u64 \<Rightarrow> u32 \<times> u32) \<Rightarrow> node \<Rightarrow> dev_error + Device list" where
  "HostDevices number dev = GetDevices number ''/dev'' dev"

subsection \<open>Which devices are found\<close>

text \<open>
  A block or character device that is not called console, in a directory that is reached through
  directories other than the skipped ones.
\<close>

inductive device_at :: "(u64 \<Rightarrow> u32 \<times> u32) \<Rightarrow> string \<Rightarrow> node \<Rightarrow> Device \<Rightarrow> bool" where
  here: "(name, OtherNode lst) \<in> set files \<Longrightarrow> name \<noteq> ''console'' \<Longrightarrow>
     DeviceFromPath number (\<lambda>p. lst) (PathJoin path name) ''rwm'' = Inr d \<Longrightarrow> r_Type d \<noteq> FifoDevice \<Longrightarrow>
     device_at number path (DirNode (Inr files)) d"
| below: "(name, DirNode n) \<in> set files \<Longrightarrow> name \<notin> set skippedDirs \<Longrightarrow>
     device_at number (PathJoin path name) (DirNode n) d \<Longrightarrow> device_at number path (DirNode (Inr files)) d"

inductive_simps device_at_dir: "device_at number path (DirNode (Inr files)) d"

lemma entryDevice_iff:
  "entryDevice number path name lst = Inr ds \<Longrightarrow>
     d \<in> set ds \<longleftrightarrow> name \<noteq> ''console'' \<and> DeviceFromPath number (\<lambda>p. lst) (PathJoin path name) ''rwm'' = Inr d \<and>
       r_Type d \<noteq> FifoDevice"
  by (auto simp: entryDevice_def split: sum.splits dev_error.splits if_splits)

lemma device_at_Cons:
  "\<not> device_at number path (DirNode (Inr [])) d"
  "device_at number path (DirNode (Inr ((name, DirNode n) # files))) d \<longleftrightarrow>
     (name \<notin> set skippedDirs \<and> device_at number (PathJoin path name) (DirNode n) d) \<or>
     device_at number path (DirNode (Inr files)) d"
  "device_at number path (DirNode (Inr ((name, OtherNode lst) # files))) d \<longleftrightarrow>
     (name \<noteq> ''console'' \<and> DeviceFromPath number (\<lambda>p. lst) (PathJoin path name) ''rwm'' = Inr d \<and> r_Type d \<noteq> FifoDevice) \<or>
     device_at number path (DirNode (Inr files)) d"
  unfolding device_at_dir [of number path _ d] by auto

lemma GetDevices_exact:
  "GetDevices number path n = Inr ds \<Longrightarrow> d \<in> set ds \<longleftrightarrow> device_at number path n d"
  "devicesOf number path files out = Inr ds \<Longrightarrow>
     d \<in> set ds \<longleftrightarrow> d \<in> set out \<or> device_at number path (DirNode (Inr files)) d"
proof (induction number path n and number path files out arbitrary: ds and ds rule: GetDevices_devicesOf.induct)
  case (5 number path name n files out)
  show ?case
  proof (cases "name \<in> set skippedDirs")
    case True
    then show ?thesis using 5 by (simp add: device_at_Cons)
  next
    case False
    then obtain sub where "GetDevices number (PathJoin path name) (DirNode n) = Inr sub"
        "devicesOf number path files (out @ sub) = Inr ds"
      using 5(4) by (auto simp: andThen_Inr_iff)
    then show ?thesis using 5(2,3) False by (auto simp: device_at_Cons)
  qed
next
  case (6 number path name lst files out)
  then obtain es where "entryDevice number path name lst = Inr es" "devicesOf number path files (out @ es) = Inr ds"
    by (auto simp: andThen_Inr_iff)
  then show ?case using 6(1) entryDevice_iff by (fastforce simp: device_at_Cons)
qed (auto simp: device_at_Cons)

lemma device_at_kind:
  "device_at number path n d \<Longrightarrow> r_Type d \<in> {BlockDevice, CharDevice} \<and> r_Permissions d = ''rwm''"
  by (induction rule: device_at.induct)
    (auto simp: DeviceFromPath_def andThen_Inr_iff Let_def split: if_splits)
end
