(* ===== verification/Lookups.thy ===== *)
theory Lookups imports User begin

text \<open>
  The lookups of user/lookup_unix.go: the first entry of /etc/passwd or /etc/group that fits, the
  subordinate ids of the current user, and the id maps of the process. The files are a parameter
  (\<open>filesystem\<close> of the theory User), and so are the ids the kernel gives for the process.
\<close>

definition unixPasswdPath :: string where "unixPasswdPath = ''/etc/passwd''"
definition unixGroupPath :: string where "unixGroupPath = ''/etc/group''"

definition GetPasswdPath :: string where "GetPasswdPath = unixPasswdPath"
definition GetGroupPath :: string where "GetGroupPath = unixGroupPath"

definition GetPasswd :: "filesystem \<Rightarrow> string + reader" where "GetPasswd fs = fs unixPasswdPath"
definition GetGroup :: "filesystem \<Rightarrow> string + reader" where "GetGroup fs = fs unixGroupPath"

definition lookupUserFunc :: "filesystem \<Rightarrow> (User \<Rightarrow> bool) \<Rightarrow> user_error + User" where
  "lookupUserFunc fs f =
     (case GetPasswd fs of Inl e \<Rightarrow> Inl (OpenFailed e)
      | Inr passwd \<Rightarrow>
          andThen (ParsePasswdFilter (Some passwd) (Some f)) (\<lambda>users.
            if users = [] then Inl ErrNoPasswdEntries else Inr (hd users)))"

definition LookupUser :: "filesystem \<Rightarrow> string \<Rightarrow> user_error + User" where
  "LookupUser fs username = lookupUserFunc fs (\<lambda>u. u_Name u = username)"

definition LookupUid :: "filesystem \<Rightarrow> int \<Rightarrow> user_error + User" where
  "LookupUid fs uid = lookupUserFunc fs (\<lambda>u. u_Uid u = uid)"

definition lookupGroupFunc :: "filesystem \<Rightarrow> (Group \<Rightarrow> bool) \<Rightarrow> user_error + Group" where
  "lookupGroupFunc fs f =
     (case GetGroup fs of Inl e \<Rightarrow> Inl (OpenFailed e)
      | Inr gr \<Rightarrow>
          (case ParseGroupFilter (Some gr) (Some f) of
             (Some err, groups) \<Rightarrow> Inl err
           | (None, groups) \<Rightarrow> if groups = [] then Inl ErrNoGroupEntries else Inr (hd groups)))"

definition LookupGroup :: "filesystem \<Rightarrow> string \<Rightarrow> user_error + Group" where
  "LookupGroup fs groupname = lookupGroupFunc fs (\<lambda>g. g_Name g = groupname)"

definition LookupGid :: "filesystem \<Rightarrow> int \<Rightarrow> user_error + Group" where
  "LookupGid fs gid = lookupGroupFunc fs (\<lambda>g. g_Gid g = gid)"

text \<open>\<open>getuid\<close> and \<open>getgid\<close> are the answers of the kernel.\<close>

definition CurrentUser :: "filesystem \<Rightarrow> int \<Rightarrow> user_error + User" where
  "CurrentUser fs getuid = LookupUid fs getuid"

definition CurrentGroup :: "filesystem \<Rightarrow> int \<Rightarrow> user_error + Group" where
  "CurrentGroup fs getgid = LookupGid fs getgid"

definition ownedBy :: "User \<Rightarrow> SubID \<Rightarrow> bool" where
  "ownedBy u entry \<longleftrightarrow> s_Name entry = u_Name u \<or> s_Name entry = Itoa (u_Uid u)"

definition currentUserSubIDs :: "filesystem \<Rightarrow> int \<Rightarrow> string \<Rightarrow> user_error + SubID list" where
  "currentUserSubIDs fs getuid fileName =
     andThen (CurrentUser fs getuid) (\<lambda>u. ParseSubIDFileFilter fs fileName (Some (ownedBy u)))"

definition CurrentUserSubUIDs :: "filesystem \<Rightarrow> int \<Rightarrow> user_error + SubID list" where
  "CurrentUserSubUIDs fs getuid = currentUserSubIDs fs getuid ''/etc/subuid''"

definition CurrentUserSubGIDs :: "filesystem \<Rightarrow> int \<Rightarrow> user_error + SubID list" where
  "CurrentUserSubGIDs fs getuid = currentUserSubIDs fs getuid ''/etc/subgid''"

definition CurrentProcessUIDMap :: "filesystem \<Rightarrow> user_error + IDMap list" where
  "CurrentProcessUIDMap fs = ParseIDMapFile fs ''/proc/self/uid_map''"

definition CurrentProcessGIDMap :: "filesystem \<Rightarrow> user_error + IDMap list" where
  "CurrentProcessGIDMap fs = ParseIDMapFile fs ''/proc/self/gid_map''"

subsection \<open>The first entry that fits\<close>

lemma hd_filter: "(if filter P xs = [] then e else Inr (hd (filter P xs))) = (case find P xs of None \<Rightarrow> e | Some x \<Rightarrow> Inr x)"
  by (induction xs) auto

lemma lookupUserFunc_find:
  "lookupUserFunc fs f =
     andThen (ParsePasswdFile fs unixPasswdPath) (\<lambda>us.
       case find f us of None \<Rightarrow> Inl ErrNoPasswdEntries | Some u \<Rightarrow> Inr u)"
proof (cases "fs unixPasswdPath")
  case (Inr r)
  then show ?thesis
    by (cases "ParsePasswd (Some r)")
       (simp_all add: lookupUserFunc_def GetPasswd_def ParsePasswdFile_def ParsePasswdFilter_eq hd_filter)
qed (simp add: lookupUserFunc_def GetPasswd_def ParsePasswdFile_def)

lemma lookupGroupFunc_find:
  "lookupGroupFunc fs f =
     (case fs unixGroupPath of Inl e \<Rightarrow> Inl (OpenFailed e)
      | Inr r \<Rightarrow>
          (case ParseGroup (Some r) of
             (Some err, gs) \<Rightarrow> Inl err
           | (None, gs) \<Rightarrow> (case find f gs of None \<Rightarrow> Inl ErrNoGroupEntries | Some g \<Rightarrow> Inr g)))"
proof (cases "fs unixGroupPath")
  case (Inr r)
  obtain e gs where gs: "ParseGroup (Some r) = (e, gs)" by (cases "ParseGroup (Some r)")
  then show ?thesis using Inr hd_filter [of f gs "Inl ErrNoGroupEntries"]
    by (cases e) (simp_all add: lookupGroupFunc_def GetGroup_def ParseGroupFilter_eq)
qed (simp add: lookupGroupFunc_def GetGroup_def)

lemma ParseSubIDFilter_eq:
  "ParseSubIDFilter r (Some k) = map_sum id (filter k) (ParseSubID r)"
  by (auto simp: ParseSubID_def ParseSubIDFilter_def sid.run_filter split: option.splits prod.splits)

lemma currentUserSubIDs_Inr:
  "currentUserSubIDs fs getuid path = Inr ss \<longleftrightarrow>
     (\<exists>us u es. ParsePasswdFile fs unixPasswdPath = Inr us \<and> find (\<lambda>u. u_Uid u = getuid) us = Some u \<and>
        ParseSubIDFile fs path = Inr es \<and> ss = filter (ownedBy u) es)"
proof -
  have sub: "ParseSubIDFileFilter fs path (Some k) = map_sum id (filter k) (ParseSubIDFile fs path)" for k
    by (simp add: ParseSubIDFileFilter_def ParseSubIDFile_def ParseSubIDFilter_eq split: sum.split)
  have "(map_sum id (filter k) r = Inr ss) \<longleftrightarrow> (\<exists>es. r = Inr es \<and> ss = filter k es)" for k and r :: "user_error + SubID list"
    by (cases r) auto
  moreover have "LookupUid fs getuid = Inr u \<longleftrightarrow>
      (\<exists>us. ParsePasswdFile fs unixPasswdPath = Inr us \<and> find (\<lambda>u. u_Uid u = getuid) us = Some u)" for u
    by (auto simp: LookupUid_def lookupUserFunc_find andThen_Inr_iff split: option.splits)
  ultimately show ?thesis
    by (auto simp: currentUserSubIDs_def CurrentUser_def andThen_Inr_iff sub)
qed

end
