(* ===== verification/Once.thy ===== *)
theory Once imports Prelude begin

text \<open>
  Values that are computed by the first call only (\<open>sync.Once\<close>): what all such functions of the
  program have in common.
\<close>

text \<open>The answers of successive calls.\<close>

fun callAll :: "('e \<Rightarrow> 's \<Rightarrow> 'a \<times> 's) \<Rightarrow> 'e list \<Rightarrow> 's \<Rightarrow> 'a list" where
  "callAll run [] s = []"
| "callAll run (e # es) s = fst (run e s) # callAll run es (snd (run e s))"

text \<open>
  A function of its surroundings and of a state that tells whether it has run and what it found. The
  client relies on: a call leaves it run, its answer is what the state then holds, and a later call
  changes nothing.
\<close>

locale computed_once =
  fixes run :: "'e \<Rightarrow> 's \<Rightarrow> 'a \<times> 's" and ran :: "'s \<Rightarrow> bool" and found :: "'s \<Rightarrow> 'a"
  assumes leaves_ran: "ran (snd (run e s))"
    and answers_found: "fst (run e s) = found (snd (run e s))"
    and then_kept: "ran s \<Longrightarrow> snd (run e s) = s"
begin

lemma same_again: "run e' (snd (run e s)) = run e s"
  using then_kept [OF leaves_ran] answers_found by (metis prod.collapse)

lemma later_answers:
  "ran s \<Longrightarrow> callAll run es s = replicate (length es) (found s)"
  using answers_found then_kept by (induction es) auto

lemma first_decides: "callAll run (e # es) s = replicate (Suc (length es)) (fst (run e s))"
  using later_answers [OF leaves_ran] answers_found by simp

end

end
