(* ===== verification/UsernsMaps.thy ===== *)
theory UsernsMaps imports ValidateProps Lookups Once begin

text \<open>
  Reading the mappings of a user namespace (userns/userns_maps_linux.go) and telling whether the
  process runs in one (userns/userns_linux.go). Reading a file and the child that joins the
  namespace are parameters: \<open>cat_run\<close> is what the parent sees of one run of the child.
\<close>

subsection \<open>Scanning\<close>

text \<open>
  \<open>fmt.Sscanf\<close>, piece by piece: the verb \<open>%d\<close> with what follows the number, and a space of the
  format, which stands for at least one space of the input or its end.
\<close>

definition scanIntRest :: "string \<Rightarrow> (i64 \<times> string) option" where
  "scanIntRest s =
     (case skipSpace s of
        None \<Rightarrow> None
      | Some t \<Rightarrow>
          (let sgn = (if t \<noteq> [] \<and> hd t \<in> set ''+-'' then [hd t] else []);
               rest = drop (length sgn) t;
               ds = takeWhile (\<lambda>x. digit_val x \<noteq> None) rest
           in if ds = [] then None
              else case ParseInt10 64 (sgn @ ds) of
                     (i, None) \<Rightarrow> Some (word_of_int i, dropWhile (\<lambda>x. digit_val x \<noteq> None) rest)
                   | (i, Some err) \<Rightarrow> None))"

definition scanSpaces :: "string \<Rightarrow> string option" where
  "scanSpaces s =
     (if s = [] then Some []
      else if isSpace (hd s) \<and> hd s \<noteq> nl then Some (dropWhile (\<lambda>x. isSpace x \<and> x \<noteq> nl) s)
      else None)"

lemma scanInt_is_scanIntRest: "scanInt s = map_option fst (scanIntRest s)"
  by (auto simp: scanInt_def scanIntRest_def Let_def split: option.splits prod.splits)

subsection \<open>The lines of a map\<close>

datatype userns_error =
    BadIdmapLine string | IdmapScan scan_error | CatPipe string | CatErrPipe string | CatFork | CatInChild
  | CatRead string | CatReadErr string | CatFind string | CatWait string | CatFailed string
  | CatUnknown int | MapParse string userns_error

definition scanIdmapLine :: "string \<Rightarrow> IDMapC option" where
  "scanIdmapLine line =
     (case scanIntRest line of None \<Rightarrow> None
      | Some (c, r1) \<Rightarrow> (case Option.bind (scanSpaces r1) scanIntRest of None \<Rightarrow> None
      | Some (h, r2) \<Rightarrow> (case Option.bind (scanSpaces r2) scanIntRest of None \<Rightarrow> None
      | Some (n, r3) \<Rightarrow> Some \<lparr>im_ContainerID = c, im_HostID = h, im_Size = n\<rparr>)))"

definition idmapStep :: "string \<Rightarrow> IDMapC list \<Rightarrow> userns_error + IDMapC list" where
  "idmapStep line ms =
     (case scanIdmapLine line of None \<Rightarrow> Inl (BadIdmapLine line) | Some m \<Rightarrow> Inr (ms @ [m]))"

text \<open>No line at all leaves the nil slice.\<close>

definition parseIdmapData :: "string \<Rightarrow> userns_error + IDMapC list option" where
  "parseIdmapData data =
     (case Scan \<lparr>rd_data = data, rd_err = None\<rparr> of
        (lines, e) \<Rightarrow>
          andThen (foldRes idmapStep lines []) (\<lambda>ms.
            case e of Some err \<Rightarrow> Inl (IdmapScan err)
            | None \<Rightarrow> Inr (if ms = [] then None else Some ms)))"

subsection \<open>The child that joins the namespace\<close>

record cat_run =
  cr_Pipe :: "string option"
  cr_ErrPipe :: "string option"
  cr_Pid :: int
  cr_Output :: "string + string"
  cr_ErrOutput :: "string + string"
  cr_Find :: "string option"
  cr_Wait :: "string + int"

definition spawnUserNamespaceCat :: "(string \<Rightarrow> string \<Rightarrow> cat_run) \<Rightarrow> string \<Rightarrow> string \<Rightarrow> userns_error + string" where
  "spawnUserNamespaceCat spawn nsPath path =
     (let run = spawn nsPath path in
      case cr_Pipe run of Some e \<Rightarrow> Inl (CatPipe e) | None \<Rightarrow>
      (case cr_ErrPipe run of Some e \<Rightarrow> Inl (CatErrPipe e) | None \<Rightarrow>
       if cr_Pid run < 0 then Inl CatFork
       else if cr_Pid run = 0 then Inl CatInChild
       else case cr_Output run of Inl e \<Rightarrow> Inl (CatRead e) | Inr output \<Rightarrow>
       (case cr_ErrOutput run of Inl e \<Rightarrow> Inl (CatReadErr e) | Inr errOutput \<Rightarrow>
        (case cr_Find run of Some e \<Rightarrow> Inl (CatFind e) | None \<Rightarrow>
         (case cr_Wait run of Inl e \<Rightarrow> Inl (CatWait e) | Inr status \<Rightarrow>
          if status \<noteq> 0 then
            (if TrimSpace errOutput = [] then Inl (CatUnknown status) else Inl (CatFailed (TrimSpace errOutput)))
          else Inr output)))))"

subsection \<open>The mappings\<close>

text \<open>
  \<open>fmt.Sscanf(nsPath, "/proc/%d/ns/user%c", &pid, &extra)\<close> has scanned one item when a number
  follows the first literal, and not both the second literal and another character.
\<close>

definition nsProc :: string where "nsProc = ''/proc/''"
definition nsUser :: string where "nsUser = ''/ns/user''"

definition scanNsPath :: "string \<Rightarrow> i64 option" where
  "scanNsPath nsPath =
     (if \<not> HasPrefix nsPath nsProc then None
      else case scanIntRest (drop (length nsProc) nsPath) of None \<Rightarrow> None
      | Some (pid, rest) \<Rightarrow> if HasPrefix rest nsUser \<and> rest \<noteq> nsUser then None else Some pid)"

definition fastPathPid :: "string \<Rightarrow> i64 option" where
  "fastPathPid nsPath =
     (case scanNsPath nsPath of None \<Rightarrow> None | Some pid \<Rightarrow> if 0 <s pid then Some pid else None)"

definition readMap :: "(string \<Rightarrow> string + string) \<Rightarrow> (string \<Rightarrow> string \<Rightarrow> cat_run) \<Rightarrow> string \<Rightarrow> string \<Rightarrow> userns_error + IDMapC list option" where
  "readMap readFile spawn nsPath name =
     (let mapData = (case fastPathPid nsPath of None \<Rightarrow> None
                     | Some pid \<Rightarrow>
                         (case readFile (nsProc @ Itoa (sint pid) @ ''/'' @ name) of
                            Inl err \<Rightarrow> None
                          | Inr data \<Rightarrow> Some data))
      in andThen (case mapData of Some data \<Rightarrow> Inr data
                  | None \<Rightarrow> spawnUserNamespaceCat spawn nsPath (''/proc/self/'' @ name)) (\<lambda>data.
         case parseIdmapData data of Inl err \<Rightarrow> Inl (MapParse name err) | Inr ms \<Rightarrow> Inr ms))"

definition GetUserNamespaceMappings ::
    "(string \<Rightarrow> string + string) \<Rightarrow> (string \<Rightarrow> string \<Rightarrow> cat_run) \<Rightarrow> string
     \<Rightarrow> userns_error + (IDMapC list option \<times> IDMapC list option)" where
  "GetUserNamespaceMappings readFile spawn nsPath =
     andThen (readMap readFile spawn nsPath ''uid_map'') (\<lambda>uidMap.
     andThen (readMap readFile spawn nsPath ''gid_map'') (\<lambda>gidMap. Inr (uidMap, gidMap)))"

subsection \<open>In a user namespace\<close>

definition uidMapInUserNS :: "IDMap list \<Rightarrow> bool" where
  "uidMapInUserNS uidmap =
     (if length uidmap = 1 \<and> m_ID (hd uidmap) = 0 \<and> m_ParentID (hd uidmap) = 0 \<and> m_Count (hd uidmap) = 4294967295
      then False else True)"

text \<open>\<open>sync.Once\<close>: the map is read by the first call only, and its answer is kept.\<close>

record ns_state =
  nsOnce :: bool
  inUserNS :: bool

definition runningInUserNS :: "filesystem \<Rightarrow> ns_state \<Rightarrow> bool \<times> ns_state" where
  "runningInUserNS fs s =
     (let s' = (if nsOnce s then s
                else (case CurrentProcessUIDMap fs of
                        Inl err \<Rightarrow> s\<lparr>nsOnce := True\<rparr>
                      | Inr uidmap \<Rightarrow> s\<lparr>nsOnce := True, inUserNS := uidMapInUserNS uidmap\<rparr>))
      in (inUserNS s', s'))"

interpretation ns: computed_once runningInUserNS nsOnce inUserNS
  by unfold_locales (auto simp: runningInUserNS_def Let_def split: sum.splits)

subsection \<open>What the kernel prints\<close>

definition pad10 :: "nat \<Rightarrow> string" where "pad10 n = replicate (10 - length (utoa n)) CHR '' '' @ utoa n"

definition printIdmap :: "IDMapC \<Rightarrow> string" where
  "printIdmap m =
     pad10 (unat (im_ContainerID m)) @ '' '' @ pad10 (unat (im_HostID m)) @ '' '' @ pad10 (unat (im_Size m))"

definition kernelMapping :: "IDMapC \<Rightarrow> bool" where
  "kernelMapping m \<longleftrightarrow> unat (im_ContainerID m) < 2 ^ 32 \<and> unat (im_HostID m) < 2 ^ 32 \<and> unat (im_Size m) < 2 ^ 32"

lemma skipSpace_blanks: "skipSpace (replicate n CHR '' '' @ s) = skipSpace s"
  by (induction n) (auto simp: isSpace_def)

lemma digit_no_space_sign: "digit_val x \<noteq> None \<Longrightarrow> \<not> isSpace x \<and> x \<notin> set ''+-''"
  by (auto simp: isSpace_def digit_val_def)

lemma takeWhile_utoa:
  assumes "r = [] \<or> digit_val (hd r) = None"
  shows "takeWhile (\<lambda>x. digit_val x \<noteq> None) (utoa n @ r) = utoa n"
    and "dropWhile (\<lambda>x. digit_val x \<noteq> None) (utoa n @ r) = r"
  using utoa_digit_val assms by (auto simp: takeWhile_append dropWhile_append takeWhile_eq_Nil_iff
      dropWhile_eq_Cons_conv intro: takeWhile_eq_self dest: utoa_digit_val; (cases r; simp))+

lemma scanIntRest_utoa:
  assumes "r = [] \<or> digit_val (hd r) = None" and "n < 2 ^ 63"
  shows "scanIntRest (replicate k CHR '' '' @ utoa n @ r) = Some (word_of_nat n, r)"
proof -
  obtain x xs where u: "utoa n = x # xs" by (cases "utoa n") auto
  then have x: "\<not> isSpace x" "x \<notin> set ''+-''" using digit_no_space_sign utoa_digit_val [of x n] by auto
  have "skipSpace (replicate k CHR '' '' @ utoa n @ r) = Some (utoa n @ r)"
    using x u skipSpace_id [of "utoa n @ r"] by (simp add: skipSpace_blanks)
  moreover have "ParseInt10 64 (utoa n) = (int n, None)"
    using Atoi_Itoa [of "int n"] assms(2) by (simp add: Atoi_def Itoa_def)
  moreover have "hd (utoa n @ r) \<notin> set ''+-''" using u x by simp
  ultimately show ?thesis using takeWhile_utoa [OF assms(1), of n]
    by (simp add: scanIntRest_def Let_def)
qed

lemma scanSpaces_blank:
  "scanSpaces ('' '' @ replicate k CHR '' '' @ utoa n @ r) = Some (utoa n @ r)"
proof -
  obtain x xs where u: "utoa n = x # xs" by (cases "utoa n") auto
  then have x: "\<not> isSpace x" using digit_no_space_sign utoa_digit_val [of x n] by auto
  have sp: "isSpace CHR '' ''" "CHR '' '' \<noteq> nl" by (simp_all add: isSpace_def)
  have "dropWhile (\<lambda>x. isSpace x \<and> x \<noteq> nl) (replicate k CHR '' '' @ utoa n @ r) = utoa n @ r"
    using u x sp by (induction k) auto
  then show ?thesis using sp by (simp add: scanSpaces_def)
qed

lemma scanIdmapLine_print:
  assumes "kernelMapping m"
  shows "scanIdmapLine (printIdmap m) = Some m"
proof -
  have lt: "unat (im_ContainerID m) < 2 ^ 63" "unat (im_HostID m) < 2 ^ 63" "unat (im_Size m) < 2 ^ 63"
    using assms by (auto simp: kernelMapping_def)
  have sp: "CHR '' '' # s = [] \<or> digit_val (hd (CHR '' '' # s)) = None" for s by (simp add: digit_val_def)
  have last: "scanIntRest (utoa (unat (im_Size m))) = Some (im_Size m, [])"
    using scanIntRest_utoa [of "[]", OF _ lt(3), of 0] by simp
  have second: "scanIntRest (utoa (unat (im_HostID m)) @ CHR '' '' # s) = Some (im_HostID m, CHR '' '' # s)" for s
    using scanIntRest_utoa [OF sp lt(2), of 0] by simp
  have first: "scanIntRest (pad10 (unat (im_ContainerID m)) @ CHR '' '' # s) = Some (im_ContainerID m, CHR '' '' # s)" for s
    using scanIntRest_utoa [OF sp lt(1)] by (simp add: pad10_def)
  have gap: "scanSpaces (CHR '' '' # pad10 n @ r) = Some (utoa n @ r)" for n r
    using scanSpaces_blank [of "10 - length (utoa n)" n r] by (simp add: pad10_def)
  show ?thesis
    using gap [of _ "[]"] by (simp add: scanIdmapLine_def printIdmap_def first gap second last)
qed

lemma length_pad10: "n < 2 ^ 32 \<Longrightarrow> length (pad10 n) = 10"
  using utoa_length [of n 10] by (simp add: pad10_def)

lemma printIdmap_line:
  assumes "kernelMapping m"
  shows "plain_line (printIdmap m) \<and> length (printIdmap m) < maxScanTokenSize"
proof -
  have "set (pad10 n) \<subseteq> set '' 0123456789''" for n
    using utoa_digits [of n] digit_char_printable by (fastforce simp: pad10_def)
  then have "nl \<notin> set (pad10 n) \<and> cr \<notin> set (pad10 n)" for n by fastforce
  then show ?thesis using assms
    by (simp add: printIdmap_def plain_line_def kernelMapping_def length_pad10 maxScanTokenSize_def)
qed

definition nilable :: "'a list \<Rightarrow> 'a list option" where
  "nilable ms = (if ms = [] then None else Some ms)"

lemma parseIdmapData_print:
  assumes "list_all kernelMapping ms"
  shows "parseIdmapData (unlines (map printIdmap ms)) = Inr (nilable ms)"
proof -
  have "scanLines (unlines (map printIdmap ms)) = (map printIdmap ms, False)"
    using assms printIdmap_line by (intro scanLines_unlines) (auto simp: list_all_iff)
  moreover have "foldRes idmapStep (map printIdmap ms) acc = Inr (acc @ ms)" for acc
    using assms by (induction ms arbitrary: acc) (auto simp: idmapStep_def scanIdmapLine_print)
  ultimately show ?thesis by (simp add: parseIdmapData_def Scan_def nilable_def)
qed

lemma fastPathPid_proc:
  assumes "0 < pid" and "pid < 2 ^ 63" and "r = [] \<or> digit_val (hd r) = None"
  shows "fastPathPid (nsProc @ utoa pid @ r) =
     (if HasPrefix r nsUser \<and> r \<noteq> nsUser then None else Some (word_of_nat pid))"
proof -
  have "scanIntRest (utoa pid @ r) = Some (word_of_nat pid, r)"
    using scanIntRest_utoa [OF assms(3,2), of 0] by simp
  moreover have "0 <s (word_of_nat pid :: i64)"
  proof -
    have "sint (word_of_nat pid :: i64) = int pid"
      using assms by (simp add: signed_of_nat signed_take_bit_int_eq_self)
    then show ?thesis using assms by (simp add: word_sless_alt)
  qed
  ultimately show ?thesis by (simp add: fastPathPid_def scanNsPath_def)
qed

text \<open>What the parent sees when the child has copied a file.\<close>

definition copied :: "cat_run \<Rightarrow> string \<Rightarrow> bool" where
  "copied run data \<longleftrightarrow> cr_Pipe run = None \<and> cr_ErrPipe run = None \<and> 0 < cr_Pid run \<and> cr_Output run = Inr data \<and>
     (\<exists>w. cr_ErrOutput run = Inr w) \<and> cr_Find run = None \<and> cr_Wait run = Inr 0"

lemma spawnUserNamespaceCat_Inr:
  "spawnUserNamespaceCat spawn nsPath path = Inr data \<longleftrightarrow> copied (spawn nsPath path) data"
  by (auto simp: spawnUserNamespaceCat_def copied_def Let_def split: option.splits sum.splits if_splits)

text \<open>
  The two sources of a map: the file of the process, when the path names one and the file can be
  read, and otherwise the child.
\<close>

definition delivered :: "(string \<Rightarrow> string + string) \<Rightarrow> (string \<Rightarrow> string \<Rightarrow> cat_run) \<Rightarrow> string \<Rightarrow> string \<Rightarrow> string \<Rightarrow> bool" where
  "delivered readFile spawn nsPath name data \<longleftrightarrow>
     (case fastPathPid nsPath of
        Some pid \<Rightarrow>
          (case readFile (nsProc @ Itoa (sint pid) @ ''/'' @ name) of
             Inr d \<Rightarrow> d = data
           | Inl e \<Rightarrow> copied (spawn nsPath (''/proc/self/'' @ name)) data)
      | None \<Rightarrow> copied (spawn nsPath (''/proc/self/'' @ name)) data)"

lemma readMap_delivered:
  assumes "delivered readFile spawn nsPath name data"
  shows "readMap readFile spawn nsPath name =
     (case parseIdmapData data of Inl err \<Rightarrow> Inl (MapParse name err) | Inr ms \<Rightarrow> Inr ms)"
  using assms spawnUserNamespaceCat_Inr [of spawn nsPath "''/proc/self/'' @ name" data]
  by (auto simp: delivered_def readMap_def split: option.splits sum.splits)

text \<open>
  Also a path that names another file of a process is scanned as one item, so the maps of that
  process are taken for those of the namespace.
\<close>

lemma fast_path_of_other_files:
  assumes "0 < pid" and "pid < 2 ^ 63"
  shows "fastPathPid (nsProc @ utoa pid @ ''/ns/mnt'') = Some (word_of_nat pid)"
    and "fastPathPid (nsProc @ utoa pid @ ''/task/9/ns/user'') = Some (word_of_nat pid)"
    and "fastPathPid (nsProc @ utoa pid @ nsUser) = Some (word_of_nat pid)"
    and "fastPathPid (nsProc @ utoa pid @ nsUser @ ''/'') = None"
  using assms by (simp_all add: fastPathPid_proc nsUser_def digit_val_def)

lemma readMap_Inr:
  "readMap readFile spawn nsPath name = Inr ms \<longleftrightarrow>
     (\<exists>data. delivered readFile spawn nsPath name data \<and> parseIdmapData data = Inr ms)"
proof
  assume "readMap readFile spawn nsPath name = Inr ms"
  then show "\<exists>data. delivered readFile spawn nsPath name data \<and> parseIdmapData data = Inr ms"
    by (auto simp: readMap_def delivered_def andThen_Inr_iff spawnUserNamespaceCat_Inr split: option.splits sum.splits)
next
  assume "\<exists>data. delivered readFile spawn nsPath name data \<and> parseIdmapData data = Inr ms"
  then show "readMap readFile spawn nsPath name = Inr ms" by (auto simp: readMap_delivered)
qed

subsection \<open>Joining a namespace\<close>

lemma IsSameMapping_eq: "IsSameMapping a b \<longleftrightarrow> a = b"
  by (induction a b rule: IsSameMapping.induct) auto

text \<open>
  In the conversion of a specification: a configuration that joins a user namespace by its path gets
  the mappings the kernel prints for it, and mappings of the specification must be the same.
\<close>

lemma joined_mappings:
  assumes "PathOf (c_Namespaces c) NEWUSER = nsPath" and "nsPath \<noteq> []"
    and "ev_UserNamespaceMappings ev nsPath = map_sum shown id (GetUserNamespaceMappings readFile spawn nsPath)"
    and "list_all kernelMapping ums" and "list_all kernelMapping gms"
    and "delivered readFile spawn nsPath ''uid_map'' (unlines (map printIdmap ums))"
    and "delivered readFile spawn nsPath ''gid_map'' (unlines (map printIdmap gms))"
  shows "cacheMappings ev c =
     (if (c_UidMappings c = None \<and> c_GidMappings c = None) \<or>
         (sliceOf (c_UidMappings c) = ums \<and> sliceOf (c_GidMappings c) = gms)
      then Inr (c\<lparr>c_UidMappings := nilable ums, c_GidMappings := nilable gms\<rparr>) else Inl MappingMismatch)"
proof -
  have "GetUserNamespaceMappings readFile spawn nsPath = Inr (nilable ums, nilable gms)"
    using assms by (simp add: GetUserNamespaceMappings_def readMap_delivered parseIdmapData_print)
  moreover have "sliceOf (nilable ms) = ms" for ms :: "IDMapC list" by (simp add: sliceOf_def nilable_def)
  ultimately show ?thesis using assms(1-3) by (auto simp: cacheMappings_def IsSameMapping_eq)
qed

subsection \<open>Properties\<close>


text \<open>The first map from the file of process 7, the second, whose file cannot be read, from the child.\<close>

definition exampleMap :: IDMapC where
  "exampleMap = \<lparr>im_ContainerID = 0, im_HostID = 100000, im_Size = 65536\<rparr>"

definition exampleFiles :: "string \<Rightarrow> string + string" where
  "exampleFiles path =
     (if path = ''/proc/7/uid_map'' then Inr (unlines (map printIdmap [exampleMap, exampleMap])) else Inl ''permission denied'')"

definition exampleSpawn :: "string \<Rightarrow> string \<Rightarrow> cat_run" where
  "exampleSpawn nsPath path =
     \<lparr>cr_Pipe = None, cr_ErrPipe = None, cr_Pid = (if path = ''/proc/self/gid_map'' then 42 else - 1),
      cr_Output = Inr (unlines (map printIdmap [exampleMap])), cr_ErrOutput = Inr [], cr_Find = None, cr_Wait = Inr 0\<rparr>"


end
