(* ===== verification/CgroupFiles.thy ===== *)
theory CgroupFiles imports V1Utils Once begin

text \<open>
  Opening a cgroup file in full (cgroups/file.go): the handle of the cgroup root that is taken once,
  openat2(2) below it, and the check of the file system when openat2 cannot be used; and the probes of
  the mounted cgroup version and of the huge page sizes that cgroups/utils.go takes once. The kernel
  is a parameter; the calls made are recorded.
\<close>

subsection \<open>Calls\<close>

datatype file_flag = O_WRONLY | O_RDWR | O_TRUNC | O_CREATE | O_CLOEXEC | O_DIRECTORY | O_PATH

datatype fs_magic = CGROUP_SUPER_MAGIC | CGROUP2_SUPER_MAGIC | PROC_SUPER_MAGIC | OtherMagic u64

text \<open>Flags other than these do not matter to the code; none at all is \<open>O_RDONLY\<close>.\<close>

datatype 'h file_event =
    RootOpen2 string "file_flag list" "sys_error + 'h"
  | StatFs 'h "sys_error + fs_magic"
  | Open2 'h string "resolve list" "file_flag list" u32 "sys_error + 'h"
  | OpenPath string "file_flag list" u32 "sys_error + 'h"
  | Closed 'h
  | ReadLink 'h string

record ('h, 's) file_kernel =
  fk_OpenRoot :: "string \<Rightarrow> file_flag list \<Rightarrow> 's \<Rightarrow> (sys_error + 'h) \<times> 's"
  fk_Fstatfs :: "'h \<Rightarrow> 's \<Rightarrow> (sys_error + fs_magic) \<times> 's"
  fk_Openat2 :: "'h \<Rightarrow> string \<Rightarrow> resolve list \<Rightarrow> file_flag list \<Rightarrow> u32 \<Rightarrow> 's \<Rightarrow> (sys_error + 'h) \<times> 's"
  fk_Open :: "string \<Rightarrow> file_flag list \<Rightarrow> u32 \<Rightarrow> 's \<Rightarrow> (sys_error + 'h) \<times> 's"
  fk_Close :: "'h \<Rightarrow> 's \<Rightarrow> 's"
  fk_Readlink :: "'h \<Rightarrow> 's \<Rightarrow> string"  \<comment> \<open>of the link in /proc/self/fd, empty on an error\<close>

datatype file_error =
    PathError string string sys_error   \<comment> \<open>operation, path and cause\<close>
  | WrongRootHandle string file_error
  | NotCgroupfs string
  | NoDirGiven string

text \<open>The variables of the package that hold the handle; the zero value is the state at the start.\<close>

record 'h prep_state =
  prepOnce :: bool
  prepErr :: "file_error option"
  cgroupRootHandle :: "'h option"
  rootResolve :: "resolve list"

definition prepStart :: "'h prep_state" where
  "prepStart = \<lparr>prepOnce = False, prepErr = None, cgroupRootHandle = None, rootResolve = []\<rparr>"

definition cgroupfsDir :: string where "cgroupfsDir = ''/sys/fs/cgroup''"

definition rootOpenFlags :: "file_flag list" where "rootOpenFlags = [O_DIRECTORY, O_PATH, O_CLOEXEC]"

type_synonym ('h, 's, 'a) file_io = "'a \<times> 'h file_event list \<times> 'h prep_state \<times> 's"

definition prepareOpenat2 :: "('h, 's) file_kernel \<Rightarrow> 'h prep_state \<Rightarrow> 's \<Rightarrow> ('h, 's, file_error option) file_io" where
  "prepareOpenat2 K p s =
     (if prepOnce p then (prepErr p, [], p, s)
      else
        (let p1 = p\<lparr>prepOnce := True\<rparr> in
         case fk_OpenRoot K cgroupfsDir rootOpenFlags s of
           (Inl err, s1) \<Rightarrow>
             (let e = Some (PathError ''openat2'' cgroupfsDir err) in
              (e, [RootOpen2 cgroupfsDir rootOpenFlags (Inl err)], p1\<lparr>prepErr := e\<rparr>, s1))
         | (Inr fd, s1) \<Rightarrow>
             (case fk_Fstatfs K fd s1 of
                (Inl err, s2) \<Rightarrow>
                  (let e = Some (PathError ''statfs'' cgroupfsDir err) in
                   (e, [RootOpen2 cgroupfsDir rootOpenFlags (Inr fd), StatFs fd (Inl err)], p1\<lparr>prepErr := e\<rparr>, s2))
              | (Inr m, s2) \<Rightarrow>
                  (prepErr p1, [RootOpen2 cgroupfsDir rootOpenFlags (Inr fd), StatFs fd (Inr m)],
                   p1\<lparr>cgroupRootHandle := Some fd, rootResolve := resolveFlags (m = CGROUP2_SUPER_MAGIC)\<rparr>, s2))))"

text \<open>The file that is handed out: its descriptor and its name.\<close>

record 'h cg_file =
  cf_Fd :: 'h
  cf_Name :: string

definition openAndCheck ::
    "('h, 's) file_kernel \<Rightarrow> bool \<Rightarrow> string \<Rightarrow> file_flag list \<Rightarrow> u32 \<Rightarrow> 's
     \<Rightarrow> (file_error + 'h cg_file) \<times> 'h file_event list \<times> 's" where
  "openAndCheck K TestMode path flags mode s =
     (case fk_Open K path flags mode s of
        (Inl err, s1) \<Rightarrow> (Inl (PathError ''open'' path err), [OpenPath path flags mode (Inl err)], s1)
      | (Inr fd, s1) \<Rightarrow>
          if TestMode then (Inr \<lparr>cf_Fd = fd, cf_Name = path\<rparr>, [OpenPath path flags mode (Inr fd)], s1)
          else
            (case fk_Fstatfs K fd s1 of
               (Inl err, s2) \<Rightarrow>
                 (Inl (PathError ''statfs'' path err), [OpenPath path flags mode (Inr fd), StatFs fd (Inl err), Closed fd],
                  fk_Close K fd s2)
             | (Inr m, s2) \<Rightarrow>
                 if m \<noteq> CGROUP_SUPER_MAGIC \<and> m \<noteq> CGROUP2_SUPER_MAGIC then
                   (Inl (NotCgroupfs path), [OpenPath path flags mode (Inr fd), StatFs fd (Inr m), Closed fd], fk_Close K fd s2)
                 else (Inr \<lparr>cf_Fd = fd, cf_Name = path\<rparr>, [OpenPath path flags mode (Inr fd), StatFs fd (Inr m)], s2)))"

text \<open>\<open>root\<close> is the handle of the cgroup root.\<close>

definition openBelowRoot ::
    "('h, 's) file_kernel \<Rightarrow> 'h \<Rightarrow> resolve list \<Rightarrow> string \<Rightarrow> string \<Rightarrow> file_flag list \<Rightarrow> u32 \<Rightarrow> 's
     \<Rightarrow> (file_error + 'h cg_file) \<times> 'h file_event list \<times> 's" where
  "openBelowRoot K root how path relPath flags mode s =
     (case fk_Openat2 K root relPath how (flags @ [O_CLOEXEC]) mode s of
        (Inr fd, s1) \<Rightarrow>
          (Inr \<lparr>cf_Fd = fd, cf_Name = path\<rparr>, [Open2 root relPath how (flags @ [O_CLOEXEC]) mode (Inr fd)], s1)
      | (Inl err, s1) \<Rightarrow>
          (let fdDest = fk_Readlink K root s1; e = PathError ''openat2'' path err in
           (Inl (if fdDest \<noteq> cgroupfsDir then WrongRootHandle fdDest e else e),
            [Open2 root relPath how (flags @ [O_CLOEXEC]) mode (Inl err), ReadLink root fdDest], s1)))"

definition openCgroupFile ::
    "('h, 's) file_kernel \<Rightarrow> bool \<Rightarrow> string \<Rightarrow> string \<Rightarrow> file_flag list \<Rightarrow> 'h prep_state \<Rightarrow> 's
     \<Rightarrow> ('h, 's, file_error + 'h cg_file) file_io" where
  "openCgroupFile K TestMode dir name flags p s =
     (let fake = TestMode \<and> O_WRONLY \<in> set flags;
          flags' = (if fake then flags @ [O_TRUNC, O_CREATE] else flags);
          mode = (if fake then 0x180 else 0);
          path = PathJoin dir (CleanPath name)
      in case prepareOpenat2 K p s of
           (Some err, ev, p1, s1) \<Rightarrow>
             (case openAndCheck K TestMode path flags' mode s1 of (r, ev2, s2) \<Rightarrow> (r, ev @ ev2, p1, s2))
         | (None, ev, p1, s1) \<Rightarrow>
             (let relPath = TrimPrefix path cgroupfsPrefix in
              if length relPath = length path then
                (case openAndCheck K TestMode path flags' mode s1 of (r, ev2, s2) \<Rightarrow> (r, ev @ ev2, p1, s2))
              else
                (case openBelowRoot K (the (cgroupRootHandle p1)) (rootResolve p1) path relPath flags' mode s1 of
                   (r, ev2, s2) \<Rightarrow> (r, ev @ ev2, p1, s2))))"

definition OpenCgroupFile ::
    "('h, 's) file_kernel \<Rightarrow> bool \<Rightarrow> string \<Rightarrow> string \<Rightarrow> file_flag list \<Rightarrow> 'h prep_state \<Rightarrow> 's
     \<Rightarrow> ('h, 's, file_error + 'h cg_file) file_io" where
  "OpenCgroupFile K TestMode dir name flags p s =
     (if dir = [] then (Inl (NoDirGiven name), [], p, s) else openCgroupFile K TestMode dir name flags p s)"

subsection \<open>What is handed out\<close>

text \<open>The handle of the root is taken by the first call only; this holds of the variables between calls.\<close>

definition prep_ok :: "'h prep_state \<Rightarrow> bool" where
  "prep_ok p \<longleftrightarrow>
     (if prepOnce p then
        prepErr p = None \<longrightarrow> (\<exists>root isCgroup2. cgroupRootHandle p = Some root \<and> rootResolve p = resolveFlags isCgroup2)
      else prepErr p = None)"

lemma prep_ok_start: "prep_ok prepStart"
  by (simp add: prep_ok_def prepStart_def)

lemma prepareOpenat2_once:
  "prepareOpenat2 K p s = (e, ev, p', s') \<Longrightarrow>
     prepOnce p' \<and> e = prepErr p' \<and> (prepOnce p \<longrightarrow> p' = p \<and> ev = [] \<and> s' = s)"
  by (auto simp: prepareOpenat2_def Let_def split: if_splits prod.splits sum.splits)

lemma prepareOpenat2_ok:
  "prepareOpenat2 K p s = (e, ev, p', s') \<Longrightarrow> prep_ok p \<Longrightarrow> prep_ok p'"
  by (auto simp: prepareOpenat2_def prep_ok_def Let_def split: if_splits prod.splits sum.splits)

text \<open>The files a sequence of calls leaves open, the handle of the root aside.\<close>

fun openedFiles :: "'h file_event list \<Rightarrow> 'h list" where
  "openedFiles (Open2 root rel how fl m (Inr fd) # evs) = fd # openedFiles evs"
| "openedFiles (OpenPath path fl m (Inr fd) # evs) = fd # openedFiles evs"
| "openedFiles (ev # evs) = openedFiles evs"
| "openedFiles [] = []"

definition leftOpen :: "'h file_event list \<Rightarrow> 'h list" where
  "leftOpen evs = filter (\<lambda>fd. Closed fd \<notin> set evs) (openedFiles evs)"

definition prepEvent :: "'h file_event \<Rightarrow> bool" where
  "prepEvent ev = (case ev of RootOpen2 _ _ _ \<Rightarrow> True | StatFs _ _ \<Rightarrow> True | _ \<Rightarrow> False)"

lemma leftOpen_prep:
  "list_all prepEvent ev \<Longrightarrow> leftOpen (ev @ evs) = leftOpen evs"
proof -
  assume p: "list_all prepEvent ev"
  then have "openedFiles (ev @ evs) = openedFiles evs"
    by (induction ev rule: openedFiles.induct) (auto simp: prepEvent_def)
  moreover have "Closed fd \<notin> set ev" for fd using p by (auto simp: list_all_iff prepEvent_def)
  ultimately show ?thesis by (simp add: leftOpen_def)
qed

lemma prepareOpenat2_events: "prepareOpenat2 K p s = (e, ev, p', s') \<Longrightarrow> list_all prepEvent ev"
  by (auto simp: prepareOpenat2_def prepEvent_def Let_def split: if_splits prod.splits sum.splits)

text \<open>How a file may come out: below the handle of the root, or after its file system was looked at.\<close>

definition belowRoot :: "'h prep_state \<Rightarrow> file_flag list \<Rightarrow> 'h cg_file \<Rightarrow> 'h file_event list \<Rightarrow> bool" where
  "belowRoot p flags f evs \<longleftrightarrow>
     (\<exists>root isCgroup2 rel. cgroupRootHandle p = Some root \<and> cf_Name f = cgroupfsPrefix @ rel \<and>
        evs = [Open2 root rel (resolveFlags isCgroup2) (flags @ [O_CLOEXEC]) 0 (Inr (cf_Fd f))])"

definition checkedFs :: "file_flag list \<Rightarrow> 'h cg_file \<Rightarrow> 'h file_event list \<Rightarrow> bool" where
  "checkedFs flags f evs \<longleftrightarrow>
     (\<exists>m. m \<in> {CGROUP_SUPER_MAGIC, CGROUP2_SUPER_MAGIC} \<and>
        evs = [OpenPath (cf_Name f) flags 0 (Inr (cf_Fd f)), StatFs (cf_Fd f) (Inr m)])"

lemma openAndCheck_outcome:
  "openAndCheck K False path flags 0 s = (r, evs, s') \<Longrightarrow>
     (case r of Inr f \<Rightarrow> cf_Name f = path \<and> checkedFs flags f evs \<and> leftOpen evs = [cf_Fd f]
      | Inl e \<Rightarrow> leftOpen evs = [])"
  by (auto simp: openAndCheck_def checkedFs_def leftOpen_def split: prod.splits sum.splits if_splits)

lemma openBelowRoot_outcome:
  assumes "openBelowRoot K root (resolveFlags b) (cgroupfsPrefix @ rel) rel flags 0 s = (r, evs, s')"
    and "cgroupRootHandle p = Some root"
  shows "case r of Inr f \<Rightarrow> cf_Name f = cgroupfsPrefix @ rel \<and> belowRoot p flags f evs \<and> leftOpen evs = [cf_Fd f]
     | Inl e \<Rightarrow> leftOpen evs = []"
  using assms by (auto simp: openBelowRoot_def belowRoot_def leftOpen_def Let_def split: prod.splits sum.splits)

lemma TrimPrefix_same: "length (TrimPrefix path pre) \<noteq> length path \<Longrightarrow> path = pre @ TrimPrefix path pre"
  by (auto simp: TrimPrefix_def HasPrefix_iff)

text \<open>Outside the unit tests of the package.\<close>

lemma openCgroupFile_outcome:
  assumes "openCgroupFile K False dir name flags p s = (r, evs, p', s')" and "prep_ok p"
  shows "prep_ok p' \<and> (prepOnce p \<longrightarrow> p' = p) \<and>
    (\<exists>ev ev2. evs = ev @ ev2 \<and> list_all prepEvent ev \<and> (prepOnce p \<longrightarrow> ev = []) \<and>
      (case r of Inr f \<Rightarrow> cf_Name f = PathJoin dir (CleanPath name) \<and>
          (belowRoot p' flags f ev2 \<or> checkedFs flags f ev2) \<and> leftOpen evs = [cf_Fd f]
       | Inl e \<Rightarrow> leftOpen evs = []))"
proof -
  let ?path = "PathJoin dir (CleanPath name)"
  obtain e ev p1 s1 where pr: "prepareOpenat2 K p s = (e, ev, p1, s1)" by (metis prod_cases4)
  note once = prepareOpenat2_once [OF pr] prepareOpenat2_ok [OF pr assms(2)] prepareOpenat2_events [OF pr]
  show ?thesis
  proof (cases "e \<noteq> None \<or> length (TrimPrefix ?path cgroupfsPrefix) = length ?path")
    case True
    then obtain ev2 where o: "openAndCheck K False ?path flags 0 s1 = (r, ev2, s')" and "evs = ev @ ev2" "p' = p1"
      using assms(1) pr by (auto simp: openCgroupFile_def Let_def split: prod.splits option.splits)
    moreover have "leftOpen evs = leftOpen ev2" using leftOpen_prep [OF once(3)] \<open>evs = ev @ ev2\<close> by simp
    ultimately show ?thesis using openAndCheck_outcome [OF o] once
      by (cases r) auto
  next
    case False
    then obtain root b where root: "cgroupRootHandle p1 = Some root" "rootResolve p1 = resolveFlags b"
      using once by (auto simp: prep_ok_def)
    obtain rel where rel: "?path = cgroupfsPrefix @ rel" "TrimPrefix ?path cgroupfsPrefix = rel"
      using False TrimPrefix_same by blast
    obtain ev2 where o: "openBelowRoot K root (resolveFlags b) (cgroupfsPrefix @ rel) rel flags 0 s1 = (r, ev2, s')"
        and "evs = ev @ ev2" "p' = p1"
      using assms(1) pr False root rel by (auto simp: openCgroupFile_def Let_def split: prod.splits option.splits)
    moreover have "leftOpen evs = leftOpen ev2" using leftOpen_prep [OF once(3)] \<open>evs = ev @ ev2\<close> by simp
    ultimately show ?thesis using openBelowRoot_outcome [OF o root(1)] once rel(1)
      by (cases r) auto
  qed
qed


text \<open>A unified host; the name tries to leave the directory.\<close>

definition unifiedHost :: "(nat, nat) file_kernel" where
  "unifiedHost =
     \<lparr>fk_OpenRoot = (\<lambda>path fl n. (Inr n, Suc n)), fk_Fstatfs = (\<lambda>fd n. (Inr CGROUP2_SUPER_MAGIC, n)),
      fk_Openat2 = (\<lambda>root rel how fl m n. (Inr n, Suc n)), fk_Open = (\<lambda>path fl m n. (Inl (OtherErrno ''ENOENT''), n)),
      fk_Close = (\<lambda>fd n. n), fk_Readlink = (\<lambda>fd n. cgroupfsDir)\<rparr>"


subsection \<open>Probes of the host\<close>

text \<open>
  \<open>sync.Once\<close> counts a call that panics as done, so after a recovered panic the answer is false.
  \<open>inUserns\<close> is \<open>userns.RunningInUserNS\<close>, which is asked only when the mount point is missing.
\<close>

record mode_state =
  isUnifiedOnce :: bool
  isUnified :: bool
  isHybridOnce :: bool
  isHybrid :: bool

datatype probe_panic = CannotStatfs sys_error

definition IsCgroup2UnifiedMode ::
    "(string \<Rightarrow> sys_error + fs_magic) \<Rightarrow> bool \<Rightarrow> mode_state \<Rightarrow> (probe_panic + bool) \<times> mode_state" where
  "IsCgroup2UnifiedMode statfs inUserns m =
     (if isUnifiedOnce m then (Inr (isUnified m), m)
      else
        (let m1 = m\<lparr>isUnifiedOnce := True\<rparr> in
         case statfs unifiedMountpoint of
           Inl err \<Rightarrow>
             if err = OtherErrno ''ENOENT'' \<and> inUserns then (Inr False, m1\<lparr>isUnified := False\<rparr>) else (Inl (CannotStatfs err), m1)
         | Inr t \<Rightarrow> (Inr (t = CGROUP2_SUPER_MAGIC), m1\<lparr>isUnified := (t = CGROUP2_SUPER_MAGIC)\<rparr>)))"

definition IsCgroup2HybridMode :: "(string \<Rightarrow> sys_error + fs_magic) \<Rightarrow> mode_state \<Rightarrow> bool \<times> mode_state" where
  "IsCgroup2HybridMode statfs m =
     (if isHybridOnce m then (isHybrid m, m)
      else
        (let t = (case statfs hybridMountpoint of Inl err \<Rightarrow> False | Inr t \<Rightarrow> t = CGROUP2_SUPER_MAGIC) in
         (t, m\<lparr>isHybridOnce := True, isHybrid := t\<rparr>)))"

lemma unified_answer_stays:
  "IsCgroup2UnifiedMode statfs inUserns m = (Inr b, m') \<Longrightarrow> IsCgroup2UnifiedMode statfs' inUserns' m' = (Inr b, m')"
  by (auto simp: IsCgroup2UnifiedMode_def Let_def split: if_splits sum.splits)

lemma unified_after_panic:
  "IsCgroup2UnifiedMode statfs inUserns m = (Inl e, m') \<Longrightarrow> \<not> isUnified m \<Longrightarrow>
     IsCgroup2UnifiedMode statfs' inUserns' m' = (Inr False, m')"
  by (auto simp: IsCgroup2UnifiedMode_def Let_def split: if_splits sum.splits)

definition PathExists :: "(string \<Rightarrow> sys_error option) \<Rightarrow> string \<Rightarrow> bool" where
  "PathExists stat path = (case stat path of Some err \<Rightarrow> False | None \<Rightarrow> True)"

text \<open>The listing of the directory is a parameter: the error of opening it, or of reading it.\<close>

record hps_state =
  initHPSOnce :: bool
  hugePageSizes :: "string list"

definition HugePageSizes :: "sys_error + sys_error + string list \<Rightarrow> hps_state \<Rightarrow> string list \<times> hps_state" where
  "HugePageSizes dir h =
     (let h' = (if initHPSOnce h then h
                else (case dir of
                        Inl err \<Rightarrow> h\<lparr>initHPSOnce := True\<rparr>
                      | Inr (Inl err) \<Rightarrow> h\<lparr>initHPSOnce := True\<rparr>
                      | Inr (Inr files) \<Rightarrow>
                          h\<lparr>initHPSOnce := True, hugePageSizes := fst (getHugePageSizeFromFilenames files)\<rparr>))
      in (hugePageSizes h', h'))"

interpretation hybrid: computed_once IsCgroup2HybridMode isHybridOnce isHybrid
  by unfold_locales (auto simp: IsCgroup2HybridMode_def Let_def)

interpretation hps: computed_once HugePageSizes initHPSOnce hugePageSizes
  by unfold_locales (auto simp: HugePageSizes_def Let_def split: sum.splits)

interpretation prep: computed_once "\<lambda>(K, s) p. (fst (prepareOpenat2 K p s), fst (snd (snd (prepareOpenat2 K p s))))" prepOnce prepErr
  by unfold_locales (auto simp: prepareOpenat2_def Let_def split: prod.splits sum.splits)

end
