(* ===== verification/HookRun.thy ===== *)
theory HookRun imports Configs begin

text \<open>
  Running a command hook (Command.Run of configs/config.go): the process, the goroutine that waits
  for it, the timer, and the function that selects between the two, as a step relation in which they
  interleave. The encoder of the state and the start of the process are parameters.
\<close>

subsection \<open>The parts\<close>

datatype hook_error = MarshalFailed string | StartFailed string | HookFailed string string string | TimedOut i64

text \<open>What the process is started with.\<close>

record exec_cmd =
  xc_Path :: string
  xc_Args :: "string list"
  xc_Env :: "string list"
  xc_Stdin :: string

text \<open>A process ends with an error for a status other than 0 or a signal.\<close>

datatype child = Running | Ended "string option"
datatype main_pc = Selecting | Draining i64 | Returned "hook_error option"
datatype timer = NoTimer | Armed i64 | Fired i64

text \<open>
  \<open>rs_Held\<close>: a process other than the child has an end of one of its pipes open; \<open>Wait\<close> also
  waits until the pipes are read to their end.
\<close>

record run_state =
  rs_Main :: main_pc
  rs_Child :: child
  rs_Held :: bool
  rs_Sent :: bool
  rs_ErrC :: "hook_error option list"
  rs_Timer :: timer
  rs_Killed :: bool

definition StartRun ::
    "('v \<Rightarrow> string + string) \<Rightarrow> (exec_cmd \<Rightarrow> string option) \<Rightarrow> Command \<Rightarrow> 'v \<Rightarrow> hook_error + run_state" where
  "StartRun marshal start c st =
     (case marshal st of
        Inl err \<Rightarrow> Inl (MarshalFailed err)
      | Inr b \<Rightarrow>
          (case start \<lparr>xc_Path = co_Path c, xc_Args = co_Args c, xc_Env = co_Env c, xc_Stdin = b\<rparr> of
             Some err \<Rightarrow> Inl (StartFailed err)
           | None \<Rightarrow>
               Inr \<lparr>rs_Main = Selecting, rs_Child = Running, rs_Held = False, rs_Sent = False, rs_ErrC = [],
                    rs_Timer = (case co_Timeout c of None \<Rightarrow> NoTimer | Some d \<Rightarrow> Armed d), rs_Killed = False\<rparr>))"

text \<open>The channel has room for one value.\<close>

definition errCap :: nat where "errCap = 1"

definition waitError :: "string \<Rightarrow> string \<Rightarrow> string option \<Rightarrow> hook_error option" where
  "waitError out err r = (case r of None \<Rightarrow> None | Some e \<Rightarrow> Some (HookFailed e out err))"

text \<open>What the processes outside do.\<close>

inductive outside_step :: "run_state \<Rightarrow> run_state \<Rightarrow> bool" where
  forks: "rs_Child s = Running \<Longrightarrow> outside_step s (s\<lparr>rs_Held := True\<rparr>)"
| ends: "rs_Child s = Running \<Longrightarrow> outside_step s (s\<lparr>rs_Child := Ended r\<rparr>)"
| releases: "rs_Held s \<Longrightarrow> outside_step s (s\<lparr>rs_Held := False\<rparr>)"

text \<open>What the goroutine, the timer and the function do. The select takes either of two ready cases.\<close>

inductive own_step :: "run_state \<Rightarrow> run_state \<Rightarrow> bool" where
  sends: "\<not> rs_Sent s \<Longrightarrow> rs_Child s = Ended r \<Longrightarrow> \<not> rs_Held s \<Longrightarrow> length (rs_ErrC s) < errCap \<Longrightarrow>
     own_step s (s\<lparr>rs_Sent := True, rs_ErrC := rs_ErrC s @ [waitError out err r]\<rparr>)"
| expires: "rs_Timer s = Armed d \<Longrightarrow> own_step s (s\<lparr>rs_Timer := Fired d\<rparr>)"
| receives: "rs_Main s = Selecting \<Longrightarrow> rs_ErrC s = e # es \<Longrightarrow>
     own_step s (s\<lparr>rs_Main := Returned e, rs_ErrC := es, rs_Timer := NoTimer\<rparr>)"
| kills: "rs_Main s = Selecting \<Longrightarrow> rs_Timer s = Fired d \<Longrightarrow>
     own_step s (s\<lparr>rs_Main := Draining d, rs_Timer := NoTimer, rs_Killed := True\<rparr>)"
| drains: "rs_Main s = Draining d \<Longrightarrow> rs_ErrC s = e # es \<Longrightarrow>
     own_step s (s\<lparr>rs_Main := Returned (Some (TimedOut d)), rs_ErrC := es\<rparr>)"

definition hook_step :: "run_state \<Rightarrow> run_state \<Rightarrow> bool" where
  "hook_step s t \<longleftrightarrow> outside_step s t \<or> own_step s t"

inductive_cases outside_stepE: "outside_step s t"
inductive_cases own_stepE: "own_step s t"

lemma hook_stepE:
  assumes "hook_step s t"
  obtains "outside_step s t" | "own_step s t"
  using assms by (auto simp: hook_step_def)

subsection \<open>What holds of every run\<close>

text \<open>
  The goroutine sends once, and only what the wait for the ended process gave; the value is in the
  channel until the function has returned; only an expired timer kills.
\<close>

definition fromWait :: "run_state \<Rightarrow> hook_error option \<Rightarrow> bool" where
  "fromWait s e \<longleftrightarrow> (\<exists>r out err. rs_Child s = Ended r \<and> e = waitError out err r)"

definition run_ok :: "i64 option \<Rightarrow> run_state \<Rightarrow> bool" where
  "run_ok timeout s \<longleftrightarrow>
     (rs_Sent s \<longrightarrow> rs_Child s \<noteq> Running \<and> \<not> rs_Held s) \<and>
     (case rs_Main s of
        Selecting \<Rightarrow> \<not> rs_Killed s \<and> (if rs_Sent s then \<exists>e. rs_ErrC s = [e] \<and> fromWait s e else rs_ErrC s = [])
      | Draining d \<Rightarrow> rs_Killed s \<and> timeout = Some d \<and> rs_Timer s = NoTimer \<and>
          (if rs_Sent s then \<exists>e. rs_ErrC s = [e] \<and> fromWait s e else rs_ErrC s = [])
      | Returned r \<Rightarrow> rs_Sent s \<and> rs_ErrC s = [] \<and> rs_Timer s = NoTimer \<and>
          (if rs_Killed s then \<exists>d. timeout = Some d \<and> r = Some (TimedOut d) else fromWait s r)) \<and>
     (case rs_Timer s of NoTimer \<Rightarrow> True | Armed d \<Rightarrow> timeout = Some d | Fired d \<Rightarrow> timeout = Some d)"

lemma run_ok_start: "StartRun marshal start c st = Inr s \<Longrightarrow> run_ok (co_Timeout c) s"
  by (auto simp: StartRun_def run_ok_def split: sum.splits option.splits)

lemma run_ok_outside: "outside_step s t \<Longrightarrow> run_ok timeout s \<Longrightarrow> run_ok timeout t"
proof (induction rule: outside_step.induct)
  case (forks s)
  then show ?case by (cases "rs_Sent s"; cases "rs_Main s"; simp add: run_ok_def split: if_splits)
next
  case (ends s r)
  then show ?case by (cases "rs_Sent s"; cases "rs_Main s"; simp add: run_ok_def split: if_splits)
next
  case (releases s)
  then show ?case by (cases "rs_Sent s"; cases "rs_Main s"; simp add: run_ok_def split: if_splits)
qed

lemma run_ok_own: "own_step s t \<Longrightarrow> run_ok timeout s \<Longrightarrow> run_ok timeout t"
proof (induction rule: own_step.induct)
  case (sends s r out err)
  then have "fromWait (s\<lparr>rs_Sent := True, rs_ErrC := rs_ErrC s @ [waitError out err r]\<rparr>) (waitError out err r)"
    by (auto simp: fromWait_def)
  with sends show ?case by (cases "rs_Main s"; simp add: run_ok_def)
next
  case (expires s d)
  then show ?case by (cases "rs_Sent s"; cases "rs_Main s"; simp add: run_ok_def fromWait_def)
next
  case (receives s e es)
  then show ?case by (cases "rs_Sent s"; simp add: run_ok_def fromWait_def)
next
  case (kills s d)
  then show ?case by (cases "rs_Sent s"; simp add: run_ok_def fromWait_def)
next
  case (drains s d e es)
  then show ?case by (cases "rs_Sent s"; simp add: run_ok_def fromWait_def)
qed

lemma run_ok_reachable:
  assumes "hook_step\<^sup>*\<^sup>* s t" and "run_ok timeout s"
  shows "run_ok timeout t"
  using assms by (induction rule: rtranclp_induct) (auto elim: hook_stepE intro: run_ok_outside run_ok_own)

subsection \<open>Returning\<close>

text \<open>Every own step uses up something, so they cannot go on for ever.\<close>

definition own_left :: "run_state \<Rightarrow> nat" where
  "own_left s =
     (if rs_Sent s then 0 else 1) + (case rs_Timer s of Armed d \<Rightarrow> 2 | Fired d \<Rightarrow> 1 | NoTimer \<Rightarrow> 0) +
     (case rs_Main s of Selecting \<Rightarrow> 2 | Draining d \<Rightarrow> 1 | Returned r \<Rightarrow> 0)"

lemma own_step_uses: "own_step s t \<Longrightarrow> own_left t < own_left s"
  by (induction rule: own_step.induct) (simp_all add: own_left_def split: timer.split main_pc.split)

text \<open>
  Once the process has ended and no other holds its pipes, these steps do not stop before the
  function has returned.
\<close>

lemma own_step_next:
  assumes "run_ok timeout s" and "rs_Child s = Ended r" and "\<not> rs_Held s" and "\<And>e. rs_Main s \<noteq> Returned e"
  shows "\<exists>t. own_step s t \<and> rs_Child t = Ended r \<and> \<not> rs_Held t"
proof (cases "rs_Sent s")
  case False
  then have "length (rs_ErrC s) < errCap"
    using assms by (cases "rs_Main s"; simp add: run_ok_def errCap_def)
  then show ?thesis using sends [OF False assms(2,3)] assms(2,3) by fastforce
next
  case True
  show ?thesis
  proof (cases "rs_Main s")
    case Selecting
    then obtain e where "rs_ErrC s = [e]" using assms(1) True by (auto simp: run_ok_def)
    then show ?thesis using receives [OF Selecting] assms(2,3) by fastforce
  next
    case (Draining d)
    then obtain e where "rs_ErrC s = [e]" using assms(1) True by (auto simp: run_ok_def)
    then show ?thesis using drains [OF Draining] assms(2,3) by fastforce
  next
    case (Returned e)
    then show ?thesis using assms(4) by simp
  qed
qed

lemma own_steps_return:
  assumes "run_ok timeout s" and "rs_Child s = Ended r" and "\<not> rs_Held s"
  shows "\<exists>t e. own_step\<^sup>*\<^sup>* s t \<and> rs_Main t = Returned e"
  using assms
proof (induction "own_left s" arbitrary: s rule: less_induct)
  case less
  show ?case
  proof (cases "\<exists>e. rs_Main s = Returned e")
    case False
    then obtain t where t: "own_step s t" "rs_Child t = Ended r" "\<not> rs_Held t"
      using own_step_next [OF less.prems] by blast
    then obtain u e where "own_step\<^sup>*\<^sup>* t u" "rs_Main u = Returned e"
      using less.hyps [OF own_step_uses [OF t(1)] run_ok_own [OF t(1) less.prems(1)]] by blast
    then show ?thesis using t(1) by (blast intro: converse_rtranclp_into_rtranclp)
  qed blast
qed

text \<open>
  While another process holds a pipe, a run that has killed its process does not return, however
  long ago the time ran out.
\<close>

lemma held_pipe_blocks:
  assumes "run_ok timeout s" and "rs_Main s = Draining d" and "rs_Held s" and "hook_step s t"
  shows "rs_Main t = Draining d"
  using assms(4)
proof (cases rule: hook_stepE)
  case 1
  then show ?thesis using assms(2) by (auto elim: outside_stepE)
next
  case 2
  have "rs_ErrC s = []" "rs_Timer s = NoTimer" using assms(1,2,3) by (auto simp: run_ok_def split: if_splits)
  then show ?thesis using 2 assms(2,3) by (auto elim: own_stepE)
qed

subsection \<open>Properties\<close>

text \<open>C2. However the process, its timer and the two goroutines interleave: when a hook has returned its
  process has ended and was waited for, nobody holds its output, and the goroutine has delivered its
  value, so none is left over. The result is no error exactly for a process that ended well without
  being killed, an error of the hook is that of its process, and the report of a time-out comes after
  the process was killed, with the time-out of the command; without one it is never killed. From every
  point where the process has ended and nobody holds its output the function can go on to return, and
  it cannot take infinitely many steps before.\<close>

theorem hook_run_reaps:
  assumes "StartRun marshal start c st = Inr s0" and "hook_step\<^sup>*\<^sup>* s0 s"
  shows "(rs_Killed s \<longrightarrow> co_Timeout c \<noteq> None) \<and>
    (case rs_Main s of
       Returned r \<Rightarrow>
         (\<exists>x. rs_Child s = Ended x \<and>
            (if rs_Killed s then \<exists>d. co_Timeout c = Some d \<and> r = Some (TimedOut d)
             else \<exists>out err. r = waitError out err x)) \<and>
         rs_Sent s \<and> rs_ErrC s = [] \<and> \<not> rs_Held s \<and> (\<forall>t. \<not> own_step s t)
     | _ \<Rightarrow> \<forall>x. rs_Child s = Ended x \<and> \<not> rs_Held s \<longrightarrow> (\<exists>t r. own_step\<^sup>*\<^sup>* s t \<and> rs_Main t = Returned r)) \<and>
    (\<forall>t. own_step s t \<longrightarrow> own_left t < own_left s)"
proof -
  have ok: "run_ok (co_Timeout c) s" using run_ok_reachable [OF assms(2) run_ok_start [OF assms(1)]] .
  have killed: "rs_Killed s \<longrightarrow> co_Timeout c \<noteq> None"
    using ok by (cases "rs_Main s") (auto simp: run_ok_def)
  have returned: "(\<exists>x. rs_Child s = Ended x \<and>
            (if rs_Killed s then \<exists>d. co_Timeout c = Some d \<and> r = Some (TimedOut d)
             else \<exists>out err. r = waitError out err x)) \<and>
         rs_Sent s \<and> rs_ErrC s = [] \<and> \<not> rs_Held s \<and> (\<forall>t. \<not> own_step s t)" if r: "rs_Main s = Returned r" for r
  proof -
    obtain x where x: "rs_Child s = Ended x" "rs_Sent s" "rs_ErrC s = []" "\<not> rs_Held s" "rs_Timer s = NoTimer"
      using ok r by (cases "rs_Child s") (auto simp: run_ok_def)
    moreover have "\<forall>t. \<not> own_step s t" using x r by (auto elim: own_stepE)
    moreover have "if rs_Killed s then \<exists>d. co_Timeout c = Some d \<and> r = Some (TimedOut d) else \<exists>out err. r = waitError out err x"
      using ok r x(1) by (auto simp: run_ok_def fromWait_def)
    ultimately show ?thesis by blast
  qed
  show ?thesis
    using killed returned own_steps_return [OF ok] own_step_uses by (cases "rs_Main s") simp_all
qed

text \<open>A hook whose time runs out: it is killed, waited for, and reported.\<close>

definition slowHook :: Command where
  "slowHook = \<lparr>co_Path = ''/bin/hook'', co_Args = [''hook''], co_Env = [], co_Dir = [], co_Timeout = Some 5\<rparr>"

definition slowStart :: run_state where
  "slowStart =
     \<lparr>rs_Main = Selecting, rs_Child = Running, rs_Held = False, rs_Sent = False, rs_ErrC = [], rs_Timer = Armed 5, rs_Killed = False\<rparr>"

theorem hook_run_reaps_witness:
  "\<exists>s. hook_step\<^sup>*\<^sup>* slowStart s \<and> StartRun Inr (\<lambda>x. None) slowHook ''{}'' = Inr slowStart \<and>
     rs_Main s = Returned (Some (TimedOut 5)) \<and> rs_Child s \<noteq> Running \<and> \<not> rs_Held s \<and> (\<nexists>t. own_step s t)"
proof -
  let ?s1 = "slowStart\<lparr>rs_Timer := Fired 5\<rparr>"
  let ?s2 = "?s1\<lparr>rs_Main := Draining 5, rs_Timer := NoTimer, rs_Killed := True\<rparr>"
  let ?s3 = "?s2\<lparr>rs_Child := Ended (Some ''signal: killed'')\<rparr>"
  let ?s4 = "?s3\<lparr>rs_Sent := True, rs_ErrC := rs_ErrC ?s3 @ [waitError [] [] (Some ''signal: killed'')]\<rparr>"
  let ?s5 = "?s4\<lparr>rs_Main := Returned (Some (TimedOut 5)), rs_ErrC := []\<rparr>"
  have start: "StartRun Inr (\<lambda>x. None) slowHook ''{}'' = Inr slowStart"
    by (simp add: StartRun_def slowHook_def slowStart_def)
  have 1: "hook_step slowStart ?s1"
    unfolding hook_step_def by (rule disjI2, rule expires) (simp add: slowStart_def)
  have 2: "hook_step ?s1 ?s2"
    unfolding hook_step_def by (rule disjI2, rule kills) (simp_all add: slowStart_def)
  have 3: "hook_step ?s2 ?s3"
    unfolding hook_step_def by (rule disjI1, rule ends) (simp add: slowStart_def)
  have 4: "hook_step ?s3 ?s4"
    unfolding hook_step_def by (rule disjI2, rule sends) (simp_all add: slowStart_def errCap_def)
  have 5: "hook_step ?s4 ?s5"
    unfolding hook_step_def by (rule disjI2, rule drains) (simp_all add: slowStart_def)
  have run: "hook_step\<^sup>*\<^sup>* slowStart ?s5"
    using 1 2 3 4 5 by (meson rtranclp.rtrancl_refl rtranclp.rtrancl_into_rtrancl)
  show ?thesis
    using hook_run_reaps [OF start run] run start by (intro exI [of _ ?s5]) (auto simp: slowStart_def)
qed

end
