(* ===== verification/Descriptors.thy ===== *)
theory Descriptors imports CgroupFiles begin

text \<open>
  The descriptors and attributes of the process: going through the open descriptors and passing them
  over a socket (utils/utils_unix.go, utils/cmsg.go), working on a path through its link in /proc
  (WithProcfd of utils/utils.go), the attributes of system/linux.go, and the profile that
  apparmor/apparmor_linux.go sets for the next program. The kernel is a parameter.
\<close>

subsection \<open>Going through the open descriptors\<close>

datatype proc_error = NotOnProcfs | ProcSys sys_error | FileSys sys_error

text \<open>What the listing of /proc/self/fd needs; \<open>dk_Names\<close> is \<open>Readdirnames\<close>.\<close>

record 's fd_kernel =
  dk_OpenDir :: "'s \<Rightarrow> (sys_error + int) \<times> 's"
  dk_Fstatfs :: "int \<Rightarrow> 's \<Rightarrow> sys_error + fs_magic"
  dk_Names :: "int \<Rightarrow> 's \<Rightarrow> sys_error + string list"
  dk_CloseFd :: "int \<Rightarrow> 's \<Rightarrow> 's"
  dk_SetCloexec :: "int \<Rightarrow> 's \<Rightarrow> 's"

definition EnsureProcHandle :: "(int \<Rightarrow> 's \<Rightarrow> sys_error + fs_magic) \<Rightarrow> int \<Rightarrow> 's \<Rightarrow> proc_error option" where
  "EnsureProcHandle fstatfs fh s =
     (case fstatfs fh s of
        Inl err \<Rightarrow> Some (ProcSys err)
      | Inr m \<Rightarrow> if m \<noteq> PROC_SUPER_MAGIC then Some NotOnProcfs else None)"

text \<open>The descriptor is compared with that of the directory as an unsigned number.\<close>

definition fdStep :: "int \<Rightarrow> int \<Rightarrow> (int \<Rightarrow> 's \<Rightarrow> 's) \<Rightarrow> string \<Rightarrow> 's \<Rightarrow> 's" where
  "fdStep minFd dirFd fn fdStr s =
     (case Atoi fdStr of
        (fd, Some err) \<Rightarrow> s
      | (fd, None) \<Rightarrow>
          if fd < minFd then s
          else if (word_of_int fd :: u64) = word_of_int dirFd then s
          else fn fd s)"

definition fdRangeFrom :: "'s fd_kernel \<Rightarrow> int \<Rightarrow> (int \<Rightarrow> 's \<Rightarrow> 's) \<Rightarrow> 's \<Rightarrow> proc_error option \<times> 's" where
  "fdRangeFrom K minFd fn s =
     (case dk_OpenDir K s of
        (Inl err, s1) \<Rightarrow> (Some (FileSys err), s1)
      | (Inr fdDir, s1) \<Rightarrow>
          (let res =
             (case EnsureProcHandle (dk_Fstatfs K) fdDir s1 of
                Some err \<Rightarrow> (Some err, s1)
              | None \<Rightarrow>
                  (case dk_Names K fdDir s1 of
                     Inl err \<Rightarrow> (Some (FileSys err), s1)
                   | Inr fdList \<Rightarrow> (None, fold (fdStep minFd fdDir fn) fdList s1)))
           in (fst res, dk_CloseFd K fdDir (snd res))))"

definition CloseExecFrom :: "'s fd_kernel \<Rightarrow> int \<Rightarrow> 's \<Rightarrow> proc_error option \<times> 's" where
  "CloseExecFrom K minFd = fdRangeFrom K minFd (dk_SetCloexec K)"

text \<open>\<open>isPoll\<close> is \<open>internal/poll.IsPollDescriptor\<close> of the Go runtime.\<close>

definition UnsafeCloseFrom :: "'s fd_kernel \<Rightarrow> (int \<Rightarrow> bool) \<Rightarrow> int \<Rightarrow> 's \<Rightarrow> proc_error option \<times> 's" where
  "UnsafeCloseFrom K isPoll minFd =
     fdRangeFrom K minFd (\<lambda>fd s. if isPoll fd then s else dk_CloseFd K fd s)"

subsection \<open>A table of descriptors\<close>

text \<open>
  A process as its table of open descriptors with their close-on-exec flags. The directory gets the
  lowest free number, which \<open>fresh\<close> gives, and is opened with the flag; its listing has the open
  descriptors, in any order.
\<close>

type_synonym fd_table = "int \<rightharpoonup> bool"

definition tableKernel :: "(fd_table \<Rightarrow> int) \<Rightarrow> (fd_table \<Rightarrow> string list) \<Rightarrow> fd_table fd_kernel" where
  "tableKernel fresh names =
     \<lparr>dk_OpenDir = (\<lambda>t. (Inr (fresh t), t(fresh t \<mapsto> True))), dk_Fstatfs = (\<lambda>fd t. Inr PROC_SUPER_MAGIC),
      dk_Names = (\<lambda>fd t. Inr (names t)), dk_CloseFd = (\<lambda>fd t. t(fd := None)),
      dk_SetCloexec = (\<lambda>fd t. if fd \<in> dom t then t(fd \<mapsto> True) else t)\<rparr>"

definition listsDescriptors :: "(fd_table \<Rightarrow> int) \<Rightarrow> (fd_table \<Rightarrow> string list) \<Rightarrow> fd_table \<Rightarrow> bool" where
  "listsDescriptors fresh names t \<longleftrightarrow>
     fresh t \<notin> dom t \<and> fresh t \<in> {0..<2 ^ 31} \<and> dom t \<subseteq> {0..<2 ^ 31} \<and>
     set (names (t(fresh t \<mapsto> True))) = Itoa ` dom (t(fresh t \<mapsto> True))"

text \<open>A function that changes the entry of its descriptor only, once or many times.\<close>

definition onEntry :: "(int \<Rightarrow> bool option \<Rightarrow> bool option) \<Rightarrow> int \<Rightarrow> fd_table \<Rightarrow> fd_table" where
  "onEntry g fd t = t(fd := g fd (t fd))"

lemma word_int_eq:
  fixes a b :: int
  assumes "a \<in> {0..<2 ^ 31}" "b \<in> {0..<2 ^ 31}"
  shows "(word_of_int a :: u64) = word_of_int b \<longleftrightarrow> a = b"
proof -
  have "uint (word_of_int c :: u64) = c" if "c \<in> {0..<2 ^ 31}" for c :: int
    using that by (simp add: unsigned_of_int take_bit_int_eq_self)
  then show ?thesis using assms by metis
qed

lemma fdStep_Itoa:
  assumes "fd \<in> {0..<2 ^ 31}" "dirFd \<in> {0..<2 ^ 31}"
  shows "fdStep minFd dirFd fn (Itoa fd) s = (if fd < minFd \<or> fd = dirFd then s else fn fd s)"
proof -
  have "Atoi (Itoa fd) = (fd, None)" using assms by (intro Atoi_Itoa) auto
  then show ?thesis using word_int_eq assms by (simp add: fdStep_def)
qed

lemma fold_fdStep_onEntry:
  assumes "\<And>fd x. g fd (g fd x) = g fd x" and "set fds \<subseteq> {0..<2 ^ 31}" and "dirFd \<in> {0..<2 ^ 31}"
  shows "fold (fdStep minFd dirFd (onEntry g)) (map Itoa fds) t =
     (\<lambda>fd. if fd \<in> set fds \<and> minFd \<le> fd \<and> fd \<noteq> dirFd then g fd (t fd) else t fd)"
  using assms(2)
proof (induction fds arbitrary: t)
  case (Cons fd fds)
  have step: "fdStep minFd dirFd (onEntry g) (Itoa fd) t = (if fd < minFd \<or> fd = dirFd then t else onEntry g fd t)"
    using Cons.prems assms(3) by (intro fdStep_Itoa) auto
  have "set fds \<subseteq> {0..<2 ^ 31}" using Cons.prems by simp
  from Cons.IH [OF this] show ?case using assms(1)
    by (simp only: list.map fold.simps o_apply step) (auto simp: onEntry_def fun_eq_iff)
qed simp

lemma names_are_Itoa:
  assumes "set names = Itoa ` D" and "D \<subseteq> {0..<2 ^ 31}"
  obtains fds where "names = map Itoa fds" "set fds = D"
proof
  have a: "fst (Atoi (Itoa fd)) = fd" if "fd \<in> D" for fd
    using that assms(2) Atoi_Itoa [of fd] by auto
  show "names = map Itoa (map (\<lambda>n. fst (Atoi n)) names)"
    using assms(1) a by (auto simp: map_idI [symmetric] intro!: map_idI [symmetric])
  show "set (map (\<lambda>n. fst (Atoi n)) names) = D" using assms(1) a by (auto simp: image_iff)
qed

lemma fdRangeFrom_table:
  assumes "listsDescriptors fresh names t" and "\<And>fd x. g fd (g fd x) = g fd x"
  shows "fdRangeFrom (tableKernel fresh names) minFd (onEntry g) t =
     (None, \<lambda>fd. if fd \<in> dom t \<and> minFd \<le> fd then g fd (t fd) else t fd)"
proof -
  let ?t1 = "t(fresh t \<mapsto> True)"
  have fr: "fresh t \<in> {0..<2 ^ 31}" "t (fresh t) = None" and dom: "dom ?t1 \<subseteq> {0..<2 ^ 31}"
    using assms(1) by (auto simp: listsDescriptors_def)
  have "set (names ?t1) = Itoa ` dom ?t1" using assms(1) by (simp only: listsDescriptors_def)
  then obtain fds where fds: "names ?t1 = map Itoa fds" "set fds = dom ?t1" by (rule names_are_Itoa [OF _ dom])
  have "fold (fdStep minFd (fresh t) (onEntry g)) (names ?t1) ?t1 =
      (\<lambda>fd. if fd \<in> set fds \<and> minFd \<le> fd \<and> fd \<noteq> fresh t then g fd (?t1 fd) else ?t1 fd)"
    unfolding fds(1) using fds(2) dom fr by (intro fold_fdStep_onEntry assms(2)) auto
  then show ?thesis using fr fds(2)
    by (auto simp: fdRangeFrom_def tableKernel_def EnsureProcHandle_def fun_eq_iff)
qed

definition setCloexec :: "int \<Rightarrow> bool option \<Rightarrow> bool option" where
  "setCloexec fd x = (if x = None then None else Some True)"

definition dropUnlessPoll :: "(int \<Rightarrow> bool) \<Rightarrow> int \<Rightarrow> bool option \<Rightarrow> bool option" where
  "dropUnlessPoll isPoll fd x = (if isPoll fd then x else None)"

lemma tableKernel_entries:
  "dk_SetCloexec (tableKernel fresh names) = onEntry setCloexec"
  "(\<lambda>fd t. if isPoll fd then t else dk_CloseFd (tableKernel fresh names) fd t) = onEntry (dropUnlessPoll isPoll)"
  by (auto simp: tableKernel_def onEntry_def setCloexec_def dropUnlessPoll_def fun_eq_iff domIff)

text \<open>C36. On a process whose listing shows its open descriptors, CloseExecFrom marks all of them from
  the given number on as closed by the next exec and changes nothing else, and UnsafeCloseFrom closes
  all of them from the given number on but those the Go runtime polls with, and changes nothing else.
  The directory that was read is open in neither result.\<close>

theorem descriptors_from_exact:
  assumes "listsDescriptors fresh names t"
  shows "CloseExecFrom (tableKernel fresh names) minFd t =
           (None, \<lambda>fd. if fd \<in> dom t \<and> minFd \<le> fd then Some True else t fd) \<and>
         UnsafeCloseFrom (tableKernel fresh names) isPoll minFd t =
           (None, \<lambda>fd. if minFd \<le> fd \<and> \<not> isPoll fd then None else t fd)"
proof
  show "CloseExecFrom (tableKernel fresh names) minFd t =
      (None, \<lambda>fd. if fd \<in> dom t \<and> minFd \<le> fd then Some True else t fd)"
    unfolding CloseExecFrom_def tableKernel_entries(1)
    by (subst fdRangeFrom_table [OF assms]) (auto simp: setCloexec_def fun_eq_iff)
  show "UnsafeCloseFrom (tableKernel fresh names) isPoll minFd t =
      (None, \<lambda>fd. if minFd \<le> fd \<and> \<not> isPoll fd then None else t fd)"
    unfolding UnsafeCloseFrom_def tableKernel_entries(2)
    by (subst fdRangeFrom_table [OF assms]) (auto simp: dropUnlessPoll_def fun_eq_iff)
qed

text \<open>Standard input, output and error, a file, and a descriptor the runtime polls with.\<close>

definition exampleTable :: fd_table where
  "exampleTable = [0 \<mapsto> False, 1 \<mapsto> False, 2 \<mapsto> False, 3 \<mapsto> False, 4 \<mapsto> True]"

definition exampleNames :: "fd_table \<Rightarrow> string list" where
  "exampleNames t = map Itoa (filter (\<lambda>fd. t fd \<noteq> None) [5, 4, 3, 2, 1, 0])"

theorem descriptors_from_exact_witness:
  "CloseExecFrom (tableKernel (\<lambda>t. 5) exampleNames) 3 exampleTable = (None, exampleTable(3 \<mapsto> True)) \<and>
   UnsafeCloseFrom (tableKernel (\<lambda>t. 5) exampleNames) (\<lambda>fd. fd = 4) 3 exampleTable = (None, exampleTable(3 := None))"
proof -
  have "listsDescriptors (\<lambda>t. 5) exampleNames exampleTable"
    by (auto simp: listsDescriptors_def exampleNames_def exampleTable_def)
  then show ?thesis
    by (simp add: descriptors_from_exact) (auto simp: exampleTable_def fun_eq_iff)
qed

subsection \<open>Passing descriptors\<close>

text \<open>
  \<open>unix.Socketpair\<close>, \<open>unix.Sendmsg\<close>, \<open>unix.Recvmsg\<close> and the parsers of control messages are
  parameters; the type of a control message is not looked into. \<open>so_Recvmsg\<close> gets the sizes of the
  two buffers and gives the bytes and the control data that were put there.
\<close>

record ('o, 'm, 's) sock_lib =
  so_Pair :: "'s \<Rightarrow> (string + int \<times> int) \<times> 's"
  so_CmsgSpace :: "nat \<Rightarrow> nat"
  so_Recvmsg :: "int \<Rightarrow> nat \<Rightarrow> nat \<Rightarrow> 's \<Rightarrow> (string + string \<times> 'o) \<times> 's"
  so_Size :: "'o \<Rightarrow> nat"
  so_ParseControl :: "'o \<Rightarrow> string + 'm list"
  so_ParseRights :: "'m \<Rightarrow> string + int list"
  so_Rights :: "int list \<Rightarrow> 'o"
  so_Sendmsg :: "int \<Rightarrow> string \<Rightarrow> 'o \<Rightarrow> 's \<Rightarrow> string option \<times> 's"

datatype fd_error = SockErr string | WrongByteCount nat nat | WrongScmCount nat | WrongFdCount nat | NameTooLong string

record os_file =
  of_Fd :: int
  of_Name :: string

definition NewSockPair :: "('o, 'm, 's) sock_lib \<Rightarrow> string \<Rightarrow> 's \<Rightarrow> (fd_error + os_file \<times> os_file) \<times> 's" where
  "NewSockPair L name s =
     (case so_Pair L s of
        (Inl err, s1) \<Rightarrow> (Inl (SockErr err), s1)
      | (Inr (fd0, fd1), s1) \<Rightarrow>
          (Inr (\<lparr>of_Fd = fd1, of_Name = name @ ''-p''\<rparr>, \<lparr>of_Fd = fd0, of_Name = name @ ''-c''\<rparr>), s1))"

definition MaxNameLen :: nat where "MaxNameLen = 4096"

definition parseOneFd :: "('o, 'm, 's) sock_lib \<Rightarrow> 'o \<Rightarrow> fd_error + int" where
  "parseOneFd L oob =
     (case so_ParseControl L oob of
        Inl err \<Rightarrow> Inl (SockErr err)
      | Inr scms \<Rightarrow>
          if length scms \<noteq> 1 then Inl (WrongScmCount (length scms))
          else (case so_ParseRights L (hd scms) of
                  Inl err \<Rightarrow> Inl (SockErr err)
                | Inr fds \<Rightarrow> if length fds \<noteq> 1 then Inl (WrongFdCount (length fds)) else Inr (hd fds)))"

definition RecvFd :: "('o, 'm, 's) sock_lib \<Rightarrow> int \<Rightarrow> 's \<Rightarrow> (fd_error + os_file) \<times> 's" where
  "RecvFd L sockfd s =
     (case so_Recvmsg L sockfd MaxNameLen (so_CmsgSpace L 4) s of
        (Inl err, s1) \<Rightarrow> (Inl (SockErr err), s1)
      | (Inr (name, oob), s1) \<Rightarrow>
          (if MaxNameLen \<le> length name \<or> so_Size L oob \<noteq> so_CmsgSpace L 4
           then Inl (WrongByteCount (length name) (so_Size L oob))
           else andThen (parseOneFd L oob) (\<lambda>fd. Inr \<lparr>of_Fd = fd, of_Name = name\<rparr>), s1))"

definition SendFds :: "('o, 'm, 's) sock_lib \<Rightarrow> int \<Rightarrow> string \<Rightarrow> int list \<Rightarrow> 's \<Rightarrow> fd_error option \<times> 's" where
  "SendFds L sockfd msg fds s =
     (case so_Sendmsg L sockfd msg (so_Rights L fds) s of (r, s1) \<Rightarrow> (map_option SockErr r, s1))"

definition SendFd :: "('o, 'm, 's) sock_lib \<Rightarrow> int \<Rightarrow> string \<Rightarrow> int \<Rightarrow> 's \<Rightarrow> fd_error option \<times> 's" where
  "SendFd L sockfd name fd s =
     (if MaxNameLen \<le> length name then (Some (NameTooLong name), s) else SendFds L sockfd name [fd] s)"

text \<open>
  A socket that delivers whole messages: what was sent is received, cut to the buffer, with the
  descriptors renumbered by \<open>dup\<close>; one descriptor fills the space for one.
\<close>

definition deliversRights :: "('o, 'm, 's) sock_lib \<Rightarrow> int \<Rightarrow> int \<Rightarrow> (int \<Rightarrow> int) \<Rightarrow> bool" where
  "deliversRights L a b dup \<longleftrightarrow>
     (\<forall>msg fd s s1. so_Sendmsg L a msg (so_Rights L [fd]) s = (None, s1) \<longrightarrow>
        (\<exists>oob m s2. so_Recvmsg L b MaxNameLen (so_CmsgSpace L 4) s1 = (Inr (take MaxNameLen msg, oob), s2) \<and>
           so_Size L oob = so_CmsgSpace L 4 \<and> so_ParseControl L oob = Inr [m] \<and> so_ParseRights L m = Inr [dup fd]))"

lemma fd_passed:
  assumes "deliversRights L a b dup" and "SendFd L a name fd s = (None, s1)"
  shows "fst (RecvFd L b s1) = Inr \<lparr>of_Fd = dup fd, of_Name = name\<rparr>"
proof -
  have n: "length name < MaxNameLen" and "so_Sendmsg L a name (so_Rights L [fd]) s = (None, s1)"
    using assms(2) by (auto simp: SendFd_def SendFds_def split: if_splits prod.splits)
  then obtain oob m s2 where r: "so_Recvmsg L b MaxNameLen (so_CmsgSpace L 4) s1 = (Inr (take MaxNameLen name, oob), s2)"
      "so_Size L oob = so_CmsgSpace L 4" "so_ParseControl L oob = Inr [m]" "so_ParseRights L m = Inr [dup fd]"
    using assms(1) unfolding deliversRights_def by blast
  then show ?thesis using n by (simp add: RecvFd_def parseOneFd_def)
qed

lemma RecvFd_name: "fst (RecvFd L b s) = Inr f \<Longrightarrow> length (of_Name f) < MaxNameLen"
  by (auto simp: RecvFd_def andThen_Inr_iff split: prod.splits sum.splits if_splits)

subsection \<open>A path through its descriptor\<close>

text \<open>
  \<open>sj\<close> is \<open>securejoin.SecureJoin\<close>, \<open>pf_Fn\<close> the closure; an error of it is returned. The deferred close comes
  last on every way out.
\<close>

record 's procfd_kernel =
  pf_Open :: "string \<Rightarrow> 's \<Rightarrow> (string + int) \<times> 's"
  pf_Readlink :: "string \<Rightarrow> 's \<Rightarrow> (string + string) \<times> 's"
  pf_Fn :: "string \<Rightarrow> 's \<Rightarrow> string option \<times> 's"
  pf_Close :: "int \<Rightarrow> 's \<Rightarrow> 's"

datatype procfd_error = ResolveFailed string | OpenPathFailed string | VerifyFailed string | MaliciousPath string | ClosureFailed string

definition procfdPath :: "int \<Rightarrow> string" where "procfdPath fd = ''/proc/self/fd/'' @ Itoa fd"

definition WithProcfd ::
    "'s procfd_kernel \<Rightarrow> (string \<Rightarrow> string \<Rightarrow> string + string) \<Rightarrow> string \<Rightarrow> string \<Rightarrow> 's \<Rightarrow> procfd_error option \<times> 's" where
  "WithProcfd K sj root unsafePath s =
     (case sj root (stripRoot root unsafePath) of
        Inl err \<Rightarrow> (Some (ResolveFailed err), s)
      | Inr path \<Rightarrow>
          (case pf_Open K path s of
             (Inl err, s1) \<Rightarrow> (Some (OpenPathFailed err), s1)
           | (Inr fh, s1) \<Rightarrow>
               (let procfd = procfdPath fh;
                    res = (case pf_Readlink K procfd s1 of
                             (Inl err, s2) \<Rightarrow> (Some (VerifyFailed err), s2)
                           | (Inr realpath, s2) \<Rightarrow>
                               if realpath \<noteq> path then (Some (MaliciousPath realpath), s2)
                               else (case pf_Fn K procfd s2 of (r, s3) \<Rightarrow> (map_option ClosureFailed r, s3)))
                in (fst res, pf_Close K fh (snd res)))))"

text \<open>
  The closure is run only with the link of a descriptor that was opened on the resolved path and
  whose link was read to be that path: a property that it alone can break is kept in all other runs.
\<close>

lemma WithProcfd_guarded:
  assumes "WithProcfd K sj root unsafePath s = (r, s')" and "P s"
    and "\<And>path t. P t \<Longrightarrow> P (snd (pf_Open K path t))" and "\<And>l t. P t \<Longrightarrow> P (snd (pf_Readlink K l t))"
    and "\<And>fd t. P t \<Longrightarrow> P (pf_Close K fd t)"
  shows "P s' \<or> (\<exists>path fh t. sj root (stripRoot root unsafePath) = Inr path \<and>
      fst (pf_Open K path s) = Inr fh \<and> fst (pf_Readlink K (procfdPath fh) t) = Inr path)"
  using assms(1,2) assms(3) [of s] assms(4,5)
  by (auto simp: WithProcfd_def Let_def split: sum.splits prod.splits if_splits) (metis fst_conv snd_conv)+

end
