(* ===== verification/ProcAttrs.thy ===== *)
theory ProcAttrs imports Descriptors begin

text \<open>
  Attributes of the process: those of prctl(2) and the replacement of the program (system/linux.go,
  system/syscall_linux_64.go), and the AppArmor profile of the next program
  (apparmor/apparmor_linux.go).
\<close>

subsection \<open>prctl\<close>

datatype prctl_op =
    PR_SET_PDEATHSIG u64 | PR_GET_PDEATHSIG | PR_SET_KEEPCAPS u64 | PR_SET_CHILD_SUBREAPER u64 | PR_GET_CHILD_SUBREAPER

text \<open>The answer is what a get leaves in the variable; a set answers 0.\<close>

type_synonym 's prctl = "prctl_op \<Rightarrow> 's \<Rightarrow> (sys_error + i64) \<times> 's"

definition prctlSet :: "'s prctl \<Rightarrow> prctl_op \<Rightarrow> 's \<Rightarrow> sys_error option \<times> 's" where
  "prctlSet prctl p s = (case prctl p s of (Inl err, s1) \<Rightarrow> (Some err, s1) | (Inr x, s1) \<Rightarrow> (None, s1))"

definition SetParentDeathSignal :: "'s prctl \<Rightarrow> u64 \<Rightarrow> 's \<Rightarrow> sys_error option \<times> 's" where
  "SetParentDeathSignal prctl sig = prctlSet prctl (PR_SET_PDEATHSIG sig)"

definition GetParentDeathSignal :: "'s prctl \<Rightarrow> 's \<Rightarrow> (sys_error + i64) \<times> 's" where
  "GetParentDeathSignal prctl = prctl PR_GET_PDEATHSIG"

definition SetKeepCaps :: "'s prctl \<Rightarrow> 's \<Rightarrow> sys_error option \<times> 's" where
  "SetKeepCaps prctl = prctlSet prctl (PR_SET_KEEPCAPS 1)"

definition ClearKeepCaps :: "'s prctl \<Rightarrow> 's \<Rightarrow> sys_error option \<times> 's" where
  "ClearKeepCaps prctl = prctlSet prctl (PR_SET_KEEPCAPS 0)"

definition SetSubreaper :: "'s prctl \<Rightarrow> i64 \<Rightarrow> 's \<Rightarrow> sys_error option \<times> 's" where
  "SetSubreaper prctl i = prctlSet prctl (PR_SET_CHILD_SUBREAPER i)"

definition GetSubreaper :: "'s prctl \<Rightarrow> 's \<Rightarrow> (sys_error + i64) \<times> 's" where
  "GetSubreaper prctl = prctl PR_GET_CHILD_SUBREAPER"

text \<open>\<open>ParentDeathSignal.Set\<close> and \<open>ParentDeathSignal.Restore\<close>.\<close>

definition pdeathSet :: "'s prctl \<Rightarrow> i64 \<Rightarrow> 's \<Rightarrow> sys_error option \<times> 's" where
  "pdeathSet prctl p = SetParentDeathSignal prctl p"

definition pdeathRestore :: "'s prctl \<Rightarrow> i64 \<Rightarrow> 's \<Rightarrow> sys_error option \<times> 's" where
  "pdeathRestore prctl p s =
     (if p = 0 then (None, s)
      else
        (case GetParentDeathSignal prctl s of
           (Inl err, s1) \<Rightarrow> (Some err, s1)
         | (Inr current, s1) \<Rightarrow> if p = current then (None, s1) else pdeathSet prctl p s1))"

text \<open>A process that keeps its attributes.\<close>

record proc_attrs =
  at_Pdeath :: u64
  at_KeepCaps :: u64
  at_Subreaper :: u64

fun attrPrctl :: "proc_attrs prctl" where
  "attrPrctl (PR_SET_PDEATHSIG x) s = (Inr 0, s\<lparr>at_Pdeath := x\<rparr>)"
| "attrPrctl PR_GET_PDEATHSIG s = (Inr (at_Pdeath s), s)"
| "attrPrctl (PR_SET_KEEPCAPS x) s = (Inr 0, s\<lparr>at_KeepCaps := x\<rparr>)"
| "attrPrctl (PR_SET_CHILD_SUBREAPER x) s = (Inr 0, s\<lparr>at_Subreaper := x\<rparr>)"
| "attrPrctl PR_GET_CHILD_SUBREAPER s = (Inr (at_Subreaper s), s)"

lemma pdeathRestore_exact:
  "pdeathRestore attrPrctl p s = (None, if p = 0 then s else s\<lparr>at_Pdeath := p\<rparr>)"
  by (simp add: pdeathRestore_def GetParentDeathSignal_def pdeathSet_def SetParentDeathSignal_def prctlSet_def)

subsection \<open>exec\<close>

text \<open>
  The errors of successive calls of execve; a call that succeeds does not return, so there is always
  an error. \<open>Exec\<close> goes on while it is interrupted: None if it is for ever.
\<close>

type_synonym exec_outcomes = "nat \<Rightarrow> sys_error"

partial_function (option) execFrom :: "exec_outcomes \<Rightarrow> nat \<Rightarrow> sys_error option" where
  "execFrom ex i = (if ex i = EINTR then execFrom ex (Suc i) else Some (ex i))"

definition Exec :: "exec_outcomes \<Rightarrow> string \<Rightarrow> file_error option" where
  "Exec ex cmd = map_option (PathError ''exec'' cmd) (execFrom ex 0)"

definition Execv :: "(string \<Rightarrow> file_error + string) \<Rightarrow> (string \<Rightarrow> exec_outcomes) \<Rightarrow> string \<Rightarrow> file_error option" where
  "Execv lookPath ex cmd = (case lookPath cmd of Inl err \<Rightarrow> Some err | Inr name \<Rightarrow> Exec (ex name) name)"

lemma execFrom_skips: "(\<And>j. j < n \<Longrightarrow> ex (i + j) = EINTR) \<Longrightarrow> execFrom ex i = execFrom ex (i + n)"
proof (induction n arbitrary: i)
  case (Suc n)
  have "execFrom ex i = execFrom ex (Suc i)" using Suc.prems [of 0] by (subst execFrom.simps) simp
  also have "\<dots> = execFrom ex (Suc i + n)" using Suc.IH [of "Suc i"] Suc.prems [of "Suc j" for j] by simp
  finally show ?case by simp
qed simp

lemma Exec_returns:
  assumes "ex n \<noteq> EINTR" and "\<And>j. j < n \<Longrightarrow> ex j = EINTR"
  shows "Exec ex cmd = Some (PathError ''exec'' cmd (ex n))"
proof -
  have "execFrom ex 0 = execFrom ex n" using execFrom_skips [of n ex 0] assms(2) by simp
  also have "\<dots> = Some (ex n)" using assms(1) by (subst execFrom.simps) simp
  finally show ?thesis by (simp add: Exec_def)
qed

subsection \<open>Setuid and Setgid\<close>

text \<open>\<open>raw\<close> is the errno of the system call, 0 for none.\<close>

definition rawError :: "u64 \<Rightarrow> u64 option" where "rawError e1 = (if e1 \<noteq> 0 then Some e1 else None)"

definition Setuid :: "(u64 \<Rightarrow> 's \<Rightarrow> u64 \<times> 's) \<Rightarrow> i64 \<Rightarrow> 's \<Rightarrow> u64 option \<times> 's" where
  "Setuid rawSetuid uid s = (case rawSetuid uid s of (e1, s1) \<Rightarrow> (rawError e1, s1))"

definition Setgid :: "(u64 \<Rightarrow> 's \<Rightarrow> u64 \<times> 's) \<Rightarrow> i64 \<Rightarrow> 's \<Rightarrow> u64 option \<times> 's" where
  "Setgid rawSetgid gid s = (case rawSetgid gid s of (e1, s1) \<Rightarrow> (rawError e1, s1))"

subsection \<open>AppArmor\<close>

record aa_state =
  checkAppArmor :: bool
  appArmorEnabled :: bool

text \<open>\<open>exists\<close> and \<open>readFile\<close> are those of the host.\<close>

definition aaIsEnabled :: "(string \<Rightarrow> bool) \<Rightarrow> (string \<Rightarrow> sys_error + string) \<Rightarrow> aa_state \<Rightarrow> bool \<times> aa_state" where
  "aaIsEnabled statOk readFile a =
     (let a' = (if checkAppArmor a then a
                else if statOk ''/sys/kernel/security/apparmor'' then
                  a\<lparr>checkAppArmor := True,
                    appArmorEnabled := (case readFile ''/sys/module/apparmor/parameters/enabled'' of
                                          Inl err \<Rightarrow> False
                                        | Inr buf \<Rightarrow> 1 < length buf \<and> hd buf = CHR ''Y'')\<rparr>
                else a\<lparr>checkAppArmor := True\<rparr>)
      in (appArmorEnabled a', a'))"

interpretation aa: computed_once "\<lambda>(st, rf). aaIsEnabled st rf" checkAppArmor appArmorEnabled
  by unfold_locales (auto simp: aaIsEnabled_def Let_def split: sum.splits)

text \<open>The host is looked at by the first of several calls only.\<close>

lemma aa_first_decides:
  "callAll (\<lambda>(st, rf). aaIsEnabled st rf) ((st, rf) # hosts) a =
     replicate (Suc (length hosts)) (fst (aaIsEnabled st rf a))"
  using aa.first_decides [of "(st, rf)" hosts a] by simp

record 's aa_kernel =
  aa_Stat :: "string \<Rightarrow> 's \<Rightarrow> sys_error option"
  aa_OpenWrite :: "string \<Rightarrow> 's \<Rightarrow> (sys_error + int) \<times> 's"
  aa_Fstatfs :: "int \<Rightarrow> 's \<Rightarrow> sys_error + fs_magic"
  aa_Write :: "int \<Rightarrow> string \<Rightarrow> 's \<Rightarrow> sys_error option \<times> 's"
  aa_Close :: "int \<Rightarrow> 's \<Rightarrow> 's"

definition attrPath :: "'s aa_kernel \<Rightarrow> string \<Rightarrow> 's \<Rightarrow> string" where
  "attrPath K attr s =
     (if aa_Stat K (''/proc/self/attr/apparmor/'' @ attr) s = Some (OtherErrno ''ENOENT'')
      then ''/proc/self/attr/'' @ attr else ''/proc/self/attr/apparmor/'' @ attr)"

definition setProcAttr :: "'s aa_kernel \<Rightarrow> string \<Rightarrow> string \<Rightarrow> 's \<Rightarrow> proc_error option \<times> 's" where
  "setProcAttr K attr v s =
     (case aa_OpenWrite K (attrPath K attr s) s of
        (Inl err, s1) \<Rightarrow> (Some (FileSys err), s1)
      | (Inr f, s1) \<Rightarrow>
          (let res = (case EnsureProcHandle (aa_Fstatfs K) f s1 of
                        Some err \<Rightarrow> (Some err, s1)
                      | None \<Rightarrow> (case aa_Write K f v s1 of (r, s2) \<Rightarrow> (map_option FileSys r, s2)))
           in (fst res, aa_Close K f (snd res))))"

datatype aa_error = ProfileFailed proc_error

definition changeOnExec :: "'s aa_kernel \<Rightarrow> string \<Rightarrow> 's \<Rightarrow> aa_error option \<times> 's" where
  "changeOnExec K name s =
     (case setProcAttr K ''exec'' (''exec '' @ name) s of (r, s1) \<Rightarrow> (map_option ProfileFailed r, s1))"

definition applyProfile :: "'s aa_kernel \<Rightarrow> string \<Rightarrow> 's \<Rightarrow> aa_error option \<times> 's" where
  "applyProfile K name s = (if name = [] then (None, s) else changeOnExec K name s)"

text \<open>
  When a profile is reported as set, its name was written to a file that was found to be on procfs;
  a file elsewhere is not written.
\<close>

lemma applyProfile_written:
  assumes "applyProfile K name s = (None, s')" and "name \<noteq> []"
  shows "\<exists>f s1. fst (aa_OpenWrite K (attrPath K ''exec'' s) s) = Inr f \<and> s1 = snd (aa_OpenWrite K (attrPath K ''exec'' s) s) \<and>
     aa_Fstatfs K f s1 = Inr PROC_SUPER_MAGIC \<and> fst (aa_Write K f (''exec '' @ name) s1) = None \<and>
     s' = aa_Close K f (snd (aa_Write K f (''exec '' @ name) s1))"
  using assms
  by (auto simp: applyProfile_def changeOnExec_def setProcAttr_def EnsureProcHandle_def Let_def
      split: prod.splits sum.splits if_splits)

lemma applyProfile_not_procfs:
  assumes "aa_OpenWrite K (attrPath K ''exec'' s) s = (Inr f, s1)" and "aa_Fstatfs K f s1 \<noteq> Inr PROC_SUPER_MAGIC"
    and "name \<noteq> []"
  shows "snd (applyProfile K name s) = aa_Close K f s1 \<and> fst (applyProfile K name s) \<noteq> None"
  using assms
  by (auto simp: applyProfile_def changeOnExec_def setProcAttr_def EnsureProcHandle_def Let_def split: sum.splits)

end
