(* ===== verification/Spec2Isabelle.thy ===== *)
theory Spec2Isabelle imports User DeviceFilter ValidateProps PatchBpfProps
  ManagerV1Props CpusetProps FsStats SystemdUnitsProps SystemdV1Props Fs2Props Fs2Stats SystemdV2Props
  IntelRdtProps Ebpf ProcStat SeccompLoadProps RootFs SpecExample Managers HostDevices UsernsMaps
  CgroupFiles HookRun ProcAttrs begin

text \<open>
  A verification development for libcontainer, the Go library below a container runtime that turns
  an OCI specification into a container configuration, checks it and applies it with cgroups,
  namespaces, seccomp and device filters. All Go packages of the repository are modelled: how users
  and ids are resolved, which devices a container may use, which paths and cgroups are touched, how a
  specification becomes a validated configuration, and how the managers of cgroup v1 and v2, with and
  without systemd, put it into force. Source paths are relative to src/.

  \<^bold>\<open>The parts and how they interact.\<close>
  \<^item> specconv/spec_linux.go reads a specification. It uses configs/ (the data of a configuration),
    devices/ (rules, permissions, the devices of the host), cgroups/utils.go (conversions),
    seccomp/config.go (names), utils/utils.go (paths) and userns/ (mappings of a namespace that is
    joined). specconv/example.go makes an example and its variant for users without privileges.
  \<^item> configs/validate/ checks the configuration before it is used, with configs/namespaces_linux.go,
    configs/config_linux.go and cgroups/utils.go. configs/config.go also runs its hooks.
  \<^item> cgroups/manager/new.go chooses one of four managers. cgroups/fs/ is that of cgroup v1: it finds the
    directories of a container with cgroups/v1_utils.go and writes the resources with one controller
    per subsystem. cgroups/fs2/ is that of cgroup v2, with one directory. The two of cgroups/systemd/
    start a unit over D-Bus and leave the files to the other two.
  \<^item> Device rules go to cgroups/devices/devices_emulator.go, which keeps the state of a cgroup v1
    devices cgroup, and to cgroups/ebpf/, which runs the emulator, writes an eBPF program for cgroup
    v2 and replaces the program of a group.
  \<^item> cgroups/file.go and cgroups/utils.go open cgroup files for all managers, join processes to
    cgroups and remove them; cgroups/fscommon/ reads the files. intelrdt/ does the same for groups of
    the resctrl file system.
  \<^item> seccomp/seccomp_linux.go builds a filter with libseccomp, and seccomp/patchbpf/ puts the ENOSYS
    stub in front of it and loads it.
  \<^item> user/ resolves the user of a process in the files of the container or of the host; utils/ and
    system/ hold what works on paths, descriptors and the process; apparmor/ sets a profile.

  \<^bold>\<open>Theories.\<close> First what all others use.
  \<^descr> Prelude: fallible results (\<open>'e + 'a\<close>), loops that stop at the first error, words, lemma
    collections. Every Go function with an error result returns \<open>Inl\<close> an error or \<open>Inr\<close> a value.
  \<^descr> Once: values computed by the first call only; the locale \<open>computed_once\<close> is interpreted on every
    use of \<open>sync.Once\<close> that gives such a value.
  \<^descr> Gostring, Bufio: strings and numbers of the Go library on byte strings, bufio.Scanner with its
    token limit and bufio.Reader.ReadLine with its 4096 byte buffer, read errors included.

  Users and processes.
  \<^descr> User: user/user.go. \<open>parseLine\<close>, the four record parsers, \<open>ParseGroupFilter\<close> on the
    buffered reader, \<open>GetExecUser\<close> and \<open>GetAdditionalGroups\<close>. The locale \<open>record_loop\<close> holds the
    loop all parsers share; it is interpreted for passwd, group, subid and idmap lines. C4, C6.
  \<^descr> Lookups: user/lookup_unix.go. UsernsMaps: userns/, reading the mappings of a namespace from the
    files of a process or through a child that joins it. C1.
  \<^descr> ProcStat: the parser of /proc/<pid>/stat. C23. ProcAttrs: prctl, exec, AppArmor.
  \<^descr> Paths: filepath.Clean and Join, \<open>CleanPath\<close>, \<open>stripRoot\<close>, labels, exit status. RootFs:
    \<open>MkdirAllInRoot\<close> among processes that change the directories. C32. Descriptors: closing ranges of
    descriptors, passing them over sockets, paths through /proc/self/fd. C36.

  Configurations.
  \<^descr> Configs, ConfigProps: the records of configs/, the namespace set (locale \<open>namespace_set\<close>), id
    mappings on 64-bit words, hooks and their JSON form. C28. HookRun: a hook with its process,
    goroutine and timer as a step relation. C2.
  \<^descr> SeccompConfig, MountOptions: the name tables and \<open>SetupSeccomp\<close>, the option tables and
    \<open>parseMountOptions\<close>.
  \<^descr> Specconv, SpecconvProps: \<open>CreateLibcontainerConfig\<close> and everything it calls, with the device
    objects in a store because the code shares and writes to them. SpecExample: the example
    specification and the configurations made of its rootless variant. C34.
  \<^descr> Validate, ValidateProps: \<open>Validate\<close> with every check, the sysctl keys and the rootless checks,
    and what it has to do with conversion. C38 to C40.

  Devices and filters.
  \<^descr> Devices, DevicesEmulator: devices/device.go and the emulator. The locale \<open>perm_algebra\<close> gives
    the laws of permission strings, interpreted on the code's union, difference and intersection.
    A reader and a printer of devices.list, \<open>Apply\<close> and \<open>Transition\<close>. C9 to C12. HostDevices: the walk
    through /dev.
  \<^descr> DeviceFilter: the generated program as a list of the calls the code makes to build
    instructions, with an interpreter of the instructions used. C14. Ebpf: loading it and taking away
    the programs it replaces. C5.
  \<^descr> PatchBpf, PatchBpfProps: seccomp/patchbpf/enosys_linux.go, the program put in front of a seccomp
    filter, with an interpreter of the classic BPF instructions it uses. C20, C21. SeccompLoad,
    SeccompLoadProps: building the filter and loading both. C31.

  Cgroups.
  \<^descr> Cgutils: cgroups/utils.go. A cgroup directory is a tree; what the kernel answers to each write is
    a parameter. CgroupFiles: cgroups/file.go with the handle of the cgroup root, and the probes. C18.
  \<^descr> Fscommon: the operations on cgroup files, in the monad \<open>io\<close> of steps that change the kernel and
    may fail; the record \<open>world\<close> says how the kernel of type \<open>'k\<close> answers opens, writes and mkdir.
    The readers of cgroups/fscommon/utils.go and the rdma files.
  \<^descr> Controllers, ControllersProps: \<open>Set\<close> and \<open>Apply\<close> of every controller of cgroups/fs/ and \<open>GetState\<close>
    of the freezer, each as its sequence of reads and writes. The theorems put them on kernels that
    check limits as Linux does. C15, C19, C26.
  \<^descr> DevicesSetProps: the devices controller on a kernel that keeps the list. C33.
  \<^descr> CpusetProps: cpusets are populated from the top down. C13, C24.
  \<^descr> V1Utils: mounts and own cgroups of cgroups/v1_utils.go. ManagerV1: paths and manager of
    cgroups/fs/fs.go and paths.go. ManagerV1Props: the locale \<open>subsystem_set\<close> says what a manager
    needs of a controller; it is interpreted on all of cgroup v1 and, in Fs2Props, on those of v2.
    C17, C30.
  \<^descr> FsStats: the statistics of cgroups/fs/, from the lines of the files to the records of
    cgroups/stats.go. Fs2Stats: the same for cgroups/fs2/.
  \<^descr> Fs2, Fs2Props: the manager of cgroup v2, from making the directory to freezing. C7, C16, C37.
  \<^descr> SystemdUnits, SystemdUnitsProps: from resources to the properties of a unit, slices, CPU lists,
    device lists. C8, C27, C29.
  \<^descr> SystemdV1, SystemdV1Props: the systemd manager of cgroup v1, which freezes around a change of the
    device rules, and the connection that is made again. C3. SystemdV2, SystemdV2Props: that of cgroup
    v2, and the choice of a manager. C35.
  \<^descr> Managers: removing, listing and naming for all four managers. C25.
  \<^descr> IntelRdt, IntelRdtProps: intelrdt/. C22.

  \<^bold>\<open>What the lemmas show.\<close> Parsers read back what printers write and report the first bad line. The
  resolution of a user is characterised case by case. \<open>Apply\<close> refines an abstract devices cgroup and
  keeps its invariant; the rules of \<open>Transition\<close> bring one state to the other and name exactly what
  changes. The device filter halts on every request and decides it as the emulator does, and replacing
  it never leaves a group without one. Cleaned paths stay below their root, directories are made and
  cgroup files opened only below theirs, and no call leaves a descriptor open that it does not hand
  out. Removal of cgroups removes all or reports what is left. Id translation is injective for disjoint
  host ranges. Conversion keeps the namespaces of the specification, each once, and what it makes
  passes the checks it answers for; an accepted configuration acts on namespaces of its own only. A
  hook that has returned has left no process and no goroutine behind. The
  controllers reach the requested state in whichever order the kernel accepts the writes, freeze all
  or nothing, touch only their own directories and drop no limit silently. Several lemmas state
  behaviour that a comment or a caller does not expect, such as \<open>additional_groups_repeated_name\<close>,
  \<open>deny_list_partial_access\<close>, \<open>systemd_sec_panics\<close>, \<open>comma_option_kept\<close>, \<open>held_pipe_blocks\<close> and
  \<open>fast_path_of_other_files\<close>.

  \<^bold>\<open>Bounds and fuel.\<close> Integers have the width of the code; Go's int is 64 bits. The eBPF interpreter
  has the length of the program as fuel, enough because jumps only go forward; the classic BPF one drops
  what it has passed and needs none. \<open>RemovePaths\<close> tries five rounds and \<open>WriteCgroupProc\<close> five writes,
  as the code does, with delays left out. Both freezers try 1000 times, and looking for attached
  programs ten times with 64 places at first. Some loops end only if the kernel lets them, \<open>GetState\<close>,
  \<open>cpusetEnsureParent\<close> and the calls that are repeated while interrupted: they are partial, and C15,
  C24 and \<open>Exec_returns\<close> say when they return. All other recursion is structural or has a measure.

  \<^bold>\<open>Parameters.\<close> Contents of files and errors of reading them, the working directory, the answers of
  system calls, D-Bus variants and floating point products, the JSON encoder, and the host features
  that validation asks for. What a component asks of its surroundings is a record of functions, with a
  state of any type where it can change: \<open>world\<close> and \<open>kernel2\<close> (cgroup files), \<open>resctrl\<close>, \<open>bpf\<close>,
  \<open>dir_kernel\<close> and \<open>file_kernel\<close> (opening), \<open>fd_kernel\<close> and \<open>sock_lib\<close> (descriptors), \<open>bus\<close>, \<open>sd2\<close>,
  \<open>dbus_lib\<close> and \<open>host\<close> (systemd), \<open>scmp_lib\<close> (libseccomp), \<open>cat_run\<close> (the child that joins a user
  namespace, which is C code). A theorem about a kernel names what it assumes of it. Go maps that are
  iterated are lists in the order of iteration, so a theorem about every list holds for every order.

  \<^bold>\<open>Not modelled.\<close> Logging; the text of errors (each error is a constructor with the values it
  prints); Unicode white space; delays; mutexes, as one operation of a manager runs at a time. Of the
  functions: the encoder in WriteJSON, the probe of the byte order, Setctty and
  ClearRlimitNofileCache, which are one call each into the library, the version of libseccomp, the
  stubs for other platforms, and the entry points of the fuzzers.
\<close>

end
